(* ===== verification/Sol_Prelude.thy ===== *)
theory Sol_Prelude
  imports Main "HOL-Library.Word" "HOL-Library.Monad_Syntax"
begin

text \<open>
  What every component shares: the machine integers at their C width, pointers into the
  received message, the C calling conventions (a status code and a global state, a null
  write), the collections of facts the components feed, and generic lemmas on lists and
  words.
\<close>

unbundle bit_operations_syntax

section \<open>Machine integers and pointers\<close>

type_synonym u8 = "8 word"
type_synonym u16 = "16 word"
type_synonym u32 = "32 word"
type_synonym u64 = "64 word"
type_synonym i64 = "64 word"

text \<open>
  \<open>i64\<close> holds the two's complement bits of an \<open>int64_t\<close>; \<open>sint\<close> reads its value, so that
  the cast between \<open>uint64_t\<close> and \<open>int64_t\<close> is the identity, as it is in the code.

  A pointer into the message buffer is its address (an offset from the start of the
  buffer) and the bytes it gives access to: exactly 32 for a \<open>const Pubkey *\<close> or a
  \<open>const Hash *\<close>, everything up to the end of the buffer for an array pointer. Two
  pointers are equal in C when their addresses are; the code compares the contents with
  \<open>memcmp\<close>, that is \<open>bytes\<close>. \<open>Frame_ptr\<close> is a pointer to bytes held in a local variable of
  \<open>process_message_body\<close>: it may be used until that function returns.
\<close>

datatype byte_ptr = Ptr (addr: nat) (bytes: "u8 list") | Frame_ptr (bytes: "u8 list")
  where "addr (Frame_ptr bs) = 0"

definition PUBKEY_SIZE :: nat where "PUBKEY_SIZE = 32"
definition HASH_SIZE :: nat where "HASH_SIZE = 32"

definition UINT32_MAX :: nat where "UINT32_MAX = 4294967295"
definition UINT64_MAX :: nat where "UINT64_MAX = 18446744073709551615"

section \<open>Status codes, global state and null writes\<close>

text \<open>
  A C function that returns an \<open>int\<close> and works on a global state \<open>'s\<close> is a function
  into \<open>'s c_result\<close>: \<open>Some (rc, s)\<close> is a return with status \<open>rc\<close> and the state as the
  call left it (also when \<open>rc\<close> is an error), \<open>None\<close> is a write through a null
  pointer, after which C promises nothing. \<open>bail_if\<close> is the macro \<open>BAIL_IF\<close> of
  \<open>libsol/util.h\<close>: a non-zero status is returned at once.
\<close>

type_synonym 's c_result = "(int \<times> 's) option"

definition bail_if :: "'s c_result \<Rightarrow> ('s \<Rightarrow> 's c_result) \<Rightarrow> 's c_result" where
  "bail_if r k = (case r of None \<Rightarrow> None
     | Some (rc, s) \<Rightarrow> if rc \<noteq> 0 then Some (rc, s) else k s)"

definition guard :: "bool \<Rightarrow> unit option" where
  "guard b = (if b then Some () else None)"

named_theorems wire "definitions of the byte-level parsers"
named_theorems screen "definitions of the operations that fill the screen"

lemma guard_simps [simp]: "guard True = Some ()" "guard False = None"
  by (simp_all add: guard_def)

lemma guard_eq_Some [simp]: "guard b = Some u \<longleftrightarrow> b"
  by (simp add: guard_def)

lemma bail_if_simps [simp]:
  "bail_if None k = None"
  "bail_if (Some (0, s)) k = k s"
  "rc \<noteq> 0 \<Longrightarrow> bail_if (Some (rc, s)) k = Some (rc, s)"
  by (simp_all add: bail_if_def)

section \<open>Lists\<close>

lemma take_append_exact: "n = length xs \<Longrightarrow> take n (xs @ ys) = xs"
  by simp

lemma length_2_conv: "length xs = 2 \<longleftrightarrow> (\<exists>a b. xs = [a, b])"
  by (auto simp: numeral_2_eq_2 length_Suc_conv)

section \<open>Words\<close>

text \<open>A word split into two halves and joined again, as the little-endian parsers do.\<close>

lemma join_or:
  fixes a b :: "'a::len word"
  assumes "2 * LENGTH('a) = LENGTH('b::len)"
  shows "(ucast a :: 'b word) + push_bit LENGTH('a) (ucast b) = ucast a OR push_bit LENGTH('a) (ucast b)"
  by (rule disjunctive_add_eq_or) (rule bit_word_eqI, auto simp: bit_simps dest: bit_imp_le_length)

lemma join_split:
  fixes v :: "'b::len word"
  assumes "2 * LENGTH('a::len) = LENGTH('b)"
  shows "(ucast (ucast v :: 'a word) :: 'b word)
     + push_bit LENGTH('a) (ucast (ucast (drop_bit LENGTH('a) v) :: 'a word)) = v"
  unfolding join_or [OF assms]
  by (rule bit_word_eqI) (use assms in \<open>auto simp: bit_simps dest: bit_imp_le_length\<close>)

lemma split_join:
  fixes a b :: "'a::len word"
  assumes "2 * LENGTH('a) = LENGTH('b::len)"
  shows "ucast ((ucast a :: 'b word) + push_bit LENGTH('a) (ucast b)) = a"
    and "ucast (drop_bit LENGTH('a) ((ucast a :: 'b word) + push_bit LENGTH('a) (ucast b))) = b"
  unfolding join_or [OF assms]
  by (rule bit_word_eqI, use assms in \<open>auto simp: bit_simps dest: bit_imp_le_length\<close>)+

lemmas word_join_split = join_split [where 'a = 8 and 'b = 16, simplified]
  join_split [where 'a = 16 and 'b = 32, simplified] join_split [where 'a = 32 and 'b = 64, simplified]
lemmas word_split_join = split_join [where 'a = 8 and 'b = 16, simplified]
  split_join [where 'a = 16 and 'b = 32, simplified] split_join [where 'a = 32 and 'b = 64, simplified]

lemma unat_u8_bound: "unat (x :: u8) < 256"
  using unsigned_less [of x, where 'a = nat] by simp

lemma unat_u64_bound: "unat (x :: u64) < 18446744073709551616"
  using unsigned_less [of x, where 'a = nat] by simp

lemma and_7f: "(x :: u8) AND 0x7f = take_bit 7 x"
  by (simp add: take_bit_eq_mask mask_eq_exp_minus_1)

lemma and_80: "(x :: u8) AND 0x80 = 0 \<longleftrightarrow> unat x < 128"
proof -
  have "(x AND 0x80 = 0) = (\<not> bit x 7)"
    using and_exp_eq_0_iff_not_bit [of x 7] by simp
  also have "\<dots> = (unat x < 128)"
  proof -
    have "bit x 7 = odd (unat x div 128)"
      using bit_unsigned_iff [where 'a = nat and w = x and n = 7] by (simp add: bit_iff_odd)
    moreover have "unat x < 256" using unsigned_less [of x, where 'a = nat] by simp
    ultimately show ?thesis by (auto simp: odd_iff_mod_2_eq_one) 
  qed
  finally show ?thesis .
qed

lemma unat_take_bit_7: "unat (take_bit 7 (x :: u8)) = unat x mod 128"
  using unsigned_take_bit_eq [of 7 x, where 'a = nat] by (simp only: take_bit_eq_mod) simp

lemma unat_or_push:
  assumes "unat (b :: u32) < 2 ^ k" and "unat (a :: u32) * 2 ^ k + unat b < 2 ^ 32"
  shows "unat (push_bit k a OR b) = unat a * 2 ^ k + unat b"
proof -
  have "push_bit k a OR b = push_bit k a + b"
  proof (rule disjunctive_add_eq_or [symmetric], rule bit_word_eqI)
    fix n assume "n < LENGTH(32)"
    have "take_bit k (unat b) = unat b" using assms(1) by (simp add: take_bit_nat_eq_self)
    then have "unat (take_bit k b) = unat b" by (simp only: unsigned_take_bit_eq)
    then have "b = take_bit k b" by (simp only: word_unat_eq_iff)
    then have "bit b n \<Longrightarrow> n < k" by (metis bit_take_bit_iff)
    then show "bit (push_bit k a AND b) n = bit 0 n" by (auto simp: bit_simps)
  qed
  moreover have "unat (push_bit k a) = unat a * 2 ^ k"
    using assms(2) unsigned_push_bit_eq [of k a, where 'a = nat]
    by (simp add: push_bit_eq_mult take_bit_nat_eq_self)
  ultimately show ?thesis using assms(2) by (simp add: unat_word_ariths)
qed
lemma unat_ucast_u8_u32: "unat (ucast (x :: u8) :: u32) = unat x"
proof -
  have "unat x < 2 ^ 32" using unsigned_less [of x, where 'a = nat] by simp
  then show ?thesis by (simp add: unsigned_ucast_eq take_bit_nat_eq_self)
qed

end
