(* ===== verification/Sol_Parser.thy ===== *)
theory Sol_Parser
  imports Sol_Prelude
begin

text \<open>
  The byte-level parser of \<open>libsol/parser.c\<close> and \<open>libsol/include/sol/parser.h\<close>: the cursor, the
  little-endian integers, the compact lengths, the message header, the off-chain message
  header and the instruction frame. First the code, one definition per function; then the
  contract of a reader and of a reader with an encoder (two locales) and their
  interpretations; then what the headers guarantee.
\<close>

section \<open>The cursor\<close>

text \<open>
  \<open>Parser\<close> is the pointer \<open>buffer\<close> and the number of bytes left. The model keeps the
  address and the bytes left themselves; \<open>buffer_length\<close> is their number. A parser
  function returns \<open>None\<close> for every non-zero status: the callers only compare the status
  with zero and do not use the outputs of a failed call.
\<close>

record Parser =
  buffer_addr :: nat
  buffer :: "u8 list"

definition buffer_length :: "Parser \<Rightarrow> nat" where
  "buffer_length p = length (buffer p)"

definition check_buffer_length :: "Parser \<Rightarrow> nat \<Rightarrow> bool" where
  "check_buffer_length p num = (buffer_length p < num)"

definition advance :: "Parser \<Rightarrow> nat \<Rightarrow> Parser" where
  "advance p num = p\<lparr>buffer_addr := buffer_addr p + num, buffer := drop num (buffer p)\<rparr>"

definition parser_is_empty :: "Parser \<Rightarrow> bool" where
  "parser_is_empty p = (buffer_length p = 0)"

type_synonym 'a reader = "Parser \<Rightarrow> ('a \<times> Parser) option"

section \<open>Integers, lengths, options, strings\<close>

definition parse_u8 :: "u8 reader" where
  "parse_u8 p = do {
     guard (\<not> check_buffer_length p 1);
     Some (hd (buffer p), advance p 1) }"

definition parse_u16 :: "u16 reader" where
  "parse_u16 p = do {
     (lower, p) \<leftarrow> parse_u8 p;
     (upper, p) \<leftarrow> parse_u8 p;
     Some (ucast lower + push_bit 8 (ucast upper), p) }"

definition parse_u32 :: "u32 reader" where
  "parse_u32 p = do {
     (lower, p) \<leftarrow> parse_u16 p;
     (upper, p) \<leftarrow> parse_u16 p;
     Some (ucast lower + push_bit 16 (ucast upper), p) }"

definition parse_u64 :: "u64 reader" where
  "parse_u64 p = do {
     guard (\<not> check_buffer_length p 8);
     (lower, p) \<leftarrow> parse_u32 p;
     (upper, p) \<leftarrow> parse_u32 p;
     Some (ucast lower + push_bit 32 (ucast upper), p) }"

definition parse_i64 :: "i64 reader" where
  "parse_i64 p = parse_u64 p"

text \<open>The compact length: one to three bytes, seven bits each, least significant first.\<close>

definition parse_length :: "nat reader" where
  "parse_length p = do {
     (value_u8, p) \<leftarrow> parse_u8 p;
     let value = (ucast (value_u8 AND 0x7f) :: u32);
     if value_u8 AND 0x80 \<noteq> 0 then do {
       (value_u8, p) \<leftarrow> parse_u8 p;
       let value = push_bit 7 (ucast (value_u8 AND 0x7f)) OR value;
       if value_u8 AND 0x80 \<noteq> 0 then do {
         (value_u8, p) \<leftarrow> parse_u8 p;
         let value = push_bit 14 (ucast (value_u8 AND 0x7f)) OR value;
         Some (unat value, p) }
       else Some (unat value, p) }
     else Some (unat value, p) }"

datatype Option = OptionNone | OptionSome

definition parse_option :: "Option reader" where
  "parse_option p = do {
     (maybe_option, p) \<leftarrow> parse_u8 p;
     if maybe_option = 0 then Some (OptionNone, p)
     else if maybe_option = 1 then Some (OptionSome, p)
     else None }"

text \<open>
  A \<open>SizedString\<close> is a length and a pointer to that many bytes: the bytes. \<open>size_t\<close> has
  32 bits on the device, hence the test against \<open>SIZE_MAX\<close>.
\<close>

type_synonym SizedString = "u8 list"

definition SIZE_MAX :: nat where "SIZE_MAX = UINT32_MAX"

definition parse_sized_string :: "SizedString reader" where
  "parse_sized_string p = do {
     (string_length, p) \<leftarrow> parse_u64 p;
     guard (\<not> unat string_length > SIZE_MAX);
     let len = unat string_length;
     guard (\<not> check_buffer_length p len);
     Some (take len (buffer p), advance p len) }"

section \<open>Public keys, hashes and the message header\<close>

definition parse_pubkey :: "byte_ptr reader" where
  "parse_pubkey p = do {
     guard (\<not> check_buffer_length p PUBKEY_SIZE);
     Some (Ptr (buffer_addr p) (take PUBKEY_SIZE (buffer p)), advance p PUBKEY_SIZE) }"

record PubkeysHeader =
  num_required_signatures :: u8
  num_readonly_signed_accounts :: u8
  num_readonly_unsigned_accounts :: u8
  pubkeys_length :: nat

text \<open>
  \<open>pubkeys\<close> is the array pointer: it reaches to the end of the message, as the C pointer
  does, so that an index beyond \<open>pubkeys_length\<close> reads what follows in the message.
\<close>

record MessageHeader =
  versioned :: bool
  version :: u8
  pubkeys_header :: PubkeysHeader
  pubkeys :: byte_ptr
  blockhash :: byte_ptr
  instructions_length :: nat

definition header_pubkey :: "byte_ptr \<Rightarrow> nat \<Rightarrow> byte_ptr" where
  "header_pubkey keys i = Ptr (addr keys + PUBKEY_SIZE * i)
     (take PUBKEY_SIZE (drop (PUBKEY_SIZE * i) (bytes keys)))"

definition parse_pubkeys_header :: "PubkeysHeader reader" where
  "parse_pubkeys_header p = do {
     (n_sig, p) \<leftarrow> parse_u8 p;
     (n_ro_signed, p) \<leftarrow> parse_u8 p;
     (n_ro_unsigned, p) \<leftarrow> parse_u8 p;
     (len, p) \<leftarrow> parse_length p;
     guard (\<not> len > 65535);
     Some (\<lparr>num_required_signatures = n_sig,
            num_readonly_signed_accounts = n_ro_signed,
            num_readonly_unsigned_accounts = n_ro_unsigned,
            pubkeys_length = len\<rparr>, p) }"

definition parse_pubkeys :: "(PubkeysHeader \<times> byte_ptr) reader" where
  "parse_pubkeys p = do {
     (header, p) \<leftarrow> parse_pubkeys_header p;
     let pubkeys_size = pubkeys_length header * PUBKEY_SIZE;
     guard (\<not> check_buffer_length p pubkeys_size);
     Some ((header, Ptr (buffer_addr p) (buffer p)), advance p pubkeys_size) }"

definition parse_pubkeys_with_len :: "nat \<Rightarrow> byte_ptr reader" where
  "parse_pubkeys_with_len num_pubkeys p = do {
     let pubkeys_size = num_pubkeys * PUBKEY_SIZE;
     guard (\<not> check_buffer_length p pubkeys_size);
     Some (Ptr (buffer_addr p) (buffer p), advance p pubkeys_size) }"

definition parse_hash :: "byte_ptr reader" where
  "parse_hash p = do {
     guard (\<not> check_buffer_length p HASH_SIZE);
     Some (Ptr (buffer_addr p) (take HASH_SIZE (buffer p)), advance p HASH_SIZE) }"

definition parse_version :: "(bool \<times> u8) reader" where
  "parse_version p = do {
     guard (\<not> check_buffer_length p 1);
     let version = hd (buffer p);
     if version AND 0x80 \<noteq> 0 then Some ((True, version AND 0x7f), advance p 1)
     else Some ((False, 0), p) }"

definition parse_message_header :: "MessageHeader reader" where
  "parse_message_header p = do {
     ((is_versioned, vers), p) \<leftarrow> parse_version p;
     (ph, p) \<leftarrow> parse_pubkeys_header p;
     guard (\<not> unat (num_required_signatures ph) > pubkeys_length ph);
     guard (\<not> num_readonly_signed_accounts ph > num_required_signatures ph);
     guard (\<not> unat (num_readonly_unsigned_accounts ph)
              > pubkeys_length ph - unat (num_required_signatures ph));
     (keys, p) \<leftarrow> parse_pubkeys_with_len (pubkeys_length ph) p;
     (hash, p) \<leftarrow> parse_hash p;
     (n_ins, p) \<leftarrow> parse_length p;
     Some (\<lparr>versioned = is_versioned, version = vers, pubkeys_header = ph, pubkeys = keys,
            blockhash = hash, instructions_length = n_ins\<rparr>, p) }"

section \<open>The off-chain message header\<close>

record OffchainMessageHeader =
  oc_version :: u8
  application_domain :: "byte_ptr option"
  oc_format :: u8
  signers_length :: nat
  signers :: byte_ptr
  oc_length :: u16

definition OFFCHAIN_MESSAGE_SIGNING_DOMAIN_LENGTH :: nat where
  "OFFCHAIN_MESSAGE_SIGNING_DOMAIN_LENGTH = 16"

definition OFFCHAIN_MESSAGE_APPLICATION_DOMAIN_LENGTH :: nat where
  "OFFCHAIN_MESSAGE_APPLICATION_DOMAIN_LENGTH = 32"

definition offchain_message_signing_domain :: "u8 list" where
  "offchain_message_signing_domain =
     [0xff, 0x73, 0x6f, 0x6c, 0x61, 0x6e, 0x61, 0x20,
      0x6f, 0x66, 0x66, 0x63, 0x68, 0x61, 0x69, 0x6e]"

definition offchain_message_header_length :: "OffchainMessageHeader \<Rightarrow> nat" where
  "offchain_message_header_length header =
     (let base_length = 16 + 1 + 1 + (PUBKEY_SIZE * signers_length header) + 2
      in if oc_version header = 0
         then base_length + OFFCHAIN_MESSAGE_APPLICATION_DOMAIN_LENGTH + 1
         else base_length)"

text \<open>\<open>memcmp\<close>: the sign of the first difference, over the length of the two arrays.\<close>

fun memcmp :: "u8 list \<Rightarrow> u8 list \<Rightarrow> int" where
  "memcmp (x # xs) (y # ys) = (if x = y then memcmp xs ys else if x < y then -1 else 1)"
| "memcmp _ _ = 0"

definition parse_offchain_message_application_domain :: "byte_ptr reader" where
  "parse_offchain_message_application_domain p = do {
     guard (\<not> check_buffer_length p OFFCHAIN_MESSAGE_APPLICATION_DOMAIN_LENGTH);
     Some (Ptr (buffer_addr p) (take OFFCHAIN_MESSAGE_APPLICATION_DOMAIN_LENGTH (buffer p)),
           advance p OFFCHAIN_MESSAGE_APPLICATION_DOMAIN_LENGTH) }"

definition signers_strictly_ascending :: "byte_ptr \<Rightarrow> nat \<Rightarrow> bool" where
  "signers_strictly_ascending keys n =
     list_all (\<lambda>i. \<not> memcmp (bytes (header_pubkey keys (i - 1)))
                            (bytes (header_pubkey keys i)) \<ge> 0) [1..<n]"

definition parse_offchain_message_header :: "OffchainMessageHeader reader" where
  "parse_offchain_message_header p = do {
     let domain_len = OFFCHAIN_MESSAGE_SIGNING_DOMAIN_LENGTH;
     guard (\<not> check_buffer_length p domain_len);
     guard (memcmp offchain_message_signing_domain (take domain_len (buffer p)) = 0);
     let p = advance p domain_len;
     (vers, p) \<leftarrow> parse_u8 p;
     ((app_domain, format), p) \<leftarrow>
       (if vers = 0 then do {
          (d, p) \<leftarrow> parse_offchain_message_application_domain p;
          (f, p) \<leftarrow> parse_u8 p;
          Some ((Some d, f), p) }
        else Some ((None, 0), p));
     (n_signers, p) \<leftarrow> parse_u8 p;
     (keys, p) \<leftarrow> parse_pubkeys_with_len (unat n_signers) p;
     guard (\<not> (vers \<ge> 1 \<and> \<not> signers_strictly_ascending keys (unat n_signers)));
     (len, p) \<leftarrow> parse_u16 p;
     Some (\<lparr>oc_version = vers, application_domain = app_domain, oc_format = format,
            signers_length = unat n_signers, signers = keys, oc_length = len\<rparr>, p) }"

section \<open>The instruction frame\<close>

text \<open>
  \<open>accounts\<close> and \<open>data\<close> are pointer and length in C; the address of \<open>data\<close> is kept
  because public keys inside it are compared by address.
\<close>

record Instruction =
  program_id_index :: u8
  accounts :: "u8 list"
  data :: byte_ptr

definition accounts_length :: "Instruction \<Rightarrow> nat" where
  "accounts_length i = length (accounts i)"

definition data_length :: "Instruction \<Rightarrow> nat" where
  "data_length i = length (bytes (data i))"

definition data_parser :: "Instruction \<Rightarrow> Parser" where
  "data_parser i = \<lparr>buffer_addr = addr (data i), buffer = bytes (data i)\<rparr>"

definition parse_data :: "byte_ptr reader" where
  "parse_data p = do {
     (len, p) \<leftarrow> parse_length p;
     guard (\<not> check_buffer_length p len);
     Some (Ptr (buffer_addr p) (take len (buffer p)), advance p len) }"

definition parse_instruction :: "Instruction reader" where
  "parse_instruction p = do {
     (index, p) \<leftarrow> parse_u8 p;
     (accs, p) \<leftarrow> parse_data p;
     (d, p) \<leftarrow> parse_data p;
     Some (\<lparr>program_id_index = index, accounts = bytes accs, data = d\<rparr>, p) }"

definition pubkeys_equal :: "byte_ptr \<Rightarrow> byte_ptr \<Rightarrow> bool" where
  "pubkeys_equal pubkey1 pubkey2 = (memcmp (bytes pubkey1) (bytes pubkey2) = 0)"

section \<open>The contract of a reader\<close>

abbreviation cursor :: "nat \<Rightarrow> u8 list \<Rightarrow> Parser" where
  "cursor a bs \<equiv> \<lparr>buffer_addr = a, buffer = bs\<rparr>"

lemma buffer_advance [simp]: "buffer (advance p n) = drop n (buffer p)"
  by (simp add: advance_def)

lemma buffer_addr_advance [simp]: "buffer_addr (advance p n) = buffer_addr p + n"
  by (simp add: advance_def)

lemma advance_advance [simp]: "advance (advance p m) n = advance p (m + n)"
  by (simp add: advance_def add.commute add.left_commute)

lemma advance_0 [simp]: "advance p 0 = p"
  by (simp add: advance_def)

lemma advance_cursor [simp]: "advance (cursor a bs) n = cursor (a + n) (drop n bs)"
  by (simp add: advance_def)

lemma buffer_length_advance [simp]: "buffer_length (advance p n) = buffer_length p - n"
  by (simp add: buffer_length_def)

lemma buffer_length_cursor [simp]: "buffer_length (cursor a bs) = length bs"
  by (simp add: buffer_length_def)

lemma parse_u8_cases:
  "parse_u8 p = (case buffer p of [] \<Rightarrow> None | b # r \<Rightarrow> Some (b, advance p 1))"
  by (simp add: parse_u8_def guard_def check_buffer_length_def buffer_length_def split: list.splits)

fun compact_value :: "u8 list \<Rightarrow> (nat \<times> nat) option" where
  "compact_value [] = None"
| "compact_value (b0 # r) =
     (if unat b0 < 128 then Some (unat b0, 1)
      else case r of [] \<Rightarrow> None
        | b1 # r \<Rightarrow>
            if unat b1 < 128 then Some (unat b0 mod 128 + 128 * unat b1, 2)
            else case r of [] \<Rightarrow> None
              | b2 # _ \<Rightarrow> Some (unat b0 mod 128 + 128 * (unat b1 mod 128)
                               + 16384 * (unat b2 mod 128), 3))"

lemma parse_length_compact:
  "parse_length p = map_option (\<lambda>(v, n). (v, advance p n)) (compact_value (buffer p))"
proof -
  have u: "unat (ucast (take_bit 7 (x :: u8)) :: u32) = unat x mod 128" for x
    by (simp add: unat_ucast_u8_u32 unat_take_bit_7)
  have or2: "unat (push_bit 7 (ucast (take_bit 7 b1)) OR (ucast (take_bit 7 b0) :: u32))
      = unat b0 mod 128 + 128 * (unat b1 mod 128)" for b0 b1 :: u8
    by (subst unat_or_push) (simp_all add: u)
  have or3: "unat (push_bit 14 (ucast (take_bit 7 b2)) OR
        (push_bit 7 (ucast (take_bit 7 b1)) OR (ucast (take_bit 7 b0) :: u32)))
      = unat b0 mod 128 + 128 * (unat b1 mod 128) + 16384 * (unat b2 mod 128)" for b0 b1 b2 :: u8
    by (subst unat_or_push) (simp_all add: u or2)
  show ?thesis
    unfolding parse_length_def parse_u8_cases and_80 and_7f
    by (auto simp: u or2 or3 numeral_2_eq_2 numeral_3_eq_3 split: list.splits)
qed

text \<open>
  What every parser of the application relies on: a successful call consumes a prefix of
  the bytes left and nothing else.
\<close>

definition reaches :: "Parser \<Rightarrow> Parser \<Rightarrow> bool" where
  "reaches p q = (\<exists>n \<le> buffer_length p. q = advance p n)"

lemma reaches_refl [simp]: "reaches p p"
  by (auto simp: reaches_def intro!: exI [of _ 0])

lemma reaches_trans: "reaches p q \<Longrightarrow> reaches q r \<Longrightarrow> reaches p r"
  unfolding reaches_def
proof (elim exE conjE)
  fix m n assume "m \<le> buffer_length p" "q = advance p m" "n \<le> buffer_length q" "r = advance q n"
  then show "\<exists>n\<le>buffer_length p. r = advance p n"
    by (intro exI [of _ "m + n"]) simp
qed

lemma reaches_advance [simp]: "n \<le> buffer_length p \<Longrightarrow> reaches p (advance p n)"
  by (auto simp: reaches_def)

lemma reaches_end:
  "reaches p q \<Longrightarrow> buffer_addr q + buffer_length q = buffer_addr p + buffer_length p"
  by (auto simp: reaches_def)

lemma reaches_buffer:
  "reaches p q \<Longrightarrow> buffer q = drop (buffer_addr q - buffer_addr p) (buffer p)"
  by (auto simp: reaches_def)

locale wire_reader =
  fixes dec :: "Parser \<Rightarrow> ('a \<times> Parser) option"
  assumes consumes: "dec p = Some (x, q) \<Longrightarrow> reaches p q"
begin

lemma not_longer: "dec p = Some (x, q) \<Longrightarrow> buffer_length q \<le> buffer_length p"
  using consumes by (force simp: reaches_def)

lemma end_address:
  "dec p = Some (x, q) \<Longrightarrow> buffer_addr q + buffer_length q = buffer_addr p + buffer_length p"
  using consumes reaches_end by blast

lemma suffix: "dec p = Some (x, q) \<Longrightarrow>
    buffer q = drop (buffer_addr q - buffer_addr p) (buffer p) \<and> buffer_addr p \<le> buffer_addr q"
  using consumes by (force simp: reaches_def)

end

text \<open>
  A reader with an encoder: \<open>enc v\<close> is a wire form of \<open>v\<close>, \<open>at a v\<close> the value the code
  holds once it has read it at address \<open>a\<close> (a public key is a pointer into the message),
  \<open>ok v\<close> that \<open>v\<close> has a wire form.
\<close>

locale wire_codec = wire_reader dec
  for dec :: "Parser \<Rightarrow> ('a \<times> Parser) option" +
  fixes enc :: "'v \<Rightarrow> u8 list" and at :: "nat \<Rightarrow> 'v \<Rightarrow> 'a" and ok :: "'v \<Rightarrow> bool"
  assumes decode: "ok v \<Longrightarrow> dec (cursor a (enc v @ r)) = Some (at a v, cursor (a + length (enc v)) r)"
begin

lemma decode_all: "ok v \<Longrightarrow> dec (cursor a (enc v)) = Some (at a v, cursor (a + length (enc v)) [])"
  using decode [of v a "[]"] by simp

lemma prefix_free:
  assumes "ok v" "ok w" "enc v @ r = enc w @ s"
  shows "at a v = at a w" and "r = s"
  using decode [OF assms(1), of a r] decode [OF assms(2), of a s] assms(3) by auto

end

text \<open>A reader that accepts nothing but the encoder's output.\<close>

locale wire_exact = wire_codec +
  assumes encode: "dec p = Some (x, q) \<Longrightarrow>
    \<exists>v. ok v \<and> x = at (buffer_addr p) v \<and> buffer p = enc v @ buffer q"
begin

lemma accepted: "(\<exists>x q. dec (cursor a bs) = Some (x, q)) \<longleftrightarrow> (\<exists>v r. ok v \<and> bs = enc v @ r)"
  using encode [of "cursor a bs"] decode by fastforce

end

section \<open>The readers meet the contract\<close>

definition le16 :: "u16 \<Rightarrow> u8 list" where
  "le16 v = [ucast v, ucast (drop_bit 8 v)]"

definition le32 :: "u32 \<Rightarrow> u8 list" where
  "le32 v = le16 (ucast v) @ le16 (ucast (drop_bit 16 v))"

definition le64 :: "u64 \<Rightarrow> u8 list" where
  "le64 v = le32 (ucast v) @ le32 (ucast (drop_bit 32 v))"

lemma length_le [simp]: "length (le16 a) = 2" "length (le32 b) = 4" "length (le64 c) = 8"
  by (simp_all add: le16_def le32_def le64_def)

text \<open>Successful steps are followed backwards through the option monad by these facts.\<close>

lemmas parse_success = Option.bind_eq_Some_conv guard_eq_Some

lemma parse_u8_iff [simp]:
  "parse_u8 p = Some (v, q) \<longleftrightarrow> (\<exists>r. buffer p = v # r \<and> q = advance p 1)"
  by (auto simp: parse_u8_cases split: list.splits)

lemma parse_u8_iff':
  "parse_u8 p = Some (v, q) \<longleftrightarrow> (\<exists>r. buffer p = [v] @ r \<and> q = advance p 1)"
  by simp

interpretation u8r: wire_exact parse_u8 "\<lambda>v. [v]" "\<lambda>_ v. v" "\<lambda>_. True"
  by unfold_locales (auto simp: reaches_def parse_u8_cases buffer_length_def intro!: exI [of _ 1] split: list.splits)

text \<open>Two reads of one half each: the pattern of the three wider integers.\<close>

lemma read_halves:
  assumes half: "\<And>p v q. dec p = Some (v, q) \<longleftrightarrow> (\<exists>r. buffer p = enc v @ r \<and> q = advance p n)"
    and len: "\<And>v. length (enc v) = n"
    and join: "\<And>a b. v = f a b \<longleftrightarrow> a = lo v \<and> b = hi v"
  shows "Option.bind (dec p) (\<lambda>(a, p). Option.bind (dec p) (\<lambda>(b, p). Some (f a b, p))) = Some (v, q)
     \<longleftrightarrow> (\<exists>r. buffer p = (enc (lo v) @ enc (hi v)) @ r \<and> q = advance p (n + n))"
proof
  assume "Option.bind (dec p) (\<lambda>(a, p). Option.bind (dec p) (\<lambda>(b, p). Some (f a b, p))) = Some (v, q)"
  then obtain a p1 b where *: "dec p = Some (a, p1)" "dec p1 = Some (b, q)" "v = f a b"
    by (auto simp: Option.bind_eq_Some_conv)
  from *(3) have "a = lo v" "b = hi v" by (simp_all only: join)
  with *(1,2) show "\<exists>r. buffer p = (enc (lo v) @ enc (hi v)) @ r \<and> q = advance p (n + n)"
    by (auto simp: half len)
next
  assume "\<exists>r. buffer p = (enc (lo v) @ enc (hi v)) @ r \<and> q = advance p (n + n)"
  then have "dec p = Some (lo v, advance p n)" "dec (advance p n) = Some (hi v, q)"
    by (auto simp: half len)
  with join [of "lo v" "hi v"]
  show "Option.bind (dec p) (\<lambda>(a, p). Option.bind (dec p) (\<lambda>(b, p). Some (f a b, p))) = Some (v, q)"
    by simp
qed

lemma parse_u16_iff:
  "parse_u16 p = Some (v, q) \<longleftrightarrow> (\<exists>r. buffer p = le16 v @ r \<and> q = advance p 2)"
proof -
  have "v = ucast a + push_bit 8 (ucast b) \<longleftrightarrow> a = ucast v \<and> b = ucast (drop_bit 8 v)" for a b :: u8
    using word_split_join(1,2) [of a b] word_join_split(1) [of v] by metis
  with read_halves [where dec = parse_u8 and enc = "\<lambda>v. [v]" and n = 1 and v = v and p = p and q = q
      and f = "\<lambda>a b. ucast a + push_bit 8 (ucast b)" and lo = ucast
      and hi = "\<lambda>v. ucast (drop_bit 8 v)", OF parse_u8_iff']
  show ?thesis
    by (simp add: parse_u16_def le16_def numeral_2_eq_2)
qed

interpretation u16r: wire_exact parse_u16 le16 "\<lambda>_ v. v" "\<lambda>_. True"
  by unfold_locales (auto simp: reaches_def parse_u16_iff buffer_length_def intro!: exI [of _ 2])

lemma parse_u32_iff:
  "parse_u32 p = Some (v, q) \<longleftrightarrow> (\<exists>r. buffer p = le32 v @ r \<and> q = advance p 4)"
proof -
  have "v = ucast a + push_bit 16 (ucast b) \<longleftrightarrow> a = ucast v \<and> b = ucast (drop_bit 16 v)"
    for a b :: u16
    using word_split_join(3,4) [of a b] word_join_split(2) [of v] by metis
  with read_halves [where dec = parse_u16 and enc = "le16" and n = 2 and v = v and p = p and q = q
      and f = "\<lambda>a b. ucast a + push_bit 16 (ucast b)" and lo = ucast
      and hi = "\<lambda>v. ucast (drop_bit 16 v)", OF parse_u16_iff]
  show ?thesis
    by (simp add: parse_u32_def le32_def)
qed

interpretation u32r: wire_exact parse_u32 le32 "\<lambda>_ v. v" "\<lambda>_. True"
  by unfold_locales (auto simp: reaches_def parse_u32_iff buffer_length_def intro!: exI [of _ 4])

lemma parse_u64_iff:
  "parse_u64 p = Some (v, q) \<longleftrightarrow> (\<exists>r. buffer p = le64 v @ r \<and> q = advance p 8)"
proof -
  have "v = ucast a + push_bit 32 (ucast b) \<longleftrightarrow> a = ucast v \<and> b = ucast (drop_bit 32 v)"
    for a b :: u32
    using word_split_join(5,6) [of a b] word_join_split(3) [of v] by metis
  with read_halves [where dec = parse_u32 and enc = "le32" and n = 4 and v = v and p = p and q = q
      and f = "\<lambda>a b. ucast a + push_bit 32 (ucast b)" and lo = ucast
      and hi = "\<lambda>v. ucast (drop_bit 32 v)", OF parse_u32_iff]
  show ?thesis
    by (auto simp: parse_u64_def le64_def check_buffer_length_def buffer_length_def guard_def)
qed

interpretation u64r: wire_exact parse_u64 le64 "\<lambda>_ v. v" "\<lambda>_. True"
  by unfold_locales (auto simp: reaches_def parse_u64_iff buffer_length_def intro!: exI [of _ 8])

interpretation i64r: wire_exact parse_i64 le64 "\<lambda>_ v. v" "\<lambda>_. True"
  unfolding parse_i64_def [abs_def] by unfold_locales

lemma parse_pubkey_iff:
  "parse_pubkey p = Some (k, q) \<longleftrightarrow>
     (\<exists>bs r. length bs = 32 \<and> buffer p = bs @ r \<and> k = Ptr (buffer_addr p) bs \<and> q = advance p 32)"
proof
  assume "parse_pubkey p = Some (k, q)"
  then show "\<exists>bs r. length bs = 32 \<and> buffer p = bs @ r \<and> k = Ptr (buffer_addr p) bs \<and> q = advance p 32"
    by (intro exI [of _ "take 32 (buffer p)"] exI [of _ "drop 32 (buffer p)"])
      (auto simp: parse_pubkey_def parse_success check_buffer_length_def buffer_length_def PUBKEY_SIZE_def)
qed (auto simp: parse_pubkey_def check_buffer_length_def buffer_length_def PUBKEY_SIZE_def)

interpretation pubkeyr: wire_exact parse_pubkey "\<lambda>bs. bs" Ptr "\<lambda>bs. length bs = 32"
  by unfold_locales (auto simp: reaches_def parse_pubkey_iff buffer_length_def intro!: exI [of _ 32])

lemma parse_hash_eq: "parse_hash p = parse_pubkey p"
  by (simp add: parse_hash_def parse_pubkey_def PUBKEY_SIZE_def HASH_SIZE_def)

interpretation hashr: wire_exact parse_hash "\<lambda>bs. bs" Ptr "\<lambda>bs. length bs = 32"
  unfolding parse_hash_eq [abs_def] by unfold_locales

interpretation versionr: wire_reader parse_version
  by unfold_locales
    (auto simp: parse_version_def parse_success check_buffer_length_def Let_def split: if_splits)

section \<open>Compact lengths, strings and the message header\<close>

lemma compact_value_SomeE:
  assumes "compact_value bs = Some (v, n)"
  obtains (one) b r where "bs = b # r" "unat b < 128" "v = unat b" "n = 1"
  | (two) b c r where "bs = b # c # r" "\<not> unat b < 128" "unat c < 128"
      "v = unat b mod 128 + 128 * unat c" "n = 2"
  | (three) b c d r where "bs = b # c # d # r" "\<not> unat b < 128" "\<not> unat c < 128"
      "v = unat b mod 128 + 128 * (unat c mod 128) + 16384 * (unat d mod 128)" "n = 3"
proof (cases bs)
  case Nil
  with assms show ?thesis by simp
next
  case (Cons b bs1)
  show ?thesis
  proof (cases "unat b < 128")
    case True
    with assms Cons one show ?thesis by simp
  next
    case b: False
    with assms Cons obtain c bs2 where c: "bs1 = c # bs2" by (cases bs1) auto
    show ?thesis
    proof (cases "unat c < 128")
      case True
      with assms Cons b c two show ?thesis by simp
    next
      case False
      with assms Cons b c obtain d r where "bs2 = d # r" by (cases bs2) auto
      with assms Cons b c False three show ?thesis by simp
    qed
  qed
qed

lemma compact_value_bounds:
  "compact_value bs = Some (v, n) \<Longrightarrow> n \<le> length bs \<and> 0 < n \<and> n \<le> 3 \<and> v < 2097152"
proof -
  have *: "i + 128 * j + 16384 * k < 2097152" if "i < 128" "j < 128" "k < 128" for i j k :: nat
    using that by linarith
  have 3: "unat b mod 128 + 128 * (unat c mod 128) + 16384 * (unat d mod 128) < 2097152" for b c d :: u8
    by (rule *) simp_all
  have 2: "unat b mod 128 + 128 * unat c < 2097152" if "unat c < 128" for b c :: u8
    using * [of "unat b mod 128" "unat c" 0] that by simp
  assume "compact_value bs = Some (v, n)"
  then show ?thesis
    by (cases rule: compact_value_SomeE) (simp_all add: 2 3)
qed

definition enc_length :: "nat \<Rightarrow> u8 list" where
  "enc_length n = (if n < 128 then [of_nat n]
     else if n < 16384 then [of_nat (n mod 128 + 128), of_nat (n div 128)]
     else [of_nat (n mod 128 + 128), of_nat (n div 128 mod 128 + 128), of_nat (n div 16384)])"

lemma unat_of_nat_u8: "n < 256 \<Longrightarrow> unat (of_nat n :: u8) = n"
  by (simp add: unat_of_nat)

lemma compact_value_enc_length:
  assumes "n < 2097152"
  shows "compact_value (enc_length n @ r) = Some (n, length (enc_length n))"
proof -
  have "n mod 128 + 128 < 256" "n div 128 mod 128 + 128 < 256" by simp_all
  moreover have "n div 16384 < 128" using assms by simp
  moreover have "n mod 128 + 128 * (n div 128 mod 128) + 16384 * (n div 16384) = n"
    using mod_mult2_eq [of n 128 128] mod_mult_div_eq [of n 16384] by simp
  ultimately show ?thesis
    by (auto simp: enc_length_def unat_of_nat_u8 simp del: of_nat_add of_nat_numeral)
qed

interpretation lengthr: wire_codec parse_length enc_length "\<lambda>_ n. n" "\<lambda>n. n < 2097152"
proof unfold_locales
  fix p x q assume "parse_length p = Some (x, q)"
  then show "reaches p q"
    using compact_value_bounds [of "buffer p"]
    by (auto simp: parse_length_compact reaches_def buffer_length_def)
qed (simp add: parse_length_compact compact_value_enc_length)

definition enc_sized :: "u8 list \<Rightarrow> u8 list" where
  "enc_sized s = le64 (of_nat (length s)) @ s"

lemma unat_of_nat_u64: "n < 18446744073709551616 \<Longrightarrow> unat (of_nat n :: u64) = n"
  by (simp add: unat_of_nat)

lemma le64_inject [simp]: "le64 a = le64 b \<longleftrightarrow> a = b"
  using u64r.prefix_free(1) [where v = a and w = b and r = "[]" and s = "[]"] by auto

lemma parse_sized_string_iff:
  "parse_sized_string p = Some (s, q) \<longleftrightarrow> (\<exists>r. length s \<le> SIZE_MAX \<and> buffer p = enc_sized s @ r
     \<and> q = advance p (8 + length s))" (is "?l = ?r")
proof
  assume ?l
  then obtain n where "buffer p = le64 n @ drop 8 (buffer p)" "unat n \<le> SIZE_MAX"
    "unat n \<le> length (buffer p) - 8" "s = take (unat n) (drop 8 (buffer p))"
    "q = advance p (8 + unat n)"
    by (auto simp: parse_sized_string_def parse_success parse_u64_iff check_buffer_length_def
        buffer_length_def Let_def not_less)
  moreover from this have "length s = unat n" by simp
  ultimately show ?r
    by (intro exI [of _ "drop (unat n) (drop 8 (buffer p))"])
      (auto simp: enc_sized_def simp del: drop_drop)
next
  assume ?r
  then obtain r where "length s \<le> SIZE_MAX" "buffer p = enc_sized s @ r"
    "q = advance p (8 + length s)" by auto
  then show ?l
    by (simp add: parse_sized_string_def enc_sized_def parse_u64_iff unat_of_nat_u64
        SIZE_MAX_def UINT32_MAX_def check_buffer_length_def buffer_length_def Let_def
        Option.bind_eq_Some_conv)
qed

interpretation stringr: wire_exact parse_sized_string enc_sized "\<lambda>_ s. s" "\<lambda>s. length s \<le> SIZE_MAX"
  by unfold_locales
    (auto simp: parse_sized_string_iff enc_sized_def buffer_length_def reaches_def
      intro!: exI [of _ "8 + length _"])

section \<open>Headers and instructions\<close>

interpretation datar: wire_codec parse_data "\<lambda>bs. enc_length (length bs) @ bs"
    "\<lambda>a bs. Ptr (a + length (enc_length (length bs))) bs" "\<lambda>bs. length bs < 2097152"
proof unfold_locales
  fix p x q assume "parse_data p = Some (x, q)"
  then obtain n p1 where "parse_length p = Some (n, p1)" "n \<le> buffer_length p1" "q = advance p1 n"
    by (auto simp: parse_data_def parse_success check_buffer_length_def not_less)
  then show "reaches p q" using lengthr.consumes reaches_trans reaches_advance by metis
qed (simp add: parse_data_def lengthr.decode check_buffer_length_def buffer_length_def add.assoc)

definition enc_instruction :: "u8 \<times> u8 list \<times> u8 list \<Rightarrow> u8 list" where
  "enc_instruction = (\<lambda>(i, accs, d). [i] @ (enc_length (length accs) @ accs) @ enc_length (length d) @ d)"

definition instruction_at :: "nat \<Rightarrow> u8 \<times> u8 list \<times> u8 list \<Rightarrow> Instruction" where
  "instruction_at a = (\<lambda>(i, accs, d). \<lparr>program_id_index = i, accounts = accs,
     data = Ptr (a + 1 + length (enc_length (length accs)) + length accs + length (enc_length (length d))) d\<rparr>)"

interpretation instructionr: wire_codec parse_instruction enc_instruction instruction_at
    "\<lambda>(i, accs, d). length accs < 2097152 \<and> length d < 2097152"
proof unfold_locales
  fix p x q assume "parse_instruction p = Some (x, q)"
  then obtain i p1 accs p2 d where "parse_u8 p = Some (i, p1)" "parse_data p1 = Some (accs, p2)"
    "parse_data p2 = Some (d, q)"
    by (fastforce simp: parse_instruction_def parse_success simp del: parse_u8_iff)
  then show "reaches p q" using u8r.consumes datar.consumes reaches_trans by metis
next
  fix v :: "u8 \<times> u8 list \<times> u8 list" and a r
  obtain i accs d where v: "v = (i, accs, d)" by (cases v)
  assume "case v of (i, accs, d) \<Rightarrow> length accs < 2097152 \<and> length d < 2097152"
  then have ok: "length accs < 2097152" "length d < 2097152" using v by auto
  show "parse_instruction (cursor a (enc_instruction v @ r))
      = Some (instruction_at a v, cursor (a + length (enc_instruction v)) r)"
    using datar.decode [OF ok(1)] datar.decode [OF ok(2)]
    by (simp add: parse_instruction_def enc_instruction_def instruction_at_def v parse_u8_cases)
qed

lemma take_drop_concat:
  assumes "\<forall>k \<in> set ks. length k = n" "i < length ks"
  shows "take n (drop (n * i) (concat ks @ r)) = ks ! i"
  using assms
proof (induction ks arbitrary: i)
  case (Cons k ks)
  then show ?case by (cases i) auto
qed simp

lemma length_concat_eq: "\<forall>k \<in> set ks. length k = n \<Longrightarrow> length (concat ks) = n * length ks"
  by (induction ks) auto

lemma parse_pubkeys_header_SomeD:
  assumes "parse_pubkeys_header p = Some (h, q)"
  shows "pubkeys_length h \<le> 65535" and "reaches p q"
proof -
  from assms obtain a p1 b p2 c p3 n where *: "parse_u8 p = Some (a, p1)" "parse_u8 p1 = Some (b, p2)"
    "parse_u8 p2 = Some (c, p3)" "parse_length p3 = Some (n, q)" "n \<le> 65535" "pubkeys_length h = n"
    by (fastforce simp: parse_pubkeys_header_def parse_success simp del: parse_u8_iff)
  from *(5,6) show "pubkeys_length h \<le> 65535" by simp
  show "reaches p q" using * u8r.consumes lengthr.consumes reaches_trans by meson
qed

lemma parse_message_header_SomeE:
  assumes "parse_message_header p = Some (h, q)"
  obtains v p1 p2 p3 p4 where "parse_version p = Some (v, p1)" "v = (versioned h, version h)"
    "parse_pubkeys_header p1 = Some (pubkeys_header h, p2)"
    "unat (num_required_signatures (pubkeys_header h)) \<le> pubkeys_length (pubkeys_header h)"
    "num_readonly_signed_accounts (pubkeys_header h) \<le> num_required_signatures (pubkeys_header h)"
    "unat (num_readonly_unsigned_accounts (pubkeys_header h))
       \<le> pubkeys_length (pubkeys_header h) - unat (num_required_signatures (pubkeys_header h))"
    "pubkeys_length (pubkeys_header h) * 32 \<le> buffer_length p2"
    "pubkeys h = Ptr (buffer_addr p2) (buffer p2)"
    "p3 = advance p2 (pubkeys_length (pubkeys_header h) * 32)"
    "parse_hash p3 = Some (blockhash h, p4)" "parse_length p4 = Some (instructions_length h, q)"
proof -
  from assms obtain v p1 ph p2 keys p3 hash p4 n where *: "parse_version p = Some (v, p1)"
    "parse_pubkeys_header p1 = Some (ph, p2)"
    "\<not> unat (num_required_signatures ph) > pubkeys_length ph"
    "\<not> num_readonly_signed_accounts ph > num_required_signatures ph"
    "\<not> unat (num_readonly_unsigned_accounts ph) > pubkeys_length ph - unat (num_required_signatures ph)"
    "parse_pubkeys_with_len (pubkeys_length ph) p2 = Some (keys, p3)"
    "parse_hash p3 = Some (hash, p4)" "parse_length p4 = Some (n, q)"
    "h = \<lparr>versioned = fst v, version = snd v, pubkeys_header = ph, pubkeys = keys,
          blockhash = hash, instructions_length = n\<rparr>"
    by (fastforce simp: parse_message_header_def parse_success)
  from *(6) have "keys = Ptr (buffer_addr p2) (buffer p2)" "pubkeys_length ph * 32 \<le> buffer_length p2"
    "p3 = advance p2 (pubkeys_length ph * 32)"
    by (auto simp: parse_pubkeys_with_len_def parse_success check_buffer_length_def Let_def PUBKEY_SIZE_def)
  with * that show ?thesis by simp
qed

interpretation message_headerr: wire_reader parse_message_header
proof unfold_locales
  fix p x q assume "parse_message_header p = Some (x, q)"
  then show "reaches p q"
  proof (cases rule: parse_message_header_SomeE)
    case (1 v p1 p2 p3 p4)
    then show ?thesis
      using versionr.consumes parse_pubkeys_header_SomeD(2) hashr.consumes lengthr.consumes
        reaches_trans reaches_advance by metis
  qed
qed

lemma message_header_facts:
  assumes "parse_message_header p = Some (h, q)"
  defines "ph \<equiv> pubkeys_header h"
  shows "unat (num_required_signatures ph) + unat (num_readonly_unsigned_accounts ph) \<le> pubkeys_length ph
    \<and> num_readonly_signed_accounts ph \<le> num_required_signatures ph
    \<and> pubkeys_length ph \<le> 65535
    \<and> (\<forall>i < pubkeys_length ph. length (bytes (header_pubkey (pubkeys h) i)) = 32)
    \<and> addr (blockhash h) = addr (pubkeys h) + 32 * pubkeys_length ph
    \<and> bytes (blockhash h) = take 32 (drop (addr (blockhash h) - buffer_addr p) (buffer p))
    \<and> length (bytes (blockhash h)) = 32
    \<and> addr (blockhash h) + 32 + buffer_length q < buffer_addr p + buffer_length p"
  using assms(1)
proof (cases rule: parse_message_header_SomeE)
  case (1 v p1 p2 p3 p4)
  from 1(10) obtain bs r where hash: "length bs = 32" "buffer p3 = bs @ r"
    "blockhash h = Ptr (buffer_addr p3) bs" "p4 = advance p3 32"
    by (auto simp: parse_hash_eq parse_pubkey_iff)
  have r2: "reaches p p2"
    using 1(1,3) versionr.consumes parse_pubkeys_header_SomeD(2) reaches_trans by metis
  then have r3: "reaches p p3" using 1(7,9) reaches_trans reaches_advance by metis
  have "length (bytes (header_pubkey (pubkeys h) i)) = 32" if "i < pubkeys_length ph" for i
  proof -
    have "32 * i + 32 \<le> length (buffer p2)"
      using that 1(7) unfolding ph_def buffer_length_def by linarith
    then show ?thesis by (simp add: header_pubkey_def 1(8) PUBKEY_SIZE_def)
  qed
  moreover have "buffer_length q < buffer_length p4"
    using 1(11) compact_value_bounds [of "buffer p4"]
    by (auto simp: parse_length_compact buffer_length_def)
  moreover have "buffer_addr p4 + buffer_length p4 = buffer_addr p + buffer_length p"
    using reaches_end [OF r3] hash by (simp add: buffer_length_def)
  moreover have "bytes (blockhash h) = take 32 (drop (addr (blockhash h) - buffer_addr p) (buffer p))"
    using hash(1,2) by (simp add: hash(3) flip: reaches_buffer [OF r3])
  ultimately show ?thesis
    using 1(4-6,8,9) hash(1,3,4) parse_pubkeys_header_SomeD(1) [OF 1(3)]
    by (auto simp: ph_def mult.commute)
qed

text \<open>C24: A message header that parses describes its accounts consistently: the required
  signatures fit in the account list, the read-only counts fit in their parts, the account
  list lies entirely in the message (each of its keys is 32 bytes at the expected address),
  and the blockhash is the 32 bytes right after the list.\<close>

theorem message_header_wellformed:
  assumes "parse_message_header p = Some (h, q)"
  defines "ph \<equiv> pubkeys_header h"
  shows "unat (num_required_signatures ph) + unat (num_readonly_unsigned_accounts ph) \<le> pubkeys_length ph
    \<and> num_readonly_signed_accounts ph \<le> num_required_signatures ph
    \<and> pubkeys_length ph \<le> 65535
    \<and> (\<forall>i < pubkeys_length ph. length (bytes (header_pubkey (pubkeys h) i)) = 32)
    \<and> addr (blockhash h) = addr (pubkeys h) + 32 * pubkeys_length ph
    \<and> bytes (blockhash h) = take 32 (drop (addr (blockhash h) - buffer_addr p) (buffer p))
    \<and> length (bytes (blockhash h)) = 32
    \<and> addr (blockhash h) + 32 + buffer_length q < buffer_addr p + buffer_length p"
  unfolding ph_def using assms(1) by (rule message_header_facts)

text \<open>The wire form of a message header, from its contents.\<close>

definition enc_message_header ::
    "u8 option \<Rightarrow> u8 \<Rightarrow> u8 \<Rightarrow> u8 \<Rightarrow> u8 list list \<Rightarrow> u8 list \<Rightarrow> nat \<Rightarrow> u8 list" where
  "enc_message_header v n_sig n_ro n_rou ks hash n_ins =
     (case v of None \<Rightarrow> [] | Some w \<Rightarrow> [0x80 OR w]) @ [n_sig, n_ro, n_rou]
     @ enc_length (length ks) @ concat ks @ hash @ enc_length n_ins"

lemma version_byte:
  assumes "unat (w :: u8) < 128"
  shows "(0x80 OR w) AND 0x80 \<noteq> 0" and "(0x80 OR w) AND 0x7f = w"
proof -
  have "w = take_bit 7 w"
    by (rule word_unat_eq_iff [THEN iffD2]) (use assms unat_take_bit_7 [of w] in simp)
  then show "(0x80 OR w) AND 0x7f = w"
    by (simp add: and_7f take_bit_or)
  have "bit ((0x80 OR w) AND 0x80) 7"
    by (simp add: bit_simps)
  then show "(0x80 OR w) AND 0x80 \<noteq> 0" by (metis bit_0_eq bot_apply bot_bool_def)
qed

lemma message_header_decode:
  assumes "\<forall>k \<in> set ks. length k = 32" "length hash = 32" "length ks \<le> 65535" "n_ins < 2097152"
    and "unat n_sig \<le> length ks" "n_ro \<le> n_sig" "unat n_rou \<le> length ks - unat n_sig"
    and "case v of None \<Rightarrow> unat n_sig < 128 | Some w \<Rightarrow> unat w < 128"
  shows "\<exists>h. parse_message_header (cursor a (enc_message_header v n_sig n_ro n_rou ks hash n_ins @ r))
      = Some (h, cursor (a + length (enc_message_header v n_sig n_ro n_rou ks hash n_ins)) r)
    \<and> versioned h = (v \<noteq> None) \<and> version h = (case v of None \<Rightarrow> 0 | Some w \<Rightarrow> w)
    \<and> pubkeys_header h = \<lparr>num_required_signatures = n_sig, num_readonly_signed_accounts = n_ro,
         num_readonly_unsigned_accounts = n_rou, pubkeys_length = length ks\<rparr>
    \<and> (\<forall>i < length ks. bytes (header_pubkey (pubkeys h) i) = ks ! i)
    \<and> bytes (blockhash h) = hash \<and> instructions_length h = n_ins"
proof -
  let ?k = "length (case v of None \<Rightarrow> [] | Some w \<Rightarrow> [0x80 OR w :: u8])"
  let ?rest = "[n_sig, n_ro, n_rou] @ enc_length (length ks) @ concat ks @ hash @ enc_length n_ins @ r"
  have v: "parse_version (cursor a ((case v of None \<Rightarrow> [] | Some w \<Rightarrow> [0x80 OR w]) @ ?rest))
      = Some ((v \<noteq> None, case v of None \<Rightarrow> 0 | Some w \<Rightarrow> w), cursor (a + ?k) ?rest)"
  proof (cases v)
    case None
    then show ?thesis using assms(8) by (simp add: parse_version_def check_buffer_length_def and_80)
  next
    case (Some w)
    then have "unat w < 128" using assms(8) by simp
    then show ?thesis
      using version_byte [of w] Some by (simp add: parse_version_def check_buffer_length_def Let_def)
  qed
  have c: "length (concat ks) = 32 * length ks" using assms(1) by (rule length_concat_eq)
  have n: "length ks < 2097152" using assms(3) by simp
  show ?thesis
    using assms(2-7) c n
    apply (simp add: parse_message_header_def parse_pubkeys_header_def parse_pubkeys_with_len_def
        enc_message_header_def v [simplified] parse_u8_cases lengthr.decode hashr.decode check_buffer_length_def
        PUBKEY_SIZE_def not_less Let_def)
    apply (simp add: header_pubkey_def take_drop_concat [OF assms(1), of _ "[]", simplified] PUBKEY_SIZE_def)
    done
qed

text \<open>C25: Reading back the wire form of a legacy or versioned message header gives the header:
  its counts, its account keys in order, its blockhash and its number of instructions.\<close>

theorem message_header_roundtrip:
  assumes "\<forall>k \<in> set ks. length k = 32" "length hash = 32" "length ks \<le> 65535" "n_ins < 2097152"
    and "unat n_sig \<le> length ks" "n_ro \<le> n_sig" "unat n_rou \<le> length ks - unat n_sig"
    and "case v of None \<Rightarrow> unat n_sig < 128 | Some w \<Rightarrow> unat w < 128"
  shows "\<exists>h. parse_message_header (cursor a (enc_message_header v n_sig n_ro n_rou ks hash n_ins @ r))
      = Some (h, cursor (a + length (enc_message_header v n_sig n_ro n_rou ks hash n_ins)) r)
    \<and> versioned h = (v \<noteq> None) \<and> version h = (case v of None \<Rightarrow> 0 | Some w \<Rightarrow> w)
    \<and> pubkeys_header h = \<lparr>num_required_signatures = n_sig, num_readonly_signed_accounts = n_ro,
         num_readonly_unsigned_accounts = n_rou, pubkeys_length = length ks\<rparr>
    \<and> (\<forall>i < length ks. bytes (header_pubkey (pubkeys h) i) = ks ! i)
    \<and> bytes (blockhash h) = hash \<and> instructions_length h = n_ins"
  using assms by (rule message_header_decode)

lemma memcmp_eq_0: "length xs = length ys \<Longrightarrow> memcmp xs ys = 0 \<longleftrightarrow> xs = ys"
  by (induction xs ys rule: memcmp.induct) auto

lemma memcmp_trans:
  "memcmp xs ys < 0 \<Longrightarrow> memcmp ys zs < 0 \<Longrightarrow> length ys = length zs \<Longrightarrow> memcmp xs zs < 0"
proof (induction xs ys arbitrary: zs rule: memcmp.induct)
  case (1 x xs y ys)
  then show ?case by (cases zs) (auto split: if_splits)
qed auto

text \<open>Two key pointers are equal for the code exactly when their 32 bytes are.\<close>

lemma pubkeys_equal_iff:
  "length (bytes a) = length (bytes b) \<Longrightarrow> pubkeys_equal a b \<longleftrightarrow> bytes a = bytes b"
  by (simp add: pubkeys_equal_def memcmp_eq_0)

lemma parse_pubkeys_with_len_iff:
  "parse_pubkeys_with_len n p = Some (keys, q) \<longleftrightarrow>
     32 * n \<le> buffer_length p \<and> keys = Ptr (buffer_addr p) (buffer p) \<and> q = advance p (32 * n)"
  by (auto simp: parse_pubkeys_with_len_def parse_success check_buffer_length_def Let_def
      PUBKEY_SIZE_def mult.commute not_less)

lemma parse_offchain_message_header_SomeE:
  assumes "parse_offchain_message_header p = Some (h, q)"
  obtains p1 p2 where "OFFCHAIN_MESSAGE_SIGNING_DOMAIN_LENGTH \<le> buffer_length p"
    "take 16 (buffer p) = offchain_message_signing_domain"
    "p1 = advance p 17" "17 \<le> buffer_length p"
    "if oc_version h = 0 then (\<exists>d. application_domain h = Some d \<and> length (bytes d) = 32) \<and>
        p2 = advance p1 33 \<and> 33 \<le> buffer_length p1
     else application_domain h = None \<and> oc_format h = 0 \<and> p2 = p1"
    "buffer_length p2 \<ge> 1 + 32 * signers_length h + 2" "signers_length h < 256"
    "signers h = Ptr (buffer_addr p2 + 1) (drop 1 (buffer p2))"
    "oc_version h \<ge> 1 \<Longrightarrow> signers_strictly_ascending (signers h) (signers_length h)"
    "q = advance p2 (1 + 32 * signers_length h + 2)"
proof -
  let ?D = OFFCHAIN_MESSAGE_SIGNING_DOMAIN_LENGTH
  let ?o = "\<lambda>vers p. if vers = 0 then do {
          (d, p) \<leftarrow> parse_offchain_message_application_domain p;
          (f, p) \<leftarrow> parse_u8 p; Some ((Some d, f), p) } else Some ((None, 0), p)"
  from assms obtain vers p1 ad f p2 n p3 keys p4 len where
    *: "?D \<le> buffer_length p" "memcmp offchain_message_signing_domain (take ?D (buffer p)) = 0"
    "parse_u8 (advance p ?D) = Some (vers, p1)" "?o vers p1 = Some ((ad, f), p2)"
    "parse_u8 p2 = Some (n, p3)" "parse_pubkeys_with_len (unat n) p3 = Some (keys, p4)"
    "\<not> (vers \<ge> 1 \<and> \<not> signers_strictly_ascending keys (unat n))" "parse_u16 p4 = Some (len, q)"
    "h = \<lparr>oc_version = vers, application_domain = ad, oc_format = f, signers_length = unat n,
          signers = keys, oc_length = len\<rparr>"
    unfolding parse_offchain_message_header_def Let_def
    by (clarsimp simp: parse_success check_buffer_length_def not_less simp del: parse_u8_iff)
  from *(1,2) have dom: "take 16 (buffer p) = offchain_message_signing_domain"
    by (simp add: memcmp_eq_0 offchain_message_signing_domain_def buffer_length_def
        OFFCHAIN_MESSAGE_SIGNING_DOMAIN_LENGTH_def)
  from *(3) have p1: "p1 = advance p 17" "17 \<le> buffer_length p"
    by (auto simp: OFFCHAIN_MESSAGE_SIGNING_DOMAIN_LENGTH_def buffer_length_def
        dest: arg_cong [where f = length])
  have p2: "if vers = 0 then (\<exists>d. ad = Some d \<and> length (bytes d) = 32) \<and> p2 = advance p1 33 \<and>
      33 \<le> buffer_length p1 else ad = None \<and> f = 0 \<and> p2 = p1"
    using *(4) by (auto simp: parse_success parse_offchain_message_application_domain_def
        OFFCHAIN_MESSAGE_APPLICATION_DOMAIN_LENGTH_def check_buffer_length_def buffer_length_def
        split: if_splits dest: arg_cong [where f = length])
  from *(5,6,8) have "buffer_length p2 \<ge> 1 + 32 * unat n + 2"
    "keys = Ptr (buffer_addr p2 + 1) (drop 1 (buffer p2))" "q = advance p2 (1 + 32 * unat n + 2)"
    by (auto simp: parse_pubkeys_with_len_iff parse_u16_iff buffer_length_def
        dest: arg_cong [where f = length])
  note rest = this
  show ?thesis
    by (rule that [of p1 p2])
      (use *(1,7) dom p1 p2 rest unat_u8_bound [of n] in \<open>auto simp: *(9) split: if_splits\<close>)
qed

interpretation offchain_headerr: wire_reader parse_offchain_message_header
proof unfold_locales
  fix p h q assume "parse_offchain_message_header p = Some (h, q)"
  then show "reaches p q"
  proof (cases rule: parse_offchain_message_header_SomeE)
    case (1 p1 p2)
    have "reaches p p1" using 1(3,4) by simp
    moreover have "reaches p1 p2" using 1(5) by (metis reaches_advance reaches_refl)
    moreover have "reaches p2 q" using 1(6,10) by simp
    ultimately show ?thesis using reaches_trans by blast
  qed
qed

text \<open>When an off-chain message header parses, the message starts with the signing domain,
  the text starts exactly where \<open>offchain_message_header_length\<close> says, an application domain is
  present exactly in version 0, and from version 1 on the signers are strictly ascending, so
  that no signer is listed twice.\<close>

theorem offchain_header_wellformed:
  assumes "parse_offchain_message_header p = Some (h, q)"
  shows "take 16 (buffer p) = offchain_message_signing_domain
    \<and> q = advance p (offchain_message_header_length h)
    \<and> offchain_message_header_length h \<le> buffer_length p
    \<and> (application_domain h = None \<longleftrightarrow> oc_version h \<noteq> 0)
    \<and> (oc_version h \<noteq> 0 \<longrightarrow> (\<forall>j < signers_length h. \<forall>i < j.
         memcmp (bytes (header_pubkey (signers h) i)) (bytes (header_pubkey (signers h) j)) < 0
         \<and> bytes (header_pubkey (signers h) i) \<noteq> bytes (header_pubkey (signers h) j)))"
  using assms
proof (cases rule: parse_offchain_message_header_SomeE)
  case (1 p1 p2)
  let ?k = "\<lambda>i. bytes (header_pubkey (signers h) i)"
  have len: "length (?k i) = 32" if "i < signers_length h" for i
    using 1(6,8) that by (simp add: header_pubkey_def PUBKEY_SIZE_def buffer_length_def)
  have asc: "memcmp (?k i) (?k j) < 0" if "oc_version h \<noteq> 0" "j < signers_length h" "i < j" for i j
    using that(2,3)
  proof (induction j)
    case (Suc j)
    have "signers_strictly_ascending (signers h) (signers_length h)"
      using 1(9) that(1) by (simp add: word_le_nat_alt unat_gt_0 Suc_le_eq)
    then have step: "memcmp (?k j) (?k (Suc j)) < 0"
      using Suc.prems(1) by (auto simp: signers_strictly_ascending_def list_all_iff dest: bspec [of _ _ "Suc j"])
    show ?case
    proof (cases "i = j")
      case False
      then have "memcmp (?k i) (?k j) < 0" using Suc by simp
      then show ?thesis using memcmp_trans step len Suc.prems by simp
    qed (use step in simp)
  qed simp
  have "?k i \<noteq> ?k j" if "oc_version h \<noteq> 0" "j < signers_length h" "i < j" for i j
    using asc [OF that] memcmp_eq_0 [of "?k i" "?k j"] by auto
  moreover have "q = advance p (offchain_message_header_length h)
      \<and> offchain_message_header_length h \<le> buffer_length p
      \<and> (application_domain h = None \<longleftrightarrow> oc_version h \<noteq> 0)"
    using 1(3-6,10)
    by (auto simp: offchain_message_header_length_def PUBKEY_SIZE_def Let_def
        OFFCHAIN_MESSAGE_APPLICATION_DOMAIN_LENGTH_def split: if_splits)
  ultimately show ?thesis using 1(2) asc by blast
qed

section \<open>Instances\<close>

text \<open>A message with one account, used to instantiate the theorems about headers.\<close>

definition sample_message :: "u8 list" where
  "sample_message = [1, 0, 0, 1] @ replicate 32 7 @ replicate 32 9 @ [0]"

lemma sample_message_parses: "parse_message_header (cursor 0 sample_message)
   = Some (\<lparr>versioned = False, version = 0, pubkeys_header = \<lparr>num_required_signatures = 1,
       num_readonly_signed_accounts = 0, num_readonly_unsigned_accounts = 0, pubkeys_length = 1\<rparr>,
     pubkeys = Ptr 4 (replicate 32 7 @ replicate 32 9 @ [0]), blockhash = Ptr 36 (replicate 32 9),
     instructions_length = 0\<rparr>, cursor 69 [])"
  by (simp add: sample_message_def parse_message_header_def parse_version_def check_buffer_length_def
      parse_pubkeys_header_def parse_u8_cases parse_length_compact parse_pubkeys_with_len_def
      parse_hash_def PUBKEY_SIZE_def HASH_SIZE_def Let_def and_80)

theorem message_header_wellformed_witness:
  "\<exists>h q. parse_message_header (cursor 0 sample_message) = Some (h, q) \<and>
     addr (blockhash h) = addr (pubkeys h) + 32 * pubkeys_length (pubkeys_header h)"
  using message_header_wellformed [OF sample_message_parses] sample_message_parses by auto

theorem message_header_roundtrip_witness:
  "\<exists>h q. parse_message_header (cursor 0 (enc_message_header (Some 0) 1 0 0 [replicate 32 7]
      (replicate 32 9) 3 @ [])) = Some (h, q) \<and> versioned h \<and> instructions_length h = 3"
  using message_header_roundtrip [of "[replicate 32 7]" "replicate 32 9" 3 1 0 0 "Some 0" 0 "[]"] by auto

text \<open>An off-chain message of version 1 with two signers.\<close>

definition sample_offchain_message :: "u8 list" where
  "sample_offchain_message = offchain_message_signing_domain @ [1, 2] @ replicate 32 1 @ replicate 32 2 @ [4, 0]"

lemma memcmp_replicate: "x < y \<Longrightarrow> memcmp (replicate (Suc n) x) (replicate (Suc m) y) = -1"
  by auto

lemma sample_offchain_parses: "parse_offchain_message_header (cursor 0 sample_offchain_message)
   = Some (\<lparr>oc_version = 1, application_domain = None, oc_format = 0, signers_length = 2,
       signers = Ptr 18 (replicate 32 1 @ replicate 32 2 @ [4, 0]), oc_length = 4\<rparr>, cursor 84 [])"
  by (simp add: sample_offchain_message_def parse_offchain_message_header_def
      offchain_message_signing_domain_def OFFCHAIN_MESSAGE_SIGNING_DOMAIN_LENGTH_def
      check_buffer_length_def parse_u8_cases parse_pubkeys_with_len_def PUBKEY_SIZE_def Let_def
      signers_strictly_ascending_def header_pubkey_def parse_u16_def upt_conv_Cons
      memcmp_replicate [of 1 2 31 31, simplified])

theorem offchain_header_wellformed_witness:
  "\<exists>h q. parse_offchain_message_header (cursor 0 sample_offchain_message) = Some (h, q) \<and>
     q = advance (cursor 0 sample_offchain_message) (offchain_message_header_length h)"
  using offchain_header_wellformed [OF sample_offchain_parses] sample_offchain_parses by blast

lemmas decode_wire [simp] = u16r.decode u32r.decode u64r.decode i64r.decode
lemmas decode_wire_all [simp] = u16r.decode_all u32r.decode_all u64r.decode_all i64r.decode_all

lemma decode_u8 [simp]: "parse_u8 (cursor a (v # r)) = Some (v, cursor (a + 1) r)"
  by (simp add: parse_u8_cases)

lemma decode_pubkey [simp]:
  "length k = 32 \<Longrightarrow> parse_pubkey (cursor a (k @ r)) = Some (Ptr a k, cursor (a + 32) r)"
  using pubkeyr.decode [of k a r] by simp

end
