(* ===== verification/Sol_Accounts.thy ===== *)
theory Sol_Accounts
  imports Sol_Parser
begin

text \<open>
  The accounts of an instruction, \<open>libsol/instruction.c\<close>: the check of the indices, the
  iterator the instruction parsers use and the lookup of one account.
\<close>

definition instruction_validate :: "Instruction \<Rightarrow> MessageHeader \<Rightarrow> bool" where
  "instruction_validate instruction header =
     (\<not> unat (program_id_index instruction) \<ge> pubkeys_length (pubkeys_header header)
      \<and> list_all (\<lambda>a. \<not> unat a \<ge> pubkeys_length (pubkeys_header header)) (accounts instruction))"

text \<open>\<open>instruction_accounts_length\<close> is a \<open>uint8_t\<close>: the number of accounts modulo 256.\<close>

record InstructionAccountsIterator =
  message_header_pubkeys :: byte_ptr
  instruction_accounts_length :: u8
  instruction_accounts :: "u8 list"
  current_instruction_account :: nat

definition instruction_accounts_iterator_init :: "MessageHeader \<Rightarrow> Instruction \<Rightarrow> InstructionAccountsIterator" where
  "instruction_accounts_iterator_init header instruction =
     \<lparr>message_header_pubkeys = pubkeys header,
      instruction_accounts_length = of_nat (accounts_length instruction),
      instruction_accounts = accounts instruction,
      current_instruction_account = 0\<rparr>"

definition instruction_accounts_iterator_next ::
    "InstructionAccountsIterator \<Rightarrow> (byte_ptr \<times> InstructionAccountsIterator) option" where
  "instruction_accounts_iterator_next it =
     (if current_instruction_account it < unat (instruction_accounts_length it)
      then let pubkeys_index = unat (instruction_accounts it ! current_instruction_account it)
           in Some (header_pubkey (message_header_pubkeys it) pubkeys_index,
                    it\<lparr>current_instruction_account := current_instruction_account it + 1\<rparr>)
      else None)"

definition instruction_accounts_iterator_remaining :: "InstructionAccountsIterator \<Rightarrow> nat" where
  "instruction_accounts_iterator_remaining it =
     (if current_instruction_account it < unat (instruction_accounts_length it)
      then unat (instruction_accounts_length it) - current_instruction_account it else 0)"

definition instruction_accounts_iterator_get_current_account_index :: "InstructionAccountsIterator \<Rightarrow> int" where
  "instruction_accounts_iterator_get_current_account_index it =
     (if instruction_accounts_iterator_remaining it = 0 then -1
      else uint (instruction_accounts it ! current_instruction_account it))"

definition get_account_from_ins :: "Instruction \<Rightarrow> MessageHeader \<Rightarrow> u8 \<Rightarrow> byte_ptr option" where
  "get_account_from_ins instruction header account_index =
     (if unat account_index \<ge> accounts_length instruction then None
      else Some (header_pubkey (pubkeys header) (unat (accounts instruction ! unat account_index))))"

section \<open>The iterator\<close>

text \<open>\<open>account i k\<close>: the key the k-th account of the instruction refers to.\<close>

definition account_key :: "MessageHeader \<Rightarrow> Instruction \<Rightarrow> nat \<Rightarrow> byte_ptr" where
  "account_key header i k = header_pubkey (pubkeys header) (unat (accounts i ! k))"

definition iterator_at :: "MessageHeader \<Rightarrow> Instruction \<Rightarrow> nat \<Rightarrow> InstructionAccountsIterator" where
  "iterator_at header i k = (instruction_accounts_iterator_init header i)\<lparr>current_instruction_account := k\<rparr>"

lemma init_iterator_at: "instruction_accounts_iterator_init header i = iterator_at header i 0"
  by (simp add: iterator_at_def instruction_accounts_iterator_init_def)

lemma unat_accounts_length: "unat (of_nat n :: u8) = n mod 256"
  by (simp add: unat_of_nat)

lemma next_iterator_at [simp]:
  "instruction_accounts_iterator_next (iterator_at header i k) =
     (if k < accounts_length i mod 256 then Some (account_key header i k, iterator_at header i (Suc k)) else None)"
  by (simp add: instruction_accounts_iterator_next_def iterator_at_def account_key_def
      instruction_accounts_iterator_init_def unat_accounts_length)

lemma remaining_iterator_at [simp]:
  "instruction_accounts_iterator_remaining (iterator_at header i k) = accounts_length i mod 256 - k"
  by (simp add: instruction_accounts_iterator_remaining_def iterator_at_def
      instruction_accounts_iterator_init_def unat_accounts_length)

text \<open>Once the message header has parsed and \<open>instruction_validate\<close> has accepted an
  instruction, its program and every one of its accounts are 32-byte keys that lie inside the
  account list of the message: no index reads what follows the list.\<close>

theorem validated_accounts_in_bounds:
  assumes "parse_message_header p = Some (h, q)" "instruction_validate i h"
  shows "length (bytes (header_pubkey (pubkeys h) (unat (program_id_index i)))) = 32
    \<and> (\<forall>k < accounts_length i. length (bytes (account_key h i k)) = 32
         \<and> addr (account_key h i k) + 32 \<le> addr (blockhash h))"
proof -
  have key: "length (bytes (header_pubkey (pubkeys h) n)) = 32 \<and>
      addr (header_pubkey (pubkeys h) n) + 32 \<le> addr (blockhash h)"
    if n: "n < pubkeys_length (pubkeys_header h)" for n
    using assms(1)
  proof (cases rule: parse_message_header_SomeE)
    case (1 v p1 p2 p3 p4)
    have "blockhash h = Ptr (buffer_addr p3) (take 32 (buffer p3))"
      using 1(10) by (auto simp: parse_hash_eq parse_pubkey_iff)
    moreover have "32 * n + 32 \<le> 32 * pubkeys_length (pubkeys_header h)"
      using n by linarith
    ultimately show ?thesis
      using 1(7-9) by (simp add: header_pubkey_def PUBKEY_SIZE_def buffer_length_def)
  qed
  have "unat (accounts i ! k) < pubkeys_length (pubkeys_header h)" if "k < accounts_length i" for k
    using assms(2) that by (auto simp: instruction_validate_def list_all_length accounts_length_def)
  moreover have "unat (program_id_index i) < pubkeys_length (pubkeys_header h)"
    using assms(2) by (simp add: instruction_validate_def)
  ultimately show ?thesis using key by (simp add: account_key_def)
qed

text \<open>The iterator the instruction parsers use sees only the number of accounts modulo
  256: after \<open>k\<close> steps it yields the account \<open>k\<close> and stops at \<open>accounts_length mod 256\<close>, so an
  instruction with 256 accounts looks to it like an instruction without accounts.\<close>

theorem iterator_sees_accounts_mod_256:
  "instruction_accounts_iterator_remaining (instruction_accounts_iterator_init h i) = accounts_length i mod 256
   \<and> (\<forall>k. instruction_accounts_iterator_next (iterator_at h i k) =
        (if k < accounts_length i mod 256
         then Some (header_pubkey (pubkeys h) (unat (accounts i ! k)), iterator_at h i (k + 1)) else None))"
  by (simp add: init_iterator_at account_key_def)

lemma sample_instruction_valid: "instruction_validate
    \<lparr>program_id_index = 0, accounts = [0], data = Ptr 0 []\<rparr>
    \<lparr>versioned = False, version = 0, pubkeys_header = \<lparr>num_required_signatures = 1,
       num_readonly_signed_accounts = 0, num_readonly_unsigned_accounts = 0, pubkeys_length = 1\<rparr>,
     pubkeys = Ptr 4 (replicate 32 7 @ replicate 32 9 @ [0]), blockhash = Ptr 36 (replicate 32 9),
     instructions_length = 0\<rparr>"
  by (simp add: instruction_validate_def)

theorem validated_accounts_in_bounds_witness:
  "\<exists>h i. instruction_validate i h \<and> accounts_length i = 1 \<and> length (bytes (account_key h i 0)) = 32"
  using validated_accounts_in_bounds [OF sample_message_parses sample_instruction_valid]
    sample_instruction_valid by (fastforce simp: accounts_length_def)

end
