(* ===== verification/Sol_Summary.thy ===== *)
theory Sol_Summary
  imports Sol_Parser
begin

text \<open>
  The transaction summary of \<open>libsol/transaction_summary.c\<close>: the items the device displays,
  kept in the static variable \<open>G_transaction_summary\<close>. The printers of the instructions ask
  for a free item and fill it. First the code; then the contract of a printer (it never
  touches an item already filled) and the order of display.
\<close>

section \<open>Items\<close>

definition NUM_GENERAL_ITEMS :: nat where "NUM_GENERAL_ITEMS = 4 + 5 + 2"
definition MAX_TRANSACTION_SUMMARY_ITEMS :: nat where
  "MAX_TRANSACTION_SUMMARY_ITEMS = 1 + NUM_GENERAL_ITEMS + 1 + 1 + 1"

datatype SummaryItemKind = SummaryItemNone | SummaryItemAmount | SummaryItemTokenAmount
  | SummaryItemI64 | SummaryItemU64 | SummaryItemPubkey | SummaryItemHash
  | SummaryItemSizedString | SummaryItemString | SummaryItemTimestamp
  | SummaryItemOffchainMessageApplicationDomain

datatype transaction_type_t = TRANSACTION_TYPE_OTHER | TRANSACTION_TYPE_SOL_TRANSFER
  | TRANSACTION_TYPE_SPL_TRANSFER | TRANSACTION_TYPE_SOL_STAKING
  | TRANSACTION_TYPE_SOL_DEACTIVATE_STAKE | TRANSACTION_TYPE_SOL_ACTIVATE_STAKE
  | TRANSACTION_TYPE_SOL_WITHDRAW | TRANSACTION_TYPE_BLIND_SIGNING
  | TRANSACTION_TYPE_AGENC_ACTION

text \<open>
  The tagged union of \<open>SummaryItem\<close>: the kind and the member of the union it selects. A
  string is the C string, a sized string its bytes, a key or a hash the pointer.
\<close>

datatype SummaryValue = ItemNone
  | ItemAmount u64 | ItemTokenAmount u64 string u8 | ItemI64 i64 | ItemU64 u64
  | ItemPubkey byte_ptr | ItemHash byte_ptr | ItemSizedString SizedString | ItemString string
  | ItemTimestamp i64 | ItemApplicationDomain byte_ptr

fun item_kind :: "SummaryValue \<Rightarrow> SummaryItemKind" where
  "item_kind ItemNone = SummaryItemNone"
| "item_kind (ItemAmount _) = SummaryItemAmount"
| "item_kind (ItemTokenAmount _ _ _) = SummaryItemTokenAmount"
| "item_kind (ItemI64 _) = SummaryItemI64"
| "item_kind (ItemU64 _) = SummaryItemU64"
| "item_kind (ItemPubkey _) = SummaryItemPubkey"
| "item_kind (ItemHash _) = SummaryItemHash"
| "item_kind (ItemSizedString _) = SummaryItemSizedString"
| "item_kind (ItemString _) = SummaryItemString"
| "item_kind (ItemTimestamp _) = SummaryItemTimestamp"
| "item_kind (ItemApplicationDomain _) = SummaryItemOffchainMessageApplicationDomain"

record SummaryItem =
  item_title :: string
  item_value :: SummaryValue

abbreviation unused_item :: SummaryItem where
  "unused_item \<equiv> \<lparr>item_title = [], item_value = ItemNone\<rparr>"

record TransactionSummary =
  is_token_2022_transfer :: bool
  fee_warning :: bool
  hook_warning :: bool
  is_blind_signing :: bool
  transaction_type :: transaction_type_t
  primary :: SummaryItem
  fee_payer :: SummaryItem
  nonce_account :: SummaryItem
  nonce_authority :: SummaryItem
  general :: "SummaryItem list"

definition transaction_summary_reset :: TransactionSummary where
  "transaction_summary_reset = \<lparr>is_token_2022_transfer = False, fee_warning = False,
     hook_warning = False, is_blind_signing = False, transaction_type = TRANSACTION_TYPE_OTHER,
     primary = unused_item, fee_payer = unused_item, nonce_account = unused_item,
     nonce_authority = unused_item, general = replicate NUM_GENERAL_ITEMS unused_item\<rparr>"

definition is_summary_item_used :: "SummaryItem \<Rightarrow> bool" where
  "is_summary_item_used item = (item_kind (item_value item) \<noteq> SummaryItemNone)"

text \<open>
  A \<open>SummaryItem *\<close> names a place in the summary; \<open>None\<close> is the null pointer. Writing through
  it is \<open>write_item\<close>: \<open>None\<close> when the pointer is null.
\<close>

datatype item_slot = Primary | FeePayer | NonceAccount | NonceAuthority | General nat

fun item_at :: "TransactionSummary \<Rightarrow> item_slot \<Rightarrow> SummaryItem" where
  "item_at S Primary = primary S"
| "item_at S FeePayer = fee_payer S"
| "item_at S NonceAccount = nonce_account S"
| "item_at S NonceAuthority = nonce_authority S"
| "item_at S (General i) = general S ! i"

fun write_item :: "item_slot option \<Rightarrow> SummaryItem \<Rightarrow> TransactionSummary \<Rightarrow> TransactionSummary option" where
  "write_item None it S = None"
| "write_item (Some Primary) it S = Some (S\<lparr>primary := it\<rparr>)"
| "write_item (Some FeePayer) it S = Some (S\<lparr>fee_payer := it\<rparr>)"
| "write_item (Some NonceAccount) it S = Some (S\<lparr>nonce_account := it\<rparr>)"
| "write_item (Some NonceAuthority) it S = Some (S\<lparr>nonce_authority := it\<rparr>)"
| "write_item (Some (General i)) it S = Some (S\<lparr>general := (general S)[i := it]\<rparr>)"

definition summary_item_set_amount :: "item_slot option \<Rightarrow> string \<Rightarrow> u64 \<Rightarrow> TransactionSummary \<Rightarrow> TransactionSummary option" where
  "summary_item_set_amount item title v = write_item item \<lparr>item_title = title, item_value = ItemAmount v\<rparr>"

definition summary_item_set_token_amount :: "item_slot option \<Rightarrow> string \<Rightarrow> u64 \<Rightarrow> string \<Rightarrow> u8 \<Rightarrow> TransactionSummary \<Rightarrow> TransactionSummary option" where
  "summary_item_set_token_amount item title v symbol decimals =
     write_item item \<lparr>item_title = title, item_value = ItemTokenAmount v symbol decimals\<rparr>"

definition summary_item_set_i64 :: "item_slot option \<Rightarrow> string \<Rightarrow> i64 \<Rightarrow> TransactionSummary \<Rightarrow> TransactionSummary option" where
  "summary_item_set_i64 item title v = write_item item \<lparr>item_title = title, item_value = ItemI64 v\<rparr>"

definition summary_item_set_u64 :: "item_slot option \<Rightarrow> string \<Rightarrow> u64 \<Rightarrow> TransactionSummary \<Rightarrow> TransactionSummary option" where
  "summary_item_set_u64 item title v = write_item item \<lparr>item_title = title, item_value = ItemU64 v\<rparr>"

definition summary_item_set_pubkey :: "item_slot option \<Rightarrow> string \<Rightarrow> byte_ptr \<Rightarrow> TransactionSummary \<Rightarrow> TransactionSummary option" where
  "summary_item_set_pubkey item title v = write_item item \<lparr>item_title = title, item_value = ItemPubkey v\<rparr>"

definition summary_item_set_hash :: "item_slot option \<Rightarrow> string \<Rightarrow> byte_ptr \<Rightarrow> TransactionSummary \<Rightarrow> TransactionSummary option" where
  "summary_item_set_hash item title v = write_item item \<lparr>item_title = title, item_value = ItemHash v\<rparr>"

definition summary_item_set_sized_string :: "item_slot option \<Rightarrow> string \<Rightarrow> SizedString \<Rightarrow> TransactionSummary \<Rightarrow> TransactionSummary option" where
  "summary_item_set_sized_string item title v =
     write_item item \<lparr>item_title = title, item_value = ItemSizedString v\<rparr>"

definition summary_item_set_string :: "item_slot option \<Rightarrow> string \<Rightarrow> string \<Rightarrow> TransactionSummary \<Rightarrow> TransactionSummary option" where
  "summary_item_set_string item title v = write_item item \<lparr>item_title = title, item_value = ItemString v\<rparr>"

definition summary_item_set_timestamp :: "item_slot option \<Rightarrow> string \<Rightarrow> i64 \<Rightarrow> TransactionSummary \<Rightarrow> TransactionSummary option" where
  "summary_item_set_timestamp item title v =
     write_item item \<lparr>item_title = title, item_value = ItemTimestamp v\<rparr>"

definition summary_item_set_offchain_message_application_domain :: "item_slot option \<Rightarrow> string \<Rightarrow> byte_ptr \<Rightarrow> TransactionSummary \<Rightarrow> TransactionSummary option" where
  "summary_item_set_offchain_message_application_domain item title v =
     write_item item \<lparr>item_title = title, item_value = ItemApplicationDomain v\<rparr>"

section \<open>Finding a free item\<close>

definition summary_item_as_unused :: "TransactionSummary \<Rightarrow> item_slot \<Rightarrow> item_slot option" where
  "summary_item_as_unused S slot = (if \<not> is_summary_item_used (item_at S slot) then Some slot else None)"

definition transaction_summary_primary_item :: "TransactionSummary \<Rightarrow> item_slot option" where
  "transaction_summary_primary_item S = summary_item_as_unused S Primary"

definition transaction_summary_fee_payer_item :: "TransactionSummary \<Rightarrow> item_slot option" where
  "transaction_summary_fee_payer_item S = summary_item_as_unused S FeePayer"

definition transaction_summary_nonce_account_item :: "TransactionSummary \<Rightarrow> item_slot option" where
  "transaction_summary_nonce_account_item S = summary_item_as_unused S NonceAccount"

definition transaction_summary_nonce_authority_item :: "TransactionSummary \<Rightarrow> item_slot option" where
  "transaction_summary_nonce_authority_item S = summary_item_as_unused S NonceAuthority"

text \<open>The loop over \<open>general\<close>: the index of the first unused item.\<close>

fun first_unused :: "nat \<Rightarrow> SummaryItem list \<Rightarrow> item_slot option" where
  "first_unused i [] = None"
| "first_unused i (item # items) =
     (if \<not> is_summary_item_used item then Some (General i) else first_unused (Suc i) items)"

definition transaction_summary_general_item :: "TransactionSummary \<Rightarrow> item_slot option" where
  "transaction_summary_general_item S = first_unused 0 (general S)"

definition transaction_summary_primary_or_general_item :: "TransactionSummary \<Rightarrow> item_slot option" where
  "transaction_summary_primary_or_general_item S =
     (case transaction_summary_primary_item S of Some item \<Rightarrow> Some item
      | None \<Rightarrow> transaction_summary_general_item S)"

definition transaction_summary_set_token_fee_warning :: "bool \<Rightarrow> TransactionSummary \<Rightarrow> TransactionSummary" where
  "transaction_summary_set_token_fee_warning w S = S\<lparr>fee_warning := w\<rparr>"

definition transaction_summary_set_token_hook_warning :: "bool \<Rightarrow> TransactionSummary \<Rightarrow> TransactionSummary" where
  "transaction_summary_set_token_hook_warning w S = S\<lparr>hook_warning := w\<rparr>"

definition transaction_summary_get_token_warnings :: "TransactionSummary \<Rightarrow> bool \<times> bool" where
  "transaction_summary_get_token_warnings S = (fee_warning S, hook_warning S)"

definition transaction_summary_set_is_token_2022_transfer :: "bool \<Rightarrow> TransactionSummary \<Rightarrow> TransactionSummary" where
  "transaction_summary_set_is_token_2022_transfer b S = S\<lparr>is_token_2022_transfer := b\<rparr>"

definition transaction_summary_set_transaction_type :: "transaction_type_t \<Rightarrow> TransactionSummary \<Rightarrow> TransactionSummary" where
  "transaction_summary_set_transaction_type t S = S\<lparr>transaction_type := t\<rparr>"

definition transaction_summary_set_blind_signing :: "bool \<Rightarrow> TransactionSummary \<Rightarrow> TransactionSummary" where
  "transaction_summary_set_blind_signing b S = S\<lparr>is_blind_signing := b\<rparr>"

definition transaction_summary_set_fee_payer_pubkey :: "byte_ptr \<Rightarrow> TransactionSummary \<Rightarrow> TransactionSummary c_result" where
  "transaction_summary_set_fee_payer_pubkey pubkey S =
     (let item = transaction_summary_fee_payer_item S
      in if item = None then Some (1, S)
         else do { S \<leftarrow> summary_item_set_pubkey item ''Fee payer'' pubkey S; Some (0, S) })"

section \<open>Finalising and finding an item by its number\<close>

definition set_if_used :: "SummaryItem \<Rightarrow> SummaryItemKind list \<Rightarrow> SummaryItemKind list" where
  "set_if_used item kinds =
     (if item_kind (item_value item) \<noteq> SummaryItemNone then kinds @ [item_kind (item_value item)]
      else kinds)"

definition transaction_summary_finalize :: "TransactionSummary \<Rightarrow> SummaryItemKind list option" where
  "transaction_summary_finalize S =
     (if item_kind (item_value (primary S)) = SummaryItemNone then None
      else let kinds = set_if_used (primary S) [];
               kinds = fold set_if_used (general S) kinds;
               kinds = set_if_used (nonce_account S) kinds;
               kinds = set_if_used (nonce_authority S) kinds;
               kinds = set_if_used (fee_payer S) kinds
           in Some kinds)"

fun find_in_general :: "SummaryItem list \<Rightarrow> nat \<Rightarrow> nat \<Rightarrow> SummaryItem + nat" where
  "find_in_general [] current_index item_index = Inr current_index"
| "find_in_general (item # items) current_index item_index =
     (if is_summary_item_used item then
        if current_index = item_index then Inl item
        else find_in_general items (current_index + 1) item_index
      else find_in_general items current_index item_index)"

definition transaction_summary_find_item :: "TransactionSummary \<Rightarrow> nat \<Rightarrow> SummaryItem option" where
  "transaction_summary_find_item S item_index =
     (if 0 = item_index then Some (primary S)
      else case find_in_general (general S) 1 item_index of
        Inl item \<Rightarrow> Some item
      | Inr current_index \<Rightarrow>
          if is_summary_item_used (nonce_account S) \<and> current_index = item_index
          then Some (nonce_account S)
          else let current_index = current_index + (if is_summary_item_used (nonce_account S) then 1 else 0)
          in if is_summary_item_used (nonce_authority S) \<and> current_index = item_index
             then Some (nonce_authority S)
             else let current_index = current_index + (if is_summary_item_used (nonce_authority S) then 1 else 0)
             in if current_index = item_index then Some (fee_payer S) else None)"

section \<open>Print configuration\<close>

record PrintConfig =
  config_header :: MessageHeader
  expert_mode :: bool
  force_full_print :: bool
  user_input_is_ata_or_token_account :: bool
  signer_pubkey :: byte_ptr

definition print_config_show_authority :: "PrintConfig \<Rightarrow> byte_ptr \<Rightarrow> bool" where
  "print_config_show_authority print_config authority =
     (expert_mode print_config \<or> \<not> pubkeys_equal (signer_pubkey print_config) authority)"

section \<open>The state of the screen\<close>

text \<open>
  A summary is well formed when the used general items are a prefix of the array and the
  rest is untouched; \<open>filled\<close> are the general items that will be displayed, \<open>pad\<close> the
  array that holds them.
\<close>

definition pad :: "SummaryItem list \<Rightarrow> SummaryItem list" where
  "pad items = items @ replicate (NUM_GENERAL_ITEMS - length items) unused_item"

definition filled :: "TransactionSummary \<Rightarrow> SummaryItem list" where
  "filled S = filter is_summary_item_used (general S)"

definition screen_ok :: "TransactionSummary \<Rightarrow> bool" where
  "screen_ok S = (general S = pad (filled S) \<and> length (filled S) \<le> NUM_GENERAL_ITEMS)"

lemma used_simps [simp]:
  "\<not> is_summary_item_used unused_item"
  "is_summary_item_used \<lparr>item_title = t, item_value = v\<rparr> \<longleftrightarrow> v \<noteq> ItemNone"
  by (simp_all add: is_summary_item_used_def) (cases v; simp)

lemma filter_pad [simp]: "filter is_summary_item_used (pad items) = filter is_summary_item_used items"
  by (simp add: pad_def)

lemma length_filled: "screen_ok S \<Longrightarrow> length (general S) = NUM_GENERAL_ITEMS"
  by (simp add: screen_ok_def) (simp add: pad_def)

lemma used_filled: "it \<in> set (filled S) \<Longrightarrow> is_summary_item_used it"
  by (simp add: filled_def)

lemma first_unused_pad:
  "\<forall>it \<in> set items. is_summary_item_used it \<Longrightarrow>
   first_unused k (items @ replicate m unused_item) = (if m = 0 then None else Some (General (k + length items)))"
  by (induction items arbitrary: k) (auto simp: gr0_conv_Suc)

text \<open>Writing the next general item: the abstract operation the printers perform.\<close>

lemma general_item_ok:
  assumes "screen_ok S"
  shows "transaction_summary_general_item S
    = (if length (filled S) < NUM_GENERAL_ITEMS then Some (General (length (filled S))) else None)"
proof -
  have "general S = filled S @ replicate (NUM_GENERAL_ITEMS - length (filled S)) unused_item"
    using assms by (simp add: screen_ok_def pad_def)
  then show ?thesis
    unfolding transaction_summary_general_item_def
    using first_unused_pad [of "filled S" 0] used_filled by simp
qed

lemma write_general_ok:
  assumes "screen_ok S"
  shows "write_item (transaction_summary_general_item S) it S
    = (if length (filled S) < NUM_GENERAL_ITEMS then Some (S\<lparr>general := pad (filled S @ [it])\<rparr>) else None)"
proof -
  have "(filled S @ replicate n unused_item)[length (filled S) := it]
      = filled S @ it # replicate (n - 1) unused_item" if "0 < n" for n
    using that by (cases n) (simp_all add: list_update_append)
  moreover have "general S = filled S @ replicate (NUM_GENERAL_ITEMS - length (filled S)) unused_item"
    using assms by (simp add: screen_ok_def pad_def)
  ultimately show ?thesis
    by (simp add: general_item_ok [OF assms] pad_def)
qed

lemma filled_write [simp]:
  "filled (S\<lparr>general := pad items\<rparr>) = filter is_summary_item_used items"
  "filled (S\<lparr>primary := it\<rparr>) = filled S"
  "filled (S\<lparr>fee_payer := it\<rparr>) = filled S"
  "filled (S\<lparr>nonce_account := it\<rparr>) = filled S"
  "filled (S\<lparr>nonce_authority := it\<rparr>) = filled S"
  "filled (S\<lparr>is_token_2022_transfer := b\<rparr>) = filled S"
  "filled (S\<lparr>fee_warning := b\<rparr>) = filled S"
  "filled (S\<lparr>hook_warning := b\<rparr>) = filled S"
  "filled (S\<lparr>is_blind_signing := b\<rparr>) = filled S"
  "filled (S\<lparr>transaction_type := t\<rparr>) = filled S"
  by (simp_all add: filled_def)

lemma filter_filled [simp]: "filter is_summary_item_used (filled S) = filled S"
  by (simp add: filled_def)

lemma screen_ok_write [simp]:
  "screen_ok (S\<lparr>primary := it\<rparr>) = screen_ok S"
  "screen_ok (S\<lparr>fee_payer := it\<rparr>) = screen_ok S"
  "screen_ok (S\<lparr>nonce_account := it\<rparr>) = screen_ok S"
  "screen_ok (S\<lparr>nonce_authority := it\<rparr>) = screen_ok S"
  "screen_ok (S\<lparr>is_token_2022_transfer := b\<rparr>) = screen_ok S"
  "screen_ok (S\<lparr>fee_warning := b\<rparr>) = screen_ok S"
  "screen_ok (S\<lparr>hook_warning := b\<rparr>) = screen_ok S"
  "screen_ok (S\<lparr>is_blind_signing := b\<rparr>) = screen_ok S"
  "screen_ok (S\<lparr>transaction_type := t\<rparr>) = screen_ok S"
  by (auto simp: screen_ok_def list_all_iff)

lemma screen_ok_general:
  "list_all is_summary_item_used items \<Longrightarrow> length items \<le> NUM_GENERAL_ITEMS \<Longrightarrow>
   screen_ok (S\<lparr>general := pad items\<rparr>)"
  by (simp add: screen_ok_def list_all_iff)

lemma list_all_filled [simp]: "list_all is_summary_item_used (filled S)"
  by (simp add: filled_def list_all_iff)

lemma screen_ok_reset [simp]: "screen_ok transaction_summary_reset"
  and filled_reset [simp]: "filled transaction_summary_reset = []"
  by (simp_all add: screen_ok_def filled_def transaction_summary_reset_def pad_def)

section \<open>The contract of a printer\<close>

text \<open>
  \<open>keeps S S'\<close>: the step from \<open>S\<close> to \<open>S'\<close> only adds items. What was filled is displayed
  unchanged and in the same order.
\<close>

definition keeps :: "TransactionSummary \<Rightarrow> TransactionSummary \<Rightarrow> bool" where
  "keeps S S' = (screen_ok S \<longrightarrow> screen_ok S' \<and> (\<exists>items. filled S' = filled S @ items)
     \<and> (\<forall>slot \<in> {Primary, FeePayer, NonceAccount, NonceAuthority}.
          is_summary_item_used (item_at S slot) \<longrightarrow> item_at S' slot = item_at S slot))"

definition free_slot :: "TransactionSummary \<Rightarrow> item_slot option \<Rightarrow> bool" where
  "free_slot S sl = (\<forall>slot. sl = Some slot \<longrightarrow>
     (case slot of General i \<Rightarrow> sl = transaction_summary_general_item S
      | _ \<Rightarrow> \<not> is_summary_item_used (item_at S slot)))"

definition kept :: "TransactionSummary \<Rightarrow> TransactionSummary c_result \<Rightarrow> bool" where
  "kept S r = (\<forall>rc S'. r = Some (rc, S') \<longrightarrow> keeps S S')"

lemma keeps_refl [simp]: "keeps S S"
  by (simp add: keeps_def)

lemma keeps_trans: "keeps S T \<Longrightarrow> keeps T U \<Longrightarrow> keeps S U"
  unfolding keeps_def by (auto; metis)

lemma write_keeps:
  assumes free: "free_slot S sl" and used: "is_summary_item_used it"
    and w: "write_item sl it S = Some S'"
  shows "keeps S S'"
proof -
  obtain slot where sl: "sl = Some slot" using w by (cases sl) auto
  show ?thesis
  proof (cases slot)
    case (General i)
    then have gen: "sl = transaction_summary_general_item S"
      using free sl by (simp add: free_slot_def)
    show ?thesis unfolding keeps_def
    proof
      assume ok: "screen_ok S"
      then have len: "length (filled S) < NUM_GENERAL_ITEMS"
        and S': "S' = S\<lparr>general := pad (filled S @ [it])\<rparr>"
        using w gen write_general_ok [OF ok] by (auto split: if_splits)
      show "screen_ok S' \<and> (\<exists>items. filled S' = filled S @ items)
        \<and> (\<forall>slot \<in> {Primary, FeePayer, NonceAccount, NonceAuthority}.
             is_summary_item_used (item_at S slot) \<longrightarrow> item_at S' slot = item_at S slot)"
        using len used by (auto simp: S' intro: screen_ok_general)
    qed
  qed (use free sl w in \<open>auto simp: keeps_def free_slot_def\<close>)
qed

lemma first_unused_general: "first_unused k items = Some slot \<Longrightarrow> \<exists>i. slot = General i"
  by (induction items arbitrary: k) (auto split: if_splits)

lemma free_slot_intros [simp]:
  "free_slot S (transaction_summary_primary_item S)"
  "free_slot S (transaction_summary_fee_payer_item S)"
  "free_slot S (transaction_summary_nonce_account_item S)"
  "free_slot S (transaction_summary_nonce_authority_item S)"
  "free_slot S (transaction_summary_general_item S)"
  using first_unused_general [of 0 "general S"]
  by (auto simp: free_slot_def transaction_summary_primary_item_def transaction_summary_general_item_def
      transaction_summary_fee_payer_item_def transaction_summary_nonce_account_item_def
      transaction_summary_nonce_authority_item_def summary_item_as_unused_def
      split: item_slot.splits if_splits)

lemma free_slot_primary_or_general [simp]:
  "free_slot S (transaction_summary_primary_or_general_item S)"
  by (simp add: transaction_summary_primary_or_general_item_def split: option.split)
    (metis free_slot_intros(1))

lemmas summary_item_set_defs =
  summary_item_set_amount_def summary_item_set_token_amount_def summary_item_set_i64_def
  summary_item_set_u64_def summary_item_set_pubkey_def summary_item_set_hash_def
  summary_item_set_sized_string_def summary_item_set_string_def summary_item_set_timestamp_def
  summary_item_set_offchain_message_application_domain_def

named_theorems keep "introduction rules of the contract of a printer"

lemma kept_write:
  assumes "free_slot S sl" "is_summary_item_used it" "\<And>S'. kept S' (k S')"
  shows "kept S (Option.bind (write_item sl it S) k)"
  unfolding kept_def
proof (intro allI impI)
  fix rc S' assume "Option.bind (write_item sl it S) k = Some (rc, S')"
  then obtain T where T: "write_item sl it S = Some T" "k T = Some (rc, S')"
    by (auto simp: Option.bind_eq_Some_conv)
  then show "keeps S S'"
    using assms(3) write_keeps [OF assms(1,2)] keeps_trans unfolding kept_def by blast
qed

lemma kept_set [keep]:
  assumes "free_slot S sl" "\<And>S'. kept S' (k S')"
  shows "kept S (Option.bind (summary_item_set_amount sl t v S) k)"
    and "kept S (Option.bind (summary_item_set_token_amount sl t v symb dec S) k)"
    and "kept S (Option.bind (summary_item_set_i64 sl t i S) k)"
    and "kept S (Option.bind (summary_item_set_u64 sl t v S) k)"
    and "kept S (Option.bind (summary_item_set_pubkey sl t p S) k)"
    and "kept S (Option.bind (summary_item_set_hash sl t p S) k)"
    and "kept S (Option.bind (summary_item_set_sized_string sl t s S) k)"
    and "kept S (Option.bind (summary_item_set_string sl t str S) k)"
    and "kept S (Option.bind (summary_item_set_timestamp sl t i S) k)"
    and "kept S (Option.bind (summary_item_set_offchain_message_application_domain sl t p S) k)"
  unfolding summary_item_set_defs by (rule kept_write [OF assms(1)], simp, rule assms(2))+

lemma kept_return [keep]: "kept S (Some (rc, S))" and kept_null [keep]: "kept S None"
  by (simp_all add: kept_def)

lemma kept_bail [keep]:
  assumes "kept S r" "\<And>S'. kept S' (k S')"
  shows "kept S (bail_if r k)"
proof (cases r)
  case (Some x)
  obtain rc T where "x = (rc, T)" by (cases x)
  have "keeps S T" using assms(1) Some \<open>x = (rc, T)\<close> by (simp add: kept_def)
  then show ?thesis
    using assms(2) [of T] Some \<open>x = (rc, T)\<close> keeps_trans [of S T]
    by (cases "rc = 0") (auto simp: kept_def)
qed (simp add: kept_def)

lemma kept_if [keep]: "(b \<Longrightarrow> kept S x) \<Longrightarrow> (\<not> b \<Longrightarrow> kept S y) \<Longrightarrow> kept S (if b then x else y)"
  by simp

lemma kept_case_option [keep]:
  "(x = None \<Longrightarrow> kept S f) \<Longrightarrow> (\<And>v. x = Some v \<Longrightarrow> kept S (g v)) \<Longrightarrow> kept S (case x of None \<Rightarrow> f | Some v \<Rightarrow> g v)"
  by (cases x) auto

lemma keeps_flags:
  "keeps S (transaction_summary_set_token_fee_warning b S)"
  "keeps S (transaction_summary_set_token_hook_warning b S)"
  "keeps S (transaction_summary_set_is_token_2022_transfer b S)"
  "keeps S (transaction_summary_set_transaction_type t S)"
  "keeps S (transaction_summary_set_blind_signing b S)"
  by (auto simp: keeps_def transaction_summary_set_token_fee_warning_def
      transaction_summary_set_token_hook_warning_def
      transaction_summary_set_is_token_2022_transfer_def
      transaction_summary_set_transaction_type_def transaction_summary_set_blind_signing_def)

lemma kept_flags [keep]:
  assumes "\<And>S'. kept S' (k S')"
  shows "kept S (Let (transaction_summary_set_token_fee_warning b S) k)"
    and "kept S (Let (transaction_summary_set_token_hook_warning b S) k)"
    and "kept S (Let (transaction_summary_set_is_token_2022_transfer b S) k)"
    and "kept S (Let (transaction_summary_set_transaction_type t S) k)"
    and "kept S (Let (transaction_summary_set_blind_signing b S) k)"
  using assms keeps_flags keeps_trans unfolding kept_def Let_def by blast+

text \<open>
  The interface between the transaction printers and the summary: a printer is a step on
  the summary that only adds items.
\<close>

locale printer =
  fixes print :: "TransactionSummary \<Rightarrow> TransactionSummary c_result"
  assumes adds: "kept S (print S)"
begin

lemma well_formed: "screen_ok S \<Longrightarrow> print S = Some (rc, S') \<Longrightarrow> screen_ok S'"
  using adds [of S] by (simp add: kept_def keeps_def)

lemma extends: "screen_ok S \<Longrightarrow> print S = Some (rc, S') \<Longrightarrow> \<exists>items. filled S' = filled S @ items"
  using adds [of S] by (simp add: kept_def keeps_def)

lemma primary_fixed:
  "screen_ok S \<Longrightarrow> print S = Some (rc, S') \<Longrightarrow> is_summary_item_used (primary S) \<Longrightarrow>
   primary S' = primary S"
  using adds [of S] by (simp add: kept_def keeps_def)

lemma fee_payer_fixed:
  "screen_ok S \<Longrightarrow> print S = Some (rc, S') \<Longrightarrow> is_summary_item_used (fee_payer S) \<Longrightarrow>
   fee_payer S' = fee_payer S"
  using adds [of S] by (simp add: kept_def keeps_def)

end

section \<open>The order of display\<close>

definition shown :: "TransactionSummary \<Rightarrow> SummaryItem list" where
  "shown S = filter is_summary_item_used
     (primary S # general S @ [nonce_account S, nonce_authority S, fee_payer S])"

lemma fold_set_if_used:
  "fold set_if_used items kinds
     = kinds @ map (\<lambda>it. item_kind (item_value it)) (filter is_summary_item_used items)"
  by (induction items arbitrary: kinds) (auto simp: set_if_used_def is_summary_item_used_def)

lemma finalize_shown:
  "transaction_summary_finalize S =
     (if is_summary_item_used (primary S) then Some (map (\<lambda>it. item_kind (item_value it)) (shown S))
      else None)"
  by (auto simp: transaction_summary_finalize_def fold_set_if_used shown_def set_if_used_def
      is_summary_item_used_def Let_def)

lemma find_in_general_eq:
  "c \<le> i \<Longrightarrow> find_in_general items c i =
     (let used = filter is_summary_item_used items
      in if i < c + length used then Inl (used ! (i - c)) else Inr (c + length used))"
proof (induction items arbitrary: c)
  case (Cons it items)
  show ?case
  proof (cases "is_summary_item_used it \<and> c < i")
    case True
    with Cons have "Suc c \<le> i" by simp
    with True Cons.IH [of "Suc c"] show ?thesis
      by (auto simp: Let_def nth_Cons' less_Suc_eq_le)
  next
    case False
    with Cons show ?thesis by (auto simp: Let_def)
  qed
qed simp

lemma find_item_shown:
  assumes "is_summary_item_used (primary S)" "i < length (shown S)"
  shows "transaction_summary_find_item S i = Some (shown S ! i)"
proof (cases i)
  case 0
  then show ?thesis using assms(1) by (simp add: transaction_summary_find_item_def shown_def)
next
  case (Suc j)
  have find: "find_in_general (general S) (Suc 0) (Suc j) =
      (if j < length (filled S) then Inl (filled S ! j) else Inr (Suc (length (filled S))))"
    using find_in_general_eq [of "Suc 0" "Suc j" "general S"] by (simp add: filled_def Let_def)
  show ?thesis
    using assms Suc
    by (auto simp: transaction_summary_find_item_def shown_def find Let_def nth_append nth_Cons'
        less_Suc_eq_le simp flip: filled_def split: if_splits)
qed

text \<open>Finalising a summary succeeds exactly when the primary item is set; the kinds it
  returns are, one for one, those of the items that \<open>transaction_summary_find_item\<close> gives for
  the indices the interface will ask for, every one of them is set, and there are never more
  than \<open>MAX_TRANSACTION_SUMMARY_ITEMS\<close>, the size of the callers' array.\<close>

theorem finalize_find_item:
  assumes "length (general S) = NUM_GENERAL_ITEMS" and "transaction_summary_finalize S = Some kinds"
  shows "length kinds \<le> MAX_TRANSACTION_SUMMARY_ITEMS
    \<and> (\<forall>i < length kinds. \<exists>it. transaction_summary_find_item S i = Some it
          \<and> is_summary_item_used it \<and> kinds ! i = item_kind (item_value it))"
proof -
  have p: "is_summary_item_used (primary S)"
    and kinds: "kinds = map (\<lambda>it. item_kind (item_value it)) (shown S)"
    using assms(2) by (auto simp: finalize_shown split: if_splits)
  have "length (shown S) \<le> MAX_TRANSACTION_SUMMARY_ITEMS"
    unfolding shown_def MAX_TRANSACTION_SUMMARY_ITEMS_def
    by (rule order_trans [OF length_filter_le]) (simp add: assms(1))
  moreover have "is_summary_item_used (shown S ! i)" if "i < length (shown S)" for i
    using nth_mem [OF that] unfolding shown_def set_filter by blast
  ultimately show ?thesis using find_item_shown [OF p] by (auto simp: kinds)
qed

theorem finalize_find_item_witness:
  "\<exists>S kinds. transaction_summary_finalize S = Some kinds \<and> length kinds = 2
     \<and> length kinds \<le> MAX_TRANSACTION_SUMMARY_ITEMS"
proof -
  let ?S = "transaction_summary_reset\<lparr>primary := \<lparr>item_title = ''AgenC action'', item_value = ItemU64 1\<rparr>,
    fee_payer := \<lparr>item_title = ''Fee payer'', item_value = ItemPubkey (Ptr 0 [])\<rparr>\<rparr>"
  have l: "length (general ?S) = NUM_GENERAL_ITEMS"
    by (simp add: transaction_summary_reset_def)
  have f: "transaction_summary_finalize ?S = Some [SummaryItemU64, SummaryItemPubkey]"
    by (simp add: finalize_shown shown_def transaction_summary_reset_def)
  show ?thesis using finalize_find_item [OF l f] f
    by (intro exI [of _ ?S] exI [of _ "[SummaryItemU64, SummaryItemPubkey]"]) simp
qed

context printer
begin

text \<open>Items stay where they are: what was shown at an index is shown there afterwards.\<close>

lemma still_shown:
  assumes "screen_ok S" "print S = Some (rc, S')" "is_summary_item_used (primary S)"
    and "i \<le> length (filled S)"
  shows "transaction_summary_find_item S' i = transaction_summary_find_item S i"
proof -
  obtain items where items: "filled S' = filled S @ items" using extends [OF assms(1,2)] by blast
  have p: "primary S' = primary S" using primary_fixed assms by blast
  have shown: "shown T ! i = (primary T # filled T) ! i" "i < length (shown T)"
    if "is_summary_item_used (primary T)" "i \<le> length (filled T)" for T
    using that by (auto simp: shown_def filled_def nth_Cons' nth_append)
  have "i \<le> length (filled S')" using assms(4) items by simp
  then show ?thesis
    using find_item_shown shown assms(3,4) p items by (simp add: nth_Cons' nth_append)
qed

end

section \<open>Rules for composed printers\<close>

lemma kept_bind_if [keep]:
  "(b \<Longrightarrow> kept S (Option.bind x k)) \<Longrightarrow> (\<not> b \<Longrightarrow> kept S (Option.bind y k)) \<Longrightarrow>
   kept S (Option.bind (if b then x else y) k)"
  by simp

lemma kept_bind_option [keep]:
  "(v = None \<Longrightarrow> kept S (Option.bind f k)) \<Longrightarrow> (\<And>w. v = Some w \<Longrightarrow> kept S (Option.bind (g w) k)) \<Longrightarrow>
   kept S (Option.bind (case v of None \<Rightarrow> f | Some w \<Rightarrow> g w) k)"
  by (cases v) auto

lemma kept_bind_bind [keep]:
  "kept S (Option.bind a (\<lambda>x. Option.bind (b x) k)) \<Longrightarrow> kept S (Option.bind (Option.bind a b) k)"
  by simp

lemma kept_bind_Some [keep]: "kept S (k v) \<Longrightarrow> kept S (Option.bind (Some v) k)"
  by simp

lemma kept_Let_plain: "kept S (k v) \<Longrightarrow> kept S (Let v k)"
  by simp

text \<open>
  Evaluation of a printer on a well formed screen: every successful request for an item
  appends to \<open>filled\<close>, and the eleventh-and-one is a null write.
\<close>

lemma num_general: "NUM_GENERAL_ITEMS = 11"
  by (simp add: NUM_GENERAL_ITEMS_def)

lemma set_general:
  assumes "screen_ok S" "length (filled S) < 11"
  shows "summary_item_set_amount (transaction_summary_general_item S) t v S
       = Some (S\<lparr>general := pad (filled S @ [\<lparr>item_title = t, item_value = ItemAmount v\<rparr>])\<rparr>)"
    and "summary_item_set_token_amount (transaction_summary_general_item S) t v symb dec S
       = Some (S\<lparr>general := pad (filled S @ [\<lparr>item_title = t, item_value = ItemTokenAmount v symb dec\<rparr>])\<rparr>)"
    and "summary_item_set_i64 (transaction_summary_general_item S) t i S
       = Some (S\<lparr>general := pad (filled S @ [\<lparr>item_title = t, item_value = ItemI64 i\<rparr>])\<rparr>)"
    and "summary_item_set_u64 (transaction_summary_general_item S) t v S
       = Some (S\<lparr>general := pad (filled S @ [\<lparr>item_title = t, item_value = ItemU64 v\<rparr>])\<rparr>)"
    and "summary_item_set_pubkey (transaction_summary_general_item S) t p S
       = Some (S\<lparr>general := pad (filled S @ [\<lparr>item_title = t, item_value = ItemPubkey p\<rparr>])\<rparr>)"
    and "summary_item_set_hash (transaction_summary_general_item S) t p S
       = Some (S\<lparr>general := pad (filled S @ [\<lparr>item_title = t, item_value = ItemHash p\<rparr>])\<rparr>)"
    and "summary_item_set_sized_string (transaction_summary_general_item S) t s S
       = Some (S\<lparr>general := pad (filled S @ [\<lparr>item_title = t, item_value = ItemSizedString s\<rparr>])\<rparr>)"
    and "summary_item_set_string (transaction_summary_general_item S) t str S
       = Some (S\<lparr>general := pad (filled S @ [\<lparr>item_title = t, item_value = ItemString str\<rparr>])\<rparr>)"
    and "summary_item_set_timestamp (transaction_summary_general_item S) t i S
       = Some (S\<lparr>general := pad (filled S @ [\<lparr>item_title = t, item_value = ItemTimestamp i\<rparr>])\<rparr>)"
  using assms by (simp_all add: summary_item_set_defs write_general_ok num_general)

lemma general_full:
  "screen_ok S \<Longrightarrow> 11 \<le> length (filled S) \<Longrightarrow> transaction_summary_general_item S = None"
  by (simp add: general_item_ok num_general)

lemma general_not_full:
  "screen_ok S \<Longrightarrow> length (filled S) < 11 \<Longrightarrow> transaction_summary_general_item S \<noteq> None"
  by (simp add: general_item_ok num_general)

lemma primary_free: "\<not> is_summary_item_used (primary S) \<Longrightarrow> transaction_summary_primary_item S = Some Primary"
  by (simp add: transaction_summary_primary_item_def summary_item_as_unused_def)

lemma screen_ok_general11:
  "list_all is_summary_item_used items \<Longrightarrow> length items \<le> 11 \<Longrightarrow> screen_ok (S\<lparr>general := pad items\<rparr>)"
  by (simp add: screen_ok_general num_general)

lemma set_primary:
  assumes "\<not> is_summary_item_used (primary S)"
  shows "summary_item_set_amount (transaction_summary_primary_item S) t v S
       = Some (S\<lparr>primary := \<lparr>item_title = t, item_value = ItemAmount v\<rparr>\<rparr>)"
    and "summary_item_set_token_amount (transaction_summary_primary_item S) t v symb dec S
       = Some (S\<lparr>primary := \<lparr>item_title = t, item_value = ItemTokenAmount v symb dec\<rparr>\<rparr>)"
    and "summary_item_set_pubkey (transaction_summary_primary_item S) t p S
       = Some (S\<lparr>primary := \<lparr>item_title = t, item_value = ItemPubkey p\<rparr>\<rparr>)"
    and "summary_item_set_string (transaction_summary_primary_item S) t str S
       = Some (S\<lparr>primary := \<lparr>item_title = t, item_value = ItemString str\<rparr>\<rparr>)"
  using assms by (simp_all add: summary_item_set_defs primary_free)

lemma primary_reset [simp]: "primary transaction_summary_reset = unused_item"
  by (simp add: transaction_summary_reset_def)

lemmas screen_eval = set_general set_primary screen_ok_general11
  transaction_summary_set_transaction_type_def

end
