(* ===== verification/Sol_Program_Ids.thy ===== *)
theory Sol_Program_Ids
  imports Sol_Parser
begin

text \<open>
  The program identifiers of \<open>libsol/common_byte_strings.h\<close> and \<open>agenc_instruction.h\<close>: constants of
  the application. They are not in the message, so their address is of no use; it is set to 0 and
  never compared.
\<close>

definition system_program_id :: byte_ptr where
  "system_program_id = Ptr 0
     [0x00, 0x00, 0x00, 0x00, 0x00, 0x00, 0x00, 0x00, 0x00, 0x00, 0x00, 0x00, 0x00, 0x00, 0x00, 0x00,
      0x00, 0x00, 0x00, 0x00, 0x00, 0x00, 0x00, 0x00, 0x00, 0x00, 0x00, 0x00, 0x00, 0x00, 0x00, 0x00]"

definition stake_program_id :: byte_ptr where
  "stake_program_id = Ptr 0
     [0x06, 0xa1, 0xd8, 0x17, 0x91, 0x37, 0x54, 0x2a, 0x98, 0x34, 0x37, 0xbd, 0xfe, 0x2a, 0x7a, 0xb2,
      0x55, 0x7f, 0x53, 0x5c, 0x8a, 0x78, 0x72, 0x2b, 0x68, 0xa4, 0x9d, 0xc0, 0x00, 0x00, 0x00, 0x00]"

definition vote_program_id :: byte_ptr where
  "vote_program_id = Ptr 0
     [0x07, 0x61, 0x48, 0x1d, 0x35, 0x74, 0x74, 0xbb, 0x7c, 0x4d, 0x76, 0x24, 0xeb, 0xd3, 0xbd, 0xb3,
      0xd8, 0x35, 0x5e, 0x73, 0xd1, 0x10, 0x43, 0xfc, 0x0d, 0xa3, 0x53, 0x80, 0x00, 0x00, 0x00, 0x00]"

definition spl_token_program_id :: byte_ptr where
  "spl_token_program_id = Ptr 0
     [0x06, 0xdd, 0xf6, 0xe1, 0xd7, 0x65, 0xa1, 0x93, 0xd9, 0xcb, 0xe1, 0x46, 0xce, 0xeb, 0x79, 0xac,
      0x1c, 0xb4, 0x85, 0xed, 0x5f, 0x5b, 0x37, 0x91, 0x3a, 0x8c, 0xf5, 0x85, 0x7e, 0xff, 0x00, 0xa9]"

definition spl_token2022_program_id :: byte_ptr where
  "spl_token2022_program_id = Ptr 0
     [0x06, 0xdd, 0xf6, 0xe1, 0xee, 0x75, 0x8f, 0xde, 0x18, 0x42, 0x5d, 0xbc, 0xe4, 0x6c, 0xcd, 0xda,
      0xb6, 0x1a, 0xfc, 0x4d, 0x83, 0xb9, 0x0d, 0x27, 0xfe, 0xbd, 0xf9, 0x28, 0xd8, 0xa1, 0x8b, 0xfc]"

definition spl_associated_token_account_program_id :: byte_ptr where
  "spl_associated_token_account_program_id = Ptr 0
     [0x8c, 0x97, 0x25, 0x8f, 0x4e, 0x24, 0x89, 0xf1, 0xbb, 0x3d, 0x10, 0x29, 0x14, 0x8e, 0x0d, 0x83,
      0x0b, 0x5a, 0x13, 0x99, 0xda, 0xff, 0x10, 0x84, 0x04, 0x8e, 0x7b, 0xd8, 0xdb, 0xe9, 0xf8, 0x59]"

definition serum_assert_owner_program_id :: byte_ptr where
  "serum_assert_owner_program_id = Ptr 0
     [0x31, 0xca, 0xdc, 0xe2, 0xaa, 0x36, 0xec, 0x04, 0x60, 0x46, 0x83, 0xea, 0xa6, 0xf1, 0x36, 0x2c,
      0x32, 0x9e, 0x11, 0x91, 0x04, 0x28, 0x42, 0xa0, 0x4e, 0x09, 0xb8, 0x2b, 0x75, 0x9f, 0xb3, 0x24]"

definition serum_assert_owner_program_id_phantom :: byte_ptr where
  "serum_assert_owner_program_id_phantom = Ptr 0
     [0xbb, 0xda, 0x27, 0xbc, 0x25, 0x19, 0xcb, 0xbe, 0xd7, 0xd4, 0x6f, 0x6b, 0x19, 0x77, 0x2f, 0xe7,
      0x1d, 0x72, 0xf3, 0x79, 0x94, 0x6c, 0x56, 0x9e, 0x7d, 0x85, 0x0e, 0xca, 0x3c, 0x71, 0x1d, 0x31]"

definition spl_memo_program_id :: byte_ptr where
  "spl_memo_program_id = Ptr 0
     [0x05, 0x4a, 0x53, 0x5a, 0x99, 0x29, 0x21, 0x06, 0x4d, 0x24, 0xe8, 0x71, 0x60, 0xda, 0x38, 0x7c,
      0x7c, 0x35, 0xb5, 0xdd, 0xbc, 0x92, 0xbb, 0x81, 0xe4, 0x1f, 0xa8, 0x40, 0x41, 0x05, 0x44, 0x8d]"

definition compute_budget_program_id :: byte_ptr where
  "compute_budget_program_id = Ptr 0
     [0x03, 0x06, 0x46, 0x6f, 0xe5, 0x21, 0x17, 0x32, 0xff, 0xec, 0xad, 0xba, 0x72, 0xc3, 0x9b, 0xe7,
      0xbc, 0x8c, 0xe5, 0xbb, 0xc5, 0xf7, 0x12, 0x6b, 0x2c, 0x43, 0x9b, 0x3a, 0x40, 0x00, 0x00, 0x00]"

definition agenc_artifact_program_id :: byte_ptr where
  "agenc_artifact_program_id = Ptr 0
     [0xf2, 0x4f, 0x06, 0x63, 0x40, 0x26, 0x86, 0xbd, 0x99, 0xfe, 0x63, 0xcd, 0xbf, 0xfa, 0x75, 0x51,
      0x4d, 0xb6, 0xd2, 0x28, 0x87, 0xc6, 0x22, 0xaa, 0xef, 0x4e, 0xf6, 0xdb, 0xed, 0x44, 0xf5, 0xe8]"

definition agenc_mainnet_preset_program_id :: byte_ptr where
  "agenc_mainnet_preset_program_id = Ptr 0
     [0xf2, 0x4f, 0x06, 0x63, 0x40, 0x26, 0x86, 0xbd, 0x99, 0xfe, 0x63, 0xcd, 0xbf, 0xfa, 0x75, 0x51,
      0x4d, 0xb6, 0xd2, 0x28, 0x87, 0xc6, 0x22, 0xaa, 0xef, 0x4e, 0xf6, 0xdb, 0xed, 0x44, 0xf5, 0xe8]"

definition is_serum_assert_owner_program_id :: "byte_ptr \<Rightarrow> bool" where
  "is_serum_assert_owner_program_id program_id =
     list_ex (\<lambda>id. pubkeys_equal program_id id)
       [serum_assert_owner_program_id_phantom, serum_assert_owner_program_id]"

definition is_agenc_program_id :: "byte_ptr \<Rightarrow> bool" where
  "is_agenc_program_id program_id =
     (if pubkeys_equal program_id agenc_artifact_program_id then True
      else if pubkeys_equal program_id agenc_mainnet_preset_program_id then True
      else False)"

lemmas program_ids =
  system_program_id_def
  stake_program_id_def
  vote_program_id_def
  spl_token_program_id_def
  spl_token2022_program_id_def
  spl_associated_token_account_program_id_def
  serum_assert_owner_program_id_def
  serum_assert_owner_program_id_phantom_def
  spl_memo_program_id_def
  compute_budget_program_id_def
  agenc_artifact_program_id_def
  agenc_mainnet_preset_program_id_def

end
