(* ===== verification/Sol_System.thy ===== *)
theory Sol_System
  imports Sol_Accounts Sol_Summary Sol_Program_Ids
begin

text \<open>
  The system program, \<open>libsol/system_instruction.c\<close>: the parser of its instructions and the
  printers that put them on the screen. A parser returns \<open>None\<close> for every non-zero status.
\<close>

section \<open>Instructions\<close>

datatype SystemInstructionKind = SystemCreateAccount | SystemAssign | SystemTransfer
  | SystemCreateAccountWithSeed | SystemAdvanceNonceAccount | SystemWithdrawNonceAccount
  | SystemInitializeNonceAccount | SystemAuthorizeNonceAccount | SystemAllocate
  | SystemAllocateWithSeed | SystemAssignWithSeed

record SystemCreateAccountInfo =
  create_from :: byte_ptr
  create_to :: byte_ptr
  create_lamports :: u64
  create_space :: u64
  create_owner :: byte_ptr

record SystemCreateAccountWithSeedInfo =
  seeded_from :: byte_ptr
  seeded_to :: byte_ptr
  seeded_base :: byte_ptr
  seeded_seed :: SizedString
  seeded_lamports :: u64
  seeded_space :: u64
  seeded_owner :: byte_ptr

record SystemTransferInfo =
  transfer_from :: byte_ptr
  transfer_to :: byte_ptr
  transfer_lamports :: u64

record SystemAdvanceNonceInfo =
  advance_account :: byte_ptr
  advance_authority :: byte_ptr

record SystemInitializeNonceInfo =
  init_nonce_account :: byte_ptr
  init_nonce_authority :: byte_ptr

record SystemWithdrawNonceInfo =
  withdraw_nonce_account :: byte_ptr
  withdraw_nonce_authority :: byte_ptr
  withdraw_nonce_to :: byte_ptr
  withdraw_nonce_lamports :: u64

record SystemAuthorizeNonceInfo =
  auth_nonce_account :: byte_ptr
  auth_nonce_authority :: byte_ptr
  auth_nonce_new_authority :: byte_ptr

record SystemAllocateInfo =
  allocate_account :: byte_ptr
  allocate_space :: u64

record SystemAssignInfo =
  assign_account :: byte_ptr
  assign_program_id :: byte_ptr

record SystemAllocateWithSeedInfo =
  allocate_seed_account :: byte_ptr
  allocate_seed_base :: byte_ptr
  allocate_seed_seed :: SizedString
  allocate_seed_space :: u64
  allocate_seed_program_id :: byte_ptr

text \<open>The tagged union: the kind selects the member.\<close>

datatype SystemInfo =
    SysTransfer SystemTransferInfo
  | SysCreateAccount SystemCreateAccountInfo
  | SysCreateAccountWithSeed SystemCreateAccountWithSeedInfo
  | SysAdvanceNonce SystemAdvanceNonceInfo
  | SysInitializeNonce SystemInitializeNonceInfo
  | SysWithdrawNonce SystemWithdrawNonceInfo
  | SysAuthorizeNonce SystemAuthorizeNonceInfo
  | SysAllocate SystemAllocateInfo
  | SysAssign SystemAssignInfo
  | SysAllocateWithSeed SystemAllocateWithSeedInfo

fun system_kind :: "SystemInfo \<Rightarrow> SystemInstructionKind" where
  "system_kind (SysTransfer _) = SystemTransfer"
| "system_kind (SysCreateAccount _) = SystemCreateAccount"
| "system_kind (SysCreateAccountWithSeed _) = SystemCreateAccountWithSeed"
| "system_kind (SysAdvanceNonce _) = SystemAdvanceNonceAccount"
| "system_kind (SysInitializeNonce _) = SystemInitializeNonceAccount"
| "system_kind (SysWithdrawNonce _) = SystemWithdrawNonceAccount"
| "system_kind (SysAuthorizeNonce _) = SystemAuthorizeNonceAccount"
| "system_kind (SysAllocate _) = SystemAllocate"
| "system_kind (SysAssign _) = SystemAssign"
| "system_kind (SysAllocateWithSeed _) = SystemAllocateWithSeed"

section \<open>Parsing\<close>

definition parse_system_instruction_kind :: "SystemInstructionKind reader" where
  "parse_system_instruction_kind p = do {
     (maybe_kind, p) \<leftarrow> parse_u32 p;
     if maybe_kind = 0 then Some (SystemCreateAccount, p)
     else if maybe_kind = 1 then Some (SystemAssign, p)
     else if maybe_kind = 2 then Some (SystemTransfer, p)
     else if maybe_kind = 3 then Some (SystemCreateAccountWithSeed, p)
     else if maybe_kind = 4 then Some (SystemAdvanceNonceAccount, p)
     else if maybe_kind = 5 then Some (SystemWithdrawNonceAccount, p)
     else if maybe_kind = 6 then Some (SystemInitializeNonceAccount, p)
     else if maybe_kind = 7 then Some (SystemAuthorizeNonceAccount, p)
     else if maybe_kind = 8 then Some (SystemAllocate, p)
     else if maybe_kind = 9 then Some (SystemAllocateWithSeed, p)
     else if maybe_kind = 10 then Some (SystemAssignWithSeed, p)
     else None }"

definition parse_system_transfer_instruction ::
    "Parser \<Rightarrow> Instruction \<Rightarrow> MessageHeader \<Rightarrow> SystemTransferInfo option" where
  "parse_system_transfer_instruction p instruction header = do {
     let it = instruction_accounts_iterator_init header instruction;
     (src, it) \<leftarrow> instruction_accounts_iterator_next it;
     (dst, it) \<leftarrow> instruction_accounts_iterator_next it;
     (lamports, p) \<leftarrow> parse_u64 p;
     Some \<lparr>transfer_from = src, transfer_to = dst, transfer_lamports = lamports\<rparr> }"

definition parse_system_create_account_instruction ::
    "Parser \<Rightarrow> Instruction \<Rightarrow> MessageHeader \<Rightarrow> SystemCreateAccountInfo option" where
  "parse_system_create_account_instruction p instruction header = do {
     let it = instruction_accounts_iterator_init header instruction;
     (src, it) \<leftarrow> instruction_accounts_iterator_next it;
     (dst, it) \<leftarrow> instruction_accounts_iterator_next it;
     (lamports, p) \<leftarrow> parse_u64 p;
     (space, p) \<leftarrow> parse_u64 p;
     (owner, p) \<leftarrow> parse_pubkey p;
     Some \<lparr>create_from = src, create_to = dst, create_lamports = lamports, create_space = space,
       create_owner = owner\<rparr> }"

definition parse_system_create_account_with_seed_instruction ::
    "Parser \<Rightarrow> Instruction \<Rightarrow> MessageHeader \<Rightarrow> SystemCreateAccountWithSeedInfo option" where
  "parse_system_create_account_with_seed_instruction p instruction header = do {
     let it = instruction_accounts_iterator_init header instruction;
     (src, it) \<leftarrow> instruction_accounts_iterator_next it;
     (dst, it) \<leftarrow> instruction_accounts_iterator_next it;
     (base, p) \<leftarrow> parse_pubkey p;
     (seed, p) \<leftarrow> parse_sized_string p;
     (lamports, p) \<leftarrow> parse_u64 p;
     (space, p) \<leftarrow> parse_u64 p;
     (owner, p) \<leftarrow> parse_pubkey p;
     Some \<lparr>seeded_from = src, seeded_to = dst, seeded_base = base, seeded_seed = seed,
       seeded_lamports = lamports, seeded_space = space, seeded_owner = owner\<rparr> }"

definition parse_system_advance_nonce_account_instruction ::
    "Parser \<Rightarrow> Instruction \<Rightarrow> MessageHeader \<Rightarrow> SystemAdvanceNonceInfo option" where
  "parse_system_advance_nonce_account_instruction p instruction header = do {
     let it = instruction_accounts_iterator_init header instruction;
     (account, it) \<leftarrow> instruction_accounts_iterator_next it;
     (_, it) \<leftarrow> instruction_accounts_iterator_next it;
     (authority, it) \<leftarrow> instruction_accounts_iterator_next it;
     Some \<lparr>advance_account = account, advance_authority = authority\<rparr> }"

definition parse_system_initialize_nonce_account_instruction ::
    "Parser \<Rightarrow> Instruction \<Rightarrow> MessageHeader \<Rightarrow> SystemInitializeNonceInfo option" where
  "parse_system_initialize_nonce_account_instruction p instruction header = do {
     let it = instruction_accounts_iterator_init header instruction;
     (account, it) \<leftarrow> instruction_accounts_iterator_next it;
     (_, it) \<leftarrow> instruction_accounts_iterator_next it;
     (_, it) \<leftarrow> instruction_accounts_iterator_next it;
     (authority, p) \<leftarrow> parse_pubkey p;
     Some \<lparr>init_nonce_account = account, init_nonce_authority = authority\<rparr> }"

definition parse_system_withdraw_nonce_account_instruction ::
    "Parser \<Rightarrow> Instruction \<Rightarrow> MessageHeader \<Rightarrow> SystemWithdrawNonceInfo option" where
  "parse_system_withdraw_nonce_account_instruction p instruction header = do {
     let it = instruction_accounts_iterator_init header instruction;
     (account, it) \<leftarrow> instruction_accounts_iterator_next it;
     (dst, it) \<leftarrow> instruction_accounts_iterator_next it;
     (_, it) \<leftarrow> instruction_accounts_iterator_next it;
     (_, it) \<leftarrow> instruction_accounts_iterator_next it;
     (authority, it) \<leftarrow> instruction_accounts_iterator_next it;
     (lamports, p) \<leftarrow> parse_u64 p;
     Some \<lparr>withdraw_nonce_account = account, withdraw_nonce_authority = authority,
       withdraw_nonce_to = dst, withdraw_nonce_lamports = lamports\<rparr> }"

definition parse_system_authorize_nonce_account_instruction ::
    "Parser \<Rightarrow> Instruction \<Rightarrow> MessageHeader \<Rightarrow> SystemAuthorizeNonceInfo option" where
  "parse_system_authorize_nonce_account_instruction p instruction header = do {
     let it = instruction_accounts_iterator_init header instruction;
     (account, it) \<leftarrow> instruction_accounts_iterator_next it;
     (authority, it) \<leftarrow> instruction_accounts_iterator_next it;
     (new_authority, p) \<leftarrow> parse_pubkey p;
     Some \<lparr>auth_nonce_account = account, auth_nonce_authority = authority,
       auth_nonce_new_authority = new_authority\<rparr> }"

definition parse_system_allocate_instruction ::
    "Parser \<Rightarrow> Instruction \<Rightarrow> MessageHeader \<Rightarrow> SystemAllocateInfo option" where
  "parse_system_allocate_instruction p instruction header = do {
     let it = instruction_accounts_iterator_init header instruction;
     (account, it) \<leftarrow> instruction_accounts_iterator_next it;
     (space, p) \<leftarrow> parse_u64 p;
     Some \<lparr>allocate_account = account, allocate_space = space\<rparr> }"

definition parse_system_assign_instruction ::
    "Parser \<Rightarrow> Instruction \<Rightarrow> MessageHeader \<Rightarrow> SystemAssignInfo option" where
  "parse_system_assign_instruction p instruction header = do {
     let it = instruction_accounts_iterator_init header instruction;
     (account, it) \<leftarrow> instruction_accounts_iterator_next it;
     (program_id, p) \<leftarrow> parse_pubkey p;
     Some \<lparr>assign_account = account, assign_program_id = program_id\<rparr> }"

definition parse_system_allocate_with_seed_instruction ::
    "Parser \<Rightarrow> Instruction \<Rightarrow> MessageHeader \<Rightarrow> SystemAllocateWithSeedInfo option" where
  "parse_system_allocate_with_seed_instruction p instruction header = do {
     let it = instruction_accounts_iterator_init header instruction;
     (account, it) \<leftarrow> instruction_accounts_iterator_next it;
     (_, it) \<leftarrow> instruction_accounts_iterator_next it;
     (base, p) \<leftarrow> parse_pubkey p;
     (seed, p) \<leftarrow> parse_sized_string p;
     (space, p) \<leftarrow> parse_u64 p;
     (program_id, p) \<leftarrow> parse_pubkey p;
     Some \<lparr>allocate_seed_account = account, allocate_seed_base = base, allocate_seed_seed = seed,
       allocate_seed_space = space, allocate_seed_program_id = program_id\<rparr> }"

definition parse_system_instructions :: "Instruction \<Rightarrow> MessageHeader \<Rightarrow> SystemInfo option" where
  "parse_system_instructions instruction header = do {
     let p = data_parser instruction;
     (kind, p) \<leftarrow> parse_system_instruction_kind p;
     (case kind of
        SystemTransfer \<Rightarrow>
          map_option SysTransfer (parse_system_transfer_instruction p instruction header)
      | SystemAdvanceNonceAccount \<Rightarrow>
          map_option SysAdvanceNonce (parse_system_advance_nonce_account_instruction p instruction header)
      | SystemCreateAccount \<Rightarrow>
          map_option SysCreateAccount (parse_system_create_account_instruction p instruction header)
      | SystemCreateAccountWithSeed \<Rightarrow>
          map_option SysCreateAccountWithSeed
            (parse_system_create_account_with_seed_instruction p instruction header)
      | SystemInitializeNonceAccount \<Rightarrow>
          map_option SysInitializeNonce
            (parse_system_initialize_nonce_account_instruction p instruction header)
      | SystemWithdrawNonceAccount \<Rightarrow>
          map_option SysWithdrawNonce
            (parse_system_withdraw_nonce_account_instruction p instruction header)
      | SystemAuthorizeNonceAccount \<Rightarrow>
          map_option SysAuthorizeNonce
            (parse_system_authorize_nonce_account_instruction p instruction header)
      | SystemAssign \<Rightarrow> map_option SysAssign (parse_system_assign_instruction p instruction header)
      | SystemAllocate \<Rightarrow> map_option SysAllocate (parse_system_allocate_instruction p instruction header)
      | SystemAllocateWithSeed \<Rightarrow>
          map_option SysAllocateWithSeed
            (parse_system_allocate_with_seed_instruction p instruction header)
      | SystemAssignWithSeed \<Rightarrow> None) }"

section \<open>Printing\<close>

definition is_well_known_owner :: "byte_ptr \<Rightarrow> bool" where
  "is_well_known_owner owner =
     (pubkeys_equal owner system_program_id \<or> pubkeys_equal owner stake_program_id \<or>
      pubkeys_equal owner vote_program_id \<or> pubkeys_equal owner spl_token_program_id \<or>
      pubkeys_equal owner spl_token2022_program_id)"

definition print_system_transfer_info :: "SystemTransferInfo \<Rightarrow> PrintConfig \<Rightarrow> TransactionSummary \<Rightarrow> TransactionSummary c_result" where
  "print_system_transfer_info info print_config S = do {
     S \<leftarrow> summary_item_set_amount (transaction_summary_primary_item S) ''Amount'' (transfer_lamports info) S;
     S \<leftarrow> (if print_config_show_authority print_config (transfer_from info)
           then do { S \<leftarrow> summary_item_set_pubkey (transaction_summary_general_item S) ''Sender'' (transfer_from info) S; Some S }
           else Some S);
     S \<leftarrow> summary_item_set_pubkey (transaction_summary_general_item S) ''To'' (transfer_to info) S;
     let S = transaction_summary_set_transaction_type TRANSACTION_TYPE_SOL_TRANSFER S;
     Some (0, S) }"

text \<open>Reading an inactive member of the union is left undefined: \<open>None\<close>.\<close>

definition print_system_prefund_for_split :: "SystemInfo \<Rightarrow> PrintConfig \<Rightarrow> TransactionSummary \<Rightarrow> TransactionSummary c_result" where
  "print_system_prefund_for_split info print_config S =
     (if expert_mode print_config then
        case info of SysTransfer transfer_info \<Rightarrow> do {
          S \<leftarrow> summary_item_set_amount (transaction_summary_general_item S) ''Prefund'' (transfer_lamports transfer_info) S;
          S \<leftarrow> summary_item_set_pubkey (transaction_summary_general_item S) ''Prefunder'' (transfer_from transfer_info) S;
          Some (0, S) }
        | _ \<Rightarrow> None
      else Some (0, S))"

definition print_system_advance_nonce_account :: "SystemAdvanceNonceInfo \<Rightarrow> PrintConfig \<Rightarrow> TransactionSummary \<Rightarrow> TransactionSummary c_result" where
  "print_system_advance_nonce_account info print_config S = do {
     S \<leftarrow> summary_item_set_pubkey (transaction_summary_primary_item S) ''Advance nonce'' (advance_account info) S;
     S \<leftarrow> (if print_config_show_authority print_config (advance_authority info)
           then do { S \<leftarrow> summary_item_set_pubkey (transaction_summary_general_item S) ''Authorized by'' (advance_authority info) S; Some S }
           else Some S);
     Some (0, S) }"

definition print_system_withdraw_nonce_info :: "SystemWithdrawNonceInfo \<Rightarrow> PrintConfig \<Rightarrow> TransactionSummary \<Rightarrow> TransactionSummary c_result" where
  "print_system_withdraw_nonce_info info print_config S = do {
     S \<leftarrow> summary_item_set_amount (transaction_summary_primary_item S) ''Nonce withdraw'' (withdraw_nonce_lamports info) S;
     S \<leftarrow> summary_item_set_pubkey (transaction_summary_general_item S) ''From'' (withdraw_nonce_account info) S;
     S \<leftarrow> summary_item_set_pubkey (transaction_summary_general_item S) ''To'' (withdraw_nonce_to info) S;
     S \<leftarrow> (if print_config_show_authority print_config (withdraw_nonce_authority info)
           then do { S \<leftarrow> summary_item_set_pubkey (transaction_summary_general_item S) ''Authorized by'' (withdraw_nonce_authority info) S; Some S }
           else Some S);
     Some (0, S) }"

definition print_system_authorize_nonce_info :: "SystemAuthorizeNonceInfo \<Rightarrow> PrintConfig \<Rightarrow> TransactionSummary \<Rightarrow> TransactionSummary c_result" where
  "print_system_authorize_nonce_info info print_config S = do {
     S \<leftarrow> summary_item_set_pubkey (transaction_summary_primary_item S) ''Set nonce auth'' (auth_nonce_account info) S;
     S \<leftarrow> summary_item_set_pubkey (transaction_summary_general_item S) ''New authority'' (auth_nonce_new_authority info) S;
     S \<leftarrow> (if print_config_show_authority print_config (auth_nonce_authority info)
           then do { S \<leftarrow> summary_item_set_pubkey (transaction_summary_general_item S) ''Authorized by'' (auth_nonce_authority info) S; Some S }
           else Some S);
     Some (0, S) }"

definition print_system_allocate_info :: "SystemAllocateInfo \<Rightarrow> PrintConfig \<Rightarrow> TransactionSummary \<Rightarrow> TransactionSummary c_result" where
  "print_system_allocate_info info print_config S = do {
     S \<leftarrow> summary_item_set_pubkey (transaction_summary_primary_item S) ''Allocate acct'' (allocate_account info) S;
     S \<leftarrow> summary_item_set_u64 (transaction_summary_general_item S) ''Data size'' (allocate_space info) S;
     Some (0, S) }"

definition print_system_assign_info :: "SystemAssignInfo \<Rightarrow> PrintConfig \<Rightarrow> TransactionSummary \<Rightarrow> TransactionSummary c_result" where
  "print_system_assign_info info print_config S = do {
     S \<leftarrow> summary_item_set_pubkey (transaction_summary_primary_item S) ''Assign acct'' (assign_account info) S;
     S \<leftarrow> summary_item_set_pubkey (transaction_summary_general_item S) ''To program'' (assign_program_id info) S;
     Some (0, S) }"

definition print_system_nonced_transaction_sentinel :: "SystemInfo \<Rightarrow> PrintConfig \<Rightarrow> TransactionSummary \<Rightarrow> TransactionSummary c_result" where
  "print_system_nonced_transaction_sentinel info print_config S =
     (if expert_mode print_config then
        case info of SysAdvanceNonce nonce_info \<Rightarrow> do {
          S \<leftarrow> summary_item_set_pubkey (transaction_summary_nonce_account_item S) ''Nonce account'' (advance_account nonce_info) S;
          S \<leftarrow> summary_item_set_pubkey (transaction_summary_nonce_authority_item S) ''Nonce authority'' (advance_authority nonce_info) S;
          Some (0, S) }
        | _ \<Rightarrow> None
      else Some (0, S))"

text \<open>A primary title that is a null pointer is \<open>None\<close>.\<close>

definition print_system_create_account_info ::
    "string option \<Rightarrow> SystemCreateAccountInfo \<Rightarrow> PrintConfig \<Rightarrow> bool \<Rightarrow> TransactionSummary \<Rightarrow> TransactionSummary c_result" where
  "print_system_create_account_info primary_title info print_config display_owner S = do {
     S \<leftarrow> (case primary_title of
             Some title \<Rightarrow> do { S \<leftarrow> summary_item_set_pubkey (transaction_summary_primary_item S) title (create_to info) S; Some S }
           | None \<Rightarrow> Some S);
     S \<leftarrow> summary_item_set_amount (transaction_summary_general_item S) ''Deposit'' (create_lamports info) S;
     S \<leftarrow> (if print_config_show_authority print_config (create_from info)
           then do { S \<leftarrow> summary_item_set_pubkey (transaction_summary_general_item S) ''From'' (create_from info) S; Some S }
           else Some S);
     S \<leftarrow> (if display_owner \<and> \<not> is_well_known_owner (create_owner info)
           then do { S \<leftarrow> summary_item_set_u64 (transaction_summary_general_item S) ''Data size'' (create_space info) S;
                     S \<leftarrow> summary_item_set_pubkey (transaction_summary_general_item S) ''Owner program'' (create_owner info) S; Some S }
           else Some S);
     Some (0, S) }"

definition print_system_create_account_with_seed_info ::
    "string option \<Rightarrow> SystemCreateAccountWithSeedInfo \<Rightarrow> PrintConfig \<Rightarrow> bool \<Rightarrow> TransactionSummary \<Rightarrow> TransactionSummary c_result" where
  "print_system_create_account_with_seed_info primary_title info print_config display_owner S = do {
     S \<leftarrow> (case primary_title of
             Some title \<Rightarrow> do { S \<leftarrow> summary_item_set_pubkey (transaction_summary_primary_item S) title (seeded_to info) S; Some S }
           | None \<Rightarrow> Some S);
     S \<leftarrow> summary_item_set_amount (transaction_summary_general_item S) ''Deposit'' (seeded_lamports info) S;
     S \<leftarrow> (if print_config_show_authority print_config (seeded_from info)
           then do { S \<leftarrow> summary_item_set_pubkey (transaction_summary_general_item S) ''From'' (seeded_from info) S; Some S }
           else Some S);
     S \<leftarrow> (if display_owner \<and> \<not> is_well_known_owner (seeded_owner info)
           then do { S \<leftarrow> summary_item_set_u64 (transaction_summary_general_item S) ''Data size'' (seeded_space info) S;
                     S \<leftarrow> summary_item_set_pubkey (transaction_summary_general_item S) ''Owner program'' (seeded_owner info) S; Some S }
           else Some S);
     S \<leftarrow> (if expert_mode print_config
           then do { S \<leftarrow> summary_item_set_pubkey (transaction_summary_general_item S) ''Base'' (seeded_base info) S;
                     S \<leftarrow> summary_item_set_sized_string (transaction_summary_general_item S) ''Seed'' (seeded_seed info) S; Some S }
           else Some S);
     Some (0, S) }"

definition print_system_initialize_nonce_info ::
    "string option \<Rightarrow> SystemInitializeNonceInfo \<Rightarrow> PrintConfig \<Rightarrow> TransactionSummary \<Rightarrow> TransactionSummary c_result" where
  "print_system_initialize_nonce_info primary_title info print_config S = do {
     S \<leftarrow> (case primary_title of
             Some title \<Rightarrow> do { S \<leftarrow> summary_item_set_pubkey (transaction_summary_primary_item S) title (init_nonce_account info) S; Some S }
           | None \<Rightarrow> Some S);
     S \<leftarrow> summary_item_set_pubkey (transaction_summary_general_item S) ''New authority'' (init_nonce_authority info) S;
     Some (0, S) }"

definition print_system_allocate_with_seed_info ::
    "string option \<Rightarrow> SystemAllocateWithSeedInfo \<Rightarrow> PrintConfig \<Rightarrow> TransactionSummary \<Rightarrow> TransactionSummary c_result" where
  "print_system_allocate_with_seed_info primary_title info print_config S = do {
     S \<leftarrow> (case primary_title of
             Some title \<Rightarrow> do { S \<leftarrow> summary_item_set_pubkey (transaction_summary_primary_item S) ''Allocate acct'' (allocate_seed_account info) S; Some S }
           | None \<Rightarrow> Some S);
     S \<leftarrow> summary_item_set_u64 (transaction_summary_general_item S) ''Data size'' (allocate_seed_space info) S;
     S \<leftarrow> (if expert_mode print_config
           then do { S \<leftarrow> summary_item_set_pubkey (transaction_summary_general_item S) ''Base'' (allocate_seed_base info) S;
                     S \<leftarrow> summary_item_set_sized_string (transaction_summary_general_item S) ''Seed'' (allocate_seed_seed info) S; Some S }
           else Some S);
     Some (0, S) }"

definition print_system_info :: "SystemInfo \<Rightarrow> PrintConfig \<Rightarrow> TransactionSummary \<Rightarrow> TransactionSummary c_result" where
  "print_system_info info print_config = (case info of
     SysTransfer i \<Rightarrow> print_system_transfer_info i print_config
   | SysAdvanceNonce i \<Rightarrow> print_system_advance_nonce_account i print_config
   | SysCreateAccount i \<Rightarrow> print_system_create_account_info (Some ''Create account'') i print_config True
   | SysCreateAccountWithSeed i \<Rightarrow>
       print_system_create_account_with_seed_info (Some ''Create account'') i print_config True
   | SysInitializeNonce i \<Rightarrow> print_system_initialize_nonce_info (Some ''Init nonce acct'') i print_config
   | SysWithdrawNonce i \<Rightarrow> print_system_withdraw_nonce_info i print_config
   | SysAuthorizeNonce i \<Rightarrow> print_system_authorize_nonce_info i print_config
   | SysAssign i \<Rightarrow> print_system_assign_info i print_config
   | SysAllocate i \<Rightarrow> print_system_allocate_info i print_config
   | SysAllocateWithSeed i \<Rightarrow> print_system_allocate_with_seed_info (Some ''Allocate acct'') i print_config)"

section \<open>The printers meet the contract\<close>

lemmas system_printers =
  print_system_transfer_info_def print_system_prefund_for_split_def
  print_system_advance_nonce_account_def print_system_withdraw_nonce_info_def
  print_system_authorize_nonce_info_def print_system_allocate_info_def print_system_assign_info_def
  print_system_nonced_transaction_sentinel_def print_system_create_account_info_def
  print_system_create_account_with_seed_info_def print_system_initialize_nonce_info_def
  print_system_allocate_with_seed_info_def

lemma system_kept [keep]:
  "kept S (print_system_transfer_info i1 c S)"
  "kept S (print_system_prefund_for_split i c S)"
  "kept S (print_system_advance_nonce_account i2 c S)"
  "kept S (print_system_withdraw_nonce_info i3 c S)"
  "kept S (print_system_authorize_nonce_info i4 c S)"
  "kept S (print_system_allocate_info i5 c S)"
  "kept S (print_system_assign_info i6 c S)"
  "kept S (print_system_nonced_transaction_sentinel i c S)"
  "kept S (print_system_create_account_info t i7 c b S)"
  "kept S (print_system_create_account_with_seed_info t i8 c b S)"
  "kept S (print_system_initialize_nonce_info t i9 c S)"
  "kept S (print_system_allocate_with_seed_info t i10 c S)"
  unfolding system_printers
  by (intro keep free_slot_intros allI impI conjI | simp only: split: SystemInfo.splits)+

lemma print_system_info_kept [keep]: "kept S (print_system_info info c S)"
  by (cases info) (simp_all add: print_system_info_def system_kept)

interpretation system: printer "print_system_info info print_config" for info print_config
  by unfold_locales (rule print_system_info_kept)

interpretation system_nonce: printer "print_system_nonced_transaction_sentinel info print_config"
  for info print_config
  by unfold_locales (rule system_kept)

lemma parse_transfer_eval:
  assumes "bytes (data i) = le32 2 @ le64 v @ rest" "2 \<le> accounts_length i mod 256"
  shows "parse_system_instructions i h = Some (SysTransfer \<lparr>transfer_from = account_key h i 0,
      transfer_to = account_key h i 1, transfer_lamports = v\<rparr>)"
  using assms
  by (simp add: parse_system_instructions_def data_parser_def parse_system_instruction_kind_def
      parse_system_transfer_instruction_def init_iterator_at)

lemma print_transfer_eval:
  assumes "screen_ok S" "filled S = []" "\<not> is_summary_item_used (primary S)"
  shows "print_system_info (SysTransfer \<lparr>transfer_from = a, transfer_to = b, transfer_lamports = v\<rparr>) cfg S
    = Some (0, S\<lparr>transaction_type := TRANSACTION_TYPE_SOL_TRANSFER,
        primary := \<lparr>item_title = ''Amount'', item_value = ItemAmount v\<rparr>,
        general := pad ((if print_config_show_authority cfg a
            then [\<lparr>item_title = ''Sender'', item_value = ItemPubkey a\<rparr>] else [])
          @ [\<lparr>item_title = ''To'', item_value = ItemPubkey b\<rparr>])\<rparr>)"
  using assms by (simp add: print_system_info_def print_system_transfer_info_def screen_eval)

text \<open>A system transfer on the wire, with at least two accounts, is displayed as exactly
  its amount, its recipient and, when the sender is not the signer or in expert mode, its
  sender; the amount is the 64-bit number of the message, for every value.\<close>

theorem system_transfer_screen:
  assumes "bytes (data i) = le32 2 @ le64 v @ rest" "2 \<le> accounts_length i mod 256"
    and "screen_ok S" "filled S = []" "\<not> is_summary_item_used (primary S)"
  shows "Option.bind (parse_system_instructions i h) (\<lambda>info. print_system_info info cfg S)
    = Some (0, S\<lparr>transaction_type := TRANSACTION_TYPE_SOL_TRANSFER,
        primary := \<lparr>item_title = ''Amount'', item_value = ItemAmount v\<rparr>,
        general := pad ((if print_config_show_authority cfg (account_key h i 0)
            then [\<lparr>item_title = ''Sender'', item_value = ItemPubkey (account_key h i 0)\<rparr>] else [])
          @ [\<lparr>item_title = ''To'', item_value = ItemPubkey (account_key h i 1)\<rparr>])\<rparr>)"
  by (simp add: parse_transfer_eval [OF assms(1,2)] print_transfer_eval [OF assms(3-5)])

theorem system_transfer_screen_witness:
  "\<forall>h. Option.bind (parse_system_instructions
      \<lparr>program_id_index = 2, accounts = [0, 1], data = Ptr 0 (le32 2 @ le64 1000000000 @ [])\<rparr> h)
      (\<lambda>info. print_system_info info
        \<lparr>config_header = h, expert_mode = True, force_full_print = False,
         user_input_is_ata_or_token_account = False, signer_pubkey = Ptr 0 []\<rparr> transaction_summary_reset)
   \<noteq> None"
  by (rule allI, subst system_transfer_screen [where rest = "[]"]) (simp_all add: accounts_length_def)

end
