(* ===== verification/Sol_Agenc.thy ===== *)
theory Sol_Agenc
  imports Sol_System
begin

text \<open>
  The AgenC marketplace program, \<open>libsol/agenc_instruction.c\<close>: the strict parser of its ten
  instructions and the screens that show them. Parsing fails closed: every account is
  range-checked, the system program is verified where it is passed, the data must be consumed
  to the last byte. First the code, then what a successful parse guarantees, the artifact hash
  and the screens.
\<close>

section \<open>Constants\<close>

definition AGENC_DISCRIMINATOR_SIZE :: nat where "AGENC_DISCRIMINATOR_SIZE = 8"
definition AGENC_HASH_SIZE :: nat where "AGENC_HASH_SIZE = 32"
definition AGENC_DESCRIPTION_SIZE :: nat where "AGENC_DESCRIPTION_SIZE = 64"
definition AGENC_RESULT_DATA_SIZE :: nat where "AGENC_RESULT_DATA_SIZE = 64"
definition AGENC_ARTIFACT_RESULT_PREFIX :: "u8 list" where
  "AGENC_ARTIFACT_RESULT_PREFIX =
     [0x61, 0x72, 0x74, 0x69, 0x66, 0x61, 0x63, 0x74, 0x3a, 0x73, 0x68, 0x61, 0x32, 0x35, 0x36, 0x3a]"
definition AGENC_ARTIFACT_RESULT_PREFIX_SIZE :: nat where "AGENC_ARTIFACT_RESULT_PREFIX_SIZE = 16"
definition AGENC_ARTIFACT_RESULT_B64_SIZE :: nat where "AGENC_ARTIFACT_RESULT_B64_SIZE = 43"

definition AGENC_REGISTER_AGENT_ACCOUNTS :: nat where "AGENC_REGISTER_AGENT_ACCOUNTS = 4"
definition AGENC_CREATE_TASK_ACCOUNTS :: nat where "AGENC_CREATE_TASK_ACCOUNTS = 13"
definition AGENC_CONFIGURE_TASK_VALIDATION_ACCOUNTS :: nat where
  "AGENC_CONFIGURE_TASK_VALIDATION_ACCOUNTS = 7"
definition AGENC_SET_TASK_JOB_SPEC_ACCOUNTS :: nat where "AGENC_SET_TASK_JOB_SPEC_ACCOUNTS = 9"
definition AGENC_CLAIM_TASK_WITH_JOB_SPEC_ACCOUNTS :: nat where
  "AGENC_CLAIM_TASK_WITH_JOB_SPEC_ACCOUNTS = 10"
definition AGENC_SUBMIT_TASK_RESULT_ACCOUNTS :: nat where "AGENC_SUBMIT_TASK_RESULT_ACCOUNTS = 8"
definition AGENC_ACCEPT_TASK_RESULT_ACCOUNTS :: nat where "AGENC_ACCEPT_TASK_RESULT_ACCOUNTS = 21"
definition AGENC_REJECT_TASK_RESULT_ACCOUNTS :: nat where "AGENC_REJECT_TASK_RESULT_ACCOUNTS = 11"
definition AGENC_CANCEL_TASK_BASE_ACCOUNTS :: nat where "AGENC_CANCEL_TASK_BASE_ACCOUNTS = 15"
definition AGENC_CANCEL_TASK_WORKER_ACCOUNT_STRIDE :: nat where
  "AGENC_CANCEL_TASK_WORKER_ACCOUNT_STRIDE = 3"
definition AGENC_EXPIRE_CLAIM_ACCOUNTS :: nat where "AGENC_EXPIRE_CLAIM_ACCOUNTS = 14"

lemmas agenc_sizes = AGENC_DISCRIMINATOR_SIZE_def AGENC_HASH_SIZE_def AGENC_DESCRIPTION_SIZE_def
  AGENC_RESULT_DATA_SIZE_def AGENC_ARTIFACT_RESULT_PREFIX_SIZE_def
  AGENC_ARTIFACT_RESULT_B64_SIZE_def AGENC_REGISTER_AGENT_ACCOUNTS_def
  AGENC_CREATE_TASK_ACCOUNTS_def AGENC_CONFIGURE_TASK_VALIDATION_ACCOUNTS_def
  AGENC_SET_TASK_JOB_SPEC_ACCOUNTS_def AGENC_CLAIM_TASK_WITH_JOB_SPEC_ACCOUNTS_def
  AGENC_SUBMIT_TASK_RESULT_ACCOUNTS_def AGENC_ACCEPT_TASK_RESULT_ACCOUNTS_def
  AGENC_REJECT_TASK_RESULT_ACCOUNTS_def AGENC_CANCEL_TASK_BASE_ACCOUNTS_def
  AGENC_CANCEL_TASK_WORKER_ACCOUNT_STRIDE_def AGENC_EXPIRE_CLAIM_ACCOUNTS_def

definition DISCRIMINATOR_REGISTER_AGENT :: "u8 list" where
  "DISCRIMINATOR_REGISTER_AGENT = [0x87, 0x9d, 0x42, 0xc3, 0x02, 0x71, 0xaf, 0x1e]"

definition DISCRIMINATOR_CREATE_TASK :: "u8 list" where
  "DISCRIMINATOR_CREATE_TASK = [0xc2, 0x50, 0x06, 0xb4, 0xe8, 0x7f, 0x30, 0xab]"

definition DISCRIMINATOR_CONFIGURE_TASK_VALIDATION :: "u8 list" where
  "DISCRIMINATOR_CONFIGURE_TASK_VALIDATION = [0x0b, 0x4f, 0x13, 0xbc, 0x0d, 0x20, 0xf4, 0x5a]"

definition DISCRIMINATOR_SET_TASK_JOB_SPEC :: "u8 list" where
  "DISCRIMINATOR_SET_TASK_JOB_SPEC = [0x86, 0x66, 0x66, 0x56, 0x1f, 0xa4, 0xca, 0xc1]"

definition DISCRIMINATOR_CLAIM_TASK_WITH_JOB_SPEC :: "u8 list" where
  "DISCRIMINATOR_CLAIM_TASK_WITH_JOB_SPEC = [0xe6, 0x28, 0x6b, 0x6d, 0xd0, 0xe4, 0xaf, 0x1f]"

definition DISCRIMINATOR_SUBMIT_TASK_RESULT :: "u8 list" where
  "DISCRIMINATOR_SUBMIT_TASK_RESULT = [0x27, 0x6c, 0x4a, 0x04, 0x42, 0x7d, 0x9d, 0x07]"

definition DISCRIMINATOR_ACCEPT_TASK_RESULT :: "u8 list" where
  "DISCRIMINATOR_ACCEPT_TASK_RESULT = [0x59, 0xe6, 0x33, 0x19, 0x00, 0xdb, 0x05, 0x89]"

definition DISCRIMINATOR_REJECT_TASK_RESULT :: "u8 list" where
  "DISCRIMINATOR_REJECT_TASK_RESULT = [0x90, 0x07, 0x3a, 0xe8, 0x9d, 0xa7, 0x55, 0xd6]"

definition DISCRIMINATOR_CANCEL_TASK :: "u8 list" where
  "DISCRIMINATOR_CANCEL_TASK = [0x45, 0xe4, 0x86, 0xbb, 0x86, 0x69, 0xee, 0x30]"

definition DISCRIMINATOR_EXPIRE_CLAIM :: "u8 list" where
  "DISCRIMINATOR_EXPIRE_CLAIM = [0xb0, 0x4e, 0xf1, 0x1d, 0x9f, 0x51, 0x1a, 0x06]"

lemmas discriminators =
  DISCRIMINATOR_REGISTER_AGENT_def
  DISCRIMINATOR_CREATE_TASK_def
  DISCRIMINATOR_CONFIGURE_TASK_VALIDATION_def
  DISCRIMINATOR_SET_TASK_JOB_SPEC_def
  DISCRIMINATOR_CLAIM_TASK_WITH_JOB_SPEC_def
  DISCRIMINATOR_SUBMIT_TASK_RESULT_def
  DISCRIMINATOR_ACCEPT_TASK_RESULT_def
  DISCRIMINATOR_REJECT_TASK_RESULT_def
  DISCRIMINATOR_CANCEL_TASK_def
  DISCRIMINATOR_EXPIRE_CLAIM_def

section \<open>Instructions\<close>

datatype AgencInstructionKind = AgencInstructionUnknown
  | AgencInstructionRegisterAgent
  | AgencInstructionCreateTask
  | AgencInstructionConfigureTaskValidation
  | AgencInstructionSetTaskJobSpec
  | AgencInstructionClaimTaskWithJobSpec
  | AgencInstructionSubmitTaskResult
  | AgencInstructionAcceptTaskResult
  | AgencInstructionRejectTaskResult
  | AgencInstructionCancelTask
  | AgencInstructionExpireClaim

text \<open>
  A pointer that may be null is an option. \<open>sr_artifact_hash\<close> is not a pointer into the message
  but a buffer inside the information record, which lives in the frame of \<open>process_message_body\<close>.
\<close>

record AgencRegisterAgentInfo =
  ra_agent :: byte_ptr
  ra_protocol_config :: byte_ptr
  ra_authority :: byte_ptr
  ra_system_program :: byte_ptr
  ra_agent_id :: byte_ptr
  ra_capabilities :: u64
  ra_endpoint :: SizedString
  ra_has_metadata_uri :: bool
  ra_metadata_uri :: SizedString
  ra_stake_amount :: u64

record AgencCreateTaskInfo =
  ct_task :: byte_ptr
  ct_escrow :: byte_ptr
  ct_protocol_config :: byte_ptr
  ct_creator_agent :: byte_ptr
  ct_authority_rate_limit :: byte_ptr
  ct_authority :: byte_ptr
  ct_creator :: byte_ptr
  ct_system_program :: byte_ptr
  ct_task_id :: byte_ptr
  ct_required_capabilities :: u64
  ct_description :: byte_ptr
  ct_description_commitment :: byte_ptr
  ct_reward_amount :: u64
  ct_max_workers :: u8
  ct_deadline :: i64
  ct_task_type :: u8
  ct_constraint_hash :: "byte_ptr option"
  ct_min_reputation :: u16
  ct_reward_mint :: "byte_ptr option"

record AgencConfigureTaskValidationInfo =
  cv_task :: byte_ptr
  cv_task_validation_config :: byte_ptr
  cv_task_attestor_config :: byte_ptr
  cv_protocol_config :: byte_ptr
  cv_hire_record :: byte_ptr
  cv_creator :: byte_ptr
  cv_system_program :: byte_ptr
  cv_mode :: u8
  cv_review_window_secs :: i64
  cv_validator_quorum :: u8
  cv_attestor :: "byte_ptr option"

record AgencSetTaskJobSpecInfo =
  js_protocol_config :: byte_ptr
  js_task :: byte_ptr
  js_moderation_config :: byte_ptr
  js_task_moderation :: byte_ptr
  js_moderation_attestor :: byte_ptr
  js_moderation_block :: byte_ptr
  js_task_job_spec :: byte_ptr
  js_creator :: byte_ptr
  js_system_program :: byte_ptr
  js_job_spec_hash :: byte_ptr
  js_job_spec_uri :: SizedString

record AgencClaimTaskWithJobSpecInfo =
  cj_task :: byte_ptr
  cj_task_job_spec :: byte_ptr
  cj_hire_record :: byte_ptr
  cj_legacy_listing :: byte_ptr
  cj_moderation_block :: byte_ptr
  cj_claim :: byte_ptr
  cj_protocol_config :: byte_ptr
  cj_worker :: byte_ptr
  cj_authority :: byte_ptr
  cj_system_program :: byte_ptr

record AgencSubmitTaskResultInfo =
  sr_task :: byte_ptr
  sr_claim :: byte_ptr
  sr_task_validation_config :: byte_ptr
  sr_task_submission :: byte_ptr
  sr_protocol_config :: byte_ptr
  sr_worker :: byte_ptr
  sr_authority :: byte_ptr
  sr_system_program :: byte_ptr
  sr_proof_hash :: byte_ptr
  sr_result_data :: "byte_ptr option"
  sr_has_result_data :: bool
  sr_artifact_hash :: byte_ptr
  sr_has_artifact_hash :: bool

record AgencAcceptTaskResultInfo =
  ar_task :: byte_ptr
  ar_claim :: byte_ptr
  ar_escrow :: byte_ptr
  ar_task_validation_config :: byte_ptr
  ar_task_submission :: byte_ptr
  ar_worker :: byte_ptr
  ar_protocol_config :: byte_ptr
  ar_treasury :: byte_ptr
  ar_creator :: byte_ptr
  ar_worker_authority :: byte_ptr
  ar_hire_record :: byte_ptr
  ar_operator :: byte_ptr
  ar_referrer :: byte_ptr
  ar_creator_completion_bond :: byte_ptr
  ar_worker_completion_bond :: byte_ptr
  ar_system_program :: byte_ptr

record AgencRejectTaskResultInfo =
  rr_task :: byte_ptr
  rr_claim :: byte_ptr
  rr_task_validation_config :: byte_ptr
  rr_task_submission :: byte_ptr
  rr_worker :: byte_ptr
  rr_protocol_config :: byte_ptr
  rr_creator :: byte_ptr
  rr_worker_authority :: byte_ptr
  rr_agent_stats :: byte_ptr
  rr_system_program :: byte_ptr
  rr_worker_completion_bond :: byte_ptr
  rr_rejection_hash :: byte_ptr

record AgencCancelTaskInfo =
  xt_task :: byte_ptr
  xt_escrow :: byte_ptr
  xt_authority :: byte_ptr
  xt_protocol_config :: byte_ptr
  xt_system_program :: byte_ptr
  xt_worker_account_count :: nat

record AgencExpireClaimInfo =
  ec_authority :: byte_ptr
  ec_task :: byte_ptr
  ec_escrow :: byte_ptr
  ec_claim :: byte_ptr
  ec_worker :: byte_ptr
  ec_protocol_config :: byte_ptr
  ec_task_validation_config :: "byte_ptr option"
  ec_task_submission :: "byte_ptr option"
  ec_rent_recipient :: byte_ptr
  ec_worker_completion_bond :: byte_ptr
  ec_bond_creator :: byte_ptr
  ec_agent_stats :: byte_ptr
  ec_treasury :: byte_ptr
  ec_system_program :: byte_ptr

datatype AgencBody =
    AgencRegisterAgent AgencRegisterAgentInfo
  | AgencCreateTask AgencCreateTaskInfo
  | AgencConfigureTaskValidation AgencConfigureTaskValidationInfo
  | AgencSetTaskJobSpec AgencSetTaskJobSpecInfo
  | AgencClaimTaskWithJobSpec AgencClaimTaskWithJobSpecInfo
  | AgencSubmitTaskResult AgencSubmitTaskResultInfo
  | AgencAcceptTaskResult AgencAcceptTaskResultInfo
  | AgencRejectTaskResult AgencRejectTaskResultInfo
  | AgencCancelTask AgencCancelTaskInfo
  | AgencExpireClaim AgencExpireClaimInfo

record AgencInfo =
  agenc_program_id :: byte_ptr
  agenc_body :: AgencBody

fun agenc_kind :: "AgencBody \<Rightarrow> AgencInstructionKind" where
  "agenc_kind (AgencRegisterAgent _) = AgencInstructionRegisterAgent"
| "agenc_kind (AgencCreateTask _) = AgencInstructionCreateTask"
| "agenc_kind (AgencConfigureTaskValidation _) = AgencInstructionConfigureTaskValidation"
| "agenc_kind (AgencSetTaskJobSpec _) = AgencInstructionSetTaskJobSpec"
| "agenc_kind (AgencClaimTaskWithJobSpec _) = AgencInstructionClaimTaskWithJobSpec"
| "agenc_kind (AgencSubmitTaskResult _) = AgencInstructionSubmitTaskResult"
| "agenc_kind (AgencAcceptTaskResult _) = AgencInstructionAcceptTaskResult"
| "agenc_kind (AgencRejectTaskResult _) = AgencInstructionRejectTaskResult"
| "agenc_kind (AgencCancelTask _) = AgencInstructionCancelTask"
| "agenc_kind (AgencExpireClaim _) = AgencInstructionExpireClaim"

section \<open>Reading the fields\<close>

definition parse_u16_le :: "u16 reader" where
  "parse_u16_le p = do {
     (lower, p) \<leftarrow> parse_u8 p;
     (upper, p) \<leftarrow> parse_u8 p;
     Some (ucast lower + push_bit 8 (ucast upper), p) }"

definition parse_fixed_bytes :: "nat \<Rightarrow> byte_ptr reader" where
  "parse_fixed_bytes len p = do {
     guard (\<not> buffer_length p < len);
     Some (Ptr (buffer_addr p) (take len (buffer p)), advance p len) }"

definition parse_hash_ref :: "byte_ptr reader" where
  "parse_hash_ref p = parse_fixed_bytes AGENC_HASH_SIZE p"

definition parse_optional_hash_ref :: "byte_ptr option reader" where
  "parse_optional_hash_ref p = do {
     (option, p) \<leftarrow> parse_option p;
     if option = OptionNone then Some (None, p)
     else do { (hash, p) \<leftarrow> parse_hash_ref p; Some (Some hash, p) } }"

definition parse_optional_pubkey_ref :: "byte_ptr option reader" where
  "parse_optional_pubkey_ref p = do {
     (option, p) \<leftarrow> parse_option p;
     if option = OptionNone then Some (None, p)
     else do { (pubkey, p) \<leftarrow> parse_pubkey p; Some (Some pubkey, p) } }"

definition parse_optional_result_data :: "(byte_ptr option \<times> bool) reader" where
  "parse_optional_result_data p = do {
     (option, p) \<leftarrow> parse_option p;
     if option = OptionNone then Some ((None, False), p)
     else do { (result_data, p) \<leftarrow> parse_fixed_bytes AGENC_RESULT_DATA_SIZE p;
               Some ((Some result_data, True), p) } }"

definition base64url_value :: "u8 \<Rightarrow> int" where
  "base64url_value character =
     (if character \<ge> 0x41 \<and> character \<le> 0x5a then uint character - 0x41
      else if character \<ge> 0x61 \<and> character \<le> 0x7a then uint character - 0x61 + 26
      else if character \<ge> 0x30 \<and> character \<le> 0x39 then uint character - 0x30 + 52
      else if character = 0x2d then 62
      else if character = 0x5f then 63
      else -1)"

text \<open>The length of the text before the first zero byte.\<close>

fun artifact_text_length :: "u8 list \<Rightarrow> nat" where
  "artifact_text_length [] = 0"
| "artifact_text_length (c # cs) = (if c \<noteq> 0 then artifact_text_length cs + 1 else 0)"

text \<open>The inner loop: emit bytes while at least eight bits are pending.\<close>

fun emit_bytes :: "u32 \<Rightarrow> nat \<Rightarrow> u8 list \<Rightarrow> (u32 \<times> nat \<times> u8 list) option" where
  "emit_bytes accumulator bits output =
     (if bits \<ge> 8 then
        let bits = bits - 8
        in if length output \<ge> AGENC_HASH_SIZE then None
           else emit_bytes (accumulator AND (push_bit bits 1 - 1)) bits
                  (output @ [ucast (drop_bit bits accumulator AND 0xff)])
      else Some (accumulator, bits, output))"

declare emit_bytes.simps [simp del]

fun decode_base64url :: "u8 list \<Rightarrow> u32 \<Rightarrow> nat \<Rightarrow> u8 list \<Rightarrow> (u32 \<times> nat \<times> u8 list) option" where
  "decode_base64url [] accumulator bits output = Some (accumulator, bits, output)"
| "decode_base64url (c # cs) accumulator bits output =
     (let v = base64url_value c
      in if v < 0 then None
         else case emit_bytes (push_bit 6 accumulator OR word_of_int v) (bits + 6) output of
                None \<Rightarrow> None
              | Some (accumulator, bits, output) \<Rightarrow> decode_base64url cs accumulator bits output)"

definition decode_artifact_result_hash :: "u8 list \<Rightarrow> u8 list option" where
  "decode_artifact_result_hash result_data =
     (if memcmp (take AGENC_ARTIFACT_RESULT_PREFIX_SIZE result_data) AGENC_ARTIFACT_RESULT_PREFIX \<noteq> 0
      then None
      else let text_length = artifact_text_length (take AGENC_RESULT_DATA_SIZE result_data)
      in if text_length \<noteq> AGENC_ARTIFACT_RESULT_PREFIX_SIZE + AGENC_ARTIFACT_RESULT_B64_SIZE then None
      else case decode_base64url (drop AGENC_ARTIFACT_RESULT_PREFIX_SIZE (take text_length result_data)) 0 0 [] of
             None \<Rightarrow> None
           | Some (accumulator, bits, output) \<Rightarrow>
               if length output = AGENC_HASH_SIZE \<and> accumulator = 0 then Some output else None)"

definition parse_borsh_string :: "SizedString reader" where
  "parse_borsh_string p = do {
     (len, p) \<leftarrow> parse_u32 p;
     guard (\<not> buffer_length p < unat len);
     Some (take (unat len) (buffer p), advance p (unat len)) }"

definition parse_optional_borsh_string :: "(SizedString \<times> bool) reader" where
  "parse_optional_borsh_string p = do {
     (option, p) \<leftarrow> parse_option p;
     if option = OptionNone then Some (([], False), p)
     else do { (str, p) \<leftarrow> parse_borsh_string p; Some ((str, True), p) } }"

definition account_at :: "Instruction \<Rightarrow> MessageHeader \<Rightarrow> nat \<Rightarrow> byte_ptr option" where
  "account_at instruction header account_index = do {
     guard (\<not> account_index \<ge> accounts_length instruction);
     let pubkey_index = unat (accounts instruction ! account_index);
     guard (\<not> pubkey_index \<ge> pubkeys_length (pubkeys_header header));
     Some (header_pubkey (pubkeys header) pubkey_index) }"

definition validate_system_program :: "byte_ptr \<Rightarrow> bool" where
  "validate_system_program pubkey = pubkeys_equal pubkey system_program_id"

section \<open>Parsing the instructions\<close>

definition parse_register_agent :: "Instruction \<Rightarrow> MessageHeader \<Rightarrow> AgencRegisterAgentInfo reader" where
  "parse_register_agent instruction header p = do {
     guard (\<not> accounts_length instruction \<noteq> AGENC_REGISTER_AGENT_ACCOUNTS);
     agent \<leftarrow> account_at instruction header 0;
     protocol_config \<leftarrow> account_at instruction header 1;
     authority \<leftarrow> account_at instruction header 2;
     system_program \<leftarrow> account_at instruction header 3;
     guard (validate_system_program system_program);
     (agent_id, p) \<leftarrow> parse_hash_ref p;
     (capabilities, p) \<leftarrow> parse_u64 p;
     (endpoint, p) \<leftarrow> parse_borsh_string p;
     ((metadata_uri, has_metadata_uri), p) \<leftarrow> parse_optional_borsh_string p;
     (stake_amount, p) \<leftarrow> parse_u64 p;
     Some (\<lparr>ra_agent = agent, ra_protocol_config = protocol_config, ra_authority = authority,
       ra_system_program = system_program, ra_agent_id = agent_id,
       ra_capabilities = capabilities, ra_endpoint = endpoint,
       ra_has_metadata_uri = has_metadata_uri, ra_metadata_uri = metadata_uri,
       ra_stake_amount = stake_amount\<rparr>, p) }"

definition parse_create_task :: "Instruction \<Rightarrow> MessageHeader \<Rightarrow> AgencCreateTaskInfo reader" where
  "parse_create_task instruction header p = do {
     guard (\<not> accounts_length instruction \<noteq> AGENC_CREATE_TASK_ACCOUNTS);
     task \<leftarrow> account_at instruction header 0;
     escrow \<leftarrow> account_at instruction header 1;
     protocol_config \<leftarrow> account_at instruction header 2;
     creator_agent \<leftarrow> account_at instruction header 3;
     authority_rate_limit \<leftarrow> account_at instruction header 4;
     authority \<leftarrow> account_at instruction header 5;
     creator \<leftarrow> account_at instruction header 6;
     system_program \<leftarrow> account_at instruction header 7;
     guard (validate_system_program system_program);
     (task_id, p) \<leftarrow> parse_hash_ref p;
     (required_capabilities, p) \<leftarrow> parse_u64 p;
     (description, p) \<leftarrow> parse_fixed_bytes AGENC_DESCRIPTION_SIZE p;
     guard (list_all (\<lambda>i. \<not> bytes description ! i \<noteq> 0) [AGENC_HASH_SIZE..<AGENC_DESCRIPTION_SIZE]);
     let description_commitment = Ptr (addr description) (take AGENC_HASH_SIZE (bytes description));
     (reward_amount, p) \<leftarrow> parse_u64 p;
     (max_workers, p) \<leftarrow> parse_u8 p;
     (deadline, p) \<leftarrow> parse_i64 p;
     (task_type, p) \<leftarrow> parse_u8 p;
     (constraint_hash, p) \<leftarrow> parse_optional_hash_ref p;
     (min_reputation, p) \<leftarrow> parse_u16_le p;
     (reward_mint, p) \<leftarrow> parse_optional_pubkey_ref p;
     Some (\<lparr>ct_task = task, ct_escrow = escrow, ct_protocol_config = protocol_config,
       ct_creator_agent = creator_agent, ct_authority_rate_limit = authority_rate_limit,
       ct_authority = authority, ct_creator = creator,
       ct_system_program = system_program, ct_task_id = task_id,
       ct_required_capabilities = required_capabilities, ct_description = description,
       ct_description_commitment = description_commitment,
       ct_reward_amount = reward_amount, ct_max_workers = max_workers,
       ct_deadline = deadline, ct_task_type = task_type,
       ct_constraint_hash = constraint_hash, ct_min_reputation = min_reputation,
       ct_reward_mint = reward_mint\<rparr>, p) }"

definition parse_configure_task_validation ::
    "Instruction \<Rightarrow> MessageHeader \<Rightarrow> AgencConfigureTaskValidationInfo reader" where
  "parse_configure_task_validation instruction header p = do {
     guard (\<not> accounts_length instruction \<noteq> AGENC_CONFIGURE_TASK_VALIDATION_ACCOUNTS);
     task \<leftarrow> account_at instruction header 0;
     task_validation_config \<leftarrow> account_at instruction header 1;
     task_attestor_config \<leftarrow> account_at instruction header 2;
     protocol_config \<leftarrow> account_at instruction header 3;
     hire_record \<leftarrow> account_at instruction header 4;
     creator \<leftarrow> account_at instruction header 5;
     system_program \<leftarrow> account_at instruction header 6;
     guard (validate_system_program system_program);
     (mode, p) \<leftarrow> parse_u8 p;
     (review_window_secs, p) \<leftarrow> parse_i64 p;
     (validator_quorum, p) \<leftarrow> parse_u8 p;
     (attestor, p) \<leftarrow> parse_optional_pubkey_ref p;
     Some (\<lparr>cv_task = task, cv_task_validation_config = task_validation_config,
       cv_task_attestor_config = task_attestor_config,
       cv_protocol_config = protocol_config, cv_hire_record = hire_record,
       cv_creator = creator, cv_system_program = system_program, cv_mode = mode,
       cv_review_window_secs = review_window_secs,
       cv_validator_quorum = validator_quorum, cv_attestor = attestor\<rparr>, p) }"

definition parse_set_task_job_spec :: "Instruction \<Rightarrow> MessageHeader \<Rightarrow> AgencSetTaskJobSpecInfo reader" where
  "parse_set_task_job_spec instruction header p = do {
     guard (\<not> accounts_length instruction \<noteq> AGENC_SET_TASK_JOB_SPEC_ACCOUNTS);
     protocol_config \<leftarrow> account_at instruction header 0;
     task \<leftarrow> account_at instruction header 1;
     moderation_config \<leftarrow> account_at instruction header 2;
     task_moderation \<leftarrow> account_at instruction header 3;
     moderation_attestor \<leftarrow> account_at instruction header 4;
     moderation_block \<leftarrow> account_at instruction header 5;
     task_job_spec \<leftarrow> account_at instruction header 6;
     creator \<leftarrow> account_at instruction header 7;
     system_program \<leftarrow> account_at instruction header 8;
     guard (validate_system_program system_program);
     (job_spec_hash, p) \<leftarrow> parse_hash_ref p;
     (job_spec_uri, p) \<leftarrow> parse_borsh_string p;
     Some (\<lparr>js_protocol_config = protocol_config, js_task = task,
       js_moderation_config = moderation_config, js_task_moderation = task_moderation,
       js_moderation_attestor = moderation_attestor,
       js_moderation_block = moderation_block, js_task_job_spec = task_job_spec,
       js_creator = creator, js_system_program = system_program,
       js_job_spec_hash = job_spec_hash, js_job_spec_uri = job_spec_uri\<rparr>, p) }"

definition parse_claim_task_with_job_spec ::
    "Instruction \<Rightarrow> MessageHeader \<Rightarrow> AgencClaimTaskWithJobSpecInfo option" where
  "parse_claim_task_with_job_spec instruction header = do {
     guard (\<not> accounts_length instruction \<noteq> AGENC_CLAIM_TASK_WITH_JOB_SPEC_ACCOUNTS);
     task \<leftarrow> account_at instruction header 0;
     task_job_spec \<leftarrow> account_at instruction header 1;
     hire_record \<leftarrow> account_at instruction header 2;
     legacy_listing \<leftarrow> account_at instruction header 3;
     moderation_block \<leftarrow> account_at instruction header 4;
     claim \<leftarrow> account_at instruction header 5;
     protocol_config \<leftarrow> account_at instruction header 6;
     worker \<leftarrow> account_at instruction header 7;
     authority \<leftarrow> account_at instruction header 8;
     system_program \<leftarrow> account_at instruction header 9;
     guard (validate_system_program system_program);
     Some (\<lparr>cj_task = task, cj_task_job_spec = task_job_spec, cj_hire_record = hire_record,
       cj_legacy_listing = legacy_listing, cj_moderation_block = moderation_block,
       cj_claim = claim, cj_protocol_config = protocol_config, cj_worker = worker,
       cj_authority = authority, cj_system_program = system_program\<rparr>) }"

definition parse_submit_task_result :: "Instruction \<Rightarrow> MessageHeader \<Rightarrow> AgencSubmitTaskResultInfo reader" where
  "parse_submit_task_result instruction header p = do {
     guard (\<not> accounts_length instruction \<noteq> AGENC_SUBMIT_TASK_RESULT_ACCOUNTS);
     task \<leftarrow> account_at instruction header 0;
     claim \<leftarrow> account_at instruction header 1;
     task_validation_config \<leftarrow> account_at instruction header 2;
     task_submission \<leftarrow> account_at instruction header 3;
     protocol_config \<leftarrow> account_at instruction header 4;
     worker \<leftarrow> account_at instruction header 5;
     authority \<leftarrow> account_at instruction header 6;
     system_program \<leftarrow> account_at instruction header 7;
     guard (validate_system_program system_program);
     (proof_hash, p) \<leftarrow> parse_hash_ref p;
     ((result_data, has_result_data), p) \<leftarrow> parse_optional_result_data p;
     let decoded = (case result_data of Some d \<Rightarrow> decode_artifact_result_hash (bytes d) | None \<Rightarrow> None);
     Some (\<lparr>sr_task = task, sr_claim = claim,
       sr_task_validation_config = task_validation_config,
       sr_task_submission = task_submission, sr_protocol_config = protocol_config,
       sr_worker = worker, sr_authority = authority, sr_system_program = system_program,
       sr_proof_hash = proof_hash, sr_result_data = result_data,
       sr_has_result_data = has_result_data,
       sr_artifact_hash = Frame_ptr (case decoded of Some h \<Rightarrow> h | None \<Rightarrow> replicate AGENC_HASH_SIZE 0),
       sr_has_artifact_hash = (decoded \<noteq> None)\<rparr>, p) }"

definition parse_accept_task_result :: "Instruction \<Rightarrow> MessageHeader \<Rightarrow> AgencAcceptTaskResultInfo option" where
  "parse_accept_task_result instruction header = do {
     guard (\<not> accounts_length instruction \<noteq> AGENC_ACCEPT_TASK_RESULT_ACCOUNTS);
     task \<leftarrow> account_at instruction header 0;
     claim \<leftarrow> account_at instruction header 1;
     escrow \<leftarrow> account_at instruction header 2;
     task_validation_config \<leftarrow> account_at instruction header 3;
     task_submission \<leftarrow> account_at instruction header 4;
     worker \<leftarrow> account_at instruction header 5;
     protocol_config \<leftarrow> account_at instruction header 6;
     treasury \<leftarrow> account_at instruction header 7;
     creator \<leftarrow> account_at instruction header 8;
     worker_authority \<leftarrow> account_at instruction header 9;
     hire_record \<leftarrow> account_at instruction header 10;
     operator \<leftarrow> account_at instruction header 11;
     referrer \<leftarrow> account_at instruction header 12;
     creator_completion_bond \<leftarrow> account_at instruction header 13;
     worker_completion_bond \<leftarrow> account_at instruction header 14;
     system_program \<leftarrow> account_at instruction header 20;
     guard (validate_system_program system_program);
     Some (\<lparr>ar_task = task, ar_claim = claim, ar_escrow = escrow,
       ar_task_validation_config = task_validation_config,
       ar_task_submission = task_submission, ar_worker = worker,
       ar_protocol_config = protocol_config, ar_treasury = treasury,
       ar_creator = creator, ar_worker_authority = worker_authority,
       ar_hire_record = hire_record, ar_operator = operator, ar_referrer = referrer,
       ar_creator_completion_bond = creator_completion_bond,
       ar_worker_completion_bond = worker_completion_bond,
       ar_system_program = system_program\<rparr>) }"

definition parse_reject_task_result :: "Instruction \<Rightarrow> MessageHeader \<Rightarrow> AgencRejectTaskResultInfo reader" where
  "parse_reject_task_result instruction header p = do {
     guard (\<not> accounts_length instruction \<noteq> AGENC_REJECT_TASK_RESULT_ACCOUNTS);
     task \<leftarrow> account_at instruction header 0;
     claim \<leftarrow> account_at instruction header 1;
     task_validation_config \<leftarrow> account_at instruction header 2;
     task_submission \<leftarrow> account_at instruction header 3;
     worker \<leftarrow> account_at instruction header 4;
     protocol_config \<leftarrow> account_at instruction header 5;
     creator \<leftarrow> account_at instruction header 6;
     worker_authority \<leftarrow> account_at instruction header 7;
     agent_stats \<leftarrow> account_at instruction header 8;
     system_program \<leftarrow> account_at instruction header 9;
     worker_completion_bond \<leftarrow> account_at instruction header 10;
     guard (validate_system_program system_program);
     (rejection_hash, p) \<leftarrow> parse_hash_ref p;
     Some (\<lparr>rr_task = task, rr_claim = claim,
       rr_task_validation_config = task_validation_config,
       rr_task_submission = task_submission, rr_worker = worker,
       rr_protocol_config = protocol_config, rr_creator = creator,
       rr_worker_authority = worker_authority, rr_agent_stats = agent_stats,
       rr_system_program = system_program,
       rr_worker_completion_bond = worker_completion_bond,
       rr_rejection_hash = rejection_hash\<rparr>, p) }"

definition parse_cancel_task :: "Instruction \<Rightarrow> MessageHeader \<Rightarrow> AgencCancelTaskInfo option" where
  "parse_cancel_task instruction header = do {
     guard (\<not> accounts_length instruction < AGENC_CANCEL_TASK_BASE_ACCOUNTS);
     guard (\<not> accounts_length instruction
              > AGENC_CANCEL_TASK_BASE_ACCOUNTS + AGENC_CANCEL_TASK_WORKER_ACCOUNT_STRIDE);
     guard (\<not> (accounts_length instruction - AGENC_CANCEL_TASK_BASE_ACCOUNTS)
              mod AGENC_CANCEL_TASK_WORKER_ACCOUNT_STRIDE \<noteq> 0);
     task \<leftarrow> account_at instruction header 0;
     escrow \<leftarrow> account_at instruction header 1;
     authority \<leftarrow> account_at instruction header 2;
     protocol_config \<leftarrow> account_at instruction header 3;
     system_program \<leftarrow> account_at instruction header 4;
     guard (validate_system_program system_program);
     let worker_account_count = (accounts_length instruction - AGENC_CANCEL_TASK_BASE_ACCOUNTS)
                                  div AGENC_CANCEL_TASK_WORKER_ACCOUNT_STRIDE;
     Some (\<lparr>xt_task = task, xt_escrow = escrow, xt_authority = authority,
       xt_protocol_config = protocol_config, xt_system_program = system_program,
       xt_worker_account_count = worker_account_count\<rparr>) }"

definition parse_expire_claim :: "Instruction \<Rightarrow> MessageHeader \<Rightarrow> AgencExpireClaimInfo option" where
  "parse_expire_claim instruction header = do {
     guard (\<not> accounts_length instruction \<noteq> AGENC_EXPIRE_CLAIM_ACCOUNTS);
     authority \<leftarrow> account_at instruction header 0;
     task \<leftarrow> account_at instruction header 1;
     escrow \<leftarrow> account_at instruction header 2;
     claim \<leftarrow> account_at instruction header 3;
     worker \<leftarrow> account_at instruction header 4;
     protocol_config \<leftarrow> account_at instruction header 5;
     task_validation_config \<leftarrow> account_at instruction header 6;
     task_submission \<leftarrow> account_at instruction header 7;
     rent_recipient \<leftarrow> account_at instruction header 8;
     worker_completion_bond \<leftarrow> account_at instruction header 9;
     bond_creator \<leftarrow> account_at instruction header 10;
     agent_stats \<leftarrow> account_at instruction header 11;
     treasury \<leftarrow> account_at instruction header 12;
     system_program \<leftarrow> account_at instruction header 13;
     guard (validate_system_program system_program);
     Some (\<lparr>ec_authority = authority, ec_task = task, ec_escrow = escrow, ec_claim = claim,
       ec_worker = worker, ec_protocol_config = protocol_config,
       ec_task_validation_config = Some task_validation_config,
       ec_task_submission = Some task_submission, ec_rent_recipient = rent_recipient,
       ec_worker_completion_bond = worker_completion_bond,
       ec_bond_creator = bond_creator, ec_agent_stats = agent_stats,
       ec_treasury = treasury, ec_system_program = system_program\<rparr>) }"

text \<open>The dispatch on the first eight bytes; whatever follows must be consumed entirely.\<close>

definition parse_agenc_body :: "Instruction \<Rightarrow> MessageHeader \<Rightarrow> u8 list \<Rightarrow> AgencBody reader" where
  "parse_agenc_body instruction header discriminator p =
     (if memcmp discriminator DISCRIMINATOR_REGISTER_AGENT = 0 then
        map_option (apfst AgencRegisterAgent) (parse_register_agent instruction header p)
      else if memcmp discriminator DISCRIMINATOR_CREATE_TASK = 0 then
        map_option (apfst AgencCreateTask) (parse_create_task instruction header p)
      else if memcmp discriminator DISCRIMINATOR_CONFIGURE_TASK_VALIDATION = 0 then
        map_option (apfst AgencConfigureTaskValidation)
          (parse_configure_task_validation instruction header p)
      else if memcmp discriminator DISCRIMINATOR_SET_TASK_JOB_SPEC = 0 then
        map_option (apfst AgencSetTaskJobSpec) (parse_set_task_job_spec instruction header p)
      else if memcmp discriminator DISCRIMINATOR_CLAIM_TASK_WITH_JOB_SPEC = 0 then
        map_option (\<lambda>info. (AgencClaimTaskWithJobSpec info, p))
          (parse_claim_task_with_job_spec instruction header)
      else if memcmp discriminator DISCRIMINATOR_SUBMIT_TASK_RESULT = 0 then
        map_option (apfst AgencSubmitTaskResult) (parse_submit_task_result instruction header p)
      else if memcmp discriminator DISCRIMINATOR_ACCEPT_TASK_RESULT = 0 then
        map_option (\<lambda>info. (AgencAcceptTaskResult info, p)) (parse_accept_task_result instruction header)
      else if memcmp discriminator DISCRIMINATOR_REJECT_TASK_RESULT = 0 then
        map_option (apfst AgencRejectTaskResult) (parse_reject_task_result instruction header p)
      else if memcmp discriminator DISCRIMINATOR_CANCEL_TASK = 0 then
        map_option (\<lambda>info. (AgencCancelTask info, p)) (parse_cancel_task instruction header)
      else if memcmp discriminator DISCRIMINATOR_EXPIRE_CLAIM = 0 then
        map_option (\<lambda>info. (AgencExpireClaim info, p)) (parse_expire_claim instruction header)
      else None)"

definition parse_agenc_instructions :: "Instruction \<Rightarrow> MessageHeader \<Rightarrow> AgencInfo option" where
  "parse_agenc_instructions instruction header = do {
     let program_id = header_pubkey (pubkeys header) (unat (program_id_index instruction));
     guard (is_agenc_program_id program_id);
     let p = data_parser instruction;
     (discriminator, p) \<leftarrow> parse_fixed_bytes AGENC_DISCRIMINATOR_SIZE p;
     (body, p) \<leftarrow> parse_agenc_body instruction header (bytes discriminator) p;
     guard (parser_is_empty p);
     Some \<lparr>agenc_program_id = program_id, agenc_body = body\<rparr> }"

section \<open>Printing\<close>

definition set_primary_action :: "string \<Rightarrow> TransactionSummary \<Rightarrow> TransactionSummary c_result" where
  "set_primary_action action S = (let item = transaction_summary_primary_item S
     in if item = None then Some (1, S)
        else do { S \<leftarrow> summary_item_set_string item ''AgenC action'' action S;
                  let S = transaction_summary_set_transaction_type TRANSACTION_TYPE_AGENC_ACTION S;
                  Some (0, S) })"

definition set_general_pubkey :: "string \<Rightarrow> byte_ptr \<Rightarrow> TransactionSummary \<Rightarrow> TransactionSummary c_result" where
  "set_general_pubkey title pubkey S = (let item = transaction_summary_general_item S
     in if item = None then Some (1, S) else do { S \<leftarrow> summary_item_set_pubkey item title pubkey S; Some (0, S) })"

definition set_general_hash :: "string \<Rightarrow> byte_ptr \<Rightarrow> TransactionSummary \<Rightarrow> TransactionSummary c_result" where
  "set_general_hash title hash S = (let item = transaction_summary_general_item S
     in if item = None then Some (1, S) else do { S \<leftarrow> summary_item_set_hash item title hash S; Some (0, S) })"

definition set_general_amount :: "string \<Rightarrow> u64 \<Rightarrow> TransactionSummary \<Rightarrow> TransactionSummary c_result" where
  "set_general_amount title lamports S = (let item = transaction_summary_general_item S
     in if item = None then Some (1, S) else do { S \<leftarrow> summary_item_set_amount item title lamports S; Some (0, S) })"

definition set_general_u64 :: "string \<Rightarrow> u64 \<Rightarrow> TransactionSummary \<Rightarrow> TransactionSummary c_result" where
  "set_general_u64 title v S = (let item = transaction_summary_general_item S
     in if item = None then Some (1, S) else do { S \<leftarrow> summary_item_set_u64 item title v S; Some (0, S) })"

definition set_general_i64 :: "string \<Rightarrow> i64 \<Rightarrow> TransactionSummary \<Rightarrow> TransactionSummary c_result" where
  "set_general_i64 title v S = (let item = transaction_summary_general_item S
     in if item = None then Some (1, S) else do { S \<leftarrow> summary_item_set_i64 item title v S; Some (0, S) })"

definition set_general_timestamp :: "string \<Rightarrow> i64 \<Rightarrow> TransactionSummary \<Rightarrow> TransactionSummary c_result" where
  "set_general_timestamp title v S = (let item = transaction_summary_general_item S
     in if item = None then Some (1, S) else do { S \<leftarrow> summary_item_set_timestamp item title v S; Some (0, S) })"

definition set_general_string :: "string \<Rightarrow> string \<Rightarrow> TransactionSummary \<Rightarrow> TransactionSummary c_result" where
  "set_general_string title v S = (let item = transaction_summary_general_item S
     in if item = None then Some (1, S) else do { S \<leftarrow> summary_item_set_string item title v S; Some (0, S) })"

definition set_general_sized_string :: "string \<Rightarrow> SizedString \<Rightarrow> TransactionSummary \<Rightarrow> TransactionSummary c_result" where
  "set_general_sized_string title v S = (let item = transaction_summary_general_item S
     in if item = None then Some (1, S) else do { S \<leftarrow> summary_item_set_sized_string item title v S; Some (0, S) })"

text \<open>
  A body of \<open>BAIL_IF (set_...)\<close> calls is run by \<open>run_all\<close>: the first non-zero status is
  returned at once, with the state the calls before it left.
\<close>

fun run_all :: "(TransactionSummary \<Rightarrow> TransactionSummary c_result) list \<Rightarrow> TransactionSummary \<Rightarrow> TransactionSummary c_result" where
  "run_all [] S = Some (0, S)"
| "run_all (f # fs) S = bail_if (f S) (run_all fs)"

definition print_create_task_fields :: "byte_ptr \<Rightarrow> AgencCreateTaskInfo \<Rightarrow> TransactionSummary \<Rightarrow> TransactionSummary c_result" where
  "print_create_task_fields program_id info = run_all (
     (case ct_reward_mint info of
        Some reward_mint \<Rightarrow>
          [set_general_u64 ''Reward (token base units)'' (ct_reward_amount info),
           set_general_pubkey ''Token mint'' reward_mint]
      | None \<Rightarrow> [set_general_amount ''Reward'' (ct_reward_amount info)])
     @ [set_general_pubkey ''Task'' (ct_task info),
        set_general_pubkey ''Creator'' (ct_creator info),
        set_general_hash ''Content hash'' (ct_description_commitment info),
        set_general_timestamp ''Deadline'' (ct_deadline info),
        set_general_u64 ''Max workers'' (ucast (ct_max_workers info))]
     @ (if ct_task_type info \<noteq> 0 then [set_general_u64 ''Task type'' (ucast (ct_task_type info))] else [])
     @ [set_general_u64 ''Min reputation'' (ucast (ct_min_reputation info)),
        set_general_pubkey ''Program'' program_id])"

definition print_agenc_create_task_info :: "byte_ptr \<Rightarrow> AgencCreateTaskInfo \<Rightarrow> TransactionSummary \<Rightarrow> TransactionSummary c_result" where
  "print_agenc_create_task_info program_id info =
     run_all [set_primary_action ''Create task'', print_create_task_fields program_id info]"

definition print_agenc_register_agent_info :: "byte_ptr \<Rightarrow> AgencRegisterAgentInfo \<Rightarrow> TransactionSummary \<Rightarrow> TransactionSummary c_result" where
  "print_agenc_register_agent_info program_id info = run_all (
     [set_primary_action ''Register agent'',
      set_general_amount ''Stake'' (ra_stake_amount info),
      set_general_pubkey ''Agent'' (ra_agent info),
      set_general_pubkey ''Authority'' (ra_authority info),
      set_general_u64 ''Capabilities'' (ra_capabilities info),
      set_general_sized_string ''Endpoint'' (ra_endpoint info)]
     @ (if ra_has_metadata_uri info
        then [set_general_sized_string ''Metadata URI'' (ra_metadata_uri info)] else [])
     @ [set_general_pubkey ''Program'' program_id])"

definition print_agenc_create_task_with_review_info :: "AgencInfo \<Rightarrow> AgencInfo \<Rightarrow> TransactionSummary \<Rightarrow> TransactionSummary c_result" where
  "print_agenc_create_task_with_review_info create_info configure_info S =
     (case (agenc_body create_info, agenc_body configure_info) of
        (AgencCreateTask create_task, AgencConfigureTaskValidation configure) \<Rightarrow>
          if \<not> pubkeys_equal (ct_task create_task) (cv_task configure) then Some (1, S)
          else if \<not> pubkeys_equal (ct_creator create_task) (cv_creator configure) then Some (1, S)
          else if cv_mode configure \<noteq> 1 then Some (1, S)
          else if cv_validator_quorum configure \<noteq> 0 then Some (1, S)
          else if cv_attestor configure \<noteq> None then Some (1, S)
          else run_all
            [set_primary_action ''Create task'',
             print_create_task_fields (agenc_program_id create_info) create_task,
             set_general_i64 ''Review window'' (cv_review_window_secs configure)] S
      | _ \<Rightarrow> Some (1, S))"

definition print_agenc_configure_task_validation_info ::
    "byte_ptr \<Rightarrow> AgencConfigureTaskValidationInfo \<Rightarrow> TransactionSummary \<Rightarrow> TransactionSummary c_result" where
  "print_agenc_configure_task_validation_info program_id info = run_all (
     [set_primary_action ''Configure review'',
      set_general_pubkey ''Task'' (cv_task info),
      set_general_u64 ''Mode'' (ucast (cv_mode info)),
      set_general_i64 ''Review window'' (cv_review_window_secs info),
      set_general_u64 ''Validator quorum'' (ucast (cv_validator_quorum info))]
     @ (case cv_attestor info of Some attestor \<Rightarrow> [set_general_pubkey ''Attestor'' attestor] | None \<Rightarrow> [])
     @ [set_general_pubkey ''Program'' program_id])"

definition print_agenc_set_task_job_spec_info :: "byte_ptr \<Rightarrow> AgencSetTaskJobSpecInfo \<Rightarrow> TransactionSummary \<Rightarrow> TransactionSummary c_result" where
  "print_agenc_set_task_job_spec_info program_id info = run_all
     [set_primary_action ''Attach job spec'',
      set_general_hash ''Job spec hash'' (js_job_spec_hash info),
      set_general_pubkey ''Task'' (js_task info),
      set_general_pubkey ''Creator'' (js_creator info),
      set_general_sized_string ''Job spec URI'' (js_job_spec_uri info),
      set_general_pubkey ''Program'' program_id]"

definition print_agenc_claim_task_with_job_spec_info :: "byte_ptr \<Rightarrow> AgencClaimTaskWithJobSpecInfo \<Rightarrow> TransactionSummary \<Rightarrow> TransactionSummary c_result" where
  "print_agenc_claim_task_with_job_spec_info program_id info = run_all
     [set_primary_action ''Claim task'',
      set_general_pubkey ''Task'' (cj_task info),
      set_general_pubkey ''Worker'' (cj_worker info),
      set_general_pubkey ''Authority'' (cj_authority info),
      set_general_pubkey ''Claim'' (cj_claim info),
      set_general_pubkey ''Program'' program_id]"

definition print_agenc_submit_task_result_info :: "byte_ptr \<Rightarrow> AgencSubmitTaskResultInfo \<Rightarrow> TransactionSummary \<Rightarrow> TransactionSummary c_result" where
  "print_agenc_submit_task_result_info program_id info = run_all
     [set_primary_action ''Submit result'',
      set_general_hash ''Proof hash'' (sr_proof_hash info),
      set_general_pubkey ''Task'' (sr_task info),
      set_general_pubkey ''Worker'' (sr_worker info),
      set_general_pubkey ''Submission'' (sr_task_submission info),
      (if sr_has_artifact_hash info
       then set_general_hash ''Artifact SHA-256'' (sr_artifact_hash info)
       else set_general_string ''Result data'' (if sr_has_result_data info then ''included'' else ''none'')),
      set_general_pubkey ''Program'' program_id]"

definition print_agenc_accept_task_result_info :: "byte_ptr \<Rightarrow> AgencAcceptTaskResultInfo \<Rightarrow> TransactionSummary \<Rightarrow> TransactionSummary c_result" where
  "print_agenc_accept_task_result_info program_id info = run_all
     [set_primary_action ''Accept result'',
      set_general_string ''Reward'' ''not in tx'',
      set_general_pubkey ''Task'' (ar_task info),
      set_general_pubkey ''Worker'' (ar_worker info),
      set_general_pubkey ''Worker auth'' (ar_worker_authority info),
      set_general_pubkey ''Creator'' (ar_creator info),
      set_general_pubkey ''Treasury'' (ar_treasury info),
      set_general_pubkey ''Program'' program_id]"

definition print_agenc_reject_task_result_info :: "byte_ptr \<Rightarrow> AgencRejectTaskResultInfo \<Rightarrow> TransactionSummary \<Rightarrow> TransactionSummary c_result" where
  "print_agenc_reject_task_result_info program_id info = run_all
     [set_primary_action ''Reject result'',
      set_general_hash ''Rejection hash'' (rr_rejection_hash info),
      set_general_pubkey ''Task'' (rr_task info),
      set_general_pubkey ''Worker'' (rr_worker info),
      set_general_pubkey ''Worker auth'' (rr_worker_authority info),
      set_general_pubkey ''Creator'' (rr_creator info),
      set_general_pubkey ''Submission'' (rr_task_submission info),
      set_general_pubkey ''Program'' program_id]"

definition print_agenc_cancel_task_info :: "byte_ptr \<Rightarrow> AgencCancelTaskInfo \<Rightarrow> TransactionSummary \<Rightarrow> TransactionSummary c_result" where
  "print_agenc_cancel_task_info program_id info = run_all
     [set_primary_action ''Cancel task'',
      set_general_string ''Refund'' ''not in tx'',
      set_general_pubkey ''Task'' (xt_task info),
      set_general_pubkey ''Authority'' (xt_authority info),
      set_general_pubkey ''Escrow'' (xt_escrow info),
      set_general_u64 ''Worker claims'' (of_nat (xt_worker_account_count info)),
      set_general_pubkey ''Program'' program_id]"

definition print_agenc_expire_claim_info :: "byte_ptr \<Rightarrow> AgencExpireClaimInfo \<Rightarrow> TransactionSummary \<Rightarrow> TransactionSummary c_result" where
  "print_agenc_expire_claim_info program_id info = run_all (
     [set_primary_action ''Expire claim'',
      set_general_pubkey ''Task'' (ec_task info),
      set_general_pubkey ''Claim'' (ec_claim info),
      set_general_pubkey ''Worker'' (ec_worker info),
      set_general_pubkey ''Authority'' (ec_authority info),
      set_general_pubkey ''Rent recipient'' (ec_rent_recipient info)]
     @ (case ec_task_validation_config info of
          Some config \<Rightarrow> [set_general_pubkey ''Validation'' config] | None \<Rightarrow> [])
     @ (case ec_task_submission info of
          Some submission \<Rightarrow> [set_general_pubkey ''Submission'' submission] | None \<Rightarrow> [])
     @ [set_general_pubkey ''Program'' program_id])"

definition print_agenc_info :: "AgencInfo \<Rightarrow> TransactionSummary \<Rightarrow> TransactionSummary c_result" where
  "print_agenc_info info = (let program_id = agenc_program_id info in case agenc_body info of
     AgencRegisterAgent i \<Rightarrow> print_agenc_register_agent_info program_id i
   | AgencCreateTask i \<Rightarrow> print_agenc_create_task_info program_id i
   | AgencConfigureTaskValidation i \<Rightarrow> print_agenc_configure_task_validation_info program_id i
   | AgencSetTaskJobSpec i \<Rightarrow> print_agenc_set_task_job_spec_info program_id i
   | AgencClaimTaskWithJobSpec i \<Rightarrow> print_agenc_claim_task_with_job_spec_info program_id i
   | AgencSubmitTaskResult i \<Rightarrow> print_agenc_submit_task_result_info program_id i
   | AgencAcceptTaskResult i \<Rightarrow> print_agenc_accept_task_result_info program_id i
   | AgencRejectTaskResult i \<Rightarrow> print_agenc_reject_task_result_info program_id i
   | AgencCancelTask i \<Rightarrow> print_agenc_cancel_task_info program_id i
   | AgencExpireClaim i \<Rightarrow> print_agenc_expire_claim_info program_id i)"

section \<open>The field readers are exact\<close>

lemma parse_u16_le_eq: "parse_u16_le p = parse_u16 p"
  by (simp add: parse_u16_le_def parse_u16_def)

lemma parse_fixed_bytes_iff:
  "parse_fixed_bytes n p = Some (k, q) \<longleftrightarrow>
     (\<exists>bs r. length bs = n \<and> buffer p = bs @ r \<and> k = Ptr (buffer_addr p) bs \<and> q = advance p n)"
proof
  assume "parse_fixed_bytes n p = Some (k, q)"
  then show "\<exists>bs r. length bs = n \<and> buffer p = bs @ r \<and> k = Ptr (buffer_addr p) bs \<and> q = advance p n"
    by (intro exI [of _ "take n (buffer p)"] exI [of _ "drop n (buffer p)"])
      (auto simp: parse_fixed_bytes_def parse_success buffer_length_def)
qed (auto simp: parse_fixed_bytes_def buffer_length_def)

interpretation fixedr: wire_exact "parse_fixed_bytes n" "\<lambda>bs. bs" Ptr "\<lambda>bs. length bs = n" for n
  by unfold_locales (auto simp: reaches_def parse_fixed_bytes_iff buffer_length_def intro!: exI [of _ n])

lemma parse_option_iff:
  "parse_option p = Some (v, q) \<longleftrightarrow>
     (\<exists>r. buffer p = (if v = OptionNone then 0 else 1) # r \<and> q = advance p 1)"
  by (cases v; cases "buffer p") (auto simp: parse_option_def parse_u8_cases)

definition enc_optional :: "u8 list option \<Rightarrow> u8 list" where
  "enc_optional v = (case v of None \<Rightarrow> [0] | Some bs \<Rightarrow> 1 # bs)"

definition optional_at :: "nat \<Rightarrow> u8 list option \<Rightarrow> byte_ptr option" where
  "optional_at a = map_option (Ptr (a + 1))"

lemma optional_ref_iff:
  assumes "\<And>p k q. dec p = Some (k, q) \<longleftrightarrow>
      (\<exists>bs r. length bs = n \<and> buffer p = bs @ r \<and> k = Ptr (buffer_addr p) bs \<and> q = advance p n)"
  shows "Option.bind (parse_option p) (\<lambda>(option, p). if option = OptionNone then Some (None, p)
       else Option.bind (dec p) (\<lambda>(x, p). Some (Some x, p))) = Some (k, q) \<longleftrightarrow>
     (\<exists>v r. (\<forall>bs. v = Some bs \<longrightarrow> length bs = n) \<and> buffer p = enc_optional v @ r
        \<and> k = optional_at (buffer_addr p) v \<and> q = advance p (length (enc_optional v)))" (is "?l = ?r")
proof
  assume ?l
  then obtain opt p1 where o: "parse_option p = Some (opt, p1)"
    and rest: "(if opt = OptionNone then Some (None, p1)
       else Option.bind (dec p1) (\<lambda>(x, p). Some (Some x, p))) = Some (k, q)"
    by (auto simp: Option.bind_eq_Some_conv)
  show ?r
  proof (cases opt)
    case OptionNone
    with o rest show ?thesis
      by (intro exI [of _ None]) (auto simp: parse_option_iff enc_optional_def optional_at_def)
  next
    case OptionSome
    with rest obtain x where x: "dec p1 = Some (x, q)" "k = Some x"
      by (auto simp: Option.bind_eq_Some_conv)
    then obtain bs r where bs: "length bs = n" "buffer p1 = bs @ r" "x = Ptr (buffer_addr p1) bs"
      "q = advance p1 n" using assms by blast
    with o OptionSome x show ?thesis
      by (intro exI [of _ "Some bs"] exI [of _ r])
        (cases "buffer p", auto simp: parse_option_iff enc_optional_def optional_at_def)
  qed
next
  assume ?r
  then obtain v r where v: "\<forall>bs. v = Some bs \<longrightarrow> length bs = n" "buffer p = enc_optional v @ r"
    "k = optional_at (buffer_addr p) v" "q = advance p (length (enc_optional v))" by blast
  show ?l
  proof (cases v)
    case None
    then have "parse_option p = Some (OptionNone, advance p 1)"
      using v(2) by (simp add: parse_option_iff enc_optional_def)
    with None v show ?thesis by (simp add: enc_optional_def optional_at_def)
  next
    case (Some bs)
    then have "parse_option p = Some (OptionSome, advance p 1)"
      using v(2) by (simp add: parse_option_iff enc_optional_def)
    moreover have "dec (advance p 1) = Some (Ptr (buffer_addr p + 1) bs, advance p (1 + n))"
      unfolding assms using v Some by (auto simp: enc_optional_def)
    ultimately show ?thesis using Some v by (simp add: enc_optional_def optional_at_def)
  qed
qed

lemma parse_hash_ref_iff:
  "parse_hash_ref p = Some (k, q) \<longleftrightarrow>
     (\<exists>bs r. length bs = 32 \<and> buffer p = bs @ r \<and> k = Ptr (buffer_addr p) bs \<and> q = advance p 32)"
  by (simp add: parse_hash_ref_def parse_fixed_bytes_iff agenc_sizes)

interpretation hash_refr: wire_exact parse_hash_ref "\<lambda>bs. bs" Ptr "\<lambda>bs. length bs = 32"
  by unfold_locales (auto simp: reaches_def parse_hash_ref_iff buffer_length_def intro!: exI [of _ 32])

lemma parse_optional_hash_ref_iff:
  "parse_optional_hash_ref p = Some (k, q) \<longleftrightarrow>
     (\<exists>v r. (\<forall>bs. v = Some bs \<longrightarrow> length bs = 32) \<and> buffer p = enc_optional v @ r
        \<and> k = optional_at (buffer_addr p) v \<and> q = advance p (length (enc_optional v)))"
  unfolding parse_optional_hash_ref_def by (rule optional_ref_iff) (rule parse_hash_ref_iff)

lemma parse_optional_pubkey_ref_iff:
  "parse_optional_pubkey_ref p = Some (k, q) \<longleftrightarrow>
     (\<exists>v r. (\<forall>bs. v = Some bs \<longrightarrow> length bs = 32) \<and> buffer p = enc_optional v @ r
        \<and> k = optional_at (buffer_addr p) v \<and> q = advance p (length (enc_optional v)))"
  unfolding parse_optional_pubkey_ref_def by (rule optional_ref_iff) (rule parse_pubkey_iff)

interpretation optional_hashr: wire_exact parse_optional_hash_ref enc_optional optional_at
    "\<lambda>v. \<forall>bs. v = Some bs \<longrightarrow> length bs = 32"
  by unfold_locales (auto simp: parse_optional_hash_ref_iff buffer_length_def)

interpretation optional_pubkeyr: wire_exact parse_optional_pubkey_ref enc_optional optional_at
    "\<lambda>v. \<forall>bs. v = Some bs \<longrightarrow> length bs = 32"
  by unfold_locales (auto simp: parse_optional_pubkey_ref_iff buffer_length_def)

lemma bytes_optional_at [simp]: "map_option bytes (optional_at a v) = v"
  by (cases v) (simp_all add: optional_at_def)

definition enc_borsh :: "u8 list \<Rightarrow> u8 list" where
  "enc_borsh s = le32 (of_nat (length s)) @ s"

lemma unat_of_nat_u32: "n < 4294967296 \<Longrightarrow> unat (of_nat n :: u32) = n"
  by (simp add: unat_of_nat)

lemma parse_borsh_string_iff:
  "parse_borsh_string p = Some (s, q) \<longleftrightarrow>
     (\<exists>r. length s \<le> UINT32_MAX \<and> buffer p = enc_borsh s @ r \<and> q = advance p (4 + length s))"
  (is "?l = ?r")
proof
  assume ?l
  then obtain n where n: "buffer p = le32 n @ drop 4 (buffer p)" "unat n \<le> length (buffer p) - 4"
    "s = take (unat n) (drop 4 (buffer p))" "q = advance p (4 + unat n)"
    by (auto simp: parse_borsh_string_def parse_success parse_u32_iff buffer_length_def not_less)
  then have len: "length s = unat n" by simp
  moreover have "unat n < 2 ^ 32" using unsigned_less [of n, where 'a = nat] by simp
  ultimately show ?r using n
    by (intro exI [of _ "drop (unat n) (drop 4 (buffer p))"])
      (auto simp: enc_borsh_def UINT32_MAX_def simp del: drop_drop)
next
  assume ?r
  then obtain r where r: "length s \<le> UINT32_MAX" "buffer p = enc_borsh s @ r"
    "q = advance p (4 + length s)" by auto
  then have "unat (of_nat (length s) :: u32) = length s"
    by (simp add: unat_of_nat_u32 UINT32_MAX_def)
  moreover have "parse_u32 p = Some (of_nat (length s), advance p 4)"
    using r(2) by (simp add: parse_u32_iff enc_borsh_def)
  ultimately show ?l using r
    by (simp add: parse_borsh_string_def enc_borsh_def buffer_length_def)
qed

interpretation borshr: wire_exact parse_borsh_string enc_borsh "\<lambda>_ s. s" "\<lambda>s. length s \<le> UINT32_MAX"
  by unfold_locales
    (auto simp: parse_borsh_string_iff enc_borsh_def buffer_length_def reaches_def
      intro!: exI [of _ "4 + length _"])

section \<open>What a successful parse guarantees\<close>

fun agenc_discriminator :: "AgencInstructionKind \<Rightarrow> u8 list" where
  "agenc_discriminator AgencInstructionUnknown = []"
| "agenc_discriminator AgencInstructionRegisterAgent = DISCRIMINATOR_REGISTER_AGENT"
| "agenc_discriminator AgencInstructionCreateTask = DISCRIMINATOR_CREATE_TASK"
| "agenc_discriminator AgencInstructionConfigureTaskValidation = DISCRIMINATOR_CONFIGURE_TASK_VALIDATION"
| "agenc_discriminator AgencInstructionSetTaskJobSpec = DISCRIMINATOR_SET_TASK_JOB_SPEC"
| "agenc_discriminator AgencInstructionClaimTaskWithJobSpec = DISCRIMINATOR_CLAIM_TASK_WITH_JOB_SPEC"
| "agenc_discriminator AgencInstructionSubmitTaskResult = DISCRIMINATOR_SUBMIT_TASK_RESULT"
| "agenc_discriminator AgencInstructionAcceptTaskResult = DISCRIMINATOR_ACCEPT_TASK_RESULT"
| "agenc_discriminator AgencInstructionRejectTaskResult = DISCRIMINATOR_REJECT_TASK_RESULT"
| "agenc_discriminator AgencInstructionCancelTask = DISCRIMINATOR_CANCEL_TASK"
| "agenc_discriminator AgencInstructionExpireClaim = DISCRIMINATOR_EXPIRE_CLAIM"

fun agenc_system_program :: "AgencBody \<Rightarrow> byte_ptr" where
  "agenc_system_program (AgencRegisterAgent i) = ra_system_program i"
| "agenc_system_program (AgencCreateTask i) = ct_system_program i"
| "agenc_system_program (AgencConfigureTaskValidation i) = cv_system_program i"
| "agenc_system_program (AgencSetTaskJobSpec i) = js_system_program i"
| "agenc_system_program (AgencClaimTaskWithJobSpec i) = cj_system_program i"
| "agenc_system_program (AgencSubmitTaskResult i) = sr_system_program i"
| "agenc_system_program (AgencAcceptTaskResult i) = ar_system_program i"
| "agenc_system_program (AgencRejectTaskResult i) = rr_system_program i"
| "agenc_system_program (AgencCancelTask i) = xt_system_program i"
| "agenc_system_program (AgencExpireClaim i) = ec_system_program i"

text \<open>The accounts of each instruction by their position.\<close>

fun agenc_accounts :: "AgencBody \<Rightarrow> (nat \<times> byte_ptr) list" where
  "agenc_accounts (AgencRegisterAgent i) =
     [(0, ra_agent i), (1, ra_protocol_config i), (2, ra_authority i), (3, ra_system_program i)]"
| "agenc_accounts (AgencCreateTask i) =
     [(0, ct_task i), (1, ct_escrow i), (2, ct_protocol_config i), (3, ct_creator_agent i),
      (4, ct_authority_rate_limit i), (5, ct_authority i), (6, ct_creator i), (7, ct_system_program i)]"
| "agenc_accounts (AgencConfigureTaskValidation i) =
     [(0, cv_task i), (1, cv_task_validation_config i), (2, cv_task_attestor_config i),
      (3, cv_protocol_config i), (4, cv_hire_record i), (5, cv_creator i), (6, cv_system_program i)]"
| "agenc_accounts (AgencSetTaskJobSpec i) =
     [(0, js_protocol_config i), (1, js_task i), (2, js_moderation_config i), (3, js_task_moderation i),
      (4, js_moderation_attestor i), (5, js_moderation_block i), (6, js_task_job_spec i),
      (7, js_creator i), (8, js_system_program i)]"
| "agenc_accounts (AgencClaimTaskWithJobSpec i) =
     [(0, cj_task i), (1, cj_task_job_spec i), (2, cj_hire_record i), (3, cj_legacy_listing i),
      (4, cj_moderation_block i), (5, cj_claim i), (6, cj_protocol_config i), (7, cj_worker i),
      (8, cj_authority i), (9, cj_system_program i)]"
| "agenc_accounts (AgencSubmitTaskResult i) =
     [(0, sr_task i), (1, sr_claim i), (2, sr_task_validation_config i), (3, sr_task_submission i),
      (4, sr_protocol_config i), (5, sr_worker i), (6, sr_authority i), (7, sr_system_program i)]"
| "agenc_accounts (AgencAcceptTaskResult i) =
     [(0, ar_task i), (1, ar_claim i), (2, ar_escrow i), (3, ar_task_validation_config i),
      (4, ar_task_submission i), (5, ar_worker i), (6, ar_protocol_config i), (7, ar_treasury i),
      (8, ar_creator i), (9, ar_worker_authority i), (10, ar_hire_record i), (11, ar_operator i),
      (12, ar_referrer i), (13, ar_creator_completion_bond i), (14, ar_worker_completion_bond i),
      (20, ar_system_program i)]"
| "agenc_accounts (AgencRejectTaskResult i) =
     [(0, rr_task i), (1, rr_claim i), (2, rr_task_validation_config i), (3, rr_task_submission i),
      (4, rr_worker i), (5, rr_protocol_config i), (6, rr_creator i), (7, rr_worker_authority i),
      (8, rr_agent_stats i), (9, rr_system_program i), (10, rr_worker_completion_bond i)]"
| "agenc_accounts (AgencCancelTask i) =
     [(0, xt_task i), (1, xt_escrow i), (2, xt_authority i), (3, xt_protocol_config i),
      (4, xt_system_program i)]"
| "agenc_accounts (AgencExpireClaim i) =
     [(0, ec_authority i), (1, ec_task i), (2, ec_escrow i), (3, ec_claim i), (4, ec_worker i),
      (5, ec_protocol_config i), (6, the (ec_task_validation_config i)), (7, the (ec_task_submission i)),
      (8, ec_rent_recipient i), (9, ec_worker_completion_bond i), (10, ec_bond_creator i),
      (11, ec_agent_stats i), (12, ec_treasury i), (13, ec_system_program i)]"

text \<open>The account lists the deployed instructions use; a cancellation may carry one worker triple.\<close>

fun agenc_account_counts :: "AgencInstructionKind \<Rightarrow> nat set" where
  "agenc_account_counts AgencInstructionUnknown = {}"
| "agenc_account_counts AgencInstructionRegisterAgent = {4}"
| "agenc_account_counts AgencInstructionCreateTask = {13}"
| "agenc_account_counts AgencInstructionConfigureTaskValidation = {7}"
| "agenc_account_counts AgencInstructionSetTaskJobSpec = {9}"
| "agenc_account_counts AgencInstructionClaimTaskWithJobSpec = {10}"
| "agenc_account_counts AgencInstructionSubmitTaskResult = {8}"
| "agenc_account_counts AgencInstructionAcceptTaskResult = {21}"
| "agenc_account_counts AgencInstructionRejectTaskResult = {11}"
| "agenc_account_counts AgencInstructionCancelTask = {15, 18}"
| "agenc_account_counts AgencInstructionExpireClaim = {14}"

lemma account_at_iff [simp]:
  "account_at i h k = Some a \<longleftrightarrow>
     k < accounts_length i \<and> unat (accounts i ! k) < pubkeys_length (pubkeys_header h) \<and>
     a = account_key h i k"
  by (auto simp: account_at_def account_key_def parse_success Let_def)

lemma length_discriminator [simp]:
  "length DISCRIMINATOR_REGISTER_AGENT = 8" "length DISCRIMINATOR_CREATE_TASK = 8"
  "length DISCRIMINATOR_CONFIGURE_TASK_VALIDATION = 8" "length DISCRIMINATOR_SET_TASK_JOB_SPEC = 8"
  "length DISCRIMINATOR_CLAIM_TASK_WITH_JOB_SPEC = 8" "length DISCRIMINATOR_SUBMIT_TASK_RESULT = 8"
  "length DISCRIMINATOR_ACCEPT_TASK_RESULT = 8" "length DISCRIMINATOR_REJECT_TASK_RESULT = 8"
  "length DISCRIMINATOR_CANCEL_TASK = 8" "length DISCRIMINATOR_EXPIRE_CLAIM = 8"
  by (simp_all add: discriminators)

lemma parse_agenc_body_discriminator:
  assumes "parse_agenc_body i h d p = Some (b, q)" "length d = 8"
  shows "d = agenc_discriminator (agenc_kind b)"
  using assms
  by (auto simp: parse_agenc_body_def memcmp_eq_0 apfst_def split: if_splits)

lemmas agenc_parsers = parse_register_agent_def parse_create_task_def
  parse_configure_task_validation_def parse_set_task_job_spec_def parse_claim_task_with_job_spec_def
  parse_submit_task_result_def parse_accept_task_result_def parse_reject_task_result_def
  parse_cancel_task_def parse_expire_claim_def

lemma cancel_count:
  "\<not> n < 15 \<Longrightarrow> \<not> 18 < n \<Longrightarrow> (n - 15) mod 3 = 0 \<Longrightarrow> n = 15 \<or> n = (18 :: nat)"
  by presburger

definition accounts_checked :: "Instruction \<Rightarrow> MessageHeader \<Rightarrow> AgencBody \<Rightarrow> bool" where
  "accounts_checked i h b = (accounts_length i \<in> agenc_account_counts (agenc_kind b)
     \<and> pubkeys_equal (agenc_system_program b) system_program_id
     \<and> (\<forall>(k, a) \<in> set (agenc_accounts b). k < accounts_length i \<and> a = account_key h i k
           \<and> unat (accounts i ! k) < pubkeys_length (pubkeys_header h)))"

lemma agenc_parsers_checked:
  "parse_register_agent i h p = Some (i1, q) \<Longrightarrow> accounts_checked i h (AgencRegisterAgent i1)"
  "parse_create_task i h p = Some (i2, q) \<Longrightarrow> accounts_checked i h (AgencCreateTask i2)"
  "parse_configure_task_validation i h p = Some (i3, q) \<Longrightarrow>
     accounts_checked i h (AgencConfigureTaskValidation i3)"
  "parse_set_task_job_spec i h p = Some (i4, q) \<Longrightarrow> accounts_checked i h (AgencSetTaskJobSpec i4)"
  "parse_claim_task_with_job_spec i h = Some i5 \<Longrightarrow> accounts_checked i h (AgencClaimTaskWithJobSpec i5)"
  "parse_submit_task_result i h p = Some (i6, q) \<Longrightarrow> accounts_checked i h (AgencSubmitTaskResult i6)"
  "parse_accept_task_result i h = Some i7 \<Longrightarrow> accounts_checked i h (AgencAcceptTaskResult i7)"
  "parse_reject_task_result i h p = Some (i8, q) \<Longrightarrow> accounts_checked i h (AgencRejectTaskResult i8)"
  "parse_cancel_task i h = Some i9 \<Longrightarrow> accounts_checked i h (AgencCancelTask i9)"
  "parse_expire_claim i h = Some i10 \<Longrightarrow> accounts_checked i h (AgencExpireClaim i10)"
  using cancel_count [of "accounts_length i"]
  unfolding agenc_parsers
  by (auto simp: parse_success agenc_sizes accounts_checked_def validate_system_program_def Let_def)

lemma parse_agenc_body_checked:
  "parse_agenc_body i h d p = Some (b, q) \<Longrightarrow> accounts_checked i h b"
  by (auto simp: parse_agenc_body_def apfst_def dest!: agenc_parsers_checked split: if_splits)

lemma parse_agenc_instructions_SomeE:
  assumes "parse_agenc_instructions i h = Some info"
  obtains d r q where "is_agenc_program_id (agenc_program_id info)"
    "agenc_program_id info = header_pubkey (pubkeys h) (unat (program_id_index i))"
    "bytes (data i) = d @ r" "length d = 8" "buffer q = []"
    "parse_agenc_body i h d (cursor (addr (data i) + 8) r) = Some (agenc_body info, q)"
proof -
  from assms obtain k p1 b q where *: "is_agenc_program_id (header_pubkey (pubkeys h) (unat (program_id_index i)))"
    "parse_fixed_bytes 8 (data_parser i) = Some (k, p1)"
    "parse_agenc_body i h (bytes k) p1 = Some (b, q)" "parser_is_empty q"
    "info = \<lparr>agenc_program_id = header_pubkey (pubkeys h) (unat (program_id_index i)), agenc_body = b\<rparr>"
    by (auto simp: parse_agenc_instructions_def parse_success agenc_sizes Let_def)
  from *(2) obtain d r where "length d = 8" "bytes (data i) = d @ r" "k = Ptr (addr (data i)) d"
    "p1 = cursor (addr (data i) + 8) r"
    by (auto simp: parse_fixed_bytes_iff data_parser_def)
  with * that show ?thesis by (simp add: parser_is_empty_def buffer_length_def)
qed

text \<open>C23: The AgenC parser fails closed. Whatever it accepts comes from the pinned program, starts
  with the discriminator of the kind it reports, has the exact number of accounts of that
  kind, names the genuine system program in its slot, and every account it reports is the one
  at the documented position, inside the account list of the message.\<close>

theorem agenc_parse_strict:
  assumes "parse_agenc_instructions i h = Some info"
  shows "is_agenc_program_id (agenc_program_id info)
    \<and> agenc_program_id info = header_pubkey (pubkeys h) (unat (program_id_index i))
    \<and> take 8 (bytes (data i)) = agenc_discriminator (agenc_kind (agenc_body info))
    \<and> accounts_length i \<in> agenc_account_counts (agenc_kind (agenc_body info))
    \<and> pubkeys_equal (agenc_system_program (agenc_body info)) system_program_id
    \<and> (\<forall>(k, a) \<in> set (agenc_accounts (agenc_body info)). k < accounts_length i
          \<and> a = header_pubkey (pubkeys h) (unat (accounts i ! k))
          \<and> unat (accounts i ! k) < pubkeys_length (pubkeys_header h))"
  using assms
proof (cases rule: parse_agenc_instructions_SomeE)
  case (1 d r q)
  then have "d = agenc_discriminator (agenc_kind (agenc_body info))"
    using parse_agenc_body_discriminator by blast
  with 1 parse_agenc_body_checked [OF 1(6)] show ?thesis
    by (auto simp: accounts_checked_def account_key_def)
qed

section \<open>The wire form of create_task\<close>

definition enc_create_task ::
    "u8 list \<Rightarrow> u64 \<Rightarrow> u8 list \<Rightarrow> u64 \<Rightarrow> u8 \<Rightarrow> i64 \<Rightarrow> u8 \<Rightarrow> u8 list option \<Rightarrow> u16 \<Rightarrow> u8 list option \<Rightarrow> u8 list" where
  "enc_create_task task_id caps commitment reward max_workers deadline task_type constraint min_rep mint =
     DISCRIMINATOR_CREATE_TASK @ task_id @ le64 caps @ commitment @ replicate 32 0 @ le64 reward
     @ [max_workers] @ le64 deadline @ [task_type] @ enc_optional constraint @ le16 min_rep
     @ enc_optional mint"

lemma zero_tail:
  assumes "length bs = 64" "list_all (\<lambda>i. bs ! i = 0) [32..<64]"
  shows "bs = take 32 bs @ replicate 32 (0 :: u8)"
proof (rule nth_equalityI)
  have zero: "\<forall>i \<in> {32..<64}. bs ! i = 0" using assms(2) unfolding list_all_iff set_upt .
  fix i assume "i < length bs"
  then show "bs ! i = (take 32 bs @ replicate 32 0) ! i"
    using assms(1) zero by (cases "i < 32") (auto simp: nth_append)
qed (use assms in simp)

lemma zero_tail_append:
  "length c = 32 \<Longrightarrow> list_all (\<lambda>i. (c @ replicate 32 (0 :: u8)) ! i = 0) [32..<64]"
  unfolding list_all_iff set_upt by (auto simp: nth_append)

lemma parse_create_task_SomeD:
  assumes "parse_create_task i h p = Some (t, q)"
  shows "\<exists>task_id commitment constraint mint.
      buffer p = task_id @ le64 (ct_required_capabilities t) @ commitment @ replicate 32 0
        @ le64 (ct_reward_amount t) @ [ct_max_workers t] @ le64 (ct_deadline t) @ [ct_task_type t]
        @ enc_optional constraint @ le16 (ct_min_reputation t) @ enc_optional mint @ buffer q
    \<and> length task_id = 32 \<and> length commitment = 32 \<and> bytes (ct_task_id t) = task_id
    \<and> bytes (ct_description_commitment t) = commitment
    \<and> map_option bytes (ct_constraint_hash t) = constraint \<and> map_option bytes (ct_reward_mint t) = mint"
proof -
  from assms obtain p1 p2 descr p3 p4 p5 p6 p7 p8 p9 where *:
    "parse_hash_ref p = Some (ct_task_id t, p1)"
    "parse_u64 p1 = Some (ct_required_capabilities t, p2)"
    "parse_fixed_bytes 64 p2 = Some (descr, p3)" "list_all (\<lambda>i. bytes descr ! i = 0) [32..<64]"
    "ct_description_commitment t = Ptr (addr descr) (take 32 (bytes descr))"
    "parse_u64 p3 = Some (ct_reward_amount t, p4)" "parse_u8 p4 = Some (ct_max_workers t, p5)"
    "parse_i64 p5 = Some (ct_deadline t, p6)" "parse_u8 p6 = Some (ct_task_type t, p7)"
    "parse_optional_hash_ref p7 = Some (ct_constraint_hash t, p8)"
    "parse_u16 p8 = Some (ct_min_reputation t, p9)"
    "parse_optional_pubkey_ref p9 = Some (ct_reward_mint t, q)"
    unfolding parse_create_task_def parse_u16_le_eq
    by (auto simp: parse_success agenc_sizes Let_def simp del: parse_u8_iff)
  from *(1) obtain task_id where 1: "length task_id = 32" "buffer p = task_id @ buffer p1"
    "bytes (ct_task_id t) = task_id" using hash_refr.encode by fastforce
  from *(3) obtain d where d: "length d = 64" "buffer p2 = d @ buffer p3" "bytes descr = d"
    using fixedr.encode by fastforce
  from *(10) obtain ch where 10: "buffer p7 = enc_optional ch @ buffer p8"
    "map_option bytes (ct_constraint_hash t) = ch" using optional_hashr.encode by fastforce
  from *(12) obtain mint where 12: "buffer p9 = enc_optional mint @ buffer q"
    "map_option bytes (ct_reward_mint t) = mint" using optional_pubkeyr.encode by fastforce
  have "d = take 32 d @ replicate 32 0" using zero_tail d(1) *(4) d(3) by simp
  then have p2: "buffer p2 = take 32 d @ replicate 32 0 @ buffer p3"
    using d(2) by (metis append.assoc)
  have ints: "buffer p1 = le64 (ct_required_capabilities t) @ buffer p2"
    "buffer p3 = le64 (ct_reward_amount t) @ buffer p4" "buffer p4 = [ct_max_workers t] @ buffer p5"
    "buffer p5 = le64 (ct_deadline t) @ buffer p6" "buffer p6 = [ct_task_type t] @ buffer p7"
    "buffer p8 = le16 (ct_min_reputation t) @ buffer p9"
    using u64r.encode [OF *(2)] u64r.encode [OF *(6)] u8r.encode [OF *(7)] i64r.encode [OF *(8)]
      u8r.encode [OF *(9)] u16r.encode [OF *(11)] by simp_all
  show ?thesis
    by (rule exI [of _ task_id], rule exI [of _ "take 32 d"], rule exI [of _ ch], rule exI [of _ mint])
      (simp add: 1 p2 10 12 ints *(5) d)
qed

text \<open>C26: The data of an accepted create_task is byte for byte the wire form of the values parsed
  from it (id, capabilities, content commitment, reward, worker limit, deadline, type, constraint,
  reputation, mint), with the second half of the description zero and nothing before, between or
  after them: no byte of the data is outside a parsed value. Which of these values are then displayed is
  the list of C9; the id, the capabilities and the constraint hash are parsed but shown on no item.\<close>

theorem create_task_wire_exact:
  assumes "parse_agenc_instructions i h = Some info" "agenc_body info = AgencCreateTask t"
  shows "bytes (data i) = enc_create_task (bytes (ct_task_id t)) (ct_required_capabilities t)
      (bytes (ct_description_commitment t)) (ct_reward_amount t) (ct_max_workers t) (ct_deadline t)
      (ct_task_type t) (map_option bytes (ct_constraint_hash t)) (ct_min_reputation t)
      (map_option bytes (ct_reward_mint t))
    \<and> length (bytes (ct_task_id t)) = 32 \<and> length (bytes (ct_description_commitment t)) = 32"
  using assms(1)
proof (cases rule: parse_agenc_instructions_SomeE)
  case (1 d r q)
  then have d: "d = DISCRIMINATOR_CREATE_TASK"
    using parse_agenc_body_discriminator assms(2) by fastforce
  with 1(6) assms(2) have "parse_create_task i h (cursor (addr (data i) + 8) r) = Some (t, q)"
    by (auto simp: parse_agenc_body_def memcmp_eq_0 apfst_def split: if_splits)
  from parse_create_task_SomeD [OF this] 1(3,5) d show ?thesis
    by (auto simp: enc_create_task_def)
qed

lemma parse_create_task_wire:
  assumes "accounts_length i = 13" "\<forall>k < 13. unat (accounts i ! k) < pubkeys_length (pubkeys_header h)"
    and "pubkeys_equal (account_key h i 7) system_program_id"
    and "length task_id = 32" "length commitment = 32" "\<forall>bs. constraint = Some bs \<longrightarrow> length bs = 32"
    "\<forall>bs. mint = Some bs \<longrightarrow> length bs = 32"
  shows "\<exists>t. parse_create_task i h (cursor a (task_id @ le64 caps @ commitment @ replicate 32 0
      @ le64 reward @ [max_workers] @ le64 deadline @ [task_type] @ enc_optional constraint
      @ le16 min_rep @ enc_optional mint)) = Some (t, cursor (a + 124 + length (enc_optional constraint)
         + length (enc_optional mint)) [])
    \<and> bytes (ct_task_id t) = task_id \<and> ct_required_capabilities t = caps
    \<and> bytes (ct_description_commitment t) = commitment \<and> ct_reward_amount t = reward
    \<and> ct_max_workers t = max_workers \<and> ct_deadline t = deadline \<and> ct_task_type t = task_type
    \<and> map_option bytes (ct_constraint_hash t) = constraint \<and> ct_min_reputation t = min_rep
    \<and> map_option bytes (ct_reward_mint t) = mint"
proof -
  have fixed: "parse_fixed_bytes 64 (cursor b (commitment @ replicate 32 0 @ r))
      = Some (Ptr b (commitment @ replicate 32 0), cursor (b + 64) r)" for b r
    using fixedr.decode [of "commitment @ replicate 32 0" 64 b r] assms(5) by simp
  have acc: "account_at i h k = Some (account_key h i k)" if "k < 13" for k
    using assms(1,2) that by simp
  show ?thesis
    using assms(1,3-)
    by (simp add: parse_create_task_def agenc_sizes acc
        validate_system_program_def hash_refr.decode fixed zero_tail_append optional_hashr.decode
        optional_pubkeyr.decode optional_pubkeyr.decode_all parse_u16_le_eq Let_def
        del: upt_rec_numeral account_at_iff)
qed

lemma create_task_reads:
  assumes "is_agenc_program_id (header_pubkey (pubkeys h) (unat (program_id_index i)))"
    and "accounts_length i = 13" "\<forall>k < 13. unat (accounts i ! k) < pubkeys_length (pubkeys_header h)"
    and "pubkeys_equal (account_key h i 7) system_program_id"
    and "length task_id = 32" "length commitment = 32" "\<forall>bs. constraint = Some bs \<longrightarrow> length bs = 32"
    "\<forall>bs. mint = Some bs \<longrightarrow> length bs = 32"
    and "bytes (data i) = enc_create_task task_id caps commitment reward max_workers deadline task_type
      constraint min_rep mint"
  shows "\<exists>t. parse_agenc_instructions i h = Some \<lparr>agenc_program_id =
        header_pubkey (pubkeys h) (unat (program_id_index i)), agenc_body = AgencCreateTask t\<rparr>
    \<and> bytes (ct_task_id t) = task_id \<and> ct_required_capabilities t = caps
    \<and> bytes (ct_description_commitment t) = commitment \<and> ct_reward_amount t = reward
    \<and> ct_max_workers t = max_workers \<and> ct_deadline t = deadline \<and> ct_task_type t = task_type
    \<and> map_option bytes (ct_constraint_hash t) = constraint \<and> ct_min_reputation t = min_rep
    \<and> map_option bytes (ct_reward_mint t) = mint
    \<and> ct_task t = account_key h i 0 \<and> ct_creator t = account_key h i 6"
proof -
  let ?a = "addr (data i)"
  have disc: "parse_fixed_bytes 8 (cursor ?a (DISCRIMINATOR_CREATE_TASK @ r))
      = Some (Ptr ?a DISCRIMINATOR_CREATE_TASK, cursor (?a + 8) r)" for r
    using fixedr.decode [of DISCRIMINATOR_CREATE_TASK 8] by simp
  have ne: "memcmp DISCRIMINATOR_CREATE_TASK DISCRIMINATOR_REGISTER_AGENT \<noteq> 0"
    "memcmp DISCRIMINATOR_CREATE_TASK DISCRIMINATOR_CREATE_TASK = 0"
    by (simp_all add: memcmp_eq_0) (simp add: discriminators)
  from parse_create_task_wire [OF assms(2-8), of "?a + 8" caps reward max_workers deadline task_type min_rep]
  obtain t a' where t: "parse_create_task i h (cursor (?a + 8) (task_id @ le64 caps @ commitment
      @ replicate 32 0 @ le64 reward @ [max_workers] @ le64 deadline @ [task_type]
      @ enc_optional constraint @ le16 min_rep @ enc_optional mint)) = Some (t, cursor a' [])"
    "bytes (ct_task_id t) = task_id" "ct_required_capabilities t = caps"
    "bytes (ct_description_commitment t) = commitment" "ct_reward_amount t = reward"
    "ct_max_workers t = max_workers" "ct_deadline t = deadline" "ct_task_type t = task_type"
    "map_option bytes (ct_constraint_hash t) = constraint" "ct_min_reputation t = min_rep"
    "map_option bytes (ct_reward_mint t) = mint"
    by blast
  have "ct_task t = account_key h i 0" "ct_creator t = account_key h i 6"
    using agenc_parsers_checked(2) [OF t(1)] by (auto simp: accounts_checked_def)
  moreover have "parse_agenc_instructions i h = Some \<lparr>agenc_program_id =
        header_pubkey (pubkeys h) (unat (program_id_index i)), agenc_body = AgencCreateTask t\<rparr>"
    using assms(1,9) t(1)
    by (simp add: parse_agenc_instructions_def agenc_sizes data_parser_def enc_create_task_def disc
        parse_agenc_body_def ne parser_is_empty_def Let_def)
  ultimately show ?thesis using t(2-) by blast
qed

text \<open>Every create_task in its wire form, with its thirteen accounts in range and the system
  program in place, is recognised, and every field the screen shows is read back as encoded:
  round trip of the marketplace's main instruction.\<close>

theorem create_task_roundtrip:
  assumes "is_agenc_program_id (header_pubkey (pubkeys h) (unat (program_id_index i)))"
    and "accounts_length i = 13" "\<forall>k < 13. unat (accounts i ! k) < pubkeys_length (pubkeys_header h)"
    and "pubkeys_equal (account_key h i 7) system_program_id"
    and "length task_id = 32" "length commitment = 32" "\<forall>bs. constraint = Some bs \<longrightarrow> length bs = 32"
    "\<forall>bs. mint = Some bs \<longrightarrow> length bs = 32"
    and "bytes (data i) = enc_create_task task_id caps commitment reward max_workers deadline task_type
      constraint min_rep mint"
  shows "\<exists>t. parse_agenc_instructions i h = Some \<lparr>agenc_program_id =
        header_pubkey (pubkeys h) (unat (program_id_index i)), agenc_body = AgencCreateTask t\<rparr>
    \<and> bytes (ct_task_id t) = task_id \<and> ct_required_capabilities t = caps
    \<and> bytes (ct_description_commitment t) = commitment \<and> ct_reward_amount t = reward
    \<and> ct_max_workers t = max_workers \<and> ct_deadline t = deadline \<and> ct_task_type t = task_type
    \<and> map_option bytes (ct_constraint_hash t) = constraint \<and> ct_min_reputation t = min_rep
    \<and> map_option bytes (ct_reward_mint t) = mint
    \<and> ct_task t = account_key h i 0 \<and> ct_creator t = account_key h i 6"
  by (rule create_task_reads [OF assms])

text \<open>A message whose accounts are the AgenC program, the system program and one more key.\<close>

definition sample_agenc_header :: MessageHeader where
  "sample_agenc_header = \<lparr>versioned = False, version = 0,
     pubkeys_header = \<lparr>num_required_signatures = 1, num_readonly_signed_accounts = 0,
       num_readonly_unsigned_accounts = 2, pubkeys_length = 3\<rparr>,
     pubkeys = Ptr 0 (bytes agenc_artifact_program_id @ bytes system_program_id @ replicate 32 7 @ []),
     blockhash = Ptr 96 (replicate 32 9), instructions_length = 1\<rparr>"

definition sample_create_task :: Instruction where
  "sample_create_task = \<lparr>program_id_index = 0, accounts = [2, 2, 2, 2, 2, 2, 2, 1, 2, 2, 2, 2, 2],
     data = Ptr 200 (enc_create_task (replicate 32 1) 0 (replicate 32 2) 5000000 1 1800000000 0 None 50
       (Some (replicate 32 3)))\<rparr>"

lemma length_program_ids: "length (bytes agenc_artifact_program_id) = 32" "length (bytes system_program_id) = 32"
  by (simp_all add: program_ids)

lemma sample_agenc_keys:
  "bytes (header_pubkey (pubkeys sample_agenc_header) 0) = bytes agenc_artifact_program_id"
  "bytes (header_pubkey (pubkeys sample_agenc_header) 1) = bytes system_program_id"
  "bytes (header_pubkey (pubkeys sample_agenc_header) 2) = replicate 32 7"
  by (simp_all add: sample_agenc_header_def header_pubkey_def PUBKEY_SIZE_def length_program_ids)

lemma sample_create_task_ok:
  "is_agenc_program_id (header_pubkey (pubkeys sample_agenc_header) (unat (program_id_index sample_create_task)))"
  "accounts_length sample_create_task = 13"
  "\<forall>k < 13. unat (accounts sample_create_task ! k) < pubkeys_length (pubkeys_header sample_agenc_header)"
  "pubkeys_equal (account_key sample_agenc_header sample_create_task 7) system_program_id"
  "bytes (data sample_create_task) = enc_create_task (replicate 32 1) 0 (replicate 32 2) 5000000 1 1800000000
     0 None 50 (Some (replicate 32 3))"
proof -
  show "is_agenc_program_id (header_pubkey (pubkeys sample_agenc_header) (unat (program_id_index sample_create_task)))"
    using sample_agenc_keys(1)
    by (simp add: is_agenc_program_id_def pubkeys_equal_iff sample_create_task_def)
  show "pubkeys_equal (account_key sample_agenc_header sample_create_task 7) system_program_id"
    using sample_agenc_keys(2)
    by (simp add: account_key_def pubkeys_equal_iff sample_create_task_def)
  show "\<forall>k < 13. unat (accounts sample_create_task ! k) < pubkeys_length (pubkeys_header sample_agenc_header)"
  proof (intro allI impI)
    fix k :: nat assume "k < 13"
    then have "accounts sample_create_task ! k \<in> set (accounts sample_create_task)"
      by (intro nth_mem) (simp add: sample_create_task_def)
    then have "accounts sample_create_task ! k \<in> {1, 2}" by (auto simp: sample_create_task_def)
    then show "unat (accounts sample_create_task ! k) < pubkeys_length (pubkeys_header sample_agenc_header)"
      by (auto simp: sample_agenc_header_def)
  qed
qed (simp_all add: sample_create_task_def accounts_length_def)

lemma sample_create_task_parses:
  obtains t where "parse_agenc_instructions sample_create_task sample_agenc_header
      = Some \<lparr>agenc_program_id = header_pubkey (pubkeys sample_agenc_header) 0, agenc_body = AgencCreateTask t\<rparr>"
    "ct_reward_amount t = 5000000"
  using create_task_reads [OF sample_create_task_ok(1-4) _ _ _ _ sample_create_task_ok(5)]
  by (auto simp: sample_create_task_def)

theorem create_task_roundtrip_witness:
  "\<exists>t. parse_agenc_instructions sample_create_task sample_agenc_header
      = Some \<lparr>agenc_program_id = header_pubkey (pubkeys sample_agenc_header) 0, agenc_body = AgencCreateTask t\<rparr>
    \<and> ct_reward_amount t = 5000000 \<and> map_option bytes (ct_reward_mint t) = Some (replicate 32 3)"
  using create_task_roundtrip [OF sample_create_task_ok(1-4) _ _ _ _ sample_create_task_ok(5)]
  by (auto simp: sample_create_task_def)

theorem agenc_parse_strict_witness:
  "\<exists>info. parse_agenc_instructions sample_create_task sample_agenc_header = Some info
    \<and> pubkeys_equal (agenc_system_program (agenc_body info)) system_program_id"
  by (rule sample_create_task_parses) (use agenc_parse_strict in blast)

theorem create_task_wire_exact_witness:
  "\<exists>info t. parse_agenc_instructions sample_create_task sample_agenc_header = Some info
    \<and> agenc_body info = AgencCreateTask t \<and> length (bytes (ct_description_commitment t)) = 32"
proof (rule sample_create_task_parses)
  fix t assume p: "parse_agenc_instructions sample_create_task sample_agenc_header
      = Some \<lparr>agenc_program_id = header_pubkey (pubkeys sample_agenc_header) 0, agenc_body = AgencCreateTask t\<rparr>"
  then show ?thesis using create_task_wire_exact [OF p, of t] by auto
qed

section \<open>The screens\<close>

lemmas general_setters = set_general_pubkey_def set_general_hash_def set_general_amount_def
  set_general_u64_def set_general_i64_def set_general_timestamp_def set_general_string_def
  set_general_sized_string_def

lemma general_setters_kept [keep]:
  "kept S (set_primary_action a S)" "kept S (set_general_pubkey t p S)"
  "kept S (set_general_hash t p S)" "kept S (set_general_amount t v S)"
  "kept S (set_general_u64 t v S)" "kept S (set_general_i64 t i S)"
  "kept S (set_general_timestamp t i S)" "kept S (set_general_string t str S)"
  "kept S (set_general_sized_string t s S)"
  unfolding general_setters set_primary_action_def Let_def [of "transaction_summary_general_item S"]
    Let_def [of "transaction_summary_primary_item S"]
  by (intro keep free_slot_intros)+

lemma kept_run_all: "\<forall>f \<in> set fs. \<forall>S. kept S (f S) \<Longrightarrow> kept S (run_all fs S)"
  by (induction fs arbitrary: S) (auto intro!: keep)

text \<open>A setter that checks the pointer never writes through a null one.\<close>

definition null_safe :: "(TransactionSummary \<Rightarrow> TransactionSummary c_result) \<Rightarrow> bool" where
  "null_safe f = (\<forall>S. f S \<noteq> None)"

lemma write_item_total: "sl \<noteq> None \<Longrightarrow> write_item sl it S \<noteq> None"
  by (cases sl; cases "the sl") auto

lemma bind_write_total:
  "sl \<noteq> None \<Longrightarrow> (\<And>S'. k S' \<noteq> None) \<Longrightarrow> Option.bind (write_item sl it S) k \<noteq> None"
  using write_item_total [of sl it S] by auto

lemma setters_null_safe [simp]:
  "null_safe (set_primary_action a)" "null_safe (set_general_pubkey t p)"
  "null_safe (set_general_hash t p)" "null_safe (set_general_amount t v)"
  "null_safe (set_general_u64 t v)" "null_safe (set_general_i64 t i)"
  "null_safe (set_general_timestamp t i)" "null_safe (set_general_string t str)"
  "null_safe (set_general_sized_string t s)"
  unfolding null_safe_def general_setters set_primary_action_def summary_item_set_defs Let_def
  by (rule allI, split if_split, intro conjI impI, simp, rule bind_write_total, assumption, simp)+

lemma null_safe_run_all: "\<forall>f \<in> set fs. null_safe f \<Longrightarrow> null_safe (run_all fs)"
  unfolding null_safe_def
proof (induction fs)
  case (Cons f fs)
  show ?case
  proof
    fix S
    obtain rc T where "f S = Some (rc, T)" using Cons.prems by fastforce
    then show "run_all (f # fs) S \<noteq> None" using Cons by (simp add: bail_if_def)
  qed
qed simp

lemmas agenc_printers = print_create_task_fields_def print_agenc_create_task_info_def
  print_agenc_register_agent_info_def print_agenc_configure_task_validation_info_def
  print_agenc_set_task_job_spec_info_def print_agenc_claim_task_with_job_spec_info_def
  print_agenc_submit_task_result_info_def print_agenc_accept_task_result_info_def
  print_agenc_reject_task_result_info_def print_agenc_cancel_task_info_def
  print_agenc_expire_claim_info_def

lemma print_create_task_fields_ok:
  "null_safe (print_create_task_fields pid t)" "kept S (print_create_task_fields pid t S)"
  unfolding print_create_task_fields_def
  by (rule null_safe_run_all, fastforce split: option.splits if_splits)
    (rule kept_run_all, fastforce simp: general_setters_kept split: option.splits if_splits)

lemma agenc_printers_null_safe:
  "null_safe (print_agenc_create_task_info pid i2)" "null_safe (print_agenc_register_agent_info pid i1)"
  "null_safe (print_agenc_configure_task_validation_info pid i3)"
  "null_safe (print_agenc_set_task_job_spec_info pid i4)"
  "null_safe (print_agenc_claim_task_with_job_spec_info pid i5)"
  "null_safe (print_agenc_submit_task_result_info pid i6)"
  "null_safe (print_agenc_accept_task_result_info pid i7)"
  "null_safe (print_agenc_reject_task_result_info pid i8)"
  "null_safe (print_agenc_cancel_task_info pid i9)" "null_safe (print_agenc_expire_claim_info pid i10)"
  unfolding agenc_printers(2-)
  by (rule null_safe_run_all, fastforce simp: print_create_task_fields_ok split: option.splits if_splits)+

lemma agenc_printers_kept:
  "kept S (print_agenc_create_task_info pid i2 S)" "kept S (print_agenc_register_agent_info pid i1 S)"
  "kept S (print_agenc_configure_task_validation_info pid i3 S)"
  "kept S (print_agenc_set_task_job_spec_info pid i4 S)"
  "kept S (print_agenc_claim_task_with_job_spec_info pid i5 S)"
  "kept S (print_agenc_submit_task_result_info pid i6 S)"
  "kept S (print_agenc_accept_task_result_info pid i7 S)"
  "kept S (print_agenc_reject_task_result_info pid i8 S)"
  "kept S (print_agenc_cancel_task_info pid i9 S)" "kept S (print_agenc_expire_claim_info pid i10 S)"
  unfolding agenc_printers(2-)
  by (rule kept_run_all, fastforce simp: print_create_task_fields_ok general_setters_kept split: option.splits if_splits)+

lemma print_agenc_info_kept [keep]: "kept S (print_agenc_info info S)"
  by (simp add: print_agenc_info_def agenc_printers_kept Let_def split: AgencBody.split)

lemma print_agenc_create_task_with_review_info_kept [keep]:
  "kept S (print_agenc_create_task_with_review_info c v S)"
  unfolding print_agenc_create_task_with_review_info_def
  by (auto split: AgencBody.split
      intro!: kept_run_all keep simp: print_create_task_fields_ok general_setters_kept)

interpretation agenc: printer "print_agenc_info info" for info
  by unfold_locales (rule print_agenc_info_kept)

interpretation agenc_pair: printer "print_agenc_create_task_with_review_info c v" for c v
  by unfold_locales (rule print_agenc_create_task_with_review_info_kept)

text \<open>The effect of the setters on a screen that is not full.\<close>

lemma set_general_ok:
  assumes "screen_ok S" "length (filled S) < 11"
  shows "set_general_pubkey t p S
       = Some (0, S\<lparr>general := pad (filled S @ [\<lparr>item_title = t, item_value = ItemPubkey p\<rparr>])\<rparr>)"
    and "set_general_hash t p S
       = Some (0, S\<lparr>general := pad (filled S @ [\<lparr>item_title = t, item_value = ItemHash p\<rparr>])\<rparr>)"
    and "set_general_amount t v S
       = Some (0, S\<lparr>general := pad (filled S @ [\<lparr>item_title = t, item_value = ItemAmount v\<rparr>])\<rparr>)"
    and "set_general_u64 t v S
       = Some (0, S\<lparr>general := pad (filled S @ [\<lparr>item_title = t, item_value = ItemU64 v\<rparr>])\<rparr>)"
    and "set_general_i64 t i S
       = Some (0, S\<lparr>general := pad (filled S @ [\<lparr>item_title = t, item_value = ItemI64 i\<rparr>])\<rparr>)"
    and "set_general_timestamp t i S
       = Some (0, S\<lparr>general := pad (filled S @ [\<lparr>item_title = t, item_value = ItemTimestamp i\<rparr>])\<rparr>)"
    and "set_general_string t str S
       = Some (0, S\<lparr>general := pad (filled S @ [\<lparr>item_title = t, item_value = ItemString str\<rparr>])\<rparr>)"
    and "set_general_sized_string t s S
       = Some (0, S\<lparr>general := pad (filled S @ [\<lparr>item_title = t, item_value = ItemSizedString s\<rparr>])\<rparr>)"
  using general_not_full [OF assms]
  by (simp_all add: general_setters Let_def set_general [OF assms])

definition agenc_action :: "string \<Rightarrow> TransactionSummary \<Rightarrow> TransactionSummary" where
  "agenc_action a S = S\<lparr>transaction_type := TRANSACTION_TYPE_AGENC_ACTION,
     primary := \<lparr>item_title = ''AgenC action'', item_value = ItemString a\<rparr>\<rparr>"

lemma set_primary_action_ok:
  "\<not> is_summary_item_used (primary S) \<Longrightarrow> set_primary_action a S = Some (0, agenc_action a S)"
  by (simp add: set_primary_action_def agenc_action_def primary_free set_primary
      transaction_summary_set_transaction_type_def summary_item_set_defs)

lemma agenc_action_simps [simp]:
  "screen_ok (agenc_action a S) = screen_ok S" "filled (agenc_action a S) = filled S"
  "primary (agenc_action a S) = \<lparr>item_title = ''AgenC action'', item_value = ItemString a\<rparr>"
  by (simp_all add: agenc_action_def)

lemmas agenc_eval = set_general_ok set_primary_action_ok screen_ok_general11

text \<open>The items of a create_task.\<close>

definition create_task_items :: "byte_ptr \<Rightarrow> AgencCreateTaskInfo \<Rightarrow> SummaryItem list" where
  "create_task_items pid t =
     (case ct_reward_mint t of
        Some mint \<Rightarrow> [\<lparr>item_title = ''Reward (token base units)'', item_value = ItemU64 (ct_reward_amount t)\<rparr>,
                      \<lparr>item_title = ''Token mint'', item_value = ItemPubkey mint\<rparr>]
      | None \<Rightarrow> [\<lparr>item_title = ''Reward'', item_value = ItemAmount (ct_reward_amount t)\<rparr>])
     @ [\<lparr>item_title = ''Task'', item_value = ItemPubkey (ct_task t)\<rparr>,
        \<lparr>item_title = ''Creator'', item_value = ItemPubkey (ct_creator t)\<rparr>,
        \<lparr>item_title = ''Content hash'', item_value = ItemHash (ct_description_commitment t)\<rparr>,
        \<lparr>item_title = ''Deadline'', item_value = ItemTimestamp (ct_deadline t)\<rparr>,
        \<lparr>item_title = ''Max workers'', item_value = ItemU64 (ucast (ct_max_workers t))\<rparr>]
     @ (if ct_task_type t \<noteq> 0
        then [\<lparr>item_title = ''Task type'', item_value = ItemU64 (ucast (ct_task_type t))\<rparr>] else [])
     @ [\<lparr>item_title = ''Min reputation'', item_value = ItemU64 (ucast (ct_min_reputation t))\<rparr>,
        \<lparr>item_title = ''Program'', item_value = ItemPubkey pid\<rparr>]"

lemma length_create_task_items: "8 \<le> length (create_task_items pid t) \<and> length (create_task_items pid t) \<le> 10"
  by (simp add: create_task_items_def split: option.split)

lemma used_create_task_items [simp]: "list_all is_summary_item_used (create_task_items pid t)"
  by (simp add: create_task_items_def split: option.split)

lemma print_create_task_fields_eval:
  assumes "screen_ok S" "filled S = []"
  shows "print_create_task_fields pid t S = Some (0, S\<lparr>general := pad (create_task_items pid t)\<rparr>)"
  using assms
  by (simp add: print_create_task_fields_def create_task_items_def agenc_eval split: option.split)

section \<open>The artifact hash\<close>

text \<open>
  The text is read as one big number, six bits per character; the bytes are the same number,
  eight bits each, with two zero bits left over.
\<close>

definition val64 :: "u8 list \<Rightarrow> nat" where
  "val64 cs = foldl (\<lambda>a c. a * 64 + nat (base64url_value c)) 0 cs"

definition val256 :: "u8 list \<Rightarrow> nat" where
  "val256 bs = foldl (\<lambda>a b. a * 256 + unat b) 0 bs"

lemma val64_simps [simp]: "val64 [] = 0" "val64 (cs @ [c]) = val64 cs * 64 + nat (base64url_value c)"
  by (simp_all add: val64_def)

lemma val256_simps [simp]: "val256 [] = 0" "val256 (bs @ [b]) = val256 bs * 256 + unat b"
  by (simp_all add: val256_def)

lemma val64_Cons: "val64 (c # cs) = nat (base64url_value c) * 64 ^ length cs + val64 cs"
proof (induction cs rule: rev_induct)
  case (snoc d cs)
  have "val64 ((c # cs) @ [d]) = val64 (c # cs) * 64 + nat (base64url_value d)" by (rule val64_simps)
  with snoc show ?case by (simp add: algebra_simps)
qed (simp add: val64_def)

lemma base64url_value_bounds: "base64url_value c < 64 \<and> -1 \<le> base64url_value c"
  by (auto simp: base64url_value_def word_le_def)

lemma unat_acc_push:
  assumes "unat (acc :: u32) < 256" "0 \<le> v" "v < 64"
  shows "unat (push_bit 6 acc OR word_of_int v) = unat acc * 64 + nat v"
proof -
  have v: "unat (word_of_int v :: u32) = nat v"
    using assms(2,3) by (simp add: unsigned_of_int take_bit_int_eq_self)
  show ?thesis
    using unat_or_push [of "word_of_int v" 6 acc] assms by (simp add: v)
qed

lemma unat_acc_mask: "unat ((acc :: u32) AND (push_bit b 1 - 1)) = unat acc mod 2 ^ b"
proof -
  have "acc AND (push_bit b 1 - 1) = take_bit b acc"
    by (simp add: take_bit_eq_mask mask_eq_decr_exp push_bit_of_1)
  then show ?thesis
    using unsigned_take_bit_eq [of b acc, where 'a = nat] by (simp add: take_bit_eq_mod)
qed

lemma unat_emitted: "unat (ucast (drop_bit b (acc :: u32) AND 0xff) :: u8) = unat acc div 2 ^ b mod 256"
proof -
  have ff: "(0xff :: u32) = mask 8" by (simp add: mask_eq_exp_minus_1)
  have "ucast (drop_bit b acc AND 0xff) = (ucast (drop_bit b acc) :: u8)"
    unfolding ff by (rule bit_word_eqI) (auto simp: bit_simps)
  moreover have "unat (ucast (drop_bit b acc) :: u8) = unat (drop_bit b acc) mod 256"
    by (simp add: unsigned_ucast_eq take_bit_eq_mod)
  moreover have "unat (drop_bit b acc) = unat acc div 2 ^ b"
    using unsigned_drop_bit_eq [of b acc, where 'a = nat] unsigned_less [of acc, where 'a = nat]
    by (simp add: drop_bit_eq_div take_bit_nat_eq_self)
  ultimately show ?thesis by simp
qed

lemma emit_bytes_step:
  assumes "bits < 8" "unat acc < 2 ^ bits" "0 \<le> v" "v < 64"
  defines "A == unat acc * 64 + nat v"
  shows "emit_bytes (push_bit 6 acc OR word_of_int v) (bits + 6) out =
    (if bits < 2 then Some (push_bit 6 acc OR word_of_int v, bits + 6, out)
     else if 32 \<le> length out then None
     else Some ((push_bit 6 acc OR word_of_int v) AND (push_bit (bits - 2) 1 - 1), bits - 2,
                out @ [ucast (drop_bit (bits - 2) (push_bit 6 acc OR word_of_int v) AND 0xff)]))"
    and "unat (push_bit 6 acc OR word_of_int v) = A"
    and "A < 2 ^ (bits + 6)"
proof -
  have "(2 :: nat) ^ bits \<le> 2 ^ 7" using assms(1) by (intro power_increasing) auto
  then have "unat acc < 256" using assms(2) by simp
  then show "unat (push_bit 6 acc OR word_of_int v) = A"
    using unat_acc_push assms(3,4) by (simp add: A_def)
  have "nat v < 64" using assms(4) by linarith
  then have "A < (unat acc + 1) * 64" by (simp add: A_def)
  also have "... \<le> 2 ^ bits * 64" using assms(2) by (intro mult_right_mono) auto
  finally show "A < 2 ^ (bits + 6)" by (simp add: power_add)
  show "emit_bytes (push_bit 6 acc OR word_of_int v) (bits + 6) out =
    (if bits < 2 then Some (push_bit 6 acc OR word_of_int v, bits + 6, out)
     else if 32 \<le> length out then None
     else Some ((push_bit 6 acc OR word_of_int v) AND (push_bit (bits - 2) 1 - 1), bits - 2,
                out @ [ucast (drop_bit (bits - 2) (push_bit 6 acc OR word_of_int v) AND 0xff)]))"
    using assms(1)
    by (subst emit_bytes.simps) (auto simp: Let_def AGENC_HASH_SIZE_def emit_bytes.simps)
qed

text \<open>One character: the number read so far is kept, and whole bytes leave the accumulator.\<close>

lemma emit_bytes_value:
  assumes "bits < 8" "unat acc < 2 ^ bits" "0 \<le> v" "v < 64"
    and "emit_bytes (push_bit 6 acc OR word_of_int v) (bits + 6) out = Some (acc', bits', out')"
  shows "bits' < 8 \<and> unat acc' < 2 ^ bits' \<and> 8 * length out' + bits' = 8 * length out + bits + 6
    \<and> val256 out' * 2 ^ bits' + unat acc' = (val256 out * 2 ^ bits + unat acc) * 64 + nat v"
proof -
  note step = emit_bytes_step [OF assms(1-4)]
  define A where "A = unat acc * 64 + nat v"
  have A: "unat (push_bit 6 acc OR word_of_int v) = A" "A < 2 ^ (bits + 6)"
    using step(2,3) by (simp_all add: A_def)
  show ?thesis
  proof (cases "bits < 2")
    case True
    with assms(5) have "acc' = push_bit 6 acc OR word_of_int v" "bits' = bits + 6" "out' = out"
      by (simp_all add: step(1))
    with A True show ?thesis by (simp add: A_def power_add algebra_simps)
  next
    case False
    then obtain b where b: "bits = b + 2" using le_Suc_ex [of 2 bits] by (auto simp: add.commute)
    have b2: "bits - 2 = b" using b by simp
    have "\<not> 32 \<le> length out" using assms(5) False unfolding step(1) by (auto split: if_splits)
    with assms(5) False have "Some ((push_bit 6 acc OR word_of_int v) AND (push_bit b 1 - 1), b,
        out @ [ucast (drop_bit b (push_bit 6 acc OR word_of_int v) AND 0xff)]) = Some (acc', bits', out')"
      unfolding step(1) b2 by (simp only: if_False)
    then have r: "acc' = (push_bit 6 acc OR word_of_int v) AND (push_bit b 1 - 1)" "bits' = b"
      "out' = out @ [ucast (drop_bit b (push_bit 6 acc OR word_of_int v) AND 0xff)]"
      unfolding option.inject prod.inject by blast+
    have "A div 2 ^ b < 256" using A(2) by (simp add: b power_add less_mult_imp_div_less)
    then have "val256 out' = val256 out * 256 + A div 2 ^ b" "unat acc' = A mod 2 ^ b"
      unfolding r val256_simps unat_emitted unat_acc_mask A(1) by simp_all
    moreover have "A div 2 ^ b * 2 ^ b + A mod 2 ^ b = A" by (rule div_mult_mod_eq)
    ultimately have "val256 out' * 2 ^ bits' + unat acc' = val256 out * 256 * 2 ^ b + A"
      by (simp add: r(2) add_mult_distrib)
    then show ?thesis using assms(1) \<open>unat acc' = A mod 2 ^ b\<close>
      by (simp add: r b A_def power_add algebra_simps)
  qed
qed

lemma decode_base64url_value:
  assumes "decode_base64url cs acc bits out = Some (acc', bits', out')" "bits < 8" "unat acc < 2 ^ bits"
  shows "bits' < 8 \<and> unat acc' < 2 ^ bits' \<and> 8 * length out' + bits' = 8 * length out + bits + 6 * length cs
    \<and> (\<forall>c \<in> set cs. 0 \<le> base64url_value c)
    \<and> val256 out' * 2 ^ bits' + unat acc' = (val256 out * 2 ^ bits + unat acc) * 64 ^ length cs + val64 cs"
  using assms
proof (induction cs arbitrary: acc bits out)
  case (Cons c cs)
  define v where "v = base64url_value c"
  from Cons.prems(1) obtain a1 b1 o1 where v: "0 \<le> v" "v < 64"
    and e: "emit_bytes (push_bit 6 acc OR word_of_int v) (bits + 6) out = Some (a1, b1, o1)"
    and d: "decode_base64url cs a1 b1 o1 = Some (acc', bits', out')"
    using base64url_value_bounds [of c] by (auto simp: v_def Let_def split: if_splits option.splits)
  note e' = emit_bytes_value [OF Cons.prems(2,3) v e]
  then have IH: "bits' < 8 \<and> unat acc' < 2 ^ bits' \<and> 8 * length out' + bits' = 8 * length o1 + b1 + 6 * length cs
    \<and> (\<forall>c \<in> set cs. 0 \<le> base64url_value c)
    \<and> val256 out' * 2 ^ bits' + unat acc' = (val256 o1 * 2 ^ b1 + unat a1) * 64 ^ length cs + val64 cs"
    using Cons.IH [OF d] by blast
  have "(val256 o1 * 2 ^ b1 + unat a1) * 64 ^ length cs + val64 cs
      = (val256 out * 2 ^ bits + unat acc) * 64 ^ length (c # cs) + val64 (c # cs)"
    using e' by (simp add: val64_Cons v_def algebra_simps)
  with IH e' v show ?case by (auto simp: v_def)
qed simp

lemma decode_base64url_total:
  assumes "\<forall>c \<in> set cs. 0 \<le> base64url_value c" "bits < 8" "unat acc < 2 ^ bits"
    and "8 * length out + bits + 6 * length cs < 264"
  shows "decode_base64url cs acc bits out \<noteq> None"
  using assms
proof (induction cs arbitrary: acc bits out)
  case (Cons c cs)
  define v where "v = base64url_value c"
  have v: "0 \<le> v" "v < 64" using Cons.prems(1) base64url_value_bounds [of c] by (auto simp: v_def)
  have room: "8 * length out + bits + 6 * Suc (length cs) < 264" using Cons.prems(4) by simp
  have "emit_bytes (push_bit 6 acc OR word_of_int v) (bits + 6) out \<noteq> None"
    unfolding emit_bytes_step(1) [OF Cons.prems(2,3) v] using room by auto
  then obtain a1 b1 o1 where e: "emit_bytes (push_bit 6 acc OR word_of_int v) (bits + 6) out = Some (a1, b1, o1)"
    by auto
  then have "decode_base64url cs a1 b1 o1 \<noteq> None"
    using emit_bytes_value [OF Cons.prems(2,3) v e] Cons.prems(1) room
    by (intro Cons.IH) auto
  with e v show ?case by (simp add: v_def Let_def)
qed simp

text \<open>Fixed-length digit lists are determined by their value.\<close>

lemma val256_bound: "val256 bs < 256 ^ length bs"
proof (induction bs rule: rev_induct)
  case (snoc b bs)
  then have "val256 bs + 1 \<le> 256 ^ length bs" by simp
  then have "(val256 bs + 1) * 256 \<le> 256 ^ length bs * 256" by (rule mult_right_mono) simp
  then show ?case using unat_u8_bound [of b] by simp
qed simp

lemma val256_inject: "length bs = length cs \<Longrightarrow> val256 bs = val256 cs \<Longrightarrow> bs = cs"
proof (induction bs arbitrary: cs rule: rev_induct)
  case (snoc b bs)
  then obtain c cs' where cs: "cs = cs' @ [c]" by (cases cs rule: rev_cases) auto
  have "val256 bs * 256 + unat b = val256 cs' * 256 + unat c" using snoc.prems cs by simp
  then have "(val256 bs * 256 + unat b) mod 256 = (val256 cs' * 256 + unat c) mod 256"
    "(val256 bs * 256 + unat b) div 256 = (val256 cs' * 256 + unat c) div 256" by simp_all
  then have "unat b = unat c" "val256 bs = val256 cs'"
    using unat_u8_bound [of b] unat_u8_bound [of c] by simp_all
  then show ?case using snoc cs by (simp add: word_unat_eq_iff)
qed simp

definition base64url_char :: "nat \<Rightarrow> u8" where
  "base64url_char n = (if n < 26 then of_nat (0x41 + n) else if n < 52 then of_nat (0x61 + n - 26)
     else if n < 62 then of_nat (0x30 + n - 52) else if n = 62 then 0x2d else 0x5f)"

fun digits64 :: "nat \<Rightarrow> nat \<Rightarrow> nat list" where
  "digits64 0 n = []"
| "digits64 (Suc k) n = digits64 k (n div 64) @ [n mod 64]"

text \<open>The canonical unpadded base64url text of a 32-byte hash: 43 characters.\<close>

definition base64url_encode :: "u8 list \<Rightarrow> u8 list" where
  "base64url_encode bs = map base64url_char (digits64 AGENC_ARTIFACT_RESULT_B64_SIZE (val256 bs * 4))"

lemma length_digits64 [simp]: "length (digits64 k n) = k"
  by (induction k arbitrary: n) auto

lemma digits64_less: "d \<in> set (digits64 k n) \<Longrightarrow> d < 64"
  by (induction k arbitrary: n) auto

lemma uint_of_nat_u8: "n < 256 \<Longrightarrow> uint (of_nat n :: u8) = int n"
  by (simp add: unsigned_of_nat take_bit_nat_eq_self)

lemma base64url_char_value:
  assumes "n < 64"
  shows "base64url_value (base64url_char n) = int n" and "base64url_char n \<noteq> 0"
proof -
  have of_nat_le: "(k \<le> (of_nat m :: u8)) = (uint k \<le> int m)" "((of_nat m :: u8) \<le> k) = (int m \<le> uint k)"
    if "m < 256" for k :: u8 and m using that by (simp_all add: word_le_def uint_of_nat_u8)
  consider "n < 26" | "26 \<le> n" "n < 52" | "52 \<le> n" "n < 62" | "n = 62" | "n = 63"
    using assms by linarith
  then show "base64url_value (base64url_char n) = int n"
    by cases (simp_all add: base64url_value_def base64url_char_def of_nat_le uint_of_nat_u8
        del: of_nat_add of_nat_diff, arith)
  then show "base64url_char n \<noteq> 0"
    using assms by (auto simp: base64url_value_def)
qed

lemma base64url_value_char:
  assumes "0 \<le> base64url_value c"
  shows "base64url_char (nat (base64url_value c)) = c"
proof -
  have c: "of_nat (nat (uint c)) = c" by simp
  show ?thesis
    using assms
    by (auto simp: base64url_value_def base64url_char_def word_le_def split: if_splits)
qed

lemma digits64_value: "val64 (map base64url_char (digits64 k n)) = n mod 64 ^ k"
proof (induction k arbitrary: n)
  case (Suc k)
  have "n mod 64 ^ Suc k = 64 * (n div 64 mod 64 ^ k) + n mod 64"
    using mod_mult2_eq [of n 64 "64 ^ k"] by simp
  with Suc show ?case by (simp add: base64url_char_value)
qed simp

lemma digits64_unique:
  "\<forall>c \<in> set cs. 0 \<le> base64url_value c \<Longrightarrow> cs = map base64url_char (digits64 (length cs) (val64 cs))"
proof (induction cs rule: rev_induct)
  case (snoc c cs)
  define v where "v = nat (base64url_value c)"
  have "v < 64" using base64url_value_bounds [of c] by (auto simp: v_def)
  then have "(val64 cs * 64 + v) div 64 = val64 cs" "(val64 cs * 64 + v) mod 64 = v" by simp_all
  then show ?case
    using snoc base64url_value_char [of c] by (simp flip: v_def)
qed simp

lemma artifact_text_length_eq: "artifact_text_length cs = length (takeWhile (\<lambda>c. c \<noteq> 0) cs)"
  by (induction cs) auto

lemma base64url_encode_chars:
  "length (base64url_encode h) = 43" "c \<in> set (base64url_encode h) \<Longrightarrow> c \<noteq> 0 \<and> 0 \<le> base64url_value c"
  using base64url_char_value digits64_less
  by (force simp: base64url_encode_def agenc_sizes)+

lemma val64_encode: "length h = 32 \<Longrightarrow> val64 (base64url_encode h) = val256 h * 4"
  using val256_bound [of h] by (simp add: base64url_encode_def digits64_value agenc_sizes)

lemma decode_encoded:
  assumes "length h = 32"
  shows "decode_base64url (base64url_encode h) 0 0 [] = Some (0, 2, h)"
proof -
  let ?cs = "base64url_encode h"
  have "decode_base64url ?cs 0 0 [] \<noteq> None"
    using base64url_encode_chars by (intro decode_base64url_total) auto
  then obtain acc bits out where d: "decode_base64url ?cs 0 0 [] = Some (acc, bits, out)" by auto
  from decode_base64url_value [OF this] have *: "bits < 8" "unat acc < 2 ^ bits"
    "8 * length out + bits = 258" "val256 out * 2 ^ bits + unat acc = val256 h * 4"
    using val64_encode [OF assms] by (simp_all add: base64url_encode_chars)
  from *(1,3) have bits: "bits = 2" "length out = 32" by presburger+
  then have "val256 out * 4 + unat acc = val256 h * 4" "unat acc < 4" using *(2,4) by simp_all
  then have "unat acc = 0" "val256 out = val256 h" by presburger+
  then show ?thesis using d bits val256_inject [of out h] assms by (simp add: unat_eq_0)
qed

text \<open>C27: The artifact hash shown for a submitted result is decided by the text alone and every
  hash has exactly one text: the 64-byte field is accepted precisely when it is the prefix
  ``artifact:sha256:'', the canonical unpadded base64url text of the 32 bytes and a zero byte.
  Other alphabets, padding, non-zero trailing bits and longer or shorter texts are refused.\<close>

theorem decode_artifact_canonical:
  assumes "length d = 64"
  shows "decode_artifact_result_hash d = Some h \<longleftrightarrow>
    length h = 32 \<and> take 60 d = AGENC_ARTIFACT_RESULT_PREFIX @ base64url_encode h @ [0]"
proof
  assume dec: "decode_artifact_result_hash d = Some h"
  have "length (take 16 d) = length AGENC_ARTIFACT_RESULT_PREFIX"
    using assms by (simp add: AGENC_ARTIFACT_RESULT_PREFIX_def)
  then have pre: "take 16 d = AGENC_ARTIFACT_RESULT_PREFIX"
    using dec by (auto simp: decode_artifact_result_hash_def agenc_sizes memcmp_eq_0 split: if_splits)
  have len: "length (takeWhile (\<lambda>c. c \<noteq> 0) d) = 59"
    using dec assms by (auto simp: decode_artifact_result_hash_def agenc_sizes artifact_text_length_eq
        Let_def split: if_splits)
  let ?cs = "drop 16 (take 59 d)"
  from dec len obtain acc bits where r: "decode_base64url ?cs 0 0 [] = Some (acc, bits, h)"
    "length h = 32" "acc = 0"
    using assms by (auto simp: decode_artifact_result_hash_def agenc_sizes artifact_text_length_eq
        Let_def split: if_splits option.splits)
  have lcs: "length ?cs = 43" using assms by simp
  from decode_base64url_value [OF r(1)] have *: "8 * length h + bits = 258"
    "\<forall>c \<in> set ?cs. 0 \<le> base64url_value c" "val256 h * 2 ^ bits + unat acc = val64 ?cs"
    using lcs by simp_all
  from *(1) r(2) have "bits = 2" by simp
  with *(3) r(3) have "val64 ?cs = val256 h * 4" by simp
  with digits64_unique [OF *(2)] lcs have cs: "?cs = base64url_encode h"
    by (simp add: base64url_encode_def agenc_sizes)
  have "d ! 59 = 0" using nth_length_takeWhile [of "\<lambda>c. c \<noteq> 0" d] len assms by simp
  moreover have "take 60 d = take 59 d @ [d ! 59]"
    using take_Suc_conv_app_nth [of 59 d] assms by simp
  moreover have "take 59 d = take 16 d @ ?cs"
    using append_take_drop_id [of 16 "take 59 d"] by simp
  ultimately show "length h = 32 \<and> take 60 d = AGENC_ARTIFACT_RESULT_PREFIX @ base64url_encode h @ [0]"
    using r(2) pre cs by simp
next
  assume *: "length h = 32 \<and> take 60 d = AGENC_ARTIFACT_RESULT_PREFIX @ base64url_encode h @ [0]"
  then obtain z where d: "d = (AGENC_ARTIFACT_RESULT_PREFIX @ base64url_encode h) @ 0 # z"
    by (metis append.assoc append_Cons append_Nil append_take_drop_id)
  have nz: "\<forall>c \<in> set (AGENC_ARTIFACT_RESULT_PREFIX @ base64url_encode h). c \<noteq> 0"
    using base64url_encode_chars(2) by (auto simp: AGENC_ARTIFACT_RESULT_PREFIX_def)
  have lp: "length AGENC_ARTIFACT_RESULT_PREFIX = 16" by (simp add: AGENC_ARTIFACT_RESULT_PREFIX_def)
  have "takeWhile (\<lambda>c. c \<noteq> 0) d = AGENC_ARTIFACT_RESULT_PREFIX @ base64url_encode h"
    unfolding d using nz by (subst takeWhile_append2) auto
  then have tl: "artifact_text_length d = 59"
    by (simp add: artifact_text_length_eq lp base64url_encode_chars)
  have t59: "take 59 d = AGENC_ARTIFACT_RESULT_PREFIX @ base64url_encode h"
    unfolding d by (rule take_append_exact) (simp add: lp base64url_encode_chars)
  have "take 16 d = AGENC_ARTIFACT_RESULT_PREFIX" unfolding d by (simp add: lp)
  then show "decode_artifact_result_hash d = Some h"
    using * tl t59 lp assms decode_encoded [of h]
    by (simp add: decode_artifact_result_hash_def agenc_sizes memcmp_eq_0)
qed

theorem decode_artifact_canonical_witness:
  "decode_artifact_result_hash (AGENC_ARTIFACT_RESULT_PREFIX @ base64url_encode (replicate 32 5)
     @ [0, 0, 0, 0, 0]) = Some (replicate 32 5)"
  by (subst decode_artifact_canonical)
    (simp_all add: AGENC_ARTIFACT_RESULT_PREFIX_def base64url_encode_chars)

section \<open>What the device shows\<close>

text \<open>The action and the items of every instruction, as a table: the specification of the screens.\<close>

fun agenc_title :: "AgencBody \<Rightarrow> string" where
  "agenc_title (AgencRegisterAgent _) = ''Register agent''"
| "agenc_title (AgencCreateTask _) = ''Create task''"
| "agenc_title (AgencConfigureTaskValidation _) = ''Configure review''"
| "agenc_title (AgencSetTaskJobSpec _) = ''Attach job spec''"
| "agenc_title (AgencClaimTaskWithJobSpec _) = ''Claim task''"
| "agenc_title (AgencSubmitTaskResult _) = ''Submit result''"
| "agenc_title (AgencAcceptTaskResult _) = ''Accept result''"
| "agenc_title (AgencRejectTaskResult _) = ''Reject result''"
| "agenc_title (AgencCancelTask _) = ''Cancel task''"
| "agenc_title (AgencExpireClaim _) = ''Expire claim''"

definition pk :: "string \<Rightarrow> byte_ptr \<Rightarrow> SummaryItem" where
  "pk t p = \<lparr>item_title = t, item_value = ItemPubkey p\<rparr>"
definition num :: "string \<Rightarrow> u64 \<Rightarrow> SummaryItem" where
  "num t v = \<lparr>item_title = t, item_value = ItemU64 v\<rparr>"
definition hsh :: "string \<Rightarrow> byte_ptr \<Rightarrow> SummaryItem" where
  "hsh t p = \<lparr>item_title = t, item_value = ItemHash p\<rparr>"
definition sol :: "string \<Rightarrow> u64 \<Rightarrow> SummaryItem" where
  "sol t v = \<lparr>item_title = t, item_value = ItemAmount v\<rparr>"
definition inum :: "string \<Rightarrow> i64 \<Rightarrow> SummaryItem" where
  "inum t v = \<lparr>item_title = t, item_value = ItemI64 v\<rparr>"
definition lit :: "string \<Rightarrow> string \<Rightarrow> SummaryItem" where
  "lit t v = \<lparr>item_title = t, item_value = ItemString v\<rparr>"
definition uri :: "string \<Rightarrow> SizedString \<Rightarrow> SummaryItem" where
  "uri t v = \<lparr>item_title = t, item_value = ItemSizedString v\<rparr>"

lemmas item_makers = pk_def num_def hsh_def sol_def inum_def lit_def uri_def

fun agenc_items :: "AgencBody \<Rightarrow> SummaryItem list" where
  "agenc_items (AgencRegisterAgent i) =
     [sol ''Stake'' (ra_stake_amount i), pk ''Agent'' (ra_agent i), pk ''Authority'' (ra_authority i),
      num ''Capabilities'' (ra_capabilities i), uri ''Endpoint'' (ra_endpoint i)]
     @ (if ra_has_metadata_uri i then [uri ''Metadata URI'' (ra_metadata_uri i)] else [])"
| "agenc_items (AgencCreateTask i) = butlast (create_task_items (Ptr 0 []) i)"
| "agenc_items (AgencConfigureTaskValidation i) =
     [pk ''Task'' (cv_task i), num ''Mode'' (ucast (cv_mode i)),
      inum ''Review window'' (cv_review_window_secs i),
      num ''Validator quorum'' (ucast (cv_validator_quorum i))]
     @ (case cv_attestor i of Some a \<Rightarrow> [pk ''Attestor'' a] | None \<Rightarrow> [])"
| "agenc_items (AgencSetTaskJobSpec i) =
     [hsh ''Job spec hash'' (js_job_spec_hash i), pk ''Task'' (js_task i), pk ''Creator'' (js_creator i),
      uri ''Job spec URI'' (js_job_spec_uri i)]"
| "agenc_items (AgencClaimTaskWithJobSpec i) =
     [pk ''Task'' (cj_task i), pk ''Worker'' (cj_worker i), pk ''Authority'' (cj_authority i),
      pk ''Claim'' (cj_claim i)]"
| "agenc_items (AgencSubmitTaskResult i) =
     [hsh ''Proof hash'' (sr_proof_hash i), pk ''Task'' (sr_task i), pk ''Worker'' (sr_worker i),
      pk ''Submission'' (sr_task_submission i),
      (if sr_has_artifact_hash i then hsh ''Artifact SHA-256'' (sr_artifact_hash i)
       else lit ''Result data'' (if sr_has_result_data i then ''included'' else ''none''))]"
| "agenc_items (AgencAcceptTaskResult i) =
     [lit ''Reward'' ''not in tx'', pk ''Task'' (ar_task i), pk ''Worker'' (ar_worker i),
      pk ''Worker auth'' (ar_worker_authority i), pk ''Creator'' (ar_creator i),
      pk ''Treasury'' (ar_treasury i)]"
| "agenc_items (AgencRejectTaskResult i) =
     [hsh ''Rejection hash'' (rr_rejection_hash i), pk ''Task'' (rr_task i), pk ''Worker'' (rr_worker i),
      pk ''Worker auth'' (rr_worker_authority i), pk ''Creator'' (rr_creator i),
      pk ''Submission'' (rr_task_submission i)]"
| "agenc_items (AgencCancelTask i) =
     [lit ''Refund'' ''not in tx'', pk ''Task'' (xt_task i), pk ''Authority'' (xt_authority i),
      pk ''Escrow'' (xt_escrow i), num ''Worker claims'' (of_nat (xt_worker_account_count i))]"
| "agenc_items (AgencExpireClaim i) =
     [pk ''Task'' (ec_task i), pk ''Claim'' (ec_claim i), pk ''Worker'' (ec_worker i),
      pk ''Authority'' (ec_authority i), pk ''Rent recipient'' (ec_rent_recipient i)]
     @ (case ec_task_validation_config i of Some c \<Rightarrow> [pk ''Validation'' c] | None \<Rightarrow> [])
     @ (case ec_task_submission i of Some s \<Rightarrow> [pk ''Submission'' s] | None \<Rightarrow> [])"

lemma create_task_items_program:
  "create_task_items pid t = butlast (create_task_items (Ptr 0 []) t) @ [pk ''Program'' pid]"
  by (simp add: create_task_items_def item_makers split: option.split)

lemma agenc_screen_eval:
  assumes "screen_ok S" "filled S = []" "\<not> is_summary_item_used (primary S)"
  shows "print_agenc_info info S = Some (0, (agenc_action (agenc_title (agenc_body info)) S)
     \<lparr>general := pad (agenc_items (agenc_body info) @ [pk ''Program'' (agenc_program_id info)])\<rparr>)"
proof (cases "agenc_body info")
  case (AgencCreateTask t)
  with assms show ?thesis
    by (simp add: print_agenc_info_def print_agenc_create_task_info_def set_primary_action_ok
        print_create_task_fields_eval flip: create_task_items_program)
qed (use assms in \<open>simp add: print_agenc_info_def agenc_printers(2-) item_makers agenc_eval Let_def
      split: option.split\<close>)+

text \<open>C9: The screen of every AgenC instruction, starting from an empty summary: the printing
  succeeds, the action is the primary item, the items are exactly those of the table above in
  that order, the last one being the program, and at most ten of the eleven places are used.\<close>

theorem agenc_screen:
  assumes "screen_ok S" "filled S = []" "\<not> is_summary_item_used (primary S)"
  shows "print_agenc_info info S = Some (0, (agenc_action (agenc_title (agenc_body info)) S)
     \<lparr>general := pad (agenc_items (agenc_body info) @ [pk ''Program'' (agenc_program_id info)])\<rparr>)
   \<and> length (agenc_items (agenc_body info) @ [pk ''Program'' (agenc_program_id info)]) \<le> 10"
proof -
  have "length (agenc_items b) \<le> 9" for b
  proof (cases b)
    case (AgencCreateTask t)
    then show ?thesis using length_create_task_items [of "Ptr 0 []" t] by (simp, linarith)
  qed (simp_all split: option.split)
  then show ?thesis using agenc_screen_eval [OF assms] by (simp add: le_Suc_eq)
qed

text \<open>No AgenC printer ever writes through a null item pointer, whatever is already on the
  screen: with no place left it returns an error status instead.\<close>

theorem agenc_print_null_safe:
  "print_agenc_info info S \<noteq> None \<and> print_agenc_create_task_with_review_info c v S \<noteq> None"
proof
  show "print_agenc_info info S \<noteq> None"
    using agenc_printers_null_safe
    by (simp add: print_agenc_info_def null_safe_def Let_def split: AgencBody.split)
  have "null_safe (run_all [set_primary_action a, print_create_task_fields pid t, set_general_i64 w x])"
    for a pid t w x
    by (rule null_safe_run_all) (simp add: print_create_task_fields_ok)
  then show "print_agenc_create_task_with_review_info c v S \<noteq> None"
    by (simp add: print_agenc_create_task_with_review_info_def null_safe_def split: AgencBody.split)
qed

theorem agenc_screen_witness:
  "\<exists>S'. print_agenc_info \<lparr>agenc_program_id = Ptr 0 [], agenc_body = AgencCancelTask
      \<lparr>xt_task = Ptr 1 [], xt_escrow = Ptr 2 [], xt_authority = Ptr 3 [], xt_protocol_config = Ptr 4 [],
        xt_system_program = Ptr 5 [], xt_worker_account_count = 1\<rparr>\<rparr> transaction_summary_reset = Some (0, S')
     \<and> length (filled S') = 6"
  by (subst agenc_screen) (simp_all add: item_makers)

lemma agenc_pair_eval:
  assumes "screen_ok S" "filled S = []" "\<not> is_summary_item_used (primary S)"
    and "agenc_body c = AgencCreateTask t" "agenc_body v = AgencConfigureTaskValidation u"
  shows "print_agenc_create_task_with_review_info c v S =
    (if pubkeys_equal (ct_task t) (cv_task u) \<and> pubkeys_equal (ct_creator t) (cv_creator u)
        \<and> cv_mode u = 1 \<and> cv_validator_quorum u = 0 \<and> cv_attestor u = None
     then Some (0, (agenc_action ''Create task'' S)\<lparr>general :=
        pad (create_task_items (agenc_program_id c) t @ [inum ''Review window'' (cv_review_window_secs u)])\<rparr>)
     else Some (1, S))"
proof -
  have "length (create_task_items (agenc_program_id c) t) < 11"
    using length_create_task_items [of "agenc_program_id c" t] by linarith
  moreover have "filter is_summary_item_used (create_task_items (agenc_program_id c) t)
      = create_task_items (agenc_program_id c) t"
    using used_create_task_items [of "agenc_program_id c" t] by (simp add: list_all_iff)
  ultimately show ?thesis
    using assms
    by (simp add: print_agenc_create_task_with_review_info_def set_primary_action_ok
        print_create_task_fields_eval agenc_eval item_makers)
qed

text \<open>A create_task paired with a configure_task_validation is shown as one screen exactly when
  the second instruction configures the review of the same task for the same creator, in
  creator-review mode, with no quorum and no attestor; the screen is then that of the task plus
  the review window. In every other case nothing is shown and an error is returned.\<close>

theorem agenc_pair_screen:
  assumes "screen_ok S" "filled S = []" "\<not> is_summary_item_used (primary S)"
    and "agenc_body c = AgencCreateTask t" "agenc_body v = AgencConfigureTaskValidation u"
  shows "print_agenc_create_task_with_review_info c v S =
    (if pubkeys_equal (ct_task t) (cv_task u) \<and> pubkeys_equal (ct_creator t) (cv_creator u)
        \<and> cv_mode u = 1 \<and> cv_validator_quorum u = 0 \<and> cv_attestor u = None
     then Some (0, (agenc_action ''Create task'' S)\<lparr>general :=
        pad (create_task_items (agenc_program_id c) t @ [inum ''Review window'' (cv_review_window_secs u)])\<rparr>)
     else Some (1, S))"
  using assms by (rule agenc_pair_eval)

text \<open>A token task with a task type, and its review.\<close>

definition sample_task :: AgencCreateTaskInfo where
  "sample_task = \<lparr>ct_task = Ptr 0 [1], ct_escrow = Ptr 0 [], ct_protocol_config = Ptr 0 [], ct_creator_agent = Ptr 0 [],
     ct_authority_rate_limit = Ptr 0 [], ct_authority = Ptr 0 [], ct_creator = Ptr 0 [2], ct_system_program = Ptr 0 [],
     ct_task_id = Ptr 0 [], ct_required_capabilities = 0, ct_description = Ptr 0 [],
     ct_description_commitment = Ptr 0 [], ct_reward_amount = 0, ct_max_workers = 0, ct_deadline = 0,
     ct_task_type = 1, ct_constraint_hash = None, ct_min_reputation = 0, ct_reward_mint = Some (Ptr 0 [3])\<rparr>"

definition sample_review :: AgencConfigureTaskValidationInfo where
  "sample_review = \<lparr>cv_task = Ptr 0 [1], cv_task_validation_config = Ptr 0 [], cv_task_attestor_config = Ptr 0 [],
     cv_protocol_config = Ptr 0 [], cv_hire_record = Ptr 0 [], cv_creator = Ptr 0 [2], cv_system_program = Ptr 0 [],
     cv_mode = 1, cv_review_window_secs = 0, cv_validator_quorum = 0, cv_attestor = None\<rparr>"

theorem agenc_pair_screen_witness:
  "\<exists>S'. print_agenc_create_task_with_review_info
       \<lparr>agenc_program_id = Ptr 0 [], agenc_body = AgencCreateTask sample_task\<rparr>
       \<lparr>agenc_program_id = Ptr 0 [], agenc_body = AgencConfigureTaskValidation sample_review\<rparr>
       transaction_summary_reset = Some (0, S') \<and> length (filled S') = 11"
  by (subst agenc_pair_screen [of _ _ sample_task _ sample_review])
    (auto simp: pubkeys_equal_def sample_task_def sample_review_def create_task_items_def item_makers)

section \<open>What outlives process_message_body\<close>

fun message_ptr :: "byte_ptr \<Rightarrow> bool" where
  "message_ptr (Ptr _ _) = True"
| "message_ptr (Frame_ptr _) = False"

text \<open>
  The items are read when the screens are drawn, after \<open>process_message_body\<close> has returned. An
  item \<open>outlives\<close> that call when it holds its value or points into the message.
\<close>

definition outlives :: "SummaryItem \<Rightarrow> bool" where
  "outlives it = (case item_value it of
     ItemPubkey p \<Rightarrow> message_ptr p | ItemHash p \<Rightarrow> message_ptr p
   | ItemApplicationDomain p \<Rightarrow> message_ptr p | _ \<Rightarrow> True)"

lemma outlives_simps [simp]:
  "outlives (pk t p) = message_ptr p" "outlives (hsh t p) = message_ptr p" "outlives (num t v)"
  "outlives (sol t v)" "outlives (inum t v)" "outlives (lit t str)" "outlives (uri t s)"
  by (simp_all add: outlives_def item_makers)

lemma message_ptr_account [simp]: "message_ptr (account_key h i k)"
  by (simp add: account_key_def header_pubkey_def)

lemma message_ptr_optional [simp]: "optional_at a v = Some p \<Longrightarrow> message_ptr p"
  by (cases v) (auto simp: optional_at_def)

lemma create_task_items_outlive:
  assumes "parse_create_task i h p = Some (t, q)"
  shows "list_all outlives (create_task_items pid t) = message_ptr pid"
proof -
  have "message_ptr (ct_task t)" "message_ptr (ct_creator t)"
    using agenc_parsers_checked(2) [OF assms] by (auto simp: accounts_checked_def)
  moreover have "message_ptr (ct_description_commitment t)"
    "\<And>m. ct_reward_mint t = Some m \<Longrightarrow> message_ptr m"
    using assms
    by (auto simp: parse_create_task_def parse_success Let_def parse_optional_pubkey_ref_iff)
  ultimately show ?thesis
    by (auto simp: create_task_items_def outlives_def split: option.split)
qed

lemma parse_hash_ref_message: "parse_hash_ref p = Some (k, q) \<Longrightarrow> message_ptr k"
  by (auto simp: parse_hash_ref_iff)

lemma agenc_hashes_message:
  "parse_set_task_job_spec i h p = Some (i4, q) \<Longrightarrow> message_ptr (js_job_spec_hash i4)"
  "parse_submit_task_result i h p = Some (i6, q) \<Longrightarrow>
     message_ptr (sr_proof_hash i6) \<and> \<not> message_ptr (sr_artifact_hash i6)"
  "parse_reject_task_result i h p = Some (i8, q) \<Longrightarrow> message_ptr (rr_rejection_hash i8)"
  "parse_configure_task_validation i h p = Some (i3, q) \<Longrightarrow> cv_attestor i3 = Some a \<Longrightarrow> message_ptr a"
  unfolding parse_set_task_job_spec_def parse_submit_task_result_def parse_reject_task_result_def
    parse_configure_task_validation_def
  by (auto simp: parse_success Let_def parse_optional_pubkey_ref_iff dest: parse_hash_ref_message)

lemma agenc_items_outlive:
  assumes "parse_agenc_body i h d p = Some (b, q)"
  shows "list_all outlives (agenc_items b) \<longleftrightarrow> \<not> (\<exists>t. b = AgencSubmitTaskResult t \<and> sr_has_artifact_hash t)"
proof -
  have acc: "\<forall>(k, a) \<in> set (agenc_accounts b). message_ptr a"
    using parse_agenc_body_checked [OF assms] by (auto simp: accounts_checked_def)
  show ?thesis
  proof (cases b)
    case (AgencCreateTask t)
    with assms have t: "parse_create_task i h p = Some (t, q)"
      by (auto simp: parse_agenc_body_def apfst_def split: if_splits)
    have "list_all outlives (butlast (create_task_items (Ptr 0 []) t))"
      using create_task_items_outlive [OF t, of "Ptr 0 []"]
      by (auto simp: list_all_iff dest: in_set_butlastD)
    with AgencCreateTask show ?thesis by simp
  next
    case (AgencExpireClaim t)
    with assms have "ec_task_validation_config t \<noteq> None" "ec_task_submission t \<noteq> None"
      by (auto simp: parse_agenc_body_def apfst_def parse_expire_claim_def parse_success split: if_splits)
    with AgencExpireClaim acc show ?thesis by auto
  next
    case (AgencSubmitTaskResult t)
    with assms have "parse_submit_task_result i h p = Some (t, q)"
      by (auto simp: parse_agenc_body_def apfst_def split: if_splits)
    from agenc_hashes_message(2) [OF this] acc AgencSubmitTaskResult show ?thesis by auto
  next
    case (AgencSetTaskJobSpec t)
    with assms have "parse_set_task_job_spec i h p = Some (t, q)"
      by (auto simp: parse_agenc_body_def apfst_def split: if_splits)
    from agenc_hashes_message(1) [OF this] acc AgencSetTaskJobSpec show ?thesis by auto
  next
    case (AgencRejectTaskResult t)
    with assms have "parse_reject_task_result i h p = Some (t, q)"
      by (auto simp: parse_agenc_body_def apfst_def split: if_splits)
    from agenc_hashes_message(3) [OF this] acc AgencRejectTaskResult show ?thesis by auto
  next
    case (AgencConfigureTaskValidation t)
    with assms have "parse_configure_task_validation i h p = Some (t, q)"
      by (auto simp: parse_agenc_body_def apfst_def split: if_splits)
    from agenc_hashes_message(4) [OF this] acc AgencConfigureTaskValidation show ?thesis
      by (auto split: option.split)
  qed (use acc in auto)
qed

text \<open>C39: After \<open>process_message_body\<close> has returned, every item of an AgenC screen still has a
  valid value, except one: the ``Artifact SHA-256'' of a submitted result points to the decoded
  hash inside the information record, a local variable of that function. What is drawn there
  is whatever the stack holds by then.\<close>

theorem agenc_artifact_hash_dangles:
  assumes "parse_agenc_instructions i h = Some info"
    and "screen_ok S" "filled S = []" "\<not> is_summary_item_used (primary S)"
  shows "\<exists>S'. print_agenc_info info S = Some (0, S') \<and>
    (list_all outlives (filled S') \<longleftrightarrow>
      \<not> (\<exists>t. agenc_body info = AgencSubmitTaskResult t \<and> sr_has_artifact_hash t))"
  using assms(1)
proof (cases rule: parse_agenc_instructions_SomeE)
  case (1 d r q)
  have "list_all is_summary_item_used (agenc_items b)" for b
  proof (cases b)
    case (AgencCreateTask t)
    then show ?thesis using used_create_task_items [of "Ptr 0 []" t]
      by (auto simp: list_all_iff dest: in_set_butlastD)
  qed (simp_all add: item_makers split: option.split)
  then have used: "filter is_summary_item_used (agenc_items b) = agenc_items b" for b
    by (simp add: list_all_iff)
  have "message_ptr (agenc_program_id info)" using 1(2) by (simp add: header_pubkey_def)
  with agenc_items_outlive [OF 1(6)] show ?thesis
    unfolding agenc_screen_eval [OF assms(2-4)] by (simp add: used)
qed

definition sample_submit_result :: Instruction where
  "sample_submit_result = \<lparr>program_id_index = 0, accounts = [2, 2, 2, 2, 2, 2, 2, 1],
     data = Ptr 200 (DISCRIMINATOR_SUBMIT_TASK_RESULT @ replicate 32 4 @ 1 #
       (AGENC_ARTIFACT_RESULT_PREFIX @ base64url_encode (replicate 32 5) @ [0, 0, 0, 0, 0]))\<rparr>"

lemma sample_submit_parses:
  "\<exists>t. parse_agenc_instructions sample_submit_result sample_agenc_header
      = Some \<lparr>agenc_program_id = header_pubkey (pubkeys sample_agenc_header) 0, agenc_body = AgencSubmitTaskResult t\<rparr>
    \<and> sr_has_artifact_hash t \<and> sr_artifact_hash t = Frame_ptr (replicate 32 5)"
proof -
  let ?h = sample_agenc_header and ?i = sample_submit_result
  let ?field = "AGENC_ARTIFACT_RESULT_PREFIX @ base64url_encode (replicate 32 5) @ [0, 0, 0, 0, 0]"
  have acc: "account_at ?i ?h k = Some (account_key ?h ?i k)" if "k < 8" for k
  proof -
    have k: "k < length (accounts ?i)" using that by (simp add: sample_submit_result_def)
    then have "accounts ?i ! k \<in> {1, 2}"
      using nth_mem [OF k] by (auto simp: sample_submit_result_def)
    then show ?thesis using k by (auto simp: accounts_length_def sample_agenc_header_def)
  qed
  have sys: "pubkeys_equal (account_key ?h ?i 7) system_program_id"
    using sample_agenc_keys(2) by (simp add: account_key_def pubkeys_equal_iff sample_submit_result_def)
  have field: "length ?field = 64"
    by (simp add: AGENC_ARTIFACT_RESULT_PREFIX_def base64url_encode_chars)
  have dec: "decode_artifact_result_hash ?field = Some (replicate 32 5)"
  proof -
    have "take 16 ?field = AGENC_ARTIFACT_RESULT_PREFIX" by (simp add: AGENC_ARTIFACT_RESULT_PREFIX_def)
    moreover have "take 59 ?field = AGENC_ARTIFACT_RESULT_PREFIX @ base64url_encode (replicate 32 5)"
      by (simp add: AGENC_ARTIFACT_RESULT_PREFIX_def base64url_encode_chars)
    moreover have "artifact_text_length ?field = 59"
    proof -
      have "takeWhile (\<lambda>c. c \<noteq> 0) ((AGENC_ARTIFACT_RESULT_PREFIX @ base64url_encode (replicate 32 5)) @ [0, 0, 0, 0, 0])
          = AGENC_ARTIFACT_RESULT_PREFIX @ base64url_encode (replicate 32 5)"
        using base64url_encode_chars(2) by (subst takeWhile_append2) (auto simp: AGENC_ARTIFACT_RESULT_PREFIX_def)
      then show ?thesis
        by (simp add: artifact_text_length_eq base64url_encode_chars) (simp add: AGENC_ARTIFACT_RESULT_PREFIX_def)
    qed
    ultimately show ?thesis
      using decode_encoded [of "replicate 32 5"] field
      by (simp add: decode_artifact_result_hash_def agenc_sizes memcmp_eq_0)
        (simp add: AGENC_ARTIFACT_RESULT_PREFIX_def agenc_sizes)
  qed
  have f8: "parse_fixed_bytes 8 (cursor a (DISCRIMINATOR_SUBMIT_TASK_RESULT @ r))
      = Some (Ptr a DISCRIMINATOR_SUBMIT_TASK_RESULT, cursor (a + 8) r)" for a r
    using fixedr.decode [of DISCRIMINATOR_SUBMIT_TASK_RESULT 8] by simp
  have f64: "parse_fixed_bytes 64 (cursor a ?field) = Some (Ptr a ?field, cursor (a + 64) [])" for a
    using fixedr.decode_all [OF field] by (simp only: field)
  have opt: "parse_option (cursor a (1 # r)) = Some (OptionSome, cursor (a + 1) r)" for a r
    by (simp add: parse_option_iff)
  have ne: "memcmp DISCRIMINATOR_SUBMIT_TASK_RESULT DISCRIMINATOR_REGISTER_AGENT \<noteq> 0"
    "memcmp DISCRIMINATOR_SUBMIT_TASK_RESULT DISCRIMINATOR_CREATE_TASK \<noteq> 0"
    "memcmp DISCRIMINATOR_SUBMIT_TASK_RESULT DISCRIMINATOR_CONFIGURE_TASK_VALIDATION \<noteq> 0"
    "memcmp DISCRIMINATOR_SUBMIT_TASK_RESULT DISCRIMINATOR_SET_TASK_JOB_SPEC \<noteq> 0"
    "memcmp DISCRIMINATOR_SUBMIT_TASK_RESULT DISCRIMINATOR_CLAIM_TASK_WITH_JOB_SPEC \<noteq> 0"
    "memcmp DISCRIMINATOR_SUBMIT_TASK_RESULT DISCRIMINATOR_SUBMIT_TASK_RESULT = 0"
    by (simp_all add: memcmp_eq_0) (simp_all add: discriminators)
  have pid: "is_agenc_program_id (header_pubkey (pubkeys ?h) 0)"
    using sample_agenc_keys(1) by (simp add: is_agenc_program_id_def pubkeys_equal_iff)
  have hash: "parse_hash_ref (cursor a (replicate 32 4 @ r)) = Some (Ptr a (replicate 32 4), cursor (a + 32) r)" for a r
    using hash_refr.decode [of "replicate 32 4"] by simp
  have data: "data_parser ?i = cursor 200 (DISCRIMINATOR_SUBMIT_TASK_RESULT @ replicate 32 4 @ 1 # ?field)"
    "program_id_index ?i = 0" "accounts_length ?i = 8"
    by (simp_all add: data_parser_def sample_submit_result_def accounts_length_def)
  show ?thesis
    by (simp only: parse_agenc_instructions_def data f8 pid agenc_sizes Let_def guard_simps
        Option.bind.bind_lunit prod.case byte_ptr.sel parse_agenc_body_def ne unat_0 if_False if_True simp_thms
        parse_submit_task_result_def acc validate_system_program_def sys hash
        parse_optional_result_data_def opt f64 dec)
      (simp add: acc sys hash opt f64 dec data parser_is_empty_def del: account_at_iff)
qed

theorem agenc_artifact_hash_dangles_witness:
  "\<exists>info S'. parse_agenc_instructions sample_submit_result sample_agenc_header = Some info
    \<and> print_agenc_info info transaction_summary_reset = Some (0, S') \<and> \<not> list_all outlives (filled S')"
proof -
  obtain t where t: "parse_agenc_instructions sample_submit_result sample_agenc_header
      = Some \<lparr>agenc_program_id = header_pubkey (pubkeys sample_agenc_header) 0, agenc_body = AgencSubmitTaskResult t\<rparr>"
    "sr_has_artifact_hash t" using sample_submit_parses by blast
  show ?thesis
    using agenc_artifact_hash_dangles [OF t(1), of transaction_summary_reset] t by auto
qed

end
