(* ===== verification/Sol_Printer.thy ===== *)
theory Sol_Printer
  imports Sol_Agenc
begin

text \<open>
  Numbers, strings and keys as text, \<open>libsol/printer.c\<close>.

  The functions write a \<open>char *out\<close> of \<open>out_length\<close> bytes from its start. They return the status and
  the characters written, the terminating NUL included when there is one; what follows in the buffer
  is not touched. On success the text is what precedes the NUL, \<open>c_str\<close>.
\<close>

type_synonym written = "int \<times> string"

definition NUL :: char where "NUL = CHR 0x00"

definition INT_MAX :: nat where "INT_MAX = 2147483647"

definition c_str :: "string \<Rightarrow> string" where
  "c_str s = takeWhile (\<lambda>c. c \<noteq> NUL) s"

definition digit_char :: "nat \<Rightarrow> char" where
  "digit_char d = char_of (48 + d)"

section \<open>Amounts\<close>

text \<open>
  The \<open>do\<close> loop of \<open>print_token_amount\<close>, one call per digit, from the last one. \<open>i\<close> is the length of
  what is written. \<open>Inl\<close> is the return of \<open>BAIL_IF\<close>.
\<close>

function token_digits :: "u8 \<Rightarrow> nat \<Rightarrow> u64 \<Rightarrow> string \<Rightarrow> string + string" where
  "token_digits decimals outlen dVal w =
     (let w = (if length w = unat decimals then w @ ''.'' else w)
      in if length w \<ge> outlen then Inl w
         else let w = w @ [digit_char (unat (dVal mod 10))];
                  dVal = dVal div 10
              in if (dVal > 0 \<or> length w < unat decimals + 1) \<and> length w < outlen
                 then token_digits decimals outlen dVal w
                 else Inr w)"
  by auto
termination
  by (relation "measure (\<lambda>(decimals, outlen, dVal, w). outlen - length w)") auto

declare token_digits.simps [simp del]

text \<open>
  The \<open>BAIL_IF\<close> in the loop is reached with a buffer full of digits and a point. The check of the
  space for the ticker counts the space, the ticker and the NUL. With a buffer of one byte the code reads
  the byte before it: \<open>None\<close>.
\<close>

definition print_token_amount :: "u64 \<Rightarrow> string option \<Rightarrow> u8 \<Rightarrow> nat \<Rightarrow> written option" where
  "print_token_amount amount asset decimals outlen =
     (if outlen > INT_MAX then Some (1, [])
      else case (if 0 < outlen - 1 then token_digits decimals outlen amount [] else Inr []) of
        Inl w \<Rightarrow> Some (1, w)
      | Inr w \<Rightarrow>
          if length w \<ge> outlen then Some (1, w)
          else if w = [] then None
          else let out = rev w;
                   stripped = hd out # rev (dropWhile (\<lambda>c. c = CHR ''0'') (rev (tl out)));
                   stripped = (if last stripped = CHR ''.'' then butlast stripped else stripped)
               in case asset of
                    Some asset \<Rightarrow>
                      if length stripped + 1 + length asset + 1 > outlen then Some (1, out)
                      else Some (0, stripped @ '' '' @ asset @ [NUL])
                  | None \<Rightarrow> Some (0, stripped @ [NUL]))"

definition SOL_DECIMALS :: u8 where "SOL_DECIMALS = 9"

definition print_amount :: "u64 \<Rightarrow> nat \<Rightarrow> written option" where
  "print_amount amount outlen = print_token_amount amount (Some ''SOL'') SOL_DECIMALS outlen"

section \<open>Strings\<close>

definition strncpy :: "string \<Rightarrow> nat \<Rightarrow> string" where
  "strncpy s n = take n (c_str s @ replicate n NUL)"

text \<open>The end of a text that does not fit: a tilde and the NUL.\<close>

definition signal_truncation :: "string \<Rightarrow> string" where
  "signal_truncation out = (let n = length out - 1;
       out = out[n := NUL]
     in if n \<noteq> 0 then out[n - 1 := CHR ''~''] else out)"

definition print_sized_string :: "SizedString \<Rightarrow> nat \<Rightarrow> written" where
  "print_sized_string string out_length =
     (let chars = map (\<lambda>b. char_of (unat b) :: char) string;
          len = min out_length (length chars);
          out = strncpy chars len
      in if length chars < out_length then (0, out @ [NUL])
         else (1, signal_truncation out))"

definition print_string :: "string \<Rightarrow> nat \<Rightarrow> written" where
  "print_string s out_length =
     (let out = strncpy s out_length
      in if last out \<noteq> NUL then (1, signal_truncation out) else (0, out))"

definition print_summary :: "string \<Rightarrow> nat \<Rightarrow> nat \<Rightarrow> nat \<Rightarrow> written" where
  "print_summary s out_length left_length right_length =
     (if out_length \<le> left_length + right_length + 2 then (1, [])
      else if length s + 1 > out_length
      then (0, take left_length s @ ''..'' @ drop (length s - right_length) s @ [NUL])
      else (0, snd (print_string s out_length)))"

section \<open>Integers\<close>

fun u64_digits :: "nat \<Rightarrow> u64 \<Rightarrow> string \<Rightarrow> string" where
  "u64_digits 0 dVal w = w"
| "u64_digits (Suc room) dVal w =
     (let w = w @ [if dVal > 0 then digit_char (unat (dVal mod 10)) else CHR ''0''];
          dVal = (if dVal > 0 then dVal div 10 else dVal)
      in if dVal > 0 then u64_digits room dVal w else w)"

text \<open>
  The loop runs while there is room, \<open>outlen\<close> digits at most. The test before it is on \<open>outlen - 1\<close>.
\<close>

definition print_u64 :: "u64 \<Rightarrow> nat \<Rightarrow> written" where
  "print_u64 u out_length =
     (if out_length > INT_MAX then (1, [])
      else let w = (if 0 < int out_length - 1 then u64_digits out_length u [] else [])
           in if length w \<ge> out_length then (1, w) else (0, rev w @ [NUL]))"

definition print_i64 :: "i64 \<Rightarrow> nat \<Rightarrow> written" where
  "print_i64 i out_length =
     (if out_length < 1 then (1, [])
      else if sint i < 0
      then (let (rc, w) = print_u64 ((i XOR 0xffffffffffffffff) + 1) (out_length - 1) in (rc, ''-'' @ w))
      else print_u64 i out_length)"

section \<open>Keys in base 58\<close>

definition BASE58_ALPHABET :: string where
  "BASE58_ALPHABET = ''123456789ABCDEFGHJKLMNPQRSTUVWXYZabcdefghijkmnopqrstuvwxyz''"

definition INVALID_PARAMETER :: int where "INVALID_PARAMETER = 2"
definition EXCEPTION_OVERFLOW :: int where "EXCEPTION_OVERFLOW = 3"

text \<open>One pass of the inner loop over \<open>tmp[start_at..length)\<close>: the quotient by 58 and the remainder.\<close>

fun divide_by_58 :: "u16 \<Rightarrow> u8 list \<Rightarrow> u8 list \<times> u16" where
  "divide_by_58 remainder [] = ([], remainder)"
| "divide_by_58 remainder (digit256 # tmp) =
     (let tmp_div = remainder * 256 + ucast digit256;
          (quotient, r) = divide_by_58 (tmp_div mod 58) tmp
      in (ucast (tmp_div div 58) # quotient, r))"

text \<open>
  \<open>buffer[--j] = c\<close>, where \<open>digits\<close> is \<open>buffer[j..n)\<close>: \<open>None\<close> when the index is outside \<open>buffer[64]\<close>.
\<close>

definition put_char :: "nat \<Rightarrow> char \<Rightarrow> string \<Rightarrow> string option" where
  "put_char n c digits = (if length digits < n \<and> n - length digits - 1 < 64 then Some (c # digits) else None)"

lemma length_divide: "length (fst (divide_by_58 r tmp)) = length tmp"
  by (induction tmp arbitrary: r) (auto simp: Let_def case_prod_beta)

lemma unat_ucast_u8_u16: "unat (ucast (b :: u8) :: u16) = unat b"
  by (simp add: unsigned_ucast_eq take_bit_nat_eq_self unat_u8_bound order_less_le_trans [OF unat_u8_bound])

lemma unat_ucast_u16_u8: "unat (w :: u16) < 256 \<Longrightarrow> unat (ucast w :: u8) = unat w"
  by (simp add: unsigned_ucast_eq take_bit_nat_eq_self)

function base58_digits :: "nat \<Rightarrow> u8 list \<Rightarrow> string \<Rightarrow> string option" where
  "base58_digits n tmp digits =
     (if tmp = [] then Some digits
      else let (quotient, remainder) = divide_by_58 0 tmp;
               tmp = (if hd quotient = 0 then tl quotient else quotient)
           in put_char n (BASE58_ALPHABET ! unat remainder) digits \<bind> base58_digits n tmp)"
  by auto
termination
proof (relation "measures [\<lambda>(n, tmp, digits). length tmp, \<lambda>(n, tmp, digits). unat (hd tmp)]", simp, goal_cases)
  case (1 n tmp digits p quotient remainder tmp' digits')
  obtain b rest where tmp: "tmp = b # rest" using 1(1) by (cases tmp) auto
  have q: "length quotient = length tmp" using 1(2,3) length_divide [of 0 tmp] by (metis fst_conv)
  have "hd quotient = ucast (ucast b div 58 :: u16)" using 1(2,3) tmp by (auto simp: Let_def case_prod_beta)
  moreover have "unat b div 58 < 256" using unat_u8_bound [of b] by simp
  ultimately have h: "unat (hd quotient) = unat b div 58"
    by (simp add: unat_ucast_u16_u8 unat_div unat_ucast_u8_u16)
  moreover have "unat b div 58 < unat b \<or> unat b div 58 = 0"
    using div_less_dividend [of 58 "unat b"] by (cases "unat b = 0") simp_all
  ultimately have lt: "unat (hd quotient) < unat b \<or> hd quotient = 0" by (auto simp: word_unat_eq_iff)
  obtain a list where quotient: "quotient = a # list" using q tmp by (cases quotient) auto
  show ?case
    using q lt unfolding 1(4) tmp quotient by (cases "a = 0") simp_all
qed

declare base58_digits.simps [simp del]

fun put_zeros :: "nat \<Rightarrow> nat \<Rightarrow> string \<Rightarrow> string option" where
  "put_zeros n 0 digits = Some digits"
| "put_zeros n (Suc zero_count) digits = put_char n (BASE58_ALPHABET ! 0) digits \<bind> put_zeros n zero_count"

definition encode_base58 :: "u8 list \<Rightarrow> nat \<Rightarrow> written option" where
  "encode_base58 key maxoutlen =
     (if length key > 64 then Some (INVALID_PARAMETER, [])
      else do {
        let zero_count = length (takeWhile (\<lambda>b. b = 0) key);
        let n = 2 * length key;
        digits \<leftarrow> base58_digits n (drop zero_count key) [];
        let digits = dropWhile (\<lambda>c. c = BASE58_ALPHABET ! 0) digits;
        digits \<leftarrow> put_zeros n zero_count digits;
        Some (if maxoutlen < length digits + 1 then (EXCEPTION_OVERFLOW, []) else (0, digits @ [NUL])) })"
section \<open>The base 58 text is the number of the key\<close>

definition digit58 :: "char \<Rightarrow> nat" where
  "digit58 c = length (takeWhile (\<lambda>d. d \<noteq> c) BASE58_ALPHABET)"

definition val58 :: "string \<Rightarrow> nat" where
  "val58 s = foldl (\<lambda>a c. a * 58 + digit58 c) 0 s"

lemma alphabet_digits: "list_all (\<lambda>k. digit58 (BASE58_ALPHABET ! k) = k) [0..<58]"
  by code_simp

lemma digit58_alphabet [simp]: "k < 58 \<Longrightarrow> digit58 (BASE58_ALPHABET ! k) = k"
  using alphabet_digits by (auto simp: list_all_iff)

lemma val58_Nil [simp]: "val58 [] = 0"
  by (simp add: val58_def)

lemma val58_append: "val58 (s @ t) = val58 s * 58 ^ length t + val58 t"
proof (induction t rule: rev_induct)
  case (snoc c t)
  have "val58 (s @ t @ [c]) = val58 (s @ t) * 58 + digit58 c" "val58 (t @ [c]) = val58 t * 58 + digit58 c"
    by (simp_all add: val58_def)
  with snoc show ?case by (simp add: algebra_simps)
qed simp

lemma val58_Cons: "val58 (c # t) = digit58 c * 58 ^ length t + val58 t"
  using val58_append [of "[c]" t] by (simp add: val58_def)

lemma divide_by_58_exact:
  assumes "unat r < 58" "divide_by_58 r tmp = (quot, remainder)"
  shows "val256 quot * 58 + unat remainder = unat r * 256 ^ length tmp + val256 tmp"
    and "unat remainder < 58"
proof -
  have "val256 quot * 58 + unat remainder = unat r * 256 ^ length tmp + val256 tmp \<and> unat remainder < 58"
    using assms
  proof (induction tmp arbitrary: r quot)
    case (Cons b tmp)
    define t where "t = r * 256 + ucast b"
    obtain qs where q: "divide_by_58 (t mod 58) tmp = (qs, remainder)" "quot = ucast (t div 58) # qs"
      using Cons.prems(2) by (auto simp: t_def Let_def split: prod.splits)
    have t: "unat t = unat r * 256 + unat b"
      using Cons.prems(1) unat_u8_bound [of b] by (simp add: t_def unat_word_ariths unat_ucast_u8_u16)
    then have "unat (t div 58) < 256" using Cons.prems(1) unat_u8_bound [of b] by (simp add: unat_div)
    then have d: "unat (ucast (t div 58) :: u8) = unat t div 58" by (simp add: unat_ucast_u16_u8 unat_div)
    have len: "length qs = length tmp" using q(1) length_divide [of "t mod 58" tmp] by simp
    have "unat (t mod 58) < 58" by (simp add: unat_mod)
    from Cons.IH [OF this q(1)] have IH: "val256 qs * 58 + unat remainder = unat t mod 58 * 256 ^ length tmp + val256 tmp"
      "unat remainder < 58" by (simp_all add: unat_mod)
    have cons: "val256 (x # xs) = unat x * 256 ^ length xs + val256 xs" for x xs
      by (induction xs rule: rev_induct) (simp_all add: val256_def algebra_simps)
    define x y where xy: "x = unat t div 58" "y = unat t mod 58"
    have "val256 quot * 58 + unat remainder = (x * 58 + y) * 256 ^ length tmp + val256 tmp"
      unfolding q(2) cons d len using IH(1) unfolding xy [symmetric] by (simp add: algebra_simps)
    also have "x * 58 + y = unat r * 256 + unat b" unfolding xy using t by simp
    finally show ?case using IH(2) by (simp add: cons algebra_simps)
  qed simp
  then show "val256 quot * 58 + unat remainder = unat r * 256 ^ length tmp + val256 tmp" "unat remainder < 58"
    by simp_all
qed

text \<open>At most two digits are written per byte, one when the first byte is less than 58.\<close>

definition digit_bound :: "u8 list \<Rightarrow> nat" where
  "digit_bound tmp = 2 * length tmp - (if tmp \<noteq> [] \<and> unat (hd tmp) < 58 then 1 else 0)"

lemma base58_digits_exact:
  assumes "length digits + digit_bound tmp \<le> n" "n \<le> 64"
  shows "\<exists>ds. base58_digits n tmp digits = Some ds \<and> length ds \<le> length digits + digit_bound tmp
    \<and> val58 ds = val256 tmp * 58 ^ length digits + val58 digits
    \<and> set ds \<subseteq> set BASE58_ALPHABET \<union> set digits"
  using assms
proof (induction n tmp digits rule: base58_digits.induct)
  case (1 n tmp digits)
  show ?case
  proof (cases tmp)
    case Nil
    then show ?thesis by (simp add: base58_digits.simps)
  next
    case (Cons b rest)
    obtain quot remainder where q: "divide_by_58 0 tmp = (quot, remainder)" by (cases "divide_by_58 0 tmp")
    have exact: "val256 quot * 58 + unat remainder = val256 tmp" "unat remainder < 58"
      using divide_by_58_exact [OF _ q] by simp_all
    have len: "length quot = length tmp" using q length_divide [of 0 tmp] by simp
    then obtain a quot' where quot: "quot = a # quot'" using Cons by (cases quot) auto
    have a: "unat a = unat b div 58"
      using q unat_u8_bound [of b] unfolding Cons quot
      by (auto simp: Let_def case_prod_beta unat_ucast_u16_u8 unat_div unat_ucast_u8_u16)
    define tmp' where "tmp' = (if hd quot = 0 then tl quot else quot)"
    have val: "val256 tmp' = val256 quot"
      unfolding tmp'_def quot by (simp add: val256_def)
    have bound: "digit_bound tmp' + 1 \<le> digit_bound tmp"
    proof (cases "unat b < 58")
      case True
      then have "hd quot = 0" using a quot by (simp add: word_unat_eq_iff)
      then show ?thesis using len True Cons quot by (auto simp: tmp'_def digit_bound_def)
    next
      case False
      then have "hd quot \<noteq> 0" "unat a < 58" using a quot unat_u8_bound [of b] by (auto simp: word_unat_eq_iff)
      then show ?thesis using len False Cons quot by (simp add: tmp'_def digit_bound_def)
    qed
    define c where "c = BASE58_ALPHABET ! unat remainder"
    have "c \<in> set BASE58_ALPHABET"
      unfolding c_def using exact(2) by (intro nth_mem) (simp add: BASE58_ALPHABET_def)
    have put: "put_char n c digits = Some (c # digits)"
      using 1(2,3) bound by (simp add: put_char_def)
    have run: "base58_digits n tmp digits = base58_digits n tmp' (c # digits)"
      using Cons q put by (subst base58_digits.simps) (simp add: tmp'_def c_def)
    have "\<exists>ds. base58_digits n tmp' (c # digits) = Some ds \<and> length ds \<le> length (c # digits) + digit_bound tmp'
      \<and> val58 ds = val256 tmp' * 58 ^ length (c # digits) + val58 (c # digits)
      \<and> set ds \<subseteq> set BASE58_ALPHABET \<union> set (c # digits)"
      using 1(1) [OF _ q [symmetric] refl tmp'_def, of "c # digits"] 1(2,3) bound Cons put by (simp add: c_def)
    then show ?thesis
      using \<open>c \<in> set BASE58_ALPHABET\<close> unfolding run exact(1) [symmetric] using bound exact(2) by (auto simp: val val58_Cons c_def algebra_simps)
  qed
qed

lemma val58_strip: "val58 (dropWhile (\<lambda>c. c = BASE58_ALPHABET ! 0) s) = val58 s"
  by (induction s) (simp_all add: val58_Cons)

lemma digit58_pos: "c \<noteq> BASE58_ALPHABET ! 0 \<Longrightarrow> 0 < digit58 c"
  by (auto simp: digit58_def BASE58_ALPHABET_def)

lemma val58_lower: "s \<noteq> [] \<Longrightarrow> hd s \<noteq> BASE58_ALPHABET ! 0 \<Longrightarrow> 58 ^ (length s - 1) \<le> val58 s"
  using digit58_pos [of "hd s"] by (cases s) (auto simp: val58_Cons intro!: trans_le_add1)

lemma put_zeros_exact:
  "length digits + k \<le> n \<Longrightarrow> n \<le> 64 \<Longrightarrow>
   put_zeros n k digits = Some (replicate k (BASE58_ALPHABET ! 0) @ digits)"
  by (induction k arbitrary: digits) (auto simp: put_char_def replicate_app_Cons_same)

lemma val58_zeros: "val58 (replicate k (BASE58_ALPHABET ! 0) @ s) = val58 s"
  by (induction k) (simp_all add: val58_Cons)

lemma val256_zeros: "val256 (replicate k 0 @ bs) = val256 bs"
  by (induction k) (simp_all add: val256_def)

lemma encode_base58_eval:
  assumes "length key \<le> 32"
  shows "\<exists>text. val58 text = val256 key \<and> length text \<le> 2 * length key \<and> set text \<subseteq> set BASE58_ALPHABET
    \<and> (\<exists>ds. text = replicate (length (takeWhile (\<lambda>b. b = 0) key)) (BASE58_ALPHABET ! 0) @ ds
          \<and> (ds = [] \<or> hd ds \<noteq> BASE58_ALPHABET ! 0))
    \<and> encode_base58 key maxoutlen
      = Some (if maxoutlen < length text + 1 then (EXCEPTION_OVERFLOW, []) else (0, text @ [NUL]))"
proof -
  define z where "z = length (takeWhile (\<lambda>b. b = 0) key)"
  define n where "n = 2 * length key"
  have z: "z \<le> length key" by (simp add: z_def length_takeWhile_le)
  have key: "key = replicate z 0 @ drop z key"
    unfolding z_def by (metis (full_types) append_take_drop_id replicate_length_same set_takeWhileD takeWhile_eq_take)
  have "length [] + digit_bound (drop z key) \<le> n" "n \<le> 64"
    using assms z by (auto simp: n_def digit_bound_def)
  from base58_digits_exact [OF this] obtain ds where ds: "base58_digits n (drop z key) [] = Some ds"
    "length ds \<le> digit_bound (drop z key)" "val58 ds = val256 (drop z key)" "set ds \<subseteq> set BASE58_ALPHABET" by auto
  define strip where "strip = dropWhile (\<lambda>c. c = BASE58_ALPHABET ! 0) ds"
  have "length strip \<le> 2 * (length key - z)"
    using ds(2) length_dropWhile_le [of "\<lambda>c. c = BASE58_ALPHABET ! 0" ds] by (auto simp: strip_def digit_bound_def)
  then have fits: "length strip + z \<le> n" using z by (simp add: n_def)
  define out where "out = replicate z (BASE58_ALPHABET ! 0) @ strip"
  have put: "put_zeros n z strip = Some out"
    unfolding out_def using fits \<open>n \<le> 64\<close> by (rule put_zeros_exact)
  have "length key \<le> 64" using assms by simp
  then have run: "encode_base58 key maxoutlen
      = Some (if maxoutlen < length out + 1 then (EXCEPTION_OVERFLOW, []) else (0, out @ [NUL]))"
    using ds(1) put unfolding strip_def n_def z_def by (simp add: encode_base58_def Let_def)
  have chars: "set out \<subseteq> set BASE58_ALPHABET"
  proof -
    have "BASE58_ALPHABET ! 0 \<in> set BASE58_ALPHABET" by (rule nth_mem) (simp add: BASE58_ALPHABET_def)
    moreover have "set strip \<subseteq> set BASE58_ALPHABET" using ds(4) by (auto simp: strip_def dest: set_dropWhileD)
    ultimately show ?thesis by (auto simp: out_def)
  qed
  have val: "val58 out = val256 key"
    using ds(3) by (subst key) (simp only: out_def val58_zeros val256_zeros strip_def val58_strip)
  have "strip = [] \<or> hd strip \<noteq> BASE58_ALPHABET ! 0"
    using hd_dropWhile [of "\<lambda>c. c = BASE58_ALPHABET ! 0" ds] by (auto simp: strip_def)
  moreover have "length out \<le> 2 * length key" using fits by (simp add: out_def n_def)
  ultimately show ?thesis
    using run chars val unfolding out_def z_def by blast
qed
lemma c_str_NUL: "NUL \<notin> set s \<Longrightarrow> c_str (s @ [NUL]) = s"
  by (induction s) (auto simp: c_str_def)

lemma c_str_no_NUL: "NUL \<notin> set s \<Longrightarrow> c_str s = s"
  by (auto simp: c_str_def takeWhile_eq_all_conv)

lemma alphabet_no_NUL: "NUL \<notin> set BASE58_ALPHABET"
  by (simp add: NUL_def BASE58_ALPHABET_def)

lemma base58_pubkey:
  assumes "length key = 32"
  shows "\<exists>s. encode_base58 key 45 = Some (0, s @ [NUL]) \<and> val58 s = val256 key
    \<and> length s \<le> 44 \<and> set s \<subseteq> set BASE58_ALPHABET"
proof -
  define z where "z = length (takeWhile (\<lambda>b. b = 0) key)"
  obtain s ds where s: "val58 s = val256 key" "set s \<subseteq> set BASE58_ALPHABET"
    "s = replicate z (BASE58_ALPHABET ! 0) @ ds" "ds = [] \<or> hd ds \<noteq> BASE58_ALPHABET ! 0"
    "encode_base58 key 45 = Some (if 45 < length s + 1 then (EXCEPTION_OVERFLOW, []) else (0, s @ [NUL]))"
    using encode_base58_eval [of key 45, OF eq_imp_le, OF assms] unfolding z_def by blast
  have z: "z \<le> 32" using length_takeWhile_le [of "\<lambda>b. b = 0" key] assms by (simp add: z_def)
  have "length s \<le> 44"
  proof (rule ccontr)
    assume "\<not> length s \<le> 44"
    then have long: "45 - z \<le> length ds" "ds \<noteq> []" using s(3) z by auto
    have "key = replicate z 0 @ drop z key"
      unfolding z_def by (metis (full_types) append_take_drop_id replicate_length_same set_takeWhileD takeWhile_eq_take)
    then have "val256 key = val256 (drop z key)" using val256_zeros [of z "drop z key"] by simp
    then have "val256 key < 256 ^ (32 - z)" using val256_bound [of "drop z key"] assms by simp
    moreover have "(58 :: nat) ^ (44 - z) \<le> 58 ^ (length ds - 1)"
      using long z by (intro power_increasing) auto
    moreover have "58 ^ (length ds - 1) \<le> val256 key"
      using val58_lower [of ds] s(1,3,4) long by (simp add: val58_zeros)
    ultimately have "(58 :: nat) ^ (44 - z) < 256 ^ (32 - z)" by linarith
    moreover have "(58 :: nat) ^ z \<le> 256 ^ z" by (rule power_mono) simp_all
    ultimately have "(58 :: nat) ^ (44 - z) * 58 ^ z < 256 ^ (32 - z) * 256 ^ z"
      by (intro mult_less_le_imp_less) simp_all
    then have "(58 :: nat) ^ 44 < 256 ^ 32" using z by (simp add: power_add [symmetric])
    then show False by simp
  qed
  then show ?thesis using s(1,2,5) by auto
qed

text \<open>C32: A key of 32 bytes always fits the text buffer of 45 characters, and the text shown for it is the
  number of the key in base 58. Two keys with the same text are the same key, so comparing the texts
  of two addresses compares the addresses.\<close>

theorem pubkey_text_identifies_key:
  assumes "length key = 32" "length key2 = 32"
  shows "\<exists>s. encode_base58 key 45 = Some (0, s @ [NUL]) \<and> val58 s = val256 key \<and> length s \<le> 44
    \<and> (encode_base58 key2 45 = Some (0, s @ [NUL])) = (key = key2)"
proof -
  obtain s where s: "encode_base58 key 45 = Some (0, s @ [NUL])" "val58 s = val256 key" "length s \<le> 44"
    using base58_pubkey [OF assms(1)] by blast
  obtain t where t: "encode_base58 key2 45 = Some (0, t @ [NUL])" "val58 t = val256 key2"
    using base58_pubkey [OF assms(2)] by blast
  have "key = key2" if "s = t"
    using that s(2) t(2) assms by (intro val256_inject) auto
  then show ?thesis using s t by auto
qed

theorem pubkey_text_identifies_key_witness:
  "\<exists>s. encode_base58 (replicate 32 0) 45 = Some (0, s @ [NUL]) \<and> val58 s = 0
     \<and> encode_base58 (replicate 32 1) 45 \<noteq> Some (0, s @ [NUL])"
proof -
  have "replicate 32 (0 :: u8) \<noteq> replicate 32 1" by (simp add: eval_nat_numeral)
  moreover have "val256 (replicate 32 0) = 0" using val256_zeros [of 32 "[]"] by simp
  ultimately show ?thesis
    using pubkey_text_identifies_key [of "replicate 32 0" "replicate 32 1"] by auto
qed

text \<open>The encoder accepts keys of up to 64 bytes but its digit buffer has 64 bytes and is filled from
  index twice the length: for every key of 33 to 64 bytes the first write is
  outside the buffer. All the calls of the application pass 32 bytes.\<close>

theorem encode_base58_overflows:
  assumes "32 < length key" "length key \<le> 64"
  shows "encode_base58 key maxoutlen = None"
proof -
  have put: "put_char (2 * length key) c [] = None" for c
    using assms(1) by (auto simp: put_char_def)
  have "base58_digits (2 * length key) tmp [] = None" if "tmp \<noteq> []" for tmp
    using that put by (subst base58_digits.simps) (simp add: case_prod_beta)
  moreover have "base58_digits (2 * length key) [] [] = Some []" by (simp add: base58_digits.simps)
  moreover have "put_zeros (2 * length key) k [] = None" if "0 < k" for k
    using that put by (cases k) simp_all
  moreover have "0 < length (takeWhile (\<lambda>b. b = 0) key)" if "drop (length (takeWhile (\<lambda>b. b = 0) key)) key = []"
    using that assms(1) by (cases key) (auto split: if_splits)
  ultimately show ?thesis
    using assms by (cases "drop (length (takeWhile (\<lambda>b. b = 0) key)) key = []")
      (simp_all add: encode_base58_def Let_def)
qed

theorem encode_base58_overflows_witness: "encode_base58 (replicate 64 7) 128 = None"
  by (rule encode_base58_overflows) simp_all
section \<open>Amounts are exact\<close>

definition is_digit :: "char \<Rightarrow> bool" where
  "is_digit c = (48 \<le> (of_char c :: nat) \<and> (of_char c :: nat) \<le> 57)"

definition digit_val :: "char \<Rightarrow> nat" where
  "digit_val c = of_char c - 48"

definition val10 :: "string \<Rightarrow> nat" where
  "val10 s = foldl (\<lambda>a c. a * 10 + digit_val c) 0 s"

lemma digit_char_simps [simp]:
  "d < 10 \<Longrightarrow> digit_val (digit_char d) = d" "d < 10 \<Longrightarrow> is_digit (digit_char d)"
  by (simp_all add: digit_val_def digit_char_def is_digit_def)

lemma not_digits [simp]: "\<not> is_digit (CHR ''.'')" "\<not> is_digit (CHR '' '')" "\<not> is_digit NUL"
  by (simp_all add: is_digit_def NUL_def)

lemma digit_char_0: "digit_char 0 = CHR ''0''" and digit_val_0 [simp]: "digit_val (CHR ''0'') = 0"
  unfolding digit_char_def by code_simp (simp add: digit_val_def)

lemma digit_val_zero: "is_digit c \<Longrightarrow> digit_val c = 0 \<longleftrightarrow> c = CHR ''0''"
proof -
  have "c = CHR ''0''" if "(of_char c :: nat) = 48"
    using that by (metis char_of_char digit_char_0 digit_char_def add_0_right)
  then show "is_digit c \<Longrightarrow> digit_val c = 0 \<longleftrightarrow> c = CHR ''0''"
    by (auto simp: is_digit_def digit_val_def)
qed

lemma digit_val_bound: "is_digit c \<Longrightarrow> digit_val c < 10"
  by (auto simp: is_digit_def digit_val_def)

lemma digit_val_inject: "is_digit c \<Longrightarrow> is_digit d \<Longrightarrow> digit_val c = digit_val d \<longleftrightarrow> c = d"
  by (metis (no_types, lifting) char_of_char digit_val_def is_digit_def le_add_diff_inverse)

lemma val10_Nil [simp]: "val10 [] = 0"
  by (simp add: val10_def)

lemma val10_append: "val10 (s @ t) = val10 s * 10 ^ length t + val10 t"
proof (induction t rule: rev_induct)
  case (snoc c t)
  have "val10 (s @ t @ [c]) = val10 (s @ t) * 10 + digit_val c" "val10 (t @ [c]) = val10 t * 10 + digit_val c"
    by (simp_all add: val10_def)
  with snoc show ?case by (simp add: algebra_simps)
qed simp

lemma val10_Cons: "val10 (c # t) = digit_val c * 10 ^ length t + val10 t"
  using val10_append [of "[c]" t] by (simp add: val10_def)

lemma val10_bound: "list_all is_digit s \<Longrightarrow> val10 s < 10 ^ length s"
proof (induction s)
  case (Cons c s)
  then have "digit_val c + 1 \<le> 10" "val10 s < 10 ^ length s" using digit_val_bound [of c] by auto
  then have "digit_val c * 10 ^ length s \<le> 9 * 10 ^ length s" by (intro mult_right_mono) simp_all
  then have "digit_val c * 10 ^ length s + val10 s < 10 * 10 ^ length s"
    using \<open>val10 s < 10 ^ length s\<close> by linarith
  then show ?case by (simp add: val10_Cons)
qed simp

text \<open>
  What the loop has written: the last digits of the number, with the point after the first
  \<open>decimals\<close> of them; \<open>v\<close> is the number, \<open>dVal\<close> what is left of it.
\<close>

definition written_digits :: "u8 \<Rightarrow> string \<Rightarrow> string \<Rightarrow> bool" where
  "written_digits decimals w ds \<longleftrightarrow> list_all is_digit ds \<and>
     (length ds \<le> unat decimals \<and> w = ds
      \<or> length ds > unat decimals \<and> w = take (unat decimals) ds @ ''.'' @ drop (unat decimals) ds)"

lemma length_written:
  "written_digits decimals w ds \<Longrightarrow> length w = length ds + (if length ds > unat decimals then 1 else 0)"
  by (auto simp: written_digits_def)

lemma token_digits_exact:
  assumes "token_digits decimals outlen dVal w = Inr w'" "length w' < outlen"
    and "written_digits decimals w ds" "v = unat dVal * 10 ^ length ds + val10 (rev ds)"
    and "length ds > unat decimals \<Longrightarrow> dVal > 0"
  shows "\<exists>ds'. written_digits decimals w' ds' \<and> v = val10 (rev ds') \<and> length ds' > unat decimals
    \<and> (length ds' = unat decimals + 1 \<or> last ds' \<noteq> CHR ''0'')"
  using assms
proof (induction decimals outlen dVal w arbitrary: ds rule: token_digits.induct)
  case (1 decimals outlen dVal w)
  define d where "d = unat (dVal mod 10)"
  define u where "u = (if length w = unat decimals then w @ ''.'' else w)"
  define e where "e = ds @ [digit_char d]"
  have d: "d < 10" by (simp add: d_def unat_mod)
  have rest: "unat dVal = unat (dVal div 10) * 10 + d" by (simp add: d_def unat_div unat_mod)
  have len: "length w = unat decimals \<longleftrightarrow> length ds = unat decimals"
    using 1(4) by (auto simp: written_digits_def)
  have step: "written_digits decimals (u @ [digit_char d]) e"
    using 1(4) d len by (auto simp: written_digits_def u_def e_def)
  have val: "v = unat (dVal div 10) * 10 ^ length e + val10 (rev e)"
    using 1(5) d by (simp add: rest e_def val10_Cons algebra_simps)
  show ?case
  proof (cases "(dVal div 10 > 0 \<or> length (u @ [digit_char d]) < unat decimals + 1) \<and> length (u @ [digit_char d]) < outlen")
    case True
    have "token_digits decimals outlen (dVal div 10) (u @ [digit_char d]) = Inr w'"
      using 1(2) True by (subst (asm) token_digits.simps) (auto simp: Let_def u_def d_def split: if_splits)
    moreover have "dVal div 10 > 0" if "length e > unat decimals"
    proof -
      have "length (u @ [digit_char d]) = length e + 1"
        using length_written [OF step] that by simp
      then show ?thesis using True that by auto
    qed
    ultimately show ?thesis
      using True step val 1(3) by (intro 1(1) [OF u_def _ refl refl, folded d_def, of e]) simp_all
  next
    case False
    have w': "w' = u @ [digit_char d]"
      using 1(2) False by (subst (asm) token_digits.simps) (auto simp: Let_def u_def d_def split: if_splits)
    then have z: "dVal div 10 = 0" "unat decimals + 1 \<le> length (u @ [digit_char d])"
      using False 1(3) by (auto simp: word_neq_0_conv [symmetric])
    have "length e > unat decimals"
      using step z(2) by (auto simp: written_digits_def)
    moreover have "length e = unat decimals + 1 \<or> last e \<noteq> CHR ''0''"
    proof -
      have "d \<noteq> 0" if "length ds > unat decimals"
        using 1(6) [OF that] rest z(1) by (auto simp: word_neq_0_conv [symmetric] word_unat_eq_iff)
      then show ?thesis
        using \<open>length e > unat decimals\<close> digit_val_zero [of "digit_char d"] d by (auto simp: e_def)
    qed
    ultimately show ?thesis using step val z(1) unfolding w' by (intro exI [of _ e]) simp
  qed
qed
lemma token_digits_total:
  assumes "written_digits decimals w ds" "unat dVal < 10 ^ k" "0 < k" "length ds + k \<le> N"
    and "unat decimals + 1 \<le> N" "N + 1 < outlen"
  shows "\<exists>w'. token_digits decimals outlen dVal w = Inr w' \<and> length w' \<le> N + 1"
  using assms
proof (induction decimals outlen dVal w arbitrary: ds k rule: token_digits.induct)
  case (1 decimals outlen dVal w)
  define d where "d = unat (dVal mod 10)"
  define u where "u = (if length w = unat decimals then w @ ''.'' else w)"
  define e where "e = ds @ [digit_char d]"
  have d: "d < 10" by (simp add: d_def unat_mod)
  have len: "length w = unat decimals \<longleftrightarrow> length ds = unat decimals"
    using 1(2) by (auto simp: written_digits_def)
  have step: "written_digits decimals (u @ [digit_char d]) e"
    using 1(2) d len by (auto simp: written_digits_def u_def e_def)
  have room: "length (u @ [digit_char d]) \<le> N + 1" "length u < outlen"
    using length_written [OF step] 1(4,5,6,7) by (auto simp: e_def split: if_splits)
  have run: "token_digits decimals outlen dVal w =
      (if (dVal div 10 > 0 \<or> length (u @ [digit_char d]) < unat decimals + 1) \<and> length (u @ [digit_char d]) < outlen
       then token_digits decimals outlen (dVal div 10) (u @ [digit_char d]) else Inr (u @ [digit_char d]))"
    using room(2) by (subst token_digits.simps) (auto simp: Let_def u_def d_def)
  show ?case
  proof (cases "(dVal div 10 > 0 \<or> length (u @ [digit_char d]) < unat decimals + 1) \<and> length (u @ [digit_char d]) < outlen")
    case True
    have "\<exists>j. unat (dVal div 10) < 10 ^ j \<and> 0 < j \<and> length e + j \<le> N"
    proof (cases "dVal div 10 > 0")
      case True
      then have "0 < unat dVal div 10" by (simp add: word_less_nat_alt unat_div)
      then have "10 \<le> unat dVal" by (simp add: div_greater_zero_iff)
      then have "k \<noteq> 1" using 1(3) by auto
      then obtain j where j: "k = Suc j" "0 < j" using 1(4) by (cases k) auto
      have "unat (dVal div 10) < 10 ^ j" using 1(3) j by (simp add: unat_div)
      then show ?thesis using j 1(5) by (intro exI [of _ j]) (simp add: e_def)
    next
      case False
      then have "unat (dVal div 10) < 10 ^ 1" by (simp add: word_neq_0_conv [symmetric])
      moreover have "length e + 1 \<le> N"
        using False \<open>(dVal div 10 > 0 \<or> _) \<and> _\<close> length_written [OF step] 1(6) by auto
      ultimately show ?thesis by (intro exI [of _ 1]) simp
    qed
    then obtain j where j: "unat (dVal div 10) < 10 ^ j" "0 < j" "length e + j \<le> N" by blast
    show ?thesis
      unfolding run if_P [OF True] using True room step j 1(6,7)
      by (intro 1(1) [OF u_def _ refl refl, folded d_def, of e j]) simp_all
  next
    case False
    show ?thesis unfolding run if_not_P [OF False] using room by simp
  qed
qed

text \<open>The integer digits and the fraction digits of an amount, without a useless zero.\<close>

definition amount_digits :: "u8 \<Rightarrow> nat \<Rightarrow> string \<Rightarrow> string \<Rightarrow> bool" where
  "amount_digits decimals v int_part frac \<longleftrightarrow> list_all is_digit int_part \<and> list_all is_digit frac
     \<and> int_part \<noteq> [] \<and> (length int_part = 1 \<or> hd int_part \<noteq> CHR ''0'')
     \<and> length frac \<le> unat decimals \<and> (frac = [] \<or> last frac \<noteq> CHR ''0'')
     \<and> v = val10 int_part * 10 ^ unat decimals + val10 frac * 10 ^ (unat decimals - length frac)"

definition amount_text :: "string \<Rightarrow> string \<Rightarrow> string option \<Rightarrow> string" where
  "amount_text int_part frac asset = int_part @ (if frac = [] then [] else ''.'' @ frac)
     @ (case asset of Some asset \<Rightarrow> '' '' @ asset | None \<Rightarrow> [])"

lemma strip_zeros:
  "\<exists>frac z. s = frac @ replicate z (CHR ''0'') \<and> (frac = [] \<or> last frac \<noteq> CHR ''0'')
     \<and> rev (dropWhile (\<lambda>c. c = CHR ''0'') (rev s)) = frac"
proof (induction s rule: rev_induct)
  case (snoc c s)
  then obtain frac z where s: "s = frac @ replicate z (CHR ''0'')" "frac = [] \<or> last frac \<noteq> CHR ''0''"
    "rev (dropWhile (\<lambda>c. c = CHR ''0'') (rev s)) = frac" by blast
  show ?case
  proof (cases "c = CHR ''0''")
    case True
    then show ?thesis
      using s by (intro exI [of _ frac] exI [of _ "Suc z"]) (auto simp: replicate_append_same)
  next
    case False
    then show ?thesis by (intro exI [of _ "s @ [c]"] exI [of _ 0]) auto
  qed
qed simp

lemma strip_until:
  "\<not> P y \<Longrightarrow> rev (dropWhile P (rev (xs @ y # s))) = xs @ y # rev (dropWhile P (rev s))"
proof -
  assume "\<not> P y"
  then have "dropWhile P (t @ y # u) = dropWhile P t @ y # u" for t u by (induction t) auto
  then show ?thesis by simp
qed

lemma val10_zeros: "val10 (s @ replicate z (CHR ''0'')) = val10 s * 10 ^ z"
  by (induction z) (simp_all add: val10_append val10_Cons replicate_append_same [symmetric] del: replicate_append_same)

lemma print_token_amount_eval:
  assumes "token_digits decimals outlen amount [] = Inr w" "length w < outlen" "1 < outlen" "outlen \<le> INT_MAX"
  shows "\<exists>int_part frac. amount_digits decimals (unat amount) int_part frac
    \<and> length (amount_text int_part frac None) \<le> length w
    \<and> print_token_amount amount asset decimals outlen =
      Some (if asset \<noteq> None \<and> length (amount_text int_part frac asset) + 1 > outlen then (1, rev w)
            else (0, amount_text int_part frac asset @ [NUL]))"
proof -
  have "written_digits decimals [] []" by (simp add: written_digits_def)
  then obtain ds where ds: "written_digits decimals w ds" "unat amount = val10 (rev ds)"
    "length ds > unat decimals" "length ds = unat decimals + 1 \<or> last ds \<noteq> CHR ''0''"
    using token_digits_exact [OF assms(1,2), of "[]" "unat amount"] by auto
  define int_part where "int_part = rev (drop (unat decimals) ds)"
  obtain frac z where frac: "rev (take (unat decimals) ds) = frac @ replicate z (CHR ''0'')"
    "frac = [] \<or> last frac \<noteq> CHR ''0''"
    "rev (dropWhile (\<lambda>c. c = CHR ''0'') (rev (rev (take (unat decimals) ds)))) = frac"
    using strip_zeros [of "rev (take (unat decimals) ds)"] by blast
  have w: "w = take (unat decimals) ds @ ''.'' @ drop (unat decimals) ds" "list_all is_digit ds"
    using ds(1,3) by (auto simp: written_digits_def)
  have len: "length frac + z = unat decimals"
    using arg_cong [OF frac(1), of length] ds(3) by simp
  have I: "int_part \<noteq> []" "length int_part = 1 \<or> hd int_part \<noteq> CHR ''0''"
    using ds(3,4) by (auto simp: int_part_def hd_rev)
  have out: "rev w = int_part @ ''.'' @ frac @ replicate z (CHR ''0'')"
    using frac(1) by (simp add: w int_part_def)
  have "unat amount = val10 (int_part @ frac @ replicate z (CHR ''0''))"
    using ds(2) by (simp add: int_part_def frac(1) [symmetric] rev_append [symmetric] del: rev_append)
  then have val: "unat amount = val10 int_part * 10 ^ unat decimals + val10 frac * 10 ^ (unat decimals - length frac)"
    using len by (simp add: val10_append [of int_part] val10_zeros) (metis add_diff_cancel_left')
  have "list_all is_digit (rev (take (unat decimals) ds))" "list_all is_digit int_part"
    using w(2) by (auto simp: int_part_def list_all_iff dest: in_set_takeD in_set_dropD)
  then have "list_all is_digit frac" "list_all is_digit int_part" unfolding frac(1) by simp_all
  then have amount: "amount_digits decimals (unat amount) int_part frac"
    unfolding amount_digits_def using I frac(2) len val by auto
  obtain i0 i1 where i: "int_part = i0 # i1" using I(1) by (cases int_part) auto
  have z: "rev (dropWhile (\<lambda>c. c = CHR ''0'') (rev (frac @ replicate z (CHR ''0'')))) = frac"
    using frac(1,3) by simp
  have strip: "hd (rev w) # rev (dropWhile (\<lambda>c. c = CHR ''0'') (rev (tl (rev w)))) = int_part @ ''.'' @ frac"
    using strip_until [of "\<lambda>c. c = CHR ''0''" "CHR ''.''" i1 "frac @ replicate z (CHR ''0'')"] z
    unfolding out i by simp
  have "last frac \<noteq> CHR ''.''" if "frac \<noteq> []"
    using that last_in_set [of frac] \<open>list_all is_digit frac\<close> by (metis list_all_iff not_digits(1))
  then have point: "(if last (int_part @ ''.'' @ frac) = CHR ''.'' then butlast (int_part @ ''.'' @ frac)
      else int_part @ ''.'' @ frac) = amount_text int_part frac None"
    by (cases "frac = []") (auto simp: amount_text_def butlast_append)
  have room: "length (amount_text int_part frac None) \<le> length w"
    using arg_cong [OF out, of length] by (auto simp: amount_text_def)
  have "w \<noteq> []" using w(1) by simp
  have "print_token_amount amount asset decimals outlen =
      (let out = rev w;
           stripped = hd out # rev (dropWhile (\<lambda>c. c = CHR ''0'') (rev (tl out)));
           stripped = (if last stripped = CHR ''.'' then butlast stripped else stripped)
       in case asset of
            Some asset \<Rightarrow>
              if length stripped + 1 + length asset + 1 > outlen then Some (1, out)
              else Some (0, stripped @ '' '' @ asset @ [NUL])
          | None \<Rightarrow> Some (0, stripped @ [NUL]))"
    using assms \<open>w \<noteq> []\<close> unfolding print_token_amount_def by (simp add: not_less)
  note run = this [unfolded Let_def, unfolded strip, unfolded point]
  have "amount_text int_part frac (Some a) = amount_text int_part frac None @ '' '' @ a" for a
    by (simp add: amount_text_def)
  then show ?thesis
    using amount room run by (intro exI [of _ int_part] exI [of _ frac]) (cases asset, simp_all)
qed
lemma digit_chars:
  "digit_char 0 = CHR ''0''" "digit_char 1 = CHR ''1''" "digit_char (Suc 0) = CHR ''1''" "digit_char 2 = CHR ''2''"
  "digit_char 3 = CHR ''3''" "digit_char 4 = CHR ''4''" "digit_char 5 = CHR ''5''" "digit_char 6 = CHR ''6''"
  "digit_char 7 = CHR ''7''" "digit_char 8 = CHR ''8''" "digit_char 9 = CHR ''9''"
  unfolding digit_char_def by code_simp+

lemma amount_text_digits:
  assumes "amount_digits decimals v i f"
  shows "takeWhile is_digit (amount_text i f asset) = i"
    and "takeWhile is_digit (drop (length i + 1) (amount_text i f asset)) = f \<or> f = []"
    and "f = [] \<longleftrightarrow> (\<forall>t. amount_text i f asset \<noteq> i @ ''.'' @ t)"
proof -
  have i: "\<And>c. c \<in> set i \<Longrightarrow> is_digit c" and f: "\<And>c. c \<in> set f \<Longrightarrow> is_digit c"
    using assms by (auto simp: amount_digits_def list_all_iff)
  show "takeWhile is_digit (amount_text i f asset) = i"
    using i by (simp add: amount_text_def split: option.split)
  show "takeWhile is_digit (drop (length i + 1) (amount_text i f asset)) = f \<or> f = []"
    using f by (simp add: amount_text_def split: option.split)
  show "f = [] \<longleftrightarrow> (\<forall>t. amount_text i f asset \<noteq> i @ ''.'' @ t)"
    by (auto simp: amount_text_def split: option.splits)
qed

lemma amount_digits_inject:
  assumes "amount_digits decimals v i f" "amount_digits decimals v' i' f'"
    and "amount_text i f asset = amount_text i' f' asset"
  shows "v = v'"
proof -
  note t = amount_text_digits [OF assms(1), of asset] amount_text_digits [OF assms(2), of asset]
  have "i = i'" using t(1,4) assms(3) by simp
  moreover have "f = [] \<longleftrightarrow> f' = []" using t(3,6) \<open>i = i'\<close> assms(3) by simp
  then have "f = f'" using t(2,5) \<open>i = i'\<close> assms(3) by auto
  ultimately show ?thesis using assms by (simp add: amount_digits_def)
qed

lemma amount_text_no_NUL:
  "amount_digits decimals v i f \<Longrightarrow> (\<And>a. asset = Some a \<Longrightarrow> NUL \<notin> set a) \<Longrightarrow> NUL \<notin> set (amount_text i f asset)"
  using not_digits(3) by (auto simp: amount_digits_def amount_text_def list_all_iff NUL_def split: option.splits)

lemma print_token_amount_ok:
  assumes "print_token_amount v asset decimals outlen = Some (0, t)"
  shows "\<exists>i f. amount_digits decimals (unat v) i f \<and> t = amount_text i f asset @ [NUL]"
proof -
  have len: "1 < outlen" "outlen \<le> INT_MAX"
    using assms by (auto simp: print_token_amount_def split: if_splits)
  then obtain w where w: "token_digits decimals outlen v [] = Inr w" "length w < outlen"
    using assms by (auto simp: print_token_amount_def Let_def split: sum.splits if_splits)
  show ?thesis
    using print_token_amount_eval [OF w len, of asset] assms by (auto split: if_splits)
qed

text \<open>An amount fits when there is room for twenty digits or its decimals, the point and the ticker.\<close>

lemma print_token_amount_fits:
  assumes "max 20 (unat decimals + 1) + 2 < outlen" "outlen \<le> INT_MAX"
    and "\<And>a. asset = Some a \<Longrightarrow> max 20 (unat decimals + 1) + length a + 3 \<le> outlen"
  shows "\<exists>i f. amount_digits decimals (unat v) i f
    \<and> print_token_amount v asset decimals outlen = Some (0, amount_text i f asset @ [NUL])"
proof -
  have "unat v < 10 ^ 20" using unat_u64_bound [of v] by simp
  then obtain w where w: "token_digits decimals outlen v [] = Inr w" "length w \<le> max 20 (unat decimals + 1) + 1"
    using token_digits_total [of decimals "[]" "[]" v 20 "max 20 (unat decimals + 1)" outlen] assms(1)
    by (auto simp: written_digits_def)
  then obtain i f where *: "amount_digits decimals (unat v) i f" "length (amount_text i f None) \<le> length w"
    "print_token_amount v asset decimals outlen =
      Some (if asset \<noteq> None \<and> length (amount_text i f asset) + 1 > outlen then (1, rev w)
            else (0, amount_text i f asset @ [NUL]))"
    using print_token_amount_eval [OF w(1), of asset] assms(1,2) by auto
  have "length (amount_text i f (Some a)) = length (amount_text i f None) + 1 + length a" for a
    by (simp add: amount_text_def)
  then have "\<not> (asset \<noteq> None \<and> length (amount_text i f asset) + 1 > outlen)"
    using *(2) w(2) assms(3) by (cases asset) fastforce+
  then show ?thesis using * by auto
qed

text \<open>The text of an amount identifies it: whenever two amounts of a token with the same ticker and
  decimals are printed successfully in buffers of one size, their texts are equal exactly when the
  amounts are. The stripping of zeros loses nothing.\<close>

theorem amount_text_identifies_amount:
  assumes "print_token_amount v asset decimals n = Some (0, t)"
    and "print_token_amount v' asset decimals n = Some (0, t')"
  shows "t = t' \<longleftrightarrow> v = v'"
proof -
  obtain i f where t: "amount_digits decimals (unat v) i f" "t = amount_text i f asset @ [NUL]"
    using print_token_amount_ok [OF assms(1)] by blast
  obtain i' f' where t': "amount_digits decimals (unat v') i' f'" "t' = amount_text i' f' asset @ [NUL]"
    using print_token_amount_ok [OF assms(2)] by blast
  have "v = v'" if "t = t'"
    using amount_digits_inject [OF t(1) t'(1), of asset] t(2) t'(2) that by (simp add: word_unat_eq_iff)
  then show ?thesis using assms by auto
qed

lemma sample_amounts:
  "print_token_amount 1500000000 (Some ''SOL'') 9 25 = Some (0, ''1.5 SOL'' @ [NUL])"
  "print_token_amount 1500000001 (Some ''SOL'') 9 25 = Some (0, ''1.500000001 SOL'' @ [NUL])"
  "print_token_amount 1230000 (Some ''SOL'') 9 25 = Some (0, ''0.00123 SOL'' @ [NUL])"
  by (simp_all add: print_token_amount_def token_digits.simps Let_def digit_chars INT_MAX_def)

theorem amount_text_identifies_amount_witness:
  "print_token_amount 1500000000 (Some ''SOL'') 9 25 = Some (0, ''1.5 SOL'' @ [NUL])
    \<and> (''1.5 SOL'' @ [NUL] = ''1.500000001 SOL'' @ [NUL] \<longleftrightarrow> 1500000000 = (1500000001 :: u64))"
  using sample_amounts amount_text_identifies_amount [OF sample_amounts(1,2)] by simp
section \<open>Comparing printed amounts\<close>

fun validate_chars :: "nat \<Rightarrow> nat \<Rightarrow> string \<Rightarrow> int \<Rightarrow> bool \<Rightarrow> int" where
  "validate_chars num_len i [] dot_pos has_dot = dot_pos"
| "validate_chars num_len i (c # str) dot_pos has_dot =
     (if c = CHR ''.''
      then if has_dot \<or> i = 0 \<or> i = num_len - 1 then - 1 else validate_chars num_len (i + 1) str (int i) True
      else if (of_char c :: nat) < 48 \<or> (of_char c :: nat) > 57 then - 1
      else validate_chars num_len (i + 1) str dot_pos has_dot)"

definition validate_numeric_part :: "string \<Rightarrow> nat \<Rightarrow> int" where
  "validate_numeric_part str num_len =
     (if num_len = 0 then - 1 else validate_chars num_len 0 (take num_len str) (int num_len) False)"

text \<open>The loops over the digits return at the first index where the two differ.\<close>

fun first_difference :: "(nat \<Rightarrow> char) \<Rightarrow> (nat \<Rightarrow> char) \<Rightarrow> nat list \<Rightarrow> bool option" where
  "first_difference a b [] = None"
| "first_difference a b (i # is) =
     (if a i \<noteq> b i then Some ((of_char (a i) :: nat) > of_char (b i)) else first_difference a b is)"

definition strchr :: "string \<Rightarrow> char \<Rightarrow> nat option" where
  "strchr s c = (let n = length (takeWhile (\<lambda>d. d \<noteq> c) s) in if n < length s then Some n else None)"

text \<open>A string argument is the characters before its NUL; \<open>NULL\<close> is \<open>None\<close>.\<close>

definition amount_as_string_is_greater_or_equal :: "string option \<Rightarrow> string option \<Rightarrow> bool" where
  "amount_as_string_is_greater_or_equal a b =
     (case (a, b) of
        (Some a, Some b) \<Rightarrow>
          (case (strchr a (CHR '' ''), strchr b (CHR '' '')) of
             (Some a_num_len, Some b_num_len) \<Rightarrow>
               let a_ticker = drop (a_num_len + 1) a; b_ticker = drop (b_num_len + 1) b
               in if a_ticker = [] \<or> b_ticker = [] then False
                  else if a_ticker \<noteq> b_ticker then False
                  else let a_dot = validate_numeric_part a a_num_len;
                           b_dot = validate_numeric_part b b_num_len
                       in if a_dot < 0 \<or> b_dot < 0 then False
                          else if a_dot \<noteq> b_dot then a_dot > b_dot
                          else (case first_difference ((!) a) ((!) b) [0..<nat a_dot] of
                              Some r \<Rightarrow> r
                            | None \<Rightarrow>
                                let a_has_frac = nat a_dot < a_num_len; b_has_frac = nat b_dot < b_num_len;
                                    a_frac_start = (if a_has_frac then nat a_dot + 1 else a_num_len);
                                    b_frac_start = (if b_has_frac then nat b_dot + 1 else b_num_len);
                                    a_frac_len = (if a_has_frac then a_num_len - nat a_dot - 1 else 0);
                                    b_frac_len = (if b_has_frac then b_num_len - nat b_dot - 1 else 0);
                                    max_frac = max a_frac_len b_frac_len
                                in (case first_difference
                                        (\<lambda>i. if i < a_frac_len then a ! (a_frac_start + i) else CHR ''0'')
                                        (\<lambda>i. if i < b_frac_len then b ! (b_frac_start + i) else CHR ''0'')
                                        [0..<max_frac] of
                                      Some r \<Rightarrow> r
                                    | None \<Rightarrow> True))
           | _ \<Rightarrow> False)
      | _ \<Rightarrow> False)"

lemma first_difference_val10:
  assumes "\<And>i. i \<in> set is \<Longrightarrow> is_digit (a i) \<and> is_digit (b i)"
  shows "first_difference a b is =
    (if map a is = map b is then None else Some (val10 (map a is) > val10 (map b is)))"
  using assms
proof (induction "is")
  case (Cons i r)
  have digits: "list_all is_digit (map a r)" "list_all is_digit (map b r)" "is_digit (a i)" "is_digit (b i)"
    using Cons.prems by (auto simp: list_all_iff)
  note bound = val10_bound [OF digits(1)] val10_bound [OF digits(2)]
  have order: "(x::nat) * t + p > y * t + q \<longleftrightarrow> x > y" if "p < t" "q < t" "x \<noteq> y" for x y p q t
  proof (cases "x > y")
    case True
    then have "(y + 1) * t \<le> x * t" by (intro mult_right_mono) simp_all
    then show ?thesis using that True by simp
  next
    case False
    then have "(x + 1) * t \<le> y * t" using that by (intro mult_right_mono) simp_all
    then show ?thesis using that False by simp
  qed
  show ?case
  proof (cases "a i = b i")
    case True
    then show ?thesis using Cons by (auto simp: val10_Cons)
  next
    case False
    then have ne: "digit_val (a i) \<noteq> digit_val (b i)" using digits digit_val_inject by blast
    have "val10 (a i # map a r) > val10 (b i # map b r) \<longleftrightarrow> digit_val (a i) > digit_val (b i)"
      unfolding val10_Cons using order [OF _ _ ne] bound by simp
    moreover have "digit_val (a i) > digit_val (b i) \<longleftrightarrow> (of_char (a i) :: nat) > of_char (b i)"
      using digits(3,4) by (auto simp: is_digit_def digit_val_def)
    ultimately show ?thesis using False by simp
  qed
qed simp

lemma validate_digits:
  assumes "list_all is_digit s"
  shows "validate_chars n i (s @ t) p h = validate_chars n (i + length s) t p h"
  using assms
proof (induction s arbitrary: i)
  case (Cons c s)
  then have "c \<noteq> CHR ''.''" "48 \<le> (of_char c :: nat)" "(of_char c :: nat) \<le> 57"
    using not_digits(1) by (auto simp: is_digit_def)
  then show ?case using Cons by (simp add: not_less)
qed simp

lemma validate_amount:
  assumes "amount_digits decimals v i f" "m = length (amount_text i f None)"
  shows "validate_numeric_part (amount_text i f (Some asset)) m = int (length i)"
proof -
  have d: "list_all is_digit i" "list_all is_digit f" "i \<noteq> []" using assms by (auto simp: amount_digits_def)
  have "take m (amount_text i f (Some asset)) = i @ (if f = [] then [] else ''.'' @ f)"
    by (auto simp: assms(2) amount_text_def)
  then show ?thesis
    using validate_digits [OF d(1)] validate_digits [OF d(2), where t = "[]"] d(3) assms(2)
    by (auto simp: validate_numeric_part_def amount_text_def)
qed
lemma val10_longer:
  assumes "list_all is_digit s" "list_all is_digit t" "t \<noteq> []" "length s = 1 \<or> hd s \<noteq> CHR ''0''" "length t < length s"
  shows "val10 t < val10 s"
proof -
  obtain c r where s: "s = c # r" using assms(5) by (cases s) auto
  have "1 \<le> length t" using assms(3) by (cases t) auto
  then have "c \<noteq> CHR ''0''" using assms(4,5) s by auto
  then have "1 \<le> digit_val c" using digit_val_zero [of c] assms(1) s by (cases "digit_val c") auto
  then have "1 * 10 ^ length r \<le> digit_val c * 10 ^ length r" by (rule mult_right_mono) simp
  then have "10 ^ length r \<le> val10 s" unfolding s val10_Cons by linarith
  moreover have "(10 :: nat) ^ length t \<le> 10 ^ length r" using assms(5) s by (intro power_increasing) simp_all
  ultimately show ?thesis using val10_bound [OF assms(2)] by linarith
qed

lemma fraction_scale:
  assumes "list_all is_digit f" "length f \<le> d"
  shows "val10 f * 10 ^ (d - length f) < 10 ^ d"
proof -
  have "val10 f * 10 ^ (d - length f) < 10 ^ length f * 10 ^ (d - length f)"
    using val10_bound [OF assms(1)] by simp
  also have "\<dots> = 10 ^ d" using assms(2) by (simp add: power_add [symmetric])
  finally show ?thesis .
qed

lemma quotient_order:
  fixes x y t p q :: nat
  assumes "p < t" "q < t"
  shows "x * t + p \<ge> y * t + q \<longleftrightarrow> x > y \<or> x = y \<and> p \<ge> q"
proof (cases x y rule: linorder_cases)
  case less
  then have "(x + 1) * t \<le> y * t" by (intro mult_right_mono) simp_all
  then show ?thesis using less assms by simp
next
  case greater
  then have "(y + 1) * t \<le> x * t" by (intro mult_right_mono) simp_all
  then show ?thesis using greater assms by simp
qed simp

lemma val10_inject:
  "length s = length t \<Longrightarrow> list_all is_digit s \<Longrightarrow> list_all is_digit t \<Longrightarrow> val10 s = val10 t \<Longrightarrow> s = t"
proof (induction s t rule: list_induct2)
  case (Cons c s d t)
  then have bound: "val10 s < 10 ^ length s" "val10 t < 10 ^ length s"
    using val10_bound [of s] val10_bound [of t] by simp_all
  have eq: "digit_val c * 10 ^ length s + val10 s = digit_val d * 10 ^ length s + val10 t"
    using Cons.prems(3) Cons.hyps by (simp add: val10_Cons)
  then have "digit_val c = digit_val d"
    using quotient_order [OF bound, of "digit_val d" "digit_val c"] quotient_order [OF bound(2,1), of "digit_val c" "digit_val d"]
    by linarith
  then show ?case using eq Cons digit_val_inject [of c d] by simp
qed simp

lemma map_fraction:
  assumes "length f \<le> m"
  shows "map (\<lambda>k. if k < length f then (x @ f @ y) ! (length x + k) else CHR ''0'') [0..<m] = f @ replicate (m - length f) (CHR ''0'')"
  using assms by (intro nth_equalityI) (auto simp: nth_append)

lemma compare_fractions:
  assumes "list_all is_digit f" "list_all is_digit g" "m = max (length f) (length g)" "m \<le> d"
  shows "(case first_difference (\<lambda>k. if k < length f then (x @ f @ y) ! (length x + k) else CHR ''0'')
        (\<lambda>k. if k < length g then (x' @ g @ y') ! (length x' + k) else CHR ''0'') [0..<m] of Some r \<Rightarrow> r | None \<Rightarrow> True)
    \<longleftrightarrow> val10 f * 10 ^ (d - length f) \<ge> val10 g * 10 ^ (d - length g)"
proof -
  define F G where "F = f @ replicate (m - length f) (CHR ''0'')" "G = g @ replicate (m - length g) (CHR ''0'')"
  let ?a = "\<lambda>k. if k < length f then (x @ f @ y) ! (length x + k) else CHR ''0''"
  let ?b = "\<lambda>k. if k < length g then (x' @ g @ y') ! (length x' + k) else CHR ''0''"
  have len: "length f \<le> m" "length g \<le> m" using assms(3) by simp_all
  note maps = map_fraction [OF len(1), of x y] map_fraction [OF len(2), of x' y']
  have "is_digit (CHR ''0'')" by (simp add: is_digit_def)
  then have digits: "list_all is_digit F" "list_all is_digit G"
    using assms(1,2) by (auto simp: F_G_def list_all_iff)
  have "is_digit (?a k) \<and> is_digit (?b k)" if "k \<in> set [0..<m]" for k
    using digits that unfolding F_G_def maps [symmetric] list_all_iff by auto
  then have first: "first_difference ?a ?b [0..<m] = (if F = G then None else Some (val10 F > val10 G))"
    using first_difference_val10 [of "[0..<m]" ?a ?b] unfolding maps F_G_def by blast
  have "length F = length G" using len by (simp add: F_G_def)
  then have same: "val10 F = val10 G \<Longrightarrow> F = G" using val10_inject digits by blast
  have "m - length f + (d - m) = d - length f" "m - length g + (d - m) = d - length g"
    using len assms(4) by simp_all
  then have scale: "val10 f * 10 ^ (d - length f) = val10 F * 10 ^ (d - m)" "val10 g * 10 ^ (d - length g) = val10 G * 10 ^ (d - m)"
    by (simp_all add: F_G_def val10_zeros power_add [symmetric] mult.assoc)
  show ?thesis
    unfolding first scale using same by (cases "F = G") (auto simp: order_less_le)
qed

definition fraction_char :: "string \<Rightarrow> nat \<Rightarrow> nat \<Rightarrow> nat \<Rightarrow> char" where
  "fraction_char s dot n i = (if i < (if dot < n then n - dot - 1 else 0)
     then s ! ((if dot < n then dot + 1 else n) + i) else CHR ''0'')"

lemma compare_unfold:
  assumes "strchr a (CHR '' '') = Some na" "strchr b (CHR '' '') = Some nb"
    and "drop (na + 1) a = t" "drop (nb + 1) b = t" "t \<noteq> []"
    and "validate_numeric_part a na = int p" "validate_numeric_part b nb = int q"
  shows "amount_as_string_is_greater_or_equal (Some a) (Some b) \<longleftrightarrow>
    (if p \<noteq> q then p > q
     else case first_difference ((!) a) ((!) b) [0..<p] of Some r \<Rightarrow> r
       | None \<Rightarrow> (case first_difference (fraction_char a p na) (fraction_char b q nb)
            [0..<max (if p < na then na - p - 1 else 0) (if q < nb then nb - q - 1 else 0)] of Some r \<Rightarrow> r | None \<Rightarrow> True))"
  by (simp only: amount_as_string_is_greater_or_equal_def fraction_char_def [abs_def] Let_def assms prod.case option.case
      nat_int of_nat_eq_iff of_nat_less_iff of_nat_less_0_iff simp_thms if_False if_True not_False_eq_True)

lemma compare_amounts:
  assumes a: "amount_digits decimals v i f" and b: "amount_digits decimals v' i' f'" and "asset \<noteq> []"
  shows "amount_as_string_is_greater_or_equal (Some (amount_text i f (Some asset))) (Some (amount_text i' f' (Some asset)))
    \<longleftrightarrow> v \<ge> v'"
proof -
  let ?t = "\<lambda>i f. amount_text i f (Some asset)"
  define d where "d = unat decimals"
  have split: "?t i f = i @ (if f = [] then '' '' @ asset else ''.'' @ f @ '' '' @ asset)" for i f
    by (simp add: amount_text_def)
  have space: "strchr (?t i f) (CHR '' '') = Some (length (amount_text i f None))"
    "drop (length (amount_text i f None) + 1) (?t i f) = asset" if "amount_digits decimals v i f" for v i f
  proof -
    have "\<forall>c\<in>set i. c \<noteq> CHR '' ''" "\<forall>c\<in>set f. c \<noteq> CHR '' ''"
      using that not_digits(2) by (auto simp: amount_digits_def list_all_iff)
    then have "takeWhile (\<lambda>c. c \<noteq> CHR '' '') (?t i f) = amount_text i f None"
      by (auto simp: amount_text_def)
    then show "strchr (?t i f) (CHR '' '') = Some (length (amount_text i f None))"
      by (simp add: strchr_def) (simp add: amount_text_def)
    show "drop (length (amount_text i f None) + 1) (?t i f) = asset" by (simp add: amount_text_def)
  qed
  have digits: "list_all is_digit i" "list_all is_digit f" "list_all is_digit i'" "list_all is_digit f'"
    "i \<noteq> []" "i' \<noteq> []" "length f \<le> d" "length f' \<le> d"
    "length i = 1 \<or> hd i \<noteq> CHR ''0''" "length i' = 1 \<or> hd i' \<noteq> CHR ''0''"
    using a b by (simp_all add: amount_digits_def d_def)
  have v: "v = val10 i * 10 ^ d + val10 f * 10 ^ (d - length f)"
    "v' = val10 i' * 10 ^ d + val10 f' * 10 ^ (d - length f')"
    using a b by (simp_all add: amount_digits_def d_def)
  note order = quotient_order [OF fraction_scale [OF digits(2,7)] fraction_scale [OF digits(4,8)], of "val10 i'" "val10 i", folded v]
  have len: "length (amount_text i f None) = length i + (if f = [] then 0 else length f + 1)" for i f :: string
    by (simp add: amount_text_def)
  note run = compare_unfold [OF space(1) [OF a] space(1) [OF b] space(2) [OF a] space(2) [OF b]
      assms(3) validate_amount [OF a refl] validate_amount [OF b refl]]
  show ?thesis
  proof (cases "length i = length i'")
    case False
    then have "length i > length i' \<longleftrightarrow> v \<ge> v'"
      using val10_longer [OF digits(1,3,6,9)] val10_longer [OF digits(3,1,5,10)] unfolding order by linarith
    then show ?thesis using False by (simp add: run)
  next
    case True
    have "map ((!) (?t i f)) [0..<length i] = i" "map ((!) (?t i' f')) [0..<length i] = i'"
      using True unfolding split by (auto intro!: nth_equalityI simp: nth_append)
    then have ints: "first_difference ((!) (?t i f)) ((!) (?t i' f')) [0..<length i]
      = (if i = i' then None else Some (val10 i > val10 i'))"
      using first_difference_val10 [of "[0..<length i]" "(!) (?t i f)" "(!) (?t i' f')"] digits(1,3) True
      unfolding split by (auto simp: nth_append list_all_length)
    have frac: "fraction_char (?t i f) (length i) (length (amount_text i f None))
        = (\<lambda>k. if k < length f then ((i @ ''.'') @ f @ '' '' @ asset) ! (length (i @ ''.'') + k) else CHR ''0'')" for i f
      by (cases "f = []") (auto simp: fun_eq_iff len split fraction_char_def)
    have flen: "(if length i < length (amount_text i f None) then length (amount_text i f None) - length i - 1 else 0) = length f" for i f :: string
      by (simp add: len)
    have "amount_as_string_is_greater_or_equal (Some (?t i f)) (Some (?t i' f')) \<longleftrightarrow>
      (case (if i = i' then None else Some (val10 i > val10 i')) of Some r \<Rightarrow> r
       | None \<Rightarrow> val10 f * 10 ^ (d - length f) \<ge> val10 f' * 10 ^ (d - length f'))"
      unfolding run flen ints frac using True digits(7,8)
      by (subst compare_fractions [OF digits(2,4) refl, of d]) simp_all
    also have "\<dots> \<longleftrightarrow> v \<ge> v'"
      unfolding order using val10_inject [OF True digits(1,3)] by (cases "i = i'") auto
    finally show ?thesis .
  qed
qed
text \<open>C31: Comparing two printed amounts of a token is comparing the numbers: the comparison of the texts,
  digit by digit, which checks the fee of a swap against the fee the exchange announced, answers
  exactly whether the first amount is at least the second, at every number of decimals.\<close>

theorem compared_texts_are_numbers:
  assumes "print_token_amount v (Some asset) decimals n = Some (0, t)"
    and "print_token_amount v' (Some asset) decimals n' = Some (0, t')"
    and "asset \<noteq> []" "NUL \<notin> set asset"
  shows "amount_as_string_is_greater_or_equal (Some (c_str t)) (Some (c_str t')) \<longleftrightarrow> v \<ge> v'"
proof -
  obtain i f where t: "amount_digits decimals (unat v) i f" "t = amount_text i f (Some asset) @ [NUL]"
    using print_token_amount_ok [OF assms(1)] by blast
  obtain i' f' where t': "amount_digits decimals (unat v') i' f'" "t' = amount_text i' f' (Some asset) @ [NUL]"
    using print_token_amount_ok [OF assms(2)] by blast
  have "c_str t = amount_text i f (Some asset)" "c_str t' = amount_text i' f' (Some asset)"
    unfolding t(2) t'(2) using amount_text_no_NUL [OF t(1), of "Some asset"] amount_text_no_NUL [OF t'(1), of "Some asset"] assms(4)
    by (auto intro!: c_str_NUL)
  then show ?thesis using compare_amounts [OF t(1) t'(1) assms(3)] by (simp add: word_le_nat_alt)
qed

theorem compared_texts_are_numbers_witness:
  "amount_as_string_is_greater_or_equal (Some (c_str (''1.5 SOL'' @ [NUL]))) (Some (c_str (''1.500000001 SOL'' @ [NUL])))
    \<longleftrightarrow> 1500000000 \<ge> (1500000001 :: u64)"
  by (rule compared_texts_are_numbers [OF sample_amounts(1,2)]) (simp_all add: NUL_def)

section \<open>Integers are printed exactly\<close>

lemma u64_digits_exact:
  assumes "unat u < 10 ^ k" "0 < k" "k \<le> room"
  shows "\<exists>ds. u64_digits room u w = w @ ds \<and> val10 (rev ds) = unat u \<and> list_all is_digit ds
    \<and> 0 < length ds \<and> length ds \<le> k \<and> (length ds = 1 \<or> last ds \<noteq> CHR ''0'')"
  using assms
proof (induction room u w arbitrary: k rule: u64_digits.induct)
  case (2 room u w)
  define d where "d = unat (u mod 10)"
  define w1 where "w1 = w @ [if u > 0 then digit_char (unat (u mod 10)) else CHR ''0'']"
  define u1 where "u1 = (if u > 0 then u div 10 else u)"
  have d: "d < 10" by (simp add: d_def unat_mod)
  have w1: "w1 = w @ [digit_char d]" by (simp add: w1_def d_def digit_chars word_neq_0_conv [symmetric])
  have u1: "u1 = u div 10" by (auto simp: u1_def word_neq_0_conv [symmetric])
  have val: "unat u = unat u1 * 10 + d" by (simp add: u1 d_def unat_div unat_mod)
  have run: "u64_digits (Suc room) u w = (if u1 > 0 then u64_digits room u1 w1 else w1)"
    by (simp add: w1_def u1_def)
  show ?case
  proof (cases "u1 > 0")
    case True
    then have pos: "0 < unat u1" by (simp add: word_less_nat_alt)
    then have "k \<noteq> 1" using 2(2) val by auto
    then obtain j where j: "k = Suc j" "0 < j" using 2(3) by (cases k) auto
    then have "unat u1 < 10 ^ j" "j \<le> room" using 2(2,4) val by simp_all
    from 2(1) [OF w1_def u1_def True this(1) j(2) this(2)] obtain ds where
      ds: "u64_digits room u1 w1 = w1 @ ds" "val10 (rev ds) = unat u1" "list_all is_digit ds"
      "0 < length ds" "length ds \<le> j" "length ds = 1 \<or> last ds \<noteq> CHR ''0''" by blast
    have "last ds \<noteq> CHR ''0''" if "length ds = 1"
    proof -
      obtain c where c: "ds = [c]" using \<open>length ds = 1\<close> by (cases ds) auto
      then show ?thesis using ds(2) pos by (auto simp: val10_Cons)
    qed
    then show ?thesis
      using ds True d j val
      by (intro exI [of _ "digit_char d # ds"]) (auto simp: run w1 val10_append val10_Cons simp del: u64_digits.simps)
  next
    case False
    then show ?thesis
      using d val 2(3) by (intro exI [of _ "[digit_char d]"]) (auto simp: run w1 val10_Cons word_neq_0_conv [symmetric] simp del: u64_digits.simps)
  qed
qed simp

definition decimal :: "nat \<Rightarrow> string \<Rightarrow> bool" where
  "decimal n s \<longleftrightarrow> list_all is_digit s \<and> val10 s = n \<and> s \<noteq> [] \<and> (length s = 1 \<or> hd s \<noteq> CHR ''0'')"

lemma print_u64_exact:
  assumes "20 < n" "n \<le> INT_MAX"
  shows "\<exists>s. print_u64 u n = (0, s @ [NUL]) \<and> decimal (unat u) s \<and> length s \<le> 20"
proof -
  have "unat u < 10 ^ 20" using unat_u64_bound [of u] by simp
  then obtain ds where ds: "u64_digits n u [] = ds" "val10 (rev ds) = unat u" "list_all is_digit ds"
    "0 < length ds" "length ds \<le> 20" "length ds = 1 \<or> last ds \<noteq> CHR ''0''"
    using u64_digits_exact [of u 20 n "[]"] assms by auto
  then show ?thesis
    using assms by (intro exI [of _ "rev ds"]) (auto simp: print_u64_def decimal_def hd_rev list_all_iff)
qed

lemma sint_magnitude: "sint (i :: i64) < 0 \<Longrightarrow> int (unat ((i XOR 0xffffffffffffffff) + 1)) = - sint i"
proof -
  assume neg: "sint i < 0"
  have "(0xffffffffffffffff :: i64) = - 1" by simp
  moreover have "i XOR (- 1) = NOT i" by (rule bit_eqI) (simp add: bit_xor_iff bit_not_iff)
  ultimately have "i XOR 0xffffffffffffffff = NOT i" by (simp only:)
  then have "(i XOR 0xffffffffffffffff) + 1 = - i" by (simp add: minus_eq_not_plus_1)
  moreover have "uint (- i) = - sint i"
  proof -
    have "- sint i \<le> 2 ^ 63" using sint_ge [of i] by simp
    moreover have "- i = word_of_int (- sint i)" by simp
    ultimately show ?thesis using neg by (simp only: uint_word_of_int) simp
  qed
  ultimately show ?thesis by simp
qed

lemma integers_exact:
  assumes "21 < n" "n \<le> INT_MAX"
  shows "(\<exists>s. print_u64 u n = (0, s @ [NUL]) \<and> decimal (unat u) s)
    \<and> (\<exists>s. print_i64 i n = (0, (if sint i < 0 then ''-'' else []) @ s @ [NUL]) \<and> decimal (nat \<bar>sint i\<bar>) s)"
proof -
  have small: "20 < n" "20 < n - 1" "n - 1 \<le> INT_MAX" using assms by simp_all
  have "\<exists>s. print_i64 i n = (0, (if sint i < 0 then ''-'' else []) @ s @ [NUL]) \<and> decimal (nat \<bar>sint i\<bar>) s"
  proof (cases "sint i < 0")
    case True
    then have "unat ((i XOR 0xffffffffffffffff) + 1) = nat \<bar>sint i\<bar>"
      using sint_magnitude [OF True] True by (metis abs_of_neg nat_int)
    then show ?thesis
      using print_u64_exact [OF small(2,3), of "(i XOR 0xffffffffffffffff) + 1"] True assms(1)
      by (auto simp: print_i64_def)
  next
    case False
    have "unat i = nat \<bar>sint i\<bar>"
    proof -
      have "sint i < 2 ^ 63" using sint_lt [of i] by simp
      moreover have "i = word_of_int (sint i)" by simp
      ultimately have "uint i = sint i"
        using False uint_word_of_int [of "sint i", where 'a = 64] by simp
      then show ?thesis using False by (metis abs_of_nonneg not_less nat_int of_nat_unat)
    qed
    then show ?thesis using print_u64_exact [OF small(1) assms(2), of i] False assms(1) by (auto simp: print_i64_def)
  qed
  then show ?thesis using print_u64_exact [OF small(1) assms(2), of u] by blast
qed

text \<open>A 64-bit number is shown as its decimal digits, without a leading zero, whenever the buffer has
  more than twenty bytes, and a signed one with a minus sign before the digits of its magnitude,
  the most negative value included.\<close>

theorem integers_shown_exactly:
  assumes "21 < n" "n \<le> INT_MAX"
  shows "(\<exists>s. print_u64 u n = (0, s @ [NUL]) \<and> decimal (unat u) s)
    \<and> (\<exists>s. print_i64 i n = (0, (if sint i < 0 then ''-'' else []) @ s @ [NUL]) \<and> decimal (nat \<bar>sint i\<bar>) s)"
  using assms by (rule integers_exact)

theorem integers_shown_exactly_witness:
  "(\<exists>s. print_u64 42 45 = (0, s @ [NUL]) \<and> decimal (unat (42 :: u64)) s)
    \<and> (\<exists>s. print_i64 (- 7) 45 = (0, (if sint (- 7 :: i64) < 0 then ''-'' else []) @ s @ [NUL]) \<and> decimal (nat \<bar>sint (- 7 :: i64)\<bar>) s)"
  using integers_shown_exactly [of 45 42 "- 7"] by (simp add: INT_MAX_def)

end
