(* ===== verification/Sol_Rfc3339.thy ===== *)
theory Sol_Rfc3339
  imports Sol_Printer
begin

text \<open>
  Dates, \<open>libsol/rfc3339.c\<close>: a number of seconds since 1970 as the text YYYY-MM-DD hh:mm:ss. First the
  code, with its integers at their widths; then the calendar it computes, which is the Gregorian one
  for every day up to the end of 9999.
\<close>

definition DayOffset :: "nat list" where
  "DayOffset = [0, 306, 337, 0, 31, 61, 92, 122, 153, 184, 214, 245, 275]"

definition rdn_to_ymd :: "u32 \<Rightarrow> (u16 \<times> u16 \<times> u16) option" where
  "rdn_to_ymd rdn =
     (let Z = rdn + 306;
          H = 100 * Z - 25;
          A = H div 3652425;
          B = A - drop_bit 2 A;
          y = (100 * B + H) div 36525;
          d = B + Z - drop_bit 2 (1461 * y);
          m = drop_bit 14 (535 * d + 48950);
          (y, m) = (if m > 12 then (y + 1, m - 12) else (y, m))
      in if y > 9999 \<or> m > 12 \<or> d > 31 + of_nat (DayOffset ! unat m) then None
         else Some (ucast y, ucast m, ucast (d - of_nat (DayOffset ! unat m))))"

definition EPOCH :: i64 where "EPOCH = 62135683200"

text \<open>
  The sum \<open>seconds + EPOCH\<close> is one of signed integers, which C leaves undefined beyond the 64 bits; it
  wraps here. \<open>rdn = sec / 86400\<close> keeps the low 32 bits of the quotient.
\<close>

definition rfc3339_format :: "nat \<Rightarrow> i64 \<Rightarrow> written" where
  "rfc3339_format len seconds =
     (if 19 \<ge> len then (1, [])
      else let sec = seconds + EPOCH;
               rdn = ucast (sec div 86400)
           in case rdn_to_ymd rdn of
                None \<Rightarrow> (1, [])
              | Some (y, m, d) \<Rightarrow>
                  let v = unat (ucast (sec mod 86400) :: u32);
                      c18 = digit_char (v mod 10); v = v div 10;
                      c17 = digit_char (v mod 6); v = v div 6;
                      c15 = digit_char (v mod 10); v = v div 10;
                      c14 = digit_char (v mod 6); v = v div 6;
                      c12 = digit_char (v mod 10); v = v div 10;
                      c11 = digit_char (v mod 10);
                      d = unat d; c9 = digit_char (d mod 10); c8 = digit_char (d div 10 mod 10);
                      m = unat m; c6 = digit_char (m mod 10); c5 = digit_char (m div 10 mod 10);
                      y = unat y; c3 = digit_char (y mod 10); y = y div 10;
                      c2 = digit_char (y mod 10); y = y div 10;
                      c1 = digit_char (y mod 10); c0 = digit_char (y div 10 mod 10)
                  in (0, [c0, c1, c2, c3, CHR ''-'', c5, c6, CHR ''-'', c8, c9, CHR '' '',
                          c11, c12, CHR '':'', c14, c15, CHR '':'', c17, c18, NUL]))"

definition print_timestamp :: "i64 \<Rightarrow> nat \<Rightarrow> written" where
  "print_timestamp timestamp out_length = rfc3339_format out_length timestamp"

section \<open>The Gregorian calendar\<close>

definition leap_year :: "nat \<Rightarrow> bool" where
  "leap_year y \<longleftrightarrow> y mod 4 = 0 \<and> (y mod 100 \<noteq> 0 \<or> y mod 400 = 0)"

definition days_in_month :: "nat \<Rightarrow> nat \<Rightarrow> nat" where
  "days_in_month y m = (if m = 2 then (if leap_year y then 29 else 28) else if m \<in> {4, 6, 9, 11} then 30 else 31)"

definition valid_date :: "nat \<Rightarrow> nat \<Rightarrow> nat \<Rightarrow> bool" where
  "valid_date y m d \<longleftrightarrow> 1 \<le> y \<and> 1 \<le> m \<and> m \<le> 12 \<and> 1 \<le> d \<and> d \<le> days_in_month y m"

definition day_number :: "nat \<Rightarrow> nat \<Rightarrow> nat \<Rightarrow> nat" where
  "day_number y m d = (\<Sum>k\<in>{1..<y}. if leap_year k then 366 else 365) + (\<Sum>k\<in>{1..<m}. days_in_month y k) + d"

lemma leap_count:
  "(\<Sum>k\<in>{1..<Suc y}. if leap_year k then 366 else 365) + y div 100 = 365 * y + y div 4 + y div 400"
proof (induction y)
  case (Suc y)
  have q: "Suc y div 4 = y div 4 + (if Suc y mod 4 = 0 then 1 else 0)" for y :: nat
    by (simp add: div_Suc)
  have c: "Suc y div 100 = y div 100 + (if Suc y mod 100 = 0 then 1 else 0)"
    "Suc y div 400 = y div 400 + (if Suc y mod 400 = 0 then 1 else 0)"
    by (simp_all add: div_Suc)
  have "Suc y mod 100 = 0 \<Longrightarrow> Suc y mod 4 = 0" "Suc y mod 400 = 0 \<Longrightarrow> Suc y mod 100 = 0"
    by (auto simp: mod_eq_0_iff_dvd intro: dvd_trans [rotated])
  then show ?case
    using Suc unfolding q c by (auto simp: leap_year_def)
qed simp

section \<open>The algorithm, without wrap-around\<close>

definition ymd :: "nat \<Rightarrow> nat \<times> nat \<times> nat" where
  "ymd rdn = (let Z = rdn + 306; H = 100 * Z - 25; A = H div 3652425; B = A - A div 4;
       y = (100 * B + H) div 36525; d = B + Z - 1461 * y div 4; m = (535 * d + 48950) div 16384;
       (y, m) = (if m > 12 then (y + 1, m - 12) else (y, m))
     in (y, m, d - DayOffset ! m))"

text \<open>The day \<open>c\<close> of the year that begins in March, and its month.\<close>

lemma quotient_bounds: "0 < k \<Longrightarrow> k * (n div k) \<le> n" "0 < k \<Longrightarrow> n < k * (n div k) + (k :: nat)"
  by (simp, metis add.commute dividend_less_times_div mult.commute)

lemma month_cases:
  assumes "3 \<le> (m :: nat)" "m \<le> 14"
  shows "m = 3 \<or> m = 4 \<or> m = 5 \<or> m = 6 \<or> m = 7 \<or> m = 8 \<or> m = 9 \<or> m = 10 \<or> m = 11 \<or> m = 12 \<or> m = 13 \<or> m = 14"
proof (cases "m \<le> 8")
  case True
  with assms(1) have "m = 3 \<or> m = 4 \<or> m = 5 \<or> m = 6 \<or> m = 7 \<or> m = 8" by linarith
  then show ?thesis by blast
next
  case False
  with assms(2) have "m = 9 \<or> m = 10 \<or> m = 11 \<or> m = 12 \<or> m = 13 \<or> m = 14" by linarith
  then show ?thesis by blast
qed

lemma march_month:
  assumes "1 \<le> c" "c \<le> 366" "m = (535 * c + 48950) div 16384"
  shows "3 \<le> m \<and> m \<le> 12 \<and> DayOffset ! m < c \<and> c \<le> DayOffset ! m + (if m \<in> {4, 6, 9, 11} then 30 else 31)
    \<or> m = 13 \<and> 306 < c \<and> c \<le> 337 \<or> m = 14 \<and> 337 < c"
proof -
  have b: "16384 * m \<le> 535 * c + 48950" "535 * c + 48950 < 16384 * m + 16384"
    unfolding assms(3) by (simp_all add: quotient_bounds)
  then have "3 \<le> m" using assms(1,2) by linarith
  moreover have "m \<le> 14" using b assms(1,2) by linarith
  ultimately have "m = 3 \<or> m = 4 \<or> m = 5 \<or> m = 6 \<or> m = 7 \<or> m = 8 \<or> m = 9 \<or> m = 10 \<or> m = 11 \<or> m = 12 \<or> m = 13 \<or> m = 14"
    by (rule month_cases)
  then show ?thesis
    using b assms(1,2) by (elim disjE) (simp_all add: DayOffset_def)
qed

lemma multiple_of_100: "100 * A + 1 \<le> (x :: nat) \<Longrightarrow> x \<le> 100 * A + 100 \<Longrightarrow> x mod 100 = 0 \<Longrightarrow> x = 100 * A + 100"
proof -
  assume a: "100 * A + 1 \<le> x" "x \<le> 100 * A + 100" "x mod 100 = 0"
  then have x: "x = 100 * (x div 100)" using div_mult_mod_eq [of x 100] by (simp add: mult.commute)
  then have "A < x div 100" "x div 100 \<le> A + 1" using a(1,2) by linarith+
  then show ?thesis using x by simp
qed

lemma march_day:
  assumes "307 \<le> Z" "H = 100 * Z - 25" "A = H div 3652425" "B = A - A div 4" "y = (100 * B + H) div 36525"
    and "c = B + Z - 1461 * y div 4"
  shows "y div 100 = A" "1 \<le> c" "c \<le> 366" "c = 366 \<Longrightarrow> leap_year (y + 1)"
    and "Z + A = 365 * y + y div 4 + A div 4 + c"
proof -
  define q r where "q = A div 4" "r = A mod 4"
  have A: "A = 4 * q + r" "r < 4" unfolding q_r_def by simp_all
  have B: "B + q = A" using assms(4) q_r_def(1) by simp
  have HA: "3652425 * A \<le> H" "H < 3652425 * A + 3652425"
    unfolding assms(3) by (simp_all add: quotient_bounds)
  have Hy: "36525 * y \<le> 100 * B + H" "100 * B + H < 36525 * y + 36525"
    unfolding assms(5) by (simp_all add: quotient_bounds)
  have H: "H + 25 = 100 * Z" using assms(1,2) by simp
  have "100 * A \<le> y" using HA Hy A B by linarith
  moreover have "y < 100 * A + 100" using HA Hy A B by linarith
  ultimately show century: "y div 100 = A" by (intro div_nat_eqI) simp_all
  define k j where "k = y div 4" "j = y mod 4"
  have y: "y = 4 * k + j" "j < 4" unfolding k_j_def by simp_all
  have f: "1461 * y div 4 = 365 * y + k"
    unfolding k_j_def using y by (simp add: k_j_def)
  have bounds: "36525 * y + 25 \<le> 100 * (B + Z)" "100 * (B + Z) < 36525 * y + 36550"
    using Hy H by simp_all
  have "j = 0 \<or> j = 1 \<or> j = 2 \<or> j = 3" using y(2) by linarith
  then have j: "365 * y + k + 1 \<le> B + Z" "B + Z \<le> 365 * y + k + 366" "B + Z = 365 * y + k + 366 \<Longrightarrow> j = 3"
    using bounds unfolding y(1) by (elim disjE; simp; linarith)+
  then have c: "1461 * y div 4 + c = B + Z" using assms(6) f by linarith
  then show day: "1 \<le> c" "c \<le> 366" using j(1,2) f by linarith+
  show "Z + A = 365 * y + y div 4 + A div 4 + c"
    using c f B unfolding k_j_def q_r_def by simp
  show "leap_year (y + 1)" if "c = 366"
  proof -
    have "j = 3" using j(3) c f that by simp
    then have mod4: "(y + 1) mod 4 = 0" using y(1) by simp
    have century_leap: "(y + 1) mod 400 = 0" if "(y + 1) mod 100 = 0"
    proof -
      have "100 * A + 1 \<le> y + 1" "y + 1 \<le> 100 * A + 100" using \<open>100 * A \<le> y\<close> \<open>y < 100 * A + 100\<close> by simp_all
      then have "y + 1 = 100 * A + 100" using that by (rule multiple_of_100)
      moreover have "B + Z = 365 * y + k + 366" using c f \<open>c = 366\<close> by simp
      then have "75 * A + 50 < 100 * B" using calculation HA H Hy y \<open>j = 3\<close> by linarith
      then have "r = 3" using A B by linarith
      ultimately have "y + 1 = 400 * (q + 1)" using A(1) by simp
      then show ?thesis by simp
    qed
    have "(y + 1) mod 100 \<noteq> 0 \<or> (y + 1) mod 400 = 0"
      using century_leap by (cases "(y + 1) mod 100 = 0") (iprover, iprover)
    with mod4 show ?thesis unfolding leap_year_def by (rule conjI)
  qed
qed
lemma month_sums:
  "(\<Sum>k\<in>{1..<1}. days_in_month y k) = 0" "(\<Sum>k\<in>{1..<2}. days_in_month y k) = 31"
  "3 \<le> m \<Longrightarrow> m \<le> 12 \<Longrightarrow> (\<Sum>k\<in>{1..<m}. days_in_month y k) = 59 + (if leap_year y then 1 else 0) + DayOffset ! m"
proof -
  have "m \<in> {3, 4, 5, 6, 7, 8, 9, 10, 11, 12}" if "3 \<le> m" "m \<le> 12"
    using month_cases [of m] that by auto
  then show "3 \<le> m \<Longrightarrow> m \<le> 12 \<Longrightarrow> (\<Sum>k\<in>{1..<m}. days_in_month y k) = 59 + (if leap_year y then 1 else 0) + DayOffset ! m"
    by (auto simp: days_in_month_def DayOffset_def numeral_eq_Suc)
qed (simp_all add: days_in_month_def numeral_eq_Suc)

lemma leap_count_previous:
  "1 \<le> y \<Longrightarrow> (\<Sum>k\<in>{1..<y}. if leap_year k then 366 else 365) + (if leap_year y then 366 else 365) + y div 100
    = 365 * y + y div 4 + y div 400"
  using leap_count [of y] by (cases y) simp_all

lemma ymd_is_the_date:
  assumes "1 \<le> rdn" "ymd rdn = (y, m, d)"
  shows "valid_date y m d \<and> day_number y m d = rdn"
proof -
  define Z where "Z = rdn + 306"
  define H where "H = 100 * Z - 25"
  define A where "A = H div 3652425"
  define B where "B = A - A div 4"
  define y0 where "y0 = (100 * B + H) div 36525"
  define c where "c = B + Z - 1461 * y0 div 4"
  define m0 where "m0 = (535 * c + 48950) div 16384"
  have "307 \<le> Z" using assms(1) by (simp add: Z_def)
  note march = march_day [OF this H_def A_def B_def y0_def c_def]
  have res: "(y, m, d) = (if m0 > 12 then (y0 + 1, m0 - 12, c - DayOffset ! (m0 - 12)) else (y0, m0, c - DayOffset ! m0))"
    using assms(2) [unfolded ymd_def Let_def, folded Z_def, folded H_def, folded A_def, folded B_def, folded y0_def,
        folded c_def, folded m0_def]
    by (auto split: if_splits)
  have "A div 4 = y0 div 400" using march(1) by (simp add: div_mult2_eq [of y0 100 4, simplified])
  then have Z: "Z + y0 div 100 = 365 * y0 + y0 div 4 + y0 div 400 + c"
    using march(1,5) by simp
  have leap: "c \<le> 365 \<or> leap_year (y0 + 1)" using march(3,4) by (cases "c = 366") auto
  from march_month [OF march(2,3) m0_def] show ?thesis
  proof (elim disjE conjE)
    assume m: "3 \<le> m0" "m0 \<le> 12" "DayOffset ! m0 < c" "c \<le> DayOffset ! m0 + (if m0 \<in> {4, 6, 9, 11} then 30 else 31)"
    then have date: "y = y0" "m = m0" "d = c - DayOffset ! m0" using res by simp_all
    have "1 \<le> y0"
    proof (rule ccontr)
      assume "\<not> 1 \<le> y0"
      moreover have "535 * c + 48950 < 16384 * m0 + 16384" unfolding m0_def by (simp add: quotient_bounds)
      ultimately show False using Z \<open>307 \<le> Z\<close> m(2) by simp
    qed
    then show ?thesis
      using m Z leap_count_previous [of y0] month_sums(3) [OF m(1,2), of y0]
      unfolding date valid_date_def day_number_def Z_def by (auto simp: days_in_month_def)
  next
    assume m: "m0 = 13" "306 < c" "c \<le> 337"
    then show ?thesis
      using res Z leap_count [of y0] month_sums(1)
      by (auto simp: valid_date_def day_number_def days_in_month_def DayOffset_def Z_def)
  next
    assume m: "m0 = 14" "337 < c"
    then show ?thesis
      using res Z leap_count [of y0] month_sums(2) leap march(3)
      by (auto simp: valid_date_def day_number_def days_in_month_def DayOffset_def Z_def)
  qed
qed
lemma unat_u32_ops:
  fixes a b :: u32
  shows "unat a + unat b < 4294967296 \<Longrightarrow> unat (a + b) = unat a + unat b"
    and "unat a * unat b < 4294967296 \<Longrightarrow> unat (a * b) = unat a * unat b"
    and "unat b \<le> unat a \<Longrightarrow> unat (a - b) = unat a - unat b"
    and "unat (drop_bit n a) = unat a div 2 ^ n"
  subgoal by (simp add: unat_word_ariths)
  subgoal by (simp add: unat_word_ariths)
  subgoal by (simp add: unat_sub word_le_nat_alt)
  subgoal by (simp add: unat_drop_bit_eq) (simp add: drop_bit_eq_div)
  done

lemma day_offset_small: "k \<le> 12 \<Longrightarrow> unat (of_nat (DayOffset ! k) :: u32) = DayOffset ! k \<and> DayOffset ! k \<le> 337"
proof -
  assume "k \<le> 12"
  then have "DayOffset ! k \<in> set DayOffset" by (intro nth_mem) (simp add: DayOffset_def)
  then have "DayOffset ! k \<le> 337" by (auto simp: DayOffset_def)
  then show ?thesis by (simp add: unat_of_nat)
qed

lemma rdn_to_ymd_exact:
  assumes "1 \<le> unat rdn" "unat rdn \<le> 3652059"
  shows "\<exists>y m d. rdn_to_ymd rdn = Some (y, m, d) \<and> ymd (unat rdn) = (unat y, unat m, unat d) \<and> unat y \<le> 9999"
proof -
  define Z where "Z = rdn + 306"
  define H where "H = 100 * Z - 25"
  define A where "A = H div 3652425"
  define B where "B = A - drop_bit 2 A"
  define y0 where "y0 = (100 * B + H) div 36525"
  define c where "c = B + Z - drop_bit 2 (1461 * y0)"
  define m0 where "m0 = drop_bit 14 (535 * c + 48950)"
  define y1 m1 where "y1 = (if m0 > 12 then y0 + 1 else y0)" and "m1 = (if m0 > 12 then m0 - 12 else m0)"
  have Z: "unat Z = unat rdn + 306" using assms by (simp add: Z_def unat_u32_ops)
  then have "307 \<le> unat Z" "unat Z \<le> 3652365" using assms by simp_all
  then have H: "unat H = 100 * unat Z - 25" by (simp add: H_def unat_u32_ops)
  have A: "unat A = unat H div 3652425" by (simp add: A_def unat_div)
  have B: "unat B = unat A - unat A div 4" by (simp add: B_def unat_u32_ops)
  have "unat A \<le> 99" using A H \<open>unat Z \<le> 3652365\<close> by simp
  then have "unat B \<le> 99" using B by simp
  then have y0: "unat y0 = (100 * unat B + unat H) div 36525"
    using H \<open>unat Z \<le> 3652365\<close> by (simp add: y0_def unat_div unat_u32_ops)
  then have "unat y0 \<le> 10000" using H \<open>unat Z \<le> 3652365\<close> \<open>unat B \<le> 99\<close> by simp
  then have q: "unat (drop_bit 2 (1461 * y0)) = 1461 * unat y0 div 4" by (simp add: unat_u32_ops)
  define cn where "cn = unat B + unat Z - 1461 * unat y0 div 4"
  note march = march_day [OF \<open>307 \<le> unat Z\<close> H A B y0 cn_def]
  have BZ: "unat (B + Z) = unat B + unat Z" using \<open>unat B \<le> 99\<close> \<open>unat Z \<le> 3652365\<close> by (simp add: unat_u32_ops)
  have c: "unat c = cn" using march(2) by (simp add: c_def unat_u32_ops(3) q BZ cn_def)
  then have m0: "unat m0 = (535 * cn + 48950) div 16384" using march(3) by (simp add: m0_def unat_u32_ops)
  note month = march_month [OF march(2,3) m0]
  have m1: "unat m1 = (if unat m0 > 12 then unat m0 - 12 else unat m0)"
    using month by (auto simp: m1_def word_less_nat_alt unat_u32_ops)
  have y1: "unat y1 = (if unat m0 > 12 then unat y0 + 1 else unat y0)"
    using \<open>unat y0 \<le> 10000\<close> by (auto simp: y1_def word_less_nat_alt unat_u32_ops)
  have "unat m1 \<le> 12" using month m1 by auto
  note off = day_offset_small [OF this]
  have d: "DayOffset ! unat m1 < cn" "cn \<le> 31 + DayOffset ! unat m1"
    using month march(3) unfolding m1 by (auto simp: DayOffset_def split: if_splits)
  have run: "rdn_to_ymd rdn = (if y1 > 9999 \<or> m1 > 12 \<or> c > 31 + of_nat (DayOffset ! unat m1) then None
      else Some (ucast y1, ucast m1, ucast (c - of_nat (DayOffset ! unat m1))))"
    unfolding rdn_to_ymd_def Let_def Z_def [symmetric] H_def [symmetric] A_def [symmetric] B_def [symmetric]
      y0_def [symmetric] c_def [symmetric] m0_def [symmetric] by (simp add: y1_def m1_def)
  have spec: "ymd (unat rdn) = (unat y1, unat m1, cn - DayOffset ! unat m1)"
    unfolding ymd_def Let_def Z [symmetric] H [symmetric] A [symmetric] B [symmetric] y0 [symmetric] cn_def [symmetric]
      m0 [symmetric] y1 m1 by simp
  from ymd_is_the_date [OF assms(1) spec] have date: "valid_date (unat y1) (unat m1) (cn - DayOffset ! unat m1)"
    "day_number (unat y1) (unat m1) (cn - DayOffset ! unat m1) = unat rdn" by simp_all
  have year: "unat y1 \<le> 9999"
  proof (rule ccontr)
    assume "\<not> unat y1 \<le> 9999"
    then have "{1..<Suc 9999} \<subseteq> {1..<unat y1}" by auto
    then have "(\<Sum>k\<in>{1..<Suc 9999}. if leap_year k then 366 else 365) \<le> (\<Sum>k\<in>{1..<unat y1}. if leap_year k then 366 else (365 :: nat))"
      by (intro sum_mono2) simp_all
    then have "3652059 < unat rdn"
      using leap_count [of 9999] date by (simp add: day_number_def valid_date_def)
    then show False using assms(2) by simp
  qed
  have "unat (c - of_nat (DayOffset ! unat m1)) = cn - DayOffset ! unat m1"
    using off c d(1) by (simp add: unat_u32_ops(3))
  moreover have "\<not> (y1 > 9999 \<or> m1 > 12 \<or> c > 31 + of_nat (DayOffset ! unat m1))"
    using year \<open>unat m1 \<le> 12\<close> d(2) off c by (simp add: word_less_nat_alt unat_u32_ops(1))
  moreover have "unat (ucast w :: u16) = unat w" if "unat (w :: u32) < 65536" for w
    using that by (simp add: unsigned_ucast_eq take_bit_nat_eq_self)
  ultimately show ?thesis
    using year \<open>unat m1 \<le> 12\<close> march(3) unfolding run spec by simp
qed
definition two_digits :: "nat \<Rightarrow> string" where
  "two_digits n = [digit_char (n div 10 mod 10), digit_char (n mod 10)]"

lemma unat_of_sint:
  fixes i :: i64
  assumes "0 \<le> sint i + k" "sint i + k < 2 ^ 64" "e = word_of_int k"
  shows "int (unat (i + e)) = sint i + k"
proof -
  have "i + e = word_of_int (sint i + k)" using assms(3) by simp
  then have "uint (i + e) = (sint i + k) mod 2 ^ 64" by (simp only: uint_word_of_int) simp
  then show ?thesis using assms(1,2) by simp
qed

lemma clock_digits:
  fixes v :: nat
  assumes "v < 86400"
  shows "v div 10 div 6 div 10 div 6 div 10 mod 10 = v div 3600 div 10 mod 10"
    and "v div 10 div 6 div 10 div 6 mod 10 = v div 3600 mod 10"
    and "v div 10 div 6 div 10 mod 6 = v div 60 mod 60 div 10 mod 10" "v div 10 div 6 mod 10 = v div 60 mod 60 mod 10"
    and "v div 10 mod 6 = v mod 60 div 10 mod 10" "v mod 10 = v mod 60 mod 10"
    and "v div 3600 < 24"
proof -
  have m: "x mod 60 = 10 * (x div 10 mod 6) + x mod 10" for x :: nat
    using mod_mult2_eq [of x 10 6] by simp
  have six: "x mod 6 mod 10 = x mod (6 :: nat)" for x by (rule mod_less) simp
  show "v div 10 div 6 div 10 mod 6 = v div 60 mod 60 div 10 mod 10" "v div 10 div 6 mod 10 = v div 60 mod 60 mod 10"
    "v div 10 mod 6 = v mod 60 div 10 mod 10" "v mod 10 = v mod 60 mod 10"
    unfolding m [of v] m [of "v div 60"] by (simp_all add: div_mult2_eq [symmetric] six)
  show "v div 10 div 6 div 10 div 6 div 10 mod 10 = v div 3600 div 10 mod 10"
    "v div 10 div 6 div 10 div 6 mod 10 = v div 3600 mod 10" by (simp_all add: div_mult2_eq [symmetric])
  show "v div 3600 < 24" using assms by simp
qed

lemma timestamp_shown:
  assumes "- 62135596800 \<le> sint seconds" "sint seconds < 253402300800" "19 < len"
  shows "\<exists>y m d h mi s. valid_date y m d \<and> h < 24 \<and> mi < 60 \<and> s < 60
    \<and> print_timestamp seconds len = (0, two_digits (y div 100) @ two_digits (y mod 100) @ ''-'' @ two_digits m @ ''-''
        @ two_digits d @ '' '' @ two_digits h @ '':'' @ two_digits mi @ '':'' @ two_digits s @ [NUL])
    \<and> sint seconds = (int (day_number y m d) - 719163) * 86400 + int (3600 * h + 60 * mi + s)"
proof -
  define sec where "sec = seconds + EPOCH"
  have sec: "int (unat sec) = sint seconds + 62135683200"
    unfolding sec_def using assms(1,2) by (intro unat_of_sint) (simp_all add: EPOCH_def)
  then have lo: "86400 \<le> unat sec" "unat sec < 315537984000" using assms(1,2) by linarith+
  define rdn :: u32 where "rdn = ucast (sec div 86400)"
  define v where "v = unat (ucast (sec mod 86400) :: u32)"
  have rdn: "unat rdn = unat sec div 86400"
    using lo by (simp add: rdn_def unsigned_ucast_eq unat_div take_bit_nat_eq_self div_less_dividend)
  have v: "v = unat sec mod 86400"
    by (simp add: v_def unsigned_ucast_eq unat_mod take_bit_nat_eq_self order_less_trans [OF mod_less_divisor])
  have "1 \<le> unat rdn" "unat rdn \<le> 3652059" using lo unfolding rdn by linarith+
  then obtain y m d where date: "rdn_to_ymd rdn = Some (y, m, d)" "ymd (unat rdn) = (unat y, unat m, unat d)" "unat y \<le> 9999"
    using rdn_to_ymd_exact by blast
  from ymd_is_the_date [OF \<open>1 \<le> unat rdn\<close> date(2)] have valid: "valid_date (unat y) (unat m) (unat d)"
    "day_number (unat y) (unat m) (unat d) = unat rdn" by simp_all
  have "v < 86400" by (simp add: v)
  note clock = clock_digits [OF this]
  have room: "(len \<le> 19) = False" using assms(3) by simp
  have year: "unat y div 10 div 10 mod 10 = unat y div 100 mod 10" "unat y div 10 div 10 div 10 mod 10 = unat y div 100 div 10 mod 10"
    "unat y div 10 mod 10 = unat y mod 100 div 10 mod 10" "unat y mod 10 = unat y mod 100 mod 10"
    using mod_mult2_eq [of "unat y" 10 10] by (simp_all add: div_mult2_eq [symmetric])
  define w where "w = 3600 * (v div 3600) + 60 * (v div 60 mod 60) + v mod 60"
  have "print_timestamp seconds len = (0, two_digits (unat y div 100) @ two_digits (unat y mod 100) @ ''-'' @ two_digits (unat m) @ ''-''
        @ two_digits (unat d) @ '' '' @ two_digits (v div 3600) @ '':'' @ two_digits (v div 60 mod 60) @ '':'' @ two_digits (v mod 60) @ [NUL])"
    unfolding print_timestamp_def rfc3339_format_def Let_def sec_def [symmetric] rdn_def [symmetric]
      v_def [symmetric] date(1) two_digits_def by (simp only: clock year option.case prod.case append.simps room if_False)
  moreover have "unat sec = 86400 * unat rdn + w"
  proof -
    have "v = 60 * (v div 60) + v mod 60" "v div 60 = 60 * (v div 3600) + v div 60 mod 60"
      by (simp_all add: div_mult2_eq [of v 60 60, simplified])
    then have "v = 3600 * (v div 3600) + 60 * (v div 60 mod 60) + v mod 60" by linarith
    moreover have "unat sec = 86400 * unat rdn + v" unfolding rdn v by simp
    ultimately show ?thesis unfolding w_def by linarith
  qed
  then have "int (unat sec) = 86400 * int (unat rdn) + int w" by (simp only: of_nat_add of_nat_mult of_nat_numeral)
  then have "sint seconds = (int (unat rdn) - 719163) * 86400 + int w" using sec unfolding left_diff_distrib by linarith
  then have "sint seconds = (int (day_number (unat y) (unat m) (unat d)) - 719163) * 86400
      + int (3600 * (v div 3600) + 60 * (v div 60 mod 60) + v mod 60)" unfolding valid(2) w_def .
  moreover have "v div 60 mod 60 < 60" "v mod 60 < 60" by simp_all
  ultimately show ?thesis
    using valid(1) clock(7) by blast
qed

text \<open>C33: The date shown for a number of seconds is its date: from the first of January of year 1 to the end of
  9999 the text printed is the year, month and day of the Gregorian calendar and the time of day
  that the seconds since the beginning of 1970 are, and it is printed.\<close>

theorem timestamp_shown_is_the_date:
  assumes "- 62135596800 \<le> sint seconds" "sint seconds < 253402300800" "19 < len"
  shows "\<exists>y m d h mi s. valid_date y m d \<and> h < 24 \<and> mi < 60 \<and> s < 60
    \<and> print_timestamp seconds len = (0, two_digits (y div 100) @ two_digits (y mod 100) @ ''-'' @ two_digits m @ ''-''
        @ two_digits d @ '' '' @ two_digits h @ '':'' @ two_digits mi @ '':'' @ two_digits s @ [NUL])
    \<and> sint seconds = (int (day_number y m d) - 719163) * 86400 + int (3600 * h + 60 * mi + s)"
  using assms by (rule timestamp_shown)

lemma sample_timestamp:
  "print_timestamp 1700000000 45 = (0, ''2023-11-14 22:13:20'' @ [NUL])"
  by (simp add: print_timestamp_def rfc3339_format_def rdn_to_ymd_def EPOCH_def Let_def DayOffset_def digit_chars)

theorem timestamp_shown_is_the_date_witness:
  "(\<exists>y m d h mi s. valid_date y m d \<and> h < 24 \<and> mi < 60 \<and> s < 60
    \<and> print_timestamp 1700000000 45 = (0, two_digits (y div 100) @ two_digits (y mod 100) @ ''-'' @ two_digits m @ ''-''
        @ two_digits d @ '' '' @ two_digits h @ '':'' @ two_digits mi @ '':'' @ two_digits s @ [NUL])
    \<and> sint (1700000000 :: i64) = (int (day_number y m d) - 719163) * 86400 + int (3600 * h + 60 * mi + s))
    \<and> print_timestamp 1700000000 45 = (0, ''2023-11-14 22:13:20'' @ [NUL])"
  using timestamp_shown_is_the_date [of 1700000000 45] sample_timestamp by simp

text \<open>C40: A date far in the future is shown as a near one: the day number keeps 32 bits of the quotient,
  so two times from 1970 on that are 2 to the 32 days apart, about 11.7 million years, are shown with
  the same text, as long as the later one is below nine times ten to the eighteen seconds.
  A deadline in a message is a full 64-bit number and can be any of them.\<close>

theorem distant_timestamps_alias:
  assumes "0 \<le> sint seconds" "sint seconds < 9000000000000000000 - 371085174374400"
  shows "print_timestamp (seconds + 371085174374400) len = print_timestamp seconds len"
proof -
  define sec where "sec = seconds + EPOCH"
  have sec: "int (unat sec) = sint seconds + 62135683200"
    unfolding sec_def using assms(1,2) by (intro unat_of_sint) (simp_all add: EPOCH_def)
  define far where "far = sec + 371085174374400"
  have "unat far = unat sec + 371085174374400"
  proof -
    have "unat sec + 371085174374400 < 18446744073709551616" using sec assms(2) by linarith
    then show ?thesis unfolding far_def by (simp add: unat_word_ariths)
  qed
  then have "unat (far div 86400) = unat (sec div 86400) + 4294967296" "unat (far mod 86400) = unat (sec mod 86400)"
    using mod_mult_self2 [of "unat sec" 86400 4294967296] by (simp_all add: unat_div unat_mod)
  then have "unat (far div 86400) = unat (sec div 86400) + 4294967296" "far mod 86400 = sec mod 86400"
    by (simp_all only: word_unat_eq_iff)
  moreover then have "(ucast (far div 86400) :: u32) = ucast (sec div 86400)"
    by (simp add: word_unat_eq_iff unsigned_ucast_eq take_bit_eq_mod)
  moreover have shift: "seconds + 371085174374400 + EPOCH = far" by (simp add: far_def sec_def)
  ultimately show ?thesis
    unfolding print_timestamp_def rfc3339_format_def Let_def
    unfolding shift sec_def [symmetric] by (simp only:)
qed

theorem distant_timestamps_alias_witness:
  "print_timestamp (1700000000 + 371085174374400) 45 = print_timestamp 1700000000 45"
  by (rule distant_timestamps_alias) simp_all

end
