(* ===== verification/Sol_Display.thy ===== *)
theory Sol_Display
  imports Sol_Rfc3339
begin

text \<open>
  The display of an item of the summary, \<open>transaction_summary_display_item\<close> of
  \<open>libsol/transaction_summary.c\<close>: the value is printed into the static buffer \<open>G_transaction_summary_text\<close>
  and the title into \<open>G_transaction_summary_title\<close>, which the screens and the checks of a swap read as
  C strings. A buffer keeps what an unfinished or shorter text does not overwrite.
\<close>

definition TITLE_SIZE :: nat where "TITLE_SIZE = 32"
definition BASE58_PUBKEY_LENGTH :: nat where "BASE58_PUBKEY_LENGTH = 45"
definition TEXT_BUFFER_LENGTH :: nat where "TEXT_BUFFER_LENGTH = BASE58_PUBKEY_LENGTH"
definition SUMMARY_LENGTH :: nat where "SUMMARY_LENGTH = 7"
definition BASE58_PUBKEY_SHORT :: nat where
  "BASE58_PUBKEY_SHORT = SUMMARY_LENGTH + 2 + SUMMARY_LENGTH + 1"

record Display =
  title_buffer :: string
  text_buffer :: string

text \<open>\<open>transaction_summary_reset\<close> also clears the two buffers.\<close>

definition transaction_summary_reset_display :: Display where
  "transaction_summary_reset_display =
     \<lparr>title_buffer = replicate TITLE_SIZE NUL, text_buffer = replicate TEXT_BUFFER_LENGTH NUL\<rparr>"

definition overwrite :: "string \<Rightarrow> string \<Rightarrow> string" where
  "overwrite w buf = w @ drop (length w) buf"

text \<open>A printer writes the text buffer; its status is returned at once when it is not zero.\<close>

definition print_text :: "written \<Rightarrow> Display \<Rightarrow> Display c_result" where
  "print_text r D = Some (fst r, D\<lparr>text_buffer := overwrite (snd r) (text_buffer D)\<rparr>)"

definition transaction_summary_update_display_for_item :: "SummaryItem \<Rightarrow> bool \<Rightarrow> Display \<Rightarrow> Display c_result" where
  "transaction_summary_update_display_for_item item long_pubkeys D =
     bail_if
       (case item_value item of
          ItemNone \<Rightarrow> Some (1, D)
        | ItemAmount v \<Rightarrow> do { r \<leftarrow> print_amount v BASE58_PUBKEY_LENGTH; print_text r D }
        | ItemTokenAmount v symbol decimals \<Rightarrow>
            do { r \<leftarrow> print_token_amount v (Some symbol) decimals TEXT_BUFFER_LENGTH; print_text r D }
        | ItemI64 v \<Rightarrow> print_text (print_i64 v TEXT_BUFFER_LENGTH) D
        | ItemU64 v \<Rightarrow> print_text (print_u64 v TEXT_BUFFER_LENGTH) D
        | ItemPubkey p \<Rightarrow>
            do { (rc, tmp_buf) \<leftarrow> encode_base58 (take PUBKEY_SIZE (bytes p)) BASE58_PUBKEY_LENGTH;
                 if rc \<noteq> 0 then Some (rc, D)
                 else if long_pubkeys then print_text (print_string (c_str tmp_buf) TEXT_BUFFER_LENGTH) D
                 else print_text (print_summary (c_str tmp_buf) BASE58_PUBKEY_SHORT SUMMARY_LENGTH SUMMARY_LENGTH) D }
        | ItemHash p \<Rightarrow>
            do { r \<leftarrow> encode_base58 (take HASH_SIZE (bytes p)) TEXT_BUFFER_LENGTH; print_text r D }
        | ItemString s \<Rightarrow>
            do { (_, D) \<leftarrow> print_text (print_string s TEXT_BUFFER_LENGTH) D; Some (0, D) }
        | ItemSizedString s \<Rightarrow>
            do { (_, D) \<leftarrow> print_text (print_sized_string s TEXT_BUFFER_LENGTH) D; Some (0, D) }
        | ItemTimestamp v \<Rightarrow> print_text (print_timestamp v TEXT_BUFFER_LENGTH) D
        | ItemApplicationDomain p \<Rightarrow>
            do { r \<leftarrow> encode_base58 (take OFFCHAIN_MESSAGE_APPLICATION_DOMAIN_LENGTH (bytes p)) TEXT_BUFFER_LENGTH;
                 print_text r D })
       (\<lambda>D. Some (0, D\<lparr>title_buffer := overwrite (snd (print_string (item_title item) TITLE_SIZE)) (title_buffer D)\<rparr>))"

definition transaction_summary_display_item :: "TransactionSummary \<Rightarrow> nat \<Rightarrow> bool \<Rightarrow> Display \<Rightarrow> Display c_result" where
  "transaction_summary_display_item S item_index long_pubkeys D =
     (case transaction_summary_find_item S item_index of
        None \<Rightarrow> Some (1, D)
      | Some item \<Rightarrow> transaction_summary_update_display_for_item item long_pubkeys D)"

definition shown_title :: "Display \<Rightarrow> string" where "shown_title D = c_str (title_buffer D)"
definition shown_text :: "Display \<Rightarrow> string" where "shown_text D = c_str (text_buffer D)"

section \<open>What the buffers show\<close>

text \<open>Bytes read as characters.\<close>

definition chars_of :: "u8 list \<Rightarrow> string" where "chars_of bs = map (\<lambda>b. char_of (unat b)) bs"

lemma c_str_overwrite: "NUL \<notin> set s \<Longrightarrow> c_str (overwrite (s @ [NUL]) b) = s"
  by (induction s) (auto simp: c_str_def overwrite_def takeWhile_append)

lemma c_str_append_NUL: "NUL \<notin> set s \<Longrightarrow> c_str (s @ NUL # t) = s"
  by (auto simp: c_str_def takeWhile_append)

lemma print_string_fits:
  assumes "NUL \<notin> set s" "length s < n"
  shows "print_string s n = (0, s @ replicate (n - length s) NUL)"
proof -
  have "strncpy s n = s @ replicate (n - length s) NUL"
    using assms by (simp add: strncpy_def c_str_no_NUL take_append take_replicate)
  then show ?thesis using assms by (simp add: print_string_def Let_def)
qed

lemma c_str_print_string:
  assumes "NUL \<notin> set s" "length s < n"
  shows "c_str (overwrite (snd (print_string s n)) b) = s"
proof -
  obtain k where "n - length s = Suc k" using assms(2) by (cases "n - length s") auto
  then show ?thesis using assms by (simp add: print_string_fits overwrite_def c_str_append_NUL)
qed

text \<open>A title is a literal of the code that fits its buffer.\<close>

definition plain :: "nat \<Rightarrow> string \<Rightarrow> bool" where "plain n s \<longleftrightarrow> NUL \<notin> set s \<and> length s < n"

lemma display_title:
  assumes "transaction_summary_update_display_for_item item long D = Some (0, D')" "plain TITLE_SIZE (item_title item)"
  shows "shown_title D' = item_title item"
proof -
  have "bail_if r (\<lambda>D. Some (0, D\<lparr>title_buffer := f (title_buffer D)\<rparr>)) = Some (0, D') \<Longrightarrow> \<exists>b. title_buffer D' = f b" for r f
    by (auto simp: bail_if_def split: option.splits if_splits prod.splits)
  from this [OF assms(1) [unfolded transaction_summary_update_display_for_item_def]] show ?thesis
    using assms(2) by (auto simp: shown_title_def plain_def c_str_print_string)
qed

text \<open>An item that can not be shown leaves the title of the item before it.\<close>

lemma failed_display_title:
  assumes "transaction_summary_update_display_for_item item long D = Some (rc, D')" "rc \<noteq> 0"
  shows "title_buffer D' = title_buffer D"
  using assms
  by (cases "item_value item")
    (auto simp: transaction_summary_update_display_for_item_def print_text_def bail_if_def bind_eq_Some_conv
      split: if_splits option.splits)

lemma reset_display_title: "shown_title transaction_summary_reset_display = []"
  by (simp add: shown_title_def transaction_summary_reset_display_def TITLE_SIZE_def c_str_def NUL_def)

lemma c_str_overwrite_plain: "plain n s \<Longrightarrow> c_str (overwrite (s @ [NUL]) b) = s"
  by (simp add: plain_def c_str_overwrite)

lemma key_text:
  assumes "length key = 32"
  obtains s where "encode_base58 key 45 = Some (0, s @ [NUL])" "val58 s = val256 key" "plain 45 s"
proof -
  obtain s where s: "encode_base58 key 45 = Some (0, s @ [NUL])" "val58 s = val256 key" "length s \<le> 44"
    "set s \<subseteq> set BASE58_ALPHABET"
    using base58_pubkey [OF assms] by blast
  then have "NUL \<notin> set s" using alphabet_no_NUL by blast
  then show ?thesis using that s by (simp add: plain_def)
qed

lemmas display_sizes = TITLE_SIZE_def BASE58_PUBKEY_LENGTH_def TEXT_BUFFER_LENGTH_def SUMMARY_LENGTH_def
  BASE58_PUBKEY_SHORT_def PUBKEY_SIZE_def HASH_SIZE_def OFFCHAIN_MESSAGE_APPLICATION_DOMAIN_LENGTH_def

text \<open>The text of a value, when it can be shown: the contract of the printers, without buffers.\<close>

definition text_of :: "SummaryValue \<Rightarrow> string \<Rightarrow> bool" where
  "text_of v s = (case v of
       ItemAmount a \<Rightarrow> \<exists>i f. amount_digits SOL_DECIMALS (unat a) i f \<and> s = amount_text i f (Some ''SOL'')
     | ItemTokenAmount a symbol decimals \<Rightarrow>
         \<exists>i f. amount_digits decimals (unat a) i f \<and> s = amount_text i f (Some symbol)
     | ItemI64 n \<Rightarrow> \<exists>t. decimal (nat \<bar>sint n\<bar>) t \<and> s = (if sint n < 0 then ''-'' else []) @ t
     | ItemU64 n \<Rightarrow> decimal (unat n) s
     | ItemPubkey p \<Rightarrow> encode_base58 (take PUBKEY_SIZE (bytes p)) 45 = Some (0, s @ [NUL])
     | ItemHash p \<Rightarrow> encode_base58 (take HASH_SIZE (bytes p)) 45 = Some (0, s @ [NUL])
     | ItemString t \<Rightarrow> s = t
     | ItemTimestamp n \<Rightarrow> print_timestamp n 45 = (0, s @ [NUL])
     | ItemApplicationDomain p \<Rightarrow>
         encode_base58 (take OFFCHAIN_MESSAGE_APPLICATION_DOMAIN_LENGTH (bytes p)) 45 = Some (0, s @ [NUL])
     | _ \<Rightarrow> False)"

definition key_bytes :: "SummaryValue \<Rightarrow> bool" where
  "key_bytes v = (case v of ItemPubkey p \<Rightarrow> 32 \<le> length (bytes p) | ItemHash p \<Rightarrow> 32 \<le> length (bytes p)
     | ItemApplicationDomain p \<Rightarrow> 32 \<le> length (bytes p) | _ \<Rightarrow> True)"

definition fits :: "SummaryValue \<Rightarrow> bool" where
  "fits v = (case v of
       ItemNone \<Rightarrow> False
     | ItemTokenAmount _ symbol decimals \<Rightarrow> max 20 (unat decimals + 1) + length symbol + 3 \<le> 45
     | ItemTimestamp n \<Rightarrow> - 62135596800 \<le> sint n \<and> sint n < 253402300800
     | _ \<Rightarrow> key_bytes v)"

lemma display_run:
  assumes "print_text r D = Some (0, D1)"
    and "transaction_summary_update_display_for_item item long D = bail_if (print_text r D)
       (\<lambda>D. Some (0, D\<lparr>title_buffer := overwrite (snd (print_string (item_title item) TITLE_SIZE)) (title_buffer D)\<rparr>))"
  shows "\<exists>D'. transaction_summary_update_display_for_item item long D = Some (0, D')
    \<and> text_buffer D' = overwrite (snd r) (text_buffer D)"
  using assms by (auto simp: print_text_def)

lemma print_text_ok: "fst r = 0 \<Longrightarrow> print_text r D = Some (0, D\<lparr>text_buffer := overwrite (snd r) (text_buffer D)\<rparr>)"
  by (simp add: print_text_def)

lemma overwrite_parts:
  "title_buffer (D\<lparr>text_buffer := t\<rparr>) = title_buffer D" "text_buffer (D\<lparr>title_buffer := t\<rparr>) = text_buffer D"
  by simp_all

lemma print_summary_ok: "fst (print_summary s BASE58_PUBKEY_SHORT SUMMARY_LENGTH SUMMARY_LENGTH) = 0"
  by (simp add: print_summary_def display_sizes)

lemma item_displayed:
  assumes "fits (item_value item)"
  shows "\<exists>D'. transaction_summary_update_display_for_item item long D = Some (0, D')"
proof -
  have key: "\<exists>s. encode_base58 (take 32 (bytes p)) 45 = Some (0, s @ [NUL])" if "32 \<le> length (bytes p)" for p
    using key_text [of "take 32 (bytes p)"] that by fastforce
  have amount: "\<exists>t. print_token_amount v (Some symbol) decimals 45 = Some (0, t)"
    if "max 20 (unat decimals + 1) + length symbol + 3 \<le> 45" for v symbol decimals
  proof -
    have "max 20 (unat decimals + 1) + 2 < 45" using that by linarith
    from print_token_amount_fits [OF this, of "Some symbol" v] that show ?thesis by (auto simp: INT_MAX_def)
  qed
  have sol: "\<exists>t. print_amount v 45 = Some (0, t)" for v
    using amount [of SOL_DECIMALS "''SOL''" v] by (simp add: print_amount_def SOL_DECIMALS_def)
  have ints: "\<exists>t. print_u64 u 45 = (0, t)" "\<exists>t. print_i64 i 45 = (0, t)" for u i
    using integers_exact [of 45 u i] by (auto simp: INT_MAX_def)
  note eval = transaction_summary_update_display_for_item_def print_text_def display_sizes fits_def key_bytes_def
  have long: "fst (print_string (c_str t) 45) = 0" if "encode_base58 (take 32 (bytes p)) 45 = Some (0, t)"
    "32 \<le> length (bytes p)" for t p
  proof -
    obtain s where s: "encode_base58 (take 32 (bytes p)) 45 = Some (0, s @ [NUL])" "plain 45 s"
      using key_text [of "take 32 (bytes p)"] \<open>32 \<le> length (bytes p)\<close> by auto
    then have "c_str t = s" using that(1) by (simp add: plain_def c_str_NUL)
    then show ?thesis using s(2) by (simp add: plain_def print_string_fits)
  qed
  show ?thesis
  proof (cases "item_value item")
    case ItemNone
    then show ?thesis using assms by (simp add: fits_def)
  next
    case (ItemAmount v)
    then show ?thesis using sol [of v] by (auto simp: eval)
  next
    case (ItemTokenAmount v symbol decimals)
    then show ?thesis using amount [of decimals symbol v] assms by (auto simp: eval)
  next
    case (ItemI64 n)
    then show ?thesis using ints(2) [of n] by (auto simp: eval)
  next
    case (ItemU64 n)
    then show ?thesis using ints(1) [of n] by (auto simp: eval)
  next
    case (ItemPubkey p)
    then show ?thesis
      using key [of p] long [of p] assms print_summary_ok [unfolded display_sizes] by (auto simp: eval)
  next
    case (ItemHash p)
    then show ?thesis using key [of p] assms by (auto simp: eval)
  next
    case (ItemTimestamp n)
    then show ?thesis using assms timestamp_shown [of n 45] by (auto simp: eval)
  next
    case (ItemApplicationDomain p)
    then show ?thesis using key [of p] assms by (auto simp: eval)
  qed (simp_all add: eval)
qed

text \<open>C21: Every item whose value fits the screen is displayed, with long keys and with shortened ones: keys
  and hashes of 32 bytes, amounts of SOL, integers and strings always; token amounts while their
  decimals and their ticker leave room in the 45 characters; dates up to the year 9999.\<close>

theorem fitting_items_are_displayed:
  assumes "fits (item_value item)"
  shows "\<exists>D'. transaction_summary_update_display_for_item item long D = Some (0, D')"
  using assms by (rule item_displayed)
theorem fitting_items_are_displayed_witness:
  "(\<exists>D'. transaction_summary_update_display_for_item \<lparr>item_title = ''Deadline'', item_value = ItemTimestamp 1700000000\<rparr>
       True \<lparr>title_buffer = replicate 32 NUL, text_buffer = replicate 45 NUL\<rparr> = Some (0, D'))
   \<and> (\<exists>D'. transaction_summary_update_display_for_item
        \<lparr>item_title = ''Amount'', item_value = ItemTokenAmount 1500000 ''USDC'' 6\<rparr>
       True \<lparr>title_buffer = replicate 32 NUL, text_buffer = replicate 45 NUL\<rparr> = Some (0, D'))"
  by (intro conjI fitting_items_are_displayed) (simp_all add: fits_def)

section \<open>The text identifies the value\<close>

lemma no_NUL_decimal: "decimal n t \<Longrightarrow> NUL \<notin> set t"
  using not_digits(3) by (auto simp: decimal_def list_all_iff)

lemma display_text_buffer:
  assumes "bail_if (Some (rc, D1)) (\<lambda>D. Some (0, D\<lparr>title_buffer := f (title_buffer D)\<rparr>)) = Some (0, D')"
  shows "rc = 0 \<and> text_buffer D' = text_buffer D1"
  using assms by (auto simp: bail_if_def split: if_splits)

lemma display_text_bind:
  assumes "bail_if (r \<bind> (\<lambda>r. print_text r D)) (\<lambda>D. Some (0, D\<lparr>title_buffer := f (title_buffer D)\<rparr>)) = Some (0, D')"
  shows "\<exists>w. r = Some (0, w) \<and> text_buffer D' = overwrite w (text_buffer D)"
  using assms by (cases r) (auto simp: bail_if_def print_text_def split: if_splits)

lemma display_text_print:
  assumes "bail_if (print_text r D) (\<lambda>D. Some (0, D\<lparr>title_buffer := f (title_buffer D)\<rparr>)) = Some (0, D')"
  shows "\<exists>w. r = (0, w) \<and> text_buffer D' = overwrite w (text_buffer D)"
  using assms by (cases r) (auto simp: bail_if_def print_text_def split: if_splits)

definition plain_value :: "SummaryValue \<Rightarrow> bool" where
  "plain_value v = (case v of ItemString s \<Rightarrow> plain 45 s | ItemTokenAmount _ symbol _ \<Rightarrow> NUL \<notin> set symbol
     | ItemSizedString _ \<Rightarrow> False | ItemTimestamp _ \<Rightarrow> False | _ \<Rightarrow> key_bytes v)"

lemma displayed_text:
  assumes "transaction_summary_update_display_for_item item True D = Some (0, D')" "plain_value (item_value item)"
  shows "text_of (item_value item) (shown_text D')"
proof -
  note run = assms(1) [unfolded transaction_summary_update_display_for_item_def]
  have amount: "\<exists>i f. amount_digits decimals (unat v) i f \<and> c_str (overwrite w b) = amount_text i f (Some symbol)"
    if p: "print_token_amount v (Some symbol) decimals n = Some (0, w)" and "NUL \<notin> set symbol" for v symbol decimals n w b
  proof -
    obtain i f where t: "amount_digits decimals (unat v) i f" "w = amount_text i f (Some symbol) @ [NUL]"
      using print_token_amount_ok [OF p] by blast
    have "NUL \<notin> set (amount_text i f (Some symbol))" using amount_text_no_NUL [OF t(1)] that(2) by blast
    then show ?thesis using t c_str_overwrite by blast
  qed
  have ints: "\<exists>s. print_u64 u 45 = (0, s @ [NUL]) \<and> decimal (unat u) s"
    "\<exists>s. print_i64 i 45 = (0, (if sint i < 0 then ''-'' else []) @ s @ [NUL]) \<and> decimal (nat \<bar>sint i\<bar>) s" for u i
    using integers_exact [of 45 u i] by (auto simp: INT_MAX_def)
  have key: "\<exists>s. w = s @ [NUL] \<and> c_str w = s \<and> c_str (overwrite w b) = s \<and> plain 45 s
      \<and> encode_base58 (take 32 (bytes p)) 45 = Some (0, s @ [NUL])"
    if "encode_base58 (take 32 (bytes p)) 45 = Some (0, w)" "32 \<le> length (bytes p)" for p w b
  proof -
    obtain s where s: "encode_base58 (take 32 (bytes p)) 45 = Some (0, s @ [NUL])" "plain 45 s"
      using key_text [of "take 32 (bytes p)"] \<open>32 \<le> length (bytes p)\<close> by auto
    then show ?thesis using that(1) by (auto simp: c_str_overwrite_plain) (auto simp: plain_def c_str_NUL)
  qed
  show ?thesis
  proof (cases "item_value item")
    case (ItemAmount v)
    then show ?thesis
      using display_text_bind [OF run [unfolded ItemAmount, simplified]] amount [of v "''SOL''" SOL_DECIMALS]
      by (fastforce simp: text_of_def shown_text_def print_amount_def NUL_def)
  next
    case (ItemTokenAmount v symbol decimals)
    then show ?thesis
      using display_text_bind [OF run [unfolded ItemTokenAmount, simplified]] amount [of v symbol decimals] assms(2)
      by (fastforce simp: text_of_def shown_text_def plain_value_def)
  next
    case (ItemI64 n)
    obtain w s where w: "text_buffer D' = overwrite w (text_buffer D)" "decimal (nat \<bar>sint n\<bar>) s"
      "w = ((if sint n < 0 then ''-'' else []) @ s) @ [NUL]"
      using display_text_print [OF run [unfolded ItemI64, simplified]] ints(2) [of n] by (auto simp: display_sizes)
    have "NUL \<notin> set ((if sint n < 0 then ''-'' else []) @ s)" using no_NUL_decimal [OF w(2)] by (simp add: NUL_def)
    then have "shown_text D' = (if sint n < 0 then ''-'' else []) @ s"
      unfolding shown_text_def w(1,3) by (rule c_str_overwrite)
    then show ?thesis using w(2) ItemI64 by (simp add: text_of_def)
  next
    case (ItemU64 n)
    obtain w s where w: "text_buffer D' = overwrite (s @ [NUL]) (text_buffer D)" "decimal (unat n) s"
      using display_text_print [OF run [unfolded ItemU64, simplified]] ints(1) [of n] by (auto simp: display_sizes)
    then show ?thesis using ItemU64 no_NUL_decimal [OF w(2)] by (simp add: text_of_def shown_text_def c_str_overwrite)
  next
    case (ItemPubkey p)
    then have p: "32 \<le> length (bytes p)" using assms(2) by (simp add: plain_value_def key_bytes_def)
    obtain s where s: "encode_base58 (take 32 (bytes p)) 45 = Some (0, s @ [NUL])" "plain 45 s"
      using key_text [of "take 32 (bytes p)"] p by auto
    then have "c_str (s @ [NUL]) = s" by (simp add: plain_def c_str_NUL)
    then have r: "bail_if (print_text (print_string s 45) D)
        (\<lambda>D. Some (0, D\<lparr>title_buffer := overwrite (snd (print_string (item_title item) 32)) (title_buffer D)\<rparr>)) = Some (0, D')"
      using run s(1) by (simp add: ItemPubkey display_sizes)
    have "text_buffer D' = overwrite (snd (print_string s 45)) (text_buffer D)"
      using display_text_print [OF r] by auto
    then have "shown_text D' = s" using s(2) by (simp add: shown_text_def plain_def c_str_print_string)
    then show ?thesis using s(1) ItemPubkey by (simp add: text_of_def display_sizes)
  next
    case (ItemHash p)
    then have p: "32 \<le> length (bytes p)" using assms(2) by (simp add: plain_value_def key_bytes_def)
    show ?thesis
      using display_text_bind [OF run [unfolded ItemHash, simplified]] key [OF _ p] ItemHash
      by (fastforce simp: text_of_def shown_text_def display_sizes)
  next
    case (ItemString s)
    then have "plain 45 s" using assms(2) by (simp add: plain_value_def)
    then show ?thesis
      using run ItemString by (auto simp: text_of_def shown_text_def display_sizes print_text_def plain_def c_str_print_string)
  next
    case (ItemApplicationDomain p)
    then have p: "32 \<le> length (bytes p)" using assms(2) by (simp add: plain_value_def key_bytes_def)
    show ?thesis
      using display_text_bind [OF run [unfolded ItemApplicationDomain, simplified]] key [OF _ p] ItemApplicationDomain
      by (fastforce simp: text_of_def shown_text_def display_sizes)
  qed (use assms run in \<open>auto simp: plain_value_def key_bytes_def\<close>)
qed

lemma base58_inject:
  assumes "encode_base58 a 45 = Some (0, t)" "encode_base58 b 45 = Some (0, t)" "length a = 32" "length b = 32"
  shows "a = b"
proof -
  obtain s where s: "encode_base58 a 45 = Some (0, s @ [NUL])" "val58 s = val256 a" using key_text [OF assms(3)] .
  obtain u where u: "encode_base58 b 45 = Some (0, u @ [NUL])" "val58 u = val256 b" using key_text [OF assms(4)] .
  have "s @ [NUL] = u @ [NUL]" using assms(1,2) s(1) u(1) by simp
  then have "s = u" by simp
  then show ?thesis using s(2) u(2) assms(3,4) by (intro val256_inject) auto
qed

lemma decimal_inject: "decimal n s \<Longrightarrow> decimal m s \<Longrightarrow> n = m"
  by (simp add: decimal_def)

lemma decimal_no_minus: "decimal n (CHR ''-'' # s) = False"
  by (simp add: decimal_def is_digit_def)

definition same_kind :: "SummaryValue \<Rightarrow> SummaryValue \<Rightarrow> bool" where
  "same_kind v v' = (item_kind v = item_kind v' \<and>
     (case (v, v') of (ItemTokenAmount _ symbol decimals, ItemTokenAmount _ symbol' decimals') \<Rightarrow>
        symbol = symbol' \<and> decimals = decimals' | _ \<Rightarrow> True))"

text \<open>Equal values: keys are compared by their 32 bytes, wherever they are.\<close>

definition same_value :: "SummaryValue \<Rightarrow> SummaryValue \<Rightarrow> bool" where
  "same_value v v' = (case (v, v') of
       (ItemPubkey p, ItemPubkey q) \<Rightarrow> take 32 (bytes p) = take 32 (bytes q)
     | (ItemHash p, ItemHash q) \<Rightarrow> take 32 (bytes p) = take 32 (bytes q)
     | (ItemApplicationDomain p, ItemApplicationDomain q) \<Rightarrow> take 32 (bytes p) = take 32 (bytes q)
     | _ \<Rightarrow> v = v')"

lemma text_of_inject:
  assumes "text_of v s" "text_of v' s" "same_kind v v'" "plain_value v" "plain_value v'"
  shows "same_value v v'"
proof -
  have key: "take 32 (bytes p) = take 32 (bytes q)"
    if "encode_base58 (take 32 (bytes p)) 45 = Some (0, s @ [NUL])" "encode_base58 (take 32 (bytes q)) 45 = Some (0, s @ [NUL])"
      "32 \<le> length (bytes p)" "32 \<le> length (bytes q)" for p q
  proof -
    have "length (take 32 (bytes p)) = 32" "length (take 32 (bytes q)) = 32" using that(3,4) by simp_all
    then show ?thesis using base58_inject that(1,2) by blast
  qed
  show ?thesis
  proof (cases v)
    case (ItemI64 n)
    then obtain n' where v': "v' = ItemI64 n'" using assms(3) by (cases v') (auto simp: same_kind_def)
    obtain t where t: "decimal (nat \<bar>sint n\<bar>) t" "s = (if sint n < 0 then ''-'' else []) @ t"
      using assms(1) ItemI64 by (auto simp: text_of_def)
    obtain t' where t': "decimal (nat \<bar>sint n'\<bar>) t'" "s = (if sint n' < 0 then ''-'' else []) @ t'"
      using assms(2) v' by (auto simp: text_of_def)
    have "sint n < 0 \<longleftrightarrow> sint n' < 0"
      using t t' decimal_no_minus by (cases "sint n < 0"; cases "sint n' < 0") auto
    moreover then have "t = t'" using t(2) t'(2) by (simp split: if_splits)
    then have "nat \<bar>sint n\<bar> = nat \<bar>sint n'\<bar>" using t(1) t'(1) by (simp add: decimal_def)
    ultimately have "sint n = sint n'" by linarith
    then show ?thesis using ItemI64 v' by (simp add: same_value_def signed_word_eqI)
  next
    case (ItemAmount a)
    then obtain a' where v': "v' = ItemAmount a'" using assms(3) by (cases v') (auto simp: same_kind_def)
    obtain i f i' f' where "amount_digits SOL_DECIMALS (unat a) i f" "s = amount_text i f (Some ''SOL'')"
      "amount_digits SOL_DECIMALS (unat a') i' f'" "s = amount_text i' f' (Some ''SOL'')"
      using assms(1,2) ItemAmount v' assms(3) by (auto simp: text_of_def same_kind_def)
    then have "unat a = unat a'" using amount_digits_inject by metis
    then show ?thesis using ItemAmount v' assms(3) by (simp add: same_value_def same_kind_def word_unat_eq_iff)
  next
    case (ItemTokenAmount a sy de)
    then obtain a' sy' de' where v': "v' = ItemTokenAmount a' sy' de'" using assms(3) by (cases v') (auto simp: same_kind_def)
    obtain i f i' f' where "amount_digits de (unat a) i f" "s = amount_text i f (Some sy)"
      "amount_digits de (unat a') i' f'" "s = amount_text i' f' (Some sy)"
      using assms(1,2) ItemTokenAmount v' assms(3) by (auto simp: text_of_def same_kind_def)
    then have "unat a = unat a'" using amount_digits_inject by metis
    then show ?thesis using ItemTokenAmount v' assms(3) by (simp add: same_value_def same_kind_def word_unat_eq_iff)
  next
    case (ItemU64 n)
    then obtain n' where v': "v' = ItemU64 n'" using assms(3) by (cases v') (auto simp: same_kind_def)
    then show ?thesis using assms(1,2) ItemU64 decimal_inject by (auto simp: text_of_def same_value_def word_unat_eq_iff)
  next
    case (ItemPubkey p)
    then obtain p' where v': "v' = ItemPubkey p'" using assms(3) by (cases v') (auto simp: same_kind_def)
    then show ?thesis
      using assms(1,2,4,5) key [of p p'] ItemPubkey by (simp add: text_of_def same_value_def plain_value_def key_bytes_def display_sizes)
  next
    case (ItemHash p)
    then obtain p' where v': "v' = ItemHash p'" using assms(3) by (cases v') (auto simp: same_kind_def)
    then show ?thesis
      using assms(1,2,4,5) key [of p p'] ItemHash by (simp add: text_of_def same_value_def plain_value_def key_bytes_def display_sizes)
  next
    case (ItemApplicationDomain p)
    then obtain p' where v': "v' = ItemApplicationDomain p'" using assms(3) by (cases v') (auto simp: same_kind_def)
    then show ?thesis
      using assms(1,2,4,5) key [of p p'] ItemApplicationDomain by (simp add: text_of_def same_value_def plain_value_def key_bytes_def display_sizes)
  next
    case (ItemString t)
    then obtain t' where v': "v' = ItemString t'" using assms(3) by (cases v') (auto simp: same_kind_def)
    then show ?thesis using assms(1,2) ItemString by (simp add: text_of_def same_value_def)
  qed (use assms(4) in \<open>auto simp: plain_value_def\<close>, use assms(1) in \<open>auto simp: text_of_def\<close>)
qed

text \<open>A shortened key shows the two ends of its text.\<close>

definition shortened :: "string \<Rightarrow> string" where
  "shortened s = (if 16 < length s then take 7 s @ ''..'' @ drop (length s - 7) s else s)"

definition same_ends :: "string \<Rightarrow> string \<Rightarrow> bool" where
  "same_ends s t \<longleftrightarrow> take 7 s = take 7 t \<and> drop (length s - 7) s = drop (length t - 7) t"

lemma shortened_same_ends:
  assumes "shortened s = shortened t" "CHR ''.'' \<notin> set s" "CHR ''.'' \<notin> set t"
  shows "same_ends s t"
proof (cases "16 < length s \<longleftrightarrow> 16 < length t")
  case True
  then show ?thesis
    using assms(1) by (auto simp: shortened_def same_ends_def split: if_splits)
next
  case False
  then have "CHR ''.'' \<in> set s \<or> CHR ''.'' \<in> set t"
    using arg_cong [OF assms(1), of set] by (auto simp: shortened_def split: if_splits)
  then show ?thesis using assms(2,3) by simp
qed

lemma short_key_displayed:
  assumes "transaction_summary_update_display_for_item item False D = Some (0, D')"
    and "item_value item = ItemPubkey p" "32 \<le> length (bytes p)"
  obtains s where "text_of (ItemPubkey p) s" "shown_text D' = shortened s" "CHR ''.'' \<notin> set s"
proof -
  obtain s where s: "encode_base58 (take 32 (bytes p)) 45 = Some (0, s @ [NUL])" "length s \<le> 44"
    "set s \<subseteq> set BASE58_ALPHABET"
    using base58_pubkey [of "take 32 (bytes p)"] assms(3) by auto
  have dot: "CHR ''.'' \<notin> set s" using s(3) by (auto simp: BASE58_ALPHABET_def)
  have nul: "NUL \<notin> set s" using s(3) alphabet_no_NUL by blast
  then have cut: "c_str (s @ [NUL]) = s" by (simp add: c_str_NUL)
  have "shown_text D' = c_str (overwrite (snd (print_summary s 17 7 7)) (text_buffer D))"
    using display_text_print [OF assms(1) [unfolded transaction_summary_update_display_for_item_def assms(2)
          SummaryValue.case display_sizes, simplified s(1) cut bind.bind_lunit prod.case, simplified]]
    by (auto simp: shown_text_def)
  also have "... = shortened s"
  proof (cases "16 < length s")
    case True
    have "NUL \<notin> set (take 7 s @ ''..'' @ drop (length s - 7) s)"
      using nul by (auto simp: NUL_def dest: in_set_takeD in_set_dropD)
    from c_str_overwrite [OF this, of "text_buffer D"] show ?thesis
      using True by (simp add: print_summary_def shortened_def)
  next
    case False
    then show ?thesis using nul by (simp add: print_summary_def shortened_def c_str_print_string)
  qed
  finally show ?thesis using that s(1) dot by (simp add: text_of_def display_sizes)
qed

lemma only_keys_shortened:
  "item_kind (item_value item) \<noteq> SummaryItemPubkey \<Longrightarrow>
   transaction_summary_update_display_for_item item long D = transaction_summary_update_display_for_item item True D"
  by (cases "item_value item") (simp_all add: transaction_summary_update_display_for_item_def)

text \<open>C11: What the screen shows identifies the value, as far as the display mode allows. Let two items of one
  kind (and of one ticker and number of decimals, for token amounts) be displayed with the same text, their
  keys and hashes having 32 bytes and their strings fewer than 45 characters. Then they hold the same
  amount, the same integer, the same string or the same hash or domain, byte for byte, in both modes of the
  display; and the same key, byte for byte, when keys are displayed in full. In the mode that shortens
  the keys their base58 texts agree in the first seven and in the last seven characters and may
  differ between. Dates and strings with an explicit size, which can be cut, are left aside.\<close>

theorem screen_text_identifies_value:
  assumes "transaction_summary_update_display_for_item item long D = Some (0, E)"
    and "transaction_summary_update_display_for_item item' long D' = Some (0, E')"
    and "same_kind (item_value item) (item_value item')" "plain_value (item_value item)" "plain_value (item_value item')"
    and "shown_text E = shown_text E'"
  shows "if long \<or> item_kind (item_value item) \<noteq> SummaryItemPubkey
    then same_value (item_value item) (item_value item')
    else \<exists>s s'. text_of (item_value item) s \<and> text_of (item_value item') s' \<and> same_ends s s'"
proof (cases "long \<or> item_kind (item_value item) \<noteq> SummaryItemPubkey")
  case True
  have "item_kind (item_value item) = item_kind (item_value item')" using assms(3) by (simp add: same_kind_def)
  then have runs: "transaction_summary_update_display_for_item item True D = Some (0, E)"
    "transaction_summary_update_display_for_item item' True D' = Some (0, E')"
    using assms(1,2) True only_keys_shortened [of item long] only_keys_shortened [of item' long] by auto
  have "same_value (item_value item) (item_value item')"
    using displayed_text [OF runs(1) assms(4)] displayed_text [OF runs(2) assms(5)] assms(3-6)
    by (auto intro: text_of_inject)
  then show ?thesis using True by simp
next
  case False
  then obtain p p' where keys: "item_value item = ItemPubkey p" "item_value item' = ItemPubkey p'"
    using assms(3) by (cases "item_value item"; cases "item_value item'") (auto simp: same_kind_def)
  then have "32 \<le> length (bytes p)" "32 \<le> length (bytes p')"
    using assms(4,5) by (simp_all add: plain_value_def key_bytes_def)
  from short_key_displayed [OF _ keys(1) this(1)] short_key_displayed [OF _ keys(2) this(2)]
  obtain s s' where "text_of (ItemPubkey p) s" "shown_text E = shortened s" "CHR ''.'' \<notin> set s"
    "text_of (ItemPubkey p') s'" "shown_text E' = shortened s'" "CHR ''.'' \<notin> set s'"
    using assms(1,2) False by metis
  moreover from this have "same_ends s s'" using assms(6) by (intro shortened_same_ends) simp_all
  ultimately show ?thesis using False keys by auto
qed

text \<open>Two keys of which only the last byte differs are told apart by their shortened texts.\<close>

lemma sample_key_texts:
  "encode_base58 (replicate 32 0) 45 = Some (0, replicate 32 CHR ''1'' @ [NUL])"
  "encode_base58 (replicate 31 0 @ [1]) 45 = Some (0, replicate 31 CHR ''1'' @ ''2'' @ [NUL])"
  by code_simp+

theorem screen_text_identifies_value_witness:
  "(\<exists>E E'. transaction_summary_update_display_for_item \<lparr>item_title = ''Amount'', item_value = ItemAmount 7\<rparr> True
      \<lparr>title_buffer = [], text_buffer = []\<rparr> = Some (0, E)
    \<and> transaction_summary_update_display_for_item \<lparr>item_title = ''Amount'', item_value = ItemAmount 8\<rparr> True
      \<lparr>title_buffer = [], text_buffer = []\<rparr> = Some (0, E') \<and> shown_text E \<noteq> shown_text E')
   \<and> (\<exists>E E'. transaction_summary_update_display_for_item
        \<lparr>item_title = ''To'', item_value = ItemPubkey (Ptr 0 (replicate 32 0))\<rparr> False
      \<lparr>title_buffer = [], text_buffer = []\<rparr> = Some (0, E)
    \<and> transaction_summary_update_display_for_item
        \<lparr>item_title = ''To'', item_value = ItemPubkey (Ptr 0 (replicate 31 0 @ [1]))\<rparr> False
      \<lparr>title_buffer = [], text_buffer = []\<rparr> = Some (0, E') \<and> shown_text E \<noteq> shown_text E')"
proof (rule conjI)
  let ?D = "\<lparr>title_buffer = [], text_buffer = []\<rparr>"
  let ?item = "\<lambda>n. \<lparr>item_title = ''Amount'', item_value = ItemAmount n\<rparr>"
  obtain E where E: "transaction_summary_update_display_for_item (?item 7) True ?D = Some (0, E)"
    using item_displayed [of "?item 7" True ?D] by (auto simp: fits_def key_bytes_def)
  obtain E' where E': "transaction_summary_update_display_for_item (?item 8) True ?D = Some (0, E')"
    using item_displayed [of "?item 8" True ?D] by (auto simp: fits_def key_bytes_def)
  have "shown_text E \<noteq> shown_text E'"
    using screen_text_identifies_value [OF E E'] by (auto simp: same_kind_def plain_value_def key_bytes_def same_value_def)
  then show "\<exists>E E'. transaction_summary_update_display_for_item (?item 7) True ?D = Some (0, E)
    \<and> transaction_summary_update_display_for_item (?item 8) True ?D = Some (0, E') \<and> shown_text E \<noteq> shown_text E'"
    using E E' by blast
next
  let ?D = "\<lparr>title_buffer = [], text_buffer = []\<rparr>"
  let ?key = "\<lambda>k. \<lparr>item_title = ''To'', item_value = ItemPubkey (Ptr 0 k)\<rparr>"
  obtain E where E: "transaction_summary_update_display_for_item (?key (replicate 32 0)) False ?D = Some (0, E)"
    using item_displayed [of "?key (replicate 32 0)" False ?D] by (auto simp: fits_def key_bytes_def)
  obtain E' where E': "transaction_summary_update_display_for_item (?key (replicate 31 0 @ [1])) False ?D = Some (0, E')"
    using item_displayed [of "?key (replicate 31 0 @ [1])" False ?D] by (auto simp: fits_def key_bytes_def)
  have "shown_text E \<noteq> shown_text E'"
    using screen_text_identifies_value [OF E E'] sample_key_texts
    by (auto simp: same_kind_def plain_value_def key_bytes_def text_of_def display_sizes same_ends_def
        eval_nat_numeral)
  then show "\<exists>E E'. transaction_summary_update_display_for_item (?key (replicate 32 0)) False ?D = Some (0, E)
    \<and> transaction_summary_update_display_for_item (?key (replicate 31 0 @ [1])) False ?D = Some (0, E')
    \<and> shown_text E \<noteq> shown_text E'" using E E' by blast
qed

end
