(* ===== verification/Sol_Apdu.thy ===== *)
theory Sol_Apdu
  imports Sol_Parser
begin

text \<open>
  The reception of commands, \<open>src/apdu.c\<close>: the header of an APDU, the derivation path in front of
  the first chunk and the reassembly of a message from its chunks into the global command, with
  \<open>read_derivation_path\<close> and \<open>get_pubkey_index\<close> of \<open>src/utils.c\<close> and the first half of \<open>handle_apdu\<close>
  of \<open>src/main_application.c\<close>. Then: chunks rebuild the message, and no command completes with a
  derivation path outside m/44'/501'.
\<close>

section \<open>Codes\<close>

definition CLA :: u8 where "CLA = 0xE0"
definition OFFSET_CLA :: nat where "OFFSET_CLA = 0"
definition OFFSET_INS :: nat where "OFFSET_INS = 1"
definition OFFSET_P1 :: nat where "OFFSET_P1 = 2"
definition OFFSET_P2 :: nat where "OFFSET_P2 = 3"
definition OFFSET_LC :: nat where "OFFSET_LC = 4"
definition OFFSET_CDATA :: nat where "OFFSET_CDATA = 5"
definition DEPRECATED_OFFSET_CDATA :: nat where "DEPRECATED_OFFSET_CDATA = 6"
definition P1_NON_CONFIRM :: u8 where "P1_NON_CONFIRM = 0x00"
definition P2_EXTEND :: u8 where "P2_EXTEND = 0x01"
definition P2_MORE :: u8 where "P2_MORE = 0x02"
definition P2_IS_ATA_OR_TOKEN_ACCOUNT :: u8 where "P2_IS_ATA_OR_TOKEN_ACCOUNT = 0x08"
definition MAX_BIP32_PATH_LENGTH :: nat where "MAX_BIP32_PATH_LENGTH = 5"
definition PACKET_DATA_SIZE :: nat where "PACKET_DATA_SIZE = 15 * 1024 - 40 - 8"
definition MAX_DERIVATION_PATH_BUFFER_LENGTH :: nat where
  "MAX_DERIVATION_PATH_BUFFER_LENGTH = 1 + MAX_BIP32_PATH_LENGTH * 4"
definition TOTAL_SIGN_MESSAGE_BUFFER_LENGTH :: nat where
  "TOTAL_SIGN_MESSAGE_BUFFER_LENGTH = PACKET_DATA_SIZE + MAX_DERIVATION_PATH_BUFFER_LENGTH"
definition ROUND_TO_NEXT :: "nat \<Rightarrow> nat \<Rightarrow> nat" where
  "ROUND_TO_NEXT x m = (if x = 0 then 0 else ((x - 1) div m + 1) * m)"

text \<open>The size of the message buffer is rounded to a multiple of the segment size of the SDK, a parameter.\<close>

definition MAX_MESSAGE_LENGTH :: "nat \<Rightarrow> nat" where
  "MAX_MESSAGE_LENGTH usb_segment_size = ROUND_TO_NEXT TOTAL_SIGN_MESSAGE_BUFFER_LENGTH usb_segment_size"

definition InsDeprecatedGetAppConfiguration :: u8 where "InsDeprecatedGetAppConfiguration = 0x01"
definition InsDeprecatedGetPubkey :: u8 where "InsDeprecatedGetPubkey = 0x02"
definition InsDeprecatedSignMessage :: u8 where "InsDeprecatedSignMessage = 0x03"
definition InsGetAppConfiguration :: u8 where "InsGetAppConfiguration = 0x04"
definition InsGetPubkey :: u8 where "InsGetPubkey = 0x05"
definition InsSignMessage :: u8 where "InsSignMessage = 0x06"
definition InsSignOffchainMessage :: u8 where "InsSignOffchainMessage = 0x07"
definition InsSignMessagePreview :: u8 where "InsSignMessagePreview = 0x08"
definition InsSignMessageDelayed :: u8 where "InsSignMessageDelayed = 0x09"
definition InsTrustedInfoProvideInstructionDescriptor :: u8 where "InsTrustedInfoProvideInstructionDescriptor = 0x16"
definition InsTrustedInfoGetChallenge :: u8 where "InsTrustedInfoGetChallenge = 0x20"
definition InsTrustedInfoProvideInfo :: u8 where "InsTrustedInfoProvideInfo = 0x21"
definition InsTrustedInfoProvideDynamicDescriptor :: u8 where "InsTrustedInfoProvideDynamicDescriptor = 0x22"

lemmas ins_codes = InsDeprecatedGetAppConfiguration_def InsDeprecatedGetPubkey_def InsDeprecatedSignMessage_def
  InsGetAppConfiguration_def InsGetPubkey_def InsSignMessage_def InsSignOffchainMessage_def InsSignMessagePreview_def
  InsSignMessageDelayed_def InsTrustedInfoProvideInstructionDescriptor_def InsTrustedInfoGetChallenge_def
  InsTrustedInfoProvideInfo_def InsTrustedInfoProvideDynamicDescriptor_def

lemmas apdu_sizes = OFFSET_CLA_def OFFSET_INS_def OFFSET_P1_def OFFSET_P2_def OFFSET_LC_def OFFSET_CDATA_def
  DEPRECATED_OFFSET_CDATA_def CLA_def P1_NON_CONFIRM_def P2_EXTEND_def P2_MORE_def P2_IS_ATA_OR_TOKEN_ACCOUNT_def
  MAX_BIP32_PATH_LENGTH_def

datatype ApduState = ApduStateUninitialized | ApduStatePayloadInProgress | ApduStatePayloadComplete

datatype ApduReply = ApduReplySdkException | ApduReplySdkInvalidParameter | ApduReplySdkNotSupported
  | ApduReplySdkExceptionIoOverflow | ApduReplyNoApduReceived | ApduReplyUserRefusal
  | ApduReplySolanaInvalidMessage | ApduReplySolanaInvalidMessageHeader | ApduReplySolanaInvalidMessageFormat
  | ApduReplySolanaInvalidMessageSize | ApduReplySolanaInvalidDerivationPath
  | ApduReplySolanaSummaryFinalizeFailed | ApduReplySolanaSummaryUpdateFailed
  | ApduReplySolanaInvalidInstructionDescriptor | ApduReplySolanaInvalidTrustedInfo
  | ApduReplySolanaInvalidDynamicToken | ApduReplySolanaDelayedPreviewNotFound
  | ApduReplySolanaDelayedHashMismatch | ApduReplySolanaDelayedLengthMismatch
  | ApduReplySolanaDelayedDerivationMismatch | ApduReplyUnimplementedInstruction | ApduReplyInvalidCla
  | ApduReplySuccess

text \<open>A status is \<open>None\<close> for zero and the reply code otherwise.\<close>

type_synonym status = "ApduReply option"

record ApduHeader =
  hdr_class :: u8
  hdr_instruction :: u8
  hdr_p1 :: u8
  hdr_p2 :: u8
  hdr_data :: "u8 list option"
  hdr_deprecated_host :: bool

text \<open>
  The bytes of \<open>message[]\<close> received so far are \<open>cmd_message\<close>, so \<open>message_length\<close> is its length; the rest
  of the array is zero since the last \<open>explicit_bzero\<close>. The path is the part of \<open>derivation_path[]\<close>
  that \<open>derivation_path_length\<close> covers. A hash not yet computed is empty.
\<close>

record apdu_command_t =
  cmd_state :: ApduState
  cmd_instruction :: u8
  num_derivation_paths :: u8
  derivation_path :: "u32 list"
  non_confirm :: bool
  is_preview_mode :: bool
  deprecated_host :: bool
  cmd_user_input_is_ata_or_token_account :: bool
  message_hash :: "u8 list"
  cmd_message :: "u8 list"

definition cleared_command :: apdu_command_t where
  "cleared_command = \<lparr>cmd_state = ApduStateUninitialized, cmd_instruction = 0, num_derivation_paths = 0,
     derivation_path = [], non_confirm = False, is_preview_mode = False, deprecated_host = False,
     cmd_user_input_is_ata_or_token_account = False, message_hash = [], cmd_message = []\<rparr>"
section \<open>The header\<close>

text \<open>Two bytes and four bytes in big-endian order, the macro \<open>U2BE\<close> of the SDK and the shifts of \<open>read_derivation_path\<close>.\<close>

definition be16 :: "u8 list \<Rightarrow> nat \<Rightarrow> nat" where
  "be16 bs i = unat (bs ! i) * 256 + unat (bs ! (i + 1))"

definition be32 :: "u8 list \<Rightarrow> u32" where
  "be32 bs = push_bit 24 (ucast (bs ! 0)) OR push_bit 16 (ucast (bs ! 1)) OR push_bit 8 (ucast (bs ! 2)) OR ucast (bs ! 3)"

definition is_deprecated_instruction :: "u8 \<Rightarrow> bool" where
  "is_deprecated_instruction ins \<longleftrightarrow> ins \<in> {InsDeprecatedGetAppConfiguration, InsDeprecatedGetPubkey, InsDeprecatedSignMessage}"

definition is_modern_instruction :: "u8 \<Rightarrow> bool" where
  "is_modern_instruction ins \<longleftrightarrow> ins \<in> {InsGetAppConfiguration, InsGetPubkey, InsSignMessage, InsSignOffchainMessage,
     InsSignMessagePreview, InsSignMessageDelayed, InsTrustedInfoProvideInstructionDescriptor,
     InsTrustedInfoGetChallenge, InsTrustedInfoProvideInfo, InsTrustedInfoProvideDynamicDescriptor}"

text \<open>The tests of the lengths and the reads at fixed offsets.\<close>

definition parse_apdu_fields :: "u8 list \<Rightarrow> bool \<Rightarrow> nat \<Rightarrow> nat \<Rightarrow> nat \<Rightarrow> ApduReply + ApduHeader" where
  "parse_apdu_fields apdu deprecated data_offset max_len data_length_size =
     (if length apdu < data_offset then Inl ApduReplySolanaInvalidMessageSize
      else if length apdu > max_len then Inl ApduReplySolanaInvalidMessageSize
      else let data_length = (if data_length_size = 2 then be16 apdu OFFSET_LC else unat (apdu ! OFFSET_LC))
      in if length apdu \<noteq> data_length + data_offset then Inl ApduReplySolanaInvalidMessageSize
      else Inr \<lparr>hdr_class = apdu ! OFFSET_CLA, hdr_instruction = apdu ! OFFSET_INS, hdr_p1 = apdu ! OFFSET_P1,
        hdr_p2 = apdu ! OFFSET_P2, hdr_data = (if data_length > 0 then Some (drop data_offset apdu) else None),
        hdr_deprecated_host = deprecated\<rparr>)"

definition parse_apdu_header :: "u8 list \<Rightarrow> ApduReply + ApduHeader" where
  "parse_apdu_header apdu =
     (if length apdu \<le> OFFSET_INS then Inl ApduReplySolanaInvalidMessageSize
      else if apdu ! OFFSET_CLA \<noteq> CLA then Inl ApduReplySolanaInvalidMessageHeader
      else let ins = apdu ! OFFSET_INS
      in if is_deprecated_instruction ins then parse_apdu_fields apdu True DEPRECATED_OFFSET_CDATA 65535 2
      else if is_modern_instruction ins then parse_apdu_fields apdu False OFFSET_CDATA (255 + OFFSET_CDATA) 1
      else Inl ApduReplyUnimplementedInstruction)"

definition split_allowed_for_instruction :: "u8 \<Rightarrow> bool" where
  "split_allowed_for_instruction ins \<longleftrightarrow> ins = InsDeprecatedSignMessage \<or> ins = InsSignMessage
     \<or> ins = InsSignOffchainMessage \<or> ins = InsSignMessagePreview \<or> ins = InsSignMessageDelayed
     \<or> ins = InsTrustedInfoProvideInfo \<or> ins = InsTrustedInfoProvideDynamicDescriptor"

definition instruction_with_derivation_path_in_first_apdu :: "u8 \<Rightarrow> bool" where
  "instruction_with_derivation_path_in_first_apdu ins \<longleftrightarrow> ins \<noteq> InsTrustedInfoProvideInfo
     \<and> ins \<noteq> InsTrustedInfoProvideDynamicDescriptor \<and> ins \<noteq> InsTrustedInfoProvideInstructionDescriptor"

definition instruction_without_payload :: "u8 \<Rightarrow> bool" where
  "instruction_without_payload ins \<longleftrightarrow> ins = InsDeprecatedGetAppConfiguration \<or> ins = InsGetAppConfiguration
     \<or> ins = InsTrustedInfoGetChallenge"

definition instruction_with_only_derivation_path_in_payload :: "u8 \<Rightarrow> bool" where
  "instruction_with_only_derivation_path_in_payload ins \<longleftrightarrow> ins = InsDeprecatedGetPubkey \<or> ins = InsGetPubkey"

section \<open>The derivation path\<close>

definition BIP32_HARDENED_MASK :: u32 where "BIP32_HARDENED_MASK = 0x80000000"

fun read_path :: "nat \<Rightarrow> u8 list \<Rightarrow> u32 list" where
  "read_path 0 bs = []"
| "read_path (Suc n) bs = be32 bs # read_path n (drop 4 bs)"

text \<open>
  The status, and the path written: the path is written before the policy is checked, and nothing is
  before.
\<close>

definition read_derivation_path :: "u8 list option \<Rightarrow> status \<times> u32 list option" where
  "read_derivation_path data_buffer =
     (case data_buffer of
        None \<Rightarrow> (Some ApduReplySdkInvalidParameter, None)
      | Some bs \<Rightarrow>
          if bs = [] then (Some ApduReplySolanaInvalidMessageSize, None)
          else let len = unat (hd bs)
          in if len < 1 \<or> len > MAX_BIP32_PATH_LENGTH then (Some ApduReplySolanaInvalidMessage, None)
          else if 1 + 4 * len > length bs then (Some ApduReplySolanaInvalidMessageSize, None)
          else let path = read_path len (tl bs)
          in if len < 2 \<or> path ! 0 \<noteq> BIP32_HARDENED_MASK OR 44 \<or> path ! 1 \<noteq> BIP32_HARDENED_MASK OR 501
             then (Some ApduReplySolanaInvalidDerivationPath, Some path)
             else (None, Some path))"

text \<open>The index of a key in the first \<open>n\<close> keys of an array.\<close>

fun get_pubkey_index_from :: "nat \<Rightarrow> u8 list \<Rightarrow> byte_ptr \<Rightarrow> nat \<Rightarrow> nat option" where
  "get_pubkey_index_from i needle haystack 0 = None"
| "get_pubkey_index_from i needle haystack (Suc n) =
     (if memcmp (bytes (header_pubkey haystack i)) needle = 0 then Some i
      else get_pubkey_index_from (i + 1) needle haystack n)"

definition get_pubkey_index :: "u8 list \<Rightarrow> byte_ptr \<Rightarrow> nat \<Rightarrow> nat option" where
  "get_pubkey_index needle haystack haystack_len = get_pubkey_index_from 0 needle haystack haystack_len"

section \<open>One APDU\<close>

definition start_command :: "ApduHeader \<Rightarrow> ApduState \<Rightarrow> apdu_command_t" where
  "start_command header state = cleared_command\<lparr>cmd_state := state, cmd_instruction := hdr_instruction header,
     non_confirm := (hdr_p1 header = P1_NON_CONFIRM), deprecated_host := hdr_deprecated_host header\<rparr>"

definition same_command :: "ApduHeader \<Rightarrow> apdu_command_t \<Rightarrow> bool" where
  "same_command header cmd \<longleftrightarrow> cmd_state cmd = ApduStatePayloadInProgress \<and> cmd_instruction cmd = hdr_instruction header
     \<and> non_confirm cmd = (hdr_p1 header = P1_NON_CONFIRM) \<and> deprecated_host cmd = hdr_deprecated_host header"

text \<open>
  The path in front of the first chunk; the data after it. \<open>Inl\<close> returns the status with the command as it
  is by then.
\<close>

definition data_list :: "u8 list option \<Rightarrow> u8 list" where
  "data_list buf = (case buf of None \<Rightarrow> [] | Some bs \<Rightarrow> bs)"

definition next_or_return :: "'e + 'a \<Rightarrow> ('a \<Rightarrow> 'e + 'b) \<Rightarrow> 'e + 'b" where
  "next_or_return r k = (case r of Inl e \<Rightarrow> Inl e | Inr x \<Rightarrow> k x)"

lemma next_or_return_simps [simp]: "next_or_return (Inl e) k = Inl e" "next_or_return (Inr x) k = k x"
  by (simp_all add: next_or_return_def)

definition take_path_count :: "ApduHeader \<Rightarrow> apdu_command_t
    \<Rightarrow> (ApduReply \<times> apdu_command_t) + (u8 list option \<times> apdu_command_t)" where
  "take_path_count header cmd =
     (if \<not> hdr_deprecated_host header \<and> hdr_instruction header \<noteq> InsGetPubkey
      then let bs = data_list (hdr_data header)
           in if bs = [] then Inl (ApduReplySolanaInvalidMessageSize, cmd)
              else let cmd = cmd\<lparr>num_derivation_paths := hd bs\<rparr>
              in if hd bs \<noteq> 1 then Inl (ApduReplySolanaInvalidMessage, cmd) else Inr (Some (tl bs), cmd)
      else Inr (hdr_data header, cmd\<lparr>num_derivation_paths := 1\<rparr>))"

definition take_derivation_path :: "ApduHeader \<Rightarrow> bool \<Rightarrow> apdu_command_t
    \<Rightarrow> (ApduReply \<times> apdu_command_t) + (u8 list option \<times> apdu_command_t)" where
  "take_derivation_path header first_data_chunk cmd =
     (if \<not> instruction_with_derivation_path_in_first_apdu (hdr_instruction header) then Inr (hdr_data header, cmd)
      else if first_data_chunk
      then next_or_return (take_path_count header cmd)
        (\<lambda>(data, cmd). case read_derivation_path data of
             (Some reply, path) \<Rightarrow> Inl (reply, cmd\<lparr>derivation_path := (case path of None \<Rightarrow> [] | Some p \<Rightarrow> p)\<rparr>)
           | (None, None) \<Rightarrow> Inr (data, cmd)
           | (None, Some path) \<Rightarrow>
               Inr (Some (drop (1 + length path * 4) (data_list data)), cmd\<lparr>derivation_path := path\<rparr>))
      else if num_derivation_paths cmd \<noteq> 1 then Inl (ApduReplySolanaInvalidMessage, cmd)
      else Inr (hdr_data header, cmd))"

definition strip_length_prefix :: "ApduHeader \<Rightarrow> u8 list option \<Rightarrow> apdu_command_t \<Rightarrow> (ApduReply \<times> apdu_command_t) + u8 list option" where
  "strip_length_prefix header buf cmd =
     (if hdr_instruction header = InsDeprecatedSignMessage
      then (if length (data_list buf) < 2 then Inl (ApduReplySolanaInvalidMessageSize, cmd)
            else let data_len = be16 (data_list buf) 0; rest = drop 2 (data_list buf)
                 in if length rest \<noteq> data_len then Inl (ApduReplySolanaInvalidMessageSize, cmd) else Inr (Some rest))
      else Inr buf)"

definition append_data :: "nat \<Rightarrow> ApduHeader \<Rightarrow> u8 list option \<Rightarrow> apdu_command_t \<Rightarrow> (ApduReply \<times> apdu_command_t) + apdu_command_t" where
  "append_data max_length header buf cmd =
     (case buf of
        Some bs \<Rightarrow> if length (cmd_message cmd) + length bs \<ge> max_length then Inl (ApduReplySolanaInvalidMessageSize, cmd)
                   else Inr (cmd\<lparr>cmd_message := cmd_message cmd @ bs\<rparr>)
      | None \<Rightarrow> if \<not> instruction_without_payload (hdr_instruction header)
                   \<and> \<not> instruction_with_only_derivation_path_in_payload (hdr_instruction header)
                then Inl (ApduReplySolanaInvalidMessageSize, cmd) else Inr cmd)"

definition complete_command :: "ApduHeader \<Rightarrow> apdu_command_t \<Rightarrow> apdu_command_t" where
  "complete_command header cmd =
     (if hdr_p2 header AND P2_MORE = 0
      then cmd\<lparr>cmd_state := ApduStatePayloadComplete,
        cmd_user_input_is_ata_or_token_account := (hdr_p2 header AND P2_IS_ATA_OR_TOKEN_ACCOUNT \<noteq> 0)\<rparr>
      else cmd)"

definition apdu_handle_message :: "nat \<Rightarrow> u8 list \<Rightarrow> apdu_command_t \<Rightarrow> status \<times> apdu_command_t" where
  "apdu_handle_message max_length apdu cmd =
     (case parse_apdu_header apdu of
        Inl reply \<Rightarrow> (Some reply, cmd)
      | Inr header \<Rightarrow>
          if instruction_without_payload (hdr_instruction header)
          then (None, start_command header ApduStatePayloadComplete)
          else let first_data_chunk = (hdr_p2 header AND P2_EXTEND = 0 \<or> \<not> split_allowed_for_instruction (hdr_instruction header))
          in if \<not> first_data_chunk \<and> \<not> same_command header cmd then (Some ApduReplySolanaInvalidMessage, cmd)
          else let cmd = (if first_data_chunk then start_command header ApduStatePayloadInProgress else cmd)
          in case next_or_return (take_derivation_path header first_data_chunk cmd)
               (\<lambda>(data, cmd). next_or_return (strip_length_prefix header data cmd) (\<lambda>data. append_data max_length header data cmd)) of
               Inl (reply, cmd) \<Rightarrow> (Some reply, cmd)
             | Inr cmd \<Rightarrow> (None, complete_command header cmd))"

text \<open>
  \<open>handle_apdu\<close> up to the dispatch: a rejected command is cleared, so that what it left cannot be
  extended; a chunk that is not the last one is acknowledged.
\<close>

datatype reception = Rejected ApduReply | Continue | Dispatch

definition receive_apdu :: "nat \<Rightarrow> u8 list \<Rightarrow> apdu_command_t \<Rightarrow> reception \<times> apdu_command_t" where
  "receive_apdu max_length apdu cmd =
     (case apdu_handle_message max_length apdu cmd of
        (Some reply, _) \<Rightarrow> (Rejected reply, cleared_command)
      | (None, cmd) \<Rightarrow> if cmd_state cmd = ApduStatePayloadInProgress then (Continue, cmd) else (Dispatch, cmd))"
section \<open>Completed commands carry a Solana path\<close>

text \<open>What the policy of derivation paths requires: m/44'/501' and at most three more components.\<close>

definition solana_path :: "u32 list \<Rightarrow> bool" where
  "solana_path path \<longleftrightarrow> 2 \<le> length path \<and> length path \<le> 5 \<and> path ! 0 = 0x8000002C \<and> path ! 1 = 0x800001F5"

lemma length_read_path [simp]: "length (read_path n bs) = n"
  by (induction n arbitrary: bs) auto

lemma hardened_codes: "BIP32_HARDENED_MASK OR 44 = 0x8000002C" "BIP32_HARDENED_MASK OR 501 = 0x800001F5"
  by (simp_all add: BIP32_HARDENED_MASK_def)

lemma read_derivation_path_policy:
  "read_derivation_path bs = (None, p) \<Longrightarrow> \<exists>path. p = Some path \<and> solana_path path"
  by (auto simp: read_derivation_path_def solana_path_def hardened_codes MAX_BIP32_PATH_LENGTH_def Let_def not_less
      split: option.splits if_splits)

text \<open>
  The invariant of the command kept between two APDUs: as long as a command is in progress or complete and
  is one of those that carry a path, its path is a Solana path; its message fits the buffer with the
  NUL after it.
\<close>

definition command_ok :: "nat \<Rightarrow> apdu_command_t \<Rightarrow> bool" where
  "command_ok max_length cmd \<longleftrightarrow>
     (cmd_state cmd \<noteq> ApduStateUninitialized \<and> instruction_with_derivation_path_in_first_apdu (cmd_instruction cmd)
        \<and> \<not> instruction_without_payload (cmd_instruction cmd) \<longrightarrow> solana_path (derivation_path cmd))
     \<and> (cmd_message cmd = [] \<or> length (cmd_message cmd) < max_length)"

lemma command_ok_cleared [simp]: "command_ok m cleared_command"
  by (simp add: command_ok_def cleared_command_def)

lemma command_ok_without_payload: "instruction_without_payload (hdr_instruction h) \<Longrightarrow> command_ok m (start_command h st)"
  by (simp add: command_ok_def start_command_def cleared_command_def)

definition path_ready :: "ApduHeader \<Rightarrow> apdu_command_t \<Rightarrow> bool" where
  "path_ready header cmd \<longleftrightarrow> cmd_instruction cmd = hdr_instruction header \<and> cmd_state cmd \<noteq> ApduStateUninitialized
     \<and> (instruction_with_derivation_path_in_first_apdu (hdr_instruction header) \<longrightarrow> solana_path (derivation_path cmd))"

lemma take_path_ready:
  assumes "take_derivation_path header first cmd = Inr (d, cmd')" "cmd_instruction cmd = hdr_instruction header" "cmd_state cmd \<noteq> ApduStateUninitialized"
    and "\<not> first \<Longrightarrow> path_ready header cmd"
  shows "path_ready header cmd' \<and> cmd_message cmd' = cmd_message cmd"
  using assms
  by (auto simp: take_derivation_path_def path_ready_def next_or_return_def take_path_count_def Let_def
      dest!: read_derivation_path_policy split: if_splits sum.splits option.splits prod.splits)

lemma append_ready:
  assumes "append_data m header d cmd = Inr cmd'" "path_ready header cmd" "cmd_message cmd = [] \<or> length (cmd_message cmd) < m"
  shows "path_ready header cmd' \<and> (cmd_message cmd' = [] \<or> length (cmd_message cmd') < m)"
  using assms by (auto simp: append_data_def path_ready_def split: option.splits if_splits)

lemma handle_message_ok:
  assumes "apdu_handle_message m apdu cmd = (None, cmd')" "command_ok m cmd"
  shows "command_ok m cmd' \<and> cmd_state cmd' \<noteq> ApduStateUninitialized"
proof -
  obtain header where header: "parse_apdu_header apdu = Inr header"
    using assms(1) by (auto simp: apdu_handle_message_def split: sum.splits)
  show ?thesis
  proof (cases "instruction_without_payload (hdr_instruction header)")
    case True
    then show ?thesis
      using assms(1) header command_ok_without_payload by (auto simp: apdu_handle_message_def start_command_def)
  next
    case False
    define first where "first = (hdr_p2 header AND P2_EXTEND = 0 \<or> \<not> split_allowed_for_instruction (hdr_instruction header))"
    define cmd0 where "cmd0 = (if first then start_command header ApduStatePayloadInProgress else cmd)"
    have same: "\<not> first \<Longrightarrow> same_command header cmd"
      using assms(1) header False by (auto simp: apdu_handle_message_def Let_def first_def [symmetric] split: if_splits)
    obtain d cmd1 d' cmd2 where run: "take_derivation_path header first cmd0 = Inr (d, cmd1)"
      "strip_length_prefix header d cmd1 = Inr d'" "append_data m header d' cmd1 = Inr cmd2" "cmd' = complete_command header cmd2"
      using assms(1) header False same
      by (auto simp: apdu_handle_message_def Let_def first_def [symmetric] cmd0_def [symmetric] next_or_return_def
          split: if_splits sum.splits prod.splits)
    have "cmd_instruction cmd0 = hdr_instruction header" "cmd_state cmd0 \<noteq> ApduStateUninitialized"
      using same by (auto simp: cmd0_def start_command_def same_command_def)
    moreover have "path_ready header cmd0" if "\<not> first"
      using same that assms(2) False by (auto simp: cmd0_def path_ready_def same_command_def command_ok_def)
    ultimately have "path_ready header cmd1 \<and> cmd_message cmd1 = cmd_message cmd0"
      using take_path_ready [OF run(1)] by blast
    moreover have "cmd_message cmd0 = [] \<or> length (cmd_message cmd0) < m"
      using assms(2) by (auto simp: cmd0_def start_command_def cleared_command_def command_ok_def)
    ultimately have "path_ready header cmd2 \<and> (cmd_message cmd2 = [] \<or> length (cmd_message cmd2) < m)"
      using append_ready [OF run(3)] by simp
    then show ?thesis using run(4) by (auto simp: command_ok_def path_ready_def complete_command_def)
  qed
qed

text \<open>The command after a sequence of APDUs, from the cleared one.\<close>

definition after_apdus :: "nat \<Rightarrow> u8 list list \<Rightarrow> apdu_command_t" where
  "after_apdus m apdus = fold (\<lambda>apdu cmd. snd (receive_apdu m apdu cmd)) apdus cleared_command"

lemma receive_ok: "command_ok m cmd \<Longrightarrow> command_ok m (snd (receive_apdu m apdu cmd))"
  using handle_message_ok by (auto simp: receive_apdu_def split: prod.splits option.splits)

lemma after_apdus_ok: "command_ok m (after_apdus m apdus)"
proof -
  have "command_ok m cmd \<Longrightarrow> command_ok m (fold (\<lambda>apdu cmd. snd (receive_apdu m apdu cmd)) apdus cmd)" for cmd
    by (induction apdus arbitrary: cmd) (auto intro: receive_ok)
  then show ?thesis by (simp add: after_apdus_def)
qed

text \<open>C17: Whatever APDUs the host sends, a command that is dispatched and carries a derivation path (every
  command that derives a key or signs) has a path of two to five components that begins with
  44'/501', and its message is shorter than the buffer, so the NUL written after it is in bounds.\<close>

theorem dispatched_path_is_solana:
  assumes "receive_apdu m apdu (after_apdus m apdus) = (Dispatch, cmd)"
    and "instruction_with_derivation_path_in_first_apdu (cmd_instruction cmd)"
    and "\<not> instruction_without_payload (cmd_instruction cmd)"
  shows "solana_path (derivation_path cmd) \<and> (cmd_message cmd = [] \<or> length (cmd_message cmd) < m)"
proof -
  have ok: "command_ok m cmd" using receive_ok [OF after_apdus_ok, of m apdu apdus] assms(1) by simp
  have "apdu_handle_message m apdu (after_apdus m apdus) = (None, cmd)"
    using assms(1) by (auto simp: receive_apdu_def split: prod.splits option.splits if_splits)
  then have "cmd_state cmd \<noteq> ApduStateUninitialized" using handle_message_ok after_apdus_ok by blast
  then show ?thesis using ok assms(2,3) by (auto simp: command_ok_def)
qed

text \<open>The bytes of an APDU with a one-byte length.\<close>

definition enc_apdu :: "u8 \<Rightarrow> u8 \<Rightarrow> u8 \<Rightarrow> u8 list \<Rightarrow> u8 list" where
  "enc_apdu ins p1 p2 d = [0xE0, ins, p1, p2, of_nat (length d)] @ d"

definition enc_path :: "u32 list \<Rightarrow> u8 list" where
  "enc_path path = of_nat (length path) # concat (map (\<lambda>w. [ucast (drop_bit 24 w), ucast (drop_bit 16 w), ucast (drop_bit 8 w), ucast w]) path)"

definition sample_path :: "u32 list" where "sample_path = [0x8000002C, 0x800001F5, 0x80000000]"

lemma parse_enc_apdu:
  assumes "is_modern_instruction ins" "length d < 256"
  shows "parse_apdu_header (enc_apdu ins p1 p2 d) = Inr \<lparr>hdr_class = 0xE0, hdr_instruction = ins, hdr_p1 = p1, hdr_p2 = p2,
    hdr_data = (if d = [] then None else Some d), hdr_deprecated_host = False\<rparr>"
proof -
  have "\<not> is_deprecated_instruction ins"
    using assms(1) by (auto simp: is_modern_instruction_def is_deprecated_instruction_def ins_codes)
  moreover have "unat (of_nat (length d) :: u8) = length d" using assms(2) by (simp add: unat_of_nat)
  ultimately show ?thesis
    using assms by (auto simp: enc_apdu_def parse_apdu_header_def parse_apdu_fields_def apdu_sizes Let_def)
qed
lemma be32_bytes: "be32 ([ucast (drop_bit 24 w), ucast (drop_bit 16 w), ucast (drop_bit 8 w), ucast w] @ r) = w"
proof (rule bit_word_eqI)
  fix n assume "n < LENGTH(32)"
  then have "n < 8 \<or> 8 \<le> n \<and> n < 16 \<or> 16 \<le> n \<and> n < 24 \<or> 24 \<le> n \<and> n < 32" by auto
  then show "bit (be32 ([ucast (drop_bit 24 w), ucast (drop_bit 16 w), ucast (drop_bit 8 w), ucast w] @ r)) n = bit w n"
    by (elim disjE) (auto simp: be32_def bit_simps)
qed

lemma read_path_bytes:
  "read_path (length path) (concat (map (\<lambda>w. [ucast (drop_bit 24 w), ucast (drop_bit 16 w), ucast (drop_bit 8 w), ucast w]) path) @ r) = path"
proof (induction path)
  case (Cons w path)
  then show ?case using be32_bytes [of w] by simp
qed simp

lemma length_path_bytes:
  "length (concat (map (\<lambda>w. [ucast (drop_bit 24 w), ucast (drop_bit 16 w), ucast (drop_bit 8 w), ucast w :: u8]) (path :: u32 list))) = 4 * length path"
  by (induction path) auto

lemma read_derivation_path_enc:
  assumes "solana_path path"
  shows "read_derivation_path (Some (enc_path path @ r)) = (None, Some path)"
    and "drop (Suc (length path * 4)) (enc_path path @ r) = r" "length (enc_path path) = Suc (4 * length path)"
proof -
  have len: "unat (of_nat (length path) :: u8) = length path" using assms by (simp add: solana_path_def unat_of_nat)
  moreover have "path \<noteq> []" using assms by (auto simp: solana_path_def)
  ultimately show "read_derivation_path (Some (enc_path path @ r)) = (None, Some path)"
    using assms by (simp add: read_derivation_path_def enc_path_def Let_def read_path_bytes length_path_bytes
        solana_path_def hardened_codes MAX_BIP32_PATH_LENGTH_def)
  show "drop (Suc (length path * 4)) (enc_path path @ r) = r" "length (enc_path path) = Suc (4 * length path)"
    by (simp_all add: enc_path_def length_path_bytes)
qed

section \<open>Reassembly\<close>

text \<open>The instructions whose message follows a path in front of the first chunk and can be split.\<close>

definition split_with_path :: "u8 \<Rightarrow> bool" where
  "split_with_path ins \<longleftrightarrow> ins \<in> {InsSignMessage, InsSignOffchainMessage, InsSignMessagePreview, InsSignMessageDelayed}"

lemma split_with_path_facts:
  assumes "split_with_path ins"
  shows "is_modern_instruction ins" "\<not> instruction_without_payload ins" "split_allowed_for_instruction ins"
    "instruction_with_derivation_path_in_first_apdu ins" "ins \<noteq> InsGetPubkey" "ins \<noteq> InsDeprecatedSignMessage"
    "\<not> instruction_with_only_derivation_path_in_payload ins"
  using assms by (auto simp: split_with_path_def is_modern_instruction_def instruction_without_payload_def
      split_allowed_for_instruction_def instruction_with_derivation_path_in_first_apdu_def
      instruction_with_only_derivation_path_in_payload_def ins_codes)

definition more :: "bool \<Rightarrow> u8" where "more b = (if b then P2_MORE else 0)"

lemma p2_bits:
  "more b AND P2_EXTEND = 0" "(P2_EXTEND OR more b) AND P2_EXTEND \<noteq> 0" "more b AND P2_MORE = 0 \<longleftrightarrow> \<not> b"
  "(P2_EXTEND OR more b) AND P2_MORE = 0 \<longleftrightarrow> \<not> b" "more b AND P2_IS_ATA_OR_TOKEN_ACCOUNT = 0"
  "(P2_EXTEND OR more b) AND P2_IS_ATA_OR_TOKEN_ACCOUNT = 0"
  by (cases b; simp add: more_def P2_EXTEND_def P2_MORE_def P2_IS_ATA_OR_TOKEN_ACCOUNT_def)+

lemma p2_extend: "((P2_EXTEND OR more b) AND P2_EXTEND = 0) = False" "(P2_EXTEND = 0) = False"
  using p2_bits(2) [of b] by (simp_all add: P2_EXTEND_def)

definition command_with :: "u8 \<Rightarrow> bool \<Rightarrow> u32 list \<Rightarrow> u8 list \<Rightarrow> bool \<Rightarrow> apdu_command_t" where
  "command_with ins confirm path msg b = \<lparr>cmd_state = (if b then ApduStatePayloadInProgress else ApduStatePayloadComplete),
     cmd_instruction = ins, num_derivation_paths = 1, derivation_path = path, non_confirm = \<not> confirm, is_preview_mode = False,
     deprecated_host = False, cmd_user_input_is_ata_or_token_account = False, message_hash = [], cmd_message = msg\<rparr>"

lemma receive_first:
  assumes "split_with_path ins" "solana_path path" "length (enc_path path) + length chunk < 255" "length chunk < m"
  shows "receive_apdu m (enc_apdu ins p1 (more b) (1 # enc_path path @ chunk)) cmd
    = (if b then Continue else Dispatch, command_with ins (p1 \<noteq> 0) path chunk b)"
proof -
  have h: "parse_apdu_header (enc_apdu ins p1 (more b) (1 # enc_path path @ chunk)) = Inr \<lparr>hdr_class = 0xE0, hdr_instruction = ins,
      hdr_p1 = p1, hdr_p2 = more b, hdr_data = Some (1 # enc_path path @ chunk), hdr_deprecated_host = False\<rparr>"
    using parse_enc_apdu [OF split_with_path_facts(1) [OF assms(1)], of "1 # enc_path path @ chunk"] assms(3) by simp
  show ?thesis
    unfolding receive_apdu_def apdu_handle_message_def h
    using assms(4) split_with_path_facts [OF assms(1)] read_derivation_path_enc [OF assms(2)]
    by (simp add: p2_bits take_derivation_path_def take_path_count_def start_command_def strip_length_prefix_def
        append_data_def data_list_def complete_command_def cleared_command_def command_with_def P1_NON_CONFIRM_def)
qed

lemma receive_next:
  assumes "split_with_path ins" "chunk \<noteq> []" "length chunk < 256" "length msg + length chunk < m"
  shows "receive_apdu m (enc_apdu ins p1 (P2_EXTEND OR more b) chunk) (command_with ins (p1 \<noteq> 0) path msg True)
    = (if b then Continue else Dispatch, command_with ins (p1 \<noteq> 0) path (msg @ chunk) b)"
proof -
  have h: "parse_apdu_header (enc_apdu ins p1 (P2_EXTEND OR more b) chunk) = Inr \<lparr>hdr_class = 0xE0, hdr_instruction = ins,
      hdr_p1 = p1, hdr_p2 = P2_EXTEND OR more b, hdr_data = Some chunk, hdr_deprecated_host = False\<rparr>"
    using parse_enc_apdu [OF split_with_path_facts(1) [OF assms(1)] assms(3)] assms(2) by simp
  show ?thesis
    unfolding receive_apdu_def apdu_handle_message_def h
    using assms(4) split_with_path_facts [OF assms(1)]
    by (simp add: p2_extend p2_bits take_derivation_path_def strip_length_prefix_def same_command_def
        append_data_def complete_command_def command_with_def P1_NON_CONFIRM_def)
qed

fun next_chunks :: "u8 \<Rightarrow> u8 \<Rightarrow> u8 list list \<Rightarrow> u8 list list" where
  "next_chunks ins p1 [] = []"
| "next_chunks ins p1 (c # cs) = enc_apdu ins p1 (P2_EXTEND OR more (cs \<noteq> [])) c # next_chunks ins p1 cs"

definition enc_command :: "u8 \<Rightarrow> u8 \<Rightarrow> u32 list \<Rightarrow> u8 list \<Rightarrow> u8 list list \<Rightarrow> u8 list list" where
  "enc_command ins p1 path chunk cs = enc_apdu ins p1 (more (cs \<noteq> [])) (1 # enc_path path @ chunk) # next_chunks ins p1 cs"

lemma receive_chunks:
  assumes "split_with_path ins" "\<forall>c\<in>set cs. c \<noteq> [] \<and> length c < 256" "length msg + length (concat cs) < m"
  shows "fold (\<lambda>apdu cmd. snd (receive_apdu m apdu cmd)) (next_chunks ins p1 cs) (command_with ins (p1 \<noteq> 0) path msg (cs \<noteq> []))
    = command_with ins (p1 \<noteq> 0) path (msg @ concat cs) False"
  using assms(2,3)
proof (induction cs arbitrary: msg)
  case (Cons c cs)
  have "receive_apdu m (enc_apdu ins p1 (P2_EXTEND OR more (cs \<noteq> [])) c) (command_with ins (p1 \<noteq> 0) path msg True)
      = (if cs \<noteq> [] then Continue else Dispatch, command_with ins (p1 \<noteq> 0) path (msg @ c) (cs \<noteq> []))"
    using Cons.prems by (intro receive_next assms(1)) simp_all
  then show ?case using Cons.IH [of "msg @ c"] Cons.prems by simp
qed simp

text \<open>C14: A message split into chunks is put together as it was: whatever was received before, the chunks of a
  signing command, the first after the derivation path and every other one flagged as an extension,
  leave the command complete, with its path and with the concatenation of the chunks as its message.\<close>

theorem split_message_reassembled:
  assumes "split_with_path ins" "solana_path path" "length (enc_path path) + length chunk < 255"
    and "\<forall>c\<in>set cs. c \<noteq> [] \<and> length c < 256" "length chunk + length (concat cs) < m"
  shows "after_apdus m (history @ enc_command ins p1 path chunk cs)
    = command_with ins (p1 \<noteq> P1_NON_CONFIRM) path (chunk @ concat cs) False"
proof -
  have "receive_apdu m (enc_apdu ins p1 (more (cs \<noteq> [])) (1 # enc_path path @ chunk)) (after_apdus m history)
      = (if cs \<noteq> [] then Continue else Dispatch, command_with ins (p1 \<noteq> 0) path chunk (cs \<noteq> []))"
    using assms by (intro receive_first) simp_all
  then show ?thesis
    using receive_chunks [OF assms(1,4,5), of p1 path]
    by (simp add: after_apdus_def enc_command_def P1_NON_CONFIRM_def)
qed

theorem split_message_reassembled_witness:
  "after_apdus 15360 ([[0xE0]] @ enc_command InsSignMessage 1 sample_path [1, 2, 3] [[4, 5], [6]])
    = command_with InsSignMessage (1 \<noteq> P1_NON_CONFIRM) sample_path [1, 2, 3, 4, 5, 6] False"
proof -
  have "solana_path sample_path" by (simp add: solana_path_def sample_path_def)
  then show ?thesis
    using split_message_reassembled [of InsSignMessage sample_path "[1, 2, 3]" "[[4, 5], [6]]" 15360 "[[0xE0]]" 1]
    by (simp add: split_with_path_def read_derivation_path_enc(3)) (simp add: sample_path_def)
qed

theorem dispatched_path_is_solana_witness:
  "receive_apdu 15360 (enc_apdu InsSignMessage 1 0 (1 # enc_path sample_path @ [7])) (after_apdus 15360 [])
     = (Dispatch, command_with InsSignMessage True sample_path [7] False)
   \<and> solana_path (derivation_path (command_with InsSignMessage True sample_path [7] False))"
proof -
  have s: "solana_path sample_path" by (simp add: solana_path_def sample_path_def)
  have r: "receive_apdu 15360 (enc_apdu InsSignMessage 1 0 (1 # enc_path sample_path @ [7])) (after_apdus 15360 [])
      = (Dispatch, command_with InsSignMessage True sample_path [7] False)"
    using receive_first [of InsSignMessage sample_path "[7]" 15360 1 False] s
    by (simp add: split_with_path_def read_derivation_path_enc(3) more_def) (simp add: sample_path_def)
  have "instruction_with_derivation_path_in_first_apdu InsSignMessage" "\<not> instruction_without_payload InsSignMessage"
    using split_with_path_facts [of InsSignMessage] by (simp_all add: split_with_path_def)
  then show ?thesis using r dispatched_path_is_solana [OF r] by (simp add: command_with_def)
qed

end
