(* ===== verification/Sol_Trusted.thy ===== *)
theory Sol_Trusted
  imports Sol_Program_Ids
begin

text \<open>
  What the application knows of tokens and of the recipient of a transfer: the registry compiled
  into it (\<open>libsol/token_info.c\<close>), the token descriptor and the trusted information it may have
  received (\<open>src/dynamic_token_info.c\<close>, \<open>src/trusted_info.c\<close>) and the derivation of associated token
  accounts (\<open>src/ed25519_helpers.c\<close>).
\<close>

section \<open>The registry of tokens\<close>

type_synonym TokenInfo = "u8 list \<times> string"

text \<open>The table of the source, in parts of 23 lines.\<close>

definition TOKEN_REGISTRY_1 :: "TokenInfo list" where
  "TOKEN_REGISTRY_1 = [
    ([0x06, 0x9b, 0x88, 0x57, 0xfe, 0xab, 0x81, 0x84, 0xfb, 0x68, 0x7f, 0x63, 0x46, 0x18, 0xc0, 0x35,
      0xda, 0xc4, 0x39, 0xdc, 0x1a, 0xeb, 0x3b, 0x55, 0x98, 0xa0, 0xf0, 0x00, 0x00, 0x00, 0x00, 0x01], ''SOL''),
    ([0x04, 0x79, 0xd9, 0xc7, 0xcc, 0x10, 0x35, 0xde, 0x72, 0x11, 0xf9, 0x9e, 0xb4, 0x8c, 0x09, 0xd7,
      0x0b, 0x2b, 0xdf, 0x5b, 0xdf, 0x9e, 0x2e, 0x56, 0xb8, 0xa1, 0xfb, 0xb5, 0xa2, 0xea, 0x33, 0x27], ''JUP''),
    ([0xf5, 0xed, 0xec, 0x84, 0x71, 0xc7, 0x56, 0x24, 0xeb, 0xc4, 0x07, 0x9a, 0x63, 0x43, 0x26, 0xd9,
      0x6a, 0x68, 0x9e, 0x61, 0x57, 0xd7, 0x9a, 0xbe, 0x8f, 0x5a, 0x6f, 0x94, 0x47, 0x28, 0x53, 0xbc], ''PYTH''),
    ([0x69, 0x27, 0xfd, 0xc0, 0x1e, 0xa9, 0x06, 0xf9, 0x6d, 0x71, 0x37, 0x87, 0x4c, 0xdd, 0x7a, 0xda,
      0xd0, 0x0c, 0xa3, 0x57, 0x64, 0x61, 0x93, 0x10, 0xe5, 0x41, 0x96, 0xc7, 0x81, 0xd8, 0x4d, 0x5b], ''W''),
    ([0x0a, 0xfc, 0xf8, 0x96, 0x8b, 0x8d, 0xab, 0x88, 0x48, 0x1e, 0x2d, 0x2a, 0xe6, 0x89, 0xc9, 0x52,
      0xc7, 0x57, 0xae, 0xba, 0x64, 0x3e, 0x39, 0x19, 0xe8, 0x9f, 0x2e, 0x55, 0x79, 0x5c, 0x76, 0xc1], ''JTO''),
    ([0xc6, 0xfa, 0x7a, 0xf3, 0xbe, 0xdb, 0xad, 0x3a, 0x3d, 0x65, 0xf3, 0x6a, 0xab, 0xc9, 0x74, 0x31,
      0xb1, 0xbb, 0xe4, 0xc2, 0xd2, 0xf6, 0xe0, 0xe4, 0x7c, 0xa6, 0x02, 0x03, 0x45, 0x2f, 0x5d, 0x61], ''USDC''),
    ([0xce, 0x01, 0x0e, 0x60, 0xaf, 0xed, 0xb2, 0x27, 0x17, 0xbd, 0x63, 0x19, 0x2f, 0x54, 0x14, 0x5a,
      0x3f, 0x96, 0x5a, 0x33, 0xbb, 0x82, 0xd2, 0xc7, 0x02, 0x9e, 0xb2, 0xce, 0x1e, 0x20, 0x82, 0x64], ''USDT''),
    ([0xfc, 0xd1, 0x41, 0xe9, 0x83, 0x2c, 0xaf, 0x10, 0xad, 0x91, 0x74, 0x95, 0xca, 0x0f, 0x27, 0x1b,
      0x5b, 0x29, 0x3c, 0xd4, 0x70, 0x27, 0xea, 0x73, 0x70, 0x07, 0xed, 0x40, 0xeb, 0x39, 0xa0, 0xbd], ''JITOSOL''),
    ([0x05, 0x8b, 0xf1, 0xf0, 0x0d, 0x16, 0x7d, 0x3d, 0xf3, 0x14, 0x91, 0xda, 0xe2, 0x04, 0xd6, 0x00,
      0x6b, 0x9d, 0x59, 0x68, 0x70, 0xee, 0xcf, 0x5d, 0x30, 0x50, 0x35, 0xdf, 0x8a, 0x3f, 0x96, 0xdd], ''NEON''),
    ([0x06, 0xc1, 0x57, 0x71, 0x54, 0x65, 0x74, 0x9f, 0x07, 0x0a, 0x30, 0x0e, 0x6d, 0xf4, 0xb0, 0xd4,
      0xc9, 0xf0, 0x86, 0xfd, 0xe4, 0x27, 0xee, 0x20, 0x2e, 0x04, 0x71, 0x1f, 0xe6, 0x20, 0x87, 0x4b], ''TNSR''),
    ([0x37, 0x99, 0x8c, 0xcb, 0xf2, 0xd0, 0x45, 0x8b, 0x61, 0x5c, 0xbc, 0xc6, 0xb1, 0xa3, 0x67, 0xc4,
      0x74, 0x9e, 0x9f, 0xef, 0x73, 0x06, 0x62, 0x2e, 0x1b, 0x1b, 0x58, 0x91, 0x01, 0x20, 0xbc, 0x9a], ''RAY''),
    ([0x0b, 0x62, 0xba, 0x07, 0x4f, 0x72, 0x2c, 0x9d, 0x41, 0x14, 0xf2, 0xd8, 0xf7, 0x0a, 0x00, 0xc6,
      0x60, 0x02, 0x33, 0x7b, 0x9b, 0xf9, 0x0c, 0x87, 0x36, 0x57, 0xa6, 0xd2, 0x01, 0xdb, 0x4c, 0x80], ''mSOL''),
    ([0x0a, 0x73, 0x20, 0x93, 0x91, 0x85, 0x61, 0xf7, 0xdd, 0x7f, 0xcb, 0xec, 0x4a, 0xbd, 0x85, 0x13,
      0xde, 0xca, 0x1a, 0x96, 0x7f, 0x7a, 0xd7, 0xa3, 0x9d, 0x63, 0xb4, 0x1e, 0xd8, 0x93, 0x80, 0x8b], ''HNT''),
    ([0x08, 0x41, 0xd1, 0xde, 0xc7, 0x88, 0xd0, 0x8c, 0xc0, 0xe4, 0x48, 0xd2, 0xd6, 0xdf, 0x7a, 0xf6,
      0x94, 0xcd, 0x1c, 0x5a, 0x4d, 0x56, 0x76, 0xce, 0x91, 0x47, 0x55, 0x91, 0xe1, 0x88, 0xbf, 0x2e], ''ZEUS''),
    ([0x3a, 0x3e, 0x72, 0xb6, 0x7e, 0xa9, 0x4e, 0x17, 0x65, 0x00, 0x4e, 0xf6, 0x82, 0x44, 0xf6, 0xb0,
      0xb3, 0x2d, 0xdd, 0xe7, 0x43, 0xa3, 0x3b, 0x20, 0xf9, 0x14, 0x30, 0xe1, 0xe8, 0x17, 0xc1, 0xac], ''HONEY''),
    ([0x63, 0xab, 0xd0, 0x96, 0x70, 0x76, 0xf5, 0x8b, 0xa2, 0xed, 0xad, 0xb4, 0x1f, 0x10, 0x71, 0x9d,
      0xf1, 0x35, 0x4a, 0xbe, 0x11, 0x8f, 0x29, 0xa8, 0xf3, 0x0e, 0xe6, 0x63, 0x94, 0x74, 0xb9, 0x47], ''GMT''),
    ([0x31, 0x87, 0x42, 0x64, 0xbc, 0xf1, 0x4d, 0xc1, 0x0c, 0x59, 0x90, 0x38, 0x92, 0x8c, 0x3c, 0x17,
      0x9f, 0xac, 0x41, 0xfd, 0x25, 0x2b, 0x15, 0x5b, 0x40, 0xfb, 0x88, 0x8a, 0xd2, 0xf8, 0xf9, 0xae], ''PRCL''),
    ([0x0b, 0xbc, 0x22, 0x37, 0xbe, 0x47, 0x53, 0x50, 0xaf, 0xd9, 0x8b, 0xec, 0x57, 0x96, 0x8d, 0xa2,
      0xd8, 0xae, 0x7f, 0x47, 0x73, 0xf9, 0x7f, 0x67, 0x4c, 0x94, 0xa7, 0x2e, 0x02, 0xa5, 0xf5, 0xea], ''NOS''),
    ([0x08, 0xd2, 0xe9, 0x70, 0xf9, 0x3c, 0x7b, 0x3d, 0x50, 0x19, 0x1e, 0x61, 0x1a, 0xcd, 0x93, 0xaa,
      0x80, 0xa5, 0x46, 0xb4, 0x5e, 0xc9, 0x65, 0xe1, 0x8b, 0x05, 0x87, 0x15, 0x56, 0x99, 0xc8, 0xac], ''bSOL''),
    ([0x06, 0x3b, 0xa2, 0xf4, 0x69, 0x72, 0x05, 0xf5, 0x31, 0xb6, 0xde, 0x49, 0xbb, 0x96, 0x05, 0xfd,
      0x2c, 0xa6, 0xa9, 0xdd, 0xf2, 0x43, 0xbe, 0xd2, 0x51, 0xfd, 0xa6, 0x55, 0x2e, 0xf0, 0xe5, 0x71], ''RLB''),
    ([0xca, 0x4d, 0x39, 0x96, 0x4c, 0x9c, 0xb5, 0xf9, 0x79, 0x0d, 0x0a, 0x12, 0x96, 0x9f, 0x60, 0xfd,
      0x97, 0x24, 0x93, 0x62, 0x84, 0xea, 0x4a, 0x12, 0xda, 0xde, 0xd4, 0x2d, 0xdf, 0xa6, 0x9c, 0x5d], ''FIDA''),
    ([0x0c, 0xc1, 0x0f, 0x51, 0x6a, 0xaa, 0xe9, 0xc1, 0x4b, 0xa9, 0x47, 0x1f, 0x60, 0xab, 0xd3, 0x92,
      0xdc, 0xd7, 0x86, 0xd5, 0x73, 0x54, 0xab, 0xed, 0xee, 0xe7, 0x28, 0x9d, 0xd4, 0x0a, 0x0a, 0x0a], ''RENDER''),
    ([0x10, 0x76, 0x46, 0x9c, 0x10, 0x41, 0xd9, 0xe9, 0xb3, 0x9f, 0xc2, 0xed, 0xe1, 0x13, 0x33, 0x97,
      0x3b, 0x3e, 0x95, 0x73, 0x2a, 0x44, 0x39, 0x20, 0x71, 0x93, 0xa6, 0x1c, 0xc4, 0x10, 0x8d, 0x43], ''JLP'')]"

definition TOKEN_REGISTRY_2 :: "TokenInfo list" where
  "TOKEN_REGISTRY_2 = [
    ([0xe2, 0x1e, 0x1f, 0x4d, 0x64, 0x60, 0xe8, 0xf5, 0xfb, 0xc8, 0x1c, 0xfc, 0x0b, 0x79, 0x23, 0x1c,
      0x42, 0xa0, 0xe3, 0xeb, 0x9a, 0x07, 0xc7, 0x28, 0xaa, 0xc8, 0x8b, 0x1f, 0x59, 0xcc, 0x5f, 0x5f], ''CROWN''),
    ([0x0c, 0x00, 0xd0, 0xaf, 0xeb, 0x86, 0x14, 0xda, 0x7f, 0x19, 0xab, 0xa0, 0x2d, 0x40, 0xf1, 0x8c,
      0x69, 0x25, 0x85, 0xf6, 0x50, 0x20, 0xdf, 0xce, 0xd3, 0xd5, 0xe5, 0xf9, 0xa9, 0xc0, 0xc4, 0xe1], ''ORCA''),
    ([0x05, 0x2e, 0xd3, 0x50, 0x10, 0xb8, 0x19, 0xff, 0x49, 0x14, 0xf4, 0x7a, 0x31, 0x18, 0xc4, 0x2c,
      0x98, 0xbf, 0x21, 0x0f, 0xd7, 0xe4, 0x7d, 0x72, 0x23, 0x07, 0xb5, 0xc2, 0x49, 0x01, 0xa7, 0xba], ''MPLX''),
    ([0x40, 0x99, 0x26, 0x19, 0x06, 0xe4, 0xd9, 0x9a, 0x69, 0x26, 0x40, 0x4c, 0xb7, 0x9d, 0x4a, 0x2d,
      0xe5, 0x16, 0xb4, 0xae, 0xf1, 0x40, 0xe4, 0xbf, 0x48, 0xd3, 0x5b, 0x4b, 0xa2, 0x26, 0x54, 0xe4], ''ACS''),
    ([0x0b, 0x6c, 0x03, 0x23, 0x7c, 0xe5, 0xb7, 0x85, 0x33, 0x85, 0xaf, 0x0e, 0x58, 0xd1, 0x04, 0xcf,
      0xd3, 0x3b, 0x4f, 0x71, 0x06, 0x4f, 0x89, 0xab, 0x55, 0x12, 0x7f, 0xdf, 0x27, 0x4c, 0x8c, 0x45], ''MOBILE''),
    ([0x06, 0x79, 0xdb, 0x01, 0xce, 0x2a, 0x84, 0xf7, 0x1c, 0x13, 0x9e, 0x7c, 0x99, 0x42, 0xf6, 0xda,
      0x3b, 0x33, 0x1f, 0xde, 0xc3, 0x31, 0x9d, 0x02, 0xf8, 0x99, 0xeb, 0xa7, 0x01, 0x34, 0x73, 0x7e], ''SHDW''),
    ([0xc7, 0xdc, 0x35, 0x52, 0xac, 0xd0, 0x85, 0xff, 0xa9, 0x89, 0xb8, 0x1b, 0x21, 0xe5, 0xe0, 0xbc,
      0xbc, 0xcb, 0xb1, 0xec, 0x87, 0x83, 0x5f, 0x0d, 0xb1, 0x2f, 0xab, 0xba, 0xd6, 0x66, 0xdd, 0xf6], ''MEDIA''),
    ([0x8c, 0x77, 0xf3, 0x66, 0x1d, 0x6b, 0x4a, 0x8e, 0xf3, 0x9d, 0xbc, 0x53, 0x40, 0xee, 0xad, 0x8c,
      0x3c, 0xbe, 0x0b, 0x45, 0x09, 0x98, 0x40, 0xe8, 0x26, 0x3d, 0x87, 0x25, 0xb5, 0x87, 0xb0, 0x73], ''ATLAS''),
    ([0x05, 0x37, 0x99, 0x6f, 0x26, 0x99, 0x67, 0x4f, 0xb7, 0x08, 0x6e, 0x46, 0x8f, 0xb3, 0x3b, 0x4f,
      0xde, 0x14, 0x49, 0xf4, 0x7a, 0x8b, 0xef, 0xd8, 0xb3, 0x42, 0xbf, 0x6b, 0x33, 0xcf, 0xf3, 0x72], ''MNDE''),
    ([0x0e, 0xc4, 0x9e, 0x1c, 0x77, 0xe7, 0x98, 0x28, 0xf9, 0xae, 0x8a, 0x05, 0x1b, 0x66, 0x2e, 0x20,
      0x88, 0xc7, 0x28, 0x06, 0x9c, 0xed, 0xb7, 0x0f, 0xef, 0x85, 0x21, 0xb9, 0x4a, 0xcf, 0x74, 0xf8], ''ZBC''),
    ([0x04, 0xee, 0x48, 0x96, 0x07, 0x8e, 0x4a, 0x49, 0x8b, 0x98, 0x82, 0xe1, 0x9e, 0x08, 0x0f, 0x68,
      0x57, 0x77, 0x65, 0x1e, 0x78, 0x6b, 0x79, 0x16, 0xf0, 0x0b, 0x74, 0x64, 0x20, 0xe8, 0x62, 0x83], ''LFNTY''),
    ([0x47, 0x57, 0x89, 0x9f, 0xb8, 0xbe, 0xdb, 0xa2, 0x87, 0x78, 0xaa, 0xcd, 0x67, 0xe5, 0x68, 0xe7,
      0x34, 0x70, 0xcc, 0xe9, 0x0b, 0xcd, 0x53, 0x2b, 0x6c, 0xb6, 0x18, 0x29, 0x76, 0x28, 0x82, 0x4e], ''INF''),
    ([0x0c, 0x3e, 0xb1, 0xe2, 0xec, 0x6d, 0xbd, 0x1c, 0x0c, 0x8b, 0xd5, 0x71, 0x71, 0x8d, 0xb6, 0xf6,
      0x14, 0xd0, 0x40, 0xfa, 0xb4, 0x12, 0xf1, 0x09, 0x1b, 0x66, 0xf1, 0x28, 0xde, 0xfb, 0x10, 0x53], ''POLIS''),
    ([0x06, 0x74, 0x76, 0x83, 0xac, 0x65, 0xf2, 0x3a, 0x11, 0xc4, 0xfc, 0xc7, 0x8a, 0x2a, 0x1f, 0x80,
      0x66, 0xcf, 0xd8, 0x71, 0x0a, 0x00, 0xa9, 0xc6, 0xfd, 0xcf, 0x43, 0x25, 0x95, 0xd2, 0x3c, 0xdd], ''SCS''),
    ([0x06, 0x7d, 0x6a, 0xd4, 0x10, 0x20, 0xf0, 0x4f, 0xba, 0x7d, 0xa8, 0xdd, 0x06, 0x76, 0xd3, 0x99,
      0xd2, 0x6c, 0x41, 0x40, 0x63, 0x86, 0xf0, 0x03, 0x9c, 0xa0, 0x06, 0x33, 0x03, 0xb4, 0xc5, 0x2b], ''SLND''),
    ([0xe5, 0x9a, 0x8d, 0xac, 0xb0, 0x4e, 0x22, 0x03, 0x58, 0x48, 0xe2, 0x26, 0x29, 0x98, 0x86, 0xa3,
      0x13, 0xe2, 0xa6, 0x36, 0xe9, 0x69, 0x08, 0xd1, 0xfd, 0x5c, 0xd5, 0x5c, 0x87, 0xad, 0xb1, 0x16], ''WHALES''),
    ([0x04, 0xfa, 0xd4, 0x21, 0xc8, 0xf3, 0x76, 0xbe, 0xfc, 0xe3, 0xcd, 0x69, 0x48, 0xcd, 0x63, 0xb6,
      0xbe, 0xc5, 0xb8, 0xa3, 0x6f, 0x36, 0x4d, 0xeb, 0x83, 0xa3, 0x93, 0xd7, 0x21, 0xb7, 0xd7, 0xef], ''LST''),
    ([0x27, 0x1c, 0x99, 0x48, 0x36, 0x6f, 0xba, 0x24, 0x59, 0x0f, 0xef, 0xc9, 0x9d, 0x48, 0xca, 0xcb,
      0xc2, 0x6e, 0xb3, 0xc4, 0x25, 0x1a, 0x04, 0x5c, 0xf9, 0xab, 0xbe, 0x0d, 0x0e, 0x25, 0x1f, 0xd7], ''HXD''),
    ([0x8c, 0x7d, 0xce, 0xe8, 0xb2, 0xf5, 0xb3, 0x77, 0xb2, 0x80, 0x64, 0x51, 0x7d, 0xa0, 0x27, 0x36,
      0xa6, 0x91, 0xf1, 0x94, 0xa9, 0xb2, 0x73, 0x84, 0x4c, 0x1f, 0x46, 0x32, 0x44, 0xa1, 0xad, 0x9c], ''ATR''),
    ([0x23, 0x3c, 0xea, 0x47, 0x4d, 0x6c, 0xb5, 0x13, 0xda, 0xd4, 0x21, 0xc8, 0x2e, 0x68, 0x1f, 0x80,
      0xed, 0x75, 0x12, 0x45, 0x5d, 0xfb, 0x91, 0xfc, 0x68, 0x36, 0x3b, 0x99, 0xd9, 0x15, 0x65, 0x82], ''WBTC''),
    ([0x66, 0xe5, 0x18, 0x8a, 0x13, 0x08, 0xa1, 0xdb, 0x90, 0xb6, 0xd3, 0x1f, 0x3f, 0xbd, 0xca, 0x8c,
      0x3d, 0xf2, 0x67, 0x8c, 0x81, 0x12, 0xdf, 0xdd, 0x3d, 0x19, 0x2c, 0x5a, 0x3c, 0xc4, 0x57, 0xa8], ''ETH''),
    ([0x0b, 0xf1, 0x4d, 0x34, 0xaf, 0xd8, 0x25, 0xbe, 0x9a, 0x6b, 0xcf, 0xd2, 0xe5, 0x34, 0xfd, 0xaa,
      0x1a, 0xf1, 0xd3, 0x73, 0xa3, 0xa5, 0xd5, 0x80, 0xac, 0x78, 0x98, 0xf7, 0xb1, 0x71, 0xb2, 0x99], ''OTK''),
    ([0x8c, 0xbf, 0x9f, 0xdb, 0xa8, 0x69, 0x1b, 0x67, 0xe3, 0x2e, 0xb5, 0x7a, 0x78, 0x4b, 0x1c, 0xae,
      0x27, 0x44, 0xc6, 0xfc, 0x03, 0xac, 0x61, 0xe4, 0x50, 0xdd, 0x93, 0x31, 0xb9, 0xbd, 0xbb, 0x2e], ''AURY'')]"

definition TOKEN_REGISTRY_3 :: "TokenInfo list" where
  "TOKEN_REGISTRY_3 = [
    ([0x06, 0x7f, 0xc2, 0x7a, 0xbc, 0xad, 0x2d, 0xf0, 0x7c, 0xc4, 0x04, 0x37, 0x33, 0x0d, 0xa4, 0xfe,
      0x88, 0x51, 0x68, 0x0a, 0xe2, 0xb2, 0x42, 0xc2, 0xea, 0x1d, 0x86, 0xe2, 0xcf, 0xa1, 0x00, 0x64], ''SNS''),
    ([0x26, 0x88, 0xc7, 0x7a, 0x2a, 0x9c, 0x9a, 0xd1, 0x73, 0x18, 0x69, 0x9d, 0xcb, 0x85, 0xb3, 0xd9,
      0xa2, 0x37, 0x62, 0xc6, 0xe7, 0x15, 0x6b, 0xc7, 0xf8, 0x3b, 0x30, 0x52, 0x95, 0x32, 0x93, 0xf2], ''LIKE''),
    ([0x77, 0xaa, 0x05, 0x5c, 0x1b, 0x14, 0x08, 0x41, 0x34, 0xbb, 0xe8, 0x01, 0x36, 0xaa, 0x79, 0xc7,
      0x7f, 0x2d, 0x90, 0x37, 0x62, 0x83, 0x90, 0x36, 0x3a, 0xdc, 0x50, 0x2e, 0xc1, 0x98, 0xb0, 0x94], ''CHAT''),
    ([0xdb, 0xef, 0x5a, 0xa1, 0xe0, 0xf0, 0x04, 0x2e, 0xdd, 0x61, 0x9a, 0x2f, 0x68, 0xfd, 0x3e, 0x4d,
      0xf8, 0x33, 0x32, 0x5d, 0xd2, 0x03, 0x7f, 0xcc, 0x6b, 0xb3, 0xb6, 0xed, 0x0c, 0xb7, 0x50, 0x8e], ''FOXY''),
    ([0x12, 0x8b, 0xcb, 0x64, 0x7d, 0x8b, 0xad, 0x1e, 0x72, 0x50, 0xe3, 0xb8, 0x34, 0xbc, 0xfa, 0x9f,
      0xd9, 0x86, 0xf4, 0xd4, 0x77, 0xd1, 0xbb, 0xb9, 0x05, 0x4e, 0x60, 0x2b, 0x11, 0xeb, 0xe0, 0x61], ''soETH''),
    ([0xf2, 0x04, 0xae, 0x4a, 0x20, 0x20, 0x16, 0xd4, 0xde, 0x45, 0x49, 0x6d, 0x2b, 0x0b, 0xec, 0xaa,
      0x65, 0x0f, 0x1e, 0x9a, 0x58, 0xc0, 0x24, 0x26, 0xf4, 0x19, 0x01, 0x66, 0x48, 0x8f, 0x4d, 0x9c], ''PIP''),
    ([0x05, 0x45, 0xd1, 0xee, 0x98, 0x05, 0x76, 0x4e, 0x58, 0xb3, 0xef, 0x5b, 0xcb, 0x54, 0x17, 0x75,
      0x17, 0xdf, 0xe7, 0x98, 0x0e, 0x6e, 0x44, 0xe6, 0x7a, 0x62, 0x8b, 0xdb, 0x9d, 0x2a, 0x7b, 0xd1], ''MNGO''),
    ([0xfc, 0xee, 0x53, 0x00, 0xd2, 0x06, 0x6f, 0x88, 0x1f, 0x95, 0xd9, 0xd8, 0x0d, 0x06, 0xca, 0xb9,
      0xe7, 0xc7, 0xf3, 0xa8, 0x71, 0xef, 0x9a, 0xa4, 0x20, 0x82, 0x24, 0xaa, 0x81, 0xd2, 0xb7, 0x99], ''DPLN''),
    ([0x07, 0x0d, 0x0b, 0x9b, 0xee, 0x96, 0x60, 0x9a, 0x69, 0xa1, 0x7a, 0x10, 0x83, 0x37, 0x05, 0x37,
      0x0f, 0xb1, 0x16, 0xa0, 0x6a, 0xdb, 0x20, 0xd5, 0xef, 0xd8, 0x66, 0xe6, 0x80, 0x51, 0xc1, 0x32], ''UXP''),
    ([0x06, 0xcf, 0x44, 0x2f, 0xd1, 0xea, 0x50, 0xd2, 0xb1, 0x86, 0x29, 0x07, 0x92, 0x32, 0x39, 0x6c,
      0x07, 0x5d, 0x29, 0xc1, 0xed, 0xa9, 0x12, 0xd3, 0x8f, 0xd7, 0x50, 0x49, 0xf8, 0x27, 0xe3, 0xa3], ''TAKI''),
    ([0x0b, 0x33, 0x38, 0xa0, 0xab, 0x2c, 0xc8, 0x41, 0xd5, 0xb0, 0x14, 0xbc, 0x6a, 0x3c, 0xf7, 0x56,
      0x29, 0x18, 0x74, 0xb3, 0x19, 0xc9, 0x51, 0x7d, 0x9b, 0xbf, 0xa9, 0xe4, 0xe9, 0x66, 0x1e, 0xf9], ''KIN''),
    ([0xee, 0xc4, 0x1b, 0x61, 0x11, 0xa1, 0x43, 0x22, 0xdc, 0xa4, 0xc1, 0x34, 0xe3, 0x35, 0xe9, 0x8e,
      0xb8, 0x93, 0x42, 0x73, 0xe2, 0x9a, 0x0b, 0xb1, 0x41, 0xbc, 0xc8, 0xdf, 0x57, 0x51, 0x09, 0x2f], ''MXM''),
    ([0xfb, 0xff, 0xbe, 0x51, 0xe1, 0x73, 0x11, 0x60, 0xaa, 0x8e, 0xb9, 0x1c, 0xbf, 0xe3, 0x1d, 0x8d,
      0x67, 0xbd, 0x25, 0xcf, 0xc2, 0xee, 0x12, 0x01, 0x97, 0x8e, 0x5c, 0x1a, 0xb3, 0x22, 0xfc, 0xcc], ''HXRO''),
    ([0x5f, 0x0c, 0x44, 0x63, 0x18, 0xab, 0x10, 0xc9, 0x5f, 0x40, 0x94, 0x95, 0x85, 0x70, 0xcd, 0x05,
      0x74, 0x65, 0xa5, 0x4d, 0xab, 0x14, 0xd9, 0xdd, 0xe3, 0x48, 0x1a, 0x86, 0xfe, 0xd5, 0xfc, 0xcb], ''JSOL''),
    ([0x85, 0xcd, 0xeb, 0xc2, 0x05, 0xdd, 0xdf, 0x95, 0xb8, 0x82, 0x00, 0xab, 0xa0, 0xac, 0x9b, 0xcb,
      0xb7, 0x80, 0x96, 0x32, 0x4e, 0x27, 0x6f, 0xce, 0x85, 0xd6, 0x3c, 0x69, 0x21, 0x1f, 0x08, 0x45], ''USDY''),
    ([0xfc, 0x93, 0x1a, 0x2b, 0x58, 0xcd, 0x23, 0xdb, 0x2d, 0x91, 0xd2, 0x96, 0xd9, 0x65, 0x05, 0xa0,
      0x6f, 0x80, 0x94, 0x20, 0x83, 0xf8, 0x41, 0xe8, 0xa8, 0x87, 0xf1, 0x38, 0xac, 0x03, 0x04, 0x37], ''EURC''),
    ([0x06, 0x79, 0xcb, 0x8c, 0x7a, 0x61, 0xdf, 0xdd, 0x5b, 0x59, 0x21, 0x20, 0xff, 0x5c, 0xfc, 0x5b,
      0x1e, 0xe8, 0xe3, 0x7b, 0x57, 0x37, 0x2c, 0xdb, 0xa4, 0x00, 0xd2, 0x37, 0x39, 0x92, 0x94, 0xde], ''SHARK''),
    ([0x89, 0x76, 0x58, 0x55, 0x7d, 0x21, 0x17, 0x22, 0xba, 0x67, 0x8a, 0xd9, 0x92, 0x76, 0xeb, 0x14,
      0xd9, 0x56, 0x7f, 0x0a, 0x79, 0x2e, 0x3b, 0xa7, 0x0c, 0x89, 0x47, 0x85, 0xc7, 0x42, 0xbf, 0xae], ''GST''),
    ([0xdd, 0x40, 0xa2, 0xf6, 0xf4, 0x23, 0xe4, 0xc3, 0x99, 0x0a, 0x83, 0xea, 0xc3, 0xd9, 0xd9, 0xc1,
      0xfe, 0x62, 0x5b, 0x36, 0xcb, 0xc5, 0xe4, 0xa6, 0xd5, 0x53, 0x54, 0x45, 0x52, 0xa8, 0x67, 0xee], ''BRZ''),
    ([0xd5, 0x00, 0xc5, 0x11, 0xdc, 0xfe, 0x06, 0x75, 0xf9, 0xf5, 0x5c, 0x1f, 0x40, 0x8c, 0x78, 0x33,
      0xbe, 0x62, 0x0f, 0xdc, 0x02, 0xdb, 0x6d, 0x05, 0xed, 0x0f, 0xa3, 0x64, 0x86, 0xab, 0x4a, 0xfa], ''FLUXB''),
    ([0x8a, 0xf8, 0x66, 0x1b, 0xa2, 0x26, 0x13, 0x73, 0x3b, 0x7c, 0x80, 0x25, 0x12, 0x85, 0x97, 0x49,
      0x7d, 0xea, 0x99, 0x52, 0x50, 0x6b, 0x2e, 0x1b, 0x48, 0x4d, 0xc8, 0x40, 0xbe, 0xfe, 0x83, 0xf1], ''AMU''),
    ([0x05, 0x71, 0x8b, 0x04, 0x57, 0x23, 0x12, 0xd7, 0x3a, 0xa7, 0x1d, 0xea, 0xec, 0x43, 0xc8, 0x9d,
      0x77, 0x84, 0x4b, 0x0b, 0x7f, 0xf9, 0xe3, 0xe7, 0x2d, 0xa8, 0x51, 0x01, 0x82, 0x62, 0x74, 0x55], ''BLOCK''),
    ([0x06, 0xa1, 0xec, 0x5b, 0xd8, 0x2a, 0xd9, 0xc0, 0x32, 0xa9, 0xf7, 0xd4, 0x66, 0xba, 0x2c, 0x72,
      0x8b, 0x0e, 0xf3, 0x6a, 0x8b, 0x77, 0x3e, 0xd2, 0x19, 0xd6, 0x96, 0x50, 0xd3, 0x47, 0x2b, 0xd6], ''STEP'')]"

definition TOKEN_REGISTRY_4 :: "TokenInfo list" where
  "TOKEN_REGISTRY_4 = [
    ([0xe2, 0x4b, 0xde, 0xae, 0xff, 0xa0, 0x4f, 0x43, 0xb8, 0x77, 0x1a, 0x42, 0x0b, 0x80, 0x06, 0x1c,
      0xf0, 0x93, 0x26, 0x0d, 0xb2, 0x9a, 0xc9, 0xc8, 0xea, 0xd6, 0x50, 0x58, 0xa9, 0x7f, 0x78, 0x57], ''GENE''),
    ([0x9f, 0x23, 0x72, 0x7b, 0xb4, 0xe0, 0x7e, 0x5c, 0xd8, 0x8e, 0xb5, 0x18, 0x1a, 0xab, 0xc6, 0xe9,
      0xe8, 0x7f, 0x53, 0xd1, 0x36, 0xbd, 0x29, 0xfa, 0x5b, 0x67, 0xaf, 0x7c, 0x6e, 0x81, 0x9f, 0xe8], ''DIO''),
    ([0x53, 0x97, 0xed, 0x2f, 0x2a, 0x5d, 0x3f, 0x90, 0x26, 0xb5, 0x63, 0x60, 0x02, 0x91, 0x9b, 0x46,
      0x61, 0x96, 0x80, 0x24, 0x7b, 0xc7, 0x2f, 0x07, 0xc5, 0xaf, 0x48, 0x91, 0x0d, 0x42, 0x7d, 0xb1], ''CHEX''),
    ([0x08, 0x74, 0x2d, 0xa7, 0x7f, 0x53, 0x2c, 0xb2, 0x33, 0x74, 0x02, 0xe2, 0xab, 0x66, 0x18, 0x7b,
      0x63, 0xa2, 0x90, 0x7c, 0x9a, 0x62, 0x10, 0x7d, 0xab, 0x70, 0x13, 0xa2, 0x8d, 0xeb, 0x46, 0x57], ''ABR''),
    ([0x8c, 0x69, 0x3b, 0x59, 0xc0, 0xf9, 0xe7, 0x25, 0x7e, 0xbf, 0xf1, 0x76, 0xe0, 0xbb, 0x1b, 0xde,
      0xf1, 0x54, 0x0e, 0x0c, 0x24, 0xe6, 0xa3, 0x4e, 0x79, 0xc9, 0x59, 0xd1, 0x7d, 0x50, 0x95, 0x05], ''SPDR''),
    ([0x0a, 0xb5, 0xd3, 0x06, 0x1b, 0x5b, 0x03, 0x3c, 0xd8, 0x4b, 0xe6, 0x6e, 0x60, 0xac, 0xc1, 0xac,
      0x75, 0x68, 0xf4, 0x61, 0xfb, 0x39, 0x74, 0xd3, 0xa5, 0xb6, 0xaa, 0x2f, 0xd5, 0x24, 0x01, 0xec], ''IOT''),
    ([0xa8, 0x32, 0xb1, 0x34, 0x7f, 0x65, 0x93, 0x2a, 0xa5, 0xa8, 0xb8, 0xe3, 0xb6, 0xf7, 0x85, 0x4a,
      0x29, 0x72, 0x15, 0x7d, 0x03, 0x75, 0x09, 0x7d, 0x59, 0x9e, 0xab, 0xac, 0x96, 0x85, 0xa9, 0x5c], ''GARI''),
    ([0x0e, 0x56, 0x39, 0x5e, 0x3c, 0x86, 0x01, 0x43, 0x80, 0x2e, 0x9b, 0x94, 0xa0, 0x2c, 0xc6, 0xd0,
      0x4f, 0x75, 0xfe, 0xc7, 0x2a, 0x3f, 0xbb, 0x71, 0x52, 0x68, 0x35, 0x5e, 0x0c, 0xd7, 0xcd, 0x89], ''SLIM''),
    ([0x04, 0xe9, 0x06, 0xb5, 0x1e, 0x90, 0x97, 0x2f, 0xd4, 0xcd, 0x69, 0x94, 0x3a, 0x88, 0x61, 0xda,
      0xc5, 0x79, 0x3f, 0xa7, 0x3c, 0xf7, 0x7b, 0x2c, 0xb3, 0xd7, 0x63, 0x23, 0x5f, 0x83, 0x07, 0x78], ''laineSOL''),
    ([0x62, 0x71, 0xcb, 0x71, 0x19, 0x47, 0x6b, 0x9d, 0xce, 0x00, 0xd8, 0x15, 0xc8, 0xff, 0x31, 0x5f,
      0xc8, 0xbf, 0x7d, 0x28, 0x48, 0x63, 0x3d, 0x34, 0x94, 0x2a, 0xdf, 0xd5, 0x35, 0xf2, 0xde, 0xfe], ''stSOL''),
    ([0x54, 0x7b, 0x30, 0x9e, 0xac, 0xe6, 0x70, 0xa9, 0xaf, 0x4c, 0x6d, 0xa1, 0x24, 0x02, 0xdd, 0xbb,
      0xc6, 0x0d, 0x43, 0xc1, 0x0e, 0x2c, 0x17, 0x7b, 0x95, 0x33, 0xbd, 0xbc, 0x18, 0x88, 0x57, 0x6f], ''BSKT''),
    ([0xd2, 0x6a, 0x81, 0x42, 0x2f, 0xbf, 0x26, 0x6c, 0xfb, 0xcb, 0xa8, 0xe5, 0x5f, 0xd7, 0xd8, 0xc9,
      0xf3, 0x81, 0xde, 0x3f, 0x5e, 0x15, 0x0a, 0x97, 0x08, 0x85, 0xe2, 0x5b, 0x9a, 0xb6, 0xbd, 0xb8], ''FAN''),
    ([0x0e, 0x8d, 0x66, 0x79, 0x15, 0xb5, 0x29, 0xb5, 0xf5, 0x74, 0x4c, 0xd9, 0x21, 0x9f, 0xae, 0x07,
      0x18, 0xc8, 0x74, 0x02, 0x66, 0x91, 0xac, 0x8e, 0xd2, 0x41, 0x3c, 0x4c, 0x61, 0x1c, 0x72, 0x78], ''YOM''),
    ([0xb1, 0x0f, 0xaa, 0x62, 0x56, 0x79, 0xd8, 0xf1, 0x1e, 0x57, 0x1a, 0x96, 0x7e, 0xe2, 0x18, 0x67,
      0xb2, 0x0c, 0xe9, 0x5b, 0xe8, 0xc3, 0x7f, 0x6b, 0xe4, 0xa3, 0x99, 0x88, 0xff, 0xb5, 0x4a, 0x48], ''EPCT''),
    ([0xe2, 0x97, 0x5e, 0x09, 0x79, 0x97, 0x18, 0x8b, 0x8c, 0x83, 0xcf, 0x5b, 0x64, 0xf2, 0x8f, 0xf4,
      0x2b, 0x1a, 0xe5, 0x79, 0xb1, 0xb6, 0x74, 0x78, 0x57, 0xbf, 0x72, 0x21, 0x50, 0xde, 0x7f, 0xb0], ''GOFX''),
    ([0xb5, 0xf7, 0xe0, 0x89, 0x66, 0xfa, 0x2f, 0x99, 0x7a, 0xbc, 0x90, 0xd7, 0xa7, 0xcd, 0xe1, 0xbc,
      0x73, 0x3f, 0x56, 0x7b, 0x9e, 0xaf, 0xc3, 0x00, 0x7e, 0x80, 0xa3, 0x17, 0x47, 0x26, 0xb6, 0xf6], ''DFL''),
    ([0x99, 0x97, 0x58, 0x62, 0xe4, 0xe3, 0x73, 0xb0, 0x06, 0x36, 0x04, 0xe0, 0x3e, 0xbc, 0xed, 0x38,
      0xda, 0x70, 0x60, 0x83, 0x92, 0x38, 0xfb, 0x70, 0x01, 0xa9, 0x25, 0xfd, 0x85, 0x75, 0x6c, 0x93], ''BLZE''),
    ([0x1d, 0xe8, 0x22, 0x0d, 0x15, 0x41, 0x4f, 0x8b, 0xe6, 0x88, 0x94, 0x9b, 0xb1, 0xa2, 0xe8, 0x53,
      0xc4, 0x5d, 0x49, 0xfb, 0x9c, 0x17, 0xb7, 0x0f, 0xf4, 0x25, 0x0c, 0x82, 0xc0, 0x51, 0x8c, 0xb1], ''GP''),
    ([0xc5, 0xf9, 0xfb, 0x32, 0xf4, 0x91, 0x11, 0xab, 0x20, 0xc3, 0x3f, 0x25, 0x98, 0xfc, 0x83, 0x6c,
      0x11, 0x3e, 0x29, 0x18, 0x81, 0xac, 0x21, 0xee, 0x29, 0x16, 0x93, 0x94, 0x01, 0x12, 0x44, 0xe4], ''WIF''),
    ([0xbc, 0x07, 0xc5, 0x6e, 0x60, 0xad, 0x3d, 0x3f, 0x17, 0x73, 0x82, 0xea, 0xc6, 0x54, 0x8f, 0xba,
      0x1f, 0xd3, 0x2c, 0xfd, 0x90, 0xca, 0x02, 0xb3, 0xe7, 0xcf, 0xa1, 0x85, 0xfd, 0xce, 0x73, 0x98], ''BONK''),
    ([0x61, 0xd4, 0xb8, 0x1c, 0xd9, 0x57, 0xf4, 0xa4, 0x29, 0x2d, 0x8f, 0xbd, 0xd5, 0x0e, 0xa9, 0xd4,
      0xe9, 0x8b, 0x16, 0xf3, 0x23, 0x35, 0xa3, 0xae, 0x8c, 0xb3, 0x37, 0xf8, 0x79, 0x45, 0x91, 0x82], ''CWIF''),
    ([0x07, 0x7c, 0xf6, 0x3a, 0x56, 0xff, 0x0a, 0xfb, 0x12, 0x4f, 0x6f, 0x68, 0x87, 0x5a, 0x02, 0xad,
      0xce, 0x4e, 0x32, 0x0b, 0xbf, 0xcc, 0x10, 0x72, 0xe6, 0x7a, 0x0a, 0x4f, 0xfa, 0x46, 0xc2, 0x95], ''WEN''),
    ([0xf8, 0x0e, 0x5d, 0x70, 0xb7, 0x83, 0x02, 0xf8, 0xd6, 0x2d, 0x34, 0xaa, 0x70, 0xf1, 0xb5, 0xb9,
      0x1f, 0xee, 0xde, 0xa3, 0x30, 0xd9, 0xbe, 0x32, 0x69, 0xca, 0xeb, 0x8e, 0x9a, 0x38, 0x74, 0xc1], ''MYRO'')]"

definition TOKEN_REGISTRY_5 :: "TokenInfo list" where
  "TOKEN_REGISTRY_5 = [
    ([0x5d, 0x0b, 0x15, 0x9a, 0xff, 0xcb, 0xcc, 0xf1, 0x65, 0xc0, 0x9b, 0xc2, 0xf5, 0xd4, 0xba, 0xfb,
      0x4a, 0xa6, 0x34, 0x5a, 0xf7, 0x93, 0xb9, 0xb3, 0x22, 0x2d, 0xaa, 0x40, 0x29, 0x3a, 0x95, 0x0d], ''POPCAT''),
    ([0x67, 0x52, 0x05, 0x5c, 0x20, 0xb3, 0xe9, 0xd8, 0x74, 0x66, 0x56, 0xdd, 0xf7, 0x38, 0x55, 0x50,
      0x7f, 0x87, 0xab, 0x6d, 0x87, 0x52, 0x3e, 0x4c, 0x76, 0xa7, 0xfa, 0x36, 0x09, 0x6a, 0x99, 0xeb], ''SAMO''),
    ([0x0d, 0x83, 0x23, 0xc0, 0x76, 0xf0, 0xe2, 0x87, 0x18, 0xca, 0x60, 0xd7, 0x7e, 0x6b, 0x39, 0xce,
      0xe8, 0xf2, 0x3f, 0x43, 0xcf, 0xc4, 0xff, 0x1f, 0x58, 0x52, 0xb8, 0xfc, 0x1b, 0x94, 0xa2, 0x93], ''BOME''),
    ([0x29, 0xfa, 0x84, 0xe3, 0x98, 0x00, 0xdd, 0x05, 0xc3, 0x0e, 0x17, 0x4b, 0x61, 0xa2, 0x32, 0xe5,
      0x0f, 0xad, 0xf1, 0xd4, 0xeb, 0x86, 0x90, 0xdb, 0x78, 0x35, 0x45, 0x0c, 0x42, 0x4b, 0x3b, 0xf8], ''boden''),
    ([0x9c, 0xdd, 0x9b, 0x46, 0x6a, 0xf3, 0x24, 0xc5, 0x8b, 0x65, 0x3f, 0x6e, 0xac, 0x5e, 0x78, 0xf7,
      0x48, 0xe5, 0x57, 0x78, 0xca, 0xed, 0x00, 0xa9, 0x0d, 0x61, 0xe7, 0x0c, 0x06, 0x15, 0x87, 0xf8], ''IO''),
    ([0x5b, 0xe2, 0x3d, 0x7c, 0x88, 0x1e, 0x44, 0x5a, 0x93, 0x87, 0xe6, 0x5e, 0xe9, 0xb2, 0xba, 0x25,
      0xa1, 0xff, 0xa3, 0x42, 0x90, 0x08, 0xb5, 0x91, 0x78, 0x4f, 0xbe, 0x63, 0x00, 0x09, 0x1d, 0x06], ''SLERF''),
    ([0x04, 0xb3, 0x7e, 0x56, 0x63, 0xeb, 0xe9, 0x15, 0xd8, 0x10, 0xb2, 0x0f, 0x0a, 0x0e, 0x3e, 0x0d,
      0x2d, 0x46, 0x1d, 0x1e, 0xfa, 0xb2, 0xd6, 0x00, 0xf6, 0xa3, 0x6b, 0x14, 0x1e, 0x1d, 0xc4, 0x3d], ''KMNO''),
    ([0x05, 0x2e, 0xe1, 0x83, 0x38, 0x96, 0x96, 0x9f, 0x8c, 0xd1, 0xcd, 0x46, 0x83, 0x18, 0xc5, 0x98,
      0xc7, 0xe0, 0x58, 0x96, 0x07, 0x4a, 0x59, 0x1c, 0x2a, 0xe0, 0x98, 0x60, 0x2f, 0x16, 0x80, 0x00], ''MEW''),
    ([0x05, 0x84, 0x6e, 0x7c, 0x90, 0x14, 0x4a, 0x9b, 0xb8, 0xe9, 0x53, 0xc8, 0xf8, 0x43, 0x7a, 0xa8,
      0xd4, 0x6f, 0x5d, 0x64, 0x88, 0x88, 0x91, 0x53, 0x63, 0x34, 0x54, 0x23, 0xad, 0x7b, 0x83, 0xcc], ''NYAN''),
    ([0x07, 0xa7, 0x3c, 0x83, 0x03, 0x08, 0x33, 0xb6, 0x02, 0x41, 0x65, 0xe3, 0x25, 0x64, 0x1c, 0xa8,
      0x37, 0xf9, 0x5f, 0x5b, 0xfe, 0xb1, 0x5a, 0xa2, 0xde, 0x75, 0xe3, 0xea, 0x4c, 0x51, 0xb8, 0x3b], ''PUNDU''),
    ([0x06, 0x8d, 0x82, 0x4d, 0x56, 0xf0, 0xee, 0xbb, 0x75, 0x66, 0xe6, 0xee, 0x1d, 0x65, 0xa9, 0xd2,
      0x60, 0xff, 0x50, 0x9a, 0x4b, 0x5c, 0x69, 0xb6, 0x26, 0x9a, 0xd6, 0x4d, 0xe3, 0xcd, 0x50, 0xbc], ''SBR''),
    ([0x1c, 0xe3, 0x86, 0x7b, 0x2c, 0x5d, 0x1d, 0xb6, 0x24, 0x66, 0x84, 0xe3, 0x4b, 0x41, 0x76, 0xff,
      0x98, 0x56, 0x78, 0xb0, 0xdb, 0x29, 0x96, 0x85, 0xd4, 0x11, 0xf2, 0x87, 0x63, 0xca, 0x57, 0x9c], ''sols''),
    ([0x75, 0xfa, 0x18, 0x5a, 0xaf, 0xf1, 0xc7, 0x81, 0xb0, 0x72, 0x69, 0xa4, 0xdf, 0xd7, 0x84, 0x9a,
      0xdd, 0x90, 0xa6, 0xdb, 0x20, 0x7b, 0xf6, 0x1c, 0xff, 0x50, 0x6c, 0x9b, 0x3d, 0x52, 0x53, 0x76], ''GME''),
    ([0x06, 0x83, 0x10, 0x86, 0x1a, 0x98, 0x32, 0x7d, 0x05, 0x50, 0x57, 0x4d, 0x84, 0x41, 0x8a, 0xa6,
      0xe1, 0x0c, 0x33, 0x52, 0xdd, 0xaa, 0x7f, 0xd7, 0xf5, 0x81, 0x52, 0xcc, 0xee, 0xb2, 0x38, 0x87], ''SRM''),
    ([0x63, 0xc4, 0x56, 0x94, 0xcb, 0x85, 0xe8, 0x43, 0xbb, 0x0b, 0xac, 0x31, 0x2f, 0xc3, 0x5f, 0xbc,
      0xbf, 0x58, 0x17, 0xcb, 0x43, 0x48, 0x48, 0xc8, 0xd6, 0x1c, 0x73, 0xb2, 0xfa, 0x62, 0xb3, 0xbe], ''ANALOS''),
    ([0x93, 0x3b, 0x62, 0xfa, 0xe4, 0x36, 0x57, 0xcf, 0xc3, 0xaa, 0xca, 0x34, 0xae, 0xfb, 0x49, 0xf3,
      0x91, 0x3c, 0x0a, 0x61, 0xda, 0x49, 0x50, 0x57, 0x28, 0x6a, 0xd1, 0x1d, 0x35, 0x2f, 0xb5, 0x53], ''BEER''),
    ([0x89, 0xf3, 0x59, 0xcc, 0x0b, 0x2e, 0x25, 0x66, 0x65, 0x27, 0x84, 0xa0, 0x59, 0x41, 0xb5, 0xb4,
      0x80, 0x82, 0xaf, 0xe7, 0xa7, 0x79, 0x88, 0x2a, 0x69, 0xbc, 0x63, 0x23, 0xec, 0x18, 0xd3, 0x67], ''BENDOG''),
    ([0x2f, 0x98, 0x2c, 0x21, 0x9d, 0x58, 0x1e, 0x23, 0xf4, 0x10, 0xf3, 0x20, 0xee, 0x59, 0xa5, 0x43,
      0xda, 0xdd, 0xa9, 0xd7, 0x92, 0x5d, 0x69, 0x95, 0xa8, 0x89, 0x82, 0xeb, 0x5e, 0x63, 0xf3, 0x9f], ''DADDY''),
    ([0xc4, 0x40, 0x51, 0xa9, 0x11, 0xb5, 0x4c, 0x7e, 0xcf, 0xfc, 0x7e, 0xe0, 0xb0, 0xa4, 0x0a, 0xf4,
      0x8b, 0x32, 0x8a, 0xe7, 0x55, 0xa9, 0x95, 0x33, 0xc8, 0x40, 0x2c, 0xb2, 0x6d, 0xf4, 0x38, 0x07], ''MOODENG''),
    ([0x1b, 0x36, 0x97, 0x4c, 0xca, 0xbe, 0x2b, 0xdb, 0x37, 0xc7, 0xad, 0xa3, 0xc3, 0x33, 0x45, 0x12,
      0x6f, 0x97, 0x3d, 0xa0, 0xb5, 0x43, 0x00, 0xc1, 0xae, 0x06, 0xb8, 0x80, 0xc2, 0x4a, 0xac, 0xff], ''Pnut''),
    ([0xb2, 0x20, 0xa6, 0x99, 0x04, 0xb6, 0xee, 0xd8, 0x8a, 0x0b, 0xe9, 0x89, 0x14, 0x29, 0x80, 0xfc,
      0xd1, 0xa8, 0x1e, 0x85, 0x47, 0x33, 0x32, 0x83, 0x26, 0x31, 0xcb, 0xb6, 0x2e, 0x11, 0x62, 0x8f], ''GOAT''),
    ([0xfd, 0x31, 0xf4, 0x30, 0x0c, 0xa5, 0xb0, 0x0a, 0x3e, 0x82, 0x47, 0xb6, 0xaa, 0xd5, 0x4d, 0x9f,
      0x7b, 0xd6, 0x1b, 0x26, 0x7f, 0x60, 0x89, 0x98, 0xcc, 0x5f, 0xe9, 0xf2, 0xd9, 0x7c, 0x3d, 0x45], ''SPX''),
    ([0xbc, 0x0f, 0x12, 0x78, 0x80, 0xa7, 0xa2, 0x07, 0xb3, 0x45, 0x36, 0x9b, 0xa6, 0x71, 0x75, 0xbd,
      0xb7, 0xf7, 0x98, 0x13, 0x45, 0x71, 0xeb, 0x5d, 0xe8, 0x17, 0xce, 0xdb, 0xbb, 0xd5, 0xdd, 0xff], ''CHILLGUY'')]"

definition TOKEN_REGISTRY_6 :: "TokenInfo list" where
  "TOKEN_REGISTRY_6 = [
    ([0xe3, 0x44, 0xa5, 0x2e, 0x00, 0x19, 0x39, 0x9b, 0xef, 0x02, 0xf7, 0x62, 0xe1, 0xed, 0x8c, 0xc0,
      0x5f, 0x8c, 0xfd, 0xa7, 0xbd, 0xa5, 0x57, 0x96, 0xb9, 0xb9, 0x84, 0x1a, 0xaf, 0xe0, 0x06, 0x3f], ''ACT''),
    ([0x87, 0x90, 0xbe, 0x57, 0x84, 0x2c, 0x24, 0x8c, 0x85, 0x74, 0xd9, 0x7a, 0x70, 0x39, 0x77, 0x88,
      0x32, 0x41, 0x7e, 0xdc, 0xaf, 0xc4, 0x6e, 0x6d, 0x2b, 0x04, 0x00, 0x83, 0xfd, 0x2e, 0x87, 0x0f], ''FWOG''),
    ([0x76, 0x1d, 0xd6, 0x86, 0x55, 0x8c, 0xa0, 0x1d, 0xf7, 0x5a, 0x12, 0x0d, 0x2a, 0x50, 0xdd, 0x8f,
      0xf7, 0xb2, 0xde, 0xe5, 0x0d, 0xf5, 0xf2, 0x0d, 0xec, 0x8d, 0x49, 0x23, 0x19, 0xb5, 0xdf, 0x83], ''ZEREBRO''),
    ([0xf7, 0x4b, 0xe1, 0xd7, 0x6a, 0xb9, 0xa6, 0xc2, 0xbe, 0x49, 0x99, 0x66, 0x3f, 0xc6, 0xa0, 0xe1,
      0x99, 0x74, 0x00, 0x0e, 0x83, 0x6e, 0xf3, 0x0c, 0x5b, 0x62, 0x86, 0xf4, 0x2c, 0x02, 0x0f, 0x87], ''ai16z''),
    ([0xe3, 0x74, 0x31, 0x4d, 0xd6, 0xca, 0xa0, 0xbc, 0xb6, 0x2e, 0x9a, 0xcd, 0xc2, 0x87, 0xe7, 0xc5,
      0x8f, 0x8a, 0x58, 0xa5, 0xfd, 0x33, 0xc2, 0x68, 0x21, 0x82, 0xc4, 0x3c, 0x45, 0x57, 0x11, 0xaf], ''RIF''),
    ([0xdd, 0xc4, 0x70, 0x44, 0x57, 0xe3, 0x72, 0xc5, 0x87, 0x22, 0x56, 0xa5, 0x44, 0xc5, 0xf1, 0xa2,
      0x53, 0xd9, 0xc8, 0xdb, 0xc9, 0x41, 0x01, 0xc8, 0xdd, 0x6e, 0x28, 0x5a, 0xb4, 0x1e, 0xe9, 0xbf], ''URO''),
    ([0x1d, 0x8c, 0xcf, 0x87, 0xac, 0x01, 0x47, 0xba, 0xe7, 0x56, 0xeb, 0x96, 0x3a, 0x2e, 0xf6, 0x24,
      0x4c, 0x96, 0x91, 0x56, 0x9a, 0x8e, 0xc0, 0x8f, 0x00, 0x20, 0xa2, 0xeb, 0x8f, 0xbd, 0xb5, 0xa1], ''PENGU''),
    ([0x79, 0x78, 0xb7, 0x14, 0x45, 0x3c, 0xd3, 0xe8, 0x7a, 0xeb, 0x1f, 0xc0, 0x9b, 0xf0, 0x67, 0xf9,
      0x6c, 0xd2, 0xd4, 0xd6, 0x9b, 0x57, 0x13, 0x95, 0xaa, 0x9b, 0xf1, 0x86, 0xaf, 0xf9, 0xda, 0x3f], ''Fartcoin''),
    ([0x02, 0xa8, 0x8b, 0x06, 0xfa, 0xb4, 0x0a, 0x8c, 0xd2, 0x93, 0xf0, 0xc5, 0x27, 0x58, 0x7e, 0x62,
      0xd2, 0xff, 0xab, 0x76, 0x6f, 0xca, 0x08, 0xb7, 0xf6, 0xf3, 0xc9, 0x19, 0xee, 0x73, 0x1b, 0x12], ''BNSOL''),
    ([0x0a, 0xfe, 0x1d, 0x91, 0x67, 0x14, 0x22, 0xc7, 0x65, 0xc7, 0xa0, 0x6a, 0x11, 0x39, 0xff, 0x61,
      0x39, 0xd3, 0x80, 0xfc, 0xb4, 0x22, 0xba, 0x78, 0xf7, 0x78, 0xbe, 0xd5, 0x3c, 0x69, 0x7d, 0x81], ''JupSOL''),
    ([0x08, 0xe5, 0x02, 0x46, 0x2e, 0xb4, 0xcd, 0xb7, 0x35, 0xb8, 0x3a, 0xcc, 0x7e, 0x9c, 0x54, 0xa3,
      0x5e, 0x07, 0xad, 0x51, 0x85, 0x96, 0xe5, 0xef, 0xe9, 0x63, 0xee, 0x88, 0x9c, 0xd1, 0x55, 0x6b], ''BIO''),
    ([0x04, 0xab, 0x91, 0xa7, 0xa9, 0x18, 0xf5, 0x78, 0xd8, 0x5e, 0x51, 0xd0, 0x1b, 0xc9, 0xe4, 0xc2,
      0x80, 0x15, 0x3e, 0x5f, 0x5c, 0x77, 0xed, 0xf8, 0xe4, 0xb5, 0xeb, 0xb3, 0xd1, 0x0c, 0x10, 0xa4], ''GRIFFAIN''),
    ([0x05, 0x2e, 0x98, 0x6a, 0x95, 0x5e, 0x14, 0x29, 0x68, 0xf2, 0x26, 0xb6, 0xa1, 0x73, 0x45, 0xce,
      0xa6, 0x0b, 0xfa, 0x3c, 0x8c, 0xd4, 0x26, 0x0a, 0xfe, 0xdb, 0xcb, 0x2f, 0xba, 0x37, 0x14, 0x28], ''ME''),
    ([0x7c, 0x25, 0xb9, 0x90, 0x6b, 0x93, 0xa8, 0xaa, 0x9a, 0xc1, 0x7a, 0x40, 0xfc, 0x11, 0x27, 0x0d,
      0x94, 0x6a, 0xc8, 0xc1, 0x05, 0xcb, 0x19, 0x64, 0xa8, 0x4b, 0x94, 0x68, 0x9f, 0xc6, 0x90, 0xea], ''Anon''),
    ([0xb7, 0x23, 0xaa, 0x3d, 0xf8, 0xe2, 0x2d, 0x34, 0x2a, 0xca, 0x68, 0x24, 0x68, 0x1b, 0x63, 0xca,
      0x76, 0x7c, 0x4b, 0x1f, 0x10, 0x15, 0xd3, 0xce, 0x70, 0xed, 0xb8, 0x32, 0x7e, 0xb9, 0x1c, 0x2f], ''AVA''),
    ([0x4a, 0xe3, 0xd3, 0x20, 0x82, 0x05, 0x44, 0xff, 0xfa, 0x2e, 0x6d, 0xae, 0x60, 0xf8, 0xed, 0x2b,
      0xc3, 0x42, 0x6d, 0x8d, 0xe3, 0xd7, 0xf7, 0x7d, 0xdf, 0x35, 0x0c, 0x18, 0xfd, 0x6b, 0x31, 0x94], ''GIGA''),
    ([0x09, 0x90, 0x10, 0x70, 0x9d, 0x92, 0x7f, 0xec, 0xe1, 0x7c, 0x90, 0x43, 0x05, 0x81, 0xaa, 0xd5,
      0x06, 0x2a, 0x64, 0x06, 0xa5, 0x52, 0xfe, 0x72, 0x9b, 0xf2, 0x42, 0x5c, 0x02, 0xc4, 0x3f, 0xcf], ''UFD''),
    ([0x56, 0x5b, 0x78, 0xba, 0xec, 0x5b, 0xd6, 0xff, 0x06, 0x63, 0x33, 0x18, 0xea, 0x20, 0xe7, 0xf6,
      0x39, 0x8d, 0x2f, 0x32, 0x80, 0xe8, 0xf7, 0xf8, 0xc3, 0x80, 0x4e, 0x28, 0x8e, 0x78, 0xa7, 0x8d], ''TRUMP''),
    ([0xd6, 0xf9, 0x38, 0x36, 0x67, 0x9c, 0xa3, 0x2a, 0xe3, 0xfb, 0x0d, 0x47, 0x3b, 0x75, 0xfa, 0xdf,
      0x4b, 0x1f, 0x6c, 0xe4, 0x0d, 0x3e, 0x85, 0xf9, 0x16, 0xeb, 0x0b, 0x1d, 0xfa, 0xb9, 0x58, 0x9e], ''MELANIA''),
    ([0x08, 0x3e, 0x1d, 0x5d, 0x64, 0xb0, 0xeb, 0x30, 0xfa, 0x1e, 0x8e, 0x03, 0xe9, 0xf2, 0x46, 0x3f,
      0xe2, 0xd8, 0x28, 0x88, 0x84, 0x6a, 0xed, 0x91, 0x54, 0x06, 0x98, 0xb2, 0xfe, 0xe1, 0x07, 0x2b], ''ZBCN'')]"

definition TOKEN_REGISTRY :: "TokenInfo list" where
  "TOKEN_REGISTRY = TOKEN_REGISTRY_1 @ TOKEN_REGISTRY_2 @ TOKEN_REGISTRY_3 @ TOKEN_REGISTRY_4 @ TOKEN_REGISTRY_5 @ TOKEN_REGISTRY_6"

lemmas token_registry = TOKEN_REGISTRY_def TOKEN_REGISTRY_1_def TOKEN_REGISTRY_2_def TOKEN_REGISTRY_3_def TOKEN_REGISTRY_4_def TOKEN_REGISTRY_5_def TOKEN_REGISTRY_6_def

text \<open>A pointer argument that may be null is an option, as is the string that is returned.\<close>

fun symbol_in :: "TokenInfo list \<Rightarrow> u8 list \<Rightarrow> string" where
  "symbol_in [] mint_address = ''???''"
| "symbol_in (info # infos) mint_address =
     (if memcmp (fst info) mint_address = 0 then snd info else symbol_in infos mint_address)"

definition get_hardcoded_token_symbol :: "u8 list option \<Rightarrow> string option" where
  "get_hardcoded_token_symbol mint_address =
     map_option (symbol_in TOKEN_REGISTRY) mint_address"

fun mint_in :: "TokenInfo list \<Rightarrow> string \<Rightarrow> u8 list option" where
  "mint_in [] ticker = None"
| "mint_in (info # infos) ticker = (if ticker = snd info then Some (fst info) else mint_in infos ticker)"

text \<open>The second component is the value written through \<open>is_token_2022_kind\<close>, when one is.\<close>

definition get_hardcoded_token_mint_address :: "string option \<Rightarrow> (u8 list \<times> bool) option" where
  "get_hardcoded_token_mint_address ticker = do {
     ticker \<leftarrow> ticker;
     mint \<leftarrow> mint_in TOKEN_REGISTRY ticker;
     Some (mint, False) }"

section \<open>What the device has received\<close>

record dynamic_token_info_t =
  dti_received :: bool
  dti_ticker :: string
  dti_magnitude :: u8
  dti_is_token_2022_kind :: bool
  dti_encoded_mint_address :: string
  dti_mint_address :: "u8 list"

record trusted_info_t =
  ti_received :: bool
  ti_encoded_owner_address :: string
  ti_owner_address :: "u8 list"
  ti_encoded_token_address :: string
  ti_token_address :: "u8 list"
  ti_encoded_mint_address :: string
  ti_mint_address :: "u8 list"

text \<open>
  The device SDK computes the hashes and the curve operations; they are parameters. \<open>sdk_sha256 chunks\<close>
  is the digest of the chunks fed to the hash in order, \<open>None\<close> when one of the calls fails.
  \<open>sdk_ecpoint_alloc\<close> is the status of the allocation of a point, \<open>sdk_decode_coord\<close> strips the sign
  of a compressed point, \<open>sdk_ecpoint_decompress\<close> and \<open>sdk_ecpoint_is_on_curve\<close> are the curve
  operations, \<open>None\<close> on an error status. The failure of a \<open>CX_ASSERT\<close> on the lock of the big number
  unit leaves the application and is not modelled.
\<close>

record crypto_sdk =
  sdk_sha256 :: "u8 list list \<Rightarrow> u8 list option"
  sdk_ecpoint_alloc :: bool
  sdk_decode_coord :: "u8 list \<Rightarrow> u8 list \<times> bool"
  sdk_ecpoint_decompress :: "u8 list \<Rightarrow> bool \<Rightarrow> u8 list option"
  sdk_ecpoint_is_on_curve :: "u8 list \<Rightarrow> bool option"

text \<open>The two globals (null or set) and the SDK.\<close>

record token_env =
  g_dynamic_token_info :: "dynamic_token_info_t option"
  g_trusted_info :: "trusted_info_t option"
  env_sdk :: crypto_sdk

definition reset_dynamic_token_info :: "token_env \<Rightarrow> token_env" where
  "reset_dynamic_token_info env = env\<lparr>g_dynamic_token_info := None\<rparr>"

definition get_dynamic_token_symbol :: "token_env \<Rightarrow> u8 list option \<Rightarrow> bool \<Rightarrow> string option" where
  "get_dynamic_token_symbol env mint_address is_token_2022_kind =
     (case (g_dynamic_token_info env, mint_address) of
        (Some info, Some mint_address) \<Rightarrow>
          if \<not> dti_received info then None
          else if memcmp (dti_mint_address info) mint_address \<noteq> 0 then None
          else if is_token_2022_kind \<noteq> dti_is_token_2022_kind info then None
          else Some (dti_ticker info)
      | _ \<Rightarrow> None)"

definition get_token_symbol :: "token_env \<Rightarrow> u8 list option \<Rightarrow> bool \<Rightarrow> string option" where
  "get_token_symbol env mint_address is_token_2022_kind =
     (case get_dynamic_token_symbol env mint_address is_token_2022_kind of
        None \<Rightarrow> get_hardcoded_token_symbol mint_address
      | Some symbol \<Rightarrow> Some symbol)"

definition get_dynamic_token_mint_address :: "token_env \<Rightarrow> string option \<Rightarrow> (u8 list \<times> bool) option" where
  "get_dynamic_token_mint_address env symbol =
     (case (g_dynamic_token_info env, symbol) of
        (Some info, Some symbol) \<Rightarrow>
          if \<not> dti_received info then None
          else if symbol \<noteq> dti_ticker info then None
          else Some (dti_mint_address info, dti_is_token_2022_kind info)
      | _ \<Rightarrow> None)"

definition get_token_mint_address :: "token_env \<Rightarrow> string option \<Rightarrow> (u8 list \<times> bool) option" where
  "get_token_mint_address env symbol =
     (case get_dynamic_token_mint_address env symbol of
        None \<Rightarrow> get_hardcoded_token_mint_address symbol
      | Some mint \<Rightarrow> Some mint)"

section \<open>Associated token accounts\<close>

text \<open>A failure of the SDK makes \<open>is_on_curve_internal\<close> return false.\<close>

definition is_on_curve_internal :: "crypto_sdk \<Rightarrow> u8 list \<Rightarrow> bool" where
  "is_on_curve_internal sdk compressed_point =
     (if \<not> sdk_ecpoint_alloc sdk then False
      else let (compressed_point_tmp, sign) = sdk_decode_coord sdk compressed_point
      in case sdk_ecpoint_decompress sdk compressed_point_tmp sign of
           None \<Rightarrow> False
         | Some point \<Rightarrow> (case sdk_ecpoint_is_on_curve sdk point of
              None \<Rightarrow> False
            | Some is_on_curve \<Rightarrow> is_on_curve))"

definition is_on_curve :: "crypto_sdk \<Rightarrow> u8 list \<Rightarrow> bool" where
  "is_on_curve sdk compressed_point = is_on_curve_internal sdk compressed_point"

definition program_derived_address :: "u8 list" where
  "program_derived_address = map (\<lambda>c. of_char c) ''ProgramDerivedAddress''"

definition derivate_ata_candidate ::
    "crypto_sdk \<Rightarrow> u8 list \<Rightarrow> u8 list \<Rightarrow> u8 \<Rightarrow> bool \<Rightarrow> u8 list option" where
  "derivate_ata_candidate sdk owner_account mint_account nonce is_token_2022 =
     (let program_id = (if is_token_2022 then bytes spl_token2022_program_id
                        else bytes spl_token_program_id)
      in sdk_sha256 sdk [owner_account, program_id, mint_account, [nonce],
           bytes spl_associated_token_account_program_id, program_derived_address])"

text \<open>
  The loop over the nonces: \<open>try_nonces n\<close> runs it for n - 1, n - 2, ..., 0. It ends at the first error
  and at the first candidate equal to the account.
\<close>

fun try_nonces :: "crypto_sdk \<Rightarrow> u8 list \<Rightarrow> u8 list \<Rightarrow> u8 list \<Rightarrow> bool \<Rightarrow> nat \<Rightarrow> bool" where
  "try_nonces sdk owner_account mint_account provided_ata is_token_2022 0 = False"
| "try_nonces sdk owner_account mint_account provided_ata is_token_2022 (Suc nonce) =
     (case derivate_ata_candidate sdk owner_account mint_account (of_nat nonce) is_token_2022 of
        None \<Rightarrow> False
      | Some derived_ata \<Rightarrow>
          if memcmp derived_ata provided_ata = 0 then \<not> is_on_curve sdk derived_ata
          else try_nonces sdk owner_account mint_account provided_ata is_token_2022 nonce)"

definition validate_associated_token_address :: "crypto_sdk \<Rightarrow> u8 list \<Rightarrow> u8 list \<Rightarrow> u8 list \<Rightarrow> bool \<Rightarrow> bool" where
  "validate_associated_token_address sdk owner_account mint_account provided_ata is_token_2022 =
     try_nonces sdk owner_account mint_account provided_ata is_token_2022 256"

definition check_ata_against_trusted_info ::
    "token_env \<Rightarrow> byte_ptr \<Rightarrow> byte_ptr \<Rightarrow> byte_ptr \<Rightarrow> bool \<Rightarrow> bool" where
  "check_ata_against_trusted_info env src_account mint_account dest_account is_token_2022 =
     (case g_trusted_info env of
        None \<Rightarrow> False
      | Some info \<Rightarrow>
          ti_received info
          \<and> \<not> memcmp (ti_mint_address info) (bytes mint_account) \<noteq> 0
          \<and> \<not> memcmp (ti_token_address info) (bytes dest_account) \<noteq> 0
          \<and> validate_associated_token_address (env_sdk env) (ti_owner_address info)
               (bytes mint_account) (bytes dest_account) is_token_2022)"

definition get_transfer_to_address :: "token_env \<Rightarrow> string option" where
  "get_transfer_to_address env =
     (case g_trusted_info env of
        Some info \<Rightarrow> if \<not> ti_received info then None else Some (ti_encoded_owner_address info)
      | None \<Rightarrow> None)"
section \<open>The registry is a bijection\<close>

text \<open>Symbols and keys as numbers, so that the registry is compared entry by entry on numerals.\<close>

fun symbol_number :: "string \<Rightarrow> nat" where
  "symbol_number [] = 0"
| "symbol_number (c # cs) = of_char c + 256 * symbol_number cs"

definition mint_number :: "u8 list \<Rightarrow> nat" where
  "mint_number bs = unat (bs ! 0) + 256 * unat (bs ! 1) + 65536 * unat (bs ! 2)"

lemma registry_mints: "list_all (\<lambda>i. length (fst i) = 32) TOKEN_REGISTRY"
  by (simp add: token_registry)

lemma registry_symbol_numbers: "distinct (map (symbol_number o snd) TOKEN_REGISTRY)"
  unfolding token_registry by simp

lemma registry_mint_numbers: "distinct (map (mint_number o fst) TOKEN_REGISTRY)"
  unfolding token_registry by (simp add: mint_number_def)
lemma registry_distinct:
  "distinct (map snd TOKEN_REGISTRY)" "distinct (map fst TOKEN_REGISTRY)"
  using registry_symbol_numbers registry_mint_numbers
  by (metis distinct_map list.map_comp)+

lemma symbol_in_cases:
  assumes "list_all (\<lambda>i. length (fst i) = 32) infos" and "length m = 32"
  shows "symbol_in infos m = (case map_of infos m of None \<Rightarrow> ''???'' | Some s \<Rightarrow> s)"
  using assms by (induction infos) (auto simp: memcmp_eq_0 split: option.splits)

lemma mint_in_Some:
  assumes "distinct (map snd infos)" and "(m, s) \<in> set infos"
  shows "mint_in infos s = Some m"
  using assms by (induction infos) (auto simp: rev_image_eqI)

lemma mint_in_SomeD: "mint_in infos s = Some m \<Longrightarrow> (m, s) \<in> set infos"
  by (induction infos) (auto split: if_splits)

lemma registry_no_unknown: "list_all (\<lambda>i. snd i \<noteq> ''???'') TOKEN_REGISTRY"
  by (simp add: token_registry)

text \<open>The registry compiled into the application is a bijection between mints and tickers:
  the ticker found for a mint leads back to that mint, the mint found for a ticker back to that
  ticker, and no hardcoded token is a token-2022 one. A transfer whose ticker is looked up in one
  direction and displayed in the other cannot change token.\<close>

theorem token_registry_bijective:
  assumes "length m = 32"
  shows "(get_hardcoded_token_symbol (Some m) = Some s \<and> s \<noteq> ''???'')
     \<longleftrightarrow> get_hardcoded_token_mint_address (Some s) = Some (m, False)"
proof -
  have "get_hardcoded_token_mint_address (Some s) = Some (m, False) \<longleftrightarrow> (m, s) \<in> set TOKEN_REGISTRY"
    using mint_in_Some [OF registry_distinct(1), of m s] mint_in_SomeD [of TOKEN_REGISTRY s m]
    by (cases "mint_in TOKEN_REGISTRY s") (auto simp: get_hardcoded_token_mint_address_def)
  moreover have known: "map_of TOKEN_REGISTRY m \<noteq> Some ''???''"
    using registry_no_unknown by (force simp: list_all_iff dest!: map_of_SomeD)
  moreover have "get_hardcoded_token_symbol (Some m) = Some s \<and> s \<noteq> ''???'' \<longleftrightarrow> (m, s) \<in> set TOKEN_REGISTRY"
    unfolding map_of_eq_Some_iff [OF registry_distinct(2), symmetric] get_hardcoded_token_symbol_def
    using known by (auto simp: symbol_in_cases [OF registry_mints assms] split: option.splits)
  ultimately show ?thesis by simp
qed

definition usdc_mint :: "u8 list" where
  "usdc_mint = [0xc6, 0xfa, 0x7a, 0xf3, 0xbe, 0xdb, 0xad, 0x3a, 0x3d, 0x65, 0xf3, 0x6a, 0xab, 0xc9, 0x74, 0x31,
     0xb1, 0xbb, 0xe4, 0xc2, 0xd2, 0xf6, 0xe0, 0xe4, 0x7c, 0xa6, 0x02, 0x03, 0x45, 0x2f, 0x5d, 0x61]"

lemma usdc_mint_found: "get_hardcoded_token_mint_address (Some ''USDC'') = Some (usdc_mint, False)"
  by (simp add: get_hardcoded_token_mint_address_def token_registry usdc_mint_def)

theorem token_registry_bijective_witness:
  "length usdc_mint = 32 \<and> get_hardcoded_token_symbol (Some usdc_mint) = Some ''USDC''"
  using token_registry_bijective [of usdc_mint "''USDC''"] usdc_mint_found by (simp add: usdc_mint_def)

section \<open>What a validated token account is\<close>

lemma last_match:
  "(\<exists>k < Suc n. P k \<and> (\<forall>m. k < m \<and> m < Suc n \<longrightarrow> Q m))
     \<longleftrightarrow> P n \<or> Q n \<and> (\<exists>k < n. P k \<and> (\<forall>m. k < m \<and> m < n \<longrightarrow> Q m))"
  by (auto simp: less_Suc_eq)

text \<open>
  The nonce that proves an account: the first one, from 255 down, whose derivation is the account;
  all the derivations before it succeeded.
\<close>

definition proving_nonce :: "crypto_sdk \<Rightarrow> u8 list \<Rightarrow> u8 list \<Rightarrow> u8 list \<Rightarrow> bool \<Rightarrow> nat \<Rightarrow> nat \<Rightarrow> bool" where
  "proving_nonce sdk owner mint ata k n nonce \<longleftrightarrow>
     derivate_ata_candidate sdk owner mint (of_nat nonce) k = Some ata
     \<and> (\<forall>m. nonce < m \<and> m < n \<longrightarrow> (\<exists>d. derivate_ata_candidate sdk owner mint (of_nat m) k = Some d \<and> d \<noteq> ata))"

lemma try_nonces_iff:
  assumes "\<And>chunks d. sdk_sha256 sdk chunks = Some d \<Longrightarrow> length d = length ata"
  shows "try_nonces sdk owner mint ata k n \<longleftrightarrow>
    (\<exists>nonce < n. proving_nonce sdk owner mint ata k n nonce) \<and> \<not> is_on_curve sdk ata"
proof (induction n)
  case (Suc n)
  have len: "derivate_ata_candidate sdk owner mint (of_nat n) k = Some d \<Longrightarrow> length d = length ata" for d
    using assms by (auto simp: derivate_ata_candidate_def)
  show ?case
    unfolding proving_nonce_def last_match
    using Suc.IH [unfolded proving_nonce_def]
    by (auto simp: memcmp_eq_0 [OF len] split: option.splits)
qed simp

text \<open>C10: A transfer passes the check of its destination exactly when trusted information has been
  received for that mint and that token account, and the token account is the address derived from
  the trusted owner, the token program and the mint by the first nonce that gives it, off the
  curve. So the owner displayed as the recipient controls the account the tokens go to.\<close>

theorem checked_destination_is_derived:
  assumes "\<And>chunks d. sdk_sha256 (env_sdk env) chunks = Some d \<Longrightarrow> length d = 32"
    and "length (bytes mint) = 32" and "length (bytes dest) = 32"
    and "\<And>info. g_trusted_info env = Some info \<Longrightarrow> length (ti_mint_address info) = 32 \<and> length (ti_token_address info) = 32"
  shows "check_ata_against_trusted_info env src mint dest k \<longleftrightarrow>
    (\<exists>info nonce. g_trusted_info env = Some info \<and> ti_received info
       \<and> ti_mint_address info = bytes mint \<and> ti_token_address info = bytes dest
       \<and> nonce < 256 \<and> proving_nonce (env_sdk env) (ti_owner_address info) (bytes mint) (bytes dest) k 256 nonce
       \<and> \<not> is_on_curve (env_sdk env) (bytes dest))"
proof -
  have "sdk_sha256 (env_sdk env) chunks = Some d \<Longrightarrow> length d = length (bytes dest)" for chunks d
    using assms by metis
  note 1 = try_nonces_iff [OF this]
  show ?thesis
    using assms(2,3,4)
    by (auto simp: check_ata_against_trusted_info_def validate_associated_token_address_def 1 memcmp_eq_0
        split: option.splits)
qed

text \<open>A device whose hash maps everything to the same 32 bytes, none of them on the curve.\<close>

definition sample_sdk :: crypto_sdk where
  "sample_sdk = \<lparr>sdk_sha256 = \<lambda>_. Some (replicate 32 7), sdk_ecpoint_alloc = True,
     sdk_decode_coord = \<lambda>p. (p, False), sdk_ecpoint_decompress = \<lambda>_ _. None,
     sdk_ecpoint_is_on_curve = \<lambda>_. Some True\<rparr>"

definition sample_env :: token_env where
  "sample_env = \<lparr>g_dynamic_token_info = None,
     g_trusted_info = Some \<lparr>ti_received = True, ti_encoded_owner_address = ''owner'',
       ti_owner_address = replicate 32 1,
       ti_encoded_token_address = ''token'', ti_token_address = replicate 32 7,
       ti_encoded_mint_address = ''mint'', ti_mint_address = usdc_mint\<rparr>,
     env_sdk = sample_sdk\<rparr>"

lemma sample_candidate: "derivate_ata_candidate sample_sdk owner m n k = Some (replicate 32 7)"
  by (simp add: derivate_ata_candidate_def sample_sdk_def)

lemma sample_off_curve: "\<not> is_on_curve sample_sdk p"
  by (simp add: is_on_curve_def is_on_curve_internal_def sample_sdk_def)

theorem checked_destination_is_derived_witness:
  "check_ata_against_trusted_info sample_env (Ptr 0 []) (Ptr 1 usdc_mint) (Ptr 2 (replicate 32 7)) False"
proof (subst checked_destination_is_derived)
  show "\<exists>info nonce. g_trusted_info sample_env = Some info \<and> ti_received info
       \<and> ti_mint_address info = bytes (Ptr 1 usdc_mint) \<and> ti_token_address info = bytes (Ptr 2 (replicate 32 7))
       \<and> nonce < 256 \<and> proving_nonce (env_sdk sample_env) (ti_owner_address info)
            (bytes (Ptr 1 usdc_mint)) (bytes (Ptr 2 (replicate 32 7))) False 256 nonce
       \<and> \<not> is_on_curve (env_sdk sample_env) (bytes (Ptr 2 (replicate 32 7)))"
    by (intro exI [of _ "the (g_trusted_info sample_env)"] exI [of _ 255])
      (auto simp: sample_env_def proving_nonce_def sample_candidate sample_off_curve)
qed (auto simp: sample_env_def sample_sdk_def usdc_mint_def)

end
