(* ===== verification/Sol_Swap.thy ===== *)
theory Sol_Swap
  imports Sol_Display Sol_Apdu Sol_Trusted
begin

text \<open>
  A swap started by the Exchange application: what the user validated there is copied into
  \<open>G_swap_validated\<close> (\<open>src/swap/handle_swap_sign_transaction.c\<close>), and a transaction is signed without a
  screen when the items of its summary are what was validated (\<open>check_swap_validity\<close> of
  \<open>src/handle_sign_message.c\<close>). First the code; then what an accepted transaction is.

  The sending of a swap error leaves the application: it is a value \<open>Inl\<close>. The functions of the SDK (the
  parser of the configuration of a coin, the decoder of amounts, the decoder of base 58) and the
  size of its printable amounts are parameters.
\<close>

section \<open>The validated parameters\<close>

definition MAX_SWAP_TOKEN_LENGTH :: nat where "MAX_SWAP_TOKEN_LENGTH = 15"

datatype swap_mode_t = SWAP_MODE_STANDARD | SWAP_MODE_CROSSCHAIN | SWAP_MODE_ERROR

definition EXTRA_ID_TYPE_NATIVE :: u8 where "EXTRA_ID_TYPE_NATIVE = 0x00"
definition EXTRA_ID_TYPE_SOLANA_TEMPLATE :: u8 where "EXTRA_ID_TYPE_SOLANA_TEMPLATE = 0x03"

datatype swap_error_common_code = SWAP_EC_ERROR_INTERNAL | SWAP_EC_ERROR_WRONG_AMOUNT | SWAP_EC_ERROR_WRONG_DESTINATION
  | SWAP_EC_ERROR_WRONG_FEES | SWAP_EC_ERROR_WRONG_METHOD | SWAP_EC_ERROR_CROSSCHAIN_WRONG_MODE
  | SWAP_EC_ERROR_CROSSCHAIN_WRONG_METHOD | SWAP_EC_ERROR_GENERIC

datatype swap_error_application_specific_code_t = SWAP_EC_APP_GENERIC | SWAP_EC_APP_TEMPLATE_ID_MISMATCH
  | SWAP_EC_APP_DESCRIPTOR_PARSE_FAILED | SWAP_EC_APP_DESCRIPTOR_MISSING_STRUCT_TYPE
  | SWAP_EC_APP_DESCRIPTOR_UNEXPECTED_STRUCT_TYPE | SWAP_EC_APP_DESCRIPTOR_MISSING_FIELDS
  | SWAP_EC_APP_DESCRIPTOR_UNSUPPORTED_VERSION | SWAP_EC_APP_DESCRIPTOR_SIGNATURE_FAILED
  | SWAP_EC_APP_DESCRIPTOR_SAVE_FAILED | SWAP_EC_APP_INVALID_SWAP_PROTOCOL
  | SWAP_EC_APP_CROSSCHAIN_IN_STANDARD_CHECK | SWAP_EC_APP_TRANSFER_CHECKED_WITH_FEES_REQUIRED
  | SWAP_EC_APP_TRANSFER_HOOK_REFUSED | SWAP_EC_APP_DESCRIPTOR_INFO_MISSING | SWAP_EC_APP_ATA_VALIDATION_FAILED
  | SWAP_EC_APP_DUPLICATE_AMOUNT | SWAP_EC_APP_UNEXPECTED_TOKEN_CONTEXT | SWAP_EC_APP_PREVIEW_NOT_SUPPORTED
  | SWAP_EC_APP_DESCRIPTOR_PROCESSING_FAILED | SWAP_EC_APP_BLIND_SIGNING_REFUSED
  | SWAP_EC_APP_DESCRIPTOR_INVALID_CAPPED_FIELDS

type_synonym swap_error = "swap_error_common_code \<times> swap_error_application_specific_code_t"

record swap_validated_t =
  initialized :: bool
  swap_mode :: swap_mode_t
  template_id :: u64
  sv_decimals :: u8
  sv_ticker :: string
  sv_amount :: u64
  sv_fee :: u64
  recipient :: string

definition no_swap :: swap_validated_t where
  "no_swap = \<lparr>initialized = False, swap_mode = SWAP_MODE_STANDARD, template_id = 0, sv_decimals = 0, sv_ticker = [],
     sv_amount = 0, sv_fee = 0, recipient = []\<rparr>"

text \<open>The parameters of the Exchange application; a pointer that may be null is an option.\<close>

record create_transaction_parameters_t =
  coin_configuration :: "u8 list option"
  destination_address :: string
  destination_address_extra_id :: "u8 list option"
  amount_bytes :: "u8 list"
  fee_amount_bytes :: "u8 list"

record swap_sdk =
  swap_parse_config :: "u8 list \<Rightarrow> nat \<Rightarrow> (string \<times> u8) option"
  swap_str_to_u64 :: "u8 list \<Rightarrow> u64 option"
  base58_decode :: "string \<Rightarrow> nat \<Rightarrow> u8 list option"
  MAX_PRINTABLE_AMOUNT_SIZE :: nat

definition be64 :: "u8 list \<Rightarrow> u64" where
  "be64 bs = foldl (\<lambda>a b. push_bit 8 a OR ucast b) 0 (take 8 bs)"

text \<open>\<open>strlcpy\<close> into a buffer of \<open>n\<close> bytes, zero before: at most \<open>n - 1\<close> characters and a NUL.\<close>

definition strlcpy :: "string \<Rightarrow> nat \<Rightarrow> string" where
  "strlcpy s n = take (n - 1) s @ replicate (n - length (take (n - 1) s)) NUL"

definition extra_id_mode :: "u8 list option \<Rightarrow> swap_mode_t \<times> u64" where
  "extra_id_mode extra_id =
     (case extra_id of
        None \<Rightarrow> (SWAP_MODE_STANDARD, 0)
      | Some bs \<Rightarrow> if bs ! 0 = EXTRA_ID_TYPE_NATIVE then (SWAP_MODE_STANDARD, 0)
                   else if bs ! 0 = EXTRA_ID_TYPE_SOLANA_TEMPLATE then (SWAP_MODE_CROSSCHAIN, be64 (tl bs))
                   else (SWAP_MODE_ERROR, 0))"

text \<open>\<open>None\<close> is the return of false; otherwise the globals are reset and the new value is committed.\<close>

definition swap_copy_transaction_parameters :: "swap_sdk \<Rightarrow> create_transaction_parameters_t \<Rightarrow> swap_validated_t option" where
  "swap_copy_transaction_parameters sdk params = do {
     let (mode, template) = extra_id_mode (destination_address_extra_id params);
     (ticker, decimals) \<leftarrow> (case coin_configuration params of
         None \<Rightarrow> Some (''SOL'', SOL_DECIMALS)
       | Some config \<Rightarrow> swap_parse_config sdk config MAX_SWAP_TOKEN_LENGTH);
     let buf = strlcpy (destination_address params) BASE58_PUBKEY_LENGTH;
     guard (buf ! (BASE58_PUBKEY_LENGTH - 1) = NUL);
     amount \<leftarrow> swap_str_to_u64 sdk (amount_bytes params);
     fee \<leftarrow> swap_str_to_u64 sdk (fee_amount_bytes params);
     Some \<lparr>initialized = True, swap_mode = mode, template_id = template, sv_decimals = decimals, sv_ticker = ticker,
       sv_amount = amount, sv_fee = fee, recipient = c_str buf\<rparr> }"

section \<open>The comparisons with what was validated\<close>

text \<open>
  A text is the C string of its buffer. A failure to print is the result false; so is, here, the read
  before the buffer, which needs a buffer of one byte.
\<close>

definition printed :: "written option \<Rightarrow> string option" where
  "printed r = (case r of Some (rc, w) \<Rightarrow> if rc = 0 then Some (c_str w) else None | None \<Rightarrow> None)"

definition check_swap_amount :: "swap_sdk \<Rightarrow> swap_validated_t \<Rightarrow> string \<Rightarrow> bool" where
  "check_swap_amount sdk G_swap_validated txt =
     (if \<not> initialized G_swap_validated then False
      else case printed (print_token_amount (sv_amount G_swap_validated) (Some (sv_ticker G_swap_validated))
               (sv_decimals G_swap_validated) (MAX_PRINTABLE_AMOUNT_SIZE sdk)) of
             None \<Rightarrow> False
           | Some validated_amount \<Rightarrow> txt = validated_amount)"

definition check_swap_amount_raw :: "swap_validated_t \<Rightarrow> u64 \<Rightarrow> bool" where
  "check_swap_amount_raw G_swap_validated amount =
     (if \<not> initialized G_swap_validated then False else amount = sv_amount G_swap_validated)"

definition get_swap_amount_raw :: "swap_validated_t \<Rightarrow> u64 option" where
  "get_swap_amount_raw G_swap_validated =
     (if \<not> initialized G_swap_validated then None else Some (sv_amount G_swap_validated))"

definition check_swap_ticker :: "swap_validated_t \<Rightarrow> string option \<Rightarrow> bool" where
  "check_swap_ticker G_swap_validated ticker =
     (case ticker of
        None \<Rightarrow> False
      | Some ticker \<Rightarrow> initialized G_swap_validated
          \<and> take MAX_SWAP_TOKEN_LENGTH ticker = take MAX_SWAP_TOKEN_LENGTH (sv_ticker G_swap_validated))"

definition get_swap_ticker :: "swap_validated_t \<Rightarrow> string option" where
  "get_swap_ticker G_swap_validated =
     (if \<not> initialized G_swap_validated then None else Some (sv_ticker G_swap_validated))"

definition check_swap_fee :: "swap_sdk \<Rightarrow> swap_validated_t \<Rightarrow> string \<Rightarrow> bool" where
  "check_swap_fee sdk G_swap_validated txt =
     (if \<not> initialized G_swap_validated then False
      else case printed (print_amount (sv_fee G_swap_validated) (MAX_PRINTABLE_AMOUNT_SIZE sdk)) of
             None \<Rightarrow> False
           | Some validated_fee \<Rightarrow> amount_as_string_is_greater_or_equal (Some validated_fee) (Some txt))"

definition check_swap_recipient :: "swap_validated_t \<Rightarrow> string \<Rightarrow> bool" where
  "check_swap_recipient G_swap_validated txt =
     (if \<not> initialized G_swap_validated then False else recipient G_swap_validated = txt)"

definition get_swap_recipient :: "swap_sdk \<Rightarrow> swap_validated_t \<Rightarrow> u8 list option" where
  "get_swap_recipient sdk G_swap_validated =
     (if \<not> initialized G_swap_validated then None
      else case base58_decode sdk (recipient G_swap_validated) PUBKEY_SIZE of
             None \<Rightarrow> None
           | Some key \<Rightarrow> if length key \<noteq> PUBKEY_SIZE then None else Some key)"

definition is_token_transaction :: "swap_validated_t \<Rightarrow> bool" where
  "is_token_transaction G_swap_validated \<longleftrightarrow> sv_ticker G_swap_validated \<noteq> ''SOL''"

definition get_swap_mode :: "swap_validated_t \<Rightarrow> swap_mode_t" where
  "get_swap_mode G_swap_validated = swap_mode G_swap_validated"

definition check_template_id :: "swap_validated_t \<Rightarrow> u64 \<Rightarrow> bool" where
  "check_template_id G_swap_validated received =
     (if \<not> initialized G_swap_validated then False else template_id G_swap_validated = received)"
section \<open>The check of a summary\<close>

text \<open>
  The loop displays the items one by one, with long keys, and looks at the kind, the title and the
  text in the buffers; the status of the display is not looked at. \<open>'f\<close> is what the loop
  remembers.
\<close>

fun check_items :: "(SummaryItemKind \<Rightarrow> string \<Rightarrow> string \<Rightarrow> 'f \<Rightarrow> swap_error + 'f) \<Rightarrow> TransactionSummary
    \<Rightarrow> SummaryItemKind list \<Rightarrow> nat \<Rightarrow> 'f \<Rightarrow> Display \<Rightarrow> (swap_error + 'f \<times> Display) option" where
  "check_items check S [] i flags D = Some (Inr (flags, D))"
| "check_items check S (kind # kinds) i flags D = do {
     (_, D) \<leftarrow> transaction_summary_display_item S i True D;
     (case check kind (shown_title D) (shown_text D) flags of
        Inl e \<Rightarrow> Some (Inl e)
      | Inr flags \<Rightarrow> check_items check S kinds (i + 1) flags D) }"

definition native_item :: "swap_sdk \<Rightarrow> swap_validated_t \<Rightarrow> SummaryItemKind \<Rightarrow> string \<Rightarrow> string
    \<Rightarrow> bool \<times> bool \<Rightarrow> swap_error + bool \<times> bool" where
  "native_item sdk sv kind title txt = (\<lambda>(amount_ok, recipient_ok).
     if kind = SummaryItemAmount
     then if title = ''Max fees''
          then (if \<not> check_swap_fee sdk sv txt then Inl (SWAP_EC_ERROR_WRONG_FEES, SWAP_EC_APP_GENERIC)
                else Inr (True, recipient_ok))
          else if title = ''Amount''
          then (if \<not> check_swap_amount sdk sv txt then Inl (SWAP_EC_ERROR_WRONG_AMOUNT, SWAP_EC_APP_GENERIC)
                else Inr (True, recipient_ok))
          else Inl (SWAP_EC_ERROR_WRONG_AMOUNT, SWAP_EC_APP_GENERIC)
     else if kind = SummaryItemPubkey
     then (if title \<noteq> ''To'' then Inl (SWAP_EC_ERROR_WRONG_DESTINATION, SWAP_EC_APP_GENERIC)
           else if \<not> check_swap_recipient sv txt then Inl (SWAP_EC_ERROR_WRONG_DESTINATION, SWAP_EC_APP_GENERIC)
           else Inr (amount_ok, True))
     else Inl (SWAP_EC_ERROR_WRONG_METHOD, SWAP_EC_APP_GENERIC))"

definition check_swap_validity_native :: "swap_sdk \<Rightarrow> swap_validated_t \<Rightarrow> TransactionSummary \<Rightarrow> SummaryItemKind list
    \<Rightarrow> Display \<Rightarrow> (swap_error + Display) option" where
  "check_swap_validity_native sdk sv S kinds D =
     (if length kinds \<noteq> 2 \<and> length kinds \<noteq> 2 + 1 then Some (Inl (SWAP_EC_ERROR_WRONG_METHOD, SWAP_EC_APP_GENERIC))
      else do {
        r \<leftarrow> check_items (native_item sdk sv) S kinds 0 (False, False) D;
        Some (case r of
            Inl e \<Rightarrow> Inl e
          | Inr ((amount_ok, recipient_ok), D) \<Rightarrow>
              if \<not> amount_ok \<or> \<not> recipient_ok then Inl (SWAP_EC_ERROR_WRONG_METHOD, SWAP_EC_APP_GENERIC) else Inr D) })"

record token_flags =
  amount_ok :: bool
  mint_ok :: bool
  dest_ata_ok :: bool
  dest_sol_address_ok :: bool
  create_token_account_received :: bool

definition token_pubkey_item :: "trusted_info_t \<Rightarrow> string \<Rightarrow> string \<Rightarrow> token_flags \<Rightarrow> swap_error + token_flags" where
  "token_pubkey_item info title txt flags =
     (if title = ''Create token account''
      then (if ti_encoded_token_address info \<noteq> txt then Inl (SWAP_EC_ERROR_WRONG_METHOD, SWAP_EC_APP_GENERIC)
            else Inr (flags\<lparr>create_token_account_received := True\<rparr>))
      else if title = ''For''
      then (if \<not> create_token_account_received flags then Inl (SWAP_EC_ERROR_WRONG_METHOD, SWAP_EC_APP_UNEXPECTED_TOKEN_CONTEXT)
            else Inr flags)
      else if title = ''Funded by''
      then (if \<not> create_token_account_received flags then Inl (SWAP_EC_ERROR_WRONG_METHOD, SWAP_EC_APP_UNEXPECTED_TOKEN_CONTEXT)
            else Inr flags)
      else if title = ''Token address''
      then (if ti_encoded_mint_address info \<noteq> txt then Inl (SWAP_EC_ERROR_GENERIC, SWAP_EC_APP_GENERIC)
            else Inr (flags\<lparr>mint_ok := True\<rparr>))
      else if title = ''From (token account)'' then Inr flags
      else if title = ''To (token account)''
      then (if ti_encoded_token_address info \<noteq> txt then Inl (SWAP_EC_ERROR_WRONG_DESTINATION, SWAP_EC_APP_GENERIC)
            else Inr (flags\<lparr>dest_ata_ok := True\<rparr>))
      else Inr flags)"

definition token_item :: "swap_sdk \<Rightarrow> swap_validated_t \<Rightarrow> trusted_info_t \<Rightarrow> SummaryItemKind \<Rightarrow> string \<Rightarrow> string
    \<Rightarrow> token_flags \<Rightarrow> swap_error + token_flags" where
  "token_item sdk sv info kind title txt flags =
     (if kind = SummaryItemTokenAmount
      then (if title \<noteq> ''Amount'' then Inl (SWAP_EC_ERROR_WRONG_METHOD, SWAP_EC_APP_GENERIC)
            else if \<not> check_swap_amount sdk sv txt then Inl (SWAP_EC_ERROR_WRONG_AMOUNT, SWAP_EC_APP_GENERIC)
            else if amount_ok flags then Inl (SWAP_EC_ERROR_WRONG_METHOD, SWAP_EC_APP_DUPLICATE_AMOUNT)
            else Inr (flags\<lparr>amount_ok := True\<rparr>))
      else if kind = SummaryItemAmount
      then (if title = ''Max fees''
            then (if \<not> check_swap_fee sdk sv txt then Inl (SWAP_EC_ERROR_WRONG_FEES, SWAP_EC_APP_GENERIC) else Inr flags)
            else Inl (SWAP_EC_ERROR_WRONG_METHOD, SWAP_EC_APP_GENERIC))
      else if kind = SummaryItemPubkey then token_pubkey_item info title txt flags
      else if kind = SummaryItemString
      then (if title \<noteq> ''To'' then Inl (SWAP_EC_ERROR_WRONG_METHOD, SWAP_EC_APP_GENERIC)
            else if ti_encoded_owner_address info \<noteq> txt then Inl (SWAP_EC_ERROR_WRONG_DESTINATION, SWAP_EC_APP_GENERIC)
            else if \<not> check_swap_recipient sv txt then Inl (SWAP_EC_ERROR_WRONG_DESTINATION, SWAP_EC_APP_GENERIC)
            else Inr (flags\<lparr>dest_sol_address_ok := True\<rparr>))
      else Inl (SWAP_EC_ERROR_WRONG_METHOD, SWAP_EC_APP_GENERIC))"

definition check_swap_validity_token :: "swap_sdk \<Rightarrow> swap_validated_t \<Rightarrow> token_env \<Rightarrow> TransactionSummary
    \<Rightarrow> SummaryItemKind list \<Rightarrow> bool \<Rightarrow> Display \<Rightarrow> (swap_error + Display) option" where
  "check_swap_validity_token sdk sv env S kinds is_token_2022 D =
     (case g_trusted_info env of
        None \<Rightarrow> Some (Inl (SWAP_EC_ERROR_GENERIC, SWAP_EC_APP_DESCRIPTOR_INFO_MISSING))
      | Some info \<Rightarrow>
          if \<not> ti_received info then Some (Inl (SWAP_EC_ERROR_GENERIC, SWAP_EC_APP_DESCRIPTOR_INFO_MISSING))
          else if \<not> validate_associated_token_address (env_sdk env) (ti_owner_address info) (ti_mint_address info)
              (ti_token_address info) is_token_2022
          then Some (Inl (SWAP_EC_ERROR_GENERIC, SWAP_EC_APP_ATA_VALIDATION_FAILED))
          else do {
            r \<leftarrow> check_items (token_item sdk sv info) S kinds 0
              \<lparr>amount_ok = False, mint_ok = False, dest_ata_ok = False, dest_sol_address_ok = False,
                create_token_account_received = False\<rparr> D;
            Some (case r of
                Inl e \<Rightarrow> Inl e
              | Inr (flags, D) \<Rightarrow>
                  if \<not> amount_ok flags \<or> \<not> mint_ok flags \<or> \<not> dest_ata_ok flags \<or> \<not> dest_sol_address_ok flags
                  then Inl (SWAP_EC_ERROR_GENERIC, SWAP_EC_APP_GENERIC) else Inr D) })"

definition check_swap_validity :: "swap_sdk \<Rightarrow> swap_validated_t \<Rightarrow> token_env \<Rightarrow> TransactionSummary
    \<Rightarrow> SummaryItemKind list \<Rightarrow> Display \<Rightarrow> (swap_error + Display) option" where
  "check_swap_validity sdk sv env S kinds D =
     (if get_swap_mode sv = SWAP_MODE_ERROR
      then Some (Inl (SWAP_EC_ERROR_CROSSCHAIN_WRONG_MODE, SWAP_EC_APP_INVALID_SWAP_PROTOCOL))
      else if get_swap_mode sv = SWAP_MODE_CROSSCHAIN
      then Some (Inl (SWAP_EC_ERROR_WRONG_METHOD, SWAP_EC_APP_CROSSCHAIN_IN_STANDARD_CHECK))
      else if is_token_transaction sv
      then let is_token_2022 = is_token_2022_transfer S;
               (unknown_transfer_fees, has_transfer_hook) = transaction_summary_get_token_warnings S
           in if is_token_2022 \<and> unknown_transfer_fees
              then Some (Inl (SWAP_EC_ERROR_WRONG_METHOD, SWAP_EC_APP_TRANSFER_CHECKED_WITH_FEES_REQUIRED))
              else if is_token_2022 \<and> has_transfer_hook
              then Some (Inl (SWAP_EC_ERROR_WRONG_METHOD, SWAP_EC_APP_TRANSFER_HOOK_REFUSED))
              else check_swap_validity_token sdk sv env S kinds is_token_2022 D
      else check_swap_validity_native sdk sv S kinds D)"

section \<open>The other entry points of the swap library\<close>

text \<open>The printable amount is an array of the caller, cleared first: what the printer left of it on failure stays.\<close>

definition swap_handle_get_printable_amount :: "swap_sdk \<Rightarrow> u8 list \<Rightarrow> bool \<Rightarrow> u8 list option \<Rightarrow> string option" where
  "swap_handle_get_printable_amount sdk amount is_fee config =
     (let n = MAX_PRINTABLE_AMOUNT_SIZE sdk; blank = replicate n NUL
      in case swap_str_to_u64 sdk amount of
           None \<Rightarrow> Some blank
         | Some amount \<Rightarrow>
             (case (is_fee, config) of
                (False, Some config) \<Rightarrow>
                  (case swap_parse_config sdk config MAX_SWAP_TOKEN_LENGTH of
                     None \<Rightarrow> Some blank
                   | Some (ticker, decimals) \<Rightarrow>
                       map_option (\<lambda>r. overwrite (snd r) blank) (print_token_amount amount (Some ticker) decimals n))
              | _ \<Rightarrow> map_option (\<lambda>r. overwrite (snd r) blank) (print_amount amount n)))"

text \<open>
  \<open>get_public_key\<close> is the derivation of the SDK, \<open>None\<close> on an error. The result is the flag of the
  parameters of the caller.
\<close>

definition derive_public_key :: "(u32 list \<Rightarrow> u8 list option) \<Rightarrow> u8 list option \<Rightarrow> (u8 list \<times> string) option" where
  "derive_public_key get_public_key buf =
     (case read_derivation_path buf of
        (None, Some path) \<Rightarrow> do {
          key \<leftarrow> get_public_key path;
          (rc, w) \<leftarrow> encode_base58 key BASE58_PUBKEY_LENGTH;
          guard (rc = 0);
          Some (key, c_str w) }
      | _ \<Rightarrow> None)"

definition swap_handle_check_address :: "(u32 list \<Rightarrow> u8 list option) \<Rightarrow> u8 list option \<Rightarrow> string option \<Rightarrow> string option \<Rightarrow> bool" where
  "swap_handle_check_address get_public_key address_parameters address_to_check extra_id_to_check =
     (case (address_parameters, address_to_check, extra_id_to_check) of
        (Some buf, Some address, Some extra) \<Rightarrow>
          extra = [] \<and> (case derive_public_key get_public_key (Some buf) of
                           None \<Rightarrow> False
                         | Some (_, public_key_str) \<Rightarrow> address = public_key_str)
      | _ \<Rightarrow> False)"
section \<open>The checks see the items\<close>

fun run_checks :: "(SummaryItemKind \<Rightarrow> string \<Rightarrow> string \<Rightarrow> 'f \<Rightarrow> swap_error + 'f) \<Rightarrow> (SummaryItem \<times> string) list \<Rightarrow> 'f
    \<Rightarrow> swap_error + 'f" where
  "run_checks check [] f = Inr f"
| "run_checks check ((it, txt) # its) f =
     next_or_return (check (item_kind (item_value it)) (item_title it) txt f) (run_checks check its)"

text \<open>Items that the display shows in full: a title that fits, a value that fits.\<close>

definition showable :: "SummaryItem \<Rightarrow> bool" where
  "showable it \<longleftrightarrow> plain TITLE_SIZE (item_title it) \<and> fits (item_value it)"

definition shows_as :: "SummaryItem \<Rightarrow> string \<Rightarrow> bool" where
  "shows_as it txt \<longleftrightarrow> (plain_value (item_value it) \<longrightarrow> text_of (item_value it) txt)"

lemma check_items_run:
  assumes "check_items check S (map (\<lambda>it. item_kind (item_value it)) its) i f D = Some (Inr (f', D'))"
    and "\<And>j. j < length its \<Longrightarrow> transaction_summary_find_item S (i + j) = Some (its ! j)"
    and "\<forall>it\<in>set its. showable it"
  shows "\<exists>txts. list_all2 shows_as its txts \<and> run_checks check (zip its txts) f = Inr f'"
  using assms
proof (induction its arbitrary: i f D)
  case (Cons it its)
  have it: "transaction_summary_find_item S i = Some it" using Cons.prems(2) [of 0] by simp
  obtain D1 where D1: "transaction_summary_update_display_for_item it True D = Some (0, D1)"
    using item_displayed [of it True D] Cons.prems(3) by (auto simp: showable_def)
  have title: "shown_title D1 = item_title it" using display_title [OF D1] Cons.prems(3) by (simp add: showable_def)
  have tx: "shows_as it (shown_text D1)" using displayed_text [OF D1] by (simp add: shows_as_def)
  obtain f1 where f1: "check (item_kind (item_value it)) (item_title it) (shown_text D1) f = Inr f1"
    "check_items check S (map (\<lambda>it. item_kind (item_value it)) its) (Suc i) f1 D1 = Some (Inr (f', D'))"
    using Cons.prems(1) it D1 title by (auto simp: transaction_summary_display_item_def split: sum.splits)
  have "\<And>j. j < length its \<Longrightarrow> transaction_summary_find_item S (Suc i + j) = Some (its ! j)"
    using Cons.prems(2) by fastforce
  then obtain txts where "list_all2 shows_as its txts" "run_checks check (zip its txts) f1 = Inr f'"
    using Cons.IH [OF f1(2)] Cons.prems(3) by auto
  then show ?case using tx f1(1) by (intro exI [of _ "shown_text D1 # txts"]) simp
qed (auto intro: exI [of _ "[]"])

lemma amount_text_unique:
  assumes "amount_digits d v i f" "amount_digits d' v' i' f'" "amount_text i f (Some a) = amount_text i' f' (Some a')"
  shows "v * 10 ^ unat d' = v' * 10 ^ unat d \<and> a = a'"
proof -
  have i: "i = i'"
    using assms(3) amount_text_digits(1) [OF assms(1), of "Some a"] amount_text_digits(1) [OF assms(2), of "Some a'"] by simp
  have f: "f = f'"
    using amount_text_digits(2,3) [OF assms(1), of "Some a"] amount_text_digits(2,3) [OF assms(2), of "Some a'"]
      assms(3) unfolding i by auto
  have len: "length f \<le> unat d" "length f \<le> unat d'" using assms(1,2) f by (simp_all add: amount_digits_def)
  have v: "v = val10 i * 10 ^ unat d + val10 f * 10 ^ (unat d - length f)"
    "v' = val10 i * 10 ^ unat d' + val10 f * 10 ^ (unat d' - length f)"
    using assms(1,2) i f by (simp_all add: amount_digits_def)
  have "(10::nat) ^ (unat d - length f) * 10 ^ unat d' = 10 ^ (unat d' - length f) * 10 ^ unat d"
    using len by (simp add: power_add [symmetric])
  then have "v * 10 ^ unat d' = v' * 10 ^ unat d" unfolding v by (simp add: algebra_simps)
  moreover have "a = a'" using assms(3) unfolding i f by (simp add: amount_text_def)
  ultimately show ?thesis by blast
qed

lemma check_swap_amount_exact:
  assumes "check_swap_amount sdk sv txt" "amount_digits d v i f" "txt = amount_text i f (Some a)" "NUL \<notin> set (sv_ticker sv)"
  shows "v * 10 ^ unat (sv_decimals sv) = unat (sv_amount sv) * 10 ^ unat d \<and> a = sv_ticker sv"
proof -
  obtain w where w: "print_token_amount (sv_amount sv) (Some (sv_ticker sv)) (sv_decimals sv) (MAX_PRINTABLE_AMOUNT_SIZE sdk) = Some (0, w)"
    "txt = c_str w"
    using assms(1) by (auto simp: check_swap_amount_def printed_def split: option.splits if_splits)
  obtain i' f' where t: "amount_digits (sv_decimals sv) (unat (sv_amount sv)) i' f'" "w = amount_text i' f' (Some (sv_ticker sv)) @ [NUL]"
    using print_token_amount_ok [OF w(1)] by blast
  have "c_str w = amount_text i' f' (Some (sv_ticker sv))"
    unfolding t(2) using amount_text_no_NUL [OF t(1), of "Some (sv_ticker sv)"] assms(4) by (auto intro!: c_str_NUL)
  then show ?thesis using amount_text_unique [OF assms(2) t(1)] w(2) assms(3) by simp
qed

lemma check_swap_fee_exact:
  assumes "check_swap_fee sdk sv txt" "amount_digits SOL_DECIMALS v i f" "txt = amount_text i f (Some ''SOL'')"
  shows "v \<le> unat (sv_fee sv)"
proof -
  obtain w where w: "print_token_amount (sv_fee sv) (Some ''SOL'') SOL_DECIMALS (MAX_PRINTABLE_AMOUNT_SIZE sdk) = Some (0, w)"
    "amount_as_string_is_greater_or_equal (Some (c_str w)) (Some txt)"
    using assms(1) by (auto simp: check_swap_fee_def printed_def print_amount_def split: option.splits if_splits)
  obtain i' f' where t: "amount_digits SOL_DECIMALS (unat (sv_fee sv)) i' f'" "w = amount_text i' f' (Some ''SOL'') @ [NUL]"
    using print_token_amount_ok [OF w(1)] by blast
  have "NUL \<notin> set ''SOL''" by (simp add: NUL_def)
  then have "c_str w = amount_text i' f' (Some ''SOL'')"
    unfolding t(2) using amount_text_no_NUL [OF t(1), of "Some ''SOL''"] by (auto intro!: c_str_NUL)
  then show ?thesis using compare_amounts [OF t(1) assms(2), of "''SOL''"] w(2) assms(3) by simp
qed

section \<open>A native swap that is signed\<close>

text \<open>What an item of an accepted native swap is.\<close>

definition native_item_ok :: "swap_validated_t \<Rightarrow> SummaryItem \<Rightarrow> bool" where
  "native_item_ok sv it \<longleftrightarrow>
     (item_title it = ''Amount'' \<and> (\<exists>a. item_value it = ItemAmount a \<and>
        unat a * 10 ^ unat (sv_decimals sv) = unat (sv_amount sv) * 10 ^ unat SOL_DECIMALS))
     \<or> (item_title it = ''Max fees'' \<and> (\<exists>a. item_value it = ItemAmount a \<and> a \<le> sv_fee sv))
     \<or> (item_title it = ''To'' \<and> (\<exists>p. item_value it = ItemPubkey p \<and>
        encode_base58 (take 32 (bytes p)) 45 = Some (0, recipient sv @ [NUL])))"

lemma native_item_sound:
  assumes "native_item sdk sv (item_kind (item_value it)) (item_title it) txt f = Inr f'" "shows_as it txt"
    and "showable it" "NUL \<notin> set (sv_ticker sv)"
  shows "native_item_ok sv it \<and> (snd f' = (snd f \<or> item_title it = ''To''))"
proof (cases "item_value it")
  case (ItemAmount a)
  then obtain i fr where t: "amount_digits SOL_DECIMALS (unat a) i fr" "txt = amount_text i fr (Some ''SOL'')"
    using assms(2) by (auto simp: shows_as_def plain_value_def key_bytes_def text_of_def)
  show ?thesis
    using assms(1) ItemAmount check_swap_amount_exact [OF _ t assms(4)] check_swap_fee_exact [OF _ t]
    by (auto simp: native_item_def native_item_ok_def word_le_nat_alt split: if_splits prod.splits)
next
  case (ItemPubkey p)
  have "32 \<le> length (bytes p)" using assms(3) ItemPubkey by (simp add: showable_def fits_def key_bytes_def)
  then have "encode_base58 (take 32 (bytes p)) 45 = Some (0, txt @ [NUL])"
    using assms(2) ItemPubkey by (simp add: shows_as_def plain_value_def key_bytes_def text_of_def PUBKEY_SIZE_def)
  then show ?thesis
    using assms(1) ItemPubkey
    by (auto simp: native_item_def native_item_ok_def check_swap_recipient_def split: if_splits prod.splits)
qed (use assms(1) in \<open>auto simp: native_item_def split: prod.splits\<close>)

lemma native_items_sound:
  assumes "run_checks (native_item sdk sv) (zip its txts) f = Inr f'" "list_all2 shows_as its txts"
    and "\<forall>it\<in>set its. showable it" "NUL \<notin> set (sv_ticker sv)"
  shows "(\<forall>it\<in>set its. native_item_ok sv it) \<and> (snd f' \<longrightarrow> snd f \<or> (\<exists>it\<in>set its. item_title it = ''To''))"
  using assms(2,1,3)
proof (induction its txts arbitrary: f rule: list_all2_induct)
  case (Cons it its t txts)
  then obtain f1 where f1: "native_item sdk sv (item_kind (item_value it)) (item_title it) t f = Inr f1"
    "run_checks (native_item sdk sv) (zip its txts) f1 = Inr f'"
    by (auto simp: next_or_return_def split: sum.splits)
  from native_item_sound [OF f1(1) Cons.hyps(1)] Cons.prems(2) assms(4) have
    "native_item_ok sv it \<and> (snd f1 = (snd f \<or> item_title it = ''To''))" by simp
  then show ?case using Cons.IH [OF f1(2)] Cons.prems(2) by auto
qed simp
lemma checked_items:
  assumes "transaction_summary_finalize S = Some kinds" "check_items check S kinds 0 f D = Some (Inr (f', D'))"
    and "\<forall>it\<in>set (shown S). showable it"
  shows "\<exists>txts. list_all2 shows_as (shown S) txts \<and> run_checks check (zip (shown S) txts) f = Inr f'"
proof -
  have p: "is_summary_item_used (primary S)" and kinds: "kinds = map (\<lambda>it. item_kind (item_value it)) (shown S)"
    using assms(1) by (auto simp: finalize_shown split: if_splits)
  show ?thesis
    using check_items_run [of check S "shown S" 0 f D f' D'] assms(2,3) find_item_shown [OF p] by (simp add: kinds)
qed

text \<open>C12: A native swap that is signed without a screen is the transaction that was validated: every item that
  would have been displayed is the amount, equal to the validated one, or the largest fee, not above
  the validated one, or the recipient, whose key is the validated address; the recipient is there,
  and there are at most three items. The items are any with a title that fits its buffer and a value that
  can be displayed, as amounts and keys always are.\<close>

theorem native_swap_is_what_was_validated:
  assumes "transaction_summary_finalize S = Some kinds" "check_swap_validity sdk sv env S kinds D = Some (Inr D')"
    and "\<not> is_token_transaction sv" "\<forall>it\<in>set (shown S). showable it"
  shows "(\<forall>it\<in>set (shown S). native_item_ok sv it) \<and> (\<exists>it\<in>set (shown S). item_title it = ''To'')
    \<and> 2 \<le> length (shown S) \<and> length (shown S) \<le> 3"
proof -
  have ticker: "NUL \<notin> set (sv_ticker sv)" using assms(3) by (simp add: is_token_transaction_def NUL_def)
  have native: "check_swap_validity_native sdk sv S kinds D = Some (Inr D')"
    using assms(2,3) by (auto simp: check_swap_validity_def split: if_splits)
  then obtain a D1 where run: "check_items (native_item sdk sv) S kinds 0 (False, False) D = Some (Inr ((a, True), D1))"
    by (auto simp: check_swap_validity_native_def split: if_splits sum.splits option.splits prod.splits Option.bind_splits)
  have "length kinds = 2 \<or> length kinds = 3"
    using native by (auto simp: check_swap_validity_native_def split: if_splits)
  moreover have "length (shown S) = length kinds" using assms(1) by (auto simp: finalize_shown split: if_splits)
  moreover obtain txts where "list_all2 shows_as (shown S) txts"
    "run_checks (native_item sdk sv) (zip (shown S) txts) (False, False) = Inr (a, True)"
    using checked_items [OF assms(1) run assms(4)] by blast
  ultimately show ?thesis using native_items_sound [OF _ _ assms(4) ticker] by fastforce
qed

definition token_item_ok :: "swap_validated_t \<Rightarrow> trusted_info_t \<Rightarrow> SummaryItem \<Rightarrow> bool" where
  "token_item_ok sv info it =
     (case item_value it of
        ItemTokenAmount a symbol decimals \<Rightarrow> item_title it = ''Amount'' \<and> symbol = sv_ticker sv
          \<and> unat a * 10 ^ unat (sv_decimals sv) = unat (sv_amount sv) * 10 ^ unat decimals
      | ItemAmount a \<Rightarrow> item_title it = ''Max fees'' \<and> a \<le> sv_fee sv
      | ItemString s \<Rightarrow> item_title it = ''To'' \<and> s = ti_encoded_owner_address info \<and> s = recipient sv
      | ItemPubkey p \<Rightarrow>
          (item_title it = ''Token address'' \<longrightarrow>
             encode_base58 (take 32 (bytes p)) 45 = Some (0, ti_encoded_mint_address info @ [NUL]))
          \<and> (item_title it = ''To (token account)'' \<or> item_title it = ''Create token account'' \<longrightarrow>
             encode_base58 (take 32 (bytes p)) 45 = Some (0, ti_encoded_token_address info @ [NUL]))
      | _ \<Rightarrow> False)"

definition is_token_amount :: "SummaryItem \<Rightarrow> bool" where
  "is_token_amount it \<longleftrightarrow> item_kind (item_value it) = SummaryItemTokenAmount"

definition is_key_titled :: "string \<Rightarrow> SummaryItem \<Rightarrow> bool" where
  "is_key_titled title it \<longleftrightarrow> item_kind (item_value it) = SummaryItemPubkey \<and> item_title it = title"

definition is_string :: "SummaryItem \<Rightarrow> bool" where
  "is_string it \<longleftrightarrow> item_kind (item_value it) = SummaryItemString"

text \<open>
  What the check relies on: titles fit their buffer and keys have 32 bytes, as everywhere in this code; texts
  in the buffer are cut at 45 characters and at a NUL, and the owner of the descriptor and tickers are
  shorter and have none; no key is titled as the amount. Nothing is asked of the amounts and decimals.
\<close>

definition plain_token_item :: "SummaryItem \<Rightarrow> bool" where
  "plain_token_item it \<longleftrightarrow> plain TITLE_SIZE (item_title it)
     \<and> (case item_value it of
          ItemTokenAmount _ symbol _ \<Rightarrow> NUL \<notin> set symbol
        | ItemString s \<Rightarrow> plain 45 s
        | ItemPubkey p \<Rightarrow> 32 \<le> length (bytes p) \<and> item_title it \<noteq> ''Amount''
        | _ \<Rightarrow> True)"

definition plain_token_items :: "SummaryItem list \<Rightarrow> bool" where
  "plain_token_items its \<longleftrightarrow> (\<forall>it\<in>set its. plain_token_item it)"

lemmas plain_token_defs = plain_token_items_def plain_token_item_def

definition flags_from :: "token_flags \<Rightarrow> token_flags \<Rightarrow> SummaryItem \<Rightarrow> bool" where
  "flags_from f f' it \<longleftrightarrow>
     (amount_ok f' = (amount_ok f \<or> is_token_amount it) \<and> \<not> (amount_ok f \<and> is_token_amount it))
     \<and> (mint_ok f' = (mint_ok f \<or> is_key_titled ''Token address'' it))
     \<and> (dest_ata_ok f' = (dest_ata_ok f \<or> is_key_titled ''To (token account)'' it))
     \<and> (dest_sol_address_ok f' = (dest_sol_address_ok f \<or> is_string it))"

lemma token_item_sound:
  assumes "token_item sdk sv info (item_kind (item_value it)) (item_title it) txt f = Inr f'" "shows_as it txt"
    and "plain_token_items [it]" "NUL \<notin> set (sv_ticker sv)"
  shows "token_item_ok sv info it \<and> flags_from f f' it"
proof (cases "item_value it")
  case (ItemTokenAmount a symbol decimals)
  then obtain i fr where t: "amount_digits decimals (unat a) i fr" "txt = amount_text i fr (Some symbol)"
    using assms(2,3) by (auto simp: shows_as_def plain_value_def text_of_def plain_token_defs)
  show ?thesis
    using assms(1) ItemTokenAmount check_swap_amount_exact [OF _ t assms(4)]
    by (auto simp: token_item_def token_item_ok_def flags_from_def is_token_amount_def is_key_titled_def is_string_def split: if_splits)
next
  case (ItemAmount a)
  then obtain i fr where t: "amount_digits SOL_DECIMALS (unat a) i fr" "txt = amount_text i fr (Some ''SOL'')"
    using assms(2) by (auto simp: shows_as_def plain_value_def key_bytes_def text_of_def)
  show ?thesis
    using assms(1) ItemAmount check_swap_fee_exact [OF _ t]
    by (auto simp: token_item_def token_item_ok_def flags_from_def is_token_amount_def is_key_titled_def is_string_def
        word_le_nat_alt split: if_splits)
next
  case (ItemString s)
  then have "txt = s"
    using assms(2,3) by (simp add: shows_as_def plain_value_def text_of_def plain_token_defs)
  then show ?thesis
    using assms(1) ItemString
    by (auto simp: token_item_def token_item_ok_def flags_from_def is_token_amount_def is_key_titled_def is_string_def
        check_swap_recipient_def split: if_splits)
next
  case (ItemPubkey p)
  have "32 \<le> length (bytes p)" using assms(3) ItemPubkey by (simp add: plain_token_defs)
  then have "encode_base58 (take 32 (bytes p)) 45 = Some (0, txt @ [NUL])"
    using assms(2) ItemPubkey by (simp add: shows_as_def plain_value_def key_bytes_def text_of_def PUBKEY_SIZE_def)
  then show ?thesis
    using assms(1) ItemPubkey
    by (auto simp: token_item_def token_pubkey_item_def token_item_ok_def flags_from_def is_token_amount_def
        is_key_titled_def is_string_def split: if_splits)
qed (use assms(1) in \<open>auto simp: token_item_def\<close>)

lemma token_items_sound:
  assumes "run_checks (token_item sdk sv info) (zip its txts) f = Inr f'" "list_all2 shows_as its txts"
    and "plain_token_items its" "NUL \<notin> set (sv_ticker sv)"
  shows "(\<forall>it\<in>set its. token_item_ok sv info it)
    \<and> length (filter is_token_amount its) + (if amount_ok f then 1 else 0) = (if amount_ok f' then 1 else 0 :: nat)
    \<and> (mint_ok f' \<longrightarrow> mint_ok f \<or> (\<exists>it\<in>set its. is_key_titled ''Token address'' it))
    \<and> (dest_ata_ok f' \<longrightarrow> dest_ata_ok f \<or> (\<exists>it\<in>set its. is_key_titled ''To (token account)'' it))
    \<and> (dest_sol_address_ok f' \<longrightarrow> dest_sol_address_ok f \<or> (\<exists>it\<in>set its. is_string it))"
  using assms(2,1,3)
proof (induction its txts arbitrary: f rule: list_all2_induct)
  case (Cons it its t txts)
  then obtain f1 where f1: "token_item sdk sv info (item_kind (item_value it)) (item_title it) t f = Inr f1"
    "run_checks (token_item sdk sv info) (zip its txts) f1 = Inr f'"
    by (auto simp: next_or_return_def split: sum.splits)
  have plain: "plain_token_items [it]" "plain_token_items its" using Cons.prems(2) by (simp_all add: plain_token_items_def)
  from token_item_sound [OF f1(1) Cons.hyps(1) plain(1) assms(4)] have "token_item_ok sv info it" "flags_from f f1 it"
    by simp_all
  then show ?case using Cons.IH [OF f1(2) plain(2)] by (auto simp: flags_from_def split: if_splits)
qed simp

text \<open>
  The check does not look at the status of the display, and a token amount with many decimals can not be
  displayed: then the title in the buffer is still that of the item before. It is not the title of an
  amount unless an amount has been accepted, and a second amount is refused; so every item of an
  accepted run has been displayed.
\<close>

lemma token_item_displayed:
  assumes "transaction_summary_update_display_for_item it True D = Some (rc, D1)"
    and "token_item sdk sv info (item_kind (item_value it)) (shown_title D1) (shown_text D1) f = Inr f1"
    and "plain_token_item it" "shown_title D = ''Amount'' \<longrightarrow> amount_ok f"
  shows "rc = 0" and "shown_title D1 = ''Amount'' \<longrightarrow> amount_ok f1"
proof -
  show "rc = 0"
  proof (cases "is_token_amount it")
    case True
    then have "shown_title D1 = ''Amount''" "\<not> amount_ok f"
      using assms(2) by (auto simp: token_item_def is_token_amount_def split: if_splits)
    then have "title_buffer D1 \<noteq> title_buffer D" using assms(4) by (auto simp: shown_title_def)
    then show ?thesis using failed_display_title [OF assms(1)] by blast
  next
    case False
    then have "fits (item_value it)"
      using assms(2,3)
      by (cases "item_value it") (auto simp: token_item_def plain_token_item_def fits_def key_bytes_def is_token_amount_def)
    then show ?thesis using item_displayed [of it True D] assms(1) by auto
  qed
  with assms(1,3) have "shown_title D1 = item_title it" by (simp add: display_title plain_token_item_def)
  then show "shown_title D1 = ''Amount'' \<longrightarrow> amount_ok f1"
    using assms(2,3)
    by (cases "item_value it") (auto simp: token_item_def plain_token_item_def split: if_splits)
qed

lemma token_items_run:
  assumes "check_items (token_item sdk sv info) S (map (\<lambda>it. item_kind (item_value it)) its) i f D = Some (Inr (f', D'))"
    and "\<And>j. j < length its \<Longrightarrow> transaction_summary_find_item S (i + j) = Some (its ! j)"
    and "plain_token_items its" "shown_title D = ''Amount'' \<longrightarrow> amount_ok f"
  shows "\<exists>txts. list_all2 shows_as its txts \<and> run_checks (token_item sdk sv info) (zip its txts) f = Inr f'"
  using assms
proof (induction its arbitrary: i f D)
  case (Cons it its)
  have it: "transaction_summary_find_item S i = Some it" using Cons.prems(2) [of 0] by simp
  have plain: "plain_token_item it" "plain_token_items its" using Cons.prems(3) by (simp_all add: plain_token_items_def)
  obtain rc D1 f1 where D1: "transaction_summary_update_display_for_item it True D = Some (rc, D1)"
    and f1: "token_item sdk sv info (item_kind (item_value it)) (shown_title D1) (shown_text D1) f = Inr f1"
    "check_items (token_item sdk sv info) S (map (\<lambda>it. item_kind (item_value it)) its) (Suc i) f1 D1 = Some (Inr (f', D'))"
  proof -
    obtain rc D1 where D1: "transaction_summary_update_display_for_item it True D = Some (rc, D1)"
      using Cons.prems(1) it by (auto simp: transaction_summary_display_item_def bind_eq_Some_conv)
    moreover obtain f1 where
      "token_item sdk sv info (item_kind (item_value it)) (shown_title D1) (shown_text D1) f = Inr f1"
      using Cons.prems(1) it D1 by (auto simp: transaction_summary_display_item_def split: sum.splits)
    ultimately show ?thesis using Cons.prems(1) it that
      by (simp add: transaction_summary_display_item_def)
  qed
  note ok = token_item_displayed [OF D1 f1(1) plain(1) Cons.prems(4)]
  note D1 = D1 [unfolded ok(1)]
  have title: "shown_title D1 = item_title it" using display_title [OF D1] plain(1) by (simp add: plain_token_item_def)
  have tx: "shows_as it (shown_text D1)" using displayed_text [OF D1] by (simp add: shows_as_def)
  have "\<And>j. j < length its \<Longrightarrow> transaction_summary_find_item S (Suc i + j) = Some (its ! j)"
    using Cons.prems(2) by fastforce
  then obtain txts where "list_all2 shows_as its txts" "run_checks (token_item sdk sv info) (zip its txts) f1 = Inr f'"
    using Cons.IH [OF f1(2)] plain(2) ok(2) by auto
  then show ?case using tx f1(1) title by (intro exI [of _ "shown_text D1 # txts"]) simp
qed (auto intro: exI [of _ "[]"])

text \<open>C13: A token swap that is signed without a screen is the one that was validated: exactly one token amount,
  of the validated ticker and amount (whatever the number of decimals each side uses: an amount with too many
  decimals to be displayed is refused, though the check ignores the status of the display, because the
  title it reads is then that of an earlier item and not Amount), fees not above
  the validated ones, the mint, the token account and the owner of the trusted descriptor, the owner
  being the validated recipient, and the token account being derived from that owner and mint.
  Other keys on the screen are accepted unseen. The items have titles that fit their buffer, keys of 32
  bytes none of which is titled Amount, strings of fewer than 45 characters and tickers without NUL, and
  the title buffer does not start as Amount: it is cleared before the message is parsed.\<close>

theorem token_swap_is_what_was_validated:
  assumes "transaction_summary_finalize S = Some kinds" "check_swap_validity sdk sv env S kinds D = Some (Inr D')"
    and "is_token_transaction sv" "plain_token_items (shown S)" "NUL \<notin> set (sv_ticker sv)"
    and "shown_title D \<noteq> ''Amount''"
  shows "\<exists>info. g_trusted_info env = Some info \<and> ti_received info
    \<and> validate_associated_token_address (env_sdk env) (ti_owner_address info) (ti_mint_address info)
         (ti_token_address info) (is_token_2022_transfer S)
    \<and> (\<forall>it\<in>set (shown S). token_item_ok sv info it)
    \<and> length (filter is_token_amount (shown S)) = 1 \<and> (\<exists>it\<in>set (shown S). is_string it)
    \<and> (\<exists>it\<in>set (shown S). is_key_titled ''Token address'' it)
    \<and> (\<exists>it\<in>set (shown S). is_key_titled ''To (token account)'' it)"
proof -
  have "check_swap_validity_token sdk sv env S kinds (is_token_2022_transfer S) D = Some (Inr D')"
    using assms(2,3) by (auto simp: check_swap_validity_def Let_def split: if_splits prod.splits)
  then obtain info f' D1 where info: "g_trusted_info env = Some info" "ti_received info"
    "validate_associated_token_address (env_sdk env) (ti_owner_address info) (ti_mint_address info) (ti_token_address info)
      (is_token_2022_transfer S)"
    and run: "check_items (token_item sdk sv info) S kinds 0 \<lparr>amount_ok = False, mint_ok = False, dest_ata_ok = False,
      dest_sol_address_ok = False, create_token_account_received = False\<rparr> D = Some (Inr (f', D1))"
    and flags: "amount_ok f'" "mint_ok f'" "dest_ata_ok f'" "dest_sol_address_ok f'"
    by (auto simp: check_swap_validity_token_def split: if_splits sum.splits option.splits prod.splits Option.bind_splits)
  have p: "is_summary_item_used (primary S)" and kinds: "kinds = map (\<lambda>it. item_kind (item_value it)) (shown S)"
    using assms(1) by (auto simp: finalize_shown split: if_splits)
  obtain txts where "list_all2 shows_as (shown S) txts"
    "run_checks (token_item sdk sv info) (zip (shown S) txts) \<lparr>amount_ok = False, mint_ok = False, dest_ata_ok = False,
      dest_sol_address_ok = False, create_token_account_received = False\<rparr> = Inr f'"
    using token_items_run [OF run [unfolded kinds] _ assms(4)] find_item_shown [OF p] assms(6) by auto
  from token_items_sound [OF this(2,1) assms(4,5)] show ?thesis using info flags by simp
qed

lemma zeros_text: "encode_base58 (replicate 32 0) 45 = Some (0, replicate 32 CHR ''1'' @ [NUL])"
  by code_simp

section \<open>Swaps that are accepted\<close>

definition shows_text :: "SummaryItem \<Rightarrow> string \<Rightarrow> bool" where
  "shows_text it txt \<longleftrightarrow> (\<forall>D. \<exists>D'. transaction_summary_update_display_for_item it True D = Some (0, D')
     \<and> shown_title D' = item_title it \<and> shown_text D' = txt)"

lemma check_items_pass:
  assumes "list_all2 shows_text its txts" "run_checks check (zip its txts) f = Inr f'"
    and "\<And>j. j < length its \<Longrightarrow> transaction_summary_find_item S (i + j) = Some (its ! j)"
  shows "\<exists>D'. check_items check S (map (\<lambda>it. item_kind (item_value it)) its) i f D = Some (Inr (f', D'))"
  using assms
proof (induction its txts arbitrary: i f D rule: list_all2_induct)
  case (Cons it its t txts)
  have it: "transaction_summary_find_item S i = Some it" using Cons.prems(2) [of 0] by simp
  obtain D1 where D1: "transaction_summary_update_display_for_item it True D = Some (0, D1)"
    "shown_title D1 = item_title it" "shown_text D1 = t"
    using Cons.hyps(1) unfolding shows_text_def by blast
  obtain f1 where f1: "check (item_kind (item_value it)) (item_title it) t f = Inr f1"
    "run_checks check (zip its txts) f1 = Inr f'"
    using Cons.prems(1) by (auto simp: next_or_return_def split: sum.splits)
  have "\<And>j. j < length its \<Longrightarrow> transaction_summary_find_item S (Suc i + j) = Some (its ! j)"
    using Cons.prems(2) by fastforce
  from Cons.IH [OF f1(2) this] show ?case using it D1 f1(1) by (simp add: transaction_summary_display_item_def)
qed simp

lemma shows_item:
  assumes "plain TITLE_SIZE title" "plain 45 s"
  shows "print_token_amount v (Some ''SOL'') SOL_DECIMALS 45 = Some (0, s @ [NUL])
      \<Longrightarrow> shows_text \<lparr>item_title = title, item_value = ItemAmount v\<rparr> s"
    and "print_token_amount v (Some symbol) decimals 45 = Some (0, s @ [NUL])
      \<Longrightarrow> shows_text \<lparr>item_title = title, item_value = ItemTokenAmount v symbol decimals\<rparr> s"
    and "encode_base58 (take 32 (bytes p)) 45 = Some (0, s @ [NUL])
      \<Longrightarrow> shows_text \<lparr>item_title = title, item_value = ItemPubkey p\<rparr> s"
    and "shows_text \<lparr>item_title = title, item_value = ItemString s\<rparr> s"
proof -
  have ok: "fst (print_string s 45) = 0" using assms(2) by (simp add: plain_def print_string_fits)
  have tx: "c_str (overwrite (snd (print_string s 45)) b) = s" "c_str (overwrite (s @ [NUL]) b) = s"
    "c_str (overwrite (snd (print_string title TITLE_SIZE)) b) = title" "c_str (s @ [NUL]) = s" for b
    using assms by (auto simp: plain_def c_str_print_string c_str_overwrite intro: c_str_NUL)
  note defs = shows_text_def transaction_summary_update_display_for_item_def print_amount_def BASE58_PUBKEY_LENGTH_def
    TEXT_BUFFER_LENGTH_def PUBKEY_SIZE_def print_text_def shown_title_def shown_text_def bail_if_def
  show "print_token_amount v (Some ''SOL'') SOL_DECIMALS 45 = Some (0, s @ [NUL])
      \<Longrightarrow> shows_text \<lparr>item_title = title, item_value = ItemAmount v\<rparr> s" by (simp add: defs tx)
  show "print_token_amount v (Some symbol) decimals 45 = Some (0, s @ [NUL])
      \<Longrightarrow> shows_text \<lparr>item_title = title, item_value = ItemTokenAmount v symbol decimals\<rparr> s" by (simp add: defs tx)
  show "encode_base58 (take 32 (bytes p)) 45 = Some (0, s @ [NUL])
      \<Longrightarrow> shows_text \<lparr>item_title = title, item_value = ItemPubkey p\<rparr> s" by (simp add: defs tx ok)
  show "shows_text \<lparr>item_title = title, item_value = ItemString s\<rparr> s" by (simp add: defs tx ok)
qed

lemma checked_pass:
  assumes "is_summary_item_used (primary S)" "list_all2 shows_text (shown S) txts"
    and "run_checks check (zip (shown S) txts) f = Inr f'"
  shows "\<exists>D'. check_items check S (map (\<lambda>it. item_kind (item_value it)) (shown S)) 0 f D = Some (Inr (f', D'))"
  using check_items_pass [OF assms(2,3), of S 0 D] find_item_shown [OF assms(1)] by simp

definition sample_swap_sdk :: swap_sdk where
  "sample_swap_sdk = \<lparr>swap_parse_config = \<lambda>_ _. None, swap_str_to_u64 = \<lambda>_. None, base58_decode = \<lambda>_ _. None,
     MAX_PRINTABLE_AMOUNT_SIZE = 50\<rparr>"

definition summary_of :: "SummaryItem \<Rightarrow> SummaryItem list \<Rightarrow> TransactionSummary" where
  "summary_of p its = transaction_summary_reset\<lparr>primary := p, general := its @ replicate (NUM_GENERAL_ITEMS - length its) unused_item\<rparr>"

definition sample_native :: TransactionSummary where
  "sample_native = summary_of \<lparr>item_title = ''Amount'', item_value = ItemAmount 1500000000\<rparr>
     [\<lparr>item_title = ''To'', item_value = ItemPubkey (Ptr 4 (replicate 32 0))\<rparr>]"

definition sample_native_swap :: swap_validated_t where
  "sample_native_swap = no_swap\<lparr>initialized := True, sv_decimals := 9, sv_ticker := ''SOL'', sv_amount := 1500000000,
     recipient := replicate 32 CHR ''1''\<rparr>"

lemma sample_modes: "swap_mode sample_native_swap = SWAP_MODE_STANDARD" "sv_ticker sample_native_swap = ''SOL''"
  by (simp_all add: sample_native_swap_def no_swap_def)

lemma shown_summary_of: "is_summary_item_used p \<Longrightarrow> list_all is_summary_item_used its \<Longrightarrow> shown (summary_of p its) = p # its"
  by (simp add: shown_def summary_of_def transaction_summary_reset_def list_all_iff)

lemma sample_swap_texts:
  "print_token_amount 1500000000 (Some ''SOL'') SOL_DECIMALS 45 = Some (0, ''1.5 SOL'' @ [NUL])"
  "print_token_amount 1500000000 (Some ''SOL'') SOL_DECIMALS 50 = Some (0, ''1.5 SOL'' @ [NUL])"
  "print_token_amount 1500000 (Some ''USDC'') 6 45 = Some (0, ''1.5 USDC'' @ [NUL])"
  "print_token_amount 1500000 (Some ''USDC'') 6 50 = Some (0, ''1.5 USDC'' @ [NUL])"
  by (simp_all add: print_token_amount_def token_digits.simps Let_def digit_chars INT_MAX_def SOL_DECIMALS_def)

lemma plain_texts: "plain 45 ''1.5 SOL''" "plain 45 ''1.5 USDC''" "plain 45 (replicate 32 CHR ''1'')"
  by (simp_all add: plain_def NUL_def)

lemma plain_titles: "plain TITLE_SIZE ''Amount''" "plain TITLE_SIZE ''To''" "plain TITLE_SIZE ''Token address''"
  "plain TITLE_SIZE ''To (token account)''"
  by (simp_all add: plain_def NUL_def TITLE_SIZE_def)

lemma sample_native_checked:
  "transaction_summary_finalize sample_native = Some [SummaryItemAmount, SummaryItemPubkey]"
  "\<exists>D'. check_swap_validity sample_swap_sdk sample_native_swap sample_env sample_native
     [SummaryItemAmount, SummaryItemPubkey] D = Some (Inr D')"
proof -
  let ?its = "[\<lparr>item_title = ''Amount'', item_value = ItemAmount 1500000000\<rparr>,
     \<lparr>item_title = ''To'', item_value = ItemPubkey (Ptr 4 (replicate 32 0))\<rparr>]"
  have sh: "shown sample_native = ?its" unfolding sample_native_def by (rule shown_summary_of) simp_all
  have p: "is_summary_item_used (primary sample_native)" by (simp add: sample_native_def summary_of_def)
  show "transaction_summary_finalize sample_native = Some [SummaryItemAmount, SummaryItemPubkey]"
    using p by (simp add: finalize_shown sh)
  have "list_all2 shows_text ?its [''1.5 SOL'', replicate 32 CHR ''1'']"
    using shows_item(1) [OF plain_titles(1) plain_texts(1) sample_swap_texts(1)]
      shows_item(3) [OF plain_titles(2) plain_texts(3)] zeros_text by simp
  moreover have "c_str (''1.5 SOL'' @ [NUL]) = ''1.5 SOL''" by (rule c_str_NUL) (simp add: NUL_def)
  then have "run_checks (native_item sample_swap_sdk sample_native_swap) (zip ?its [''1.5 SOL'', replicate 32 CHR ''1''])
      (False, False) = Inr (True, True)"
    using sample_swap_texts(2)
    by (simp add: native_item_def next_or_return_def check_swap_amount_def check_swap_recipient_def printed_def
        sample_swap_sdk_def sample_native_swap_def SOL_DECIMALS_def)
  ultimately obtain D' where "check_items (native_item sample_swap_sdk sample_native_swap) sample_native
      [SummaryItemAmount, SummaryItemPubkey] 0 (False, False) D = Some (Inr ((True, True), D'))"
    using checked_pass [OF p, of "[''1.5 SOL'', replicate 32 CHR ''1'']" "native_item sample_swap_sdk sample_native_swap"
      "(False, False)" "(True, True)" D, unfolded sh] by (auto simp del: check_items.simps run_checks.simps)
  then show "\<exists>D'. check_swap_validity sample_swap_sdk sample_native_swap sample_env sample_native
     [SummaryItemAmount, SummaryItemPubkey] D = Some (Inr D')"
    by (simp add: check_swap_validity_def check_swap_validity_native_def get_swap_mode_def is_token_transaction_def
        sample_modes del: check_items.simps)
qed

theorem native_swap_is_what_was_validated_witness:
  "(\<exists>D'. check_swap_validity sample_swap_sdk sample_native_swap sample_env sample_native
     [SummaryItemAmount, SummaryItemPubkey] \<lparr>title_buffer = [], text_buffer = []\<rparr> = Some (Inr D'))
   \<and> list_all (native_item_ok sample_native_swap) (shown sample_native)"
proof -
  have "\<forall>it\<in>set (shown sample_native). showable it"
    unfolding sample_native_def
    by (subst shown_summary_of) (simp_all add: showable_def fits_def plain_titles key_bytes_def)
  moreover have "\<not> is_token_transaction sample_native_swap" by (simp add: is_token_transaction_def sample_native_swap_def)
  ultimately show ?thesis
    using native_swap_is_what_was_validated [OF sample_native_checked(1)] sample_native_checked(2)
    unfolding list_all_iff by blast
qed

text \<open>A device whose hash and descriptor are all zeros, none of them on the curve.\<close>

definition zero_env :: token_env where
  "zero_env = \<lparr>g_dynamic_token_info = None,
     g_trusted_info = Some \<lparr>ti_received = True, ti_encoded_owner_address = replicate 32 CHR ''1'',
       ti_owner_address = replicate 32 0,
       ti_encoded_token_address = replicate 32 CHR ''1'', ti_token_address = replicate 32 0,
       ti_encoded_mint_address = replicate 32 CHR ''1'', ti_mint_address = replicate 32 0\<rparr>,
     env_sdk = sample_sdk\<lparr>sdk_sha256 := \<lambda>_. Some (replicate 32 0)\<rparr>\<rparr>"

definition sample_token_items :: "SummaryItem list" where
  "sample_token_items =
     [\<lparr>item_title = ''Amount'', item_value = ItemTokenAmount 1500000 ''USDC'' 6\<rparr>,
      \<lparr>item_title = ''To'', item_value = ItemString (replicate 32 CHR ''1'')\<rparr>,
      \<lparr>item_title = ''Token address'', item_value = ItemPubkey (Ptr 4 (replicate 32 0))\<rparr>,
      \<lparr>item_title = ''To (token account)'', item_value = ItemPubkey (Ptr 36 (replicate 32 0))\<rparr>]"

definition sample_token_swap :: swap_validated_t where
  "sample_token_swap = sample_native_swap\<lparr>sv_decimals := 6, sv_ticker := ''USDC'', sv_amount := 1500000\<rparr>"

lemma sample_token_checked:
  fixes D
  defines "S \<equiv> summary_of (hd sample_token_items) (tl sample_token_items)"
  defines "kinds \<equiv> [SummaryItemTokenAmount, SummaryItemString, SummaryItemPubkey, SummaryItemPubkey]"
  shows "transaction_summary_finalize S = Some kinds"
    and "\<exists>D'. check_swap_validity sample_swap_sdk sample_token_swap zero_env S kinds D = Some (Inr D')"
    and "plain_token_items (shown S)"
proof -
  let ?one = "replicate 32 CHR ''1''"
  let ?txts = "[''1.5 USDC'', ?one, ?one, ?one]"
  obtain info where info: "g_trusted_info zero_env = Some info" "info = the (g_trusted_info zero_env)"
    by (simp add: zero_env_def)
  have sh: "shown S = sample_token_items"
    unfolding S_def by (subst shown_summary_of) (simp_all add: sample_token_items_def)
  have p: "is_summary_item_used (primary S)" by (simp add: S_def summary_of_def sample_token_items_def)
  show "transaction_summary_finalize S = Some kinds"
    using p by (simp add: finalize_shown sh sample_token_items_def kinds_def)
  show "plain_token_items (shown S)"
    unfolding sh by (simp add: plain_token_defs sample_token_items_def plain_titles plain_texts NUL_def)
  have "list_all2 shows_text sample_token_items ?txts"
    using shows_item(2) [OF plain_titles(1) plain_texts(2) sample_swap_texts(3)] zeros_text
      shows_item(4) [OF plain_titles(2) plain_texts(3)] shows_item(3) [OF plain_titles(3) plain_texts(3)]
      shows_item(3) [OF plain_titles(4) plain_texts(3)]
    by (simp add: sample_token_items_def)
  moreover have "c_str (''1.5 USDC'' @ [NUL]) = ''1.5 USDC''" by (rule c_str_NUL) (simp add: NUL_def)
  then have "run_checks (token_item sample_swap_sdk sample_token_swap info) (zip sample_token_items ?txts)
      \<lparr>amount_ok = False, mint_ok = False, dest_ata_ok = False, dest_sol_address_ok = False,
        create_token_account_received = False\<rparr>
    = Inr \<lparr>amount_ok = True, mint_ok = True, dest_ata_ok = True, dest_sol_address_ok = True,
        create_token_account_received = False\<rparr>"
    using sample_swap_texts(4)
    by (simp add: sample_token_items_def token_item_def token_pubkey_item_def next_or_return_def check_swap_amount_def
        check_swap_recipient_def printed_def sample_swap_sdk_def sample_token_swap_def sample_native_swap_def info(2) zero_env_def)
  ultimately obtain D' where run: "check_items (token_item sample_swap_sdk sample_token_swap info) S kinds 0
      \<lparr>amount_ok = False, mint_ok = False, dest_ata_ok = False, dest_sol_address_ok = False,
        create_token_account_received = False\<rparr> D
    = Some (Inr (\<lparr>amount_ok = True, mint_ok = True, dest_ata_ok = True, dest_sol_address_ok = True,
        create_token_account_received = False\<rparr>, D'))"
    using checked_pass [OF p, of ?txts "token_item sample_swap_sdk sample_token_swap info" _ _ D, unfolded sh]
    by (fastforce simp: kinds_def sample_token_items_def simp del: check_items.simps run_checks.simps)
  have "try_nonces (env_sdk zero_env) owner mint (replicate 32 0) False 256" for owner mint
    using try_nonces.simps(2) [of "env_sdk zero_env" owner mint "replicate 32 0" False 255]
    by (simp add: zero_env_def derivate_ata_candidate_def sample_sdk_def is_on_curve_def is_on_curve_internal_def memcmp_eq_0)
  then have "validate_associated_token_address (env_sdk zero_env) (ti_owner_address info) (ti_mint_address info)
      (ti_token_address info) False"
    by (simp add: validate_associated_token_address_def info(2) zero_env_def)
  moreover have "ti_received info" by (simp add: info(2) zero_env_def)
  ultimately show "\<exists>D'. check_swap_validity sample_swap_sdk sample_token_swap zero_env S kinds D = Some (Inr D')"
    using run info(1)
    by (simp add: check_swap_validity_def check_swap_validity_token_def get_swap_mode_def is_token_transaction_def
        sample_modes sample_token_swap_def S_def summary_of_def transaction_summary_reset_def del: check_items.simps)
qed

theorem token_swap_is_what_was_validated_witness:
  "\<exists>S kinds D'. check_swap_validity sample_swap_sdk sample_token_swap zero_env S kinds transaction_summary_reset_display
     = Some (Inr D') \<and> shown S = sample_token_items \<and> length (filter is_token_amount (shown S)) = 1"
proof -
  let ?S = "summary_of (hd sample_token_items) (tl sample_token_items)"
  have sh: "shown ?S = sample_token_items" by (subst shown_summary_of) (simp_all add: sample_token_items_def)
  have "is_token_transaction sample_token_swap" "NUL \<notin> set (sv_ticker sample_token_swap)"
    by (simp_all add: is_token_transaction_def sample_token_swap_def NUL_def)
  moreover have "shown_title transaction_summary_reset_display \<noteq> ''Amount''" by (simp add: reset_display_title)
  ultimately show ?thesis
    using token_swap_is_what_was_validated [OF sample_token_checked(1) _ _ sample_token_checked(3)]
      sample_token_checked(2) sh by blast
qed

end
