(* ===== verification/Sol_Stake.thy ===== *)
theory Sol_Stake
  imports Sol_System
begin

text \<open>
  The stake program, \<open>libsol/stake_instruction.c\<close>. Three of its parsers set the transaction type
  in the summary when they succeed, so the parser works on the summary too. \<open>base58_decode\<close>
  belongs to the device SDK and is a parameter \<open>b58\<close>: the decoded bytes, or \<open>None\<close>.
\<close>

section \<open>Instructions\<close>

datatype StakeInstructionKind = StakeInitialize | StakeAuthorize | StakeDelegate | StakeSplit
  | StakeWithdraw | StakeDeactivate | StakeSetLockup | StakeMerge | StakeAuthorizeWithSeed
  | StakeInitializeChecked | StakeAuthorizeChecked | StakeAuthorizeCheckedWithSeed
  | StakeSetLockupChecked

record StakeDelegateInfo =
  delegate_stake_pubkey :: byte_ptr
  delegate_vote_pubkey :: byte_ptr
  delegate_authorized_pubkey :: byte_ptr

definition StakeLockupHasNone :: u32 where "StakeLockupHasNone = 0"
definition StakeLockupHasTimestamp :: u32 where "StakeLockupHasTimestamp = 1"
definition StakeLockupHasEpoch :: u32 where "StakeLockupHasEpoch = 2"
definition StakeLockupHasCustodian :: u32 where "StakeLockupHasCustodian = 4"
definition StakeLockupHasAll :: u32 where
  "StakeLockupHasAll = StakeLockupHasTimestamp OR StakeLockupHasEpoch OR StakeLockupHasCustodian"

record StakeLockup =
  lockup_present :: u32
  lockup_unix_timestamp :: i64
  lockup_epoch :: u64
  lockup_custodian :: byte_ptr

text \<open>The information record is zeroed before parsing: this is the lockup no parser has touched.\<close>

abbreviation zero_lockup :: StakeLockup where
  "zero_lockup \<equiv> \<lparr>lockup_present = 0, lockup_unix_timestamp = 0, lockup_epoch = 0, lockup_custodian = Ptr 0 []\<rparr>"

record StakeInitializeInfo =
  stake_init_account :: byte_ptr
  stake_init_stake_authority :: byte_ptr
  stake_init_withdraw_authority :: byte_ptr
  stake_init_lockup :: StakeLockup

record StakeWithdrawInfo =
  stake_withdraw_account :: byte_ptr
  stake_withdraw_authority :: byte_ptr
  stake_withdraw_to :: byte_ptr
  stake_withdraw_lamports :: u64

datatype StakeAuthorize = StakeAuthorizeStaker | StakeAuthorizeWithdrawer

record StakeAuthorizeInfo =
  stake_auth_account :: byte_ptr
  stake_auth_authority :: byte_ptr
  stake_auth_new_authority :: byte_ptr
  stake_auth_custodian :: "byte_ptr option"
  stake_auth_authorize :: StakeAuthorize

record StakeDeactivateInfo =
  deactivate_account :: byte_ptr
  deactivate_authority :: byte_ptr

record StakeSetLockupInfo =
  set_lockup_account :: byte_ptr
  set_lockup_custodian :: byte_ptr
  set_lockup_lockup :: StakeLockup

record StakeSplitInfo =
  split_account :: byte_ptr
  split_authority :: byte_ptr
  split_split_account :: byte_ptr
  split_lamports :: u64

record StakeMergeInfo =
  merge_destination :: byte_ptr
  merge_source :: byte_ptr
  merge_authority :: byte_ptr

text \<open>The tagged union; the checked variants share the member of the plain ones.\<close>

datatype StakeInfo =
    StkDelegate StakeDelegateInfo
  | StkInitialize StakeInitializeInfo
  | StkInitializeChecked StakeInitializeInfo
  | StkWithdraw StakeWithdrawInfo
  | StkAuthorize StakeAuthorizeInfo
  | StkAuthorizeChecked StakeAuthorizeInfo
  | StkDeactivate StakeDeactivateInfo
  | StkSetLockup StakeSetLockupInfo
  | StkSetLockupChecked StakeSetLockupInfo
  | StkSplit StakeSplitInfo
  | StkMerge StakeMergeInfo

fun stake_kind :: "StakeInfo \<Rightarrow> StakeInstructionKind" where
  "stake_kind (StkDelegate _) = StakeDelegate"
| "stake_kind (StkInitialize _) = StakeInitialize"
| "stake_kind (StkInitializeChecked _) = StakeInitializeChecked"
| "stake_kind (StkWithdraw _) = StakeWithdraw"
| "stake_kind (StkAuthorize _) = StakeAuthorize"
| "stake_kind (StkAuthorizeChecked _) = StakeAuthorizeChecked"
| "stake_kind (StkDeactivate _) = StakeDeactivate"
| "stake_kind (StkSetLockup _) = StakeSetLockup"
| "stake_kind (StkSetLockupChecked _) = StakeSetLockupChecked"
| "stake_kind (StkSplit _) = StakeSplit"
| "stake_kind (StkMerge _) = StakeMerge"

section \<open>Parsing\<close>

definition parse_stake_instruction_kind :: "StakeInstructionKind reader" where
  "parse_stake_instruction_kind p = do {
     (maybe_kind, p) \<leftarrow> parse_u32 p;
     if maybe_kind = 0 then Some (StakeInitialize, p)
     else if maybe_kind = 1 then Some (StakeAuthorize, p)
     else if maybe_kind = 2 then Some (StakeDelegate, p)
     else if maybe_kind = 3 then Some (StakeSplit, p)
     else if maybe_kind = 4 then Some (StakeWithdraw, p)
     else if maybe_kind = 5 then Some (StakeDeactivate, p)
     else if maybe_kind = 6 then Some (StakeSetLockup, p)
     else if maybe_kind = 7 then Some (StakeMerge, p)
     else if maybe_kind = 8 then Some (StakeAuthorizeWithSeed, p)
     else if maybe_kind = 9 then Some (StakeInitializeChecked, p)
     else if maybe_kind = 10 then Some (StakeAuthorizeChecked, p)
     else if maybe_kind = 11 then Some (StakeAuthorizeCheckedWithSeed, p)
     else if maybe_kind = 12 then Some (StakeSetLockupChecked, p)
     else None }"

definition parse_stake_authorize :: "StakeAuthorize reader" where
  "parse_stake_authorize p = do {
     (maybe_authorize, p) \<leftarrow> parse_u32 p;
     if maybe_authorize = 0 then Some (StakeAuthorizeStaker, p)
     else if maybe_authorize = 1 then Some (StakeAuthorizeWithdrawer, p)
     else None }"

definition parse_delegate_stake_instruction ::
    "Instruction \<Rightarrow> MessageHeader \<Rightarrow> TransactionSummary \<Rightarrow> (StakeDelegateInfo \<times> TransactionSummary) option" where
  "parse_delegate_stake_instruction instruction header S = do {
     let it = instruction_accounts_iterator_init header instruction;
     (stake_pubkey, it) \<leftarrow> instruction_accounts_iterator_next it;
     (vote_pubkey, it) \<leftarrow> instruction_accounts_iterator_next it;
     (_, it) \<leftarrow> instruction_accounts_iterator_next it;
     (_, it) \<leftarrow> instruction_accounts_iterator_next it;
     (_, it) \<leftarrow> instruction_accounts_iterator_next it;
     (authorized_pubkey, it) \<leftarrow> instruction_accounts_iterator_next it;
     Some (\<lparr>delegate_stake_pubkey = stake_pubkey, delegate_vote_pubkey = vote_pubkey,
             delegate_authorized_pubkey = authorized_pubkey\<rparr>,
           transaction_summary_set_transaction_type TRANSACTION_TYPE_SOL_ACTIVATE_STAKE S) }"

definition parse_stake_initialize_instruction ::
    "Parser \<Rightarrow> Instruction \<Rightarrow> MessageHeader \<Rightarrow> StakeInitializeInfo option" where
  "parse_stake_initialize_instruction p instruction header = do {
     let it = instruction_accounts_iterator_init header instruction;
     (account, it) \<leftarrow> instruction_accounts_iterator_next it;
     (_, it) \<leftarrow> instruction_accounts_iterator_next it;
     (stake_authority, p) \<leftarrow> parse_pubkey p;
     (withdraw_authority, p) \<leftarrow> parse_pubkey p;
     (unix_timestamp, p) \<leftarrow> parse_i64 p;
     (epoch, p) \<leftarrow> parse_u64 p;
     (custodian, p) \<leftarrow> parse_pubkey p;
     Some \<lparr>stake_init_account = account, stake_init_stake_authority = stake_authority,
       stake_init_withdraw_authority = withdraw_authority,
       stake_init_lockup = \<lparr>lockup_present = StakeLockupHasAll, lockup_unix_timestamp = unix_timestamp,
         lockup_epoch = epoch, lockup_custodian = custodian\<rparr>\<rparr> }"

definition parse_stake_initialize_checked_instruction ::
    "Parser \<Rightarrow> Instruction \<Rightarrow> MessageHeader \<Rightarrow> StakeInitializeInfo option" where
  "parse_stake_initialize_checked_instruction p instruction header = do {
     let it = instruction_accounts_iterator_init header instruction;
     (account, it) \<leftarrow> instruction_accounts_iterator_next it;
     (_, it) \<leftarrow> instruction_accounts_iterator_next it;
     (stake_authority, it) \<leftarrow> instruction_accounts_iterator_next it;
     (withdraw_authority, it) \<leftarrow> instruction_accounts_iterator_next it;
     Some \<lparr>stake_init_account = account, stake_init_stake_authority = stake_authority,
       stake_init_withdraw_authority = withdraw_authority,
       stake_init_lockup = zero_lockup\<lparr>lockup_present := StakeLockupHasNone\<rparr>\<rparr> }"

definition parse_stake_withdraw_instruction ::
    "Parser \<Rightarrow> Instruction \<Rightarrow> MessageHeader \<Rightarrow> TransactionSummary \<Rightarrow> (StakeWithdrawInfo \<times> TransactionSummary) option" where
  "parse_stake_withdraw_instruction p instruction header S = do {
     let it = instruction_accounts_iterator_init header instruction;
     (account, it) \<leftarrow> instruction_accounts_iterator_next it;
     (dst, it) \<leftarrow> instruction_accounts_iterator_next it;
     (_, it) \<leftarrow> instruction_accounts_iterator_next it;
     (_, it) \<leftarrow> instruction_accounts_iterator_next it;
     (authority, it) \<leftarrow> instruction_accounts_iterator_next it;
     (lamports, p) \<leftarrow> parse_u64 p;
     Some (\<lparr>stake_withdraw_account = account, stake_withdraw_authority = authority,
             stake_withdraw_to = dst, stake_withdraw_lamports = lamports\<rparr>,
           transaction_summary_set_transaction_type TRANSACTION_TYPE_SOL_WITHDRAW S) }"

text \<open>An account that may be missing: the iterator stays where it is and the pointer null.\<close>

definition optional_next ::
    "InstructionAccountsIterator \<Rightarrow> byte_ptr option \<times> InstructionAccountsIterator" where
  "optional_next it = (case instruction_accounts_iterator_next it of
     Some (account, it) \<Rightarrow> (Some account, it) | None \<Rightarrow> (None, it))"

definition parse_stake_authorize_instruction ::
    "Parser \<Rightarrow> Instruction \<Rightarrow> MessageHeader \<Rightarrow> StakeAuthorizeInfo option" where
  "parse_stake_authorize_instruction p instruction header = do {
     let it = instruction_accounts_iterator_init header instruction;
     (account, it) \<leftarrow> instruction_accounts_iterator_next it;
     (_, it) \<leftarrow> instruction_accounts_iterator_next it;
     (authority, it) \<leftarrow> instruction_accounts_iterator_next it;
     let (custodian, it) = optional_next it;
     (new_authority, p) \<leftarrow> parse_pubkey p;
     (authorize, p) \<leftarrow> parse_stake_authorize p;
     Some \<lparr>stake_auth_account = account, stake_auth_authority = authority,
       stake_auth_new_authority = new_authority, stake_auth_custodian = custodian,
       stake_auth_authorize = authorize\<rparr> }"

definition parse_stake_authorize_checked_instruction ::
    "Parser \<Rightarrow> Instruction \<Rightarrow> MessageHeader \<Rightarrow> StakeAuthorizeInfo option" where
  "parse_stake_authorize_checked_instruction p instruction header = do {
     let it = instruction_accounts_iterator_init header instruction;
     (account, it) \<leftarrow> instruction_accounts_iterator_next it;
     (_, it) \<leftarrow> instruction_accounts_iterator_next it;
     (authority, it) \<leftarrow> instruction_accounts_iterator_next it;
     (new_authority, it) \<leftarrow> instruction_accounts_iterator_next it;
     let (custodian, it) = optional_next it;
     (authorize, p) \<leftarrow> parse_stake_authorize p;
     Some \<lparr>stake_auth_account = account, stake_auth_authority = authority,
       stake_auth_new_authority = new_authority, stake_auth_custodian = custodian,
       stake_auth_authorize = authorize\<rparr> }"

definition parse_stake_deactivate_instruction ::
    "Parser \<Rightarrow> Instruction \<Rightarrow> MessageHeader \<Rightarrow> TransactionSummary \<Rightarrow> (StakeDeactivateInfo \<times> TransactionSummary) option" where
  "parse_stake_deactivate_instruction p instruction header S = do {
     let it = instruction_accounts_iterator_init header instruction;
     (account, it) \<leftarrow> instruction_accounts_iterator_next it;
     (_, it) \<leftarrow> instruction_accounts_iterator_next it;
     (authority, it) \<leftarrow> instruction_accounts_iterator_next it;
     Some (\<lparr>deactivate_account = account, deactivate_authority = authority\<rparr>,
           transaction_summary_set_transaction_type TRANSACTION_TYPE_SOL_DEACTIVATE_STAKE S) }"

definition parse_stake_lockupargs :: "bool \<Rightarrow> StakeLockup reader" where
  "parse_stake_lockupargs parse_custodian p = do {
     let lockup = zero_lockup;
     let present = StakeLockupHasNone;
     (option, p) \<leftarrow> parse_option p;
     (lockup, present, p) \<leftarrow>
       (if option = OptionSome then do {
          (unix_timestamp, p) \<leftarrow> parse_i64 p;
          Some (lockup\<lparr>lockup_unix_timestamp := unix_timestamp\<rparr>, present OR StakeLockupHasTimestamp, p) }
        else Some (lockup, present, p));
     (option, p) \<leftarrow> parse_option p;
     (lockup, present, p) \<leftarrow>
       (if option = OptionSome then do {
          (epoch, p) \<leftarrow> parse_u64 p;
          Some (lockup\<lparr>lockup_epoch := epoch\<rparr>, present OR StakeLockupHasEpoch, p) }
        else Some (lockup, present, p));
     (lockup, present, p) \<leftarrow>
       (if parse_custodian then do {
          (option, p) \<leftarrow> parse_option p;
          if option = OptionSome then do {
            (custodian, p) \<leftarrow> parse_pubkey p;
            Some (lockup\<lparr>lockup_custodian := custodian\<rparr>, present OR StakeLockupHasCustodian, p) }
          else Some (lockup, present, p) }
        else Some (lockup, present, p));
     Some (lockup\<lparr>lockup_present := present\<rparr>, p) }"

definition parse_stake_set_lockup_instruction ::
    "Parser \<Rightarrow> Instruction \<Rightarrow> MessageHeader \<Rightarrow> StakeSetLockupInfo option" where
  "parse_stake_set_lockup_instruction p instruction header = do {
     let it = instruction_accounts_iterator_init header instruction;
     (account, it) \<leftarrow> instruction_accounts_iterator_next it;
     (custodian, it) \<leftarrow> instruction_accounts_iterator_next it;
     (lockup, p) \<leftarrow> parse_stake_lockupargs True p;
     Some \<lparr>set_lockup_account = account, set_lockup_custodian = custodian, set_lockup_lockup = lockup\<rparr> }"

definition parse_stake_set_lockup_checked_instruction ::
    "Parser \<Rightarrow> Instruction \<Rightarrow> MessageHeader \<Rightarrow> StakeSetLockupInfo option" where
  "parse_stake_set_lockup_checked_instruction p instruction header = do {
     let it = instruction_accounts_iterator_init header instruction;
     (account, it) \<leftarrow> instruction_accounts_iterator_next it;
     (custodian, it) \<leftarrow> instruction_accounts_iterator_next it;
     (lockup, p) \<leftarrow> parse_stake_lockupargs False p;
     let lockup = (case optional_next it of
         (Some new_custodian, _) \<Rightarrow> lockup\<lparr>lockup_custodian := new_custodian,
            lockup_present := lockup_present lockup OR StakeLockupHasCustodian\<rparr>
       | (None, _) \<Rightarrow> lockup);
     Some \<lparr>set_lockup_account = account, set_lockup_custodian = custodian, set_lockup_lockup = lockup\<rparr> }"

definition parse_stake_split_instruction ::
    "Parser \<Rightarrow> Instruction \<Rightarrow> MessageHeader \<Rightarrow> StakeSplitInfo option" where
  "parse_stake_split_instruction p instruction header = do {
     let it = instruction_accounts_iterator_init header instruction;
     (account, it) \<leftarrow> instruction_accounts_iterator_next it;
     (new_account, it) \<leftarrow> instruction_accounts_iterator_next it;
     (authority, it) \<leftarrow> instruction_accounts_iterator_next it;
     (lamports, p) \<leftarrow> parse_u64 p;
     Some \<lparr>split_account = account, split_authority = authority, split_split_account = new_account,
       split_lamports = lamports\<rparr> }"

definition parse_stake_merge_instruction :: "Instruction \<Rightarrow> MessageHeader \<Rightarrow> StakeMergeInfo option" where
  "parse_stake_merge_instruction instruction header = do {
     let it = instruction_accounts_iterator_init header instruction;
     (destination, it) \<leftarrow> instruction_accounts_iterator_next it;
     (source, it) \<leftarrow> instruction_accounts_iterator_next it;
     (_, it) \<leftarrow> instruction_accounts_iterator_next it;
     (_, it) \<leftarrow> instruction_accounts_iterator_next it;
     (authority, it) \<leftarrow> instruction_accounts_iterator_next it;
     Some \<lparr>merge_destination = destination, merge_source = source, merge_authority = authority\<rparr> }"

definition parse_stake_instructions ::
    "Instruction \<Rightarrow> MessageHeader \<Rightarrow> TransactionSummary \<Rightarrow> (StakeInfo \<times> TransactionSummary) option" where
  "parse_stake_instructions instruction header S = do {
     let p = data_parser instruction;
     (kind, p) \<leftarrow> parse_stake_instruction_kind p;
     (case kind of
        StakeDelegate \<Rightarrow> map_option (apfst StkDelegate) (parse_delegate_stake_instruction instruction header S)
      | StakeInitialize \<Rightarrow>
          map_option (\<lambda>i. (StkInitialize i, S)) (parse_stake_initialize_instruction p instruction header)
      | StakeInitializeChecked \<Rightarrow>
          map_option (\<lambda>i. (StkInitializeChecked i, S))
            (parse_stake_initialize_checked_instruction p instruction header)
      | StakeWithdraw \<Rightarrow>
          map_option (apfst StkWithdraw) (parse_stake_withdraw_instruction p instruction header S)
      | StakeAuthorize \<Rightarrow>
          map_option (\<lambda>i. (StkAuthorize i, S)) (parse_stake_authorize_instruction p instruction header)
      | StakeAuthorizeChecked \<Rightarrow>
          map_option (\<lambda>i. (StkAuthorizeChecked i, S))
            (parse_stake_authorize_checked_instruction p instruction header)
      | StakeDeactivate \<Rightarrow>
          map_option (apfst StkDeactivate) (parse_stake_deactivate_instruction p instruction header S)
      | StakeSetLockup \<Rightarrow>
          map_option (\<lambda>i. (StkSetLockup i, S)) (parse_stake_set_lockup_instruction p instruction header)
      | StakeSetLockupChecked \<Rightarrow>
          map_option (\<lambda>i. (StkSetLockupChecked i, S))
            (parse_stake_set_lockup_checked_instruction p instruction header)
      | StakeSplit \<Rightarrow> map_option (\<lambda>i. (StkSplit i, S)) (parse_stake_split_instruction p instruction header)
      | StakeMerge \<Rightarrow> map_option (\<lambda>i. (StkMerge i, S)) (parse_stake_merge_instruction instruction header)
      | StakeAuthorizeWithSeed \<Rightarrow> None
      | StakeAuthorizeCheckedWithSeed \<Rightarrow> None) }"

section \<open>Printing\<close>

type_synonym base58_decoder = "string \<Rightarrow> u8 list option"

definition is_known_pubkey :: "base58_decoder \<Rightarrow> byte_ptr \<Rightarrow> string \<Rightarrow> bool" where
  "is_known_pubkey b58 candidate_pubkey known_as_str = (case b58 known_as_str of
     None \<Rightarrow> False
   | Some known_as_data \<Rightarrow>
       length known_as_data = 32 \<and> memcmp (bytes candidate_pubkey) known_as_data = 0)"

definition is_figment_pubkey :: "base58_decoder \<Rightarrow> byte_ptr \<Rightarrow> bool" where
  "is_figment_pubkey b58 candidate_pubkey =
     is_known_pubkey b58 candidate_pubkey ''26pV97Ce83ZQ6Kz9XT4td8tdoUFPTng8Fb8gPyc53dJx''"

definition is_chorus_one_pubkey :: "base58_decoder \<Rightarrow> byte_ptr \<Rightarrow> bool" where
  "is_chorus_one_pubkey b58 candidate_pubkey =
     is_known_pubkey b58 candidate_pubkey ''CpfvLiiPALdzZTP3fUrALg2TXwEDSAknRh1sn5JCt9Sr''"

definition print_delegate_stake_info ::
    "base58_decoder \<Rightarrow> string option \<Rightarrow> StakeDelegateInfo \<Rightarrow> PrintConfig \<Rightarrow> TransactionSummary \<Rightarrow> TransactionSummary c_result" where
  "print_delegate_stake_info b58 primary_title info print_config S = do {
     S \<leftarrow> (case primary_title of
             Some title \<Rightarrow> do { S \<leftarrow> summary_item_set_pubkey (transaction_summary_primary_item S) title (delegate_stake_pubkey info) S; Some S }
           | None \<Rightarrow> Some S);
     S \<leftarrow> (if print_config_show_authority print_config (delegate_authorized_pubkey info)
           then do { S \<leftarrow> summary_item_set_pubkey (transaction_summary_general_item S) ''Authorized by'' (delegate_authorized_pubkey info) S; Some S }
           else Some S);
     S \<leftarrow> (if is_figment_pubkey b58 (delegate_vote_pubkey info)
           then do { S \<leftarrow> summary_item_set_string (transaction_summary_general_item S) ''Vote account'' ''Ledger by Figment'' S; Some S }
           else if is_chorus_one_pubkey b58 (delegate_vote_pubkey info)
           then do { S \<leftarrow> summary_item_set_string (transaction_summary_general_item S) ''Vote account'' ''Ledger by Chorus One'' S; Some S }
           else do { S \<leftarrow> summary_item_set_pubkey (transaction_summary_general_item S) ''Vote account'' (delegate_vote_pubkey info) S; Some S });
     Some (0, S) }"

definition print_stake_withdraw_info :: "StakeWithdrawInfo \<Rightarrow> PrintConfig \<Rightarrow> TransactionSummary \<Rightarrow> TransactionSummary c_result" where
  "print_stake_withdraw_info info print_config S = do {
     S \<leftarrow> summary_item_set_amount (transaction_summary_primary_item S) ''Amount'' (stake_withdraw_lamports info) S;
     S \<leftarrow> summary_item_set_pubkey (transaction_summary_general_item S) ''From stake account'' (stake_withdraw_account info) S;
     S \<leftarrow> summary_item_set_pubkey (transaction_summary_general_item S) ''To'' (stake_withdraw_to info) S;
     S \<leftarrow> (if print_config_show_authority print_config (stake_withdraw_authority info)
           then do { S \<leftarrow> summary_item_set_pubkey (transaction_summary_general_item S) ''Authorized by'' (stake_withdraw_authority info) S; Some S }
           else Some S);
     Some (0, S) }"

definition print_stake_authorize_info :: "StakeAuthorizeInfo \<Rightarrow> PrintConfig \<Rightarrow> TransactionSummary \<Rightarrow> TransactionSummary c_result" where
  "print_stake_authorize_info info print_config S = do {
     S \<leftarrow> summary_item_set_pubkey (transaction_summary_primary_item S) ''Set stake auth'' (stake_auth_account info) S;
     let new_authority_title = (case stake_auth_authorize info of
           StakeAuthorizeStaker \<Rightarrow> ''New stake auth''
         | StakeAuthorizeWithdrawer \<Rightarrow> ''New withdraw auth'');
     S \<leftarrow> summary_item_set_pubkey (transaction_summary_general_item S) new_authority_title (stake_auth_new_authority info) S;
     S \<leftarrow> (if print_config_show_authority print_config (stake_auth_authority info)
           then do { S \<leftarrow> summary_item_set_pubkey (transaction_summary_general_item S) ''Authorized by'' (stake_auth_authority info) S; Some S }
           else Some S);
     S \<leftarrow> (case stake_auth_custodian info of
             Some custodian \<Rightarrow>
               (if print_config_show_authority print_config custodian
                then do { S \<leftarrow> summary_item_set_pubkey (transaction_summary_general_item S) ''Custodian'' custodian S; Some S }
                else Some S)
           | None \<Rightarrow> Some S);
     Some (0, S) }"

definition print_stake_deactivate_info :: "StakeDeactivateInfo \<Rightarrow> PrintConfig \<Rightarrow> TransactionSummary \<Rightarrow> TransactionSummary c_result" where
  "print_stake_deactivate_info info print_config S = do {
     S \<leftarrow> summary_item_set_pubkey (transaction_summary_primary_item S) ''Stake account'' (deactivate_account info) S;
     S \<leftarrow> (if print_config_show_authority print_config (deactivate_authority info)
           then do { S \<leftarrow> summary_item_set_pubkey (transaction_summary_general_item S) ''Authorized by'' (deactivate_authority info) S; Some S }
           else Some S);
     Some (0, S) }"

definition print_stake_set_lockup_info :: "StakeSetLockupInfo \<Rightarrow> PrintConfig \<Rightarrow> TransactionSummary \<Rightarrow> TransactionSummary c_result" where
  "print_stake_set_lockup_info info print_config S = do {
     S \<leftarrow> summary_item_set_pubkey (transaction_summary_primary_item S) ''Set lockup'' (set_lockup_account info) S;
     let present = lockup_present (set_lockup_lockup info);
     S \<leftarrow> (if present AND StakeLockupHasTimestamp \<noteq> 0
           then do { S \<leftarrow> summary_item_set_timestamp (transaction_summary_general_item S) ''Time'' (lockup_unix_timestamp (set_lockup_lockup info)) S; Some S }
           else Some S);
     S \<leftarrow> (if present AND StakeLockupHasEpoch \<noteq> 0
           then do { S \<leftarrow> summary_item_set_u64 (transaction_summary_general_item S) ''Epoch'' (lockup_epoch (set_lockup_lockup info)) S; Some S }
           else Some S);
     S \<leftarrow> (if present AND StakeLockupHasCustodian \<noteq> 0
           then do { S \<leftarrow> summary_item_set_pubkey (transaction_summary_general_item S) ''New authority'' (lockup_custodian (set_lockup_lockup info)) S; Some S }
           else Some S);
     S \<leftarrow> (if print_config_show_authority print_config (set_lockup_custodian info)
           then do { S \<leftarrow> summary_item_set_pubkey (transaction_summary_general_item S) ''Authorized by'' (set_lockup_custodian info) S; Some S }
           else Some S);
     Some (0, S) }"

definition print_stake_merge_info :: "StakeMergeInfo \<Rightarrow> PrintConfig \<Rightarrow> TransactionSummary \<Rightarrow> TransactionSummary c_result" where
  "print_stake_merge_info info print_config S = do {
     S \<leftarrow> summary_item_set_pubkey (transaction_summary_primary_item S) ''Merge'' (merge_source info) S;
     S \<leftarrow> summary_item_set_pubkey (transaction_summary_general_item S) ''Into'' (merge_destination info) S;
     S \<leftarrow> (if print_config_show_authority print_config (merge_authority info)
           then do { S \<leftarrow> summary_item_set_pubkey (transaction_summary_general_item S) ''Authorized by'' (merge_authority info) S; Some S }
           else Some S);
     Some (0, S) }"

definition print_stake_initialize_info ::
    "string option \<Rightarrow> StakeInitializeInfo \<Rightarrow> PrintConfig \<Rightarrow> TransactionSummary \<Rightarrow> TransactionSummary c_result" where
  "print_stake_initialize_info primary_title info print_config S = do {
     let one_authority = pubkeys_equal (stake_init_withdraw_authority info) (stake_init_stake_authority info);
     S \<leftarrow> (case primary_title of
             Some title \<Rightarrow> do { S \<leftarrow> summary_item_set_pubkey (transaction_summary_primary_item S) title (stake_init_account info) S; Some S }
           | None \<Rightarrow> Some S);
     S \<leftarrow> (if one_authority
           then do { S \<leftarrow> summary_item_set_pubkey (transaction_summary_general_item S) ''New authority'' (stake_init_stake_authority info) S; Some S }
           else do { S \<leftarrow> summary_item_set_pubkey (transaction_summary_general_item S) ''New stake auth'' (stake_init_stake_authority info) S;
                     S \<leftarrow> summary_item_set_pubkey (transaction_summary_general_item S) ''New withdraw auth'' (stake_init_withdraw_authority info) S; Some S });
     let lockup_time = lockup_unix_timestamp (stake_init_lockup info);
     let lockup_epoch = lockup_epoch (stake_init_lockup info);
     S \<leftarrow> (if sint lockup_time > 0 \<or> lockup_epoch > 0 then do {
             S \<leftarrow> (if sint lockup_time > 0
                   then do { S \<leftarrow> summary_item_set_timestamp (transaction_summary_general_item S) ''Lockup time'' lockup_time S; Some S } else Some S);
             S \<leftarrow> (if lockup_epoch > 0
                   then do { S \<leftarrow> summary_item_set_u64 (transaction_summary_general_item S) ''Lockup epoch'' lockup_epoch S; Some S } else Some S);
             S \<leftarrow> summary_item_set_pubkey (transaction_summary_general_item S) ''Lockup authority'' (lockup_custodian (stake_init_lockup info)) S;
             Some S }
           else if expert_mode print_config
           then do { S \<leftarrow> summary_item_set_string (transaction_summary_general_item S) ''Lockup'' ''None'' S; Some S }
           else Some S);
     Some (0, S) }"

definition print_stake_split_info1 :: "StakeSplitInfo \<Rightarrow> PrintConfig \<Rightarrow> TransactionSummary \<Rightarrow> TransactionSummary c_result" where
  "print_stake_split_info1 info print_config S = do {
     S \<leftarrow> summary_item_set_amount (transaction_summary_primary_item S) ''Split stake'' (split_lamports info) S;
     S \<leftarrow> summary_item_set_pubkey (transaction_summary_general_item S) ''From'' (split_account info) S;
     S \<leftarrow> summary_item_set_pubkey (transaction_summary_general_item S) ''To'' (split_split_account info) S;
     Some (0, S) }"

definition print_stake_split_info2 :: "StakeSplitInfo \<Rightarrow> PrintConfig \<Rightarrow> TransactionSummary \<Rightarrow> TransactionSummary c_result" where
  "print_stake_split_info2 info print_config S = do {
     S \<leftarrow> (if print_config_show_authority print_config (split_authority info)
           then do { S \<leftarrow> summary_item_set_pubkey (transaction_summary_general_item S) ''Authorized by'' (split_authority info) S; Some S }
           else Some S);
     Some (0, S) }"

definition print_stake_split_info :: "StakeSplitInfo \<Rightarrow> PrintConfig \<Rightarrow> TransactionSummary \<Rightarrow> TransactionSummary c_result" where
  "print_stake_split_info info print_config S =
     bail_if (print_stake_split_info1 info print_config S) (print_stake_split_info2 info print_config)"

definition print_stake_info :: "base58_decoder \<Rightarrow> StakeInfo \<Rightarrow> PrintConfig \<Rightarrow> TransactionSummary \<Rightarrow> TransactionSummary c_result" where
  "print_stake_info b58 info print_config = (case info of
     StkDelegate i \<Rightarrow> print_delegate_stake_info b58 (Some ''Delegated from'') i print_config
   | StkInitialize i \<Rightarrow> print_stake_initialize_info (Some ''Init stake acct'') i print_config
   | StkInitializeChecked i \<Rightarrow> print_stake_initialize_info (Some ''Init stake acct'') i print_config
   | StkWithdraw i \<Rightarrow> print_stake_withdraw_info i print_config
   | StkAuthorize i \<Rightarrow> print_stake_authorize_info i print_config
   | StkAuthorizeChecked i \<Rightarrow> print_stake_authorize_info i print_config
   | StkDeactivate i \<Rightarrow> print_stake_deactivate_info i print_config
   | StkSetLockup i \<Rightarrow> print_stake_set_lockup_info i print_config
   | StkSetLockupChecked i \<Rightarrow> print_stake_set_lockup_info i print_config
   | StkSplit i \<Rightarrow> print_stake_split_info i print_config
   | StkMerge i \<Rightarrow> print_stake_merge_info i print_config)"

section \<open>The printers meet the contract\<close>

lemmas stake_printers = print_delegate_stake_info_def print_stake_withdraw_info_def
  print_stake_authorize_info_def print_stake_deactivate_info_def print_stake_set_lockup_info_def
  print_stake_merge_info_def print_stake_initialize_info_def print_stake_split_info1_def
  print_stake_split_info2_def

lemma stake_kept [keep]:
  "kept S (print_delegate_stake_info b58 t i1 c S)"
  "kept S (print_stake_withdraw_info i2 c S)"
  "kept S (print_stake_authorize_info i3 c S)"
  "kept S (print_stake_deactivate_info i4 c S)"
  "kept S (print_stake_set_lockup_info i5 c S)"
  "kept S (print_stake_merge_info i6 c S)"
  "kept S (print_stake_initialize_info t i7 c S)"
  "kept S (print_stake_split_info1 i8 c S)"
  "kept S (print_stake_split_info2 i8 c S)"
  unfolding stake_printers Let_def
  by (intro keep free_slot_intros)+

lemma print_stake_info_kept [keep]:
  "kept S (print_stake_split_info i8 c S)" "kept S (print_stake_info b58 info c S)"
proof -
  show *: "kept S (print_stake_split_info i8 c S)" for i8 unfolding print_stake_split_info_def by (intro keep)
  show "kept S (print_stake_info b58 info c S)"
    by (simp add: print_stake_info_def stake_kept * split: StakeInfo.split)
qed

interpretation stake: printer "print_stake_info b58 info print_config" for b58 info print_config
  by unfold_locales (rule print_stake_info_kept)

end
