(* ===== verification/Sol_Vote.thy ===== *)
theory Sol_Vote
  imports Sol_System
begin

text \<open>The vote program, \<open>libsol/vote_instruction.c\<close>.\<close>

section \<open>Instructions\<close>

datatype VoteInstructionKind = VoteInitialize | VoteAuthorize | VoteVote | VoteWithdraw
  | VoteUpdateValidatorId | VoteUpdateCommission | VoteSwitchVote | VoteAuthorizeChecked

record VoteInitData =
  vote_validator_id :: byte_ptr
  vote_vote_authority :: byte_ptr
  vote_withdraw_authority :: byte_ptr
  vote_commission :: u64

record VoteInitializeInfo =
  vote_init_account :: byte_ptr
  vote_init_vote_init :: VoteInitData

record VoteWithdrawInfo =
  vote_withdraw_account :: byte_ptr
  vote_withdraw_authority_key :: byte_ptr
  vote_withdraw_to :: byte_ptr
  vote_withdraw_lamports :: u64

datatype VoteAuthorize = VoteAuthorizeVoter | VoteAuthorizeWithdrawer

record VoteAuthorizeInfo =
  vote_auth_account :: byte_ptr
  vote_auth_authority :: byte_ptr
  vote_auth_new_authority :: byte_ptr
  vote_auth_authorize :: VoteAuthorize

record VoteUpdateValidatorIdInfo =
  vote_id_account :: byte_ptr
  vote_id_authority :: byte_ptr
  vote_id_new_validator_id :: byte_ptr

record VoteUpdateCommissionInfo =
  vote_comm_account :: byte_ptr
  vote_comm_authority :: byte_ptr
  vote_comm_commission :: u8

datatype VoteInfo =
    VotInitialize VoteInitializeInfo
  | VotWithdraw VoteWithdrawInfo
  | VotAuthorize VoteAuthorizeInfo
  | VotAuthorizeChecked VoteAuthorizeInfo
  | VotUpdateValidatorId VoteUpdateValidatorIdInfo
  | VotUpdateCommission VoteUpdateCommissionInfo

fun vote_kind :: "VoteInfo \<Rightarrow> VoteInstructionKind" where
  "vote_kind (VotInitialize _) = VoteInitialize"
| "vote_kind (VotWithdraw _) = VoteWithdraw"
| "vote_kind (VotAuthorize _) = VoteAuthorize"
| "vote_kind (VotAuthorizeChecked _) = VoteAuthorizeChecked"
| "vote_kind (VotUpdateValidatorId _) = VoteUpdateValidatorId"
| "vote_kind (VotUpdateCommission _) = VoteUpdateCommission"

section \<open>Parsing\<close>

definition parse_vote_instruction_kind :: "VoteInstructionKind reader" where
  "parse_vote_instruction_kind p = do {
     (maybe_kind, p) \<leftarrow> parse_u32 p;
     if maybe_kind = 0 then Some (VoteInitialize, p)
     else if maybe_kind = 1 then Some (VoteAuthorize, p)
     else if maybe_kind = 2 then Some (VoteVote, p)
     else if maybe_kind = 3 then Some (VoteWithdraw, p)
     else if maybe_kind = 4 then Some (VoteUpdateValidatorId, p)
     else if maybe_kind = 5 then Some (VoteUpdateCommission, p)
     else if maybe_kind = 6 then Some (VoteSwitchVote, p)
     else if maybe_kind = 7 then Some (VoteAuthorizeChecked, p)
     else None }"

definition parse_vote_authorize :: "VoteAuthorize reader" where
  "parse_vote_authorize p = do {
     (maybe_authorize, p) \<leftarrow> parse_u32 p;
     if maybe_authorize = 0 then Some (VoteAuthorizeVoter, p)
     else if maybe_authorize = 1 then Some (VoteAuthorizeWithdrawer, p)
     else None }"

definition parse_vote_initialize_instruction ::
    "Parser \<Rightarrow> Instruction \<Rightarrow> MessageHeader \<Rightarrow> VoteInitializeInfo option" where
  "parse_vote_initialize_instruction p instruction header = do {
     let it = instruction_accounts_iterator_init header instruction;
     (account, it) \<leftarrow> instruction_accounts_iterator_next it;
     (_, it) \<leftarrow> instruction_accounts_iterator_next it;
     (_, it) \<leftarrow> instruction_accounts_iterator_next it;
     (validator_id, p) \<leftarrow> parse_pubkey p;
     (vote_authority, p) \<leftarrow> parse_pubkey p;
     (withdraw_authority, p) \<leftarrow> parse_pubkey p;
     (commission, p) \<leftarrow> parse_u8 p;
     Some \<lparr>vote_init_account = account, vote_init_vote_init = \<lparr>vote_validator_id = validator_id,
       vote_vote_authority = vote_authority, vote_withdraw_authority = withdraw_authority,
       vote_commission = ucast commission\<rparr>\<rparr> }"

definition parse_vote_withdraw_instruction ::
    "Parser \<Rightarrow> Instruction \<Rightarrow> MessageHeader \<Rightarrow> VoteWithdrawInfo option" where
  "parse_vote_withdraw_instruction p instruction header = do {
     let it = instruction_accounts_iterator_init header instruction;
     (account, it) \<leftarrow> instruction_accounts_iterator_next it;
     (dst, it) \<leftarrow> instruction_accounts_iterator_next it;
     (authority, it) \<leftarrow> instruction_accounts_iterator_next it;
     (lamports, p) \<leftarrow> parse_u64 p;
     Some \<lparr>vote_withdraw_account = account, vote_withdraw_authority_key = authority,
       vote_withdraw_to = dst, vote_withdraw_lamports = lamports\<rparr> }"

definition parse_vote_authorize_instruction ::
    "Parser \<Rightarrow> Instruction \<Rightarrow> MessageHeader \<Rightarrow> VoteAuthorizeInfo option" where
  "parse_vote_authorize_instruction p instruction header = do {
     let it = instruction_accounts_iterator_init header instruction;
     (account, it) \<leftarrow> instruction_accounts_iterator_next it;
     (_, it) \<leftarrow> instruction_accounts_iterator_next it;
     (authority, it) \<leftarrow> instruction_accounts_iterator_next it;
     (new_authority, p) \<leftarrow> parse_pubkey p;
     (authorize, p) \<leftarrow> parse_vote_authorize p;
     Some \<lparr>vote_auth_account = account, vote_auth_authority = authority,
       vote_auth_new_authority = new_authority, vote_auth_authorize = authorize\<rparr> }"

definition parse_vote_authorize_checked_instruction ::
    "Parser \<Rightarrow> Instruction \<Rightarrow> MessageHeader \<Rightarrow> VoteAuthorizeInfo option" where
  "parse_vote_authorize_checked_instruction p instruction header = do {
     let it = instruction_accounts_iterator_init header instruction;
     (account, it) \<leftarrow> instruction_accounts_iterator_next it;
     (_, it) \<leftarrow> instruction_accounts_iterator_next it;
     (authority, it) \<leftarrow> instruction_accounts_iterator_next it;
     (new_authority, it) \<leftarrow> instruction_accounts_iterator_next it;
     (authorize, p) \<leftarrow> parse_vote_authorize p;
     Some \<lparr>vote_auth_account = account, vote_auth_authority = authority,
       vote_auth_new_authority = new_authority, vote_auth_authorize = authorize\<rparr> }"

definition parse_vote_update_validator_id_instruction ::
    "Parser \<Rightarrow> Instruction \<Rightarrow> MessageHeader \<Rightarrow> VoteUpdateValidatorIdInfo option" where
  "parse_vote_update_validator_id_instruction p instruction header = do {
     let it = instruction_accounts_iterator_init header instruction;
     (account, it) \<leftarrow> instruction_accounts_iterator_next it;
     (new_validator_id, it) \<leftarrow>
       (if data_length instruction = 4 then do {
          (new_validator_id, it) \<leftarrow> instruction_accounts_iterator_next it;
          Some (new_validator_id, it) }
        else if data_length instruction = 4 + PUBKEY_SIZE then do {
          (new_validator_id, p) \<leftarrow> parse_pubkey p;
          (_, it) \<leftarrow> instruction_accounts_iterator_next it;
          Some (new_validator_id, it) }
        else None);
     (authority, it) \<leftarrow> instruction_accounts_iterator_next it;
     Some \<lparr>vote_id_account = account, vote_id_authority = authority,
       vote_id_new_validator_id = new_validator_id\<rparr> }"

definition parse_vote_update_commission_instruction ::
    "Parser \<Rightarrow> Instruction \<Rightarrow> MessageHeader \<Rightarrow> VoteUpdateCommissionInfo option" where
  "parse_vote_update_commission_instruction p instruction header = do {
     let it = instruction_accounts_iterator_init header instruction;
     (account, it) \<leftarrow> instruction_accounts_iterator_next it;
     (authority, it) \<leftarrow> instruction_accounts_iterator_next it;
     (commission, p) \<leftarrow> parse_u8 p;
     Some \<lparr>vote_comm_account = account, vote_comm_authority = authority,
       vote_comm_commission = commission\<rparr> }"

definition parse_vote_instructions :: "Instruction \<Rightarrow> MessageHeader \<Rightarrow> VoteInfo option" where
  "parse_vote_instructions instruction header = do {
     let p = data_parser instruction;
     (kind, p) \<leftarrow> parse_vote_instruction_kind p;
     (case kind of
        VoteInitialize \<Rightarrow> map_option VotInitialize (parse_vote_initialize_instruction p instruction header)
      | VoteWithdraw \<Rightarrow> map_option VotWithdraw (parse_vote_withdraw_instruction p instruction header)
      | VoteAuthorize \<Rightarrow> map_option VotAuthorize (parse_vote_authorize_instruction p instruction header)
      | VoteAuthorizeChecked \<Rightarrow>
          map_option VotAuthorizeChecked (parse_vote_authorize_checked_instruction p instruction header)
      | VoteUpdateValidatorId \<Rightarrow>
          map_option VotUpdateValidatorId (parse_vote_update_validator_id_instruction p instruction header)
      | VoteUpdateCommission \<Rightarrow>
          map_option VotUpdateCommission (parse_vote_update_commission_instruction p instruction header)
      | VoteVote \<Rightarrow> None
      | VoteSwitchVote \<Rightarrow> None) }"

section \<open>Printing\<close>

definition print_vote_withdraw_info :: "VoteWithdrawInfo \<Rightarrow> PrintConfig \<Rightarrow> TransactionSummary \<Rightarrow> TransactionSummary c_result" where
  "print_vote_withdraw_info info print_config S = do {
     S \<leftarrow> summary_item_set_amount (transaction_summary_primary_item S) ''Vote withdraw'' (vote_withdraw_lamports info) S;
     S \<leftarrow> summary_item_set_pubkey (transaction_summary_general_item S) ''From'' (vote_withdraw_account info) S;
     S \<leftarrow> summary_item_set_pubkey (transaction_summary_general_item S) ''To'' (vote_withdraw_to info) S;
     S \<leftarrow> (if print_config_show_authority print_config (vote_withdraw_authority_key info)
           then do { S \<leftarrow> summary_item_set_pubkey (transaction_summary_general_item S) ''Authorized by'' (vote_withdraw_authority_key info) S; Some S }
           else Some S);
     Some (0, S) }"

definition print_vote_authorize_info :: "VoteAuthorizeInfo \<Rightarrow> PrintConfig \<Rightarrow> TransactionSummary \<Rightarrow> TransactionSummary c_result" where
  "print_vote_authorize_info info print_config S = do {
     S \<leftarrow> summary_item_set_pubkey (transaction_summary_primary_item S) ''Set vote auth'' (vote_auth_account info) S;
     let new_authority_title = (case vote_auth_authorize info of
           VoteAuthorizeVoter \<Rightarrow> ''New vote auth''
         | VoteAuthorizeWithdrawer \<Rightarrow> ''New withdraw auth'');
     S \<leftarrow> summary_item_set_pubkey (transaction_summary_general_item S) new_authority_title (vote_auth_new_authority info) S;
     S \<leftarrow> (if print_config_show_authority print_config (vote_auth_authority info)
           then do { S \<leftarrow> summary_item_set_pubkey (transaction_summary_general_item S) ''Authorized by'' (vote_auth_authority info) S; Some S }
           else Some S);
     Some (0, S) }"

definition print_vote_update_validator_id_info :: "VoteUpdateValidatorIdInfo \<Rightarrow> PrintConfig \<Rightarrow> TransactionSummary \<Rightarrow> TransactionSummary c_result" where
  "print_vote_update_validator_id_info info print_config S = do {
     S \<leftarrow> summary_item_set_pubkey (transaction_summary_primary_item S) ''Update validator'' (vote_id_account info) S;
     S \<leftarrow> summary_item_set_pubkey (transaction_summary_general_item S) ''New validator ID'' (vote_id_new_validator_id info) S;
     S \<leftarrow> (if print_config_show_authority print_config (vote_id_authority info)
           then do { S \<leftarrow> summary_item_set_pubkey (transaction_summary_general_item S) ''Authorized by'' (vote_id_authority info) S; Some S }
           else Some S);
     Some (0, S) }"

definition print_vote_update_commission_info :: "VoteUpdateCommissionInfo \<Rightarrow> PrintConfig \<Rightarrow> TransactionSummary \<Rightarrow> TransactionSummary c_result" where
  "print_vote_update_commission_info info print_config S = do {
     S \<leftarrow> summary_item_set_pubkey (transaction_summary_primary_item S) ''Update commission'' (vote_comm_account info) S;
     S \<leftarrow> summary_item_set_u64 (transaction_summary_general_item S) ''Commission'' (ucast (vote_comm_commission info)) S;
     S \<leftarrow> (if print_config_show_authority print_config (vote_comm_authority info)
           then do { S \<leftarrow> summary_item_set_pubkey (transaction_summary_general_item S) ''Authorized by'' (vote_comm_authority info) S; Some S }
           else Some S);
     Some (0, S) }"

definition print_vote_initialize_info ::
    "string option \<Rightarrow> VoteInitializeInfo \<Rightarrow> PrintConfig \<Rightarrow> TransactionSummary \<Rightarrow> TransactionSummary c_result" where
  "print_vote_initialize_info primary_title info print_config S = do {
     S \<leftarrow> (case primary_title of
             Some title \<Rightarrow> do { S \<leftarrow> summary_item_set_pubkey (transaction_summary_primary_item S) title (vote_init_account info) S; Some S }
           | None \<Rightarrow> Some S);
     S \<leftarrow> summary_item_set_pubkey (transaction_summary_general_item S) ''Validator ID'' (vote_validator_id (vote_init_vote_init info)) S;
     S \<leftarrow> summary_item_set_pubkey (transaction_summary_general_item S) ''New vote auth'' (vote_vote_authority (vote_init_vote_init info)) S;
     S \<leftarrow> summary_item_set_pubkey (transaction_summary_general_item S) ''New withdraw auth'' (vote_withdraw_authority (vote_init_vote_init info)) S;
     S \<leftarrow> summary_item_set_u64 (transaction_summary_general_item S) ''Commission'' (vote_commission (vote_init_vote_init info)) S;
     Some (0, S) }"

definition print_vote_info :: "VoteInfo \<Rightarrow> PrintConfig \<Rightarrow> TransactionSummary \<Rightarrow> TransactionSummary c_result" where
  "print_vote_info info print_config = (case info of
     VotInitialize i \<Rightarrow> print_vote_initialize_info (Some ''Init vote acct'') i print_config
   | VotWithdraw i \<Rightarrow> print_vote_withdraw_info i print_config
   | VotAuthorize i \<Rightarrow> print_vote_authorize_info i print_config
   | VotAuthorizeChecked i \<Rightarrow> print_vote_authorize_info i print_config
   | VotUpdateValidatorId i \<Rightarrow> print_vote_update_validator_id_info i print_config
   | VotUpdateCommission i \<Rightarrow> print_vote_update_commission_info i print_config)"

section \<open>The printers meet the contract\<close>

lemmas vote_printers = print_vote_withdraw_info_def print_vote_authorize_info_def
  print_vote_update_validator_id_info_def print_vote_update_commission_info_def
  print_vote_initialize_info_def

lemma vote_kept [keep]:
  "kept S (print_vote_withdraw_info i1 c S)"
  "kept S (print_vote_authorize_info i2 c S)"
  "kept S (print_vote_update_validator_id_info i3 c S)"
  "kept S (print_vote_update_commission_info i4 c S)"
  "kept S (print_vote_initialize_info t i5 c S)"
  unfolding vote_printers Let_def
  by (intro keep free_slot_intros)+

lemma print_vote_info_kept [keep]: "kept S (print_vote_info info c S)"
  by (simp add: print_vote_info_def vote_kept split: VoteInfo.split)

interpretation vote: printer "print_vote_info info print_config" for info print_config
  by unfold_locales (rule print_vote_info_kept)

end
