(* ===== verification/Sol_Compute_Budget.thy ===== *)
theory Sol_Compute_Budget
  imports Sol_System
begin

text \<open>
  The compute budget program, \<open>libsol/compute_budget_instruction.c\<close>: the four instructions, the
  largest fee the transaction can cost and its item.
\<close>

definition MAX_CU_PER_INSTRUCTION :: u32 where "MAX_CU_PER_INSTRUCTION = 200000"
definition MAX_CU_PER_TRANSACTION :: u32 where "MAX_CU_PER_TRANSACTION = 1400000"
definition FEE_LAMPORTS_PER_SIGNATURE :: u64 where "FEE_LAMPORTS_PER_SIGNATURE = 5000"
definition MICRO_LAMPORT_MULTIPLIER :: u64 where "MICRO_LAMPORT_MULTIPLIER = 1000000"

lemmas compute_constants = MAX_CU_PER_INSTRUCTION_def MAX_CU_PER_TRANSACTION_def
  FEE_LAMPORTS_PER_SIGNATURE_def MICRO_LAMPORT_MULTIPLIER_def

datatype ComputeBudgetInstructionKind = ComputeBudgetRequestHeapFrame | ComputeBudgetChangeUnitLimit
  | ComputeBudgetChangeUnitPrice | ComputeBudgetSetLoadedAccountsDataSizeLimit

record ComputeBudgetRequestHeapFrameInfo =
  heap_frame_bytes :: u32

record ComputeBudgetChangeUnitLimitInfo =
  unit_limit_units :: u32

record ComputeBudgetChangeUnitPriceInfo =
  unit_price_units :: u64

record ComputeBudgetSetLoadedAccountsDataSizeLimitInfo =
  data_size_limit_units :: u32

datatype ComputeBudgetBody =
    CbRequestHeapFrame ComputeBudgetRequestHeapFrameInfo
  | CbChangeUnitLimit ComputeBudgetChangeUnitLimitInfo
  | CbChangeUnitPrice ComputeBudgetChangeUnitPriceInfo
  | CbSetLoadedAccountsDataSizeLimit ComputeBudgetSetLoadedAccountsDataSizeLimitInfo

fun compute_budget_kind :: "ComputeBudgetBody \<Rightarrow> ComputeBudgetInstructionKind" where
  "compute_budget_kind (CbRequestHeapFrame _) = ComputeBudgetRequestHeapFrame"
| "compute_budget_kind (CbChangeUnitLimit _) = ComputeBudgetChangeUnitLimit"
| "compute_budget_kind (CbChangeUnitPrice _) = ComputeBudgetChangeUnitPrice"
| "compute_budget_kind (CbSetLoadedAccountsDataSizeLimit _) = ComputeBudgetSetLoadedAccountsDataSizeLimit"

record ComputeBudgetInfo =
  cb_signatures_count :: nat
  cb_body :: ComputeBudgetBody

record ComputeBudgetFeeInfo =
  fee_change_unit_limit :: "ComputeBudgetChangeUnitLimitInfo option"
  fee_change_unit_price :: "ComputeBudgetChangeUnitPriceInfo option"
  fee_instructions_count :: nat
  fee_signatures_count :: nat

section \<open>Parsing\<close>

definition parse_compute_budget_instruction_kind :: "ComputeBudgetInstructionKind reader" where
  "parse_compute_budget_instruction_kind p = do {
     (maybe_kind, p) \<leftarrow> parse_u8 p;
     if maybe_kind = 1 then Some (ComputeBudgetRequestHeapFrame, p)
     else if maybe_kind = 2 then Some (ComputeBudgetChangeUnitLimit, p)
     else if maybe_kind = 3 then Some (ComputeBudgetChangeUnitPrice, p)
     else if maybe_kind = 4 then Some (ComputeBudgetSetLoadedAccountsDataSizeLimit, p)
     else None }"

definition parse_request_heap_frame_instruction :: "Parser \<Rightarrow> ComputeBudgetRequestHeapFrameInfo option" where
  "parse_request_heap_frame_instruction p = do {
     (n, p) \<leftarrow> parse_u32 p;
     Some \<lparr>heap_frame_bytes = n\<rparr> }"

definition parse_unit_limit_instruction :: "Parser \<Rightarrow> ComputeBudgetChangeUnitLimitInfo option" where
  "parse_unit_limit_instruction p = do {
     (units, p) \<leftarrow> parse_u32 p;
     Some \<lparr>unit_limit_units = units\<rparr> }"

definition parse_unit_price_instruction :: "Parser \<Rightarrow> ComputeBudgetChangeUnitPriceInfo option" where
  "parse_unit_price_instruction p = do {
     (units, p) \<leftarrow> parse_u64 p;
     Some \<lparr>unit_price_units = units\<rparr> }"

definition parse_loaded_accounts_data_size_limit ::
    "Parser \<Rightarrow> ComputeBudgetSetLoadedAccountsDataSizeLimitInfo option" where
  "parse_loaded_accounts_data_size_limit p = do {
     (units, p) \<leftarrow> parse_u32 p;
     Some \<lparr>data_size_limit_units = units\<rparr> }"

definition parse_compute_budget_instructions :: "Instruction \<Rightarrow> MessageHeader \<Rightarrow> ComputeBudgetInfo option" where
  "parse_compute_budget_instructions instruction header = do {
     let p = data_parser instruction;
     (kind, p) \<leftarrow> parse_compute_budget_instruction_kind p;
     let signatures_count = unat (num_required_signatures (pubkeys_header header));
     body \<leftarrow> (case kind of
         ComputeBudgetRequestHeapFrame \<Rightarrow> map_option CbRequestHeapFrame (parse_request_heap_frame_instruction p)
       | ComputeBudgetChangeUnitLimit \<Rightarrow> map_option CbChangeUnitLimit (parse_unit_limit_instruction p)
       | ComputeBudgetChangeUnitPrice \<Rightarrow> map_option CbChangeUnitPrice (parse_unit_price_instruction p)
       | ComputeBudgetSetLoadedAccountsDataSizeLimit \<Rightarrow>
           map_option CbSetLoadedAccountsDataSizeLimit (parse_loaded_accounts_data_size_limit p));
     Some \<lparr>cb_signatures_count = signatures_count, cb_body = body\<rparr> }"

section \<open>The largest fee\<close>

text \<open>
  The arithmetic on lamports is that of \<open>uint64_t\<close>; both overflow tests come before the operation they
  guard. Without a unit limit, the units are the number of instructions, a \<open>size_t\<close> and so 32 bits wide on
  the device, times an \<open>int\<close> constant: that product and the minimum are taken at 32 bits, where the
  product may wrap, and only then widened.
\<close>

definition calculate_max_fee :: "ComputeBudgetFeeInfo \<Rightarrow> u64 option" where
  "calculate_max_fee info = do {
     let base_fee = FEE_LAMPORTS_PER_SIGNATURE * of_nat (fee_signatures_count info);
     compute_fee \<leftarrow>
       (case fee_change_unit_price info of
          Some change_unit_price \<Rightarrow>
            let max_compute = (case fee_change_unit_limit info of
                  Some change_unit_limit \<Rightarrow> ucast (unit_limit_units change_unit_limit)
                | None \<Rightarrow> ucast (min ((of_nat (fee_instructions_count info) :: u32) * MAX_CU_PER_INSTRUCTION)
                                     MAX_CU_PER_TRANSACTION))
            in if max_compute \<noteq> 0 \<and> unit_price_units change_unit_price > (- 1) div max_compute then None
               else Some ((unit_price_units change_unit_price * max_compute) div MICRO_LAMPORT_MULTIPLIER)
        | None \<Rightarrow> Some 0);
     if base_fee > (- 1) - compute_fee then None
     else Some (base_fee + compute_fee) }"

definition print_compute_budget_max_fee :: "u64 \<Rightarrow> PrintConfig \<Rightarrow> TransactionSummary \<Rightarrow> TransactionSummary c_result" where
  "print_compute_budget_max_fee max_fee print_config S = do {
     S \<leftarrow> summary_item_set_amount (transaction_summary_general_item S) ''Max fees'' max_fee S;
     Some (0, S) }"

lemma print_compute_budget_max_fee_kept [keep]: "kept S (print_compute_budget_max_fee fee c S)"
  unfolding print_compute_budget_max_fee_def by (intro keep free_slot_intros)

interpretation max_fee: printer "print_compute_budget_max_fee fee print_config" for fee print_config
  by unfold_locales (rule print_compute_budget_max_fee_kept)

section \<open>Correctness of the fee\<close>

text \<open>The compute units the fee is computed from, as a number; the product is that of 32-bit integers.\<close>

definition fee_units :: "ComputeBudgetFeeInfo \<Rightarrow> nat" where
  "fee_units info = (case fee_change_unit_limit info of
     Some limit \<Rightarrow> unat (unit_limit_units limit)
   | None \<Rightarrow> min (fee_instructions_count info * 200000 mod 4294967296) 1400000)"

lemma fee_units_small:
  assumes "fee_instructions_count info \<le> 21474"
  shows "fee_units info = (case fee_change_unit_limit info of
     Some limit \<Rightarrow> unat (unit_limit_units limit)
   | None \<Rightarrow> min (fee_instructions_count info * 200000) 1400000)"
  using assms by (simp add: fee_units_def split: option.split)

lemma unat_u64_max: "unat (- 1 :: u64) = UINT64_MAX"
  by (simp add: UINT64_MAX_def unsigned_minus_1_eq_mask mask_eq_exp_minus_1)

lemma unat_u64_le: "unat (x :: u64) \<le> UINT64_MAX"
  using unsigned_less [of x, where 'a = nat] by (simp add: UINT64_MAX_def)

lemma of_nat_u64_eqI: "unat (x :: u64) = n \<Longrightarrow> x = of_nat n"
  by auto

lemma unat_mult_u64: "unat (x :: u64) * unat y \<le> UINT64_MAX \<Longrightarrow> unat (x * y) = unat x * unat y"
  by (simp add: unat_word_ariths UINT64_MAX_def)

lemma unat_add_u64: "unat (x :: u64) + unat y \<le> UINT64_MAX \<Longrightarrow> unat (x + y) = unat x + unat y"
  by (simp add: unat_word_ariths UINT64_MAX_def)

text \<open>The overflow test by division is exact.\<close>

lemma mult_overflow_test:
  fixes x m :: u64
  shows "(m \<noteq> 0 \<and> x > (- 1) div m) \<longleftrightarrow> unat x * unat m > UINT64_MAX"
proof (cases "m = 0")
  case False
  then have m: "0 < unat m" by (simp add: unat_gt_0)
  have "x > (- 1) div m \<longleftrightarrow> unat x > UINT64_MAX div unat m"
    by (simp add: word_less_nat_alt unat_div unat_u64_max)
  also have "... \<longleftrightarrow> unat x * unat m > UINT64_MAX"
    by (rule div_less_iff_less_mult [OF m])
  finally show ?thesis using False by simp
qed simp

lemma add_overflow_test: "(b :: u64) > (- 1) - c \<longleftrightarrow> unat b + unat c > UINT64_MAX"
proof -
  have "unat ((- 1) - c) = UINT64_MAX - unat c"
    using unat_sub [of c "- 1"] unat_u64_le [of c] by (simp add: unat_u64_max word_le_nat_alt)
  then show ?thesis using unat_u64_le [of c] by (auto simp: word_less_nat_alt)
qed

lemma max_fee_calc:
  assumes "fee_signatures_count info < 4294967296"
  shows "calculate_max_fee info = (case fee_change_unit_price info of
      None \<Rightarrow> Some (of_nat (5000 * fee_signatures_count info))
    | Some price \<Rightarrow>
        let product = unat (unit_price_units price) * fee_units info;
            fee = 5000 * fee_signatures_count info + product div 1000000
        in if product \<le> UINT64_MAX \<and> fee \<le> UINT64_MAX then Some (of_nat fee) else None)"
proof -
  define base where "base = FEE_LAMPORTS_PER_SIGNATURE * (of_nat (fee_signatures_count info) :: u64)"
  have sig: "unat (of_nat (fee_signatures_count info) :: u64) = fee_signatures_count info"
    using assms by (simp add: unat_of_nat_u64)
  have base: "unat base = 5000 * fee_signatures_count info"
    unfolding base_def using assms
    by (subst unat_mult_u64) (simp_all add: sig FEE_LAMPORTS_PER_SIGNATURE_def UINT64_MAX_def)
  define units :: u64 where "units = (case fee_change_unit_limit info of
      Some change_unit_limit \<Rightarrow> ucast (unit_limit_units change_unit_limit)
    | None \<Rightarrow> ucast (min ((of_nat (fee_instructions_count info) :: u32) * MAX_CU_PER_INSTRUCTION)
                         MAX_CU_PER_TRANSACTION))"
  have units: "unat units = fee_units info"
  proof (cases "fee_change_unit_limit info")
    case None
    have "unat ((of_nat (fee_instructions_count info) :: u32) * MAX_CU_PER_INSTRUCTION)
        = fee_instructions_count info * 200000 mod 4294967296"
      by (simp add: unat_word_ariths unat_of_nat MAX_CU_PER_INSTRUCTION_def mod_simps)
    then have "unat (min ((of_nat (fee_instructions_count info) :: u32) * MAX_CU_PER_INSTRUCTION)
          MAX_CU_PER_TRANSACTION) = min (fee_instructions_count info * 200000 mod 4294967296) 1400000"
      by (auto simp: min_def word_le_nat_alt MAX_CU_PER_TRANSACTION_def)
    then show ?thesis using None
      by (simp add: units_def fee_units_def unsigned_ucast_eq take_bit_nat_eq_self)
  next
    case (Some l)
    have "unat (unit_limit_units l) < 2 ^ 64" using unsigned_less [of "unit_limit_units l", where 'a = nat] by simp
    then show ?thesis using Some
      by (simp add: units_def fee_units_def unsigned_ucast_eq take_bit_nat_eq_self)
  qed
  show ?thesis
  proof (cases "fee_change_unit_price info")
    case None
    have "calculate_max_fee info = Some base"
      using unat_u64_le [of base]
      by (simp add: calculate_max_fee_def None Let_def base_def [symmetric] add_overflow_test [of base 0, simplified])
    then show ?thesis using None of_nat_u64_eqI [OF base] by simp
  next
    case (Some price)
    define x where "x = unit_price_units price"
    have calc: "calculate_max_fee info =
        (if units \<noteq> 0 \<and> x > (- 1) div units then None
         else let compute = x * units div MICRO_LAMPORT_MULTIPLIER
           in if base > (- 1) - compute then None else Some (base + compute))"
      by (simp add: calculate_max_fee_def Some Let_def units_def [symmetric] base_def [symmetric] x_def)
    show ?thesis
    proof (cases "unat x * unat units \<le> UINT64_MAX")
      case False
      then show ?thesis using Some unfolding calc mult_overflow_test
        by (simp add: units x_def Let_def)
    next
      case True
      then have c: "unat (x * units div MICRO_LAMPORT_MULTIPLIER) = unat x * unat units div 1000000"
        by (simp add: unat_div unat_mult_u64 MICRO_LAMPORT_MULTIPLIER_def)
      show ?thesis
      proof (cases "unat base + unat x * unat units div 1000000 \<le> UINT64_MAX")
        case le: True
        then have "unat (base + x * units div MICRO_LAMPORT_MULTIPLIER)
            = unat base + unat x * unat units div 1000000" by (simp add: unat_add_u64 c)
        then have "base + x * units div MICRO_LAMPORT_MULTIPLIER
            = of_nat (unat base + unat x * unat units div 1000000)" by (rule of_nat_u64_eqI)
        with True le Some show ?thesis unfolding calc mult_overflow_test Let_def add_overflow_test c
          by (simp add: base units x_def)
      next
        case False
        with True Some show ?thesis unfolding calc mult_overflow_test Let_def add_overflow_test c
          by (simp add: base units x_def)
      qed
    qed
  qed
qed

text \<open>C35: The ``Max fees'' amount is the exact sum of 5000 lamports per signature and the price times
  the compute units divided by a million: when the product of price and units or the sum does not fit in
  64 bits, the function refuses instead of showing a smaller fee. The units are those of the limit
  instruction or, without one, 200000 for each instruction of the transaction and at most 1400000, for every
  transaction of at most 21474 instructions; a transaction that is displayed has at most six. This last
  product is taken in a 32-bit \<open>size_t\<close> without a test: from 21475 instructions on the units are those of
  the product modulo 2 to the 32.\<close>

theorem max_fee_exact:
  assumes "fee_signatures_count info < 4294967296"
  defines "units \<equiv> (case fee_change_unit_limit info of
        Some limit \<Rightarrow> unat (unit_limit_units limit)
      | None \<Rightarrow> min (if fee_instructions_count info \<le> 21474 then fee_instructions_count info * 200000
                     else fee_instructions_count info * 200000 mod 4294967296) 1400000)"
  shows "calculate_max_fee info = (case fee_change_unit_price info of
      None \<Rightarrow> Some (of_nat (5000 * fee_signatures_count info))
    | Some price \<Rightarrow>
        let product = unat (unit_price_units price) * units;
            fee = 5000 * fee_signatures_count info + product div 1000000
        in if product \<le> UINT64_MAX \<and> fee \<le> UINT64_MAX then Some (of_nat fee) else None)"
proof -
  have "units = fee_units info"
    unfolding units_def by (auto simp: fee_units_small fee_units_def split: option.split)
  then show ?thesis by (simp only: max_fee_calc [OF assms(1)])
qed

theorem max_fee_exact_witness:
  "calculate_max_fee \<lparr>fee_change_unit_limit = None,
     fee_change_unit_price = Some \<lparr>unit_price_units = 3000000\<rparr>, fee_instructions_count = 2,
     fee_signatures_count = 1\<rparr> = Some 1205000
   \<and> calculate_max_fee \<lparr>fee_change_unit_limit = None,
     fee_change_unit_price = Some \<lparr>unit_price_units = 3000000\<rparr>, fee_instructions_count = 21475,
     fee_signatures_count = 1\<rparr> = Some 103112"
  by (simp add: max_fee_exact UINT64_MAX_def)

end
