(* ===== verification/Sol_Token_Account.thy ===== *)
theory Sol_Token_Account
  imports Sol_System
begin

text \<open>
  The associated token account program, \<open>libsol/spl_associated_token_account_instruction.c\<close>.
\<close>

record SplAssociatedTokenAccountCreateInfo =
  ata_funder :: byte_ptr
  ata_address :: byte_ptr
  ata_owner :: byte_ptr
  ata_mint :: byte_ptr

record SplAssociatedTokenAccountInfo =
  ata_create :: SplAssociatedTokenAccountCreateInfo

definition parse_create_spl_associated_token_account_instruction ::
    "Instruction \<Rightarrow> MessageHeader \<Rightarrow> SplAssociatedTokenAccountCreateInfo option" where
  "parse_create_spl_associated_token_account_instruction instruction header = do {
     let it = instruction_accounts_iterator_init header instruction;
     (funder, it) \<leftarrow> instruction_accounts_iterator_next it;
     (address, it) \<leftarrow> instruction_accounts_iterator_next it;
     (owner, it) \<leftarrow> instruction_accounts_iterator_next it;
     (mint, it) \<leftarrow> instruction_accounts_iterator_next it;
     (_, it) \<leftarrow> instruction_accounts_iterator_next it;
     (_, it) \<leftarrow> instruction_accounts_iterator_next it;
     Some \<lparr>ata_funder = funder, ata_address = address, ata_owner = owner, ata_mint = mint\<rparr> }"

definition parse_spl_associated_token_account_instructions ::
    "Instruction \<Rightarrow> MessageHeader \<Rightarrow> SplAssociatedTokenAccountInfo option" where
  "parse_spl_associated_token_account_instructions instruction header =
     (if data_length instruction = 0 then
        map_option SplAssociatedTokenAccountInfo.make
          (parse_create_spl_associated_token_account_instruction instruction header)
      else do {
        let p = data_parser instruction;
        (kind, p) \<leftarrow> parse_u8 p;
        guard (parser_is_empty p);
        if kind = 0 \<or> kind = 1 then
          map_option SplAssociatedTokenAccountInfo.make
            (parse_create_spl_associated_token_account_instruction instruction header)
        else None })"

definition print_spl_associated_token_account_create_info ::
    "SplAssociatedTokenAccountCreateInfo \<Rightarrow> PrintConfig \<Rightarrow> TransactionSummary \<Rightarrow> TransactionSummary c_result" where
  "print_spl_associated_token_account_create_info info print_config S = do {
     S \<leftarrow> summary_item_set_pubkey (transaction_summary_primary_item S) ''Create token account'' (ata_address info) S;
     S \<leftarrow> summary_item_set_pubkey (transaction_summary_general_item S) ''For'' (ata_owner info) S;
     S \<leftarrow> summary_item_set_pubkey (transaction_summary_general_item S) ''Token address'' (ata_mint info) S;
     S \<leftarrow> summary_item_set_pubkey (transaction_summary_general_item S) ''Funded by'' (ata_funder info) S;
     Some (0, S) }"

definition print_spl_associated_token_account_info ::
    "SplAssociatedTokenAccountInfo \<Rightarrow> PrintConfig \<Rightarrow> TransactionSummary \<Rightarrow> TransactionSummary c_result" where
  "print_spl_associated_token_account_info info print_config =
     print_spl_associated_token_account_create_info (ata_create info) print_config"

lemma print_spl_associated_token_account_kept [keep]:
  "kept S (print_spl_associated_token_account_create_info i c S)"
  "kept S (print_spl_associated_token_account_info j c S)"
  unfolding print_spl_associated_token_account_info_def
    print_spl_associated_token_account_create_info_def
  by (intro keep free_slot_intros)+

interpretation token_account: printer "print_spl_associated_token_account_info info print_config"
  for info print_config
  by unfold_locales (rule print_spl_associated_token_account_kept)

end
