(* ===== verification/Sol_Spl_Token.thy ===== *)
theory Sol_Spl_Token
  imports Sol_Trusted Sol_System
begin

text \<open>
  The SPL token program and its token-2022 extensions, \<open>libsol/spl_token_instruction.c\<close> and the
  enumeration of \<open>libsol/include/spl/token.h\<close>: the parsers, what is ignored or only warned about, and
  what is displayed. The globals the code reads (trusted information, dynamic token descriptor) and
  the SDK are the argument \<open>env\<close>.
\<close>

section \<open>Instructions\<close>

datatype SplTokenInstructionKind =
    InitializeMint | InitializeAccount | InitializeMultisig | Transfer | Approve | Revoke
  | SetAuthority | MintTo | Burn | CloseAccount | FreezeAccount | ThawAccount | TransferChecked
  | ApproveChecked | MintToChecked | BurnChecked | InitializeAccount2 | SyncNative
  | TransferFeeExtension | ConfidentialTransferExtension | DefaultAccountStateExtension
  | MemoTransferExtension | InterestBearingMintExtension | CpiGuardExtension | TransferHookExtension
  | ConfidentialTransferFeeExtension | MetadataPointerExtension | GroupPointerExtension
  | GroupMemberPointerExtension

definition Token_TokenInstruction_Tag :: "(u8 \<times> SplTokenInstructionKind) list" where
  "Token_TokenInstruction_Tag =
     [(0, InitializeMint), (1, InitializeAccount), (2, InitializeMultisig), (3, Transfer),
      (4, Approve), (5, Revoke), (6, SetAuthority), (7, MintTo), (8, Burn), (9, CloseAccount),
      (10, FreezeAccount), (11, ThawAccount), (12, TransferChecked), (13, ApproveChecked),
      (14, MintToChecked), (15, BurnChecked), (16, InitializeAccount2), (17, SyncNative),
      (26, TransferFeeExtension), (27, ConfidentialTransferExtension),
      (28, DefaultAccountStateExtension), (30, MemoTransferExtension),
      (33, InterestBearingMintExtension), (34, CpiGuardExtension), (36, TransferHookExtension),
      (37, ConfidentialTransferFeeExtension), (39, MetadataPointerExtension),
      (40, GroupPointerExtension), (41, GroupMemberPointerExtension)]"

definition Token_MAX_SIGNERS :: nat where "Token_MAX_SIGNERS = 11"

record SplTokenMultisigners =
  multisigners_first :: byte_ptr
  multisigners_count :: u8

datatype SplTokenSign =
    SplTokenSignKindSingle (single_signer: byte_ptr)
  | SplTokenSignKindMulti (multi_account: byte_ptr) (multi_signers: SplTokenMultisigners)

record SplTokenInitializeMintInfo =
  im_mint_account :: byte_ptr
  im_mint_authority :: byte_ptr
  im_freeze_authority :: "byte_ptr option"
  im_decimals :: u8

record SplTokenInitializeAccountInfo =
  ia_token_account :: byte_ptr
  ia_mint_account :: byte_ptr
  ia_owner :: byte_ptr

record SplTokenInitializeMultisigInfo =
  ims_multisig_account :: byte_ptr
  ims_signers :: SplTokenMultisigners
  ims_m :: u8

record SplTokenTransferInfo =
  tr_src_account :: byte_ptr
  tr_dest_account :: byte_ptr
  tr_mint_account :: byte_ptr
  tr_sign :: SplTokenSign
  tr_amount :: u64
  tr_decimals :: u8
  is_transfer_checked_with_fee :: bool
  transfer_checked_with_fee_amount :: u64
  is_transfer_checked_with_hook :: bool

record SplTokenApproveInfo =
  ap_token_account :: byte_ptr
  ap_delegate :: byte_ptr
  ap_mint_account :: byte_ptr
  ap_sign :: SplTokenSign
  ap_amount :: u64
  ap_decimals :: u8

record SplTokenRevokeInfo =
  rv_token_account :: byte_ptr
  rv_sign :: SplTokenSign

datatype Token_AuthorityType = AuthorityMintTokens | AuthorityFreezeAccount
  | AuthorityAccountOwner | AuthorityCloseAccount

record SplTokenSetAuthorityInfo =
  sa_account :: byte_ptr
  sa_new_authority :: "byte_ptr option"
  sa_authority_type :: Token_AuthorityType
  sa_sign :: SplTokenSign

record SplTokenMintToInfo =
  mt_mint_account :: byte_ptr
  mt_token_account :: byte_ptr
  mt_sign :: SplTokenSign
  mt_amount :: u64
  mt_decimals :: u8

record SplTokenBurnInfo =
  bn_token_account :: byte_ptr
  bn_mint_account :: byte_ptr
  bn_sign :: SplTokenSign
  bn_amount :: u64
  bn_decimals :: u8

record SplTokenCloseAccountInfo =
  cl_token_account :: byte_ptr
  cl_dest_account :: byte_ptr
  cl_sign :: SplTokenSign

record SplTokenFreezeAccountInfo =
  fz_token_account :: byte_ptr
  fz_mint_account :: byte_ptr
  fz_sign :: SplTokenSign

record SplTokenThawAccountInfo =
  th_token_account :: byte_ptr
  th_mint_account :: byte_ptr
  th_sign :: SplTokenSign

record SplTokenSyncNativeInfo =
  sn_token_account :: byte_ptr

text \<open>The union of \<open>SplTokenInfo\<close>; \<open>SplNothing\<close> is the union no parser has written.\<close>

datatype SplTokenBody =
    SplInitializeMint SplTokenInitializeMintInfo
  | SplInitializeAccount SplTokenInitializeAccountInfo
  | SplInitializeMultisig SplTokenInitializeMultisigInfo
  | SplTransfer SplTokenTransferInfo
  | SplApprove SplTokenApproveInfo
  | SplRevoke SplTokenRevokeInfo
  | SplSetAuthority SplTokenSetAuthorityInfo
  | SplMintTo SplTokenMintToInfo
  | SplBurn SplTokenBurnInfo
  | SplCloseAccount SplTokenCloseAccountInfo
  | SplFreezeAccount SplTokenFreezeAccountInfo
  | SplThawAccount SplTokenThawAccountInfo
  | SplSyncNative SplTokenSyncNativeInfo
  | SplNothing

record SplTokenInfo =
  spl_kind :: SplTokenInstructionKind
  is_token2022_kind :: bool
  generate_extension_warning :: bool
  spl_body :: SplTokenBody

section \<open>Parsing\<close>

definition deprecated_kinds :: "SplTokenInstructionKind list" where
  "deprecated_kinds = [Transfer, Approve, MintTo, Burn]"

definition parse_spl_token_instruction_kind :: "SplTokenInstructionKind reader" where
  "parse_spl_token_instruction_kind p = do {
     (maybe_kind, p) \<leftarrow> parse_u8 p;
     kind \<leftarrow> map_of Token_TokenInstruction_Tag maybe_kind;
     guard (\<not> kind \<in> set deprecated_kinds);
     Some (kind, p) }"

definition parse_initialize_mint_spl_token_instruction ::
    "Parser \<Rightarrow> Instruction \<Rightarrow> MessageHeader \<Rightarrow> SplTokenInitializeMintInfo option" where
  "parse_initialize_mint_spl_token_instruction p instruction header = do {
     let it = instruction_accounts_iterator_init header instruction;
     (decimals, p) \<leftarrow> parse_u8 p;
     (mint_authority, p) \<leftarrow> parse_pubkey p;
     (freeze_authority, p) \<leftarrow> parse_option p;
     (freeze_authority, p) \<leftarrow>
       (if freeze_authority = OptionSome then do {
          (key, p) \<leftarrow> parse_pubkey p;
          Some (Some key, p) }
        else Some (None, p));
     (mint_account, it) \<leftarrow> instruction_accounts_iterator_next it;
     (_, it) \<leftarrow> instruction_accounts_iterator_next it;
     Some \<lparr>im_mint_account = mint_account, im_mint_authority = mint_authority,
       im_freeze_authority = freeze_authority, im_decimals = decimals\<rparr> }"

definition parse_initialize_account_spl_token_instruction ::
    "Parser \<Rightarrow> Instruction \<Rightarrow> MessageHeader \<Rightarrow> bool \<Rightarrow> SplTokenInitializeAccountInfo option" where
  "parse_initialize_account_spl_token_instruction p instruction header expect_owner_in_accounts = do {
     let it = instruction_accounts_iterator_init header instruction;
     guard (\<not> (expect_owner_in_accounts \<and> accounts_length instruction \<noteq> 4));
     (token_account, it) \<leftarrow> instruction_accounts_iterator_next it;
     (mint_account, it) \<leftarrow> instruction_accounts_iterator_next it;
     (owner, it) \<leftarrow>
       (if expect_owner_in_accounts then do {
          (owner, it) \<leftarrow> instruction_accounts_iterator_next it;
          Some (Some owner, it) }
        else Some (None, it));
     (_, it) \<leftarrow> instruction_accounts_iterator_next it;
     owner \<leftarrow> (case owner of
         Some owner \<Rightarrow> Some owner
       | None \<Rightarrow> map_option fst (parse_pubkey p));
     Some \<lparr>ia_token_account = token_account, ia_mint_account = mint_account, ia_owner = owner\<rparr> }"

definition parse_spl_token_multisigners ::
    "InstructionAccountsIterator \<Rightarrow> (SplTokenMultisigners \<times> InstructionAccountsIterator) option" where
  "parse_spl_token_multisigners it = do {
     let n = instruction_accounts_iterator_remaining it;
     guard (\<not> n > Token_MAX_SIGNERS);
     (first, it) \<leftarrow> instruction_accounts_iterator_next it;
     Some (\<lparr>multisigners_first = first, multisigners_count = of_nat n\<rparr>, it) }"

definition parse_initialize_multisig_spl_token_instruction ::
    "Parser \<Rightarrow> Instruction \<Rightarrow> MessageHeader \<Rightarrow> SplTokenInitializeMultisigInfo option" where
  "parse_initialize_multisig_spl_token_instruction p instruction header = do {
     let it = instruction_accounts_iterator_init header instruction;
     (m, p) \<leftarrow> parse_u8 p;
     guard (\<not> unat m > Token_MAX_SIGNERS);
     (multisig_account, it) \<leftarrow> instruction_accounts_iterator_next it;
     (_, it) \<leftarrow> instruction_accounts_iterator_next it;
     (signers, it) \<leftarrow> parse_spl_token_multisigners it;
     Some \<lparr>ims_multisig_account = multisig_account, ims_signers = signers, ims_m = m\<rparr> }"

definition parse_spl_token_sign ::
    "InstructionAccountsIterator \<Rightarrow> (SplTokenSign \<times> InstructionAccountsIterator) option" where
  "parse_spl_token_sign it = do {
     let n = instruction_accounts_iterator_remaining it;
     guard (\<not> n = 0);
     if n = 1 then do {
       (signer, it) \<leftarrow> instruction_accounts_iterator_next it;
       Some (SplTokenSignKindSingle signer, it) }
     else do {
       (account, it) \<leftarrow> instruction_accounts_iterator_next it;
       (signers, it) \<leftarrow> parse_spl_token_multisigners it;
       Some (SplTokenSignKindMulti account signers, it) } }"

text \<open>The loop that counts and skips the accounts that are signers of the message.\<close>

function skip_signers :: "nat \<Rightarrow> InstructionAccountsIterator \<Rightarrow> u8 \<Rightarrow> (u8 \<times> InstructionAccountsIterator) option" where
  "skip_signers required it signers_count =
     (if instruction_accounts_iterator_remaining it > 0 then
        if instruction_accounts_iterator_get_current_account_index it < int required then
          (case instruction_accounts_iterator_next it of
             None \<Rightarrow> None
           | Some (_, it') \<Rightarrow> skip_signers required it' (signers_count + 1))
        else Some (signers_count, it)
      else Some (signers_count, it))"
  by auto
termination
  by (relation "measure (\<lambda>(required, it, signers_count). instruction_accounts_iterator_remaining it)")
    (auto simp: instruction_accounts_iterator_next_def instruction_accounts_iterator_remaining_def
      split: if_splits)

declare skip_signers.simps [simp del]

definition parse_spl_token2022_sign ::
    "MessageHeader \<Rightarrow> InstructionAccountsIterator \<Rightarrow> (SplTokenSign \<times> InstructionAccountsIterator) option" where
  "parse_spl_token2022_sign header it = do {
     let current_account_index = instruction_accounts_iterator_get_current_account_index it;
     guard (\<not> current_account_index < 0);
     let required = unat (num_required_signatures (pubkeys_header header));
     if current_account_index < int required then do {
       (signer, it) \<leftarrow> instruction_accounts_iterator_next it;
       Some (SplTokenSignKindSingle signer, it) }
     else do {
       (account, it) \<leftarrow> instruction_accounts_iterator_next it;
       (first, it) \<leftarrow> instruction_accounts_iterator_next it;
       (signers_count, it) \<leftarrow> skip_signers required it 1;
       guard (\<not> unat signers_count > Token_MAX_SIGNERS);
       Some (SplTokenSignKindMulti account
               \<lparr>multisigners_first = first, multisigners_count = signers_count\<rparr>, it) } }"

definition parse_spl_token_hook :: "InstructionAccountsIterator \<Rightarrow> bool" where
  "parse_spl_token_hook it = (instruction_accounts_iterator_remaining it \<noteq> 0)"

definition parse_transfer_spl_token_instruction ::
    "token_env \<Rightarrow> Parser \<Rightarrow> Instruction \<Rightarrow> MessageHeader \<Rightarrow> bool \<Rightarrow> bool \<Rightarrow> SplTokenTransferInfo option" where
  "parse_transfer_spl_token_instruction env p instruction header with_fee is_token2022 = do {
     let it = instruction_accounts_iterator_init header instruction;
     (amount, p) \<leftarrow> parse_u64 p;
     (decimals, p) \<leftarrow> parse_u8 p;
     (fee_amount, p) \<leftarrow> (if with_fee then parse_u64 p else Some (0, p));
     (src_account, it) \<leftarrow> instruction_accounts_iterator_next it;
     (mint_account, it) \<leftarrow> instruction_accounts_iterator_next it;
     (dest_account, it) \<leftarrow> instruction_accounts_iterator_next it;
     (sign, with_hook) \<leftarrow>
       (if is_token2022 then do {
          (sign, it) \<leftarrow> parse_spl_token2022_sign header it;
          Some (sign, parse_spl_token_hook it) }
        else do {
          (sign, it) \<leftarrow> parse_spl_token_sign it;
          Some (sign, False) });
     guard (check_ata_against_trusted_info env src_account mint_account dest_account is_token2022);
     Some \<lparr>tr_src_account = src_account, tr_dest_account = dest_account, tr_mint_account = mint_account,
       tr_sign = sign, tr_amount = amount, tr_decimals = decimals,
       is_transfer_checked_with_fee = with_fee, transfer_checked_with_fee_amount = fee_amount,
       is_transfer_checked_with_hook = with_hook\<rparr> }"

definition parse_approve_spl_token_instruction ::
    "Parser \<Rightarrow> Instruction \<Rightarrow> MessageHeader \<Rightarrow> SplTokenApproveInfo option" where
  "parse_approve_spl_token_instruction p instruction header = do {
     let it = instruction_accounts_iterator_init header instruction;
     (amount, p) \<leftarrow> parse_u64 p;
     (decimals, p) \<leftarrow> parse_u8 p;
     (token_account, it) \<leftarrow> instruction_accounts_iterator_next it;
     (mint_account, it) \<leftarrow> instruction_accounts_iterator_next it;
     (delegate, it) \<leftarrow> instruction_accounts_iterator_next it;
     (sign, it) \<leftarrow> parse_spl_token_sign it;
     Some \<lparr>ap_token_account = token_account, ap_delegate = delegate, ap_mint_account = mint_account,
       ap_sign = sign, ap_amount = amount, ap_decimals = decimals\<rparr> }"

definition parse_revoke_spl_token_instruction ::
    "Instruction \<Rightarrow> MessageHeader \<Rightarrow> SplTokenRevokeInfo option" where
  "parse_revoke_spl_token_instruction instruction header = do {
     let it = instruction_accounts_iterator_init header instruction;
     (token_account, it) \<leftarrow> instruction_accounts_iterator_next it;
     (sign, it) \<leftarrow> parse_spl_token_sign it;
     Some \<lparr>rv_token_account = token_account, rv_sign = sign\<rparr> }"

definition parse_token_authority_type :: "Token_AuthorityType reader" where
  "parse_token_authority_type p = do {
     (maybe_type, p) \<leftarrow> parse_u8 p;
     if maybe_type = 0 then Some (AuthorityMintTokens, p)
     else if maybe_type = 1 then Some (AuthorityFreezeAccount, p)
     else if maybe_type = 2 then Some (AuthorityAccountOwner, p)
     else if maybe_type = 3 then Some (AuthorityCloseAccount, p)
     else None }"

fun stringify_token_authority_type :: "Token_AuthorityType \<Rightarrow> string" where
  "stringify_token_authority_type AuthorityMintTokens = ''Mint tokens''"
| "stringify_token_authority_type AuthorityFreezeAccount = ''Freeze account''"
| "stringify_token_authority_type AuthorityAccountOwner = ''Owner''"
| "stringify_token_authority_type AuthorityCloseAccount = ''Close acct''"

definition parse_set_authority_spl_token_instruction ::
    "Parser \<Rightarrow> Instruction \<Rightarrow> MessageHeader \<Rightarrow> SplTokenSetAuthorityInfo option" where
  "parse_set_authority_spl_token_instruction p instruction header = do {
     let it = instruction_accounts_iterator_init header instruction;
     (account, it) \<leftarrow> instruction_accounts_iterator_next it;
     (authority_type, p) \<leftarrow> parse_token_authority_type p;
     (new_authority, p) \<leftarrow> parse_option p;
     new_authority \<leftarrow>
       (if new_authority = OptionSome then do {
          (key, p) \<leftarrow> parse_pubkey p;
          Some (Some key) }
        else Some None);
     (sign, it) \<leftarrow> parse_spl_token_sign it;
     Some \<lparr>sa_account = account, sa_new_authority = new_authority,
       sa_authority_type = authority_type, sa_sign = sign\<rparr> }"

definition parse_mint_to_spl_token_instruction ::
    "Parser \<Rightarrow> Instruction \<Rightarrow> MessageHeader \<Rightarrow> SplTokenMintToInfo option" where
  "parse_mint_to_spl_token_instruction p instruction header = do {
     let it = instruction_accounts_iterator_init header instruction;
     (amount, p) \<leftarrow> parse_u64 p;
     (decimals, p) \<leftarrow> parse_u8 p;
     (mint_account, it) \<leftarrow> instruction_accounts_iterator_next it;
     (token_account, it) \<leftarrow> instruction_accounts_iterator_next it;
     (sign, it) \<leftarrow> parse_spl_token_sign it;
     Some \<lparr>mt_mint_account = mint_account, mt_token_account = token_account, mt_sign = sign,
       mt_amount = amount, mt_decimals = decimals\<rparr> }"

definition parse_burn_spl_token_instruction ::
    "Parser \<Rightarrow> Instruction \<Rightarrow> MessageHeader \<Rightarrow> SplTokenBurnInfo option" where
  "parse_burn_spl_token_instruction p instruction header = do {
     let it = instruction_accounts_iterator_init header instruction;
     (amount, p) \<leftarrow> parse_u64 p;
     (decimals, p) \<leftarrow> parse_u8 p;
     (token_account, it) \<leftarrow> instruction_accounts_iterator_next it;
     (mint_account, it) \<leftarrow> instruction_accounts_iterator_next it;
     (sign, it) \<leftarrow> parse_spl_token_sign it;
     Some \<lparr>bn_token_account = token_account, bn_mint_account = mint_account, bn_sign = sign,
       bn_amount = amount, bn_decimals = decimals\<rparr> }"

definition parse_close_account_spl_token_instruction ::
    "Instruction \<Rightarrow> MessageHeader \<Rightarrow> SplTokenCloseAccountInfo option" where
  "parse_close_account_spl_token_instruction instruction header = do {
     let it = instruction_accounts_iterator_init header instruction;
     (token_account, it) \<leftarrow> instruction_accounts_iterator_next it;
     (dest_account, it) \<leftarrow> instruction_accounts_iterator_next it;
     (sign, it) \<leftarrow> parse_spl_token_sign it;
     Some \<lparr>cl_token_account = token_account, cl_dest_account = dest_account, cl_sign = sign\<rparr> }"

definition parse_freeze_account_spl_token_instruction ::
    "Instruction \<Rightarrow> MessageHeader \<Rightarrow> SplTokenFreezeAccountInfo option" where
  "parse_freeze_account_spl_token_instruction instruction header = do {
     let it = instruction_accounts_iterator_init header instruction;
     (token_account, it) \<leftarrow> instruction_accounts_iterator_next it;
     (mint_account, it) \<leftarrow> instruction_accounts_iterator_next it;
     (sign, it) \<leftarrow> parse_spl_token_sign it;
     Some \<lparr>fz_token_account = token_account, fz_mint_account = mint_account, fz_sign = sign\<rparr> }"

definition parse_thaw_account_spl_token_instruction ::
    "Instruction \<Rightarrow> MessageHeader \<Rightarrow> SplTokenThawAccountInfo option" where
  "parse_thaw_account_spl_token_instruction instruction header = do {
     let it = instruction_accounts_iterator_init header instruction;
     (token_account, it) \<leftarrow> instruction_accounts_iterator_next it;
     (mint_account, it) \<leftarrow> instruction_accounts_iterator_next it;
     (sign, it) \<leftarrow> parse_spl_token_sign it;
     Some \<lparr>th_token_account = token_account, th_mint_account = mint_account, th_sign = sign\<rparr> }"

definition parse_sync_native_spl_token_instruction ::
    "Instruction \<Rightarrow> MessageHeader \<Rightarrow> SplTokenSyncNativeInfo option" where
  "parse_sync_native_spl_token_instruction instruction header = do {
     let it = instruction_accounts_iterator_init header instruction;
     (token_account, it) \<leftarrow> instruction_accounts_iterator_next it;
     Some \<lparr>sn_token_account = token_account\<rparr> }"

datatype transfer_fee_instruction_tag = InitializeTransferFeeConfig | TransferCheckedWithFee
  | WithdrawWithheldTokensFromMint | WithdrawWithheldTokensFromAccounts
  | HarvestWithheldTokensToMint | SetTransferFee

definition parse_transfer_fee_instruction :: "transfer_fee_instruction_tag reader" where
  "parse_transfer_fee_instruction p = do {
     (maybe_tag, p) \<leftarrow> parse_u8 p;
     if maybe_tag = 0 then Some (InitializeTransferFeeConfig, p)
     else if maybe_tag = 1 then Some (TransferCheckedWithFee, p)
     else if maybe_tag = 2 then Some (WithdrawWithheldTokensFromMint, p)
     else if maybe_tag = 3 then Some (WithdrawWithheldTokensFromAccounts, p)
     else if maybe_tag = 4 then Some (HarvestWithheldTokensToMint, p)
     else if maybe_tag = 5 then Some (SetTransferFee, p)
     else None }"

definition is_token2022_instruction :: "Instruction \<Rightarrow> MessageHeader \<Rightarrow> bool" where
  "is_token2022_instruction instruction header =
     (memcmp (bytes (header_pubkey (pubkeys header) (unat (program_id_index instruction))))
             (bytes spl_token2022_program_id) = 0)"

text \<open>
  The dispatch on the kind. The result carries the value of \<open>ignore_instruction_info\<close>, true for the
  extensions that are accepted without being parsed or displayed; \<open>warn\<close> is the field
  \<open>generate_extension_warning\<close>.
\<close>

definition parse_spl_token_instructions ::
    "token_env \<Rightarrow> Instruction \<Rightarrow> MessageHeader \<Rightarrow> (SplTokenInfo \<times> bool) option" where
  "parse_spl_token_instructions env instruction header = do {
     let p = data_parser instruction;
     (kind, p) \<leftarrow> parse_spl_token_instruction_kind p;
     let is_2022 = is_token2022_instruction instruction header;
     let shown = (\<lambda>body. Some (\<lparr>spl_kind = kind, is_token2022_kind = is_2022,
                      generate_extension_warning = False, spl_body = body\<rparr>, False));
     let ignored = (\<lambda>warn. Some (\<lparr>spl_kind = kind, is_token2022_kind = is_2022,
                      generate_extension_warning = warn, spl_body = SplNothing\<rparr>, True));
     case kind of
       InitializeMint \<Rightarrow> parse_initialize_mint_spl_token_instruction p instruction header \<bind>
         (\<lambda>x. shown (SplInitializeMint x))
     | InitializeAccount \<Rightarrow> parse_initialize_account_spl_token_instruction p instruction header True \<bind>
         (\<lambda>x. shown (SplInitializeAccount x))
     | InitializeAccount2 \<Rightarrow> parse_initialize_account_spl_token_instruction p instruction header False \<bind>
         (\<lambda>x. shown (SplInitializeAccount x))
     | InitializeMultisig \<Rightarrow> parse_initialize_multisig_spl_token_instruction p instruction header \<bind>
         (\<lambda>x. shown (SplInitializeMultisig x))
     | Revoke \<Rightarrow> parse_revoke_spl_token_instruction instruction header \<bind> (\<lambda>x. shown (SplRevoke x))
     | SetAuthority \<Rightarrow> parse_set_authority_spl_token_instruction p instruction header \<bind>
         (\<lambda>x. shown (SplSetAuthority x))
     | CloseAccount \<Rightarrow> parse_close_account_spl_token_instruction instruction header \<bind>
         (\<lambda>x. shown (SplCloseAccount x))
     | FreezeAccount \<Rightarrow> parse_freeze_account_spl_token_instruction instruction header \<bind>
         (\<lambda>x. shown (SplFreezeAccount x))
     | ThawAccount \<Rightarrow> parse_thaw_account_spl_token_instruction instruction header \<bind>
         (\<lambda>x. shown (SplThawAccount x))
     | TransferChecked \<Rightarrow> parse_transfer_spl_token_instruction env p instruction header False is_2022 \<bind>
         (\<lambda>x. shown (SplTransfer x))
     | ApproveChecked \<Rightarrow> parse_approve_spl_token_instruction p instruction header \<bind>
         (\<lambda>x. shown (SplApprove x))
     | MintToChecked \<Rightarrow> parse_mint_to_spl_token_instruction p instruction header \<bind>
         (\<lambda>x. shown (SplMintTo x))
     | BurnChecked \<Rightarrow> parse_burn_spl_token_instruction p instruction header \<bind>
         (\<lambda>x. shown (SplBurn x))
     | SyncNative \<Rightarrow> parse_sync_native_spl_token_instruction instruction header \<bind>
         (\<lambda>x. shown (SplSyncNative x))
     | TransferFeeExtension \<Rightarrow> do {
         guard is_2022;
         (tag, p) \<leftarrow> parse_transfer_fee_instruction p;
         if tag = TransferCheckedWithFee
         then parse_transfer_spl_token_instruction env p instruction header True is_2022 \<bind>
                (\<lambda>x. shown (SplTransfer x))
         else ignored True }
     | ConfidentialTransferExtension \<Rightarrow> ignored True
     | MemoTransferExtension \<Rightarrow> ignored True
     | TransferHookExtension \<Rightarrow> ignored True
     | ConfidentialTransferFeeExtension \<Rightarrow> ignored True
     | DefaultAccountStateExtension \<Rightarrow> ignored False
     | InterestBearingMintExtension \<Rightarrow> ignored False
     | CpiGuardExtension \<Rightarrow> ignored False
     | MetadataPointerExtension \<Rightarrow> ignored False
     | GroupPointerExtension \<Rightarrow> ignored False
     | GroupMemberPointerExtension \<Rightarrow> ignored False
     | Transfer \<Rightarrow> None | Approve \<Rightarrow> None | MintTo \<Rightarrow> None | Burn \<Rightarrow> None }"
section \<open>Display\<close>

text \<open>\<open>"11 of 11"\<close> and the final NUL.\<close>

definition M_OF_N_MAX_LEN :: nat where "M_OF_N_MAX_LEN = 9"

definition digit :: "u8 \<Rightarrow> char" where
  "digit v = char_of (48 + unat v mod 10)"

definition print_m_of_n_string :: "u8 \<Rightarrow> u8 \<Rightarrow> nat \<Rightarrow> string option" where
  "print_m_of_n_string m n buflen = do {
     guard (\<not> unat n > Token_MAX_SIGNERS);
     guard (\<not> m > n);
     guard (\<not> buflen < M_OF_N_MAX_LEN);
     Some ((if m > 9 then ''1'' else []) @ [digit m] @ '' of ''
        @ (if n > 9 then ''1'' else []) @ [digit n]) }"

text \<open>Nothing is written when the string cannot be printed.\<close>

definition summary_item_set_multisig_m_of_n ::
    "item_slot option \<Rightarrow> u8 \<Rightarrow> u8 \<Rightarrow> TransactionSummary \<Rightarrow> TransactionSummary option" where
  "summary_item_set_multisig_m_of_n item m n S =
     (case print_m_of_n_string m n M_OF_N_MAX_LEN of
        Some m_of_n \<Rightarrow> summary_item_set_string item ''Required signers'' m_of_n S
      | None \<Rightarrow> Some S)"

definition print_spl_token_sign :: "SplTokenSign \<Rightarrow> PrintConfig \<Rightarrow> TransactionSummary \<Rightarrow> TransactionSummary c_result" where
  "print_spl_token_sign sign print_config S =
     (case sign of
        SplTokenSignKindSingle signer \<Rightarrow>
          if print_config_show_authority print_config signer then do {
            S \<leftarrow> summary_item_set_pubkey (transaction_summary_general_item S) ''Owner'' signer S;
            Some (0, S) }
          else Some (0, S)
      | SplTokenSignKindMulti account multi \<Rightarrow> do {
          S \<leftarrow> summary_item_set_pubkey (transaction_summary_general_item S) ''Owner'' account S;
          S \<leftarrow> summary_item_set_u64 (transaction_summary_general_item S) ''Signers'' (ucast (multisigners_count multi)) S;
          Some (0, S) })"

definition print_spl_token_initialize_mint_info ::
    "string option \<Rightarrow> SplTokenInitializeMintInfo \<Rightarrow> PrintConfig \<Rightarrow> TransactionSummary \<Rightarrow> TransactionSummary c_result" where
  "print_spl_token_initialize_mint_info primary_title info print_config S = do {
     S \<leftarrow> (case primary_title of
         Some title \<Rightarrow> summary_item_set_pubkey (transaction_summary_primary_item S) title (im_mint_account info) S
       | None \<Rightarrow> Some S);
     S \<leftarrow> summary_item_set_pubkey (transaction_summary_general_item S) ''Mint authority'' (im_mint_authority info) S;
     S \<leftarrow> summary_item_set_u64 (transaction_summary_general_item S) ''Decimals'' (ucast (im_decimals info)) S;
     S \<leftarrow> (case im_freeze_authority info of
         Some key \<Rightarrow> summary_item_set_pubkey (transaction_summary_general_item S) ''Freeze authority'' key S
       | None \<Rightarrow> Some S);
     Some (0, S) }"

definition print_spl_token_initialize_account_info ::
    "string option \<Rightarrow> SplTokenInitializeAccountInfo \<Rightarrow> PrintConfig \<Rightarrow> TransactionSummary \<Rightarrow> TransactionSummary c_result" where
  "print_spl_token_initialize_account_info primary_title info print_config S = do {
     S \<leftarrow> (case primary_title of
         Some title \<Rightarrow> summary_item_set_pubkey (transaction_summary_primary_item S) title (ia_token_account info) S
       | None \<Rightarrow> Some S);
     S \<leftarrow> summary_item_set_pubkey (transaction_summary_general_item S) ''Owner'' (ia_owner info) S;
     S \<leftarrow> summary_item_set_pubkey (transaction_summary_general_item S) ''Token address'' (ia_mint_account info) S;
     Some (0, S) }"

definition print_spl_token_initialize_multisig_info ::
    "string option \<Rightarrow> SplTokenInitializeMultisigInfo \<Rightarrow> PrintConfig \<Rightarrow> TransactionSummary \<Rightarrow> TransactionSummary c_result" where
  "print_spl_token_initialize_multisig_info primary_title info print_config S = do {
     S \<leftarrow> (case primary_title of
         Some title \<Rightarrow> summary_item_set_pubkey (transaction_summary_primary_item S) title (ims_multisig_account info) S
       | None \<Rightarrow> Some S);
     S \<leftarrow> summary_item_set_multisig_m_of_n (transaction_summary_general_item S)
            (ims_m info) (multisigners_count (ims_signers info)) S;
     Some (0, S) }"

text \<open>
  The item of the transfer fee is requested whether or not there is a fee to display; a request
  changes nothing. A null symbol would be dereferenced by \<open>strcmp\<close> (the symbol of a mint is never null, \<open>get_token_symbol_total\<close>). The status of
  \<open>print_spl_token_sign\<close> is not used.
\<close>

definition print_spl_token_transfer_info ::
    "token_env \<Rightarrow> SplTokenTransferInfo \<Rightarrow> PrintConfig \<Rightarrow> bool \<Rightarrow> bool \<Rightarrow> TransactionSummary \<Rightarrow> TransactionSummary c_result" where
  "print_spl_token_transfer_info env info print_config is_token2022 is_primary S = do {
     let item = (if is_primary then transaction_summary_primary_item S else transaction_summary_general_item S);
     symbol \<leftarrow> get_token_symbol env (Some (bytes (tr_mint_account info))) is_token2022;
     let unknown_mint = (symbol = ''???'');
     S \<leftarrow> summary_item_set_token_amount item ''Amount'' (tr_amount info) symbol (tr_decimals info) S;
     S \<leftarrow> (if force_full_print print_config \<or> unknown_mint
           then summary_item_set_pubkey (transaction_summary_general_item S) ''Token address''
                  (tr_mint_account info) S
           else Some S);
     let show_wallet = (force_full_print print_config \<or> \<not> user_input_is_ata_or_token_account print_config);
     if show_wallet \<and> get_transfer_to_address env = None then Some (-1, S)
     else do {
       S \<leftarrow> (if show_wallet
             then summary_item_set_string (transaction_summary_general_item S) ''To''
                    (the (get_transfer_to_address env)) S
             else Some S);
       S \<leftarrow> (if force_full_print print_config \<or> user_input_is_ata_or_token_account print_config
             then summary_item_set_pubkey (transaction_summary_general_item S) ''To (token account)''
                    (tr_dest_account info) S
             else Some S);
       S \<leftarrow> (if is_transfer_checked_with_fee info \<and> transfer_checked_with_fee_amount info \<noteq> 0
             then summary_item_set_token_amount (transaction_summary_general_item S) ''Token transfer fee''
                    (transfer_checked_with_fee_amount info) symbol (tr_decimals info) S
             else Some S);
       let S = transaction_summary_set_transaction_type TRANSACTION_TYPE_SPL_TRANSFER S;
       let S = transaction_summary_set_token_fee_warning
                 (is_token2022 \<and> \<not> is_transfer_checked_with_fee info) S;
       let S = transaction_summary_set_token_hook_warning
                 (is_token2022 \<and> is_transfer_checked_with_hook info) S;
       let S = transaction_summary_set_is_token_2022_transfer is_token2022 S;
       (_, S) \<leftarrow> print_spl_token_sign (tr_sign info) print_config S;
       Some (0, S) } }"

definition print_spl_token_approve_info ::
    "token_env \<Rightarrow> SplTokenApproveInfo \<Rightarrow> PrintConfig \<Rightarrow> bool \<Rightarrow> TransactionSummary \<Rightarrow> TransactionSummary c_result" where
  "print_spl_token_approve_info env info print_config is_token2022 S = do {
     S \<leftarrow> summary_item_set_pubkey (transaction_summary_primary_item S) ''Approve delegate'' (ap_delegate info) S;
     symbol \<leftarrow> get_token_symbol env (Some (bytes (ap_mint_account info))) is_token2022;
     S \<leftarrow> summary_item_set_token_amount (transaction_summary_general_item S) ''Allowance'' (ap_amount info) symbol (ap_decimals info) S;
     S \<leftarrow> summary_item_set_pubkey (transaction_summary_general_item S) ''Token address'' (ap_mint_account info) S;
     S \<leftarrow> summary_item_set_pubkey (transaction_summary_general_item S) ''From (token account)'' (ap_token_account info) S;
     (_, S) \<leftarrow> print_spl_token_sign (ap_sign info) print_config S;
     Some (0, S) }"

definition print_spl_token_revoke_info :: "SplTokenRevokeInfo \<Rightarrow> PrintConfig \<Rightarrow> TransactionSummary \<Rightarrow> TransactionSummary c_result" where
  "print_spl_token_revoke_info info print_config S = do {
     S \<leftarrow> summary_item_set_pubkey (transaction_summary_primary_item S) ''Revoke delegate'' (rv_token_account info) S;
     (_, S) \<leftarrow> print_spl_token_sign (rv_sign info) print_config S;
     Some (0, S) }"

definition print_spl_token_set_authority_info :: "SplTokenSetAuthorityInfo \<Rightarrow> PrintConfig \<Rightarrow> TransactionSummary \<Rightarrow> TransactionSummary c_result" where
  "print_spl_token_set_authority_info info print_config S = do {
     let clear_authority = (sa_new_authority info = None);
     let primary_title = (if clear_authority then ''Clear authority'' else ''Set authority'');
     S \<leftarrow> summary_item_set_pubkey (transaction_summary_primary_item S) primary_title (sa_account info) S;
     S \<leftarrow> summary_item_set_string (transaction_summary_general_item S) ''Type'' (stringify_token_authority_type (sa_authority_type info)) S;
     S \<leftarrow> (case sa_new_authority info of
         Some key \<Rightarrow> summary_item_set_pubkey (transaction_summary_general_item S) ''Authority'' key S
       | None \<Rightarrow> Some S);
     (_, S) \<leftarrow> print_spl_token_sign (sa_sign info) print_config S;
     Some (0, S) }"

definition print_spl_token_mint_to_info ::
    "token_env \<Rightarrow> SplTokenMintToInfo \<Rightarrow> PrintConfig \<Rightarrow> bool \<Rightarrow> TransactionSummary \<Rightarrow> TransactionSummary c_result" where
  "print_spl_token_mint_to_info env info print_config is_token2022 S = do {
     symbol \<leftarrow> get_token_symbol env (Some (bytes (mt_mint_account info))) is_token2022;
     S \<leftarrow> summary_item_set_token_amount (transaction_summary_primary_item S) ''Mint tokens'' (mt_amount info) symbol (mt_decimals info) S;
     S \<leftarrow> summary_item_set_pubkey (transaction_summary_general_item S) ''Token address'' (mt_mint_account info) S;
     S \<leftarrow> summary_item_set_pubkey (transaction_summary_general_item S) ''To (token account)'' (mt_token_account info) S;
     (_, S) \<leftarrow> print_spl_token_sign (mt_sign info) print_config S;
     Some (0, S) }"

definition print_spl_token_burn_info ::
    "token_env \<Rightarrow> SplTokenBurnInfo \<Rightarrow> PrintConfig \<Rightarrow> bool \<Rightarrow> TransactionSummary \<Rightarrow> TransactionSummary c_result" where
  "print_spl_token_burn_info env info print_config is_token2022 S = do {
     symbol \<leftarrow> get_token_symbol env (Some (bytes (bn_mint_account info))) is_token2022;
     S \<leftarrow> summary_item_set_token_amount (transaction_summary_primary_item S) ''Burn tokens'' (bn_amount info) symbol (bn_decimals info) S;
     S \<leftarrow> summary_item_set_pubkey (transaction_summary_general_item S) ''Token address'' (bn_mint_account info) S;
     S \<leftarrow> summary_item_set_pubkey (transaction_summary_general_item S) ''From (token account)'' (bn_token_account info) S;
     (_, S) \<leftarrow> print_spl_token_sign (bn_sign info) print_config S;
     Some (0, S) }"

definition print_spl_token_close_account_info :: "SplTokenCloseAccountInfo \<Rightarrow> PrintConfig \<Rightarrow> TransactionSummary \<Rightarrow> TransactionSummary c_result" where
  "print_spl_token_close_account_info info print_config S = do {
     S \<leftarrow> summary_item_set_pubkey (transaction_summary_primary_item S) ''Close token account'' (cl_token_account info) S;
     S \<leftarrow> summary_item_set_pubkey (transaction_summary_general_item S) ''Withdraw to'' (cl_dest_account info) S;
     (_, S) \<leftarrow> print_spl_token_sign (cl_sign info) print_config S;
     Some (0, S) }"

definition print_spl_token_freeze_account_info :: "SplTokenFreezeAccountInfo \<Rightarrow> PrintConfig \<Rightarrow> TransactionSummary \<Rightarrow> TransactionSummary c_result" where
  "print_spl_token_freeze_account_info info print_config S = do {
     S \<leftarrow> summary_item_set_pubkey (transaction_summary_primary_item S) ''Freeze token account'' (fz_token_account info) S;
     S \<leftarrow> (if expert_mode print_config
           then summary_item_set_pubkey (transaction_summary_general_item S) ''Token address''
                  (fz_mint_account info) S
           else Some S);
     (_, S) \<leftarrow> print_spl_token_sign (fz_sign info) print_config S;
     Some (0, S) }"

definition print_spl_token_thaw_account_info :: "SplTokenThawAccountInfo \<Rightarrow> PrintConfig \<Rightarrow> TransactionSummary \<Rightarrow> TransactionSummary c_result" where
  "print_spl_token_thaw_account_info info print_config S = do {
     S \<leftarrow> summary_item_set_pubkey (transaction_summary_primary_item S) ''Thaw token account'' (th_token_account info) S;
     S \<leftarrow> (if expert_mode print_config
           then summary_item_set_pubkey (transaction_summary_general_item S) ''Token address''
                  (th_mint_account info) S
           else Some S);
     (_, S) \<leftarrow> print_spl_token_sign (th_sign info) print_config S;
     Some (0, S) }"

definition print_spl_token_sync_native_info :: "SplTokenSyncNativeInfo \<Rightarrow> PrintConfig \<Rightarrow> TransactionSummary \<Rightarrow> TransactionSummary c_result" where
  "print_spl_token_sync_native_info info print_config S = do {
     S \<leftarrow> summary_item_set_pubkey (transaction_summary_primary_item S) ''Sync native account'' (sn_token_account info) S;
     Some (0, S) }"

text \<open>
  The dispatch on the kind. The kind selects the member of the union, so it is the body that is
  inspected; \<open>SplNothing\<close> is only there for the kinds that are ignored, which are never displayed.
\<close>

definition print_spl_token_info :: "token_env \<Rightarrow> SplTokenInfo \<Rightarrow> PrintConfig \<Rightarrow> TransactionSummary \<Rightarrow> TransactionSummary c_result" where
  "print_spl_token_info env info print_config S =
     (case spl_body info of
        SplInitializeMint x \<Rightarrow> print_spl_token_initialize_mint_info (Some ''Init mint'') x print_config S
      | SplInitializeAccount x \<Rightarrow> print_spl_token_initialize_account_info (Some ''Init acct'') x print_config S
      | SplInitializeMultisig x \<Rightarrow>
          print_spl_token_initialize_multisig_info (Some ''Init multisig'') x print_config S
      | SplRevoke x \<Rightarrow> print_spl_token_revoke_info x print_config S
      | SplSetAuthority x \<Rightarrow> print_spl_token_set_authority_info x print_config S
      | SplCloseAccount x \<Rightarrow> print_spl_token_close_account_info x print_config S
      | SplFreezeAccount x \<Rightarrow> print_spl_token_freeze_account_info x print_config S
      | SplThawAccount x \<Rightarrow> print_spl_token_thaw_account_info x print_config S
      | SplTransfer x \<Rightarrow> print_spl_token_transfer_info env x print_config (is_token2022_kind info) True S
      | SplApprove x \<Rightarrow> print_spl_token_approve_info env x print_config (is_token2022_kind info) S
      | SplMintTo x \<Rightarrow> print_spl_token_mint_to_info env x print_config (is_token2022_kind info) S
      | SplBurn x \<Rightarrow> print_spl_token_burn_info env x print_config (is_token2022_kind info) S
      | SplSyncNative x \<Rightarrow> print_spl_token_sync_native_info x print_config S
      | SplNothing \<Rightarrow> Some (1, S))"

section \<open>The contract of the printers\<close>

lemma get_token_symbol_total: "\<exists>symbol. get_token_symbol env (Some mint) k = Some symbol"
  by (auto simp: get_token_symbol_def get_hardcoded_token_symbol_def split: option.splits)

lemma kept_multisig [keep]:
  assumes "free_slot S slot" "\<And>S'. kept S' (k S')"
  shows "kept S (summary_item_set_multisig_m_of_n slot m n S \<bind> k)"
proof (cases "print_m_of_n_string m n M_OF_N_MAX_LEN")
  case None
  then show ?thesis using assms(2) by (simp add: summary_item_set_multisig_m_of_n_def)
next
  case (Some string)
  show ?thesis
    by (simp add: summary_item_set_multisig_m_of_n_def Some) (rule kept_set [OF assms])
qed

lemma kept_bind_pair [keep]:
  assumes "kept S r" "\<And>rc S'. kept S' (k rc S')"
  shows "kept S (r \<bind> (\<lambda>(rc, S). k rc S))"
proof (cases r)
  case (Some x)
  obtain rc T where x: "x = (rc, T)" by (cases x)
  then have "keeps S T" using assms(1) Some by (simp add: kept_def)
  then show ?thesis using assms(2) [of T rc] Some x keeps_trans by (auto simp: kept_def)
qed (simp add: kept_def)

lemma kept_bind_symbol [keep]:
  assumes "\<And>symbol. kept S (k symbol)"
  shows "kept S (get_token_symbol env m b \<bind> k)"
  using assms by (cases "get_token_symbol env m b") (simp_all add: kept_def)

lemma free_slot_if [keep]: "free_slot S x \<Longrightarrow> free_slot S y \<Longrightarrow> free_slot S (if b then x else y)"
  by simp

lemma kept_case_sign:
  "(\<And>x. kept S (f x)) \<Longrightarrow> (\<And>x y. kept S (g x y)) \<Longrightarrow>
   kept S (case sign of SplTokenSignKindSingle x \<Rightarrow> f x | SplTokenSignKindMulti x y \<Rightarrow> g x y)"
  by (cases sign) simp_all

lemma spl_sign_kept [keep]: "kept S (print_spl_token_sign sign c S)"
  unfolding print_spl_token_sign_def by (intro kept_case_sign keep free_slot_intros)

lemma spl_init_kept [keep]:
  "kept S (print_spl_token_initialize_mint_info t i1 c S)"
  "kept S (print_spl_token_initialize_account_info t i2 c S)"
  "kept S (print_spl_token_initialize_multisig_info t i3 c S)"
  unfolding print_spl_token_initialize_mint_info_def print_spl_token_initialize_account_info_def
    print_spl_token_initialize_multisig_info_def
  by (intro keep free_slot_intros)+

lemma spl_transfer_kept [keep]: "kept S (print_spl_token_transfer_info env i c k prim S)"
  unfolding print_spl_token_transfer_info_def
  by (rule kept_Let_plain, intro keep kept_Let_plain free_slot_intros)

lemma spl_kept [keep]:
  "kept S (print_spl_token_approve_info env i5 c k S)"
  "kept S (print_spl_token_revoke_info i6 c S)"
  "kept S (print_spl_token_set_authority_info i7 c S)"
  "kept S (print_spl_token_mint_to_info env i8 c k S)"
  "kept S (print_spl_token_burn_info env i9 c k S)"
  "kept S (print_spl_token_close_account_info i10 c S)"
  "kept S (print_spl_token_freeze_account_info i11 c S)"
  "kept S (print_spl_token_thaw_account_info i12 c S)"
  "kept S (print_spl_token_sync_native_info i13 c S)"
  unfolding print_spl_token_approve_info_def print_spl_token_revoke_info_def
    print_spl_token_set_authority_info_def print_spl_token_mint_to_info_def
    print_spl_token_burn_info_def print_spl_token_close_account_info_def
    print_spl_token_freeze_account_info_def print_spl_token_thaw_account_info_def
    print_spl_token_sync_native_info_def
  by (intro keep kept_Let_plain free_slot_intros)+

lemma print_spl_token_info_kept [keep]: "kept S (print_spl_token_info env info c S)"
  by (simp add: print_spl_token_info_def spl_kept spl_init_kept spl_transfer_kept kept_return
      split: SplTokenBody.split)

interpretation spl_token: printer "print_spl_token_info env info print_config" for env info print_config
  by unfold_locales (rule print_spl_token_info_kept)

interpretation spl_transfer: printer "print_spl_token_transfer_info env info print_config is_2022 prim"
  for env info print_config is_2022 prim
  by unfold_locales (rule spl_transfer_kept)
section \<open>Signers and hooks of a token-2022 transfer\<close>

lemma current_index_iterator_at [simp]:
  "instruction_accounts_iterator_get_current_account_index (iterator_at header i k) =
     (if k < accounts_length i mod 256 then uint (accounts i ! k) else - 1)"
  by (simp add: instruction_accounts_iterator_get_current_account_index_def)
    (simp add: iterator_at_def instruction_accounts_iterator_init_def)

text \<open>
  The accounts the iterator sees from the k-th on, and how many of them, in a row, are signers of
  the message.
\<close>

definition seen_from :: "Instruction \<Rightarrow> nat \<Rightarrow> u8 list" where
  "seen_from i k = drop k (take (accounts_length i mod 256) (accounts i))"

definition signers_in_a_row :: "nat \<Rightarrow> u8 list \<Rightarrow> nat" where
  "signers_in_a_row required as = length (takeWhile (\<lambda>a. unat a < required) as)"

lemma seen_from_cases:
  "k < accounts_length i mod 256 \<Longrightarrow> seen_from i k = accounts i ! k # seen_from i (Suc k)"
  "\<not> k < accounts_length i mod 256 \<Longrightarrow> seen_from i k = []"
proof -
  obtain M where M: "M = accounts_length i mod 256" "M \<le> length (accounts i)"
    by (simp add: accounts_length_def)
  show "k < accounts_length i mod 256 \<Longrightarrow> seen_from i k = accounts i ! k # seen_from i (Suc k)"
    using Cons_nth_drop_Suc [of k "take M (accounts i)"] M(2)
    by (simp add: seen_from_def M(1) [symmetric])
  show "\<not> k < accounts_length i mod 256 \<Longrightarrow> seen_from i k = []"
    by (simp add: seen_from_def M(1) [symmetric])
qed

lemma skip_signers_step:
  "skip_signers required (iterator_at header i k) c =
     (if k < accounts_length i mod 256 then
        if unat (accounts i ! k) < required then skip_signers required (iterator_at header i (Suc k)) (c + 1)
        else Some (c, iterator_at header i k)
      else Some (c, iterator_at header i k))"
proof -
  have "uint (accounts i ! k) < int required \<longleftrightarrow> unat (accounts i ! k) < required"
    by (metis of_nat_less_iff uint_nat)
  then show ?thesis
    by (subst skip_signers.simps) (simp only: current_index_iterator_at remaining_iterator_at
        next_iterator_at zero_less_diff option.case prod.case if_True if_False cong: if_cong)
qed

lemma skip_signers_count:
  "accounts_length i mod 256 - k = n \<Longrightarrow> skip_signers required (iterator_at header i k) c =
     Some (c + of_nat (signers_in_a_row required (seen_from i k)),
           iterator_at header i (k + signers_in_a_row required (seen_from i k)))"
proof (induction n arbitrary: k c)
  case 0
  then have k: "\<not> k < accounts_length i mod 256" by linarith
  show ?case
    by (subst skip_signers_step) (simp only: k seen_from_cases(2) [OF k] signers_in_a_row_def if_False
        takeWhile.simps list.size, simp)
next
  case (Suc n)
  then have k: "k < accounts_length i mod 256" and IH: "accounts_length i mod 256 - Suc k = n" by linarith+
  show ?case
    using Suc.IH [OF IH, of "c + 1"]
    by (subst skip_signers_step) (simp only: k seen_from_cases(1) [OF k] signers_in_a_row_def if_True
        takeWhile.simps split: if_split, simp)
qed
lemma hook_iterator_at [simp]: "parse_spl_token_hook (iterator_at h i k) \<longleftrightarrow> k < accounts_length i mod 256"
  by (simp only: parse_spl_token_hook_def remaining_iterator_at) linarith

lemma signers_in_a_row_bound: "signers_in_a_row required (seen_from i k) \<le> accounts_length i mod 256 - k"
  using length_takeWhile_le [of "\<lambda>a. unat a < required" "seen_from i k"]
  by (simp add: signers_in_a_row_def seen_from_def accounts_length_def)

text \<open>C30: The signers of a token-2022 transfer, on every branch: when the account after the
  destination is a signer of the message it signs alone; otherwise it is a multisig account, its
  signers are the longest run of message signers from the second account after it on (the first
  one counts whatever it is), more than eleven are refused, and an account left after them
  announces a transfer hook. The 8-bit counter of the loop does not wrap.\<close>

theorem token2022_signers_exact:
  fixes h :: MessageHeader
  defines "required \<equiv> unat (num_required_signatures (pubkeys_header h))"
  shows "map_option (\<lambda>(sign, it). (sign, parse_spl_token_hook it))
      (parse_spl_token2022_sign h (iterator_at h i k)) =
    (let m = accounts_length i mod 256; n = signers_in_a_row required (seen_from i (k + 2)) in
     if m \<le> k then None
     else if unat (accounts i ! k) < required then
       Some (SplTokenSignKindSingle (account_key h i k), k + 1 < m)
     else if m \<le> k + 1 \<or> 11 < n + 1 then None
     else Some (SplTokenSignKindMulti (account_key h i k)
         \<lparr>multisigners_first = account_key h i (k + 1), multisigners_count = of_nat (n + 1)\<rparr>, k + 2 + n < m))"
proof -
  have *: "uint (accounts i ! k) < int required \<longleftrightarrow> unat (accounts i ! k) < required"
    by (metis of_nat_less_iff uint_nat)
  define m where "m = accounts_length i mod 256"
  define n where "n = signers_in_a_row required (seen_from i (k + 2))"
  note it = next_iterator_at [of h i, folded m_def] current_index_iterator_at [of h i, folded m_def]
    hook_iterator_at [of h i, folded m_def]
  note skip = skip_signers_count [OF refl, of required h i "Suc (Suc k)" 1]
  have "m < 256" by (simp add: m_def)
  then have "n < 254" if "k + 1 < m"
    using that signers_in_a_row_bound [of required i "k + 2", folded m_def n_def] by linarith
  then have count: "unat (1 + of_nat n :: u8) = Suc n" if "Suc k < m"
    using that unat_of_nat_u8 [of "n + 1"] by (simp add: add.commute)
  have 2: "signers_in_a_row required (seen_from i (Suc (Suc k))) = n" by (simp add: n_def)
  show ?thesis
    unfolding parse_spl_token2022_sign_def required_def [symmetric] m_def [symmetric] n_def [symmetric] Let_def
    by (cases "k < m"; cases "Suc k < m"; cases "unat (accounts i ! k) < required")
      (simp_all add: it * skip 2 count Token_MAX_SIGNERS_def not_less
        del: next_iterator_at current_index_iterator_at hook_iterator_at)
qed
section \<open>What is accepted, ignored and displayed\<close>

lemma transfer_checked:
  assumes "parse_transfer_spl_token_instruction env p i h fee k = Some t"
  shows "check_ata_against_trusted_info env (tr_src_account t) (tr_mint_account t) (tr_dest_account t) k
    \<and> is_transfer_checked_with_fee t = fee \<and> (is_transfer_checked_with_hook t \<longrightarrow> k)"
  using assms by (auto simp: parse_transfer_spl_token_instruction_def parse_success split: if_splits)

text \<open>The first bytes of the instructions that a parsed body stands for, from the enumerations of the
  SPL token and token-2022 programs.\<close>

fun body_tags :: "SplTokenBody \<Rightarrow> u8 list" where
  "body_tags (SplInitializeMint _) = [0]"
| "body_tags (SplInitializeAccount _) = [1, 16]"
| "body_tags (SplInitializeMultisig _) = [2]"
| "body_tags (SplTransfer t) = (if is_transfer_checked_with_fee t then [26] else [12])"
| "body_tags (SplApprove _) = [13]"
| "body_tags (SplRevoke _) = [5]"
| "body_tags (SplSetAuthority _) = [6]"
| "body_tags (SplMintTo _) = [14]"
| "body_tags (SplBurn _) = [15]"
| "body_tags (SplCloseAccount _) = [9]"
| "body_tags (SplFreezeAccount _) = [10]"
| "body_tags (SplThawAccount _) = [11]"
| "body_tags (SplSyncNative _) = [17]"
| "body_tags SplNothing = [26, 27, 28, 30, 33, 34, 36, 37, 39, 40, 41]"

lemma parse_kind_tag:
  assumes "parse_spl_token_instruction_kind (data_parser i) = Some (kind, p)"
  obtains tag where "bytes (data i) = tag # buffer p" "(tag, kind) \<in> set Token_TokenInstruction_Tag"
    "map_of Token_TokenInstruction_Tag tag = Some kind"
    "kind \<noteq> Transfer" "kind \<noteq> Approve" "kind \<noteq> MintTo" "kind \<noteq> Burn"
  using assms map_of_SomeD
  by (fastforce simp: parse_spl_token_instruction_kind_def parse_success deprecated_kinds_def data_parser_def)

lemma parse_transfer_fee_tag:
  assumes "parse_transfer_fee_instruction p = Some (tag, q)"
  shows "\<exists>x. buffer p = x # buffer q \<and> (tag = TransferCheckedWithFee \<longleftrightarrow> x = 1)"
  using assms by (auto simp: parse_transfer_fee_instruction_def parse_success split: if_splits)

text \<open>C22: What the token parser accepts, by the first byte of the instruction. An accepted instruction
  has the kind its first byte names, and the parsed body is the one of that byte: the
  fourteen plain kinds are parsed and never ignored, and the four unchecked ones (transfer, approve,
  mint-to, burn) are never accepted. The instruction is ignored, that is accepted without being displayed, exactly
  when its first byte is one of the ten extensions the code lists or the transfer fee extension with an
  instruction other than transfer-checked-with-fee; the extension warning is raised exactly for five of
  these. A transfer is accepted only after its mint, its destination and the derivation of the destination
  from the trusted owner have been checked, and a transfer with a fee or a hook only for the token-2022
  program.\<close>

theorem accepted_token_instruction:
  assumes "parse_spl_token_instructions env i h = Some (info, ignored)"
  shows "is_token2022_kind info = is_token2022_instruction i h
    \<and> (ignored \<longleftrightarrow> spl_body info = SplNothing)
    \<and> (generate_extension_warning info \<longrightarrow> ignored)
    \<and> (\<forall>t. spl_body info = SplTransfer t \<longrightarrow>
         check_ata_against_trusted_info env (tr_src_account t) (tr_mint_account t) (tr_dest_account t)
           (is_token2022_kind info)
         \<and> (is_transfer_checked_with_fee t \<or> is_transfer_checked_with_hook t \<longrightarrow> is_token2022_kind info))
    \<and> (\<exists>tag rest. bytes (data i) = tag # rest
         \<and> map_of Token_TokenInstruction_Tag tag = Some (spl_kind info)
         \<and> tag \<in> set (body_tags (spl_body info))
         \<and> (ignored \<longleftrightarrow> tag \<in> {27, 28, 30, 33, 34, 36, 37, 39, 40, 41}
              \<or> tag = 26 \<and> is_token2022_kind info \<and> rest \<noteq> [] \<and> hd rest \<noteq> 1)
         \<and> (generate_extension_warning info \<longleftrightarrow> ignored \<and> tag \<in> {26, 27, 30, 36, 37}))"
proof -
  obtain kind p where kind: "parse_spl_token_instruction_kind (data_parser i) = Some (kind, p)"
    using assms by (auto simp: parse_spl_token_instructions_def parse_success)
  note body = assms [unfolded parse_spl_token_instructions_def Let_def kind Option.bind.bind_lunit prod.case]
  obtain tag where tag: "bytes (data i) = tag # buffer p" "(tag, kind) \<in> set Token_TokenInstruction_Tag"
    "map_of Token_TokenInstruction_Tag tag = Some kind"
    and old: "kind \<noteq> Transfer" "kind \<noteq> Approve" "kind \<noteq> MintTo" "kind \<noteq> Burn"
    using kind by (rule parse_kind_tag)
  have "spl_kind info = kind"
    using body old by (cases kind) (auto simp: parse_success split: if_splits)
  moreover have "is_token2022_kind info = is_token2022_instruction i h
    \<and> (ignored \<longleftrightarrow> spl_body info = SplNothing)
    \<and> (generate_extension_warning info \<longrightarrow> ignored)
    \<and> (\<forall>t. spl_body info = SplTransfer t \<longrightarrow>
         check_ata_against_trusted_info env (tr_src_account t) (tr_mint_account t) (tr_dest_account t)
           (is_token2022_kind info)
         \<and> (is_transfer_checked_with_fee t \<or> is_transfer_checked_with_hook t \<longrightarrow> is_token2022_kind info))"
    using body by (cases kind) (auto simp: parse_success dest!: transfer_checked split: if_splits)
  moreover have "tag \<in> set (body_tags (spl_body info))
    \<and> (ignored \<longleftrightarrow> tag \<in> {27, 28, 30, 33, 34, 36, 37, 39, 40, 41}
         \<or> tag = 26 \<and> is_token2022_instruction i h \<and> buffer p \<noteq> [] \<and> hd (buffer p) \<noteq> 1)
    \<and> (generate_extension_warning info \<longleftrightarrow> ignored \<and> tag \<in> {26, 27, 30, 36, 37})"
    using body old tag(2) unfolding Token_TokenInstruction_Tag_def
    by (cases kind) (auto simp: parse_success dest!: transfer_checked parse_transfer_fee_tag split: if_splits)
  ultimately show ?thesis using tag by auto
qed

text \<open>A transfer of one USDC to the token account of \<open>sample_env\<close>, signed by the account 0.\<close>

definition sample_token_header :: MessageHeader where
  "sample_token_header = \<lparr>versioned = False, version = 0,
     pubkeys_header = \<lparr>num_required_signatures = 1, num_readonly_signed_accounts = 0,
       num_readonly_unsigned_accounts = 1, pubkeys_length = 5\<rparr>,
     pubkeys = Ptr 4 (replicate 32 1 @ usdc_mint @ replicate 32 7 @ replicate 32 9 @ bytes spl_token_program_id),
     blockhash = Ptr 164 (replicate 32 0), instructions_length = 1\<rparr>"

definition sample_transfer :: Instruction where
  "sample_transfer = \<lparr>program_id_index = 4, accounts = [3, 1, 2, 0],
     data = Ptr 204 (12 # le64 1000000 @ [6])\<rparr>"

definition sample_transfer_info :: SplTokenTransferInfo where
  "sample_transfer_info = \<lparr>tr_src_account = account_key sample_token_header sample_transfer 0,
     tr_dest_account = account_key sample_token_header sample_transfer 2,
     tr_mint_account = account_key sample_token_header sample_transfer 1,
     tr_sign = SplTokenSignKindSingle (account_key sample_token_header sample_transfer 3),
     tr_amount = 1000000, tr_decimals = 6, is_transfer_checked_with_fee = False,
     transfer_checked_with_fee_amount = 0, is_transfer_checked_with_hook = False\<rparr>"

lemma sample_keys:
  "bytes (account_key sample_token_header sample_transfer 1) = usdc_mint"
  "bytes (account_key sample_token_header sample_transfer 2) = replicate 32 7"
  by (simp_all add: account_key_def sample_token_header_def sample_transfer_def header_pubkey_def PUBKEY_SIZE_def usdc_mint_def)

lemma sample_destination_checked:
  "check_ata_against_trusted_info sample_env src (account_key sample_token_header sample_transfer 1)
     (account_key sample_token_header sample_transfer 2) False"
proof -
  have "try_nonces sample_sdk owner mint (replicate 32 7) False 256" for owner mint
    using try_nonces.simps(2) [of sample_sdk owner mint "replicate 32 7" False 255]
    by (simp add: sample_candidate sample_off_curve memcmp_eq_0)
  then show ?thesis
    by (simp add: check_ata_against_trusted_info_def sample_env_def sample_keys [unfolded One_nat_def] memcmp_eq_0
        validate_associated_token_address_def)
qed

lemma sample_transfer_parses:
  "parse_spl_token_instructions sample_env sample_transfer sample_token_header =
     Some (\<lparr>spl_kind = TransferChecked, is_token2022_kind = False, generate_extension_warning = False,
       spl_body = SplTransfer sample_transfer_info\<rparr>, False)"
proof -
  have legacy: "\<not> is_token2022_instruction sample_transfer sample_token_header"
    by (simp add: is_token2022_instruction_def sample_transfer_def sample_token_header_def header_pubkey_def
        PUBKEY_SIZE_def usdc_mint_def spl_token_program_id_def spl_token2022_program_id_def)
  have "parse_spl_token_instruction_kind (data_parser sample_transfer) = Some (TransferChecked, cursor 205 (le64 1000000 @ [6]))"
    by (simp add: parse_spl_token_instruction_kind_def data_parser_def sample_transfer_def
        Token_TokenInstruction_Tag_def deprecated_kinds_def)
  moreover have "parse_transfer_spl_token_instruction sample_env (cursor 205 (le64 1000000 @ [6])) sample_transfer
      sample_token_header False False = Some sample_transfer_info"
  proof -
    have "accounts_length sample_transfer = 4" by (simp add: sample_transfer_def accounts_length_def)
    then show ?thesis
      using sample_destination_checked
      by (simp add: parse_transfer_spl_token_instruction_def init_iterator_at parse_spl_token_sign_def
          sample_transfer_info_def numeral_2_eq_2 numeral_3_eq_3)
  qed
  ultimately show ?thesis
    using legacy by (simp add: parse_spl_token_instructions_def Let_def)
qed

theorem accepted_token_instruction_witness:
  "\<exists>info. parse_spl_token_instructions sample_env sample_transfer sample_token_header = Some (info, False)
     \<and> spl_body info \<noteq> SplNothing \<and> check_ata_against_trusted_info sample_env
       (tr_src_account sample_transfer_info) (tr_mint_account sample_transfer_info)
       (tr_dest_account sample_transfer_info) False"
  using accepted_token_instruction [OF sample_transfer_parses] sample_transfer_parses by simp
text \<open>The general items of a transfer, in order.\<close>

definition item_when :: "bool \<Rightarrow> string \<Rightarrow> SummaryValue \<Rightarrow> SummaryItem list" where
  "item_when b title v = (if b then [\<lparr>item_title = title, item_value = v\<rparr>] else [])"

fun sign_items :: "SplTokenSign \<Rightarrow> PrintConfig \<Rightarrow> SummaryItem list" where
  "sign_items (SplTokenSignKindSingle signer) cfg =
     item_when (print_config_show_authority cfg signer) ''Owner'' (ItemPubkey signer)"
| "sign_items (SplTokenSignKindMulti account multi) cfg =
     item_when True ''Owner'' (ItemPubkey account)
     @ item_when True ''Signers'' (ItemU64 (ucast (multisigners_count multi)))"

definition transfer_items :: "string \<Rightarrow> string \<Rightarrow> SplTokenTransferInfo \<Rightarrow> PrintConfig \<Rightarrow> SummaryItem list" where
  "transfer_items symbol owner t cfg =
     item_when (force_full_print cfg \<or> symbol = ''???'') ''Token address'' (ItemPubkey (tr_mint_account t))
     @ item_when (force_full_print cfg \<or> \<not> user_input_is_ata_or_token_account cfg) ''To'' (ItemString owner)
     @ item_when (force_full_print cfg \<or> user_input_is_ata_or_token_account cfg) ''To (token account)''
         (ItemPubkey (tr_dest_account t))
     @ item_when (is_transfer_checked_with_fee t \<and> transfer_checked_with_fee_amount t \<noteq> 0)
         ''Token transfer fee''
         (ItemTokenAmount (transfer_checked_with_fee_amount t) symbol (tr_decimals t))
     @ sign_items (tr_sign t) cfg"

lemma used_item_when [simp]: "v \<noteq> ItemNone \<Longrightarrow> list_all is_summary_item_used (item_when b title v)"
  by (cases v) (simp_all add: item_when_def)

lemma length_item_when: "length (item_when b title v) \<le> 1"
  by (simp add: item_when_def)

lemma general_pad_filled [simp]: "screen_ok S \<Longrightarrow> S\<lparr>general := pad (filled S)\<rparr> = S"
  by (metis screen_ok_def TransactionSummary.surjective TransactionSummary.update_convs(10))

lemma print_sign_screen:
  assumes "screen_ok S" "length (filled S) < 10"
  shows "print_spl_token_sign sign cfg S = Some (0, S\<lparr>general := pad (filled S @ sign_items sign cfg)\<rparr>)"
  using assms by (cases sign)
    (simp_all add: print_spl_token_sign_def item_when_def screen_eval)


text \<open>What a checked transfer shows, for every combination of the print settings and of the
  transfer: the amount with the ticker and the decimals of the token, the mint when the ticker is
  unknown, the trusted owner or the token account (or both), the fee when there is one, and the
  signers; the warnings of a token-2022 transfer are those of its fee and its hook. The printer
  never runs out of room.\<close>

theorem spl_transfer_screen:
  assumes "screen_ok S" "filled S = []" "\<not> is_summary_item_used (primary S)"
    and "get_token_symbol env (Some (bytes (tr_mint_account t))) k = Some symbol"
    and "get_transfer_to_address env = Some owner"
  shows "print_spl_token_transfer_info env t cfg k True S =
    Some (0, S\<lparr>transaction_type := TRANSACTION_TYPE_SPL_TRANSFER,
      fee_warning := (k \<and> \<not> is_transfer_checked_with_fee t),
      hook_warning := (k \<and> is_transfer_checked_with_hook t), is_token_2022_transfer := k,
      primary := \<lparr>item_title = ''Amount'', item_value = ItemTokenAmount (tr_amount t) symbol (tr_decimals t)\<rparr>,
      general := pad (transfer_items symbol owner t cfg)\<rparr>)"
  using assms
  by (cases "force_full_print cfg"; cases "user_input_is_ata_or_token_account cfg"; cases "symbol = ''???''";
      cases "is_transfer_checked_with_fee t"; cases "transfer_checked_with_fee_amount t = 0")
    (simp_all add: print_spl_token_transfer_info_def transfer_items_def
        print_sign_screen item_when_def screen_eval
        transaction_summary_set_token_fee_warning_def transaction_summary_set_token_hook_warning_def
        transaction_summary_set_is_token_2022_transfer_def)
theorem spl_transfer_screen_witness:
  "\<exists>S. print_spl_token_transfer_info sample_env sample_transfer_info
      \<lparr>config_header = sample_token_header, expert_mode = False, force_full_print = False,
        user_input_is_ata_or_token_account = False, signer_pubkey = Ptr 0 (replicate 32 1)\<rparr>
      False True transaction_summary_reset = Some (0, S)
    \<and> item_value (primary S) = ItemTokenAmount 1000000 ''USDC'' 6
    \<and> general S = pad [\<lparr>item_title = ''To'', item_value = ItemString ''owner''\<rparr>]"
proof -
  have "get_token_symbol sample_env (Some (bytes (tr_mint_account sample_transfer_info))) False = Some ''USDC''"
    using sample_keys(1)
    by (simp add: get_token_symbol_def get_dynamic_token_symbol_def sample_env_def sample_transfer_info_def
        get_hardcoded_token_symbol_def token_registry usdc_mint_def)
  moreover have "get_transfer_to_address sample_env = Some ''owner''"
    by (simp add: get_transfer_to_address_def sample_env_def)
  moreover have "bytes (account_key sample_token_header sample_transfer 3) = replicate 32 1"
    by (simp add: account_key_def sample_token_header_def sample_transfer_def header_pubkey_def PUBKEY_SIZE_def)
  ultimately show ?thesis
    using spl_transfer_screen [of transaction_summary_reset sample_env sample_transfer_info False "''USDC''" "''owner''"]
    by (simp add: transfer_items_def item_when_def sample_transfer_info_def print_config_show_authority_def
        pubkeys_equal_def memcmp_eq_0)
qed

end
