(* ===== verification/Sol_Instruction.thy ===== *)
theory Sol_Instruction
  imports Sol_Agenc Sol_Stake Sol_Vote Sol_Compute_Budget Sol_Token_Account Sol_Spl_Token
begin

text \<open>
  What is known of an instruction once parsed, \<open>libsol/instruction.c\<close> and \<open>libsol/instruction.h\<close>: the
  program it calls, the tagged union of the parsed instructions and the briefs the patterns of a
  transaction are written with.
\<close>

datatype ProgramId = ProgramIdUnknown | ProgramIdStake | ProgramIdSystem | ProgramIdVote
  | ProgramIdSplToken | ProgramIdSplAssociatedTokenAccount | ProgramIdSplMemo
  | ProgramIdSerumAssertOwner | ProgramIdComputeBudget | ProgramIdAgenc

datatype InstructionInfo =
    InfoUnknown
  | InfoStake StakeInfo
  | InfoSystem SystemInfo
  | InfoVote VoteInfo
  | InfoSplToken SplTokenInfo
  | InfoSplAssociatedTokenAccount SplAssociatedTokenAccountInfo
  | InfoSplMemo
  | InfoSerumAssertOwner
  | InfoComputeBudget ComputeBudgetInfo
  | InfoAgenc AgencInfo

fun info_kind :: "InstructionInfo \<Rightarrow> ProgramId" where
  "info_kind InfoUnknown = ProgramIdUnknown"
| "info_kind (InfoStake _) = ProgramIdStake"
| "info_kind (InfoSystem _) = ProgramIdSystem"
| "info_kind (InfoVote _) = ProgramIdVote"
| "info_kind (InfoSplToken _) = ProgramIdSplToken"
| "info_kind (InfoSplAssociatedTokenAccount _) = ProgramIdSplAssociatedTokenAccount"
| "info_kind InfoSplMemo = ProgramIdSplMemo"
| "info_kind InfoSerumAssertOwner = ProgramIdSerumAssertOwner"
| "info_kind (InfoComputeBudget _) = ProgramIdComputeBudget"
| "info_kind (InfoAgenc _) = ProgramIdAgenc"

definition instruction_program_id :: "Instruction \<Rightarrow> MessageHeader \<Rightarrow> ProgramId" where
  "instruction_program_id instruction header =
     (let program_id = header_pubkey (pubkeys header) (unat (program_id_index instruction));
          is = (\<lambda>known. memcmp (bytes program_id) (bytes known) = 0)
      in if is system_program_id then ProgramIdSystem
         else if is stake_program_id then ProgramIdStake
         else if is vote_program_id then ProgramIdVote
         else if is spl_token_program_id then ProgramIdSplToken
         else if is spl_token2022_program_id then ProgramIdSplToken
         else if is spl_associated_token_account_program_id then ProgramIdSplAssociatedTokenAccount
         else if is_serum_assert_owner_program_id program_id then ProgramIdSerumAssertOwner
         else if is spl_memo_program_id then ProgramIdSplMemo
         else if is compute_budget_program_id then ProgramIdComputeBudget
         else if is_agenc_program_id program_id then ProgramIdAgenc
         else ProgramIdUnknown)"

section \<open>Briefs\<close>

datatype InstructionBrief =
    BriefUnknown
  | STAKE_IX_BRIEF StakeInstructionKind
  | SYSTEM_IX_BRIEF SystemInstructionKind
  | VOTE_IX_BRIEF VoteInstructionKind
  | SPL_TOKEN_IX_BRIEF SplTokenInstructionKind
  | SPL_ASSOCIATED_TOKEN_ACCOUNT_IX_BRIEF
  | BriefSplMemo
  | BriefSerumAssertOwner
  | BriefComputeBudget ComputeBudgetInstructionKind
  | AGENC_IX_BRIEF AgencInstructionKind

fun brief_program_id :: "InstructionBrief \<Rightarrow> ProgramId" where
  "brief_program_id BriefUnknown = ProgramIdUnknown"
| "brief_program_id (STAKE_IX_BRIEF _) = ProgramIdStake"
| "brief_program_id (SYSTEM_IX_BRIEF _) = ProgramIdSystem"
| "brief_program_id (VOTE_IX_BRIEF _) = ProgramIdVote"
| "brief_program_id (SPL_TOKEN_IX_BRIEF _) = ProgramIdSplToken"
| "brief_program_id SPL_ASSOCIATED_TOKEN_ACCOUNT_IX_BRIEF = ProgramIdSplAssociatedTokenAccount"
| "brief_program_id BriefSplMemo = ProgramIdSplMemo"
| "brief_program_id BriefSerumAssertOwner = ProgramIdSerumAssertOwner"
| "brief_program_id (BriefComputeBudget _) = ProgramIdComputeBudget"
| "brief_program_id (AGENC_IX_BRIEF _) = ProgramIdAgenc"

text \<open>The kinds are compared when the programs are the same; an unknown program matches nothing.\<close>

definition instruction_info_matches_brief :: "InstructionInfo \<Rightarrow> InstructionBrief \<Rightarrow> bool" where
  "instruction_info_matches_brief info brief =
     (brief_program_id brief = info_kind info \<and>
      (case brief of
         BriefSerumAssertOwner \<Rightarrow> True
       | SPL_ASSOCIATED_TOKEN_ACCOUNT_IX_BRIEF \<Rightarrow> True
       | BriefSplMemo \<Rightarrow> True
       | BriefComputeBudget kind \<Rightarrow>
           (case info of InfoComputeBudget x \<Rightarrow> kind = compute_budget_kind (cb_body x) | _ \<Rightarrow> False)
       | AGENC_IX_BRIEF kind \<Rightarrow> (case info of InfoAgenc x \<Rightarrow> kind = agenc_kind (agenc_body x) | _ \<Rightarrow> False)
       | SPL_TOKEN_IX_BRIEF kind \<Rightarrow> (case info of InfoSplToken x \<Rightarrow> kind = spl_kind x | _ \<Rightarrow> False)
       | STAKE_IX_BRIEF kind \<Rightarrow> (case info of InfoStake x \<Rightarrow> kind = stake_kind x | _ \<Rightarrow> False)
       | SYSTEM_IX_BRIEF kind \<Rightarrow> (case info of InfoSystem x \<Rightarrow> kind = system_kind x | _ \<Rightarrow> False)
       | VOTE_IX_BRIEF kind \<Rightarrow> (case info of InfoVote x \<Rightarrow> kind = vote_kind x | _ \<Rightarrow> False)
       | BriefUnknown \<Rightarrow> False))"

lemma matches_brief [simp]:
  "instruction_info_matches_brief info (SYSTEM_IX_BRIEF k) \<longleftrightarrow> (\<exists>x. info = InfoSystem x \<and> system_kind x = k)"
  "instruction_info_matches_brief info (STAKE_IX_BRIEF k') \<longleftrightarrow> (\<exists>x. info = InfoStake x \<and> stake_kind x = k')"
  "instruction_info_matches_brief info (VOTE_IX_BRIEF l) \<longleftrightarrow> (\<exists>x. info = InfoVote x \<and> vote_kind x = l)"
  "instruction_info_matches_brief info (SPL_TOKEN_IX_BRIEF l') \<longleftrightarrow> (\<exists>x. info = InfoSplToken x \<and> spl_kind x = l')"
  "instruction_info_matches_brief info (AGENC_IX_BRIEF m) \<longleftrightarrow> (\<exists>x. info = InfoAgenc x \<and> agenc_kind (agenc_body x) = m)"
  "instruction_info_matches_brief info SPL_ASSOCIATED_TOKEN_ACCOUNT_IX_BRIEF \<longleftrightarrow>
     (\<exists>x. info = InfoSplAssociatedTokenAccount x)"
  by (cases info; auto simp: instruction_info_matches_brief_def)+

definition instruction_infos_match_briefs :: "InstructionInfo list \<Rightarrow> InstructionBrief list \<Rightarrow> nat \<Rightarrow> bool" where
  "instruction_infos_match_briefs infos briefs len =
     list_all (\<lambda>i. instruction_info_matches_brief (infos ! i) (briefs ! i)) [0..<len]"

section \<open>Members of the union\<close>

text \<open>
  Reading a member of the union: the value when that member was written, \<open>None\<close> otherwise (the
  bytes of another member, which C gives no meaning).
\<close>

definition as_create_account :: "InstructionInfo \<Rightarrow> SystemCreateAccountInfo option" where
  "as_create_account info = (case info of InfoSystem (SysCreateAccount x) \<Rightarrow> Some x | _ \<Rightarrow> None)"

definition as_create_account_with_seed :: "InstructionInfo \<Rightarrow> SystemCreateAccountWithSeedInfo option" where
  "as_create_account_with_seed info =
     (case info of InfoSystem (SysCreateAccountWithSeed x) \<Rightarrow> Some x | _ \<Rightarrow> None)"

definition as_allocate_with_seed :: "InstructionInfo \<Rightarrow> SystemAllocateWithSeedInfo option" where
  "as_allocate_with_seed info = (case info of InfoSystem (SysAllocateWithSeed x) \<Rightarrow> Some x | _ \<Rightarrow> None)"

definition as_initialize_nonce :: "InstructionInfo \<Rightarrow> SystemInitializeNonceInfo option" where
  "as_initialize_nonce info = (case info of InfoSystem (SysInitializeNonce x) \<Rightarrow> Some x | _ \<Rightarrow> None)"

definition as_system :: "InstructionInfo \<Rightarrow> SystemInfo option" where
  "as_system info = (case info of InfoSystem x \<Rightarrow> Some x | _ \<Rightarrow> None)"

definition as_stake :: "InstructionInfo \<Rightarrow> StakeInfo option" where
  "as_stake info = (case info of InfoStake x \<Rightarrow> Some x | _ \<Rightarrow> None)"

definition as_stake_initialize :: "InstructionInfo \<Rightarrow> StakeInitializeInfo option" where
  "as_stake_initialize info = (case info of InfoStake (StkInitialize x) \<Rightarrow> Some x
     | InfoStake (StkInitializeChecked x) \<Rightarrow> Some x | _ \<Rightarrow> None)"

definition as_stake_delegate :: "InstructionInfo \<Rightarrow> StakeDelegateInfo option" where
  "as_stake_delegate info = (case info of InfoStake (StkDelegate x) \<Rightarrow> Some x | _ \<Rightarrow> None)"

definition as_stake_split :: "InstructionInfo \<Rightarrow> StakeSplitInfo option" where
  "as_stake_split info = (case info of InfoStake (StkSplit x) \<Rightarrow> Some x | _ \<Rightarrow> None)"

definition as_stake_authorize :: "InstructionInfo \<Rightarrow> StakeAuthorizeInfo option" where
  "as_stake_authorize info = (case info of InfoStake (StkAuthorize x) \<Rightarrow> Some x
     | InfoStake (StkAuthorizeChecked x) \<Rightarrow> Some x | _ \<Rightarrow> None)"

definition as_vote_initialize :: "InstructionInfo \<Rightarrow> VoteInitializeInfo option" where
  "as_vote_initialize info = (case info of InfoVote (VotInitialize x) \<Rightarrow> Some x | _ \<Rightarrow> None)"

definition as_vote_authorize :: "InstructionInfo \<Rightarrow> VoteAuthorizeInfo option" where
  "as_vote_authorize info = (case info of InfoVote (VotAuthorize x) \<Rightarrow> Some x
     | InfoVote (VotAuthorizeChecked x) \<Rightarrow> Some x | _ \<Rightarrow> None)"

definition as_spl_token :: "InstructionInfo \<Rightarrow> SplTokenInfo option" where
  "as_spl_token info = (case info of InfoSplToken x \<Rightarrow> Some x | _ \<Rightarrow> None)"

definition as_initialize_mint :: "InstructionInfo \<Rightarrow> SplTokenInitializeMintInfo option" where
  "as_initialize_mint info = do {
     x \<leftarrow> as_spl_token info;
     (case spl_body x of SplInitializeMint m \<Rightarrow> Some m | _ \<Rightarrow> None) }"

definition as_initialize_account :: "InstructionInfo \<Rightarrow> SplTokenInitializeAccountInfo option" where
  "as_initialize_account info = do {
     x \<leftarrow> as_spl_token info;
     (case spl_body x of SplInitializeAccount m \<Rightarrow> Some m | _ \<Rightarrow> None) }"

definition as_initialize_multisig :: "InstructionInfo \<Rightarrow> SplTokenInitializeMultisigInfo option" where
  "as_initialize_multisig info = do {
     x \<leftarrow> as_spl_token info;
     (case spl_body x of SplInitializeMultisig m \<Rightarrow> Some m | _ \<Rightarrow> None) }"

definition as_spl_transfer :: "SplTokenInfo \<Rightarrow> SplTokenTransferInfo option" where
  "as_spl_transfer x = (case spl_body x of SplTransfer m \<Rightarrow> Some m | _ \<Rightarrow> None)"

definition as_agenc :: "InstructionInfo \<Rightarrow> AgencInfo option" where
  "as_agenc info = (case info of InfoAgenc x \<Rightarrow> Some x | _ \<Rightarrow> None)"

lemmas union_members = as_create_account_def as_create_account_with_seed_def as_allocate_with_seed_def
  as_initialize_nonce_def as_system_def as_stake_def as_stake_initialize_def as_stake_delegate_def
  as_stake_split_def as_stake_authorize_def as_vote_initialize_def as_vote_authorize_def
  as_spl_token_def as_initialize_mint_def as_initialize_account_def as_initialize_multisig_def
  as_spl_transfer_def as_agenc_def

lemma match_two [simp]:
  "instruction_infos_match_briefs infos [b1, b2] 2 \<longleftrightarrow>
     instruction_info_matches_brief (infos ! 0) b1 \<and> instruction_info_matches_brief (infos ! 1) b2"
  by (simp add: instruction_infos_match_briefs_def upt_rec numeral_2_eq_2)

lemma match_three [simp]:
  "instruction_infos_match_briefs infos [b1, b2, b3] 3 \<longleftrightarrow>
     instruction_info_matches_brief (infos ! 0) b1 \<and> instruction_info_matches_brief (infos ! 1) b2
     \<and> instruction_info_matches_brief (infos ! 2) b3"
  by (simp add: instruction_infos_match_briefs_def upt_rec numeral_3_eq_3 numeral_2_eq_2)

lemma match_four [simp]:
  "instruction_infos_match_briefs infos [b1, b2, b3, b4] 4 \<longleftrightarrow>
     instruction_info_matches_brief (infos ! 0) b1 \<and> instruction_info_matches_brief (infos ! 1) b2
     \<and> instruction_info_matches_brief (infos ! 2) b3 \<and> instruction_info_matches_brief (infos ! 3) b4"
  by (simp add: instruction_infos_match_briefs_def upt_rec eval_nat_numeral)


end
