(* ===== verification/Sol_Transaction_Printers.thy ===== *)
theory Sol_Transaction_Printers
  imports Sol_Instruction
begin

text \<open>
  From the parsed instructions to the screens, \<open>libsol/transaction_printers.c\<close>: the patterns of
  instructions the application recognises, the printers of the patterns that are more than one
  instruction, the compute budget instructions that become one fee, and the nonce.
\<close>

section \<open>The patterns\<close>

definition nonce_brief :: "InstructionBrief list" where
  "nonce_brief = [SYSTEM_IX_BRIEF SystemAdvanceNonceAccount]"

definition create_stake_account_brief :: "InstructionBrief list" where
  "create_stake_account_brief = [SYSTEM_IX_BRIEF SystemCreateAccount, STAKE_IX_BRIEF StakeInitialize]"

definition create_stake_account_checked_brief :: "InstructionBrief list" where
  "create_stake_account_checked_brief = [SYSTEM_IX_BRIEF SystemCreateAccount, STAKE_IX_BRIEF StakeInitializeChecked]"

definition create_stake_account_with_seed_brief :: "InstructionBrief list" where
  "create_stake_account_with_seed_brief = [SYSTEM_IX_BRIEF SystemCreateAccountWithSeed, STAKE_IX_BRIEF StakeInitialize]"

definition create_stake_account_with_seed_checked_brief :: "InstructionBrief list" where
  "create_stake_account_with_seed_checked_brief = [SYSTEM_IX_BRIEF SystemCreateAccountWithSeed, STAKE_IX_BRIEF StakeInitializeChecked]"

definition create_stake_account_and_delegate_brief :: "InstructionBrief list" where
  "create_stake_account_and_delegate_brief = [SYSTEM_IX_BRIEF SystemCreateAccount, STAKE_IX_BRIEF StakeInitialize, STAKE_IX_BRIEF StakeDelegate]"

definition create_stake_account_with_seed_and_delegate_brief :: "InstructionBrief list" where
  "create_stake_account_with_seed_and_delegate_brief = [SYSTEM_IX_BRIEF SystemCreateAccountWithSeed, STAKE_IX_BRIEF StakeInitialize, STAKE_IX_BRIEF StakeDelegate]"

definition stake_split_brief_v1_1 :: "InstructionBrief list" where
  "stake_split_brief_v1_1 = [SYSTEM_IX_BRIEF SystemAllocate, SYSTEM_IX_BRIEF SystemAssign, STAKE_IX_BRIEF StakeSplit]"

definition stake_split_with_seed_brief_v1_1 :: "InstructionBrief list" where
  "stake_split_with_seed_brief_v1_1 = [SYSTEM_IX_BRIEF SystemAllocateWithSeed, STAKE_IX_BRIEF StakeSplit]"

definition stake_split_brief_v1_2 :: "InstructionBrief list" where
  "stake_split_brief_v1_2 = [SYSTEM_IX_BRIEF SystemCreateAccount, STAKE_IX_BRIEF StakeSplit]"

definition stake_split_with_seed_brief_v1_2 :: "InstructionBrief list" where
  "stake_split_with_seed_brief_v1_2 = [SYSTEM_IX_BRIEF SystemCreateAccountWithSeed, STAKE_IX_BRIEF StakeSplit]"

definition stake_split_brief_v1_3 :: "InstructionBrief list" where
  "stake_split_brief_v1_3 = [SYSTEM_IX_BRIEF SystemTransfer, SYSTEM_IX_BRIEF SystemAllocate, SYSTEM_IX_BRIEF SystemAssign, STAKE_IX_BRIEF StakeSplit]"

definition stake_split_with_seed_brief_v1_3 :: "InstructionBrief list" where
  "stake_split_with_seed_brief_v1_3 = [SYSTEM_IX_BRIEF SystemTransfer, SYSTEM_IX_BRIEF SystemAllocateWithSeed, STAKE_IX_BRIEF StakeSplit]"

definition stake_authorize_both_brief :: "InstructionBrief list" where
  "stake_authorize_both_brief = [STAKE_IX_BRIEF StakeAuthorize, STAKE_IX_BRIEF StakeAuthorize]"

definition stake_authorize_checked_both_brief :: "InstructionBrief list" where
  "stake_authorize_checked_both_brief = [STAKE_IX_BRIEF StakeAuthorizeChecked, STAKE_IX_BRIEF StakeAuthorizeChecked]"

definition create_nonce_account_brief :: "InstructionBrief list" where
  "create_nonce_account_brief = [SYSTEM_IX_BRIEF SystemCreateAccount, SYSTEM_IX_BRIEF SystemInitializeNonceAccount]"

definition create_nonce_account_with_seed_brief :: "InstructionBrief list" where
  "create_nonce_account_with_seed_brief = [SYSTEM_IX_BRIEF SystemCreateAccountWithSeed, SYSTEM_IX_BRIEF SystemInitializeNonceAccount]"

definition create_vote_account_brief :: "InstructionBrief list" where
  "create_vote_account_brief = [SYSTEM_IX_BRIEF SystemCreateAccount, VOTE_IX_BRIEF VoteInitialize]"

definition create_vote_account_with_seed_brief :: "InstructionBrief list" where
  "create_vote_account_with_seed_brief = [SYSTEM_IX_BRIEF SystemCreateAccountWithSeed, VOTE_IX_BRIEF VoteInitialize]"

definition vote_authorize_both_brief :: "InstructionBrief list" where
  "vote_authorize_both_brief = [VOTE_IX_BRIEF VoteAuthorize, VOTE_IX_BRIEF VoteAuthorize]"

definition vote_authorize_checked_both_brief :: "InstructionBrief list" where
  "vote_authorize_checked_both_brief = [VOTE_IX_BRIEF VoteAuthorizeChecked, VOTE_IX_BRIEF VoteAuthorizeChecked]"

definition spl_token_create_mint_brief :: "InstructionBrief list" where
  "spl_token_create_mint_brief = [SYSTEM_IX_BRIEF SystemCreateAccount, SPL_TOKEN_IX_BRIEF InitializeMint]"

definition spl_token_create_account_brief :: "InstructionBrief list" where
  "spl_token_create_account_brief = [SYSTEM_IX_BRIEF SystemCreateAccount, SPL_TOKEN_IX_BRIEF InitializeAccount]"

definition spl_token_create_account2_brief :: "InstructionBrief list" where
  "spl_token_create_account2_brief = [SYSTEM_IX_BRIEF SystemCreateAccount, SPL_TOKEN_IX_BRIEF InitializeAccount2]"

definition spl_token_create_multisig_brief :: "InstructionBrief list" where
  "spl_token_create_multisig_brief = [SYSTEM_IX_BRIEF SystemCreateAccount, SPL_TOKEN_IX_BRIEF InitializeMultisig]"

definition spl_associated_token_account_create_with_transfer_brief :: "InstructionBrief list" where
  "spl_associated_token_account_create_with_transfer_brief = [SPL_ASSOCIATED_TOKEN_ACCOUNT_IX_BRIEF, SPL_TOKEN_IX_BRIEF TransferChecked]"

definition spl_associated_token_account_create_with_transfer_fee_brief :: "InstructionBrief list" where
  "spl_associated_token_account_create_with_transfer_fee_brief = [SPL_ASSOCIATED_TOKEN_ACCOUNT_IX_BRIEF, SPL_TOKEN_IX_BRIEF TransferFeeExtension]"

definition agenc_create_task_with_review_brief :: "InstructionBrief list" where
  "agenc_create_task_with_review_brief = [AGENC_IX_BRIEF AgencInstructionCreateTask, AGENC_IX_BRIEF AgencInstructionConfigureTaskValidation]"

definition is_advance_nonce_account :: "InstructionInfo \<Rightarrow> bool" where
  "is_advance_nonce_account info = instruction_info_matches_brief info (nonce_brief ! 0)"

definition is_create_stake_account :: "InstructionInfo list \<Rightarrow> nat \<Rightarrow> bool" where
  "is_create_stake_account infos infos_length = instruction_infos_match_briefs infos create_stake_account_brief infos_length"

definition is_create_stake_account_checked :: "InstructionInfo list \<Rightarrow> nat \<Rightarrow> bool" where
  "is_create_stake_account_checked infos infos_length = instruction_infos_match_briefs infos create_stake_account_checked_brief infos_length"

definition is_create_stake_account_with_seed :: "InstructionInfo list \<Rightarrow> nat \<Rightarrow> bool" where
  "is_create_stake_account_with_seed infos infos_length = instruction_infos_match_briefs infos create_stake_account_with_seed_brief infos_length"

definition is_create_stake_account_with_seed_checked :: "InstructionInfo list \<Rightarrow> nat \<Rightarrow> bool" where
  "is_create_stake_account_with_seed_checked infos infos_length = instruction_infos_match_briefs infos create_stake_account_with_seed_checked_brief infos_length"

definition is_create_stake_account_and_delegate :: "InstructionInfo list \<Rightarrow> nat \<Rightarrow> bool" where
  "is_create_stake_account_and_delegate infos infos_length = instruction_infos_match_briefs infos create_stake_account_and_delegate_brief infos_length"

definition is_create_stake_account_with_seed_and_delegate :: "InstructionInfo list \<Rightarrow> nat \<Rightarrow> bool" where
  "is_create_stake_account_with_seed_and_delegate infos infos_length = instruction_infos_match_briefs infos create_stake_account_with_seed_and_delegate_brief infos_length"

definition is_stake_split_v1_1 :: "InstructionInfo list \<Rightarrow> nat \<Rightarrow> bool" where
  "is_stake_split_v1_1 infos infos_length = instruction_infos_match_briefs infos stake_split_brief_v1_1 infos_length"

definition is_stake_split_with_seed_v1_1 :: "InstructionInfo list \<Rightarrow> nat \<Rightarrow> bool" where
  "is_stake_split_with_seed_v1_1 infos infos_length = instruction_infos_match_briefs infos stake_split_with_seed_brief_v1_1 infos_length"

definition is_stake_split_v1_2 :: "InstructionInfo list \<Rightarrow> nat \<Rightarrow> bool" where
  "is_stake_split_v1_2 infos infos_length = instruction_infos_match_briefs infos stake_split_brief_v1_2 infos_length"

definition is_stake_split_with_seed_v1_2 :: "InstructionInfo list \<Rightarrow> nat \<Rightarrow> bool" where
  "is_stake_split_with_seed_v1_2 infos infos_length = instruction_infos_match_briefs infos stake_split_with_seed_brief_v1_2 infos_length"

definition is_stake_split_v1_3 :: "InstructionInfo list \<Rightarrow> nat \<Rightarrow> bool" where
  "is_stake_split_v1_3 infos infos_length = instruction_infos_match_briefs infos stake_split_brief_v1_3 infos_length"

definition is_stake_split_with_seed_v1_3 :: "InstructionInfo list \<Rightarrow> nat \<Rightarrow> bool" where
  "is_stake_split_with_seed_v1_3 infos infos_length = instruction_infos_match_briefs infos stake_split_with_seed_brief_v1_3 infos_length"

definition is_stake_authorize_both :: "InstructionInfo list \<Rightarrow> nat \<Rightarrow> bool" where
  "is_stake_authorize_both infos infos_length = instruction_infos_match_briefs infos stake_authorize_both_brief infos_length"

definition is_stake_authorize_checked_both :: "InstructionInfo list \<Rightarrow> nat \<Rightarrow> bool" where
  "is_stake_authorize_checked_both infos infos_length = instruction_infos_match_briefs infos stake_authorize_checked_both_brief infos_length"

definition is_create_nonce_account :: "InstructionInfo list \<Rightarrow> nat \<Rightarrow> bool" where
  "is_create_nonce_account infos infos_length = instruction_infos_match_briefs infos create_nonce_account_brief infos_length"

definition is_create_nonce_account_with_seed :: "InstructionInfo list \<Rightarrow> nat \<Rightarrow> bool" where
  "is_create_nonce_account_with_seed infos infos_length = instruction_infos_match_briefs infos create_nonce_account_with_seed_brief infos_length"

definition is_create_vote_account :: "InstructionInfo list \<Rightarrow> nat \<Rightarrow> bool" where
  "is_create_vote_account infos infos_length = instruction_infos_match_briefs infos create_vote_account_brief infos_length"

definition is_create_vote_account_with_seed :: "InstructionInfo list \<Rightarrow> nat \<Rightarrow> bool" where
  "is_create_vote_account_with_seed infos infos_length = instruction_infos_match_briefs infos create_vote_account_with_seed_brief infos_length"

definition is_vote_authorize_both :: "InstructionInfo list \<Rightarrow> nat \<Rightarrow> bool" where
  "is_vote_authorize_both infos infos_length = instruction_infos_match_briefs infos vote_authorize_both_brief infos_length"

definition is_vote_authorize_checked_both :: "InstructionInfo list \<Rightarrow> nat \<Rightarrow> bool" where
  "is_vote_authorize_checked_both infos infos_length = instruction_infos_match_briefs infos vote_authorize_checked_both_brief infos_length"

definition is_spl_token_create_mint :: "InstructionInfo list \<Rightarrow> nat \<Rightarrow> bool" where
  "is_spl_token_create_mint infos infos_length = instruction_infos_match_briefs infos spl_token_create_mint_brief infos_length"

definition is_spl_token_create_account :: "InstructionInfo list \<Rightarrow> nat \<Rightarrow> bool" where
  "is_spl_token_create_account infos infos_length = instruction_infos_match_briefs infos spl_token_create_account_brief infos_length"

definition is_spl_token_create_account2 :: "InstructionInfo list \<Rightarrow> nat \<Rightarrow> bool" where
  "is_spl_token_create_account2 infos infos_length = instruction_infos_match_briefs infos spl_token_create_account2_brief infos_length"

definition is_spl_token_create_multisig :: "InstructionInfo list \<Rightarrow> nat \<Rightarrow> bool" where
  "is_spl_token_create_multisig infos infos_length = instruction_infos_match_briefs infos spl_token_create_multisig_brief infos_length"

definition is_spl_associated_token_account_create_with_transfer :: "InstructionInfo list \<Rightarrow> nat \<Rightarrow> bool" where
  "is_spl_associated_token_account_create_with_transfer infos infos_length = instruction_infos_match_briefs infos spl_associated_token_account_create_with_transfer_brief infos_length"

definition is_spl_associated_token_account_create_with_transfer_fee :: "InstructionInfo list \<Rightarrow> nat \<Rightarrow> bool" where
  "is_spl_associated_token_account_create_with_transfer_fee infos infos_length = instruction_infos_match_briefs infos spl_associated_token_account_create_with_transfer_fee_brief infos_length"

definition is_agenc_create_task_with_review :: "InstructionInfo list \<Rightarrow> nat \<Rightarrow> bool" where
  "is_agenc_create_task_with_review infos infos_length = instruction_infos_match_briefs infos agenc_create_task_with_review_brief infos_length"

lemmas brief_defs = nonce_brief_def 
  create_stake_account_brief_def create_stake_account_checked_brief_def create_stake_account_with_seed_brief_def create_stake_account_with_seed_checked_brief_def 
  create_stake_account_and_delegate_brief_def create_stake_account_with_seed_and_delegate_brief_def stake_split_brief_v1_1_def stake_split_with_seed_brief_v1_1_def 
  stake_split_brief_v1_2_def stake_split_with_seed_brief_v1_2_def stake_split_brief_v1_3_def stake_split_with_seed_brief_v1_3_def 
  stake_authorize_both_brief_def stake_authorize_checked_both_brief_def create_nonce_account_brief_def create_nonce_account_with_seed_brief_def 
  create_vote_account_brief_def create_vote_account_with_seed_brief_def vote_authorize_both_brief_def vote_authorize_checked_both_brief_def 
  spl_token_create_mint_brief_def spl_token_create_account_brief_def spl_token_create_account2_brief_def spl_token_create_multisig_brief_def 
  spl_associated_token_account_create_with_transfer_brief_def spl_associated_token_account_create_with_transfer_fee_brief_def agenc_create_task_with_review_brief_def

lemmas pattern_defs = is_advance_nonce_account_def 
  is_create_stake_account_def is_create_stake_account_checked_def is_create_stake_account_with_seed_def is_create_stake_account_with_seed_checked_def 
  is_create_stake_account_and_delegate_def is_create_stake_account_with_seed_and_delegate_def is_stake_split_v1_1_def is_stake_split_with_seed_v1_1_def 
  is_stake_split_v1_2_def is_stake_split_with_seed_v1_2_def is_stake_split_v1_3_def is_stake_split_with_seed_v1_3_def 
  is_stake_authorize_both_def is_stake_authorize_checked_both_def is_create_nonce_account_def is_create_nonce_account_with_seed_def 
  is_create_vote_account_def is_create_vote_account_with_seed_def is_vote_authorize_both_def is_vote_authorize_checked_both_def 
  is_spl_token_create_mint_def is_spl_token_create_account_def is_spl_token_create_account2_def is_spl_token_create_multisig_def 
  is_spl_associated_token_account_create_with_transfer_def is_spl_associated_token_account_create_with_transfer_fee_def is_agenc_create_task_with_review_def

section \<open>Printers of the patterns\<close>

definition print_create_stake_account :: "PrintConfig \<Rightarrow> InstructionInfo list \<Rightarrow> TransactionSummary \<Rightarrow> TransactionSummary c_result" where
  "print_create_stake_account print_config infos S = do {
     ca_info \<leftarrow> as_create_account (infos ! 0);
     si_info \<leftarrow> as_stake_initialize (infos ! 1);
     S \<leftarrow> summary_item_set_pubkey (transaction_summary_primary_item S) ''Create stake acct'' (create_to ca_info) S;
     bail_if (print_system_create_account_info None ca_info print_config False S)
       (print_stake_initialize_info None si_info print_config) }"

definition print_create_stake_account_with_seed :: "PrintConfig \<Rightarrow> InstructionInfo list \<Rightarrow> TransactionSummary \<Rightarrow> TransactionSummary c_result" where
  "print_create_stake_account_with_seed print_config infos S = do {
     cws_info \<leftarrow> as_create_account_with_seed (infos ! 0);
     si_info \<leftarrow> as_stake_initialize (infos ! 1);
     S \<leftarrow> summary_item_set_pubkey (transaction_summary_primary_item S) ''Create stake acct'' (seeded_to cws_info) S;
     bail_if (print_system_create_account_with_seed_info None cws_info print_config False S)
       (print_stake_initialize_info None si_info print_config) }"

definition print_create_stake_account_and_delegate ::
    "base58_decoder \<Rightarrow> PrintConfig \<Rightarrow> InstructionInfo list \<Rightarrow> TransactionSummary \<Rightarrow> TransactionSummary c_result" where
  "print_create_stake_account_and_delegate b58 print_config infos S = do {
     ca_info \<leftarrow> as_create_account (infos ! 0);
     si_info \<leftarrow> as_stake_initialize (infos ! 1);
     sd_info \<leftarrow> as_stake_delegate (infos ! 2);
     S \<leftarrow> summary_item_set_pubkey (transaction_summary_primary_item S) ''Delegated from'' (create_to ca_info) S;
     bail_if (print_system_create_account_info None ca_info print_config False S) (\<lambda>S.
     bail_if (print_stake_initialize_info None si_info print_config S) (\<lambda>S.
     bail_if (print_delegate_stake_info b58 None sd_info print_config S) (\<lambda>S.
       Some (0, transaction_summary_set_transaction_type TRANSACTION_TYPE_SOL_STAKING S)))) }"

definition print_create_stake_account_with_seed_and_delegate ::
    "base58_decoder \<Rightarrow> PrintConfig \<Rightarrow> InstructionInfo list \<Rightarrow> TransactionSummary \<Rightarrow> TransactionSummary c_result" where
  "print_create_stake_account_with_seed_and_delegate b58 print_config infos S = do {
     cws_info \<leftarrow> as_create_account_with_seed (infos ! 0);
     si_info \<leftarrow> as_stake_initialize (infos ! 1);
     sd_info \<leftarrow> as_stake_delegate (infos ! 2);
     S \<leftarrow> summary_item_set_pubkey (transaction_summary_primary_item S) ''Delegated from'' (seeded_to cws_info) S;
     bail_if (print_system_create_account_with_seed_info None cws_info print_config False S) (\<lambda>S.
     bail_if (print_stake_initialize_info None si_info print_config S) (\<lambda>S.
     bail_if (print_delegate_stake_info b58 None sd_info print_config S) (\<lambda>S.
       Some (0, transaction_summary_set_transaction_type TRANSACTION_TYPE_SOL_STAKING S)))) }"

definition print_stake_split_with_seed :: "PrintConfig \<Rightarrow> InstructionInfo list \<Rightarrow> bool \<Rightarrow> TransactionSummary \<Rightarrow> TransactionSummary c_result" where
  "print_stake_split_with_seed print_config infos legacy S = do {
     (base, seed) \<leftarrow>
       (if legacy then do {
          aws_info \<leftarrow> as_allocate_with_seed (infos ! 0);
          Some (allocate_seed_base aws_info, allocate_seed_seed aws_info) }
        else do {
          cws_info \<leftarrow> as_create_account_with_seed (infos ! 0);
          Some (seeded_base cws_info, seeded_seed cws_info) });
     ss_info \<leftarrow> as_stake_split (infos ! 1);
     bail_if (print_stake_split_info1 ss_info print_config S) (\<lambda>S.
     bail_if
       (if expert_mode print_config then do {
          S \<leftarrow> summary_item_set_pubkey (transaction_summary_general_item S) ''Base'' base S;
          S \<leftarrow> summary_item_set_sized_string (transaction_summary_general_item S) ''Seed'' seed S;
          Some (0, S) }
        else Some (0, S)) (\<lambda>S.
       print_stake_split_info2 ss_info print_config S)) }"

definition print_prefunded_split :: "PrintConfig \<Rightarrow> InstructionInfo list \<Rightarrow> TransactionSummary \<Rightarrow> TransactionSummary c_result" where
  "print_prefunded_split print_config infos S = do {
     system \<leftarrow> as_system (infos ! 0);
     bail_if (print_system_prefund_for_split system print_config S) (\<lambda>S. do {
       split \<leftarrow> as_stake_split (infos ! 3);
       print_stake_split_info split print_config S }) }"

definition print_prefunded_split_with_seed :: "PrintConfig \<Rightarrow> InstructionInfo list \<Rightarrow> TransactionSummary \<Rightarrow> TransactionSummary c_result" where
  "print_prefunded_split_with_seed print_config infos S = do {
     system \<leftarrow> as_system (infos ! 0);
     bail_if (print_system_prefund_for_split system print_config S)
       (print_stake_split_with_seed print_config (tl infos) True) }"

text \<open>The two new authorities are compared as pointers.\<close>

definition print_stake_authorize_both :: "PrintConfig \<Rightarrow> InstructionInfo list \<Rightarrow> TransactionSummary \<Rightarrow> TransactionSummary c_result" where
  "print_stake_authorize_both print_config infos S = do {
     staker_info \<leftarrow> as_stake_authorize (infos ! 0);
     withdrawer_info \<leftarrow> as_stake_authorize (infos ! 1);
     if stake_auth_authorize staker_info \<noteq> StakeAuthorizeStaker then Some (1, S)
     else if stake_auth_authorize withdrawer_info \<noteq> StakeAuthorizeWithdrawer then Some (1, S)
     else do {
       S \<leftarrow> summary_item_set_pubkey (transaction_summary_primary_item S) ''Set stake auth'' (stake_auth_account staker_info) S;
       S \<leftarrow> (if stake_auth_new_authority staker_info = stake_auth_new_authority withdrawer_info then do {
           S \<leftarrow> summary_item_set_pubkey (transaction_summary_general_item S) ''New authorities'' (stake_auth_new_authority staker_info) S;
           Some S }
         else do {
           S \<leftarrow> summary_item_set_pubkey (transaction_summary_general_item S) ''New stake auth'' (stake_auth_new_authority staker_info) S;
           S \<leftarrow> summary_item_set_pubkey (transaction_summary_general_item S) ''New withdraw auth'' (stake_auth_new_authority withdrawer_info) S;
           Some S });
       S \<leftarrow> (case stake_auth_custodian withdrawer_info of
           Some custodian \<Rightarrow> summary_item_set_pubkey (transaction_summary_general_item S) ''Custodian'' custodian S
         | None \<Rightarrow> Some S);
       S \<leftarrow> (if print_config_show_authority print_config (stake_auth_authority withdrawer_info)
           then summary_item_set_pubkey (transaction_summary_general_item S) ''Authorized by''
                  (stake_auth_authority withdrawer_info) S
           else Some S);
       Some (0, S) } }"

definition print_create_nonce_account :: "PrintConfig \<Rightarrow> InstructionInfo list \<Rightarrow> TransactionSummary \<Rightarrow> TransactionSummary c_result" where
  "print_create_nonce_account print_config infos S = do {
     ca_info \<leftarrow> as_create_account (infos ! 0);
     ni_info \<leftarrow> as_initialize_nonce (infos ! 1);
     S \<leftarrow> summary_item_set_pubkey (transaction_summary_primary_item S) ''Create nonce acct'' (create_to ca_info) S;
     bail_if (print_system_create_account_info None ca_info print_config False S)
       (print_system_initialize_nonce_info None ni_info print_config) }"

definition print_create_nonce_account_with_seed :: "PrintConfig \<Rightarrow> InstructionInfo list \<Rightarrow> TransactionSummary \<Rightarrow> TransactionSummary c_result" where
  "print_create_nonce_account_with_seed print_config infos S = do {
     ca_info \<leftarrow> as_create_account_with_seed (infos ! 0);
     ni_info \<leftarrow> as_initialize_nonce (infos ! 1);
     S \<leftarrow> summary_item_set_pubkey (transaction_summary_primary_item S) ''Create nonce acct'' (seeded_to ca_info) S;
     bail_if (print_system_create_account_with_seed_info None ca_info print_config False S)
       (print_system_initialize_nonce_info None ni_info print_config) }"

definition print_create_vote_account :: "PrintConfig \<Rightarrow> InstructionInfo list \<Rightarrow> TransactionSummary \<Rightarrow> TransactionSummary c_result" where
  "print_create_vote_account print_config infos S = do {
     ca_info \<leftarrow> as_create_account (infos ! 0);
     vi_info \<leftarrow> as_vote_initialize (infos ! 1);
     S \<leftarrow> summary_item_set_pubkey (transaction_summary_primary_item S) ''Create vote acct'' (create_to ca_info) S;
     bail_if (print_system_create_account_info None ca_info print_config False S)
       (print_vote_initialize_info None vi_info print_config) }"

definition print_create_vote_account_with_seed :: "PrintConfig \<Rightarrow> InstructionInfo list \<Rightarrow> TransactionSummary \<Rightarrow> TransactionSummary c_result" where
  "print_create_vote_account_with_seed print_config infos S = do {
     ca_info \<leftarrow> as_create_account_with_seed (infos ! 0);
     vi_info \<leftarrow> as_vote_initialize (infos ! 1);
     S \<leftarrow> summary_item_set_pubkey (transaction_summary_primary_item S) ''Create vote acct'' (seeded_to ca_info) S;
     bail_if (print_system_create_account_with_seed_info None ca_info print_config False S)
       (print_vote_initialize_info None vi_info print_config) }"

definition print_vote_authorize_both :: "PrintConfig \<Rightarrow> InstructionInfo list \<Rightarrow> TransactionSummary \<Rightarrow> TransactionSummary c_result" where
  "print_vote_authorize_both print_config infos S = do {
     voter_info \<leftarrow> as_vote_authorize (infos ! 0);
     withdrawer_info \<leftarrow> as_vote_authorize (infos ! 1);
     if vote_auth_authorize voter_info \<noteq> VoteAuthorizeVoter then Some (1, S)
     else if vote_auth_authorize withdrawer_info \<noteq> VoteAuthorizeWithdrawer then Some (1, S)
     else do {
       S \<leftarrow> summary_item_set_pubkey (transaction_summary_primary_item S) ''Set vote auth'' (vote_auth_account voter_info) S;
       S \<leftarrow> (if vote_auth_new_authority voter_info = vote_auth_new_authority withdrawer_info then do {
           S \<leftarrow> summary_item_set_pubkey (transaction_summary_general_item S) ''New authorities'' (vote_auth_new_authority voter_info) S;
           Some S }
         else do {
           S \<leftarrow> summary_item_set_pubkey (transaction_summary_general_item S) ''New vote auth'' (vote_auth_new_authority voter_info) S;
           S \<leftarrow> summary_item_set_pubkey (transaction_summary_general_item S) ''New withdraw auth'' (vote_auth_new_authority withdrawer_info) S;
           Some S });
       S \<leftarrow> (if print_config_show_authority print_config (vote_auth_authority withdrawer_info)
           then summary_item_set_pubkey (transaction_summary_general_item S) ''Authorized by''
                  (vote_auth_authority withdrawer_info) S
           else Some S);
       Some (0, S) } }"

text \<open>The last two items of the token patterns.\<close>

definition print_funding :: "SystemCreateAccountInfo \<Rightarrow> PrintConfig \<Rightarrow> TransactionSummary \<Rightarrow> TransactionSummary c_result" where
  "print_funding ca_info print_config S = do {
     S \<leftarrow> (if print_config_show_authority print_config (create_from ca_info)
         then summary_item_set_pubkey (transaction_summary_general_item S) ''Funded by'' (create_from ca_info) S
         else Some S);
     S \<leftarrow> summary_item_set_amount (transaction_summary_general_item S) ''Funded with'' (create_lamports ca_info) S;
     Some (0, S) }"

definition print_spl_token_create_mint :: "PrintConfig \<Rightarrow> InstructionInfo list \<Rightarrow> TransactionSummary \<Rightarrow> TransactionSummary c_result" where
  "print_spl_token_create_mint print_config infos S = do {
     ca_info \<leftarrow> as_create_account (infos ! 0);
     im_info \<leftarrow> as_initialize_mint (infos ! 1);
     S \<leftarrow> summary_item_set_pubkey (transaction_summary_primary_item S) ''Create token mint'' (im_mint_account im_info) S;
     S \<leftarrow> summary_item_set_pubkey (transaction_summary_general_item S) ''Mint authority'' (im_mint_authority im_info) S;
     S \<leftarrow> summary_item_set_u64 (transaction_summary_general_item S) ''Mint decimals'' (ucast (im_decimals im_info)) S;
     S \<leftarrow> (case im_freeze_authority im_info of
         Some key \<Rightarrow> summary_item_set_pubkey (transaction_summary_general_item S) ''Freeze authority'' key S
       | None \<Rightarrow> Some S);
     print_funding ca_info print_config S }"

definition print_spl_token_create_account :: "PrintConfig \<Rightarrow> InstructionInfo list \<Rightarrow> TransactionSummary \<Rightarrow> TransactionSummary c_result" where
  "print_spl_token_create_account print_config infos S = do {
     ca_info \<leftarrow> as_create_account (infos ! 0);
     ia_info \<leftarrow> as_initialize_account (infos ! 1);
     S \<leftarrow> summary_item_set_pubkey (transaction_summary_primary_item S) ''Create token account'' (ia_token_account ia_info) S;
     S \<leftarrow> summary_item_set_pubkey (transaction_summary_general_item S) ''For'' (ia_owner ia_info) S;
     S \<leftarrow> summary_item_set_pubkey (transaction_summary_general_item S) ''Token address'' (ia_mint_account ia_info) S;
     print_funding ca_info print_config S }"

definition print_spl_token_create_multisig :: "PrintConfig \<Rightarrow> InstructionInfo list \<Rightarrow> TransactionSummary \<Rightarrow> TransactionSummary c_result" where
  "print_spl_token_create_multisig print_config infos S = do {
     ca_info \<leftarrow> as_create_account (infos ! 0);
     im_info \<leftarrow> as_initialize_multisig (infos ! 1);
     S \<leftarrow> summary_item_set_pubkey (transaction_summary_primary_item S) ''Create multisig'' (ims_multisig_account im_info) S;
     S \<leftarrow> summary_item_set_multisig_m_of_n (transaction_summary_general_item S)
            (ims_m im_info) (multisigners_count (ims_signers im_info)) S;
     print_funding ca_info print_config S }"

text \<open>The status of the transfer printer is dropped.\<close>

definition print_spl_associated_token_account_create_with_transfer ::
    "token_env \<Rightarrow> PrintConfig \<Rightarrow> InstructionInfo list \<Rightarrow> TransactionSummary \<Rightarrow> TransactionSummary c_result" where
  "print_spl_associated_token_account_create_with_transfer env print_config infos S = do {
     spl_token \<leftarrow> as_spl_token (infos ! 1);
     t_info \<leftarrow> as_spl_transfer spl_token;
     (_, S) \<leftarrow> print_spl_token_transfer_info env t_info print_config (is_token2022_kind spl_token) True S;
     Some (0, S) }"

definition print_spl_token_extension_warning :: "TransactionSummary \<Rightarrow> TransactionSummary c_result" where
  "print_spl_token_extension_warning S = do {
     S \<leftarrow> summary_item_set_string (transaction_summary_general_item S) ''Extension Warning'' ''Unsupported extensions found'' S;
     S \<leftarrow> summary_item_set_string (transaction_summary_general_item S) '''' ''Verify transaction before signing'' S;
     Some (0, S) }"

section \<open>Compute budget\<close>

text \<open>
  The loop looks at \<open>infos[0]\<close> and moves \<open>infos\<close> on only past a compute budget instruction, so it
  takes the leading ones. The last limit and the last price win.
\<close>

fun take_compute_budget :: "nat \<Rightarrow> InstructionInfo list \<Rightarrow> ComputeBudgetFeeInfo
    \<Rightarrow> InstructionInfo list \<times> ComputeBudgetFeeInfo" where
  "take_compute_budget 0 infos fee = (infos, fee)"
| "take_compute_budget (Suc n) infos fee =
     (case infos ! 0 of
        InfoComputeBudget info \<Rightarrow>
          (let fee = fee\<lparr>fee_signatures_count := cb_signatures_count info\<rparr>;
               fee = (case cb_body info of
                   CbChangeUnitLimit limit \<Rightarrow> fee\<lparr>fee_change_unit_limit := Some limit\<rparr>
                 | CbChangeUnitPrice price \<Rightarrow> fee\<lparr>fee_change_unit_price := Some price\<rparr>
                 | _ \<Rightarrow> fee)
           in take_compute_budget n (tl infos) fee)
      | _ \<Rightarrow> take_compute_budget n infos fee)"

definition no_fee :: "nat \<Rightarrow> ComputeBudgetFeeInfo" where
  "no_fee n = \<lparr>fee_change_unit_limit = None, fee_change_unit_price = None,
     fee_instructions_count = n, fee_signatures_count = 0\<rparr>"

definition preprocess_compute_budget_instructions ::
    "InstructionInfo list \<Rightarrow> InstructionInfo list \<times> ComputeBudgetFeeInfo" where
  "preprocess_compute_budget_instructions infos =
     (let infos_length_initial = length infos
      in if infos_length_initial > 1
         then take_compute_budget infos_length_initial infos (no_fee infos_length_initial)
         else (infos, no_fee 0))"

section \<open>The dispatch\<close>

definition print_single :: "base58_decoder \<Rightarrow> token_env \<Rightarrow> PrintConfig \<Rightarrow> InstructionInfo \<Rightarrow> TransactionSummary \<Rightarrow> TransactionSummary c_result" where
  "print_single b58 env print_config info S = (case info of
     InfoSystem x \<Rightarrow> print_system_info x print_config S
   | InfoStake x \<Rightarrow> print_stake_info b58 x print_config S
   | InfoVote x \<Rightarrow> print_vote_info x print_config S
   | InfoSplToken x \<Rightarrow> print_spl_token_info env x print_config S
   | InfoSplAssociatedTokenAccount x \<Rightarrow> print_spl_associated_token_account_info x print_config S
   | InfoAgenc x \<Rightarrow> print_agenc_info x S
   | InfoSerumAssertOwner \<Rightarrow> Some (-1, S)
   | InfoSplMemo \<Rightarrow> Some (-1, S)
   | InfoComputeBudget _ \<Rightarrow> Some (-1, S)
   | InfoUnknown \<Rightarrow> Some (-1, S))"

text \<open>The rent of a token account, in lamports, added to the fee when the account is created.\<close>

definition ata_rent :: u64 where "ata_rent = 2039280"

definition print_pair ::
    "base58_decoder \<Rightarrow> token_env \<Rightarrow> PrintConfig \<Rightarrow> InstructionInfo list \<Rightarrow> u64 \<Rightarrow> TransactionSummary \<Rightarrow> u64 \<times> TransactionSummary c_result" where
  "print_pair b58 env print_config infos max_fee S =
     (if is_create_stake_account infos 2 \<or> is_create_stake_account_checked infos 2 then
        (max_fee, print_create_stake_account print_config infos S)
      else if is_create_stake_account_with_seed infos 2 \<or> is_create_stake_account_with_seed_checked infos 2 then
        (max_fee, print_create_stake_account_with_seed print_config infos S)
      else if is_create_nonce_account infos 2 then
        (max_fee, print_create_nonce_account print_config infos S)
      else if is_create_nonce_account_with_seed infos 2 then
        (max_fee, print_create_nonce_account_with_seed print_config infos S)
      else if is_create_vote_account infos 2 then
        (max_fee, print_create_vote_account print_config infos S)
      else if is_create_vote_account_with_seed infos 2 then
        (max_fee, print_create_vote_account_with_seed print_config infos S)
      else if is_stake_authorize_both infos 2 \<or> is_stake_authorize_checked_both infos 2 then
        (max_fee, print_stake_authorize_both print_config infos S)
      else if is_vote_authorize_both infos 2 \<or> is_vote_authorize_checked_both infos 2 then
        (max_fee, print_vote_authorize_both print_config infos S)
      else if is_stake_split_with_seed_v1_1 infos 2 then
        (max_fee, print_stake_split_with_seed print_config infos True S)
      else if is_stake_split_v1_2 infos 2 then
        (max_fee, Option.bind (as_stake (infos ! 1)) (\<lambda>x. print_stake_info b58 x print_config S))
      else if is_stake_split_with_seed_v1_2 infos 2 then
        (max_fee, print_stake_split_with_seed print_config infos False S)
      else if is_spl_token_create_mint infos 2 then
        (max_fee, print_spl_token_create_mint print_config infos S)
      else if is_spl_token_create_account infos 2 \<or> is_spl_token_create_account2 infos 2 then
        (max_fee, print_spl_token_create_account print_config infos S)
      else if is_spl_token_create_multisig infos 2 then
        (max_fee, print_spl_token_create_multisig print_config infos S)
      else if is_spl_associated_token_account_create_with_transfer infos 2
           \<or> is_spl_associated_token_account_create_with_transfer_fee infos 2 then
        (max_fee + ata_rent, print_spl_associated_token_account_create_with_transfer env print_config infos S)
      else if is_agenc_create_task_with_review infos 2 then
        (max_fee, do {
           create \<leftarrow> as_agenc (infos ! 0);
           configure \<leftarrow> as_agenc (infos ! 1);
           print_agenc_create_task_with_review_info create configure S })
      else (max_fee, Some (-1, S)))"

definition print_triple :: "base58_decoder \<Rightarrow> PrintConfig \<Rightarrow> InstructionInfo list \<Rightarrow> TransactionSummary \<Rightarrow> TransactionSummary c_result" where
  "print_triple b58 print_config infos S =
     (if is_create_stake_account_and_delegate infos 3 then
        print_create_stake_account_and_delegate b58 print_config infos S
      else if is_create_stake_account_with_seed_and_delegate infos 3 then
        print_create_stake_account_with_seed_and_delegate b58 print_config infos S
      else if is_stake_split_v1_1 infos 3 then
        Option.bind (as_stake (infos ! 2)) (\<lambda>x. print_stake_info b58 x print_config S)
      else if is_stake_split_with_seed_v1_3 infos 3 then
        print_prefunded_split_with_seed print_config infos S
      else Some (-1, S))"

definition print_quadruple :: "PrintConfig \<Rightarrow> InstructionInfo list \<Rightarrow> TransactionSummary \<Rightarrow> TransactionSummary c_result" where
  "print_quadruple print_config infos S =
     (if is_stake_split_v1_3 infos 4 then print_prefunded_split print_config infos S
      else Some (-1, S))"

text \<open>The fee to display and the result of the printer the instructions select.\<close>

definition print_pattern ::
    "base58_decoder \<Rightarrow> token_env \<Rightarrow> PrintConfig \<Rightarrow> InstructionInfo list \<Rightarrow> u64 \<Rightarrow> TransactionSummary \<Rightarrow> u64 \<times> TransactionSummary c_result" where
  "print_pattern b58 env print_config infos max_fee S =
     (if length infos = 1 then (max_fee, print_single b58 env print_config (infos ! 0) S)
      else if length infos = 2 then print_pair b58 env print_config infos max_fee S
      else if length infos = 3 then (max_fee, print_triple b58 print_config infos S)
      else if length infos = 4 then (max_fee, print_quadruple print_config infos S)
      else (max_fee, Some (-1, S)))"

definition print_transaction_nonce_processed ::
    "base58_decoder \<Rightarrow> token_env \<Rightarrow> PrintConfig \<Rightarrow> InstructionInfo list \<Rightarrow> TransactionSummary \<Rightarrow> TransactionSummary c_result" where
  "print_transaction_nonce_processed b58 env print_config infos S =
     (let (infos, fee_info) = preprocess_compute_budget_instructions infos;
          set = (fee_change_unit_limit fee_info \<noteq> None \<or> fee_change_unit_price fee_info \<noteq> None)
      in case (if set then calculate_max_fee fee_info else Some 0) of
           None \<Rightarrow> Some (-1, S)
         | Some transaction_max_fee \<Rightarrow>
             (let (transaction_max_fee, print_ret) = print_pattern b58 env print_config infos transaction_max_fee S
              in bail_if print_ret (\<lambda>S.
                   if transaction_max_fee \<noteq> 0 then do {
                     (_, S) \<leftarrow> print_compute_budget_max_fee transaction_max_fee print_config S;
                     Some (0, S) }
                   else Some (0, S))))"

definition print_transaction ::
    "base58_decoder \<Rightarrow> token_env \<Rightarrow> PrintConfig \<Rightarrow> InstructionInfo list \<Rightarrow> TransactionSummary \<Rightarrow> TransactionSummary c_result" where
  "print_transaction b58 env print_config infos S = do {
     (infos, S) \<leftarrow>
       (if length infos > 1 \<and> is_advance_nonce_account (infos ! 0) then do {
          nonce_info \<leftarrow> as_system (infos ! 0);
          (_, S) \<leftarrow> print_system_nonced_transaction_sentinel nonce_info print_config S;
          Some (tl infos, S) }
        else Some (infos, S));
     (rc, S) \<leftarrow> print_transaction_nonce_processed b58 env print_config infos S;
     Some (if rc \<noteq> 0 then -1 else 0, S) }"
section \<open>The contract of the pattern printers\<close>

lemma kept_pure: "(\<And>x. kept S (k x)) \<Longrightarrow> kept S (m \<bind> k)"
  by (cases m) (simp_all add: kept_def)

lemmas kept_members [keep] =
  kept_pure [where m = "as_create_account i" for i] kept_pure [where m = "as_create_account_with_seed i" for i]
  kept_pure [where m = "as_allocate_with_seed i" for i] kept_pure [where m = "as_initialize_nonce i" for i]
  kept_pure [where m = "as_system i" for i] kept_pure [where m = "as_stake i" for i]
  kept_pure [where m = "as_stake_initialize i" for i] kept_pure [where m = "as_stake_delegate i" for i]
  kept_pure [where m = "as_stake_split i" for i] kept_pure [where m = "as_stake_authorize i" for i]
  kept_pure [where m = "as_vote_initialize i" for i] kept_pure [where m = "as_vote_authorize i" for i]
  kept_pure [where m = "as_spl_token i" for i] kept_pure [where m = "as_initialize_mint i" for i]
  kept_pure [where m = "as_initialize_account i" for i] kept_pure [where m = "as_initialize_multisig i" for i]
  kept_pure [where m = "as_spl_transfer i" for i] kept_pure [where m = "as_agenc i" for i]

lemma kept_return_type [keep]: "kept S (Some (rc, transaction_summary_set_transaction_type t S))"
  by (simp add: kept_def keeps_flags)

lemma print_funding_kept [keep]: "kept S (print_funding ca c S)"
  unfolding print_funding_def by (intro keep free_slot_intros)

lemma create_kept [keep]:
  "kept S (print_create_stake_account c infos S)"
  "kept S (print_create_stake_account_with_seed c infos S)"
  "kept S (print_create_stake_account_and_delegate b58 c infos S)"
  "kept S (print_create_stake_account_with_seed_and_delegate b58 c infos S)"
  "kept S (print_create_nonce_account c infos S)"
  "kept S (print_create_nonce_account_with_seed c infos S)"
  "kept S (print_create_vote_account c infos S)"
  "kept S (print_create_vote_account_with_seed c infos S)"
  "kept S (print_spl_token_create_mint c infos S)"
  "kept S (print_spl_token_create_account c infos S)"
  "kept S (print_spl_token_create_multisig c infos S)"
  unfolding print_create_stake_account_def print_create_stake_account_with_seed_def
    print_create_stake_account_and_delegate_def print_create_stake_account_with_seed_and_delegate_def
    print_create_nonce_account_def print_create_nonce_account_with_seed_def
    print_create_vote_account_def print_create_vote_account_with_seed_def
    print_spl_token_create_mint_def print_spl_token_create_account_def print_spl_token_create_multisig_def
  by (intro keep free_slot_intros)+

lemma both_kept [keep]:
  "kept S (print_stake_authorize_both c infos S)"
  "kept S (print_vote_authorize_both c infos S)"
  unfolding print_stake_authorize_both_def print_vote_authorize_both_def
  by (intro keep free_slot_intros)+

lemma split_kept [keep]:
  "kept S (print_stake_split_with_seed c infos legacy S)"
  "kept S (print_prefunded_split c infos S)"
  "kept S (print_prefunded_split_with_seed c infos S)"
proof -
  show *: "kept S (print_stake_split_with_seed c infos legacy S)" for infos legacy S
    unfolding print_stake_split_with_seed_def
    by (cases legacy) (simp_all add: case_prod_beta, (intro keep free_slot_intros)+)
  show "kept S (print_prefunded_split c infos S)" "kept S (print_prefunded_split_with_seed c infos S)"
    unfolding print_prefunded_split_def print_prefunded_split_with_seed_def by (intro keep *)+
qed

lemma ata_transfer_kept [keep]:
  "kept S (print_spl_associated_token_account_create_with_transfer env c infos S)"
  "kept S (print_spl_token_extension_warning S)"
  unfolding print_spl_associated_token_account_create_with_transfer_def print_spl_token_extension_warning_def
  by (intro keep free_slot_intros)+

lemma print_single_kept [keep]: "kept S (print_single b58 env c info S)"
  unfolding print_single_def by (cases info) (simp_all add: keep)

lemma print_pattern_kept: "kept S (snd (print_pattern b58 env c infos fee S))"
proof -
  have "kept S (snd (print_pair b58 env c infos fee S))"
    unfolding print_pair_def by (simp add: keep)
  then show ?thesis
    by (simp add: print_pattern_def print_triple_def print_quadruple_def keep)
qed

lemma print_transaction_nonce_processed_kept [keep]:
  "kept S (print_transaction_nonce_processed b58 env c infos S)"
proof -
  have "kept S' (if fee \<noteq> 0 then do { (_, S'') \<leftarrow> print_compute_budget_max_fee fee c S'; Some (0, S'') } else Some (0, S'))"
    for fee S' by (intro keep)
  then show ?thesis
    by (auto simp: print_transaction_nonce_processed_def Let_def case_prod_beta kept_return
        intro!: kept_bail print_pattern_kept split: option.split)
qed

lemma kept_case_prod [keep]: "kept S (k a b) \<Longrightarrow> kept S (case (a, b) of (x, y) \<Rightarrow> k x y)"
  by simp

lemma kept_bind_pair_bind [keep]:
  assumes "kept S r" "\<And>rc S'. kept S' (g rc S' \<bind> f)"
  shows "kept S (r \<bind> (\<lambda>x. (case x of (rc, S') \<Rightarrow> g rc S') \<bind> f))"
proof -
  have "(\<lambda>x. (case x of (rc, S') \<Rightarrow> g rc S') \<bind> f) = (\<lambda>(rc, S'). g rc S' \<bind> f)" by auto
  then show ?thesis using kept_bind_pair [of S r "\<lambda>rc T. g rc T \<bind> f"] assms by simp
qed

lemma print_transaction_kept [keep]: "kept S (print_transaction b58 env c infos S)"
  unfolding print_transaction_def by (intro keep)

interpretation transaction: printer "print_transaction b58 env print_config infos"
  for b58 env print_config infos
  by unfold_locales (rule print_transaction_kept)
section \<open>The grammar of the transactions that are displayed\<close>

text \<open>
  The abstract specification: a transaction is an optional nonce advance, compute budget
  instructions and then either one instruction of a program with a printer or one of the patterns.
\<close>

definition is_budget :: "InstructionInfo \<Rightarrow> bool" where
  "is_budget info = (info_kind info = ProgramIdComputeBudget)"

definition known_patterns :: "InstructionBrief list list" where
  "known_patterns =
     [create_stake_account_brief, create_stake_account_checked_brief, create_stake_account_with_seed_brief,
      create_stake_account_with_seed_checked_brief, create_stake_account_and_delegate_brief,
      create_stake_account_with_seed_and_delegate_brief, stake_split_brief_v1_1,
      stake_split_with_seed_brief_v1_1, stake_split_brief_v1_2, stake_split_with_seed_brief_v1_2,
      stake_split_brief_v1_3, stake_split_with_seed_brief_v1_3, stake_authorize_both_brief,
      stake_authorize_checked_both_brief, create_nonce_account_brief, create_nonce_account_with_seed_brief,
      create_vote_account_brief, create_vote_account_with_seed_brief, vote_authorize_both_brief,
      vote_authorize_checked_both_brief, spl_token_create_mint_brief, spl_token_create_account_brief,
      spl_token_create_account2_brief, spl_token_create_multisig_brief,
      spl_associated_token_account_create_with_transfer_brief,
      spl_associated_token_account_create_with_transfer_fee_brief, agenc_create_task_with_review_brief]"

definition displayable :: "InstructionInfo list \<Rightarrow> bool" where
  "displayable infos \<longleftrightarrow>
     (\<exists>info. infos = [info] \<and> info_kind info \<in> {ProgramIdSystem, ProgramIdStake, ProgramIdVote,
        ProgramIdSplToken, ProgramIdSplAssociatedTokenAccount, ProgramIdAgenc})
     \<or> (\<exists>pattern \<in> set known_patterns. list_all2 instruction_info_matches_brief infos pattern)"

lemma matched_displayable:
  assumes "instruction_infos_match_briefs infos b (length infos)" "length infos = length b" "b \<in> set known_patterns"
  shows "displayable infos"
  using assms unfolding displayable_def
  by (intro disjI2 bexI [of _ b]) (auto simp: list_all2_conv_all_nth instruction_infos_match_briefs_def list_all_iff)

lemma pair_displayable:
  assumes "length infos = 2" "snd (print_pair b58 env c infos fee S) = Some (0, S')"
  shows "displayable infos"
proof (rule ccontr)
  assume not: "\<not> displayable infos"
  have no: "\<not> instruction_infos_match_briefs infos b 2" if "b \<in> set known_patterns" "length b = 2" for b
    using matched_displayable [of infos b] not assms(1) that by metis
  show False
    using assms(2)
    by (simp add: print_pair_def pattern_defs no known_patterns_def brief_defs del: match_two)
qed
lemma triple_displayable:
  assumes "length infos = 3" "print_triple b58 c infos S = Some (0, S')"
  shows "displayable infos"
proof (rule ccontr)
  assume not: "\<not> displayable infos"
  have no: "\<not> instruction_infos_match_briefs infos b 3" if "b \<in> set known_patterns" "length b = 3" for b
    using matched_displayable [of infos b] not assms(1) that by metis
  show False
    using assms(2) by (simp add: print_triple_def pattern_defs no known_patterns_def brief_defs del: match_three)
qed

lemma quadruple_displayable:
  assumes "length infos = 4" "print_quadruple c infos S = Some (0, S')"
  shows "displayable infos"
proof (rule ccontr)
  assume not: "\<not> displayable infos"
  have no: "\<not> instruction_infos_match_briefs infos b 4" if "b \<in> set known_patterns" "length b = 4" for b
    using matched_displayable [of infos b] not assms(1) that by metis
  show False
    using assms(2) by (simp add: print_quadruple_def pattern_defs no known_patterns_def brief_defs del: match_four)
qed

lemma pattern_displayable:
  assumes "snd (print_pattern b58 env c infos fee S) = Some (0, S')"
  shows "displayable infos"
proof (cases "length infos = 1")
  case True
  then obtain info where "infos = [info]" by (auto simp: length_Suc_conv)
  then show ?thesis
    using assms by (cases info) (simp_all add: print_pattern_def print_single_def displayable_def)
next
  case False
  then show ?thesis
    using assms pair_displayable triple_displayable quadruple_displayable
    by (simp add: print_pattern_def split: if_splits)
qed

text \<open>What a compute budget instruction contributes to the fee.\<close>

fun add_budget :: "InstructionInfo \<Rightarrow> ComputeBudgetFeeInfo \<Rightarrow> ComputeBudgetFeeInfo" where
  "add_budget (InfoComputeBudget info) fee =
     (let fee = fee\<lparr>fee_signatures_count := cb_signatures_count info\<rparr> in
      case cb_body info of
        CbChangeUnitLimit limit \<Rightarrow> fee\<lparr>fee_change_unit_limit := Some limit\<rparr>
      | CbChangeUnitPrice price \<Rightarrow> fee\<lparr>fee_change_unit_price := Some price\<rparr>
      | _ \<Rightarrow> fee)"
| "add_budget _ fee = fee"

lemma take_compute_budget_eq:
  "n \<le> length infos \<Longrightarrow> take_compute_budget n infos fee =
     (let k = min n (length (takeWhile is_budget infos)) in (drop k infos, fold add_budget (take k infos) fee))"
proof (induction n arbitrary: infos fee)
  case (Suc n)
  then obtain info rest where infos: "infos = info # rest" by (cases infos) auto
  have "n \<le> length infos" "n \<le> length rest" using Suc.prems infos by auto
  then show ?case
    using Suc.IH [of infos fee] Suc.IH [of rest "add_budget info fee"]
    by (cases info) (simp_all add: infos is_budget_def Let_def split: ComputeBudgetBody.splits)
qed simp

lemma preprocess_eq:
  assumes "length infos > 1"
  shows "preprocess_compute_budget_instructions infos =
    (dropWhile is_budget infos, fold add_budget (takeWhile is_budget infos) (no_fee (length infos)))"
proof -
  have "length (takeWhile is_budget infos) \<le> length infos" by (rule length_takeWhile_le)
  moreover have "drop (length (takeWhile is_budget infos)) infos = dropWhile is_budget infos"
    by (simp add: dropWhile_eq_drop)
  moreover have "take (length (takeWhile is_budget infos)) infos = takeWhile is_budget infos"
    by (metis takeWhile_eq_take)
  ultimately show ?thesis
    using assms take_compute_budget_eq [of "length infos" infos "no_fee (length infos)"]
    by (simp add: preprocess_compute_budget_instructions_def Let_def min_def)
qed

lemma preprocess_split:
  "\<exists>budget. infos = budget @ fst (preprocess_compute_budget_instructions infos) \<and> list_all is_budget budget"
proof (cases "length infos > 1")
  case True
  then show ?thesis
    by (intro exI [of _ "takeWhile is_budget infos"])
      (auto simp: preprocess_eq list_all_iff dest: set_takeWhileD)
qed (simp add: preprocess_compute_budget_instructions_def)

lemma nonce_processed_displayable:
  assumes "print_transaction_nonce_processed b58 env c infos S = Some (0, S')"
  shows "displayable (fst (preprocess_compute_budget_instructions infos))"
proof -
  obtain fee T where "snd (print_pattern b58 env c (fst (preprocess_compute_budget_instructions infos)) fee S) = Some (0, T)"
    using assms by (auto simp: print_transaction_nonce_processed_def Let_def case_prod_beta bail_if_def
        split: option.splits if_splits)
  then show ?thesis by (rule pattern_displayable)
qed

text \<open>C6: Only transactions of a fixed grammar are displayed for approval: an optional advance of
  a nonce, any number of compute budget instructions, and then one instruction of a known program
  or one of the listed patterns of two to four instructions. Everything else is an error, whatever
  the state of the screen and the settings.\<close>

theorem only_known_patterns_displayed:
  assumes "print_transaction b58 env c infos S = Some (0, S')"
  shows "\<exists>nonce budget rest. infos = nonce @ budget @ rest
    \<and> (nonce = [] \<or> (\<exists>x. nonce = [InfoSystem (SysAdvanceNonce x)]))
    \<and> list_all is_budget budget \<and> displayable rest"
proof -
  obtain nonce rest T where infos: "infos = nonce @ rest"
    and nonce: "nonce = [] \<or> (\<exists>x. nonce = [InfoSystem (SysAdvanceNonce x)])"
    and rest: "print_transaction_nonce_processed b58 env c rest T = Some (0, S')"
  proof (cases "length infos > 1 \<and> is_advance_nonce_account (infos ! 0)")
    case True
    then obtain x where "infos ! 0 = InfoSystem x" and "system_kind x = SystemAdvanceNonceAccount"
      by (auto simp: is_advance_nonce_account_def nonce_brief_def)
    then obtain y where "infos = [InfoSystem (SysAdvanceNonce y)] @ tl infos"
      using True by (cases infos; cases x) auto
    moreover obtain T where "print_transaction_nonce_processed b58 env c (tl infos) T = Some (0, S')"
      using assms True by (auto simp: print_transaction_def parse_success split: if_splits)
    ultimately show ?thesis using that by blast
  next
    case False
    then have "print_transaction_nonce_processed b58 env c infos S = Some (0, S')"
      using assms by (auto simp: print_transaction_def parse_success split: if_splits)
    then show ?thesis using that [of "[]" infos] by simp
  qed
  obtain budget where "rest = budget @ fst (preprocess_compute_budget_instructions rest)" "list_all is_budget budget"
    using preprocess_split by blast
  then show ?thesis
    using infos nonce nonce_processed_displayable [OF rest] by metis
qed
section \<open>Every displayed transaction has a primary item\<close>

text \<open>
  \<open>primed Q S r\<close>: when the printer returns a status in \<open>Q\<close> from a well formed screen, the primary
  item is set.
\<close>

definition primed :: "(int \<Rightarrow> bool) \<Rightarrow> TransactionSummary \<Rightarrow> TransactionSummary c_result \<Rightarrow> bool" where
  "primed Q S r \<longleftrightarrow> (screen_ok S \<longrightarrow> (\<forall>rc S'. r = Some (rc, S') \<and> Q rc \<longrightarrow> is_summary_item_used (primary S')))"

named_theorems prime "introduction rules of primed"

lemma primed_write:
  assumes "is_summary_item_used it" "\<And>T. kept T (k T)"
  shows "primed Q S (Option.bind (write_item (transaction_summary_primary_item S) it S) k)"
proof (cases "transaction_summary_primary_item S")
  case (Some slot)
  then have slot: "slot = Primary"
    by (simp add: transaction_summary_primary_item_def summary_item_as_unused_def split: if_splits)
  have "keeps (S\<lparr>primary := it\<rparr>) S'" if "k (S\<lparr>primary := it\<rparr>) = Some (rc, S')" for rc S'
    using assms(2) that by (simp add: kept_def)
  then show ?thesis
    using assms(1) by (fastforce simp: primed_def Some slot keeps_def)
qed (simp add: primed_def)

lemma primed_set [prime]:
  assumes "\<And>T. kept T (k T)"
  shows "primed Q S (Option.bind (summary_item_set_amount (transaction_summary_primary_item S) t v S) k)"
    and "primed Q S (Option.bind (summary_item_set_token_amount (transaction_summary_primary_item S) t v symb d S) k)"
    and "primed Q S (Option.bind (summary_item_set_pubkey (transaction_summary_primary_item S) t p S) k)"
    and "primed Q S (Option.bind (summary_item_set_string (transaction_summary_primary_item S) t s S) k)"
  unfolding summary_item_set_defs by (rule primed_write [OF _ assms], simp)+

lemma primed_error [prime]: "\<not> Q rc \<Longrightarrow> primed Q S (Some (rc, S))"
  by (simp add: primed_def)

lemma primed_null [prime]: "primed Q S None"
  by (simp add: primed_def)

lemma primed_pure: "(\<And>x. primed Q S (k x)) \<Longrightarrow> primed Q S (m \<bind> k)"
  by (cases m) (simp_all add: primed_def)

lemma primed_if [prime]: "(b \<Longrightarrow> primed Q S x) \<Longrightarrow> (\<not> b \<Longrightarrow> primed Q S y) \<Longrightarrow> primed Q S (if b then x else y)"
  by simp

lemma primed_first:
  assumes "primed (\<lambda>rc. rc = 0) S r" "kept S r" "\<And>T. kept T (k T)"
  shows "primed (\<lambda>rc. rc = 0) S (bail_if r k)"
  unfolding primed_def
proof (intro impI allI, elim conjE)
  fix rc S' assume *: "screen_ok S" "bail_if r k = Some (rc, S')" "rc = 0"
  then obtain T where T: "r = Some (0, T)" "k T = Some (0, S')" by (auto simp: bail_if_def split: option.splits if_splits)
  then have "is_summary_item_used (primary T)" "keeps T S'" "screen_ok T"
    using assms *(1) by (auto simp: primed_def kept_def keeps_def)
  then show "is_summary_item_used (primary S')" by (auto simp: keeps_def)
qed

lemma primed_second:
  assumes "kept S r" "\<And>T. primed (\<lambda>rc. rc = 0) T (k T)"
  shows "primed (\<lambda>rc. rc = 0) S (bail_if r k)"
  unfolding primed_def
proof (intro impI allI, elim conjE)
  fix rc S' assume *: "screen_ok S" "bail_if r k = Some (rc, S')" "rc = 0"
  then obtain T where T: "r = Some (0, T)" "k T = Some (0, S')" by (auto simp: bail_if_def split: option.splits if_splits)
  then have "screen_ok T" using assms(1) *(1) by (auto simp: kept_def keeps_def)
  then show "is_summary_item_used (primary S')" using assms(2) [of T] T by (simp add: primed_def)
qed

lemmas primed_members [prime] =
  primed_pure [where m = "as_create_account i" for i] primed_pure [where m = "as_create_account_with_seed i" for i]
  primed_pure [where m = "as_allocate_with_seed i" for i] primed_pure [where m = "as_initialize_nonce i" for i]
  primed_pure [where m = "as_system i" for i] primed_pure [where m = "as_stake i" for i]
  primed_pure [where m = "as_stake_initialize i" for i] primed_pure [where m = "as_stake_delegate i" for i]
  primed_pure [where m = "as_stake_split i" for i] primed_pure [where m = "as_stake_authorize i" for i]
  primed_pure [where m = "as_vote_initialize i" for i] primed_pure [where m = "as_vote_authorize i" for i]
  primed_pure [where m = "as_spl_token i" for i] primed_pure [where m = "as_initialize_mint i" for i]
  primed_pure [where m = "as_initialize_account i" for i] primed_pure [where m = "as_initialize_multisig i" for i]
  primed_pure [where m = "as_spl_transfer i" for i] primed_pure [where m = "as_agenc i" for i]
  primed_pure [where m = "get_token_symbol env i b" for env i b]
lemma primed_bind_bind [prime]: "primed Q S (a \<bind> (\<lambda>x. b x \<bind> k)) \<Longrightarrow> primed Q S ((a \<bind> b) \<bind> k)"
  by simp

lemma print_system_info_primed: "primed Q S (print_system_info info c S)"
  by (cases info; simp only: print_system_info_def SystemInfo.case option.case
      print_system_transfer_info_def print_system_create_account_info_def
      print_system_create_account_with_seed_info_def print_system_advance_nonce_account_def
      print_system_initialize_nonce_info_def print_system_withdraw_nonce_info_def
      print_system_authorize_nonce_info_def print_system_allocate_info_def print_system_assign_info_def
      print_system_allocate_with_seed_info_def)
    (intro prime keep free_slot_intros)+

lemma print_stake_info_primed: "primed (\<lambda>rc. rc = 0) S (print_stake_info b58 info c S)"
  by (cases info; simp only: print_stake_info_def StakeInfo.case option.case
      print_delegate_stake_info_def print_stake_withdraw_info_def print_stake_authorize_info_def
      print_stake_deactivate_info_def print_stake_set_lockup_info_def print_stake_merge_info_def
      print_stake_initialize_info_def print_stake_split_info_def print_stake_split_info1_def Let_def)
    (intro primed_first prime keep free_slot_intros)+

lemma print_vote_info_primed: "primed Q S (print_vote_info info c S)"
  by (cases info; simp only: print_vote_info_def VoteInfo.case option.case
      print_vote_initialize_info_def print_vote_withdraw_info_def print_vote_authorize_info_def
      print_vote_update_validator_id_info_def print_vote_update_commission_info_def Let_def)
    (intro prime keep free_slot_intros)+

lemma primed_Let [prime]: "primed Q S (k v) \<Longrightarrow> primed Q S (Let v k)"
  by simp

lemma print_transfer_primed: "primed Q S (print_spl_token_transfer_info env t c k True S)"
  unfolding print_spl_token_transfer_info_def if_True
  by (intro prime keep kept_Let_plain free_slot_intros)

lemma print_spl_token_info_primed: "primed (\<lambda>rc. rc = 0) S (print_spl_token_info env info c S)"
  by (cases "spl_body info"; simp only: print_spl_token_info_def SplTokenBody.case option.case
      print_spl_token_initialize_mint_info_def print_spl_token_initialize_account_info_def
      print_spl_token_initialize_multisig_info_def print_spl_token_approve_info_def
      print_spl_token_revoke_info_def print_spl_token_set_authority_info_def print_spl_token_mint_to_info_def
      print_spl_token_burn_info_def print_spl_token_close_account_info_def print_spl_token_freeze_account_info_def
      print_spl_token_thaw_account_info_def print_spl_token_sync_native_info_def Let_def print_transfer_primed)
    ((intro prime keep kept_Let_plain free_slot_intros)+, simp)
lemma set_primary_action_primed: "primed (\<lambda>rc. rc = 0) S (set_primary_action a S)"
  unfolding set_primary_action_def Let_def
  by (intro prime keep; simp)

lemma run_all_primed:
  assumes "\<forall>f \<in> set fs. \<forall>T. kept T (f T)"
  shows "primed (\<lambda>rc. rc = 0) S (run_all (set_primary_action a # fs) S)"
  using assms by (simp only: run_all.simps) (intro primed_first set_primary_action_primed keep kept_run_all, simp)

lemma print_agenc_info_primed: "primed (\<lambda>rc. rc = 0) S (print_agenc_info info S)"
  unfolding print_agenc_info_def Let_def
  by (cases "agenc_body info"; simp only: AgencBody.case agenc_printers(2-) append_Cons append_Nil;
      rule run_all_primed;
      fastforce simp: print_create_task_fields_ok general_setters_kept split: option.splits if_splits)

lemma print_agenc_pair_primed: "primed (\<lambda>rc. rc = 0) S (print_agenc_create_task_with_review_info a b S)"
  unfolding print_agenc_create_task_with_review_info_def
  by (auto split: AgencBody.split intro!: run_all_primed prime
      simp: print_create_task_fields_ok general_setters_kept simp del: run_all.simps)

lemma print_token_account_primed: "primed Q S (print_spl_associated_token_account_info info c S)"
  unfolding print_spl_associated_token_account_info_def print_spl_associated_token_account_create_info_def
  by (intro prime keep free_slot_intros)

lemma create_primed:
  "primed Q S (print_create_stake_account c infos S)"
  "primed Q S (print_create_stake_account_with_seed c infos S)"
  "primed Q S (print_create_stake_account_and_delegate b58 c infos S)"
  "primed Q S (print_create_stake_account_with_seed_and_delegate b58 c infos S)"
  "primed Q S (print_create_nonce_account c infos S)"
  "primed Q S (print_create_nonce_account_with_seed c infos S)"
  "primed Q S (print_create_vote_account c infos S)"
  "primed Q S (print_create_vote_account_with_seed c infos S)"
  "primed Q S (print_spl_token_create_mint c infos S)"
  "primed Q S (print_spl_token_create_account c infos S)"
  "primed Q S (print_spl_token_create_multisig c infos S)"
  unfolding print_create_stake_account_def print_create_stake_account_with_seed_def
    print_create_stake_account_and_delegate_def print_create_stake_account_with_seed_and_delegate_def
    print_create_nonce_account_def print_create_nonce_account_with_seed_def
    print_create_vote_account_def print_create_vote_account_with_seed_def
    print_spl_token_create_mint_def print_spl_token_create_account_def print_spl_token_create_multisig_def
  by (intro prime keep free_slot_intros)+

lemma both_primed:
  "primed (\<lambda>rc. rc = 0) S (print_stake_authorize_both c infos S)"
  "primed (\<lambda>rc. rc = 0) S (print_vote_authorize_both c infos S)"
  unfolding print_stake_authorize_both_def print_vote_authorize_both_def
  by (intro prime keep free_slot_intros; simp)+

lemma split_primed:
  "primed (\<lambda>rc. rc = 0) S (print_stake_split_with_seed c infos legacy S)"
  "primed (\<lambda>rc. rc = 0) S (print_prefunded_split c infos S)"
  "primed (\<lambda>rc. rc = 0) S (print_prefunded_split_with_seed c infos S)"
proof -
  show *: "primed (\<lambda>rc. rc = 0) S (print_stake_split_with_seed c infos legacy S)" for infos legacy S
    unfolding print_stake_split_with_seed_def print_stake_split_info1_def
    by (cases legacy; simp only: if_True if_False Let_def bind_assoc; simp; intro primed_first prime keep free_slot_intros)
  show "primed (\<lambda>rc. rc = 0) S (print_prefunded_split c infos S)"
    "primed (\<lambda>rc. rc = 0) S (print_prefunded_split_with_seed c infos S)"
    unfolding print_prefunded_split_def print_prefunded_split_with_seed_def print_stake_split_info_def
      print_stake_split_info1_def
    by (intro primed_second primed_members primed_first prime keep free_slot_intros *)+
qed
lemma print_single_primed: "primed (\<lambda>rc. rc = 0) S (print_single b58 env c info S)"
  unfolding print_single_def
  by (cases info) (simp_all add: print_system_info_primed print_stake_info_primed print_vote_info_primed
      print_spl_token_info_primed print_token_account_primed print_agenc_info_primed primed_error)

lemma ata_transfer_primed:
  "primed Q S (print_spl_associated_token_account_create_with_transfer env c infos S)"
proof -
  have "primed Q S (print_spl_token_transfer_info env t c k True S \<bind> (\<lambda>x. case x of (_, S) \<Rightarrow> Some (0, S)))" for t k
    using print_transfer_primed [of "\<lambda>rc. True" S env t c k]
    by (auto simp: primed_def parse_success)
  then show ?thesis
    unfolding print_spl_associated_token_account_create_with_transfer_def by (intro prime)
qed

lemma print_pattern_primed: "primed (\<lambda>rc. rc = 0) S (snd (print_pattern b58 env c infos fee S))"
proof -
  have "primed (\<lambda>rc. rc = 0) S (snd (print_pair b58 env c infos fee S))"
    unfolding print_pair_def
    by (simp add: create_primed both_primed split_primed ata_transfer_primed print_agenc_pair_primed
        print_stake_info_primed primed_error primed_members)
  moreover have "primed (\<lambda>rc. rc = 0) S (print_triple b58 c infos S)"
    unfolding print_triple_def
    by (simp add: create_primed split_primed print_stake_info_primed primed_error primed_members)
  moreover have "primed (\<lambda>rc. rc = 0) S (print_quadruple c infos S)"
    unfolding print_quadruple_def by (simp add: split_primed primed_error)
  ultimately show ?thesis
    by (simp add: print_pattern_def print_single_primed primed_error)
qed

lemma print_transaction_nonce_processed_primed:
  "primed (\<lambda>rc. rc = 0) S (print_transaction_nonce_processed b58 env c infos S)"
proof -
  have last: "kept S' (if fee \<noteq> 0 then do { (_, S'') \<leftarrow> print_compute_budget_max_fee fee c S'; Some (0, S'') } else Some (0, S'))"
    for fee S' by (intro keep)
  show ?thesis
    by (auto simp: print_transaction_nonce_processed_def Let_def case_prod_beta
        intro!: primed_first print_pattern_primed print_pattern_kept last prime split: option.split)
qed

text \<open>C20: A transaction that is accepted for display has its primary item set, so finalising the
  summary succeeds: no transaction is accepted and then found to have nothing to show. The screens
  are those of the items in use, the primary one first.\<close>

theorem displayed_transaction_finalizes:
  assumes "screen_ok S" "print_transaction b58 env c infos S = Some (0, S')"
  shows "is_summary_item_used (primary S')
    \<and> transaction_summary_finalize S' = Some (map (\<lambda>it. item_kind (item_value it)) (shown S'))
    \<and> hd (shown S') = primary S'"
proof -
  obtain rest T where T: "screen_ok T" "print_transaction_nonce_processed b58 env c rest T = Some (0, S')"
  proof (cases "length infos > 1 \<and> is_advance_nonce_account (infos ! 0)")
    case True
    then obtain rc T info where "print_transaction_nonce_processed b58 env c (tl infos) T = Some (0, S')"
      and "print_system_nonced_transaction_sentinel info c S = Some (rc, T)"
      using assms by (auto simp: print_transaction_def parse_success split: if_splits)
    then show ?thesis
      using that [of T "tl infos"] system_nonce.well_formed [OF assms(1)] by blast
  next
    case False
    then show ?thesis
      using assms that [of S infos] by (auto simp: print_transaction_def parse_success split: if_splits)
  qed
  then have "is_summary_item_used (primary S')"
    using print_transaction_nonce_processed_primed [of T b58 env c rest] by (simp add: primed_def)
  then show ?thesis by (simp add: finalize_shown shown_def)
qed
section \<open>The fee is the last item\<close>

lemma max_fee_bounds:
  assumes "fee_signatures_count info < 4294967296" "fee_instructions_count info < 4294967296"
    and "calculate_max_fee info = Some f"
  shows "unat f \<le> 5000 * fee_signatures_count info + UINT64_MAX div 1000000"
    and "5000 * fee_signatures_count info \<le> unat f"
proof -
  have *: "unat (of_nat n :: u64) = n" if "n \<le> UINT64_MAX" for n
    using that by (simp add: unat_of_nat_u64 UINT64_MAX_def)
  have small: "5000 * fee_signatures_count info \<le> UINT64_MAX"
    using assms(1) by (simp add: UINT64_MAX_def)
  obtain n where "f = of_nat n" "n \<le> UINT64_MAX" "5000 * fee_signatures_count info \<le> n"
    "n \<le> 5000 * fee_signatures_count info + UINT64_MAX div 1000000"
    using assms(3) small div_le_mono [of _ UINT64_MAX 1000000]
    unfolding max_fee_calc [OF assms(1)]
    by (auto simp: Let_def simp del: of_nat_add of_nat_mult split: option.splits if_splits)
  then have "unat f \<le> 5000 * fee_signatures_count info + UINT64_MAX div 1000000
      \<and> 5000 * fee_signatures_count info \<le> unat f"
    by (simp add: *)
  then show "unat f \<le> 5000 * fee_signatures_count info + UINT64_MAX div 1000000"
    "5000 * fee_signatures_count info \<le> unat f" by simp_all
qed

lemma pattern_fee:
  "fst (print_pattern b58 env c infos fee S) = fee
   \<or> fst (print_pattern b58 env c infos fee S) = fee + ata_rent \<and> length infos = 2
      \<and> (is_spl_associated_token_account_create_with_transfer infos 2
          \<or> is_spl_associated_token_account_create_with_transfer_fee infos 2)"
  by (simp add: print_pattern_def print_pair_def)

lemma max_fee_item:
  assumes "screen_ok T" "print_compute_budget_max_fee f c T = Some (rc, S')"
  shows "filled S' = filled T @ [\<lparr>item_title = ''Max fees'', item_value = ItemAmount f\<rparr>]"
  using assms set_general(1) [OF assms(1)]
  by (cases "length (filled T) < 11")
    (auto simp: print_compute_budget_max_fee_def parse_success summary_item_set_defs
      general_full [OF assms(1)] write_general_ok split: if_splits)

text \<open>When the compute unit limit or price of a transaction is set, a transaction that is displayed
  has the largest fee as its last general item: the fee of the signatures and compute units, plus the rent
  of the new account exactly when the transaction creates an associated token account and transfers
  to it. The sum cannot wrap, so the amount shown is never less than the fee.\<close>

theorem max_fee_displayed:
  assumes "preprocess_compute_budget_instructions infos = (rest, fee)"
    and "fee_change_unit_limit fee \<noteq> None \<or> fee_change_unit_price fee \<noteq> None"
    and "0 < fee_signatures_count fee" "fee_signatures_count fee < 4294967296"
    and "fee_instructions_count fee < 4294967296"
    and "screen_ok S" "print_transaction_nonce_processed b58 env c infos S = Some (0, S')"
  shows "\<exists>items f shown_fee. calculate_max_fee fee = Some f
    \<and> filled S' = items @ [\<lparr>item_title = ''Max fees'', item_value = ItemAmount shown_fee\<rparr>]
    \<and> (unat shown_fee = unat f \<or> unat shown_fee = unat f + 2039280
          \<and> length rest = 2 \<and> info_kind (rest ! 0) = ProgramIdSplAssociatedTokenAccount)"
proof -
  obtain f where f: "calculate_max_fee fee = Some f"
    using assms(1,2,7) by (auto simp: print_transaction_nonce_processed_def split: option.splits)
  define g where "g = fst (print_pattern b58 env c rest f S)"
  note bounds = max_fee_bounds [OF assms(4,5) f]
  have "unat (f + ata_rent) = unat f + 2039280"
    using bounds(1) assms(4) by (subst unat_add_u64) (simp_all add: ata_rent_def UINT64_MAX_def)
  then have g: "unat g = unat f \<or> unat g = unat f + 2039280
      \<and> length rest = 2 \<and> info_kind (rest ! 0) = ProgramIdSplAssociatedTokenAccount"
    using pattern_fee [of b58 env c rest f S] unfolding g_def [symmetric]
    by (auto simp: is_spl_associated_token_account_create_with_transfer_def
        is_spl_associated_token_account_create_with_transfer_fee_def brief_defs)
  then have "g \<noteq> 0" using bounds(2) assms(3) by auto
  then obtain T where "print_pattern b58 env c rest f S = (g, Some (0, T))"
    and last: "print_compute_budget_max_fee g c T = Some (0, S')"
    using assms(1,2,7) f
    by (auto simp: print_transaction_nonce_processed_def Let_def case_prod_beta g_def bail_if_def
        parse_success prod_eq_iff print_compute_budget_max_fee_def split: option.splits if_splits)
  then have "screen_ok T"
    using print_pattern_kept [of S b58 env c rest f] assms(6) by (simp add: kept_def keeps_def)
  then show ?thesis using max_fee_item [OF _ last] g f by blast
qed
section \<open>What the patterns leave out\<close>

text \<open>C37: A task and its review fill all eleven general items when the task is paid in tokens and has
  a task type. Accepted with a compute unit price, the printer of the fee then asks for a twelfth
  item, gets a null pointer and writes through it: the run is undefined (None in the model) for every
  such transaction.\<close>

theorem full_screen_fee_writes_null:
  assumes "agenc_body c = AgencCreateTask t" "agenc_body v = AgencConfigureTaskValidation u"
    and "pubkeys_equal (ct_task t) (cv_task u)" "pubkeys_equal (ct_creator t) (cv_creator u)"
    and "cv_mode u = 1" "cv_validator_quorum u = 0" "cv_attestor u = None"
    and "ct_reward_mint t = Some mint" "ct_task_type t \<noteq> 0"
    and "cb_body budget = CbChangeUnitPrice price"
    and "0 < cb_signatures_count budget" "cb_signatures_count budget < 4294967296"
    and "calculate_max_fee (add_budget (InfoComputeBudget budget) (no_fee 3)) = Some f"
    and "screen_ok S" "filled S = []" "\<not> is_summary_item_used (primary S)"
  shows "print_transaction b58 env cfg [InfoComputeBudget budget, InfoAgenc c, InfoAgenc v] S = None"
proof -
  let ?pair = "[InfoAgenc c, InfoAgenc v]"
  define fee where "fee = add_budget (InfoComputeBudget budget) (no_fee 3)"
  have pre: "preprocess_compute_budget_instructions (InfoComputeBudget budget # ?pair) = (?pair, fee)"
    by (subst preprocess_eq) (simp_all add: is_budget_def fee_def eval_nat_numeral del: add_budget.simps)
  have price: "fee_change_unit_price fee = Some price" using assms(10) by (simp add: fee_def Let_def)
  note f = assms(13) [folded fee_def]
  let ?items = "create_task_items (agenc_program_id c) t @ [inum ''Review window'' (cv_review_window_secs u)]"
  have items: "length ?items = 11" "list_all is_summary_item_used ?items"
    using assms(8,9) by (simp_all add: create_task_items_def item_makers)
  have kinds: "agenc_kind (agenc_body c) = AgencInstructionCreateTask"
    "agenc_kind (agenc_body v) = AgencInstructionConfigureTaskValidation"
    using assms(1,2) by simp_all
  have pair: "print_pattern b58 env cfg ?pair f S
      = (f, Some (0, (agenc_action ''Create task'' S)\<lparr>general := pad ?items\<rparr>))"
    using assms kinds agenc_pair_eval [OF assms(14-16,1,2)]
    by (simp add: print_pattern_def print_pair_def pattern_defs brief_defs union_members)
  have "f \<noteq> 0"
    using max_fee_bounds(2) [OF _ _ f] assms(10-12) by (auto simp: fee_def no_fee_def Let_def)
  moreover have "transaction_summary_general_item ((agenc_action ''Create task'' S)\<lparr>general := pad ?items\<rparr>) = None"
    using items by (intro general_full) (simp_all add: screen_ok_general11 list_all_iff)
  ultimately show ?thesis
    using price f pair
    by (simp add: print_transaction_def is_advance_nonce_account_def brief_defs
        print_transaction_nonce_processed_def pre Let_def print_compute_budget_max_fee_def summary_item_set_defs)
qed

text \<open>The general items of the patterns that change both authorities of an account and of the one
  that creates a stake account.\<close>

definition authority_items ::
    "PrintConfig \<Rightarrow> string \<Rightarrow> byte_ptr \<Rightarrow> byte_ptr \<Rightarrow> byte_ptr option \<Rightarrow> byte_ptr \<Rightarrow> SummaryItem list" where
  "authority_items cfg title first second custodian authority =
     (if first = second then item_when True ''New authorities'' (ItemPubkey first)
      else item_when True title (ItemPubkey first) @ item_when True ''New withdraw auth'' (ItemPubkey second))
     @ (case custodian of Some c \<Rightarrow> item_when True ''Custodian'' (ItemPubkey c) | None \<Rightarrow> [])
     @ item_when (print_config_show_authority cfg authority) ''Authorized by'' (ItemPubkey authority)"

definition lockup_items :: "PrintConfig \<Rightarrow> StakeLockup \<Rightarrow> SummaryItem list" where
  "lockup_items cfg lockup =
     (let time = 0 < sint (lockup_unix_timestamp lockup); epoch = 0 < lockup_epoch lockup in
      item_when time ''Lockup time'' (ItemTimestamp (lockup_unix_timestamp lockup))
      @ item_when epoch ''Lockup epoch'' (ItemU64 (lockup_epoch lockup))
      @ item_when (time \<or> epoch) ''Lockup authority'' (ItemPubkey (lockup_custodian lockup))
      @ item_when (\<not> time \<and> \<not> epoch \<and> expert_mode cfg) ''Lockup'' (ItemString ''None''))"

definition new_stake_account_items ::
    "PrintConfig \<Rightarrow> SystemCreateAccountInfo \<Rightarrow> StakeInitializeInfo \<Rightarrow> SummaryItem list" where
  "new_stake_account_items cfg c y =
     item_when True ''Deposit'' (ItemAmount (create_lamports c))
     @ item_when (print_config_show_authority cfg (create_from c)) ''From'' (ItemPubkey (create_from c))
     @ (if pubkeys_equal (stake_init_withdraw_authority y) (stake_init_stake_authority y)
        then item_when True ''New authority'' (ItemPubkey (stake_init_stake_authority y))
        else item_when True ''New stake auth'' (ItemPubkey (stake_init_stake_authority y))
          @ item_when True ''New withdraw auth'' (ItemPubkey (stake_init_withdraw_authority y)))
     @ lockup_items cfg (stake_init_lockup y)"

text \<open>A pair that no compute budget instruction and no nonce precedes is printed as its pattern.\<close>

lemma print_transaction_pair:
  assumes "\<not> is_budget i" "\<not> is_budget j" "\<not> is_advance_nonce_account i"
    and "print_pair b58 env cfg [i, j] 0 S = (0, Some (0, S'))"
  shows "print_transaction b58 env cfg [i, j] S = Some (0, S')"
proof -
  have "preprocess_compute_budget_instructions [i, j] = ([i, j], no_fee 2)"
    by (subst preprocess_eq) (simp_all add: assms(1,2) numeral_2_eq_2)
  then show ?thesis using assms(3,4)
    by (simp add: print_transaction_def print_transaction_nonce_processed_def no_fee_def print_pattern_def
        bail_if_def)
qed

lemma stake_authorities_screen:
  assumes "screen_ok S" "filled S = []" "\<not> is_summary_item_used (primary S)"
    and "stake \<in> {StkAuthorize, StkAuthorizeChecked}"
    and "stake_auth_authorize w = StakeAuthorizeStaker" "stake_auth_authorize w' = StakeAuthorizeWithdrawer"
  shows "print_transaction b58 env cfg [InfoStake (stake w), InfoStake (stake w')] S
    = Some (0, S\<lparr>primary := \<lparr>item_title = ''Set stake auth'', item_value = ItemPubkey (stake_auth_account w)\<rparr>,
        general := pad (authority_items cfg ''New stake auth'' (stake_auth_new_authority w)
          (stake_auth_new_authority w') (stake_auth_custodian w') (stake_auth_authority w'))\<rparr>)"
proof (rule print_transaction_pair)
  show "print_pair b58 env cfg [InfoStake (stake w), InfoStake (stake w')] 0 S
    = (0, Some (0, S\<lparr>primary := \<lparr>item_title = ''Set stake auth'', item_value = ItemPubkey (stake_auth_account w)\<rparr>,
        general := pad (authority_items cfg ''New stake auth'' (stake_auth_new_authority w)
          (stake_auth_new_authority w') (stake_auth_custodian w') (stake_auth_authority w'))\<rparr>))"
    using assms
    by (cases "stake_auth_custodian w'")
      (auto simp: print_pair_def pattern_defs brief_defs print_stake_authorize_both_def union_members
        authority_items_def item_when_def screen_eval)
qed (use assms(4) in \<open>auto simp: is_budget_def is_advance_nonce_account_def brief_defs\<close>)

lemma vote_authorities_screen:
  assumes "screen_ok S" "filled S = []" "\<not> is_summary_item_used (primary S)"
    and "vote \<in> {VotAuthorize, VotAuthorizeChecked}"
    and "vote_auth_authorize v = VoteAuthorizeVoter" "vote_auth_authorize v' = VoteAuthorizeWithdrawer"
  shows "print_transaction b58 env cfg [InfoVote (vote v), InfoVote (vote v')] S
    = Some (0, S\<lparr>primary := \<lparr>item_title = ''Set vote auth'', item_value = ItemPubkey (vote_auth_account v)\<rparr>,
        general := pad (authority_items cfg ''New vote auth'' (vote_auth_new_authority v)
          (vote_auth_new_authority v') None (vote_auth_authority v'))\<rparr>)"
proof (rule print_transaction_pair)
  show "print_pair b58 env cfg [InfoVote (vote v), InfoVote (vote v')] 0 S
    = (0, Some (0, S\<lparr>primary := \<lparr>item_title = ''Set vote auth'', item_value = ItemPubkey (vote_auth_account v)\<rparr>,
        general := pad (authority_items cfg ''New vote auth'' (vote_auth_new_authority v)
          (vote_auth_new_authority v') None (vote_auth_authority v'))\<rparr>))"
    using assms
    by (auto simp: print_pair_def pattern_defs brief_defs print_vote_authorize_both_def union_members
        authority_items_def item_when_def screen_eval)
qed (use assms(4) in \<open>auto simp: is_budget_def is_advance_nonce_account_def brief_defs\<close>)

lemma new_stake_account_screen:
  assumes "screen_ok S" "filled S = []" "\<not> is_summary_item_used (primary S)"
    and "init \<in> {StkInitialize, StkInitializeChecked}"
  shows "print_transaction b58 env cfg [InfoSystem (SysCreateAccount c), InfoStake (init y)] S
    = Some (0, S\<lparr>primary := \<lparr>item_title = ''Create stake acct'', item_value = ItemPubkey (create_to c)\<rparr>,
        general := pad (new_stake_account_items cfg c y)\<rparr>)"
proof (rule print_transaction_pair)
  show "print_pair b58 env cfg [InfoSystem (SysCreateAccount c), InfoStake (init y)] 0 S
    = (0, Some (0, S\<lparr>primary := \<lparr>item_title = ''Create stake acct'', item_value = ItemPubkey (create_to c)\<rparr>,
        general := pad (new_stake_account_items cfg c y)\<rparr>))"
    using assms
    by (auto simp: print_pair_def pattern_defs brief_defs print_create_stake_account_def union_members
        print_system_create_account_info_def print_stake_initialize_info_def bail_if_def Let_def
        new_stake_account_items_def lockup_items_def item_when_def screen_eval)
qed (use assms(4) in \<open>auto simp: is_budget_def is_advance_nonce_account_def brief_defs\<close>)

text \<open>C38: The whole screens of three patterns, in both variants of their instructions, for every print
  configuration. The pairs that set both authorities of a stake or of a vote account show as the account
  the one of the first instruction, the two new authorities (as one item when they are the same account of
  the message) and, of the second instruction, its custodian and, when it is not hidden, its signer;
  the account of the second instruction is on no item. The pair that creates and initialises a stake
  account shows the created account with its deposit, its payer, the authorities and the lockup; the account
  that is initialised is on no item. In none of them does the code require the two accounts to be the same.\<close>

theorem pattern_screens_hide_accounts:
  assumes "screen_ok S" "filled S = []" "\<not> is_summary_item_used (primary S)"
    and "stake \<in> {StkAuthorize, StkAuthorizeChecked}"
    and "stake_auth_authorize w = StakeAuthorizeStaker" "stake_auth_authorize w' = StakeAuthorizeWithdrawer"
    and "vote \<in> {VotAuthorize, VotAuthorizeChecked}"
    and "vote_auth_authorize v = VoteAuthorizeVoter" "vote_auth_authorize v' = VoteAuthorizeWithdrawer"
    and "init \<in> {StkInitialize, StkInitializeChecked}"
  shows "print_transaction b58 env cfg
        [InfoStake (stake w), InfoStake (stake (w'\<lparr>stake_auth_account := a\<rparr>))] S
      = Some (0, S\<lparr>primary := \<lparr>item_title = ''Set stake auth'', item_value = ItemPubkey (stake_auth_account w)\<rparr>,
          general := pad (authority_items cfg ''New stake auth'' (stake_auth_new_authority w)
            (stake_auth_new_authority w') (stake_auth_custodian w') (stake_auth_authority w'))\<rparr>)
    \<and> print_transaction b58 env cfg
        [InfoVote (vote v), InfoVote (vote (v'\<lparr>vote_auth_account := a\<rparr>))] S
      = Some (0, S\<lparr>primary := \<lparr>item_title = ''Set vote auth'', item_value = ItemPubkey (vote_auth_account v)\<rparr>,
          general := pad (authority_items cfg ''New vote auth'' (vote_auth_new_authority v)
            (vote_auth_new_authority v') None (vote_auth_authority v'))\<rparr>)
    \<and> print_transaction b58 env cfg
        [InfoSystem (SysCreateAccount c), InfoStake (init (y\<lparr>stake_init_account := a\<rparr>))] S
      = Some (0, S\<lparr>primary := \<lparr>item_title = ''Create stake acct'', item_value = ItemPubkey (create_to c)\<rparr>,
          general := pad (new_stake_account_items cfg c y)\<rparr>)"
  using assms
  by (simp add: stake_authorities_screen vote_authorities_screen new_stake_account_screen
      new_stake_account_items_def)

section \<open>Witnesses\<close>

definition sample_config :: PrintConfig where
  "sample_config = \<lparr>config_header = sample_agenc_header, expert_mode = False, force_full_print = False,
     user_input_is_ata_or_token_account = False, signer_pubkey = Ptr 0 [1]\<rparr>"

definition sample_price :: InstructionInfo where
  "sample_price = InfoComputeBudget \<lparr>cb_signatures_count = 1, cb_body = CbChangeUnitPrice \<lparr>unit_price_units = 3\<rparr>\<rparr>"

definition sample_infos :: "InstructionInfo list" where
  "sample_infos = [sample_price,
     InfoSystem (SysTransfer \<lparr>transfer_from = Ptr 0 [1], transfer_to = Ptr 0 [2], transfer_lamports = 7\<rparr>)]"

lemma sample_fee: "calculate_max_fee (add_budget sample_price (no_fee n)) \<noteq> None"
  if "n < 4294967296" for n
  using that
  by (subst max_fee_calc) (auto simp: sample_price_def no_fee_def Let_def fee_units_def UINT64_MAX_def)
lemma sample_preprocess:
  "preprocess_compute_budget_instructions sample_infos = (tl sample_infos, add_budget sample_price (no_fee 2))"
  by (subst preprocess_eq) (simp_all add: sample_infos_def sample_price_def is_budget_def numeral_2_eq_2)

lemma sample_displayed:
  "\<exists>S'. print_transaction_nonce_processed b58 env sample_config sample_infos transaction_summary_reset = Some (0, S')"
proof -
  obtain f where "calculate_max_fee (add_budget sample_price (no_fee 2)) = Some f" using sample_fee [of 2] by auto
  moreover have "fee_change_unit_price (add_budget sample_price (no_fee 2)) \<noteq> None"
    by (simp add: sample_price_def Let_def)
  moreover have "print_pattern b58 env sample_config (tl sample_infos) f transaction_summary_reset
      = (f, Some (0, transaction_summary_reset\<lparr>transaction_type := TRANSACTION_TYPE_SOL_TRANSFER,
          primary := \<lparr>item_title = ''Amount'', item_value = ItemAmount 7\<rparr>,
          general := pad [\<lparr>item_title = ''To'', item_value = ItemPubkey (Ptr 0 [2])\<rparr>]\<rparr>))"
    by (simp add: print_pattern_def print_single_def sample_infos_def print_system_info_def
        print_system_transfer_info_def screen_eval sample_config_def print_config_show_authority_def pubkeys_equal_def)
  ultimately show ?thesis
    by (auto simp: print_transaction_nonce_processed_def sample_preprocess print_compute_budget_max_fee_def
        screen_eval)
qed

lemma sample_transaction_displayed:
  "\<exists>S'. print_transaction b58 env sample_config sample_infos transaction_summary_reset = Some (0, S')"
  using sample_displayed [of b58 env]
  by (auto simp: print_transaction_def sample_infos_def sample_price_def is_advance_nonce_account_def brief_defs)

theorem only_known_patterns_displayed_witness:
  "\<forall>b58 env. \<exists>nonce budget rest. sample_infos = nonce @ budget @ rest \<and> displayable rest"
  using only_known_patterns_displayed sample_transaction_displayed by metis

theorem displayed_transaction_finalizes_witness:
  "\<forall>b58 env. \<exists>S'. print_transaction b58 env sample_config sample_infos transaction_summary_reset = Some (0, S')
     \<and> transaction_summary_finalize S' \<noteq> None"
  using displayed_transaction_finalizes [OF screen_ok_reset] sample_transaction_displayed by fastforce

theorem max_fee_displayed_witness:
  "\<forall>b58 env. \<exists>S' items shown_fee.
     print_transaction_nonce_processed b58 env sample_config sample_infos transaction_summary_reset = Some (0, S')
     \<and> filled S' = items @ [\<lparr>item_title = ''Max fees'', item_value = ItemAmount shown_fee\<rparr>]"
proof (intro allI)
  fix b58 env
  obtain S' where S': "print_transaction_nonce_processed b58 env sample_config sample_infos transaction_summary_reset = Some (0, S')"
    using sample_displayed by blast
  show "\<exists>S' items shown_fee.
     print_transaction_nonce_processed b58 env sample_config sample_infos transaction_summary_reset = Some (0, S')
     \<and> filled S' = items @ [\<lparr>item_title = ''Max fees'', item_value = ItemAmount shown_fee\<rparr>]"
    using max_fee_displayed [OF sample_preprocess _ _ _ _ screen_ok_reset S'] S'
    by (auto simp: sample_price_def no_fee_def Let_def)
qed

theorem full_screen_fee_writes_null_witness:
  "\<forall>b58 env. print_transaction b58 env sample_config
     [sample_price, InfoAgenc \<lparr>agenc_program_id = Ptr 0 [], agenc_body = AgencCreateTask sample_task\<rparr>,
      InfoAgenc \<lparr>agenc_program_id = Ptr 0 [], agenc_body = AgencConfigureTaskValidation sample_review\<rparr>]
     transaction_summary_reset = None"
proof -
  obtain f where f: "calculate_max_fee (add_budget sample_price (no_fee 3)) = Some f" using sample_fee [of 3] by auto
  show ?thesis
    unfolding sample_price_def
    by (intro allI, rule full_screen_fee_writes_null [where t = sample_task and u = sample_review and f = f])
      (use f in \<open>simp_all add: sample_price_def sample_task_def sample_review_def pubkeys_equal_def del: add_budget.simps\<close>)
qed

text \<open>The authorities of account 2 and the withdrawer of account 6 in one transaction: account 6 is not shown.\<close>

theorem pattern_screens_hide_accounts_witness:
  "\<forall>b58 env. print_transaction b58 env sample_config
     [InfoStake (StkAuthorize \<lparr>stake_auth_account = Ptr 2 [2], stake_auth_authority = Ptr 3 [3],
        stake_auth_new_authority = Ptr 4 [4], stake_auth_custodian = None,
        stake_auth_authorize = StakeAuthorizeStaker\<rparr>),
      InfoStake (StkAuthorize \<lparr>stake_auth_account = Ptr 6 [6], stake_auth_authority = Ptr 3 [3],
        stake_auth_new_authority = Ptr 4 [4], stake_auth_custodian = None,
        stake_auth_authorize = StakeAuthorizeWithdrawer\<rparr>)] transaction_summary_reset
     = Some (0, transaction_summary_reset\<lparr>
         primary := \<lparr>item_title = ''Set stake auth'', item_value = ItemPubkey (Ptr 2 [2])\<rparr>,
         general := pad [\<lparr>item_title = ''New authorities'', item_value = ItemPubkey (Ptr 4 [4])\<rparr>,
           \<lparr>item_title = ''Authorized by'', item_value = ItemPubkey (Ptr 3 [3])\<rparr>]\<rparr>)"
  using pattern_screens_hide_accounts [of transaction_summary_reset StkAuthorize
      "\<lparr>stake_auth_account = Ptr 2 [2], stake_auth_authority = Ptr 3 [3],
        stake_auth_new_authority = Ptr 4 [4], stake_auth_custodian = None,
        stake_auth_authorize = StakeAuthorizeStaker\<rparr>"
      "\<lparr>stake_auth_account = Ptr 2 [2], stake_auth_authority = Ptr 3 [3],
        stake_auth_new_authority = Ptr 4 [4], stake_auth_custodian = None,
        stake_auth_authorize = StakeAuthorizeWithdrawer\<rparr>"
      VotAuthorize
      "\<lparr>vote_auth_account = Ptr 0 [0], vote_auth_authority = Ptr 0 [0], vote_auth_new_authority = Ptr 0 [0],
        vote_auth_authorize = VoteAuthorizeVoter\<rparr>"
      "\<lparr>vote_auth_account = Ptr 0 [0], vote_auth_authority = Ptr 0 [0], vote_auth_new_authority = Ptr 0 [0],
        vote_auth_authorize = VoteAuthorizeWithdrawer\<rparr>"
      StkInitialize _ _ sample_config "Ptr 6 [6]"]
  by (simp add: screen_ok_reset authority_items_def item_when_def sample_config_def
      print_config_show_authority_def pubkeys_equal_def)

end
