(* ===== verification/Sol_Message.thy ===== *)
theory Sol_Message
  imports Sol_Transaction_Printers
begin

text \<open>
  From the bytes of a message body to the screens, \<open>libsol/message.c\<close>: the loop over the instructions,
  the parser of each program, the instructions that are ignored, and the checks that nothing is
  left unread and nothing is unknown.
\<close>

definition MAX_INSTRUCTIONS :: nat where "MAX_INSTRUCTIONS = 6"

section \<open>One instruction\<close>

text \<open>
  The loop that prints the accounts counts with a \<open>uint8_t\<close>. It is a partial function: \<open>None\<close> is a loop
  that never ends.
\<close>

partial_function (option) debug_accounts :: "nat \<Rightarrow> u8 \<Rightarrow> unit option" where
  "debug_accounts n i = (if unat i < n then debug_accounts n (i + 1) else Some ())"

text \<open>The outer option is whether the function returns, the inner one whether it succeeds.\<close>

definition parse_validate_and_debug_instruction_accounts ::
    "Parser \<Rightarrow> MessageHeader \<Rightarrow> (Instruction \<times> Parser) option option" where
  "parse_validate_and_debug_instruction_accounts p header =
     (case parse_instruction p of
        None \<Rightarrow> Some None
      | Some (instruction, p) \<Rightarrow>
          if \<not> instruction_validate instruction header then Some None
          else do {
            _ \<leftarrow> debug_accounts (accounts_length instruction) 0;
            Some (Some (instruction, p)) })"

text \<open>
  The parser of the program of the instruction. A parser that fails leaves the kind at
  \<open>ProgramIdUnknown\<close>, which is refused after the loop. The second result is \<open>ignore_instruction_info\<close>.
\<close>

definition parse_instruction_info ::
    "token_env \<Rightarrow> Instruction \<Rightarrow> MessageHeader \<Rightarrow> TransactionSummary
     \<Rightarrow> InstructionInfo \<times> bool \<times> TransactionSummary" where
  "parse_instruction_info env instruction header S =
     (case instruction_program_id instruction header of
        ProgramIdSerumAssertOwner \<Rightarrow> (InfoSerumAssertOwner, False, S)
      | ProgramIdSplAssociatedTokenAccount \<Rightarrow>
          (case parse_spl_associated_token_account_instructions instruction header of
             Some x \<Rightarrow> (InfoSplAssociatedTokenAccount x, False, S) | None \<Rightarrow> (InfoUnknown, False, S))
      | ProgramIdSplMemo \<Rightarrow> (InfoSplMemo, False, S)
      | ProgramIdSplToken \<Rightarrow>
          (case parse_spl_token_instructions env instruction header of
             Some (x, ignore_instruction_info) \<Rightarrow> (InfoSplToken x, ignore_instruction_info, S)
           | None \<Rightarrow> (InfoUnknown, False, S))
      | ProgramIdSystem \<Rightarrow>
          (case parse_system_instructions instruction header of
             Some x \<Rightarrow> (InfoSystem x, False, S) | None \<Rightarrow> (InfoUnknown, False, S))
      | ProgramIdStake \<Rightarrow>
          (case parse_stake_instructions instruction header S of
             Some (x, S) \<Rightarrow> (InfoStake x, False, S) | None \<Rightarrow> (InfoUnknown, False, S))
      | ProgramIdVote \<Rightarrow>
          (case parse_vote_instructions instruction header of
             Some x \<Rightarrow> (InfoVote x, False, S) | None \<Rightarrow> (InfoUnknown, False, S))
      | ProgramIdComputeBudget \<Rightarrow>
          (case parse_compute_budget_instructions instruction header of
             Some x \<Rightarrow> (InfoComputeBudget x, False, S) | None \<Rightarrow> (InfoUnknown, False, S))
      | ProgramIdAgenc \<Rightarrow>
          (case parse_agenc_instructions instruction header of
             Some x \<Rightarrow> (InfoAgenc x, False, S) | None \<Rightarrow> (InfoUnknown, False, S))
      | ProgramIdUnknown \<Rightarrow> (InfoUnknown, False, S))"

fun warns :: "InstructionInfo \<Rightarrow> bool" where
  "warns (InfoSplToken x) = generate_extension_warning x"
| "warns _ = False"

fun is_registered :: "InstructionInfo \<Rightarrow> bool" where
  "is_registered InfoSerumAssertOwner = False"
| "is_registered InfoSplMemo = False"
| "is_registered _ = True"

section \<open>The loop\<close>

text \<open>
  The local variables of \<open>process_message_body\<close>: the cursor, \<open>instruction_info\<close>,
  \<open>display_instruction_info\<close>, \<open>generate_extension_warning\<close>; and the summary.
\<close>

record MessageState =
  ms_parser :: Parser
  ms_infos :: "InstructionInfo list"
  ms_display :: "InstructionInfo list"
  ms_warning :: bool
  ms_summary :: TransactionSummary

definition process_instruction :: "token_env \<Rightarrow> MessageHeader \<Rightarrow> MessageState \<Rightarrow> MessageState c_result" where
  "process_instruction env header M = do {
     parsed \<leftarrow> parse_validate_and_debug_instruction_accounts (ms_parser M) header;
     case parsed of
       None \<Rightarrow> Some (-1, M)
     | Some (instruction, p) \<Rightarrow>
         (let (info, ignore_instruction_info, S) = parse_instruction_info env instruction header (ms_summary M);
              M = M\<lparr>ms_parser := p, ms_infos := ms_infos M @ [info], ms_warning := ms_warning M \<or> warns info,
                    ms_summary := S\<rparr>
          in if \<not> ignore_instruction_info \<and> is_registered info then
               if length (ms_display M) \<ge> MAX_INSTRUCTIONS then Some (-1, M)
               else Some (0, M\<lparr>ms_display := ms_display M @ [info]\<rparr>)
             else Some (0, M)) }"

fun process_instructions :: "token_env \<Rightarrow> MessageHeader \<Rightarrow> nat \<Rightarrow> MessageState \<Rightarrow> MessageState c_result" where
  "process_instructions env header 0 M = Some (0, M)"
| "process_instructions env header (Suc n) M =
     bail_if (process_instruction env header M) (process_instructions env header n)"

text \<open>The address table lookups of a versioned message must be none.\<close>

definition parse_address_tables :: "MessageHeader \<Rightarrow> Parser \<Rightarrow> Parser option" where
  "parse_address_tables header p =
     (if versioned header then do {
        (account_tables_length, p) \<leftarrow> parse_length p;
        guard (\<not> account_tables_length > 0);
        Some p }
      else Some p)"

definition process_message_body ::
    "base58_decoder \<Rightarrow> token_env \<Rightarrow> Parser \<Rightarrow> PrintConfig \<Rightarrow> TransactionSummary \<Rightarrow> TransactionSummary c_result" where
  "process_message_body b58 env p print_config S =
     (let header = config_header print_config in
      if instructions_length header = 0 then Some (1, S)
      else if instructions_length header > MAX_INSTRUCTIONS then Some (1, S)
      else do {
        (rc, M) \<leftarrow> process_instructions env header (instructions_length header)
            \<lparr>ms_parser = p, ms_infos = [], ms_display = [], ms_warning = False, ms_summary = S\<rparr>;
        let S = ms_summary M;
        if rc \<noteq> 0 then Some (rc, S)
        else case parse_address_tables header (ms_parser M) of
          None \<Rightarrow> Some (1, S)
        | Some p \<Rightarrow>
            if \<not> parser_is_empty p then Some (1, S)
            else if list_ex (\<lambda>info. info_kind info = ProgramIdUnknown) (ms_infos M) then Some (-1, S)
            else bail_if (if ms_warning M then print_spl_token_extension_warning S else Some (0, S)) (\<lambda>S. do {
              (rc, S) \<leftarrow> print_transaction b58 env print_config (ms_display M) S;
              Some (if rc \<noteq> 0 then -1 else 0, S) }) })"
section \<open>The loop over the accounts ends when there are fewer than 256\<close>

lemma debug_accounts_only_below_256:
  assumes "debug_accounts n i = Some r"
  shows "n < 256"
proof (rule debug_accounts.raw_induct [where P = "\<lambda>n i r. n < 256", OF _ assms])
  fix f n i r assume IH: "\<And>n i r. f n i = Some r \<Longrightarrow> n < (256 :: nat)"
    and step: "(if unat (i :: u8) < n then f n (i + 1) else Some ()) = Some r"
  show "n < 256"
    using IH step unat_u8_bound [of i] by (cases "unat i < n") auto
qed

lemma debug_accounts_below_256:
  "n < 256 \<Longrightarrow> unat i \<le> n \<Longrightarrow> debug_accounts n i = Some ()"
proof (induction "n - unat i" arbitrary: i)
  case 0
  then show ?case by (subst debug_accounts.simps) simp
next
  case (Suc k)
  then have "unat i < n" "unat i < 255" by auto
  then have "unat (i + 1) = unat i + 1" by (simp add: unat_word_ariths)
  then show ?case
    using Suc.hyps(1) [of "i + 1"] Suc.hyps(2) Suc.prems \<open>unat i < n\<close>
    by (subst debug_accounts.simps) simp
qed

lemma debug_accounts_eq: "debug_accounts n 0 = (if n < 256 then Some () else None)"
  using debug_accounts_only_below_256 [of n 0] debug_accounts_below_256 [of n 0]
  by (cases "debug_accounts n 0") auto
section \<open>What an accepted message is\<close>

text \<open>
  The reference: the instructions are read one after the other, each is parsed by its program, and
  only then the results are looked at.
\<close>

fun reads :: "Instruction list \<Rightarrow> Parser \<Rightarrow> Parser \<Rightarrow> bool" where
  "reads [] p q = (p = q)"
| "reads (i # ins) p q = (case parse_instruction p of None \<Rightarrow> False | Some (j, p) \<Rightarrow> j = i \<and> reads ins p q)"

fun parse_infos :: "token_env \<Rightarrow> MessageHeader \<Rightarrow> Instruction list \<Rightarrow> TransactionSummary
    \<Rightarrow> (InstructionInfo \<times> bool) list \<times> TransactionSummary" where
  "parse_infos env h [] S = ([], S)"
| "parse_infos env h (i # ins) S =
     (let (info, ignored, S) = parse_instruction_info env i h S;
          (rest, S) = parse_infos env h ins S
      in ((info, ignored) # rest, S))"

definition displayed :: "(InstructionInfo \<times> bool) list \<Rightarrow> InstructionInfo list" where
  "displayed results = map fst (filter (\<lambda>(info, ignored). \<not> ignored \<and> is_registered info) results)"

definition instruction_ok :: "MessageHeader \<Rightarrow> Instruction \<Rightarrow> bool" where
  "instruction_ok h i = (instruction_validate i h \<and> accounts_length i < 256)"

lemma displayed_simps [simp]:
  "displayed [] = []"
  "displayed ((info, ignored) # results) =
     (if \<not> ignored \<and> is_registered info then [info] else []) @ displayed results"
  by (simp_all add: displayed_def)

text \<open>The state of the loop after the instructions with these results.\<close>

definition after :: "MessageState \<Rightarrow> Parser \<Rightarrow> (InstructionInfo \<times> bool) list \<Rightarrow> TransactionSummary \<Rightarrow> MessageState" where
  "after M q results T = M\<lparr>ms_parser := q, ms_infos := ms_infos M @ map fst results,
     ms_display := ms_display M @ displayed results,
     ms_warning := ms_warning M \<or> list_ex (\<lambda>r. warns (fst r)) results, ms_summary := T\<rparr>"

lemma process_instruction_run:
  assumes "length (ms_display M) < 6" "parse_instruction (ms_parser M) = Some (i, q)" "instruction_ok h i"
    and "parse_instruction_info env i h (ms_summary M) = (info, ignored, T)"
  shows "process_instruction env h M = Some (0, after M q [(info, ignored)] T)"
  using assms
  by (cases M; cases ignored; cases "is_registered info")
    (simp_all add: process_instruction_def parse_validate_and_debug_instruction_accounts_def instruction_ok_def
      debug_accounts_eq after_def MAX_INSTRUCTIONS_def)

lemma process_instruction_eq:
  assumes "length (ms_display M) < 6"
  shows "process_instruction env h M = Some (0, N) \<longleftrightarrow>
    (\<exists>i q info ignored T. parse_instruction (ms_parser M) = Some (i, q) \<and> instruction_ok h i \<and>
       parse_instruction_info env i h (ms_summary M) = (info, ignored, T) \<and> N = after M q [(info, ignored)] T)"
proof -
  have read: "\<exists>i q. parse_instruction (ms_parser M) = Some (i, q) \<and> instruction_ok h i"
    if "process_instruction env h M = Some (0, N)"
    using that
    by (auto simp: process_instruction_def parse_validate_and_debug_instruction_accounts_def instruction_ok_def
        debug_accounts_eq split: option.splits if_splits)
  show ?thesis
  proof
    assume l: "process_instruction env h M = Some (0, N)"
    then obtain i q where i: "parse_instruction (ms_parser M) = Some (i, q)" "instruction_ok h i" using read by blast
    obtain info ignored T where info: "parse_instruction_info env i h (ms_summary M) = (info, ignored, T)"
      by (cases "parse_instruction_info env i h (ms_summary M)") auto
    then show "\<exists>i q info ignored T. parse_instruction (ms_parser M) = Some (i, q) \<and> instruction_ok h i \<and>
       parse_instruction_info env i h (ms_summary M) = (info, ignored, T) \<and> N = after M q [(info, ignored)] T"
      using l process_instruction_run [OF assms i info] i by auto
  qed (auto simp: process_instruction_run [OF assms])
qed

lemma after_after: "after (after M q rs T) r ss U = after M r (rs @ ss) U"
  by (simp add: after_def displayed_def)

lemma after_nil: "after M (ms_parser M) [] (ms_summary M) = M"
  by (simp add: after_def)

lemma length_displayed: "length (displayed results) \<le> length results"
  by (simp add: displayed_def)

lemma process_instructions_eq:
  assumes "length (ms_display M) + n \<le> 6"
  shows "process_instructions env h n M = Some (0, N) \<longleftrightarrow>
    (\<exists>ins q results T. length ins = n \<and> reads ins (ms_parser M) q \<and> list_all (instruction_ok h) ins
       \<and> parse_infos env h ins (ms_summary M) = (results, T) \<and> N = after M q results T)"
  using assms
proof (induction n arbitrary: M)
  case 0
  then show ?case by (auto simp: after_nil)
next
  case (Suc n)
  have IH: "process_instructions env h n (after M p [(info, ignored)] T) = Some (0, N) \<longleftrightarrow>
      (\<exists>ins q results U. length ins = n \<and> reads ins p q \<and> list_all (instruction_ok h) ins
       \<and> parse_infos env h ins T = (results, U) \<and> N = after M q ((info, ignored) # results) U)"
    for p info ignored T
    using Suc.IH [of "after M p [(info, ignored)] T"] Suc.prems by (simp add: after_after) (simp add: after_def)
  have "process_instructions env h (Suc n) M = Some (0, N) \<longleftrightarrow>
      (\<exists>M1. process_instruction env h M = Some (0, M1) \<and> process_instructions env h n M1 = Some (0, N))"
    by (auto simp: bail_if_def split: option.splits if_splits)
  also have "\<dots> \<longleftrightarrow> (\<exists>i p info ignored T. parse_instruction (ms_parser M) = Some (i, p) \<and> instruction_ok h i
      \<and> parse_instruction_info env i h (ms_summary M) = (info, ignored, T)
      \<and> process_instructions env h n (after M p [(info, ignored)] T) = Some (0, N))"
    using Suc.prems by (subst process_instruction_eq) auto
  also have "\<dots> \<longleftrightarrow> (\<exists>ins q results U. length ins = Suc n \<and> reads ins (ms_parser M) q \<and> list_all (instruction_ok h) ins
       \<and> parse_infos env h ins (ms_summary M) = (results, U) \<and> N = after M q results U)" (is "?l = ?r")
  proof
    assume ?l
    then obtain i p info ignored T ins q results U where
      "parse_instruction (ms_parser M) = Some (i, p)" "instruction_ok h i"
      "parse_instruction_info env i h (ms_summary M) = (info, ignored, T)" "length ins = n" "reads ins p q"
      "list_all (instruction_ok h) ins" "parse_infos env h ins T = (results, U)"
      "N = after M q ((info, ignored) # results) U"
      unfolding IH by blast
    then show ?r by (intro exI [of _ "i # ins"] exI [of _ q]) simp
  next
    assume ?r
    then obtain i ins q results U where "length ins = n" "reads (i # ins) (ms_parser M) q"
      "instruction_ok h i" "list_all (instruction_ok h) ins"
      "parse_infos env h (i # ins) (ms_summary M) = (results, U)" "N = after M q results U"
      by (auto simp: length_Suc_conv)
    then show ?l unfolding IH by (auto split: option.splits prod.splits)
  qed
  finally show ?case .
qed

lemma message_accepted:
  "process_message_body b58 env p cfg S = Some (0, S') \<longleftrightarrow>
    0 < instructions_length (config_header cfg) \<and> instructions_length (config_header cfg) \<le> 6 \<and>
    (\<exists>ins q results T. length ins = instructions_length (config_header cfg)
      \<and> reads ins p q \<and> list_all (instruction_ok (config_header cfg)) ins
      \<and> parse_infos env (config_header cfg) ins S = (results, T)
      \<and> (\<exists>r. parse_address_tables (config_header cfg) q = Some r \<and> parser_is_empty r)
      \<and> list_all (\<lambda>r. info_kind (fst r) \<noteq> ProgramIdUnknown) results
      \<and> (\<exists>U. (if list_ex (\<lambda>r. warns (fst r)) results then print_spl_token_extension_warning T else Some (0, T)) = Some (0, U)
        \<and> print_transaction b58 env cfg (displayed results) U = Some (0, S')))"
proof -
  let ?h = "config_header cfg"
  let ?M = "\<lparr>ms_parser = p, ms_infos = [], ms_display = [], ms_warning = False, ms_summary = S\<rparr>"
  let ?last = "\<lambda>q results T. (\<exists>r. parse_address_tables ?h q = Some r \<and> parser_is_empty r)
      \<and> list_all (\<lambda>r. info_kind (fst r) \<noteq> ProgramIdUnknown) results
      \<and> (\<exists>U. (if list_ex (\<lambda>r. warns (fst r)) results then print_spl_token_extension_warning T else Some (0, T)) = Some (0, U)
        \<and> print_transaction b58 env cfg (displayed results) U = Some (0, S'))"
  have warning: "(bail_if w (\<lambda>S. do { (rc, S) \<leftarrow> f S; Some (if rc \<noteq> 0 then -1 else 0, S) }) = Some (0, S'))
      = (\<exists>U. w = Some (0, U) \<and> f U = Some (0, S'))" for w and f :: "TransactionSummary \<Rightarrow> TransactionSummary c_result"
    by (auto simp: bail_if_def parse_success split: option.splits if_splits)
  have known: "list_ex (\<lambda>info. info_kind info = ProgramIdUnknown) (map fst results)
      \<longleftrightarrow> \<not> list_all (\<lambda>r. info_kind (fst r) \<noteq> ProgramIdUnknown) results" for results :: "(InstructionInfo \<times> bool) list"
    by (auto simp: list_ex_iff list_all_iff)
  define ok where "ok N \<longleftrightarrow> (\<exists>r. parse_address_tables ?h (ms_parser N) = Some r \<and> parser_is_empty r)
        \<and> \<not> list_ex (\<lambda>info. info_kind info = ProgramIdUnknown) (ms_infos N)
        \<and> (\<exists>U. (if ms_warning N then print_spl_token_extension_warning (ms_summary N) else Some (0, ms_summary N)) = Some (0, U)
          \<and> print_transaction b58 env cfg (ms_display N) U = Some (0, S'))" for N :: MessageState
  have ok: "ok (after ?M q results T) \<longleftrightarrow> ?last q results T" for q results T
    by (simp add: ok_def after_def known)
  have run: "process_instructions env ?h (instructions_length ?h) ?M = Some (0, N) \<longleftrightarrow>
      (\<exists>ins q results T. length ins = instructions_length ?h \<and> reads ins p q
        \<and> list_all (instruction_ok ?h) ins \<and> parse_infos env ?h ins S = (results, T) \<and> N = after ?M q results T)"
    if "instructions_length ?h \<le> 6" for N
    using process_instructions_eq [of ?M "instructions_length ?h" env ?h N] that by simp
  have "process_message_body b58 env p cfg S = Some (0, S') \<longleftrightarrow>
      0 < instructions_length ?h \<and> instructions_length ?h \<le> 6 \<and>
      (\<exists>N. process_instructions env ?h (instructions_length ?h) ?M = Some (0, N) \<and> ok N)"
    unfolding ok_def warning [symmetric]
    by (auto simp: process_message_body_def Let_def MAX_INSTRUCTIONS_def parse_success split: option.splits if_splits)
  also have "\<dots> \<longleftrightarrow> 0 < instructions_length ?h \<and> instructions_length ?h \<le> 6 \<and>
      (\<exists>ins q results T. length ins = instructions_length ?h \<and> reads ins p q
        \<and> list_all (instruction_ok ?h) ins \<and> parse_infos env ?h ins S = (results, T) \<and> ?last q results T)"
    unfolding ok [symmetric] by (cases "instructions_length ?h \<le> 6") (simp_all only: run simp_thms, blast)
  finally show ?thesis .
qed

lemma tables_end:
  "(\<exists>r. parse_address_tables h q = Some r \<and> parser_is_empty r) \<longleftrightarrow>
    (if versioned h then \<exists>r. parse_length q = Some (0, r) \<and> parser_is_empty r else parser_is_empty q)"
  by (auto simp: parse_address_tables_def parse_success)

text \<open>C2: The messages that are accepted for clear signing are characterised exactly. The body is one to six
  instructions, with fewer than 256 accounts each and every index inside the account list, then no
  address table, then nothing; the program of every instruction is known and its parser has accepted
  the instruction; and the screens are those of the instructions that are neither a memo,
  nor an assertion of the owner, nor an ignored token extension, preceded by a warning when one of the
  extensions asks for it.\<close>

theorem message_accepted_iff:
  "process_message_body b58 env p cfg S = Some (0, S') \<longleftrightarrow>
    0 < instructions_length (config_header cfg) \<and> instructions_length (config_header cfg) \<le> 6 \<and>
    (\<exists>ins q results T. length ins = instructions_length (config_header cfg)
      \<and> reads ins p q \<and> list_all (instruction_ok (config_header cfg)) ins
      \<and> parse_infos env (config_header cfg) ins S = (results, T)
      \<and> (if versioned (config_header cfg) then \<exists>r. parse_length q = Some (0, r) \<and> parser_is_empty r else parser_is_empty q)
      \<and> list_all (\<lambda>r. info_kind (fst r) \<noteq> ProgramIdUnknown) results
      \<and> (\<exists>U. (if list_ex (\<lambda>r. warns (fst r)) results then print_spl_token_extension_warning T else Some (0, T)) = Some (0, U)
        \<and> print_transaction b58 env cfg (displayed results) U = Some (0, S')))"
  unfolding tables_end [symmetric] by (rule message_accepted)

section \<open>The contract of the printer, for a whole message\<close>

lemma parse_stake_keeps:
  "parse_stake_instructions i h S = Some (x, T) \<Longrightarrow> keeps S T"
  by (auto simp: parse_stake_instructions_def parse_delegate_stake_instruction_def parse_stake_withdraw_instruction_def
      parse_stake_deactivate_instruction_def parse_success keeps_flags Let_def apfst_def map_prod_def
      split: StakeInstructionKind.splits prod.splits) (metis StakeInstructionKind.exhaust)

lemma parse_instruction_info_keeps:
  "parse_instruction_info env i h S = (info, ignored, T) \<Longrightarrow> keeps S T"
  using parse_stake_keeps
  by (auto simp: parse_instruction_info_def split: ProgramId.splits option.splits prod.splits)

lemma process_instruction_keeps:
  assumes "process_instruction env h M = Some (rc, N)"
  shows "keeps (ms_summary M) (ms_summary N)"
proof (cases "parse_validate_and_debug_instruction_accounts (ms_parser M) h")
  case (Some parsed)
  show ?thesis
  proof (cases parsed)
    case None
    then show ?thesis using assms Some by (simp add: process_instruction_def)
  next
    case (Some x)
    obtain i q where x: "x = (i, q)" by (cases x)
    obtain info ignored T where info: "parse_instruction_info env i h (ms_summary M) = (info, ignored, T)"
      by (cases "parse_instruction_info env i h (ms_summary M)") auto
    have "ms_summary N = T"
      using assms \<open>parse_validate_and_debug_instruction_accounts (ms_parser M) h = Some parsed\<close>
      by (auto simp: process_instruction_def Some x info Let_def split: if_splits)
    then show ?thesis using parse_instruction_info_keeps [OF info] by simp
  qed
qed (use assms in \<open>simp add: process_instruction_def\<close>)

lemma process_instructions_keeps:
  "process_instructions env h n M = Some (rc, N) \<Longrightarrow> keeps (ms_summary M) (ms_summary N)"
proof (induction n arbitrary: M)
  case (Suc n)
  then show ?case
    using process_instruction_keeps keeps_trans
    by (auto simp: bail_if_def split: option.splits if_splits) blast
qed simp

lemma kept_loop:
  assumes "\<And>rc N. kept (ms_summary N) (k rc N)"
  shows "kept (ms_summary M) (process_instructions env h n M \<bind> (\<lambda>(rc, N). k rc N))"
  unfolding kept_def
proof (intro allI impI)
  fix rc S' assume "process_instructions env h n M \<bind> (\<lambda>(rc, N). k rc N) = Some (rc, S')"
  then obtain rc1 N where "process_instructions env h n M = Some (rc1, N)" "k rc1 N = Some (rc, S')"
    by (auto simp: parse_success)
  then show "keeps (ms_summary M) S'"
    using process_instructions_keeps keeps_trans assms unfolding kept_def by blast
qed

lemmas kept_loop_from = kept_loop [of _ "\<lparr>ms_parser = p, ms_infos = [], ms_display = [], ms_warning = False, ms_summary = S\<rparr>" for p S, simplified]

lemma process_message_body_kept: "kept S (process_message_body b58 env p cfg S)"
proof -
  have last: "kept T (bail_if (if w then print_spl_token_extension_warning T else Some (0, T))
      (\<lambda>S. do { (rc, S) \<leftarrow> print_transaction b58 env cfg infos S; Some (if rc \<noteq> 0 then -1 else 0, S) }))" for T w infos
    by (intro keep)
  show ?thesis
    unfolding process_message_body_def Let_def
    by (intro kept_if kept_return kept_loop_from kept_case_option last)
qed

interpretation message: printer "process_message_body b58 env p cfg" for b58 env p cfg
  by unfold_locales (rule process_message_body_kept)

section \<open>A transfer, from the bytes of the message\<close>

lemma system_program: "bytes (header_pubkey (pubkeys h) (unat (program_id_index i))) = bytes system_program_id
    \<Longrightarrow> instruction_program_id i h = ProgramIdSystem"
  by (simp add: instruction_program_id_def Let_def memcmp_eq_0)

lemma process_single_system:
  assumes "instructions_length (config_header cfg) = 1"
    and "parse_instruction p = Some (i, q)" "instruction_ok (config_header cfg) i"
    and "instruction_program_id i (config_header cfg) = ProgramIdSystem"
    and "parse_system_instructions i (config_header cfg) = Some info"
    and "parse_address_tables (config_header cfg) q = Some r" "parser_is_empty r"
    and "\<not> (\<exists>x. info = SysAdvanceNonce x)" "print_system_info info cfg S = Some (0, S')"
  shows "process_message_body b58 env p cfg S = Some (0, S')"
proof -
  have "print_transaction b58 env cfg [InfoSystem info] S = Some (0, S')"
    using assms(9) by (simp add: print_transaction_def print_transaction_nonce_processed_def
        preprocess_compute_budget_instructions_def no_fee_def print_pattern_def print_single_def)
  then show ?thesis
    unfolding message_accepted using assms(1-7)
    by (intro conjI, simp, simp, rule_tac exI [of _ "[i]"], rule_tac exI [of _ q],
        rule_tac exI [of _ "[(InfoSystem info, False)]"], rule_tac exI [of _ S]) (auto simp: parse_instruction_info_def)
qed
fun item_key :: "SummaryItem \<Rightarrow> string \<times> u8 list" where
  "item_key it = (item_title it, case item_value it of ItemPubkey k \<Rightarrow> bytes k | _ \<Rightarrow> [])"

lemma show_authority_cong:
  "bytes a = bytes b \<Longrightarrow> signer_pubkey c = signer_pubkey d \<Longrightarrow> expert_mode c = expert_mode d \<Longrightarrow>
   print_config_show_authority c a = print_config_show_authority d b"
  by (simp add: print_config_show_authority_def pubkeys_equal_def)

text \<open>C3: From the bytes to the screens: a whole message, legacy or versioned, that holds one transfer of the
  system program is accepted, whatever its keys, blockhash and amount; the primary screen shows the
  64-bit amount of the message and the others show the 32-byte key of the recipient the
  instruction points at and, when it is not the signer or in expert mode, that of the
  sender.\<close>

theorem transfer_message_displayed:
  assumes "\<forall>k \<in> set ks. length k = 32" "length hash = 32" "length ks \<le> 65535"
    and "unat n_sig \<le> length ks" "n_ro \<le> n_sig" "unat n_rou \<le> length ks - unat n_sig"
    and "case v of None \<Rightarrow> unat n_sig < 128 | Some w \<Rightarrow> unat w < 128"
    and "unat pid < length ks" "ks ! unat pid = bytes system_program_id"
    and "list_all (\<lambda>a. unat a < length ks) (src # dst # others)" "length others < 254" "length rest < 2097000"
    and "screen_ok S" "filled S = []" "\<not> is_summary_item_used (primary S)"
  shows "\<exists>h q S'. parse_message_header (cursor 0 (enc_message_header v n_sig n_ro n_rou ks hash 1
        @ enc_instruction (pid, src # dst # others, le32 2 @ le64 lamports @ rest)
        @ (if v = None then [] else [0]))) = Some (h, q)
    \<and> process_message_body b58 env q (cfg\<lparr>config_header := h\<rparr>) S = Some (0, S')
    \<and> primary S' = \<lparr>item_title = ''Amount'', item_value = ItemAmount lamports\<rparr>
    \<and> map item_key (filled S') =
        (if print_config_show_authority cfg (Ptr 0 (ks ! unat src)) then [(''Sender'', ks ! unat src)] else [])
        @ [(''To'', ks ! unat dst)]"
proof -
  let ?tail = "if v = None then [] else [0 :: u8]"
  let ?ins = "(pid, src # dst # others, le32 2 @ le64 lamports @ rest)"
  let ?n = "length (enc_message_header v n_sig n_ro n_rou ks hash 1)"
  let ?q = "cursor (0 + ?n) (enc_instruction ?ins @ ?tail)"
  obtain h where h: "parse_message_header (cursor 0 (enc_message_header v n_sig n_ro n_rou ks hash 1
        @ enc_instruction ?ins @ ?tail)) = Some (h, ?q)"
    and versioned: "versioned h = (v \<noteq> None)" and len: "pubkeys_length (pubkeys_header h) = length ks"
    and key: "\<forall>i < length ks. bytes (header_pubkey (pubkeys h) i) = ks ! i" and one: "instructions_length h = 1"
    using message_header_decode [OF assms(1,2,3) _ assms(4-7), of 1 0 "enc_instruction ?ins @ ?tail"] by auto
  define i where "i = instruction_at (0 + ?n) ?ins"
  let ?cfg = "cfg\<lparr>config_header := h\<rparr>"
  let ?p = "cursor (0 + ?n + length (enc_instruction ?ins)) ?tail"
  have i: "parse_instruction ?q = Some (i, ?p)"
    unfolding i_def using assms(11,12) by (intro instructionr.decode) simp
  have accs: "accounts i = src # dst # others" "bytes (data i) = le32 2 @ le64 lamports @ rest" "program_id_index i = pid"
    by (simp_all add: i_def instruction_at_def)
  have ok: "instruction_ok h i"
    using assms(8,10,11) by (simp add: instruction_ok_def instruction_validate_def accs len accounts_length_def not_le)
  have program: "instruction_program_id i h = ProgramIdSystem"
    using key assms(8,9) by (intro system_program) (simp add: accs)
  let ?info = "SysTransfer \<lparr>transfer_from = account_key h i 0, transfer_to = account_key h i 1,
      transfer_lamports = lamports\<rparr>"
  have info: "parse_system_instructions i h = Some ?info"
    using assms(11) by (intro parse_transfer_eval) (simp_all add: accs accounts_length_def)
  have keys: "bytes (account_key h i 0) = ks ! unat src" "bytes (account_key h i 1) = ks ! unat dst"
    using key assms(10) by (simp_all add: account_key_def accs)
  have table: "parse_address_tables h ?p = Some (advance ?p (length ?tail))"
    by (simp add: parse_address_tables_def versioned parse_length_compact)
  have empty: "parser_is_empty (advance ?p (length ?tail))"
    by (simp add: parser_is_empty_def buffer_length_def)
  have authority: "print_config_show_authority ?cfg (account_key h i 0) = print_config_show_authority cfg (Ptr 0 (ks ! unat src))"
    using keys by (intro show_authority_cong) simp_all
  define S' where "S' = S\<lparr>transaction_type := TRANSACTION_TYPE_SOL_TRANSFER,
      primary := \<lparr>item_title = ''Amount'', item_value = ItemAmount lamports\<rparr>,
      general := pad ((if print_config_show_authority ?cfg (account_key h i 0)
          then [\<lparr>item_title = ''Sender'', item_value = ItemPubkey (account_key h i 0)\<rparr>] else [])
        @ [\<lparr>item_title = ''To'', item_value = ItemPubkey (account_key h i 1)\<rparr>])\<rparr>"
  have "process_message_body b58 env ?q ?cfg S = Some (0, S')"
  proof (rule process_single_system [where i = i and q = ?p])
    show "parse_instruction ?q = Some (i, ?p)" by (rule i)
    show "parse_address_tables (config_header ?cfg) ?p = Some (advance ?p (length ?tail))" using table by simp
    show "parse_system_instructions i (config_header ?cfg) = Some ?info" using info by simp
    show "print_system_info ?info ?cfg S = Some (0, S')"
      unfolding S'_def by (rule print_transfer_eval [OF assms(13-15)])
  qed (use one ok program empty in simp_all)
  moreover have "map item_key (filled S') =
      (if print_config_show_authority cfg (Ptr 0 (ks ! unat src)) then [(''Sender'', ks ! unat src)] else [])
      @ [(''To'', ks ! unat dst)]"
    unfolding S'_def authority using keys by (simp add: filled_def)
  ultimately show ?thesis using h by (auto simp: S'_def)
qed
theorem transfer_message_displayed_witness:
  "\<forall>b58 env. \<exists>h q S'. process_message_body b58 env q (sample_config\<lparr>config_header := h\<rparr>) transaction_summary_reset
     = Some (0, S') \<and> primary S' = \<lparr>item_title = ''Amount'', item_value = ItemAmount 7\<rparr>
     \<and> map item_key (filled S') = [(''To'', replicate 32 2)]"
proof -
  let ?ks = "[replicate 32 1, replicate 32 2, bytes system_program_id]"
  have "\<forall>k \<in> set ?ks. length k = 32" by (simp add: system_program_id_def)
  moreover have "\<not> print_config_show_authority sample_config (Ptr 0 (replicate 32 1))"
    by (simp add: print_config_show_authority_def sample_config_def pubkeys_equal_def eval_nat_numeral)
  ultimately show ?thesis
    using transfer_message_displayed [of ?ks "replicate 32 9" 1 0 1 None 2 0 1 "[]" "[]" transaction_summary_reset
        7 _ _ sample_config] by fastforce
qed

text \<open>C34: The loop that prints the accounts of an instruction returns exactly for instructions with
  fewer than 256 accounts: its counter is a \<open>uint8_t\<close> and wraps to zero before it reaches a larger
  bound, so for such an instruction the loop never ends.\<close>

theorem account_loop_returns_iff:
  "debug_accounts n 0 = Some () \<longleftrightarrow> n < 256"
  by (simp add: debug_accounts_eq)

text \<open>Processing a message, accepted or refused, only adds to the screens: a well formed summary
  stays well formed, with at most eleven general items in the order they were requested, what was
  there is kept in front, and a primary item or fee payer that was set is not overwritten.\<close>

theorem message_only_adds_items:
  assumes "screen_ok S" "process_message_body b58 env p cfg S = Some (rc, S')"
  shows "screen_ok S' \<and> length (filled S') \<le> NUM_GENERAL_ITEMS \<and> (\<exists>items. filled S' = filled S @ items)
    \<and> (primary S' = primary S \<or> \<not> is_summary_item_used (primary S))
    \<and> (fee_payer S' = fee_payer S \<or> \<not> is_summary_item_used (fee_payer S))"
  using message.well_formed [OF assms] message.extends [OF assms] message.primary_fixed [OF assms]
    message.fee_payer_fixed [OF assms]
  by (auto simp: screen_ok_def)

theorem message_only_adds_items_witness:
  "\<forall>b58 env. \<exists>rc S'. process_message_body b58 env (cursor 0 []) sample_config transaction_summary_reset = Some (rc, S')
     \<and> screen_ok S'"
proof (intro allI)
  fix b58 env
  have "process_message_body b58 env (cursor 0 []) sample_config transaction_summary_reset = Some (-1, transaction_summary_reset)"
    by (simp add: process_message_body_def process_instruction_def parse_validate_and_debug_instruction_accounts_def
        parse_instruction_def parse_u8_cases sample_config_def sample_agenc_header_def MAX_INSTRUCTIONS_def)
  then show "\<exists>rc S'. process_message_body b58 env (cursor 0 []) sample_config transaction_summary_reset = Some (rc, S')
     \<and> screen_ok S'"
    using message_only_adds_items [OF screen_ok_reset] by blast
qed

end
