(* ===== verification/Sol_Descriptor.thy ===== *)
theory Sol_Descriptor
  imports Sol_Swap Sol_Message
begin

unbundle bit_operations_syntax

text \<open>
  A crosschain swap: each instruction of the transaction is described by a signed descriptor that the
  Exchange application's user validated by its template. \<open>src/handle_provide_instruction_descriptor.c\<close>
  receives and stores the descriptors and checks an instruction against the next one,
  \<open>libsol/safe_math.c\<close> computes the cap of a fee, and \<open>process_message_body_with_descriptor\<close> of
  \<open>libsol/message.c\<close> checks the message. First the code; then what an accepted message is.

  The TLV library, the verification of the signature and the derivation of a key belong to the SDK
  and are parameters. The sending of a swap error leaves the application: it is a value \<open>Inl\<close>.
\<close>

section \<open>Percentages\<close>

definition UINT32_MAX_64 :: u64 where "UINT32_MAX_64 = 0xFFFFFFFF"

definition safe_mul_bps_div10000 :: "u64 \<Rightarrow> u16 \<Rightarrow> u64 option" where
  "safe_mul_bps_div10000 a b =
     (let prod_lo = (ucast (ucast a :: u32) :: u64) * ucast b;
          prod_hi = drop_bit 32 a * ucast b;
          q_hi = prod_hi div 10000;
          r_hi = prod_hi mod 10000
      in if q_hi > UINT32_MAX_64 then None
         else let hi_part = push_bit 32 q_hi;
                  lo_part = (push_bit 32 r_hi + prod_lo) div 10000
              in if lo_part > -1 - hi_part then None
                 else Some (hi_part + lo_part))"

section \<open>The saved descriptors\<close>

definition LIFI_SOLANA_MAIN_NET :: u32 where "LIFI_SOLANA_MAIN_NET = 900"
definition LIFI_SOLANA_TEST_NET :: u32 where "LIFI_SOLANA_TEST_NET = 901"
definition MAX_DISCRIMINATOR_NUMBER :: nat where "MAX_DISCRIMINATOR_NUMBER = 15"
definition TYPE_SOLANA_SWAP_TEMPLATE :: u8 where "TYPE_SOLANA_SWAP_TEMPLATE = 0x0a"
definition AMOUNT_RULES_ENDIANESS_MASK :: u8 where "AMOUNT_RULES_ENDIANESS_MASK = 1"
definition AMOUNT_RULES_OFFSET_TYPE_MASK :: u8 where "AMOUNT_RULES_OFFSET_TYPE_MASK = 2"
definition PROGRAM_ADDRESS_SIZE :: nat where "PROGRAM_ADDRESS_SIZE = 32"
definition MAX_DISCRIMINATOR_SIZE :: nat where "MAX_DISCRIMINATOR_SIZE = 8"

definition HAS_MASK :: "u8 \<Rightarrow> u8 \<Rightarrow> bool" where "HAS_MASK a m \<longleftrightarrow> a AND m = m"

record instruction_descriptor_t =
  d_program_id :: "u8 list"
  d_discriminator :: "u8 list"
  d_discriminator_size :: u8
  d_amount_size :: u8
  d_amount_offset :: u8
  d_amount_rules_big_endian :: bool
  d_amount_rules_negative_offset :: bool
  d_asset_account_index_received :: bool
  d_asset_account_index :: u8
  d_asset_ata_index_received :: bool
  d_asset_ata_index :: u8
  d_recipient_account_index_received :: bool
  d_recipient_account_index :: u8
  d_recipient_ata_index_received :: bool
  d_recipient_ata_index :: u8
  d_capped_amount_bps_received :: bool
  d_capped_amount_bps :: u16
  d_capped_amount_token_index_received :: bool
  d_capped_amount_token_index :: u8

definition no_descriptor :: instruction_descriptor_t where
  "no_descriptor = \<lparr>d_program_id = replicate PROGRAM_ADDRESS_SIZE 0, d_discriminator = replicate MAX_DISCRIMINATOR_SIZE 0,
     d_discriminator_size = 0, d_amount_size = 0, d_amount_offset = 0, d_amount_rules_big_endian = False,
     d_amount_rules_negative_offset = False, d_asset_account_index_received = False, d_asset_account_index = 0,
     d_asset_ata_index_received = False, d_asset_ata_index = 0, d_recipient_account_index_received = False,
     d_recipient_account_index = 0, d_recipient_ata_index_received = False, d_recipient_ata_index = 0,
     d_capped_amount_bps_received = False, d_capped_amount_bps = 0, d_capped_amount_token_index_received = False,
     d_capped_amount_token_index = 0\<rparr>"

record saved_descriptors_t =
  saved_count :: u8
  read_count :: u8
  sd_is_main_net :: bool
  sd_template_id :: u64
  descriptors :: "instruction_descriptor_t list"

text \<open>The global \<open>G_saved_descriptors\<close> is null or points to a structure that was cleared when it was allocated.\<close>

definition no_saved_descriptors :: saved_descriptors_t where
  "no_saved_descriptors = \<lparr>saved_count = 0, read_count = 0, sd_is_main_net = False, sd_template_id = 0,
     descriptors = replicate MAX_DISCRIMINATOR_NUMBER no_descriptor\<rparr>"

definition reset_saved_descriptors :: "saved_descriptors_t option \<Rightarrow> saved_descriptors_t option" where
  "reset_saved_descriptors G = None"

definition get_descriptor_count :: "saved_descriptors_t \<Rightarrow> u8" where
  "get_descriptor_count G = saved_count G"

definition get_next_descriptor :: "saved_descriptors_t \<Rightarrow> (instruction_descriptor_t \<times> saved_descriptors_t) option" where
  "get_next_descriptor G =
     (if read_count G \<ge> saved_count G then None
      else Some (descriptors G ! unat (read_count G), G\<lparr>read_count := read_count G + 1\<rparr>))"

definition instruction_descriptor_received :: "saved_descriptors_t option \<Rightarrow> bool" where
  "instruction_descriptor_received G \<longleftrightarrow> G \<noteq> None"

definition save_instruction_descriptor ::
    "bool \<Rightarrow> u64 \<Rightarrow> instruction_descriptor_t \<Rightarrow> saved_descriptors_t \<Rightarrow> saved_descriptors_t option" where
  "save_instruction_descriptor is_main_net template d G = do {
     guard (\<not> unat (saved_count G) \<ge> MAX_DISCRIMINATOR_NUMBER);
     G \<leftarrow> (if saved_count G > 0 then do {
             guard (\<not> is_main_net \<noteq> sd_is_main_net G);
             guard (\<not> template \<noteq> sd_template_id G);
             Some G }
           else Some (G\<lparr>sd_is_main_net := is_main_net, sd_template_id := template\<rparr>));
     Some (G\<lparr>descriptors := (descriptors G)[unat (saved_count G) := d], saved_count := saved_count G + 1\<rparr>) }"
section \<open>The descriptor that is received\<close>

text \<open>
  A TLV of the SDK is its tag, its raw bytes and its contents. \<open>tlv_split\<close> is the loop of
  \<open>DEFINE_TLV_PARSER\<close>: the TLVs of the payload in order, \<open>None\<close> when it is malformed, when a tag is not
  in the table or comes twice. The \<open>get_\<close> functions are the readers of the library, and
  \<open>check_signature_with_pki\<close> takes the hash and the signature.
\<close>

record tlv_data_t =
  tlv_tag :: u32
  tlv_raw :: "u8 list"
  tlv_contents :: "u8 list"

record tlv_sdk =
  tlv_split :: "u32 list \<Rightarrow> u8 list \<Rightarrow> tlv_data_t list option"
  get_uint8_t_from_tlv_data :: "tlv_data_t \<Rightarrow> u8 option"
  get_uint16_t_from_tlv_data :: "tlv_data_t \<Rightarrow> u16 option"
  get_uint32_t_from_tlv_data :: "tlv_data_t \<Rightarrow> u32 option"
  get_uint64_t_from_tlv_data :: "tlv_data_t \<Rightarrow> u64 option"
  get_buffer_from_tlv_data :: "tlv_data_t \<Rightarrow> nat \<Rightarrow> nat \<Rightarrow> u8 list option"
  DER_SIGNATURE_MIN_SIZE :: nat
  DER_SIGNATURE_MAX_SIZE :: nat
  check_signature_with_pki :: "u8 list \<Rightarrow> u8 list \<Rightarrow> bool"

definition TAG_STRUCTURE_TYPE :: u32 where "TAG_STRUCTURE_TYPE = 0x01"
definition TAG_VERSION :: u32 where "TAG_VERSION = 0x02"
definition TAG_CHAIN_ID :: u32 where "TAG_CHAIN_ID = 0x23"
definition TAG_TEMPLATE_ID :: u32 where "TAG_TEMPLATE_ID = 0x90"
definition TAG_PROGRAM_ID :: u32 where "TAG_PROGRAM_ID = 0x91"
definition TAG_DISCRIMINATOR :: u32 where "TAG_DISCRIMINATOR = 0x92"
definition TAG_AMOUNT_SIZE :: u32 where "TAG_AMOUNT_SIZE = 0x93"
definition TAG_AMOUNT_OFFSET :: u32 where "TAG_AMOUNT_OFFSET = 0x94"
definition TAG_AMOUNT_RULES :: u32 where "TAG_AMOUNT_RULES = 0x95"
definition TAG_ASSET_ACCOUNT_INDEX :: u32 where "TAG_ASSET_ACCOUNT_INDEX = 0x96"
definition TAG_ASSET_ATA_INDEX :: u32 where "TAG_ASSET_ATA_INDEX = 0x97"
definition TAG_RECIPIENT_ACCOUNT_INDEX :: u32 where "TAG_RECIPIENT_ACCOUNT_INDEX = 0x98"
definition TAG_RECIPIENT_ATA_INDEX :: u32 where "TAG_RECIPIENT_ATA_INDEX = 0x99"
definition TAG_CAPPED_AMOUNT_BPS :: u32 where "TAG_CAPPED_AMOUNT_BPS = 0x9a"
definition TAG_CAPPED_AMOUNT_TOKEN_IDX :: u32 where "TAG_CAPPED_AMOUNT_TOKEN_IDX = 0x9b"
definition TAG_DER_SIGNATURE :: u32 where "TAG_DER_SIGNATURE = 0x15"

record tlv_out_t =
  received_tags :: "u32 list"
  out_structure_type :: u8
  out_version :: u8
  out_is_main_net :: bool
  out_template_id :: u64
  out_ins :: instruction_descriptor_t
  hash_ctx :: "u8 list list"
  out_signature :: "u8 list"

definition no_tlv_out :: tlv_out_t where
  "no_tlv_out = \<lparr>received_tags = [], out_structure_type = 0, out_version = 0, out_is_main_net = False,
     out_template_id = 0, out_ins = no_descriptor, hash_ctx = [], out_signature = []\<rparr>"

type_synonym tlv_handler = "tlv_sdk \<Rightarrow> tlv_data_t \<Rightarrow> tlv_out_t \<Rightarrow> tlv_out_t option"

definition handle_structure_type :: tlv_handler where
  "handle_structure_type sdk d out = do { v \<leftarrow> get_uint8_t_from_tlv_data sdk d; Some (out\<lparr>out_structure_type := v\<rparr>) }"

definition handle_version :: tlv_handler where
  "handle_version sdk d out = do { v \<leftarrow> get_uint8_t_from_tlv_data sdk d; Some (out\<lparr>out_version := v\<rparr>) }"

definition handle_chain_id :: tlv_handler where
  "handle_chain_id sdk d out = do {
     chain_id \<leftarrow> get_uint32_t_from_tlv_data sdk d;
     guard (\<not> (chain_id \<noteq> LIFI_SOLANA_MAIN_NET \<and> chain_id \<noteq> LIFI_SOLANA_TEST_NET));
     Some (out\<lparr>out_is_main_net := (chain_id = LIFI_SOLANA_MAIN_NET)\<rparr>) }"

definition handle_template_id :: tlv_handler where
  "handle_template_id sdk d out = do { v \<leftarrow> get_uint64_t_from_tlv_data sdk d; Some (out\<lparr>out_template_id := v\<rparr>) }"

definition update_ins :: "(instruction_descriptor_t \<Rightarrow> instruction_descriptor_t) \<Rightarrow> tlv_out_t \<Rightarrow> tlv_out_t" where
  "update_ins f out = out\<lparr>out_ins := f (out_ins out)\<rparr>"

definition handle_program_id :: tlv_handler where
  "handle_program_id sdk d out = do {
     temp \<leftarrow> get_buffer_from_tlv_data sdk d PROGRAM_ADDRESS_SIZE PROGRAM_ADDRESS_SIZE;
     Some (update_ins (d_program_id_update (\<lambda>_. take PROGRAM_ADDRESS_SIZE temp)) out) }"

definition handle_discriminator :: tlv_handler where
  "handle_discriminator sdk d out = do {
     temp \<leftarrow> get_buffer_from_tlv_data sdk d 0 MAX_DISCRIMINATOR_SIZE;
     Some (update_ins (\<lambda>ins. ins\<lparr>d_discriminator_size := of_nat (length temp),
       d_discriminator := temp @ drop (length temp) (d_discriminator ins)\<rparr>) out) }"

definition handle_amount_size :: tlv_handler where
  "handle_amount_size sdk d out = do {
     v \<leftarrow> get_uint8_t_from_tlv_data sdk d; Some (update_ins (d_amount_size_update (\<lambda>_. v)) out) }"

definition handle_amount_offset :: tlv_handler where
  "handle_amount_offset sdk d out = do {
     v \<leftarrow> get_uint8_t_from_tlv_data sdk d; Some (update_ins (d_amount_offset_update (\<lambda>_. v)) out) }"

definition handle_amount_rules :: tlv_handler where
  "handle_amount_rules sdk d out = do {
     amount_rules \<leftarrow> get_uint8_t_from_tlv_data sdk d;
     Some (update_ins (\<lambda>ins. ins\<lparr>
       d_amount_rules_big_endian := HAS_MASK amount_rules AMOUNT_RULES_ENDIANESS_MASK,
       d_amount_rules_negative_offset := HAS_MASK amount_rules AMOUNT_RULES_OFFSET_TYPE_MASK\<rparr>) out) }"

definition handle_asset_account_index :: tlv_handler where
  "handle_asset_account_index sdk d out = do {
     v \<leftarrow> get_uint8_t_from_tlv_data sdk d;
     Some (update_ins (\<lambda>ins. ins\<lparr>d_asset_account_index_received := True, d_asset_account_index := v\<rparr>) out) }"

definition handle_asset_ata_index :: tlv_handler where
  "handle_asset_ata_index sdk d out = do {
     v \<leftarrow> get_uint8_t_from_tlv_data sdk d;
     Some (update_ins (\<lambda>ins. ins\<lparr>d_asset_ata_index_received := True, d_asset_ata_index := v\<rparr>) out) }"

definition handle_recipient_account_index :: tlv_handler where
  "handle_recipient_account_index sdk d out = do {
     v \<leftarrow> get_uint8_t_from_tlv_data sdk d;
     Some (update_ins (\<lambda>ins. ins\<lparr>d_recipient_account_index_received := True, d_recipient_account_index := v\<rparr>) out) }"

definition handle_recipient_ata_index :: tlv_handler where
  "handle_recipient_ata_index sdk d out = do {
     v \<leftarrow> get_uint8_t_from_tlv_data sdk d;
     Some (update_ins (\<lambda>ins. ins\<lparr>d_recipient_ata_index_received := True, d_recipient_ata_index := v\<rparr>) out) }"

definition handle_capped_amount_bps :: tlv_handler where
  "handle_capped_amount_bps sdk d out = do {
     v \<leftarrow> get_uint16_t_from_tlv_data sdk d;
     Some (update_ins (\<lambda>ins. ins\<lparr>d_capped_amount_bps_received := True, d_capped_amount_bps := v\<rparr>) out) }"

definition handle_capped_amount_token_index :: tlv_handler where
  "handle_capped_amount_token_index sdk d out = do {
     v \<leftarrow> get_uint8_t_from_tlv_data sdk d;
     Some (update_ins (\<lambda>ins. ins\<lparr>d_capped_amount_token_index_received := True, d_capped_amount_token_index := v\<rparr>) out) }"

definition handle_signature :: tlv_handler where
  "handle_signature sdk d out = do {
     sig \<leftarrow> get_buffer_from_tlv_data sdk d (DER_SIGNATURE_MIN_SIZE sdk) (DER_SIGNATURE_MAX_SIZE sdk);
     Some (out\<lparr>out_signature := sig\<rparr>) }"

text \<open>Every TLV but the signature goes into the progressive hash.\<close>

definition handle_common :: tlv_handler where
  "handle_common sdk d out =
     Some (if tlv_tag d \<noteq> TAG_DER_SIGNATURE then out\<lparr>hash_ctx := hash_ctx out @ [tlv_raw d]\<rparr> else out)"

definition INSTRUCTION_DESCRIPTOR_TLV_TAGS :: "(u32 \<times> tlv_handler) list" where
  "INSTRUCTION_DESCRIPTOR_TLV_TAGS =
     [(TAG_STRUCTURE_TYPE, handle_structure_type), (TAG_VERSION, handle_version), (TAG_CHAIN_ID, handle_chain_id),
      (TAG_TEMPLATE_ID, handle_template_id), (TAG_PROGRAM_ID, handle_program_id),
      (TAG_DISCRIMINATOR, handle_discriminator), (TAG_AMOUNT_SIZE, handle_amount_size),
      (TAG_AMOUNT_OFFSET, handle_amount_offset), (TAG_AMOUNT_RULES, handle_amount_rules),
      (TAG_ASSET_ACCOUNT_INDEX, handle_asset_account_index), (TAG_ASSET_ATA_INDEX, handle_asset_ata_index),
      (TAG_RECIPIENT_ACCOUNT_INDEX, handle_recipient_account_index),
      (TAG_RECIPIENT_ATA_INDEX, handle_recipient_ata_index), (TAG_CAPPED_AMOUNT_BPS, handle_capped_amount_bps),
      (TAG_CAPPED_AMOUNT_TOKEN_IDX, handle_capped_amount_token_index), (TAG_DER_SIGNATURE, handle_signature)]"

fun handle_tlvs :: "tlv_sdk \<Rightarrow> tlv_data_t list \<Rightarrow> tlv_out_t \<Rightarrow> tlv_out_t option" where
  "handle_tlvs sdk [] out = Some out"
| "handle_tlvs sdk (d # ds) out = do {
     out \<leftarrow> handle_common sdk d out;
     handler \<leftarrow> map_of INSTRUCTION_DESCRIPTOR_TLV_TAGS (tlv_tag d);
     out \<leftarrow> handler sdk d out;
     handle_tlvs sdk ds (out\<lparr>received_tags := tlv_tag d # received_tags out\<rparr>) }"

definition parse_instruction_descriptor :: "tlv_sdk \<Rightarrow> u8 list \<Rightarrow> tlv_out_t option" where
  "parse_instruction_descriptor sdk payload = do {
     ds \<leftarrow> tlv_split sdk (map fst INSTRUCTION_DESCRIPTOR_TLV_TAGS) payload;
     handle_tlvs sdk ds no_tlv_out }"

definition TLV_CHECK_RECEIVED_TAGS :: "tlv_out_t \<Rightarrow> u32 list \<Rightarrow> bool" where
  "TLV_CHECK_RECEIVED_TAGS out tags \<longleftrightarrow> list_all (\<lambda>t. t \<in> set (received_tags out)) tags"

section \<open>The reception of a descriptor\<close>

definition invalid_descriptor :: "swap_error_application_specific_code_t \<Rightarrow> swap_error + 'a" where
  "invalid_descriptor code = Inl (SWAP_EC_ERROR_CROSSCHAIN_WRONG_METHOD, code)"

definition check_capped_fields :: "tlv_out_t \<Rightarrow> bool" where
  "check_capped_fields out \<longleftrightarrow>
     \<not> (TLV_CHECK_RECEIVED_TAGS out [TAG_CAPPED_AMOUNT_TOKEN_IDX] \<and> \<not> TLV_CHECK_RECEIVED_TAGS out [TAG_CAPPED_AMOUNT_BPS])
     \<and> \<not> (TLV_CHECK_RECEIVED_TAGS out [TAG_CAPPED_AMOUNT_BPS] \<and> d_amount_size (out_ins out) = 0)"

text \<open>
  \<open>mem\<close> is the success of the allocation. The outer option is \<open>None\<close> when the hash unit fails, which leaves the
  application.
\<close>

definition handle_provide_instruction_descriptor_internal ::
    "tlv_sdk \<Rightarrow> crypto_sdk \<Rightarrow> bool \<Rightarrow> swap_validated_t \<Rightarrow> u8 list \<Rightarrow> saved_descriptors_t option
     \<Rightarrow> (swap_error + saved_descriptors_t) option" where
  "handle_provide_instruction_descriptor_internal sdk hash mem sv payload G =
     (case parse_instruction_descriptor sdk payload of
        None \<Rightarrow> Some (invalid_descriptor SWAP_EC_APP_DESCRIPTOR_PARSE_FAILED)
      | Some out \<Rightarrow>
          if \<not> TLV_CHECK_RECEIVED_TAGS out [TAG_STRUCTURE_TYPE]
          then Some (invalid_descriptor SWAP_EC_APP_DESCRIPTOR_MISSING_STRUCT_TYPE)
          else if out_structure_type out \<noteq> TYPE_SOLANA_SWAP_TEMPLATE
          then Some (invalid_descriptor SWAP_EC_APP_DESCRIPTOR_UNEXPECTED_STRUCT_TYPE)
          else if \<not> TLV_CHECK_RECEIVED_TAGS out [TAG_VERSION, TAG_CHAIN_ID, TAG_TEMPLATE_ID, TAG_PROGRAM_ID,
              TAG_DISCRIMINATOR, TAG_DER_SIGNATURE]
          then Some (invalid_descriptor SWAP_EC_APP_DESCRIPTOR_MISSING_FIELDS)
          else if out_version out = 0 \<or> out_version out > 1
          then Some (invalid_descriptor SWAP_EC_APP_DESCRIPTOR_UNSUPPORTED_VERSION)
          else if \<not> check_capped_fields out
          then Some (invalid_descriptor SWAP_EC_APP_DESCRIPTOR_INVALID_CAPPED_FIELDS)
          else if \<not> check_template_id sv (out_template_id out)
          then Some (invalid_descriptor SWAP_EC_APP_TEMPLATE_ID_MISMATCH)
          else do {
            tlv_hash \<leftarrow> sdk_sha256 hash (hash_ctx out);
            Some (if \<not> check_signature_with_pki sdk tlv_hash (out_signature out)
              then invalid_descriptor SWAP_EC_APP_DESCRIPTOR_SIGNATURE_FAILED
              else if G = None \<and> \<not> mem then invalid_descriptor SWAP_EC_APP_DESCRIPTOR_SAVE_FAILED
              else case save_instruction_descriptor (out_is_main_net out) (out_template_id out) (out_ins out)
                  (case G of None \<Rightarrow> no_saved_descriptors | Some G \<Rightarrow> G) of
                None \<Rightarrow> invalid_descriptor SWAP_EC_APP_DESCRIPTOR_SAVE_FAILED
              | Some G \<Rightarrow> Inr G) })"

section \<open>The check of one instruction\<close>

text \<open>\<open>uint32_t\<close> arithmetic on the length of the data, which comes from a message of a few kilobytes.\<close>

definition amount_offset :: "Instruction \<Rightarrow> instruction_descriptor_t \<Rightarrow> u32 option" where
  "amount_offset ins d =
     (if d_amount_rules_negative_offset d
      then if unat (d_amount_offset d) > data_length ins then None
           else Some (of_nat (data_length ins - unat (d_amount_offset d)))
      else Some (ucast (d_amount_offset d)))"

definition read_amount_using_descriptor :: "Instruction \<Rightarrow> instruction_descriptor_t \<Rightarrow> u64 option" where
  "read_amount_using_descriptor ins d = do {
     offset \<leftarrow> amount_offset ins d;
     guard (\<not> offset + ucast (d_amount_size d) > of_nat (data_length ins));
     guard (\<not> d_amount_size d > 8);
     let amount = take (unat (d_amount_size d)) (drop (unat offset) (bytes (data ins)));
     let amount_be = (if d_amount_rules_big_endian d then amount else rev amount);
     Some (foldl (\<lambda>value b. push_bit 8 value OR ucast b) 0 amount_be) }"

definition check_discriminator :: "Instruction \<Rightarrow> instruction_descriptor_t \<Rightarrow> bool" where
  "check_discriminator ins d \<longleftrightarrow>
     (d_discriminator_size d = 0
      \<or> \<not> data_length ins < unat (d_discriminator_size d)
         \<and> \<not> memcmp (take (unat (d_discriminator_size d)) (bytes (data ins)))
              (take (unat (d_discriminator_size d)) (d_discriminator d)) \<noteq> 0)"

definition check_descriptor_amount :: "swap_validated_t \<Rightarrow> Instruction \<Rightarrow> instruction_descriptor_t \<Rightarrow> bool" where
  "check_descriptor_amount sv ins d \<longleftrightarrow>
     (d_amount_size d = 0
      \<or> (case read_amount_using_descriptor ins d of
            None \<Rightarrow> False
          | Some amount \<Rightarrow>
              if d_capped_amount_bps_received d
              then (case get_swap_amount_raw sv of
                      None \<Rightarrow> False
                    | Some swap_amount \<Rightarrow>
                        (case safe_mul_bps_div10000 swap_amount (d_capped_amount_bps d) of
                           None \<Rightarrow> False
                         | Some cap \<Rightarrow> \<not> amount > cap))
              else check_swap_amount_raw sv amount))"

text \<open>An optional account of the instruction, checked when its index was received.\<close>

definition check_account :: "bool \<Rightarrow> u8 \<Rightarrow> (byte_ptr \<Rightarrow> bool) \<Rightarrow> MessageHeader \<Rightarrow> Instruction \<Rightarrow> bool" where
  "check_account received index P header ins \<longleftrightarrow>
     (\<not> received \<or> (case get_account_from_ins ins header index of None \<Rightarrow> False | Some account \<Rightarrow> P account))"

text \<open>
  \<open>signer\<close> is the key derived for the path of the command, \<open>None\<close> on an error. The result is the state of the
  descriptors after the next one was read; \<open>None\<close> is the return of -1.
\<close>

definition validate_instruction_using_descriptor ::
    "swap_sdk \<Rightarrow> swap_validated_t \<Rightarrow> token_env \<Rightarrow> u8 list option \<Rightarrow> MessageHeader \<Rightarrow> Instruction
     \<Rightarrow> saved_descriptors_t \<Rightarrow> saved_descriptors_t option" where
  "validate_instruction_using_descriptor sdk sv env signer header ins G = do {
     (mint, is_token_2022_kind) \<leftarrow> get_token_mint_address env (get_swap_ticker sv);
     recipient \<leftarrow> get_swap_recipient sdk sv;
     (d, G) \<leftarrow> get_next_descriptor G;
     guard (\<not> memcmp (bytes (header_pubkey (pubkeys header) (unat (program_id_index ins)))) (d_program_id d) \<noteq> 0);
     guard (check_discriminator ins d);
     guard (check_descriptor_amount sv ins d);
     guard (check_account (d_capped_amount_token_index_received d) (d_capped_amount_token_index d)
       (\<lambda>a. \<not> memcmp mint (bytes a) \<noteq> 0) header ins);
     guard (check_account (d_asset_account_index_received d) (d_asset_account_index d)
       (\<lambda>a. \<not> memcmp mint (bytes a) \<noteq> 0) header ins);
     guard (check_account (d_asset_ata_index_received d) (d_asset_ata_index d)
       (\<lambda>a. case signer of None \<Rightarrow> False
            | Some key \<Rightarrow> validate_associated_token_address (env_sdk env) key mint (bytes a) is_token_2022_kind) header ins);
     guard (check_account (d_recipient_account_index_received d) (d_recipient_account_index d)
       (\<lambda>a. \<not> memcmp recipient (bytes a) \<noteq> 0) header ins);
     guard (check_account (d_recipient_ata_index_received d) (d_recipient_ata_index d)
       (\<lambda>a. validate_associated_token_address (env_sdk env) recipient mint (bytes a) is_token_2022_kind) header ins);
     Some G }"

section \<open>The check of a message\<close>

text \<open>The outer option is whether the loop over the accounts returns, as in \<open>process_message_body\<close>.\<close>

fun validate_instructions :: "(Instruction \<Rightarrow> saved_descriptors_t \<Rightarrow> saved_descriptors_t option) \<Rightarrow> MessageHeader \<Rightarrow> nat
    \<Rightarrow> Parser \<Rightarrow> saved_descriptors_t \<Rightarrow> (Parser \<times> saved_descriptors_t) option option" where
  "validate_instructions validate header 0 p G = Some (Some (p, G))"
| "validate_instructions validate header (Suc n) p G = do {
     r \<leftarrow> parse_validate_and_debug_instruction_accounts p header;
     (case r of
        None \<Rightarrow> Some None
      | Some (ins, p) \<Rightarrow>
          (case validate ins G of
             None \<Rightarrow> Some None
           | Some G \<Rightarrow> validate_instructions validate header n p G)) }"

definition process_message_body_with_descriptor ::
    "swap_sdk \<Rightarrow> swap_validated_t \<Rightarrow> token_env \<Rightarrow> u8 list option \<Rightarrow> Parser \<Rightarrow> PrintConfig \<Rightarrow> saved_descriptors_t option
     \<Rightarrow> (saved_descriptors_t option) option" where
  "process_message_body_with_descriptor sdk sv env signer p print_config G =
     (let header = config_header print_config
      in if instructions_length header = 0 then Some None
         else case G of
           None \<Rightarrow> Some None
         | Some G \<Rightarrow>
             if unat (get_descriptor_count G) \<noteq> instructions_length header then Some None
             else do {
               r \<leftarrow> validate_instructions (\<lambda>ins G. validate_instruction_using_descriptor sdk sv env signer header ins G)
                      header (instructions_length header) p G;
               (case r of
                  None \<Rightarrow> Some None
                | Some (p, G) \<Rightarrow> Some (if \<not> parser_is_empty p then None else Some G)) })"

section \<open>The cap of a fee is exact\<close>

lemma unat_u16_bound: "unat (x :: u16) < 65536"
  using unsigned_less [of x, where 'a = nat] by simp

lemma bps_split:
  assumes "a = hi * 4294967296 + lo"
  shows "a * b div 10000 = hi * b div 10000 * 4294967296 + (hi * b mod 10000 * 4294967296 + lo * b) div (10000 :: nat)"
proof -
  define q r where "q = hi * b div 10000" and "r = hi * b mod 10000"
  have "hi * b = q * 10000 + r" by (simp add: q_def r_def)
  then have "a * b = (q * 4294967296) * 10000 + (r * 4294967296 + lo * b)" using assms by (simp add: algebra_simps)
  then have "a * b div 10000 = q * 4294967296 + (r * 4294967296 + lo * b) div 10000" by simp
  then show ?thesis by (simp add: q_def r_def)
qed

lemma unat_shift_32: "unat (x :: u64) < 4294967296 \<Longrightarrow> unat (push_bit 32 x) = unat x * 4294967296"
  by (simp add: push_bit_eq_mult unat_word_ariths)

lemma safe_mul_eq:
  "safe_mul_bps_div10000 a b =
     (if unat a * unat b div 10000 < 2 ^ 64 then Some (of_nat (unat a * unat b div 10000)) else None)"
proof -
  define hi lo where "hi = unat a div 4294967296" and "lo = unat a mod 4294967296"
  define q r where "q = hi * unat b div 10000" and "r = hi * unat b mod 10000"
  have a: "unat a = hi * 4294967296 + lo" and hi: "hi < 4294967296" and lo: "lo < 4294967296" and r: "r < 10000"
    using unat_u64_bound [of a] by (simp_all add: hi_def lo_def r_def)
  have hib: "hi * unat b \<le> 4294967295 * 65535" and lob: "lo * unat b \<le> 4294967295 * 65535"
    using hi lo unat_u16_bound [of b] mult_le_mono [of hi 4294967295 "unat b" 65535] mult_le_mono [of lo 4294967295 "unat b" 65535]
    by simp_all
  have b: "unat (ucast b :: u64) = unat b" using unat_u16_bound [of b] by (simp add: unsigned_ucast_eq take_bit_nat_eq_self)
  have lo32: "unat (ucast (ucast a :: u32) :: u64) = lo" by (simp add: unsigned_ucast_eq take_bit_eq_mod lo_def unat_mod)
  have hi32: "unat (drop_bit 32 a) = hi" by (simp add: unsigned_drop_bit_eq drop_bit_eq_div hi_def unat_div)
  have w: "unat ((ucast (ucast a :: u32) :: u64) * ucast b) = lo * unat b"
    using lob by (simp add: unat_word_ariths(2) b lo32)
  have h: "unat (drop_bit 32 a * (ucast b :: u64)) = hi * unat b"
    using hib by (simp add: unat_word_ariths(2) b hi32)
  define Q where "Q = drop_bit 32 a * (ucast b :: u64) div 10000"
  define R where "R = drop_bit 32 a * (ucast b :: u64) mod 10000"
  have Q: "unat Q = q" and R: "unat R = r"
    by (simp_all add: Q_def R_def unat_div unat_mod h q_def r_def)
  have total: "unat a * unat b div 10000 = q * 4294967296 + (r * 4294967296 + lo * unat b) div 10000"
    unfolding q_def r_def by (rule bps_split [OF a])
  define P where "P = (r * 4294967296 + lo * unat b) div 10000"
  have P: "P < 18446744073709551616" using r lob by (simp add: P_def)
  have lo_part: "unat ((push_bit 32 R + (ucast (ucast a :: u32) :: u64) * ucast b) div 10000) = P"
    using r lob by (simp add: unat_div unat_word_ariths(1) w unat_shift_32 R P_def)
  show ?thesis
  proof (cases "q < 4294967296")
    case False
    then show ?thesis
      by (simp add: safe_mul_bps_div10000_def Let_def Q_def [symmetric] R_def [symmetric] UINT32_MAX_64_def
          word_less_nat_alt Q total)
  next
    case True
    then have hi_part: "unat (push_bit 32 Q) = q * 4294967296" by (simp add: unat_shift_32 Q)
    have left: "unat (- 1 - push_bit 32 Q) = 18446744073709551615 - q * 4294967296"
      using True unat_u64_max by (simp add: unat_sub_if' hi_part UINT64_MAX_def)
    define H where "H = push_bit 32 Q"
    define L where "L = (push_bit 32 R + (ucast (ucast a :: u32) :: u64) * ucast b) div 10000"
    have HL: "unat H = q * 4294967296" "unat L = P" "unat (- 1 - H) = 18446744073709551615 - q * 4294967296"
      using hi_part lo_part left by (simp_all add: H_def L_def)
    have "safe_mul_bps_div10000 a b = (if unat L > unat (- 1 - H) then None else Some (H + L))"
      using True by (simp add: safe_mul_bps_div10000_def Let_def Q_def [symmetric] R_def [symmetric] UINT32_MAX_64_def
          word_less_nat_alt Q H_def L_def)
    moreover have "H + L = of_nat (unat a * unat b div 10000)"
      by (simp add: total HL(1,2) [symmetric] P_def [symmetric])
    ultimately show ?thesis using True by (auto simp: total P_def [symmetric] HL)
  qed
qed

section \<open>What an accepted crosschain message is\<close>

text \<open>The number an amount field holds, and the accounts of an instruction, without words and pointers.\<close>

definition field_value :: "Instruction \<Rightarrow> instruction_descriptor_t \<Rightarrow> nat option" where
  "field_value ins d =
     (let n = unat (d_amount_size d); k = unat (d_amount_offset d);
          off = (if d_amount_rules_negative_offset d then data_length ins - k else k)
      in if d_amount_rules_negative_offset d \<and> data_length ins < k \<or> data_length ins < off + n \<or> 8 < n then None
         else Some (val256 ((if d_amount_rules_big_endian d then \<lambda>bs. bs else rev) (take n (drop off (bytes (data ins)))))))"

definition amount_described :: "swap_validated_t \<Rightarrow> instruction_descriptor_t \<Rightarrow> nat \<Rightarrow> bool" where
  "amount_described sv d v \<longleftrightarrow>
     (if d_capped_amount_bps_received d
      then unat (sv_amount sv) * unat (d_capped_amount_bps d) div 10000 < 2 ^ 64
         \<and> v * 10000 \<le> unat (sv_amount sv) * unat (d_capped_amount_bps d)
      else v = unat (sv_amount sv))"

definition account_described :: "MessageHeader \<Rightarrow> Instruction \<Rightarrow> bool \<Rightarrow> u8 \<Rightarrow> (u8 list \<Rightarrow> bool) \<Rightarrow> bool" where
  "account_described header ins received index P \<longleftrightarrow>
     (received \<longrightarrow> unat index < accounts_length ins \<and> P (bytes (account_key header ins (unat index))))"

definition described :: "swap_validated_t \<Rightarrow> token_env \<Rightarrow> u8 list option \<Rightarrow> u8 list \<Rightarrow> bool \<Rightarrow> u8 list \<Rightarrow> MessageHeader
    \<Rightarrow> instruction_descriptor_t \<Rightarrow> Instruction \<Rightarrow> bool" where
  "described sv env signer mint is_2022 owner header d ins \<longleftrightarrow>
     bytes (header_pubkey (pubkeys header) (unat (program_id_index ins))) = d_program_id d
     \<and> unat (d_discriminator_size d) \<le> data_length ins
     \<and> take (unat (d_discriminator_size d)) (bytes (data ins)) = take (unat (d_discriminator_size d)) (d_discriminator d)
     \<and> (d_amount_size d \<noteq> 0 \<longrightarrow> (\<exists>v. field_value ins d = Some v \<and> amount_described sv d v))
     \<and> account_described header ins (d_capped_amount_token_index_received d) (d_capped_amount_token_index d) (\<lambda>a. a = mint)
     \<and> account_described header ins (d_asset_account_index_received d) (d_asset_account_index d) (\<lambda>a. a = mint)
     \<and> account_described header ins (d_asset_ata_index_received d) (d_asset_ata_index d)
          (\<lambda>a. \<exists>key. signer = Some key \<and> validate_associated_token_address (env_sdk env) key mint a is_2022)
     \<and> account_described header ins (d_recipient_account_index_received d) (d_recipient_account_index d) (\<lambda>a. a = owner)
     \<and> account_described header ins (d_recipient_ata_index_received d) (d_recipient_ata_index d)
          (\<lambda>a. validate_associated_token_address (env_sdk env) owner mint a is_2022)"

lemma push_byte: "push_bit 8 (v :: u64) OR ucast (b :: u8) = v * 256 + ucast b"
proof -
  have "push_bit 8 v OR ucast b = push_bit 8 v + ucast b"
    by (rule disjunctive_add_eq_or [symmetric]) (rule bit_word_eqI, auto simp: bit_simps dest: bit_imp_le_length)
  then show ?thesis by (simp add: push_bit_eq_mult mult.commute)
qed

lemma be_value: "length bs \<le> 8 \<Longrightarrow> unat (foldl (\<lambda>value b. push_bit 8 value OR ucast b) (0 :: u64) bs) = val256 bs"
proof (induction bs rule: rev_induct)
  case (snoc b bs)
  have "val256 (bs @ [b]) < 256 ^ 8"
    using val256_bound [of "bs @ [b]"] power_increasing [of "length (bs @ [b])" 8 "256 :: nat"] snoc.prems
    by (meson less_le_trans one_le_numeral)
  moreover have "unat (ucast b :: u64) = unat b"
    using unat_u8_bound [of b] by (simp add: unsigned_ucast_eq take_bit_nat_eq_self)
  ultimately show ?case using snoc by (simp add: push_byte unat_word_ariths)
qed simp

lemma read_amount:
  assumes "data_length ins < 2 ^ 31"
  shows "(\<exists>v. read_amount_using_descriptor ins d = Some v \<and> unat v = n) \<longleftrightarrow> field_value ins d = Some n"
proof -
  have u32: "unat (ucast (x :: u8) :: u32) = unat x" for x by (rule unat_ucast_u8_u32)
  have len: "unat (of_nat m :: u32) = m" if "m < 2 ^ 32" for m using that by (simp add: unat_of_nat)
  define body where "body o32 = do { guard (\<not> o32 + ucast (d_amount_size d) > of_nat (data_length ins)); guard (\<not> d_amount_size d > 8);
        let amount = take (unat (d_amount_size d)) (drop (unat o32) (bytes (data ins)));
        let amount_be = (if d_amount_rules_big_endian d then amount else rev amount);
        Some (foldl (\<lambda>value b. push_bit 8 value OR ucast b) (0 :: u64) amount_be) }" for o32 :: u32
  have run: "read_amount_using_descriptor ins d = amount_offset ins d \<bind> body"
    unfolding read_amount_using_descriptor_def by (rule arg_cong [of _ _ "Option.bind (amount_offset ins d)"]) (simp add: body_def fun_eq_iff Let_def)
  have read: "(\<exists>v. body o32 = Some v \<and> unat v = n)
      \<longleftrightarrow> \<not> data_length ins < unat o32 + unat (d_amount_size d) \<and> \<not> 8 < unat (d_amount_size d) \<and>
        val256 ((if d_amount_rules_big_endian d then \<lambda>bs. bs else rev)
          (take (unat (d_amount_size d)) (drop (unat o32) (bytes (data ins))))) = n"
    if "unat (o32 :: u32) < 2 ^ 31" for o32
  proof -
    have "unat (o32 + ucast (d_amount_size d)) = unat o32 + unat (d_amount_size d)"
      using that unat_u8_bound [of "d_amount_size d"] by (simp add: unat_word_ariths u32)
    then show ?thesis
      using assms by (auto simp: body_def guard_def word_less_nat_alt word_le_nat_alt len be_value Let_def not_less)
  qed
  have offset: "amount_offset ins d = None \<longleftrightarrow> d_amount_rules_negative_offset d \<and> data_length ins < unat (d_amount_offset d)"
    by (simp add: amount_offset_def)
  have off_value: "unat o32 = (if d_amount_rules_negative_offset d then data_length ins - unat (d_amount_offset d) else unat (d_amount_offset d))"
    "unat o32 < 2 ^ 31" if "amount_offset ins d = Some o32" for o32
    using that assms unat_u8_bound [of "d_amount_offset d"]
    by (auto simp: amount_offset_def len u32 split: if_splits simp del: of_nat_diff)
  show ?thesis
  proof (cases "amount_offset ins d")
    case None
    then show ?thesis using offset by (simp add: run field_value_def)
  next
    case (Some o32)
    then show ?thesis
      using offset read [OF off_value(2) [OF Some]] off_value(1) [OF Some]
      by (auto simp: run field_value_def Let_def)
  qed
qed

text \<open>Descriptors as the parser makes them.\<close>

definition descriptor_ok :: "instruction_descriptor_t \<Rightarrow> bool" where
  "descriptor_ok d \<longleftrightarrow> length (d_program_id d) = 32 \<and> length (d_discriminator d) = 8 \<and> unat (d_discriminator_size d) \<le> 8"

lemma check_descriptor_amount_iff:
  assumes "data_length ins < 2 ^ 31" "initialized sv"
  shows "check_descriptor_amount sv ins d \<longleftrightarrow>
    d_amount_size d = 0 \<or> (\<exists>v. field_value ins d = Some v \<and> amount_described sv d v)"
proof -
  have capped: "(case safe_mul_bps_div10000 a b of None \<Rightarrow> False | Some cap \<Rightarrow> \<not> v > cap) \<longleftrightarrow>
      unat a * unat b div 10000 < 2 ^ 64 \<and> unat v * 10000 \<le> unat a * unat b" for a b v
    by (simp add: safe_mul_eq word_less_nat_alt unat_of_nat not_less less_eq_div_iff_mult_less_eq)
  have "check_descriptor_amount sv ins d \<longleftrightarrow> d_amount_size d = 0 \<or>
      (\<exists>v. read_amount_using_descriptor ins d = Some v \<and> amount_described sv d (unat v))"
    using assms(2)
    by (auto simp: check_descriptor_amount_def get_swap_amount_raw_def check_swap_amount_raw_def amount_described_def
        capped word_unat_eq_iff split: option.splits)
  then show ?thesis using read_amount [OF assms(1), of d] by (metis (no_types))
qed

lemma check_account_iff:
  assumes "\<And>a. length (bytes a) = 32 \<Longrightarrow> P a \<longleftrightarrow> Q (bytes a)"
    and "\<forall>k < accounts_length ins. length (bytes (account_key header ins k)) = 32"
  shows "check_account received index P header ins \<longleftrightarrow> account_described header ins received index Q"
  using assms by (auto simp: check_account_def account_described_def get_account_from_ins_def account_key_def)

lemma memcmp_key: "length a = 32 \<Longrightarrow> length b = 32 \<Longrightarrow> memcmp a b = 0 \<longleftrightarrow> b = a"
  by (auto simp: memcmp_eq_0)

lemma get_swap_recipient_SomeD: "get_swap_recipient sdk sv = Some key \<Longrightarrow> length key = 32 \<and> initialized sv"
  by (auto simp: get_swap_recipient_def PUBKEY_SIZE_def split: if_splits option.splits)

lemma check_discriminator_iff:
  assumes "descriptor_ok d"
  shows "check_discriminator ins d \<longleftrightarrow> unat (d_discriminator_size d) \<le> data_length ins
     \<and> take (unat (d_discriminator_size d)) (bytes (data ins)) = take (unat (d_discriminator_size d)) (d_discriminator d)"
proof -
  let ?n = "unat (d_discriminator_size d)"
  have "memcmp (take ?n (bytes (data ins))) (take ?n (d_discriminator d)) = 0
      \<longleftrightarrow> take ?n (bytes (data ins)) = take ?n (d_discriminator d)" if "?n \<le> data_length ins"
    using that assms by (intro memcmp_eq_0) (simp add: descriptor_ok_def data_length_def)
  then show ?thesis by (auto simp: check_discriminator_def unat_eq_0 not_less)
qed

lemma validate_described:
  assumes "get_token_mint_address env (get_swap_ticker sv) = Some (mint, is_2022)" "length mint = 32"
    and "get_swap_recipient sdk sv = Some owner" "parse_message_header p0 = Some (header, p)"
    and "instruction_validate ins header" "data_length ins < 2 ^ 31"
    and "get_next_descriptor G = Some (d, G')" "descriptor_ok d"
  shows "validate_instruction_using_descriptor sdk sv env signer header ins G = Some G'' \<longleftrightarrow>
    G'' = G' \<and> described sv env signer mint is_2022 owner header d ins"
proof -
  let ?program = "bytes (header_pubkey (pubkeys header) (unat (program_id_index ins)))"
  from validated_accounts_in_bounds [OF assms(4,5)] have keys: "length ?program = 32"
    "\<forall>k < accounts_length ins. length (bytes (account_key header ins k)) = 32" by simp_all
  have owner: "length owner = 32" "initialized sv" using get_swap_recipient_SomeD [OF assms(3)] by simp_all
  have key: "check_account received index (\<lambda>a. memcmp k (bytes a) = 0) header ins
      \<longleftrightarrow> account_described header ins received index (\<lambda>a. a = k)" if "length k = 32" for received index k
    by (rule check_account_iff [OF _ keys(2)]) (rule memcmp_key [OF that])
  have signer: "check_account received index (\<lambda>a. case signer of None \<Rightarrow> False | Some key \<Rightarrow>
        validate_associated_token_address (env_sdk env) key mint (bytes a) is_2022) header ins
      \<longleftrightarrow> account_described header ins received index (\<lambda>a. \<exists>key. signer = Some key
        \<and> validate_associated_token_address (env_sdk env) key mint a is_2022)" for received index
    by (rule check_account_iff [OF _ keys(2)]) (simp split: option.split)
  have ata: "check_account received index (\<lambda>a. validate_associated_token_address (env_sdk env) owner mint (bytes a) is_2022) header ins
      \<longleftrightarrow> account_described header ins received index (\<lambda>a. validate_associated_token_address (env_sdk env) owner mint a is_2022)"
    for received index
    by (rule check_account_iff [OF _ keys(2)]) simp
  have program: "memcmp ?program (d_program_id d) = 0 \<longleftrightarrow> ?program = d_program_id d"
    using keys(1) assms(8) by (intro memcmp_eq_0) (simp add: descriptor_ok_def)
  show ?thesis
    unfolding validate_instruction_using_descriptor_def assms(1,3) bind.simps prod.case assms(7)
      key [OF assms(2)] key [OF owner(1)] signer ata check_discriminator_iff [OF assms(8)]
      check_descriptor_amount_iff [OF assms(6) owner(2)] not_not program
    by (auto simp: guard_def described_def)
qed

text \<open>The globals are reset or built by the reception: the state of the descriptors is always well formed.\<close>

definition saved_ok :: "saved_descriptors_t \<Rightarrow> bool" where
  "saved_ok G \<longleftrightarrow> length (descriptors G) = MAX_DISCRIMINATOR_NUMBER \<and> list_all descriptor_ok (descriptors G)
     \<and> read_count G \<le> saved_count G \<and> unat (saved_count G) \<le> MAX_DISCRIMINATOR_NUMBER"

lemma get_next_descriptor_ok:
  assumes "saved_ok G" "get_next_descriptor G = Some (d, G')"
  shows "unat (read_count G) < unat (saved_count G) \<and> d = descriptors G ! unat (read_count G) \<and> descriptor_ok d
    \<and> unat (read_count G') = unat (read_count G) + 1 \<and> G' = G\<lparr>read_count := read_count G + 1\<rparr> \<and> saved_ok G'"
proof -
  have lt: "unat (read_count G) < unat (saved_count G)" "unat (saved_count G) \<le> 15"
    and d: "d = descriptors G ! unat (read_count G)" "G' = G\<lparr>read_count := read_count G + 1\<rparr>"
    using assms by (auto simp: get_next_descriptor_def saved_ok_def MAX_DISCRIMINATOR_NUMBER_def word_less_nat_alt
        word_le_nat_alt split: if_splits)
  then have "unat (read_count G + 1) = unat (read_count G) + 1" by (simp add: unat_word_ariths)
  then show ?thesis
    using assms(1) lt d by (auto simp: saved_ok_def MAX_DISCRIMINATOR_NUMBER_def list_all_length word_le_nat_alt)
qed

lemma get_next_descriptor_Some:
  "unat (read_count G) < unat (saved_count G) \<Longrightarrow>
    get_next_descriptor G = Some (descriptors G ! unat (read_count G), G\<lparr>read_count := read_count G + 1\<rparr>)"
  by (simp add: get_next_descriptor_def word_le_nat_alt)

lemma parse_data_bound: "parse_data p = Some (d, q) \<Longrightarrow> length (bytes d) \<le> buffer_length p \<and> buffer_length q \<le> buffer_length p"
  by (auto simp: parse_data_def parse_length_compact buffer_length_def split: Option.bind_splits)

lemma parse_instruction_bound:
  "parse_instruction p = Some (ins, q) \<Longrightarrow> data_length ins \<le> buffer_length p \<and> buffer_length q \<le> buffer_length p"
  by (auto simp: parse_instruction_def data_length_def parse_u8_cases buffer_length_def
      split: list.splits Option.bind_splits dest!: parse_data_bound)

lemma parse_validate_iff:
  "parse_validate_and_debug_instruction_accounts p header = Some (Some (ins, q))
    \<longleftrightarrow> parse_instruction p = Some (ins, q) \<and> instruction_ok header ins"
  by (auto simp: parse_validate_and_debug_instruction_accounts_def instruction_ok_def debug_accounts_eq split: option.splits)

lemma validate_instructions_iff:
  assumes "saved_ok G" "buffer_length p < 2 ^ 31"
    and "get_token_mint_address env (get_swap_ticker sv) = Some (mint, is_2022)" "length mint = 32"
    and "get_swap_recipient sdk sv = Some owner" "parse_message_header p0 = Some (header, q0)"
  shows "validate_instructions (\<lambda>ins G. validate_instruction_using_descriptor sdk sv env signer header ins G) header n p G
      = Some (Some (q, G')) \<longleftrightarrow>
    (\<exists>ins. length ins = n \<and> reads ins p q \<and> list_all (instruction_ok header) ins
      \<and> unat (read_count G) + n \<le> unat (saved_count G)
      \<and> list_all2 (described sv env signer mint is_2022 owner header)
           (take n (drop (unat (read_count G)) (descriptors G))) ins
      \<and> G' = G\<lparr>read_count := read_count G + of_nat n\<rparr>)"
  using assms(1,2)
proof (induction n arbitrary: p G)
  case 0
  then show ?case by (auto simp: saved_ok_def word_le_nat_alt)
next
  case (Suc n)
  let ?validate = "\<lambda>ins G. validate_instruction_using_descriptor sdk sv env signer header ins G"
  let ?D = "described sv env signer mint is_2022 owner header"
  let ?k = "unat (read_count G)"
  let ?H = "G\<lparr>read_count := read_count G + 1\<rparr>"
  have one: "?validate ins G = Some H \<longleftrightarrow> ?k < unat (saved_count G) \<and> H = ?H \<and> ?D (descriptors G ! ?k) ins"
    if i: "parse_instruction p = Some (ins, p1)" "instruction_ok header ins" for ins p1 H
  proof -
    have len: "data_length ins < 2 ^ 31" using parse_instruction_bound [OF i(1)] Suc.prems(2) by simp
    have valid: "instruction_validate ins header" using i(2) by (simp add: instruction_ok_def)
    show ?thesis
    proof (cases "?k < unat (saved_count G)")
      case True
      note d = get_next_descriptor_Some [OF True]
      from get_next_descriptor_ok [OF Suc.prems(1) d] show ?thesis
        using validate_described [OF assms(3-6) valid len d] True by auto
    next
      case False
      then have "get_next_descriptor G = None" by (simp add: get_next_descriptor_def word_le_nat_alt)
      then show ?thesis using False assms(3,5) by (simp add: validate_instruction_using_descriptor_def)
    qed
  qed
  have step: "validate_instructions ?validate header (Suc n) p G = Some (Some (q, G')) \<longleftrightarrow>
      (\<exists>ins p1 H. parse_instruction p = Some (ins, p1) \<and> instruction_ok header ins \<and> ?validate ins G = Some H
        \<and> validate_instructions ?validate header n p1 H = Some (Some (q, G')))"
    (is "_ \<longleftrightarrow> ?r")
  proof -
    have "?r \<longleftrightarrow> (\<exists>ins p1 H. parse_validate_and_debug_instruction_accounts p header = Some (Some (ins, p1))
        \<and> ?validate ins G = Some H \<and> validate_instructions ?validate header n p1 H = Some (Some (q, G')))"
      by (simp add: parse_validate_iff)
    then show ?thesis by (auto split: option.splits Option.bind_splits)
  qed
  have IH: "validate_instructions ?validate header n p1 ?H = Some (Some (q, G')) \<longleftrightarrow>
      (\<exists>ins. length ins = n \<and> reads ins p1 q \<and> list_all (instruction_ok header) ins
        \<and> Suc ?k + n \<le> unat (saved_count G) \<and> list_all2 ?D (take n (drop (Suc ?k) (descriptors G))) ins
        \<and> G' = G\<lparr>read_count := read_count G + of_nat (Suc n)\<rparr>)"
    if "parse_instruction p = Some (i, p1)" "?k < unat (saved_count G)" for i p1
  proof -
    note d = get_next_descriptor_ok [OF Suc.prems(1) get_next_descriptor_Some [OF that(2)]]
    have "buffer_length p1 < 2 ^ 31" using parse_instruction_bound [OF that(1)] Suc.prems(2) by simp
    from Suc.IH [OF _ this, of ?H] d show ?thesis by (simp add: add.assoc)
  qed
  have drop: "take (Suc n) (drop ?k (descriptors G)) = descriptors G ! ?k # take n (drop (Suc ?k) (descriptors G))"
    if "?k < unat (saved_count G)"
    using that Suc.prems(1) by (simp add: saved_ok_def Cons_nth_drop_Suc [symmetric])
  show ?case (is "?l = ?r")
  proof
    assume ?l
    then obtain i p1 H where i: "parse_instruction p = Some (i, p1)" "instruction_ok header i" "?validate i G = Some H"
      "validate_instructions ?validate header n p1 H = Some (Some (q, G'))" unfolding step by (elim exE conjE)
    from i(3) have d: "?k < unat (saved_count G)" "H = ?H" "?D (descriptors G ! ?k) i"
      unfolding one [OF i(1,2)] by simp_all
    from i(4) obtain ins where "length ins = n" "reads ins p1 q" "list_all (instruction_ok header) ins"
      "Suc ?k + n \<le> unat (saved_count G)" "list_all2 ?D (take n (drop (Suc ?k) (descriptors G))) ins"
      "G' = G\<lparr>read_count := read_count G + of_nat (Suc n)\<rparr>" unfolding d(2) IH [OF i(1) d(1)] by (elim exE conjE)
    then show ?r using i(1,2) d drop by (intro exI [of _ "i # ins"]) simp
  next
    assume ?r
    then obtain i ins where r: "length ins = n" "reads (i # ins) p q" "instruction_ok header i"
      "list_all (instruction_ok header) ins" "?k + Suc n \<le> unat (saved_count G)"
      "list_all2 ?D (take (Suc n) (drop ?k (descriptors G))) (i # ins)"
      "G' = G\<lparr>read_count := read_count G + of_nat (Suc n)\<rparr>"
      by (auto simp: length_Suc_conv)
    then have k: "?k < unat (saved_count G)" by simp
    obtain p1 where p1: "parse_instruction p = Some (i, p1)" "reads ins p1 q" using r(2) by (auto split: option.splits)
    have d: "?D (descriptors G ! ?k) i" "list_all2 ?D (take n (drop (Suc ?k) (descriptors G))) ins"
      using r(6) drop [OF k] by simp_all
    have "?validate i G = Some ?H" unfolding one [OF p1(1) r(3)] using k d(1) by simp
    moreover have "validate_instructions ?validate header n p1 ?H = Some (Some (q, G'))"
      unfolding IH [OF p1(1) k] using r(1,4,5,7) p1(2) d(2) by (intro exI [of _ ins]) simp
    ultimately show ?l unfolding step using p1(1) r(3) by (intro exI conjI)
  qed
qed

text \<open>C7: A crosschain message is accepted exactly when it has as many instructions as descriptors were received,
  each instruction is what its descriptor says, in order, and nothing is left of the message: its
  program and the start of its data are those of the descriptor, the amount in its data is the
  validated one, or at most the cap computed from it, the accounts the descriptor points to are the
  mint, the recipient and the token accounts derived from the keys of the user and the recipient.\<close>

theorem crosschain_message_accepted_iff:
  assumes "saved_ok G" "read_count G = 0" "buffer_length p < 2 ^ 31"
    and "get_token_mint_address env (get_swap_ticker sv) = Some (mint, is_2022)" "length mint = 32"
    and "get_swap_recipient sdk sv = Some owner" "parse_message_header p0 = Some (config_header cfg, q0)"
  shows "(\<exists>G'. process_message_body_with_descriptor sdk sv env signer p cfg (Some G) = Some (Some G')) \<longleftrightarrow>
    (\<exists>ins q. ins \<noteq> [] \<and> length ins = instructions_length (config_header cfg) \<and> length ins = unat (saved_count G)
      \<and> reads ins p q \<and> parser_is_empty q \<and> list_all (instruction_ok (config_header cfg)) ins
      \<and> list_all2 (described sv env signer mint is_2022 owner (config_header cfg))
           (take (length ins) (descriptors G)) ins)" (is "_ \<longleftrightarrow> ?accepted")
proof -
  let ?h = "config_header cfg"
  let ?run = "validate_instructions (\<lambda>ins G. validate_instruction_using_descriptor sdk sv env signer ?h ins G) ?h
    (instructions_length ?h) p G"
  have "(\<exists>G'. process_message_body_with_descriptor sdk sv env signer p cfg (Some G) = Some (Some G')) \<longleftrightarrow>
      instructions_length ?h \<noteq> 0 \<and> unat (saved_count G) = instructions_length ?h
      \<and> (\<exists>q G'. ?run = Some (Some (q, G')) \<and> parser_is_empty q)"
    by (auto simp: process_message_body_with_descriptor_def get_descriptor_count_def Let_def
        split: option.splits if_splits Option.bind_splits)
  moreover have "(\<exists>G'. ?run = Some (Some (q, G'))) \<longleftrightarrow> (\<exists>ins. length ins = instructions_length ?h \<and> reads ins p q
      \<and> list_all (instruction_ok ?h) ins \<and> instructions_length ?h \<le> unat (saved_count G)
      \<and> list_all2 (described sv env signer mint is_2022 owner ?h) (take (instructions_length ?h) (descriptors G)) ins)" for q
    unfolding validate_instructions_iff [OF assms(1,3-7)] assms(2) by simp
  ultimately have "(\<exists>G'. process_message_body_with_descriptor sdk sv env signer p cfg (Some G) = Some (Some G')) \<longleftrightarrow>
      instructions_length ?h \<noteq> 0 \<and> unat (saved_count G) = instructions_length ?h
      \<and> (\<exists>q. parser_is_empty q \<and> (\<exists>ins. length ins = instructions_length ?h \<and> reads ins p q
        \<and> list_all (instruction_ok ?h) ins \<and> instructions_length ?h \<le> unat (saved_count G)
        \<and> list_all2 (described sv env signer mint is_2022 owner ?h) (take (instructions_length ?h) (descriptors G)) ins))"
    by blast
  also have "\<dots> \<longleftrightarrow> ?accepted"
    by (metis length_0_conv order_refl)
  finally show ?thesis .
qed

section \<open>What a received descriptor is\<close>

lemmas tlv_handlers = handle_structure_type_def handle_version_def handle_chain_id_def handle_template_id_def
  handle_program_id_def handle_discriminator_def handle_amount_size_def handle_amount_offset_def handle_amount_rules_def
  handle_asset_account_index_def handle_asset_ata_index_def handle_recipient_account_index_def
  handle_recipient_ata_index_def handle_capped_amount_bps_def handle_capped_amount_token_index_def
  handle_signature_def update_ins_def

text \<open>The contract of the reader of the SDK: the length of a buffer is within the bounds it was asked with.\<close>

definition buffers_bounded :: "tlv_sdk \<Rightarrow> bool" where
  "buffers_bounded sdk \<longleftrightarrow> (\<forall>d lo hi b. get_buffer_from_tlv_data sdk d lo hi = Some b \<longrightarrow> lo \<le> length b \<and> length b \<le> hi)"

lemma handle_program_id_ok:
  assumes "handle_program_id sdk d out = Some out'" "buffers_bounded sdk"
  shows "hash_ctx out' = hash_ctx out \<and> (descriptor_ok (out_ins out) \<longrightarrow> descriptor_ok (out_ins out'))"
proof -
  obtain b where b: "get_buffer_from_tlv_data sdk d 32 32 = Some b"
    "out' = update_ins (d_program_id_update (\<lambda>_. take 32 b)) out"
    using assms(1) by (auto simp: handle_program_id_def PROGRAM_ADDRESS_SIZE_def bind_eq_Some_conv)
  have "32 \<le> length b" using b(1) assms(2) unfolding buffers_bounded_def by blast
  then show ?thesis by (simp add: b(2) update_ins_def descriptor_ok_def)
qed

lemma handle_discriminator_ok:
  assumes "handle_discriminator sdk d out = Some out'" "buffers_bounded sdk"
  shows "hash_ctx out' = hash_ctx out \<and> (descriptor_ok (out_ins out) \<longrightarrow> descriptor_ok (out_ins out'))"
proof -
  obtain b where b: "get_buffer_from_tlv_data sdk d 0 8 = Some b"
    "out' = update_ins (\<lambda>ins. ins\<lparr>d_discriminator_size := of_nat (length b),
       d_discriminator := b @ drop (length b) (d_discriminator ins)\<rparr>) out"
    using assms(1) by (auto simp: handle_discriminator_def MAX_DISCRIMINATOR_SIZE_def bind_eq_Some_conv)
  have "length b \<le> 8" using b(1) assms(2) unfolding buffers_bounded_def by blast
  then show ?thesis by (simp add: b(2) update_ins_def descriptor_ok_def unat_of_nat)
qed

lemma other_handlers_ok:
  assumes "descriptor_ok (out_ins out) = ok"
  shows "\<forall>h \<in> {handle_structure_type, handle_version, handle_chain_id, handle_template_id, handle_amount_size,
      handle_amount_offset, handle_amount_rules, handle_asset_account_index, handle_asset_ata_index,
      handle_recipient_account_index, handle_recipient_ata_index, handle_capped_amount_bps,
      handle_capped_amount_token_index, handle_signature}.
    \<forall>out'. h sdk d out = Some out' \<longrightarrow> hash_ctx out' = hash_ctx out \<and> descriptor_ok (out_ins out') = ok"
  unfolding ball_simps assms [symmetric] descriptor_ok_def
  by (intro conjI allI impI TrueI; auto simp: tlv_handlers bind_eq_Some_conv)

lemma handler_effect:
  assumes "handler \<in> snd ` set INSTRUCTION_DESCRIPTOR_TLV_TAGS" "handler sdk d out = Some out'" "buffers_bounded sdk"
  shows "hash_ctx out' = hash_ctx out \<and> (descriptor_ok (out_ins out) \<longrightarrow> descriptor_ok (out_ins out'))"
proof -
  consider "handler = handle_program_id" | "handler = handle_discriminator"
    | "handler \<in> {handle_structure_type, handle_version, handle_chain_id, handle_template_id, handle_amount_size,
      handle_amount_offset, handle_amount_rules, handle_asset_account_index, handle_asset_ata_index,
      handle_recipient_account_index, handle_recipient_ata_index, handle_capped_amount_bps,
      handle_capped_amount_token_index, handle_signature}"
    using assms(1) by (simp add: INSTRUCTION_DESCRIPTOR_TLV_TAGS_def) blast
  then show ?thesis
  proof cases
    case 1
    then show ?thesis using handle_program_id_ok [OF _ assms(3)] assms(2) by simp
  next
    case 2
    then show ?thesis using handle_discriminator_ok [OF _ assms(3)] assms(2) by simp
  next
    case 3
    from other_handlers_ok [OF refl, of sdk d out, THEN bspec [OF _ 3]] show ?thesis using assms(2) by simp
  qed
qed

lemma handle_tlvs_effect:
  assumes "handle_tlvs sdk ds out = Some out'" "buffers_bounded sdk"
  shows "hash_ctx out' = hash_ctx out @ map tlv_raw (filter (\<lambda>d. tlv_tag d \<noteq> TAG_DER_SIGNATURE) ds)
    \<and> (descriptor_ok (out_ins out) \<longrightarrow> descriptor_ok (out_ins out'))"
  using assms(1)
proof (induction ds arbitrary: out)
  case (Cons d ds)
  obtain out1 where c: "handle_common sdk d out = Some out1" "out_ins out1 = out_ins out"
    "hash_ctx out1 = hash_ctx out @ (if tlv_tag d \<noteq> TAG_DER_SIGNATURE then [tlv_raw d] else [])"
    by (simp add: handle_common_def)
  then obtain handler out2 where h: "map_of INSTRUCTION_DESCRIPTOR_TLV_TAGS (tlv_tag d) = Some handler"
    "handler sdk d out1 = Some out2" "handle_tlvs sdk ds (out2\<lparr>received_tags := tlv_tag d # received_tags out2\<rparr>) = Some out'"
    using Cons.prems by (auto simp: bind_eq_Some_conv)
  have "handler \<in> snd ` set INSTRUCTION_DESCRIPTOR_TLV_TAGS" using map_of_SomeD [OF h(1)] by force
  from handler_effect [OF this h(2) assms(2)] Cons.IH [OF h(3)] c show ?case by simp
qed simp

lemma no_descriptor_ok: "descriptor_ok no_descriptor"
  by (simp add: descriptor_ok_def no_descriptor_def PROGRAM_ADDRESS_SIZE_def MAX_DISCRIMINATOR_SIZE_def)

lemma no_saved_ok: "saved_ok no_saved_descriptors"
  by (simp add: saved_ok_def no_saved_descriptors_def MAX_DISCRIMINATOR_NUMBER_def no_descriptor_ok list_all_iff)

lemma save_ok:
  assumes "save_instruction_descriptor net t d G = Some G'" "saved_ok G" "descriptor_ok d"
  shows "saved_ok G' \<and> unat (saved_count G') = unat (saved_count G) + 1 \<and> read_count G' = read_count G
    \<and> descriptors G' = (descriptors G)[unat (saved_count G) := d] \<and> sd_is_main_net G' = net \<and> sd_template_id G' = t"
proof -
  have n: "unat (saved_count G) < 15"
    using assms(1) by (simp add: save_instruction_descriptor_def guard_def MAX_DISCRIMINATOR_NUMBER_def split: if_splits)
  then have inc: "unat (saved_count G + 1) = unat (saved_count G) + 1" by (simp add: unat_word_ariths)
  have H: "\<exists>H. G' = H\<lparr>descriptors := (descriptors H)[unat (saved_count H) := d], saved_count := saved_count H + 1\<rparr>
      \<and> saved_count H = saved_count G \<and> read_count H = read_count G \<and> descriptors H = descriptors G
      \<and> sd_is_main_net H = net \<and> sd_template_id H = t"
  proof (cases "saved_count G > 0")
    case True
    then show ?thesis using assms(1)
      by (intro exI [of _ G]) (auto simp: save_instruction_descriptor_def guard_def bind_eq_Some_conv split: if_splits)
  next
    case False
    then show ?thesis using assms(1)
      by (intro exI [of _ "G\<lparr>sd_is_main_net := net, sd_template_id := t\<rparr>"])
        (auto simp: save_instruction_descriptor_def guard_def bind_eq_Some_conv split: if_splits)
  qed
  then obtain H where H: "G' = H\<lparr>descriptors := (descriptors H)[unat (saved_count H) := d], saved_count := saved_count H + 1\<rparr>"
    "saved_count H = saved_count G" "read_count H = read_count G" "descriptors H = descriptors G"
    "sd_is_main_net H = net" "sd_template_id H = t" by (elim exE conjE)
  then show ?thesis
    using assms(2,3) n inc
    by (simp add: saved_ok_def MAX_DISCRIMINATOR_NUMBER_def list_all_length nth_list_update word_le_nat_alt)
qed

lemma received_descriptor:
  assumes "handle_provide_instruction_descriptor_internal sdk hash mem sv payload G = Some (Inr G')"
    and "buffers_bounded sdk" "\<And>H. G = Some H \<Longrightarrow> saved_ok H"
  shows "\<exists>ds out digest. tlv_split sdk (map fst INSTRUCTION_DESCRIPTOR_TLV_TAGS) payload = Some ds
    \<and> parse_instruction_descriptor sdk payload = Some out
    \<and> sdk_sha256 hash (map tlv_raw (filter (\<lambda>d. tlv_tag d \<noteq> TAG_DER_SIGNATURE) ds)) = Some digest
    \<and> check_signature_with_pki sdk digest (out_signature out)
    \<and> initialized sv \<and> out_template_id out = template_id sv
    \<and> (let n = (case G of None \<Rightarrow> 0 | Some H \<Rightarrow> unat (saved_count H)) in
          n < MAX_DISCRIMINATOR_NUMBER \<and> unat (saved_count G') = n + 1 \<and> descriptors G' ! n = out_ins out
          \<and> read_count G' = (case G of None \<Rightarrow> 0 | Some H \<Rightarrow> read_count H))
    \<and> saved_ok G'"
proof -
  obtain out where out: "parse_instruction_descriptor sdk payload = Some out"
    using assms(1) by (cases "parse_instruction_descriptor sdk payload")
      (auto simp: handle_provide_instruction_descriptor_internal_def invalid_descriptor_def)
  then obtain ds where ds: "tlv_split sdk (map fst INSTRUCTION_DESCRIPTOR_TLV_TAGS) payload = Some ds"
    "handle_tlvs sdk ds no_tlv_out = Some out"
    by (auto simp: parse_instruction_descriptor_def bind_eq_Some_conv)
  have effect: "hash_ctx out = map tlv_raw (filter (\<lambda>d. tlv_tag d \<noteq> TAG_DER_SIGNATURE) ds)" "descriptor_ok (out_ins out)"
    using handle_tlvs_effect [OF ds(2) assms(2)] no_descriptor_ok by (simp_all add: no_tlv_out_def)
  let ?H = "case G of None \<Rightarrow> no_saved_descriptors | Some G \<Rightarrow> G"
  obtain digest where digest: "sdk_sha256 hash (hash_ctx out) = Some digest"
      "check_signature_with_pki sdk digest (out_signature out)" "check_template_id sv (out_template_id out)"
      "save_instruction_descriptor (out_is_main_net out) (out_template_id out) (out_ins out) ?H = Some G'"
    using assms(1) out
    by (auto simp: handle_provide_instruction_descriptor_internal_def invalid_descriptor_def bind_eq_Some_conv
        split: if_splits option.splits)
  have H: "saved_ok ?H" using assms(3) no_saved_ok by (simp split: option.split)
  have n: "unat (saved_count ?H) = (case G of None \<Rightarrow> 0 | Some H \<Rightarrow> unat (saved_count H))"
    "read_count ?H = (case G of None \<Rightarrow> 0 | Some H \<Rightarrow> read_count H)"
    by (simp_all add: no_saved_descriptors_def split: option.split)
  note s = save_ok [OF digest(4) H effect(2)]
  have "unat (saved_count ?H) < MAX_DISCRIMINATOR_NUMBER" "length (descriptors ?H) = MAX_DISCRIMINATOR_NUMBER"
    using s H by (auto simp: saved_ok_def)
  then have "descriptors G' ! unat (saved_count ?H) = out_ins out" using s by simp
  moreover have "initialized sv \<and> out_template_id out = template_id sv"
    using digest(3) by (auto simp: check_template_id_def split: if_splits)
  ultimately show ?thesis
    using ds(1) out digest(1,2) effect(1) s \<open>unat (saved_count ?H) < MAX_DISCRIMINATOR_NUMBER\<close> n
    by (intro exI [of _ ds] exI [of _ out] exI [of _ digest]) (simp add: Let_def)
qed

text \<open>C18: A descriptor that is stored was signed by the key of the swap templates, over everything received but the
  signature, and carries the template the user validated; it goes to the first free slot of the
  fifteen, and the store stays well formed: the bounds of the code are never passed.\<close>

theorem received_descriptor_is_signed:
  assumes "handle_provide_instruction_descriptor_internal sdk hash mem sv payload G = Some (Inr G')"
    and "buffers_bounded sdk" "\<And>H. G = Some H \<Longrightarrow> saved_ok H"
  shows "\<exists>ds out digest. tlv_split sdk (map fst INSTRUCTION_DESCRIPTOR_TLV_TAGS) payload = Some ds
    \<and> parse_instruction_descriptor sdk payload = Some out
    \<and> sdk_sha256 hash (map tlv_raw (filter (\<lambda>d. tlv_tag d \<noteq> TAG_DER_SIGNATURE) ds)) = Some digest
    \<and> check_signature_with_pki sdk digest (out_signature out)
    \<and> initialized sv \<and> out_template_id out = template_id sv
    \<and> (let n = (case G of None \<Rightarrow> 0 | Some H \<Rightarrow> unat (saved_count H)) in
          n < MAX_DISCRIMINATOR_NUMBER \<and> unat (saved_count G') = n + 1 \<and> descriptors G' ! n = out_ins out
          \<and> read_count G' = (case G of None \<Rightarrow> 0 | Some H \<Rightarrow> read_count H))
    \<and> saved_ok G'"
  using assms by (rule received_descriptor)

text \<open>C36: A versioned message that is complete, with its list of address tables, is never accepted in a crosschain
  swap: the variant with descriptors does not read the tables that \<open>process_message_body\<close> reads, and
  then finds that something is left.\<close>

theorem crosschain_refuses_versioned:
  assumes "versioned (config_header cfg)" "reads ins p q" "length ins = instructions_length (config_header cfg)"
    and "parse_address_tables (config_header cfg) q \<noteq> None"
  shows "process_message_body_with_descriptor sdk sv env signer p cfg G \<noteq> Some (Some G')"
proof
  assume "process_message_body_with_descriptor sdk sv env signer p cfg G = Some (Some G')"
  then obtain H r where run: "validate_instructions (\<lambda>ins G. validate_instruction_using_descriptor sdk sv env signer
        (config_header cfg) ins G) (config_header cfg) (length ins) p H = Some (Some (r, G'))" "parser_is_empty r"
    using assms(3) by (auto simp: process_message_body_with_descriptor_def Let_def split: option.splits if_splits Option.bind_splits)
  have "validate_instructions v h (length ins) p H = Some (Some (r, G')) \<Longrightarrow> r = q" for v h H
    using assms(2)
  proof (induction ins arbitrary: p H)
    case (Cons i ins)
    then show ?case
      by (auto simp: parse_validate_and_debug_instruction_accounts_def split: option.splits if_splits Option.bind_splits)
  qed simp
  then have "parser_is_empty q" using run by blast
  then show False
    using assms(1,4) by (auto simp: parse_address_tables_def parse_length_compact parser_is_empty_def buffer_length_def)
qed

section \<open>Instances\<close>

text \<open>A device whose hash and signature check accept everything, and a descriptor of one instruction.\<close>

definition sample_tlv_sdk :: "tlv_data_t list \<Rightarrow> tlv_sdk" where
  "sample_tlv_sdk ds = \<lparr>tlv_split = \<lambda>_ _. Some ds,
     get_uint8_t_from_tlv_data = \<lambda>d. Some (hd (tlv_contents d)),
     get_uint16_t_from_tlv_data = \<lambda>d. None,
     get_uint32_t_from_tlv_data = \<lambda>d. Some 900,
     get_uint64_t_from_tlv_data = \<lambda>d. Some 5,
     get_buffer_from_tlv_data = \<lambda>d lo hi.
       if lo \<le> length (tlv_contents d) \<and> length (tlv_contents d) \<le> hi then Some (tlv_contents d) else None,
     DER_SIGNATURE_MIN_SIZE = 1, DER_SIGNATURE_MAX_SIZE = 72, check_signature_with_pki = \<lambda>_ _. True\<rparr>"

definition sample_tlvs :: "tlv_data_t list" where
  "sample_tlvs = map (\<lambda>(t, c). \<lparr>tlv_tag = t, tlv_raw = c, tlv_contents = c\<rparr>)
     [(TAG_STRUCTURE_TYPE, [0x0a]), (TAG_VERSION, [1]), (TAG_CHAIN_ID, []), (TAG_TEMPLATE_ID, []),
      (TAG_PROGRAM_ID, replicate 32 7), (TAG_DISCRIMINATOR, [5]), (TAG_AMOUNT_SIZE, [8]), (TAG_AMOUNT_OFFSET, [1]),
      (TAG_DER_SIGNATURE, [1])]"

definition sample_crosschain :: swap_validated_t where
  "sample_crosschain = no_swap\<lparr>initialized := True, swap_mode := SWAP_MODE_CROSSCHAIN, template_id := 5,
     sv_ticker := ''USDC'', sv_amount := 1000\<rparr>"

definition sample_descriptor :: instruction_descriptor_t where
  "sample_descriptor = no_descriptor\<lparr>d_program_id := replicate 32 7, d_discriminator := 5 # replicate 7 0,
     d_discriminator_size := 1, d_amount_size := 8, d_amount_offset := 1\<rparr>"

definition sample_saved :: saved_descriptors_t where
  "sample_saved = \<lparr>saved_count = 1, read_count = 0, sd_is_main_net = True, sd_template_id = 5,
     descriptors = (replicate 15 no_descriptor)[0 := sample_descriptor]\<rparr>"

lemmas tags = TAG_STRUCTURE_TYPE_def TAG_VERSION_def TAG_CHAIN_ID_def TAG_TEMPLATE_ID_def TAG_PROGRAM_ID_def
  TAG_DISCRIMINATOR_def TAG_AMOUNT_SIZE_def TAG_AMOUNT_OFFSET_def TAG_AMOUNT_RULES_def TAG_ASSET_ACCOUNT_INDEX_def
  TAG_ASSET_ATA_INDEX_def TAG_RECIPIENT_ACCOUNT_INDEX_def TAG_RECIPIENT_ATA_INDEX_def TAG_CAPPED_AMOUNT_BPS_def
  TAG_CAPPED_AMOUNT_TOKEN_IDX_def TAG_DER_SIGNATURE_def

lemma sample_received:
  "handle_provide_instruction_descriptor_internal (sample_tlv_sdk sample_tlvs) sample_sdk True sample_crosschain [] None
     = Some (Inr sample_saved)"
proof -
  have "parse_instruction_descriptor (sample_tlv_sdk sample_tlvs) []
    = Some \<lparr>received_tags = rev (map tlv_tag sample_tlvs), out_structure_type = 10, out_version = 1, out_is_main_net = True,
        out_template_id = 5, out_ins = sample_descriptor, hash_ctx = map tlv_raw (butlast sample_tlvs), out_signature = [1]\<rparr>"
    by (simp add: parse_instruction_descriptor_def sample_tlv_sdk_def sample_tlvs_def INSTRUCTION_DESCRIPTOR_TLV_TAGS_def
        tags handle_common_def tlv_handlers no_tlv_out_def LIFI_SOLANA_MAIN_NET_def PROGRAM_ADDRESS_SIZE_def
        MAX_DISCRIMINATOR_SIZE_def sample_descriptor_def no_descriptor_def)
  then show ?thesis
    by (simp add: handle_provide_instruction_descriptor_internal_def TLV_CHECK_RECEIVED_TAGS_def sample_tlvs_def tags
        TYPE_SOLANA_SWAP_TEMPLATE_def check_capped_fields_def check_template_id_def sample_crosschain_def
        sample_sdk_def sample_tlv_sdk_def save_instruction_descriptor_def no_saved_descriptors_def sample_saved_def
        MAX_DISCRIMINATOR_NUMBER_def)
qed

lemma sample_saved_ok: "saved_ok sample_saved"
  by (simp add: saved_ok_def sample_saved_def MAX_DISCRIMINATOR_NUMBER_def list_all_length nth_list_update no_descriptor_ok)
    (simp add: sample_descriptor_def descriptor_ok_def no_descriptor_def PROGRAM_ADDRESS_SIZE_def MAX_DISCRIMINATOR_SIZE_def)

theorem received_descriptor_is_signed_witness:
  "saved_ok sample_saved \<and> unat (saved_count sample_saved) = 1
   \<and> descriptors sample_saved ! 0 = sample_descriptor"
proof -
  have "buffers_bounded (sample_tlv_sdk sample_tlvs)" by (simp add: buffers_bounded_def sample_tlv_sdk_def)
  from received_descriptor_is_signed [OF sample_received this] have "saved_ok sample_saved" by auto
  then show ?thesis by (simp add: sample_saved_def)
qed

text \<open>A message with one instruction of nine bytes, the amount behind one byte of discriminator.\<close>

definition sample_crosschain_message :: "u8 list" where
  "sample_crosschain_message = [1, 0, 0, 1] @ replicate 32 7 @ replicate 32 9 @ [1] @ [0, 0, 9, 5] @ le64 1000"

definition sample_crosschain_header :: MessageHeader where
  "sample_crosschain_header = \<lparr>versioned = False, version = 0, pubkeys_header = \<lparr>num_required_signatures = 1,
       num_readonly_signed_accounts = 0, num_readonly_unsigned_accounts = 0, pubkeys_length = 1\<rparr>,
     pubkeys = Ptr 4 (drop 4 sample_crosschain_message), blockhash = Ptr 36 (replicate 32 9),
     instructions_length = 1\<rparr>"

definition sample_crosschain_instruction :: Instruction where
  "sample_crosschain_instruction = \<lparr>program_id_index = 0, accounts = [], data = Ptr 72 (5 # le64 1000)\<rparr>"

lemma sample_crosschain_parses:
  "parse_message_header (cursor 0 sample_crosschain_message)
     = Some (sample_crosschain_header, cursor 69 ([0, 0, 9, 5] @ le64 1000))"
  by (simp add: sample_crosschain_message_def parse_message_header_def parse_version_def check_buffer_length_def
      parse_pubkeys_header_def parse_u8_cases parse_length_compact parse_pubkeys_with_len_def sample_crosschain_header_def
      parse_hash_def PUBKEY_SIZE_def HASH_SIZE_def Let_def and_80)

lemma sample_crosschain_reads:
  "parse_instruction (cursor 69 ([0, 0, 9, 5] @ le64 1000)) = Some (sample_crosschain_instruction, cursor 81 [])"
  by (simp add: parse_instruction_def parse_u8_cases parse_data_def parse_length_compact check_buffer_length_def
      sample_crosschain_instruction_def)

theorem crosschain_message_accepted_iff_witness:
  "\<exists>sdk G'. process_message_body_with_descriptor sdk sample_crosschain sample_env None
       (cursor 69 ([0, 0, 9, 5] @ le64 1000)) (sample_config\<lparr>config_header := sample_crosschain_header\<rparr>) (Some sample_saved)
     = Some (Some G')"
proof -
  let ?sdk = "sample_swap_sdk\<lparr>base58_decode := \<lambda>_ _. Some (replicate 32 3)\<rparr>"
  let ?p = "cursor 69 ([0, 0, 9, 5] @ le64 1000)"
  let ?i = sample_crosschain_instruction
  let ?h = sample_crosschain_header
  have saved: "saved_ok sample_saved" "read_count sample_saved = 0" "saved_count sample_saved = 1"
    using sample_saved_ok by (simp_all add: sample_saved_def)
  have mint: "get_token_mint_address sample_env (get_swap_ticker sample_crosschain) = Some (usdc_mint, False)"
    by (simp add: get_token_mint_address_def get_dynamic_token_mint_address_def sample_env_def get_swap_ticker_def
        sample_crosschain_def usdc_mint_found)
  have owner: "get_swap_recipient ?sdk sample_crosschain = Some (replicate 32 3)"
    by (simp add: get_swap_recipient_def sample_crosschain_def PUBKEY_SIZE_def)
  have "rev (take 8 (le64 1000)) = [0, 0, 0, 0, 0, 0, 3, 232]" by (simp add: le64_def le32_def le16_def)
  then have amount: "field_value ?i sample_descriptor = Some 1000"
    by (simp add: field_value_def sample_crosschain_instruction_def sample_descriptor_def no_descriptor_def data_length_def
        val256_def)
  have "described sample_crosschain sample_env None usdc_mint False (replicate 32 3) ?h sample_descriptor ?i"
    unfolding described_def
    by (simp add: amount) (simp add: sample_crosschain_instruction_def sample_descriptor_def no_descriptor_def
        data_length_def account_described_def amount_described_def sample_crosschain_def sample_crosschain_header_def
        header_pubkey_def sample_crosschain_message_def PUBKEY_SIZE_def)
  moreover have "instruction_ok ?h ?i"
    by (simp add: instruction_ok_def instruction_validate_def sample_crosschain_instruction_def
        sample_crosschain_header_def accounts_length_def)
  moreover have "reads [?i] ?p (cursor 81 [])" using sample_crosschain_reads by simp
  moreover have "take (Suc 0) (descriptors sample_saved) = [sample_descriptor]" by (simp add: sample_saved_def eval_nat_numeral)
  ultimately have accepted: "\<exists>ins q. ins \<noteq> [] \<and> length ins = instructions_length ?h
      \<and> length ins = unat (saved_count sample_saved)
      \<and> reads ins ?p q \<and> parser_is_empty q \<and> list_all (instruction_ok ?h) ins
      \<and> list_all2 (described sample_crosschain sample_env None usdc_mint False (replicate 32 3) ?h)
           (take (length ins) (descriptors sample_saved)) ins"
    using saved(3)
    by (intro exI [of _ "[?i]"] exI [of _ "cursor 81 []"]) (simp add: sample_crosschain_header_def parser_is_empty_def)
  have config: "config_header (sample_config\<lparr>config_header := ?h\<rparr>) = ?h" by simp
  have "buffer_length ?p < 2 ^ 31" "length usdc_mint = 32" by (simp_all add: usdc_mint_def)
  from crosschain_message_accepted_iff [OF saved(1,2) this(1) mint this(2) owner, of "cursor 0 sample_crosschain_message"
      "sample_config\<lparr>config_header := ?h\<rparr>", unfolded config, OF sample_crosschain_parses, of None] accepted
  show ?thesis by blast
qed

theorem crosschain_refuses_versioned_witness:
  "process_message_body_with_descriptor sample_swap_sdk sample_crosschain sample_env None
       (cursor 69 ([0, 0, 9, 5] @ le64 1000 @ [0]))
       (sample_config\<lparr>config_header := sample_crosschain_header\<lparr>versioned := True\<rparr>\<rparr>) (Some sample_saved)
     \<noteq> Some (Some sample_saved)"
proof (rule crosschain_refuses_versioned)
  show "reads [sample_crosschain_instruction] (cursor 69 ([0, 0, 9, 5] @ le64 1000 @ [0])) (cursor 81 [0])"
    by (simp add: parse_instruction_def parse_u8_cases parse_data_def parse_length_compact check_buffer_length_def
        sample_crosschain_instruction_def)
  show "parse_address_tables (config_header (sample_config\<lparr>config_header := sample_crosschain_header\<lparr>versioned := True\<rparr>\<rparr>))
      (cursor 81 [0]) \<noteq> None"
    by (simp add: parse_address_tables_def parse_length_compact)
qed (simp_all add: sample_crosschain_header_def)

text \<open>The cap of a fee is the product of the amount and the basis points, divided by 10000 and rounded down, computed
  without 128-bit arithmetic; an error is returned exactly when that number has no place in 64 bits.\<close>

theorem safe_mul_exact:
  "safe_mul_bps_div10000 a b =
     (if unat a * unat b div 10000 < 2 ^ 64 then Some (of_nat (unat a * unat b div 10000)) else None)"
  by (rule safe_mul_eq)

end
