(* ===== verification/Sol_Provide.thy ===== *)
theory Sol_Provide
  imports Sol_Descriptor
begin

unbundle bit_operations_syntax

text \<open>
  What a host may tell the device about tokens: \<open>src/handle_provide_trusted_info.c\<close> (the owner, the mint and the address
  of a token account, bound to a challenge of \<open>src/handle_get_challenge.c\<close>) and
  \<open>src/handle_provide_dynamic_descriptor.c\<close> (the ticker and the mint of a token). The TLV use cases of the SDK, with
  their signature checks, the decoder of base 58 and the random numbers are parameters. First the code; then what
  is stored.
\<close>

section \<open>Addresses\<close>

text \<open>The buffer is cleared before the copy, so it holds the C string of the input.\<close>

definition copy_and_decode_pubkey :: "(string \<Rightarrow> nat \<Rightarrow> u8 list option) \<Rightarrow> u8 list \<Rightarrow> (string \<times> u8 list) option" where
  "copy_and_decode_pubkey decode in_encoded_address = do {
     guard (\<not> length in_encoded_address \<ge> BASE58_PUBKEY_LENGTH);
     guard (\<not> length in_encoded_address = 0);
     let out_encoded_address = c_str (chars_of in_encoded_address);
     decoded_address \<leftarrow> decode out_encoded_address PUBKEY_SIZE;
     guard (\<not> length decoded_address \<noteq> PUBKEY_SIZE);
     Some (out_encoded_address, decoded_address) }"

section \<open>The challenge\<close>

definition roll_challenge :: "u32 \<Rightarrow> u32" where "roll_challenge cx_rng_u32 = cx_rng_u32"

definition get_challenge :: "u32 \<Rightarrow> u32" where "get_challenge challenge = challenge"

text \<open>The answer of \<open>handle_get_challenge\<close>: four bytes, the most significant first.\<close>

definition be32_bytes :: "u32 \<Rightarrow> u8 list" where
  "be32_bytes w = map (\<lambda>i. ucast (drop_bit i w)) [24, 16, 8, 0]"

definition handle_get_challenge :: "u32 \<Rightarrow> u8 list" where
  "handle_get_challenge challenge = be32_bytes challenge"

section \<open>Trusted information\<close>

text \<open>The output of the use case of the SDK for trusted names, and two of its constants.\<close>

record tlv_trusted_name_out_t =
  source_contract_received :: bool
  challenge_received :: bool
  tn_challenge :: u32
  trusted_name_type :: u8
  trusted_name_source :: u8
  tn_address :: "u8 list"
  tn_trusted_name :: "u8 list"
  tn_source_contract :: "u8 list"

record trusted_name_sdk =
  tlv_use_case_trusted_name :: "u8 list \<Rightarrow> tlv_trusted_name_out_t option"
  TLV_TRUSTED_NAME_TYPE_CONTEXT_ADDRESS :: u8
  TLV_TRUSTED_NAME_SOURCE_DYNAMIC_RESOLVER :: u8

text \<open>\<open>mem\<close> is the success of the allocation, which is only needed when nothing is stored yet. The result is the
  structure that is filled, \<open>None\<close> on an error.\<close>

definition handle_provide_trusted_info_internal ::
    "trusted_name_sdk \<Rightarrow> (string \<Rightarrow> nat \<Rightarrow> u8 list option) \<Rightarrow> bool \<Rightarrow> u8 list \<Rightarrow> u32 \<Rightarrow> trusted_info_t option
     \<Rightarrow> trusted_info_t option" where
  "handle_provide_trusted_info_internal sdk decode mem payload challenge stored = do {
     guard (\<not> (stored = None \<and> \<not> mem));
     tlv_output \<leftarrow> tlv_use_case_trusted_name sdk payload;
     guard (\<not> (\<not> source_contract_received tlv_output \<or> \<not> challenge_received tlv_output));
     guard (\<not> tn_challenge tlv_output \<noteq> get_challenge challenge);
     guard (\<not> trusted_name_type tlv_output \<noteq> TLV_TRUSTED_NAME_TYPE_CONTEXT_ADDRESS sdk);
     guard (\<not> trusted_name_source tlv_output \<noteq> TLV_TRUSTED_NAME_SOURCE_DYNAMIC_RESOLVER sdk);
     (encoded_owner, owner) \<leftarrow> copy_and_decode_pubkey decode (tn_address tlv_output);
     (encoded_token, token) \<leftarrow> copy_and_decode_pubkey decode (tn_trusted_name tlv_output);
     (encoded_mint, mint) \<leftarrow> copy_and_decode_pubkey decode (tn_source_contract tlv_output);
     Some \<lparr>ti_received = True, ti_encoded_owner_address = encoded_owner, ti_owner_address = owner,
       ti_encoded_token_address = encoded_token, ti_token_address = token,
       ti_encoded_mint_address = encoded_mint, ti_mint_address = mint\<rparr> }"

definition handle_provide_trusted_info ::
    "trusted_name_sdk \<Rightarrow> (string \<Rightarrow> nat \<Rightarrow> u8 list option) \<Rightarrow> bool \<Rightarrow> u32 \<Rightarrow> u8 list \<Rightarrow> u32 \<Rightarrow> trusted_info_t option
     \<Rightarrow> ApduReply \<times> u32 \<times> trusted_info_t option" where
  "handle_provide_trusted_info sdk decode mem cx_rng_u32 payload challenge stored =
     (case handle_provide_trusted_info_internal sdk decode mem payload challenge stored of
        Some info \<Rightarrow> (ApduReplySuccess, roll_challenge cx_rng_u32, Some info)
      | None \<Rightarrow> (ApduReplySolanaInvalidTrustedInfo, roll_challenge cx_rng_u32, None))"

section \<open>Dynamic token descriptors\<close>

definition SOLANA_SLIP_44_VALUE :: u32 where "SOLANA_SLIP_44_VALUE = 501"
definition SOLANA_SLIP_44_VALUE_HARDENED :: u32 where "SOLANA_SLIP_44_VALUE_HARDENED = 0x80000000 OR SOLANA_SLIP_44_VALUE"
definition TOKEN_LEGACY :: u8 where "TOKEN_LEGACY = 0x00"
definition TOKEN_2022 :: u8 where "TOKEN_2022 = 0x01"
definition EXTENSION_CODE_VALUE_COUNT :: nat where "EXTENSION_CODE_VALUE_COUNT = 0x1D"
definition TUID_TOKEN_TYPE_FLAG :: u32 where "TUID_TOKEN_TYPE_FLAG = 0x10"
definition TUID_MINT_ADDRESS :: u32 where "TUID_MINT_ADDRESS = 0x11"
definition TUID_EXT_CODE :: u32 where "TUID_EXT_CODE = 0x12"

text \<open>The structure is not cleared before the parser fills it: its first contents are an argument.\<close>

record tlv_TUID_data_t =
  tuid_received_tags :: "u32 list"
  token_type :: u8
  tuid_encoded_mint_address :: "u8 list"
  extensions :: "u8 list"

definition handle_tuid_token_type_flag :: "tlv_sdk \<Rightarrow> tlv_data_t \<Rightarrow> tlv_TUID_data_t \<Rightarrow> tlv_TUID_data_t option" where
  "handle_tuid_token_type_flag sdk d out = do { v \<leftarrow> get_uint8_t_from_tlv_data sdk d; Some (out\<lparr>token_type := v\<rparr>) }"

definition handle_tuid_mint_address :: "tlv_sdk \<Rightarrow> tlv_data_t \<Rightarrow> tlv_TUID_data_t \<Rightarrow> tlv_TUID_data_t option" where
  "handle_tuid_mint_address sdk d out = do {
     b \<leftarrow> get_buffer_from_tlv_data sdk d 1 (BASE58_PUBKEY_LENGTH - 1); Some (out\<lparr>tuid_encoded_mint_address := b\<rparr>) }"

definition handle_tuid_ext_code :: "tlv_sdk \<Rightarrow> tlv_data_t \<Rightarrow> tlv_TUID_data_t \<Rightarrow> tlv_TUID_data_t option" where
  "handle_tuid_ext_code sdk d out = do {
     b \<leftarrow> get_buffer_from_tlv_data sdk d 0 EXTENSION_CODE_VALUE_COUNT; Some (out\<lparr>extensions := b\<rparr>) }"

definition TUID_TLV_TAGS :: "(u32 \<times> (tlv_sdk \<Rightarrow> tlv_data_t \<Rightarrow> tlv_TUID_data_t \<Rightarrow> tlv_TUID_data_t option)) list" where
  "TUID_TLV_TAGS = [(TUID_TOKEN_TYPE_FLAG, handle_tuid_token_type_flag), (TUID_MINT_ADDRESS, handle_tuid_mint_address),
     (TUID_EXT_CODE, handle_tuid_ext_code)]"

fun handle_tuid_tlvs :: "tlv_sdk \<Rightarrow> tlv_data_t list \<Rightarrow> tlv_TUID_data_t \<Rightarrow> tlv_TUID_data_t option" where
  "handle_tuid_tlvs sdk [] out = Some out"
| "handle_tuid_tlvs sdk (d # ds) out = do {
     handler \<leftarrow> map_of TUID_TLV_TAGS (tlv_tag d);
     out \<leftarrow> handler sdk d out;
     handle_tuid_tlvs sdk ds (out\<lparr>tuid_received_tags := tlv_tag d # tuid_received_tags out\<rparr>) }"

definition parse_dynamic_token_tuid :: "tlv_sdk \<Rightarrow> u8 list \<Rightarrow> tlv_TUID_data_t \<Rightarrow> tlv_TUID_data_t option" where
  "parse_dynamic_token_tuid sdk payload out = do {
     ds \<leftarrow> tlv_split sdk (map fst TUID_TLV_TAGS) payload;
     handle_tuid_tlvs sdk ds (out\<lparr>tuid_received_tags := []\<rparr>) }"

text \<open>The output of the use case of the SDK. The ticker has the size of the field it is copied to.\<close>

record tlv_dynamic_descriptor_out_t =
  TUID :: "u8 list"
  coin_type :: u32
  dd_ticker :: string
  dd_magnitude :: u8

definition handle_provide_dynamic_descriptor_internal ::
    "(u8 list \<Rightarrow> tlv_dynamic_descriptor_out_t option) \<Rightarrow> tlv_sdk \<Rightarrow> (string \<Rightarrow> nat \<Rightarrow> u8 list option) \<Rightarrow> bool
     \<Rightarrow> tlv_TUID_data_t \<Rightarrow> u8 list \<Rightarrow> dynamic_token_info_t option \<Rightarrow> dynamic_token_info_t option" where
  "handle_provide_dynamic_descriptor_internal tlv_use_case_dynamic_descriptor sdk decode mem garbage payload stored = do {
     guard (\<not> (stored = None \<and> \<not> mem));
     tlv_output \<leftarrow> tlv_use_case_dynamic_descriptor payload;
     tuid \<leftarrow> parse_dynamic_token_tuid sdk (TUID tlv_output) garbage;
     guard (\<not> (coin_type tlv_output \<noteq> SOLANA_SLIP_44_VALUE \<and> coin_type tlv_output \<noteq> SOLANA_SLIP_44_VALUE_HARDENED));
     guard (list_all (\<lambda>t. t \<in> set (tuid_received_tags tuid)) [TUID_TOKEN_TYPE_FLAG, TUID_MINT_ADDRESS, TUID_EXT_CODE]);
     guard (\<not> (token_type tuid \<noteq> TOKEN_LEGACY \<and> token_type tuid \<noteq> TOKEN_2022));
     (encoded_mint, mint) \<leftarrow> copy_and_decode_pubkey decode (tuid_encoded_mint_address tuid);
     Some \<lparr>dti_received = True, dti_ticker = dd_ticker tlv_output, dti_magnitude = dd_magnitude tlv_output,
       dti_is_token_2022_kind = (token_type tuid = TOKEN_2022), dti_encoded_mint_address = encoded_mint,
       dti_mint_address = mint\<rparr> }"

definition handle_provide_dynamic_descriptor ::
    "(u8 list \<Rightarrow> tlv_dynamic_descriptor_out_t option) \<Rightarrow> tlv_sdk \<Rightarrow> (string \<Rightarrow> nat \<Rightarrow> u8 list option) \<Rightarrow> bool
     \<Rightarrow> tlv_TUID_data_t \<Rightarrow> u8 list \<Rightarrow> dynamic_token_info_t option \<Rightarrow> ApduReply \<times> dynamic_token_info_t option" where
  "handle_provide_dynamic_descriptor tlv_use_case_dynamic_descriptor sdk decode mem garbage payload stored =
     (case handle_provide_dynamic_descriptor_internal tlv_use_case_dynamic_descriptor sdk decode mem garbage payload stored of
        Some info \<Rightarrow> (ApduReplySuccess, Some info)
      | None \<Rightarrow> (ApduReplySolanaInvalidDynamicToken, None))"

section \<open>What is stored\<close>

text \<open>The two forms of an address that is stored are one key.\<close>

definition address_ok :: "(string \<Rightarrow> nat \<Rightarrow> u8 list option) \<Rightarrow> string \<Rightarrow> u8 list \<Rightarrow> bool" where
  "address_ok decode encoded key \<longleftrightarrow>
     decode encoded PUBKEY_SIZE = Some key \<and> length key = PUBKEY_SIZE \<and> plain BASE58_PUBKEY_LENGTH encoded"

definition trusted_ok :: "(string \<Rightarrow> nat \<Rightarrow> u8 list option) \<Rightarrow> trusted_info_t option \<Rightarrow> bool" where
  "trusted_ok decode stored \<longleftrightarrow> (\<forall>info. stored = Some info \<longrightarrow> ti_received info
     \<and> address_ok decode (ti_encoded_owner_address info) (ti_owner_address info)
     \<and> address_ok decode (ti_encoded_token_address info) (ti_token_address info)
     \<and> address_ok decode (ti_encoded_mint_address info) (ti_mint_address info))"

definition dynamic_ok :: "(string \<Rightarrow> nat \<Rightarrow> u8 list option) \<Rightarrow> dynamic_token_info_t option \<Rightarrow> bool" where
  "dynamic_ok decode stored \<longleftrightarrow> (\<forall>info. stored = Some info \<longrightarrow> dti_received info
     \<and> address_ok decode (dti_encoded_mint_address info) (dti_mint_address info))"

lemma copy_and_decode:
  assumes "copy_and_decode_pubkey decode bs = Some (encoded, key)"
  shows "address_ok decode encoded key \<and> encoded = c_str (chars_of bs)"
proof -
  have "length (c_str (chars_of bs)) \<le> length bs" by (simp add: c_str_def chars_of_def) (metis length_map length_takeWhile_le)
  then show ?thesis
    using assms by (auto simp: copy_and_decode_pubkey_def address_ok_def plain_def bind_eq_Some_conv c_str_def Let_def
        dest: set_takeWhileD split: if_splits)
qed

lemma trusted_info_kept:
  assumes "handle_provide_trusted_info sdk decode mem rng payload challenge stored = (status, challenge', stored')"
  shows "challenge' = rng \<and> trusted_ok decode stored' \<and> (status = ApduReplySuccess \<longleftrightarrow> stored' \<noteq> None)
    \<and> (status = ApduReplySuccess \<longrightarrow> (\<exists>out. tlv_use_case_trusted_name sdk payload = Some out
          \<and> challenge_received out \<and> tn_challenge out = challenge))"
proof (cases "handle_provide_trusted_info_internal sdk decode mem payload challenge stored")
  case None
  then show ?thesis using assms by (auto simp: handle_provide_trusted_info_def roll_challenge_def trusted_ok_def)
next
  case (Some info)
  then have now: "status = ApduReplySuccess \<and> challenge' = rng \<and> stored' = Some info"
    using assms by (auto simp: handle_provide_trusted_info_def roll_challenge_def)
  have "trusted_ok decode (Some info) \<and> (\<exists>out. tlv_use_case_trusted_name sdk payload = Some out
          \<and> challenge_received out \<and> tn_challenge out = challenge)"
    using Some
    by (auto simp: handle_provide_trusted_info_internal_def trusted_ok_def get_challenge_def bind_eq_Some_conv
        split: if_splits dest!: copy_and_decode)
  then show ?thesis using now by simp
qed

text \<open>C19: Trusted information is accepted only in answer to the challenge the device has given, and every attempt,
  accepted or not, replaces the challenge by a new random number, so the same information is not accepted
  again unless the number repeats. What is kept is complete and its three addresses are keys of 32 bytes with their texts; after a refusal nothing is kept.\<close>

theorem trusted_info_answers_challenge:
  assumes "handle_provide_trusted_info sdk decode mem rng payload challenge stored = (status, challenge', stored')"
  shows "challenge' = rng \<and> trusted_ok decode stored' \<and> (status = ApduReplySuccess \<longleftrightarrow> stored' \<noteq> None)
    \<and> (status = ApduReplySuccess \<longrightarrow> (\<exists>out. tlv_use_case_trusted_name sdk payload = Some out
          \<and> challenge_received out \<and> tn_challenge out = challenge))"
  using assms by (rule trusted_info_kept)

lemma dynamic_descriptor_ok:
  assumes "handle_provide_dynamic_descriptor uc sdk decode mem garbage payload stored = (status, stored')"
  shows "dynamic_ok decode stored' \<and> (status = ApduReplySuccess \<longleftrightarrow> stored' \<noteq> None)"
proof (cases "handle_provide_dynamic_descriptor_internal uc sdk decode mem garbage payload stored")
  case None
  then show ?thesis using assms by (auto simp: handle_provide_dynamic_descriptor_def dynamic_ok_def)
next
  case (Some info)
  then have now: "status = ApduReplySuccess \<and> stored' = Some info"
    using assms by (auto simp: handle_provide_dynamic_descriptor_def)
  have "dynamic_ok decode (Some info)"
    using Some
    by (auto simp: handle_provide_dynamic_descriptor_internal_def dynamic_ok_def bind_eq_Some_conv Let_def
        split: if_splits dest!: copy_and_decode)
  then show ?thesis using now by simp
qed

text \<open>A host that answers the challenge 7 with three addresses.\<close>

definition sample_trusted_sdk :: trusted_name_sdk where
  "sample_trusted_sdk = \<lparr>tlv_use_case_trusted_name = \<lambda>_. Some \<lparr>source_contract_received = True, challenge_received = True,
       tn_challenge = 7, trusted_name_type = 6, trusted_name_source = 6, tn_address = [49], tn_trusted_name = [50],
       tn_source_contract = [51]\<rparr>,
     TLV_TRUSTED_NAME_TYPE_CONTEXT_ADDRESS = 6, TLV_TRUSTED_NAME_SOURCE_DYNAMIC_RESOLVER = 6\<rparr>"

theorem trusted_info_answers_challenge_witness:
  "\<exists>info. handle_provide_trusted_info sample_trusted_sdk (\<lambda>_ n. Some (replicate n 1)) True 8 [] 7 None
      = (ApduReplySuccess, 8, Some info) \<and> ti_received info"
proof -
  have "\<exists>info. handle_provide_trusted_info sample_trusted_sdk (\<lambda>_ n. Some (replicate n 1)) True 8 [] 7 None
      = (ApduReplySuccess, 8, Some info)"
    by (simp add: handle_provide_trusted_info_def handle_provide_trusted_info_internal_def sample_trusted_sdk_def
        copy_and_decode_pubkey_def get_challenge_def roll_challenge_def BASE58_PUBKEY_LENGTH_def PUBKEY_SIZE_def)
  then show ?thesis
    using trusted_info_answers_challenge [of sample_trusted_sdk "\<lambda>_ n. Some (replicate n 1)" True 8 "[]" 7 None ApduReplySuccess 8]
    by (auto simp: trusted_ok_def)
qed

end
