(* ===== verification/Sol_Preview.thy ===== *)
theory Sol_Preview
  imports Sol_Apdu
begin

text \<open>
  Delayed signing, \<open>src/handle_sign_message_preview.c\<close>: the user reviews a transaction before its block hash is
  known, the device stores a fingerprint of it, and later signs the transaction with its block hash when the
  fingerprint is the same. First the code; then what the fingerprint promises.

  \<open>sha512\<close> is the hash unit of the SDK: the digest of the chunks it was fed in order, \<open>None\<close> on an error.
  The message is at address 0 here: the code only uses the difference of two addresses.
\<close>

definition HASH_LENGTH :: nat where "HASH_LENGTH = 32"

record preview_state_t =
  pv_initialized :: bool
  message_hash_with_zero_blockhash :: "u8 list"
  pv_message_length :: nat
  pv_derivation_path :: "u32 list"

definition clear_preview_state :: "preview_state_t option" where
  "clear_preview_state = None"

definition hash_message_with_zeroed_blockhash :: "(u8 list list \<Rightarrow> u8 list option) \<Rightarrow> u8 list \<Rightarrow> u8 list option" where
  "hash_message_with_zeroed_blockhash sha512 message = do {
     (header, _) \<leftarrow> parse_message_header (cursor 0 message);
     let before_len = addr (blockhash header);
     let after_offset = before_len + HASH_LENGTH;
     sha512 [take before_len message, replicate HASH_LENGTH 0, drop after_offset message] }"

definition verify_delayed_message_matches_preview ::
    "(u8 list list \<Rightarrow> u8 list option) \<Rightarrow> apdu_command_t \<Rightarrow> preview_state_t \<Rightarrow> ApduReply" where
  "verify_delayed_message_matches_preview sha512 cmd P =
     (if length (cmd_message cmd) \<noteq> pv_message_length P then ApduReplySolanaDelayedLengthMismatch
      else if length (derivation_path cmd) \<noteq> length (pv_derivation_path P) then ApduReplySolanaDelayedDerivationMismatch
      else if list_ex (\<lambda>i. derivation_path cmd ! i \<noteq> pv_derivation_path P ! i) [0..<length (derivation_path cmd)]
      then ApduReplySolanaDelayedDerivationMismatch
      else case hash_message_with_zeroed_blockhash sha512 (cmd_message cmd) of
             None \<Rightarrow> ApduReplySolanaInvalidMessage
           | Some computed_hash \<Rightarrow>
               if memcmp computed_hash (message_hash_with_zero_blockhash P) \<noteq> 0 then ApduReplySolanaDelayedHashMismatch
               else ApduReplySuccess)"

text \<open>\<open>mem\<close> is the success of the allocation; the result is the state that is kept, none on an error.\<close>

definition store_preview_fingerprint ::
    "(u8 list list \<Rightarrow> u8 list option) \<Rightarrow> bool \<Rightarrow> apdu_command_t \<Rightarrow> preview_state_t option" where
  "store_preview_fingerprint sha512 mem cmd = do {
     guard mem;
     fingerprint \<leftarrow> hash_message_with_zeroed_blockhash sha512 (cmd_message cmd);
     Some \<lparr>pv_initialized = True, message_hash_with_zero_blockhash = fingerprint,
       pv_message_length = length (cmd_message cmd), pv_derivation_path = derivation_path cmd\<rparr> }"

section \<open>The place of the block hash\<close>

definition blockhash_at :: "u8 list \<Rightarrow> nat option" where
  "blockhash_at m =
     (let v = (if unat (hd m) < 128 then 0 else 1)
      in map_option (\<lambda>(n, c). v + 3 + c + 32 * n) (compact_value (drop (v + 3) m)))"

lemma compact_value_prefix:
  "compact_value bs = Some (n, c) \<Longrightarrow> c \<le> length bs \<and> compact_value (take c bs @ r) = Some (n, c)"
  by (cases bs rule: compact_value.cases) (auto split: if_splits list.splits)

lemma blockhash_at_prefix:
  assumes "blockhash_at m = Some k" "k \<le> length m" "take k m = take k m'"
  shows "blockhash_at m' = Some k"
proof -
  define v where "v = (if unat (hd m) < 128 then 0 else 1 :: nat)"
  obtain n c where nc: "compact_value (drop (v + 3) m) = Some (n, c)" "k = v + 3 + c + 32 * n"
    using assms(1) by (auto simp: blockhash_at_def v_def [symmetric] Let_def)
  have pos: "0 < k" using nc(2) by simp
  then have "hd m = hd (take k m)" "hd m' = hd (take k m')" using assms(2,3) by (metis hd_take)+
  then have hd: "hd m' = hd m" using assms(3) by simp
  have "take c (drop (v + 3) m') = take c (drop (v + 3) m)"
    using arg_cong [OF assms(3), of "\<lambda>l. take c (drop (v + 3) l)"] nc(2) by (simp add: take_drop min_def)
  then have "drop (v + 3) m' = take c (drop (v + 3) m) @ drop c (drop (v + 3) m')"
    by (metis append_take_drop_id)
  then have "compact_value (drop (v + 3) m') = Some (n, c)" using compact_value_prefix [OF nc(1)] by metis
  then show ?thesis using nc(2) by (simp add: blockhash_at_def hd v_def [symmetric] Let_def)
qed

lemma header_blockhash_at:
  assumes "parse_message_header (cursor 0 m) = Some (h, q)"
  shows "blockhash_at m = Some (addr (blockhash h)) \<and> addr (blockhash h) + 32 \<le> length m"
  using assms
proof (cases rule: parse_message_header_SomeE)
  case (1 v p1 p2 p3 p4)
  define k where "k = (if unat (hd m) < 128 then 0 else 1 :: nat)"
  have p1: "p1 = cursor k (drop k m)"
    using 1(1) by (auto simp: parse_version_def guard_def and_80 k_def split: if_splits)
  have "\<exists>x y z r c. drop k m = x # y # z # r \<and> compact_value r = Some (pubkeys_length (pubkeys_header h), c)
      \<and> p2 = cursor (k + 3 + c) (drop c r)"
    using 1(3) unfolding p1
    by (auto simp: parse_pubkeys_header_def parse_u8_cases parse_length_compact guard_def
        bind_eq_Some_conv split: list.splits if_splits) (metis PubkeysHeader.select_convs(4))
  then obtain x y z r c where r: "drop k m = x # y # z # r"
    "compact_value r = Some (pubkeys_length (pubkeys_header h), c)" "p2 = cursor (k + 3 + c) (drop c r)"
    by (elim exE conjE)
  have "drop (k + 3) m = drop 3 (drop k m)" by (simp add: add.commute)
  then have "r = drop (k + 3) m" by (simp add: r(1))
  then have c: "compact_value (drop (k + 3) m) = Some (pubkeys_length (pubkeys_header h), c)"
    "p2 = cursor (k + 3 + c) (drop (k + 3 + c) m)"
    using r(2,3) by (simp_all add: add.commute add.left_commute)
  have "blockhash h = Ptr (buffer_addr p3) (take 32 (buffer p3))" "32 \<le> buffer_length p3"
    using 1(10) by (auto simp: parse_hash_eq parse_pubkey_iff buffer_length_def)
  then show ?thesis
    using c 1(9) by (auto simp: blockhash_at_def k_def [symmetric] Let_def)
qed

section \<open>The messages with one fingerprint\<close>

text \<open>A header parses when its counts are consistent and the bytes of the accounts, the block hash and the number of
  instructions are there.\<close>

definition header_parses :: "u8 list \<Rightarrow> bool" where
  "header_parses m \<longleftrightarrow>
     m \<noteq> [] \<and> (let r = drop (if unat (hd m) < 128 then 0 else 1) m
       in 3 \<le> length r \<and> (case compact_value (drop 3 r) of
            None \<Rightarrow> False
          | Some (n, c) \<Rightarrow> n \<le> 65535 \<and> unat (r ! 0) \<le> n \<and> r ! 1 \<le> r ! 0 \<and> unat (r ! 2) \<le> n - unat (r ! 0)
              \<and> 3 + c + 32 * n + 32 \<le> length r \<and> compact_value (drop (3 + c + 32 * n + 32) r) \<noteq> None))"

lemma pubkeys_header_eval:
  "parse_pubkeys_header (cursor k r) =
     (if length r < 3 then None
      else case compact_value (drop 3 r) of
             None \<Rightarrow> None
           | Some (n, c) \<Rightarrow> if 65535 < n then None else
               Some (\<lparr>num_required_signatures = r ! 0, num_readonly_signed_accounts = r ! 1,
                 num_readonly_unsigned_accounts = r ! 2, pubkeys_length = n\<rparr>, cursor (k + 3 + c) (drop (3 + c) r)))"
proof (cases "length r < 3")
  case True
  then show ?thesis
    by (cases r; cases "tl r"; cases "tl (tl r)") (auto simp: parse_pubkeys_header_def parse_u8_cases)
next
  case False
  then obtain x y z s where r: "r = x # y # z # s" by (metis Suc_le_length_iff not_less numeral_3_eq_3)
  then show ?thesis
    by (auto simp: parse_pubkeys_header_def parse_u8_cases parse_length_compact guard_def numeral_2_eq_2 numeral_3_eq_3
        split: option.split)
qed

lemma header_parses_iff: "parse_message_header (cursor 0 m) \<noteq> None \<longleftrightarrow> header_parses m"
proof (cases m)
  case Nil
  then show ?thesis by (simp add: parse_message_header_def parse_version_def check_buffer_length_def header_parses_def)
next
  case (Cons b0 bs)
  define k where "k = (if unat (hd m) < 128 then 0 else 1 :: nat)"
  define r where "r = drop k m"
  have "\<exists>v w. parse_version (cursor 0 m) = Some ((v, w), cursor k r)"
    using Cons by (auto simp: parse_version_def check_buffer_length_def guard_def and_80 k_def r_def)
  then obtain v w where v: "parse_version (cursor 0 m) = Some ((v, w), cursor k r)" by (elim exE)
  have "parse_message_header (cursor 0 m) \<noteq> None \<longleftrightarrow> 3 \<le> length r \<and> (case compact_value (drop 3 r) of
            None \<Rightarrow> False
          | Some (n, c) \<Rightarrow> n \<le> 65535 \<and> unat (r ! 0) \<le> n \<and> r ! 1 \<le> r ! 0 \<and> unat (r ! 2) \<le> n - unat (r ! 0)
              \<and> 3 + c + 32 * n + 32 \<le> length r \<and> compact_value (drop (3 + c + 32 * n + 32) r) \<noteq> None)"
  proof (cases "3 \<le> length r")
    case False
    then show ?thesis using v by (simp add: parse_message_header_def pubkeys_header_eval)
  next
    case True
    show ?thesis
    proof (cases "compact_value (drop 3 r)")
      case None
      then show ?thesis using v by (simp add: parse_message_header_def pubkeys_header_eval)
    next
      case (Some nc)
      obtain n c where nc: "nc = (n, c)" by (cases nc)
      then have c: "c \<le> length (drop 3 r)" using compact_value_prefix Some by blast
      then have "3 + c \<le> length r" using True by simp
      then show ?thesis
        using v Some nc True
        by (auto simp: parse_message_header_def pubkeys_header_eval parse_length_compact
            parse_pubkeys_with_len_def parse_hash_def check_buffer_length_def guard_def PUBKEY_SIZE_def HASH_SIZE_def
            Let_def not_less not_le ac_simps) (auto simp: bind_eq_Some_conv)
    qed
  qed
  moreover have "m \<noteq> []" using Cons by simp
  ultimately show ?thesis unfolding header_parses_def k_def [symmetric] r_def [symmetric] Let_def by blast
qed

text \<open>Two messages that agree but in the 32 bytes of their block hash.\<close>

definition same_but_blockhash :: "u8 list \<Rightarrow> u8 list \<Rightarrow> bool" where
  "same_but_blockhash m m' \<longleftrightarrow> length m = length m' \<and> (\<exists>k. blockhash_at m = Some k \<and> k + 32 \<le> length m
     \<and> take k m = take k m' \<and> drop (k + 32) m = drop (k + 32) m')"

lemma same_header_parses:
  assumes "same_but_blockhash m m'" "header_parses m"
  shows "header_parses m'"
proof -
  obtain k where k: "blockhash_at m = Some k" "k + 32 \<le> length m" "take k m = take k m'" "drop (k + 32) m = drop (k + 32) m'"
    and len: "length m = length m'"
    using assms(1) by (auto simp: same_but_blockhash_def)
  define v where "v = (if unat (hd m) < 128 then 0 else 1 :: nat)"
  define r where "r = drop v m"
  define r' where "r' = drop v m'"
  obtain n c where nc: "compact_value (drop 3 r) = Some (n, c)" "k = v + 3 + c + 32 * n"
    using k(1) by (auto simp: blockhash_at_def v_def [symmetric] r_def Let_def add.commute [of 3])
  have hd: "hd m' = hd m" using k(2,3) nc(2) len by (metis add_is_0 hd_take neq0_conv numeral_eq_iff zero_neq_numeral)
  have pos: "0 < k" "m \<noteq> []" "m' \<noteq> []" using nc(2) k(2) len by auto
  have "take (k - v) r = take (k - v) r'" using arg_cong [OF k(3), of "drop v"] nc(2) by (simp add: r_def r'_def drop_take)
  then have pre: "take (3 + c + 32 * n) r = take (3 + c + 32 * n) r'" using nc(2) by (simp add: add.assoc)
  have at: "r' ! i = r ! i" if "i < 3" for i
    using arg_cong [OF pre, of "\<lambda>l. l ! i"] that by simp
  have "take c (drop 3 r) = take c (drop 3 r')"
    using arg_cong [OF pre, of "\<lambda>l. take c (drop 3 l)"] by (simp add: take_drop min_def)
  then have "drop 3 r' = take c (drop 3 r) @ drop c (drop 3 r')" by (metis append_take_drop_id)
  then have compact: "compact_value (drop 3 r') = Some (n, c)" using compact_value_prefix [OF nc(1)] by metis
  have post: "drop (3 + c + 32 * n + 32) r' = drop (3 + c + 32 * n + 32) r"
    using k(4) nc(2) by (simp add: r_def r'_def ac_simps)
  then have post: "drop (35 + (c + 32 * n)) r' = drop (35 + (c + 32 * n)) r" by (simp add: ac_simps)
  have "length r' = length r" using len by (simp add: r_def r'_def)
  then show ?thesis
    using assms(2) pos unfolding header_parses_def hd v_def [symmetric] r_def [symmetric] r'_def [symmetric]
    by (simp add: nc(1) compact at post)
qed

definition zeroed :: "u8 list \<Rightarrow> u8 list" where
  "zeroed m = (let k = the (blockhash_at m) in take k m @ replicate 32 0 @ drop (k + 32) m)"

lemma zeroed_same:
  assumes "header_parses m" "header_parses m'"
  shows "zeroed m = zeroed m' \<longleftrightarrow> same_but_blockhash m m'"
proof -
  have at: "\<exists>k. blockhash_at m = Some k \<and> k + 32 \<le> length m" if "header_parses m" for m
    using that header_parses_iff [of m] header_blockhash_at [of m] by force
  obtain k where k: "blockhash_at m = Some k" "k + 32 \<le> length m" using at assms(1) by blast
  obtain l where l: "blockhash_at m' = Some l" "l + 32 \<le> length m'" using at assms(2) by blast
  have pre: "blockhash_at (zeroed m) = Some k" "blockhash_at (zeroed m') = Some l"
    using blockhash_at_prefix [OF k(1), of "zeroed m"] blockhash_at_prefix [OF l(1), of "zeroed m'"] k l
    by (simp_all add: zeroed_def Let_def)
  have len: "length (zeroed m) = length m" "length (zeroed m') = length m'"
    using k l by (simp_all add: zeroed_def Let_def)
  show ?thesis
  proof
    assume eq: "zeroed m = zeroed m'"
    then have "k = l" using pre by simp
    have "take k (zeroed m) = take k m" "drop (k + 32) (zeroed m) = drop (k + 32) m"
      using k by (simp_all add: zeroed_def Let_def)
    moreover have "take k (zeroed m') = take k m'" "drop (k + 32) (zeroed m') = drop (k + 32) m'"
      using l \<open>k = l\<close> by (simp_all add: zeroed_def Let_def)
    ultimately have "take k m = take k m'" "drop (k + 32) m = drop (k + 32) m'" using eq by simp_all
    moreover have "length m = length m'" using len eq by simp
    ultimately show "same_but_blockhash m m'" unfolding same_but_blockhash_def using k by blast
  next
    assume s: "same_but_blockhash m m'"
    then have "take k m = take k m'" "drop (k + 32) m = drop (k + 32) m'" using k(1) by (auto simp: same_but_blockhash_def)
    moreover have "blockhash_at m' = Some k"
      using blockhash_at_prefix [OF k(1) _ \<open>take k m = take k m'\<close>] k(2) by simp
    ultimately show "zeroed m = zeroed m'" using k by (simp add: zeroed_def)
  qed
qed

text \<open>What the digest is computed from.\<close>

definition zeroed_chunks :: "u8 list \<Rightarrow> u8 list list" where
  "zeroed_chunks m = (let k = the (blockhash_at m) in [take k m, replicate 32 0, drop (k + 32) m])"

lemma concat_zeroed_chunks: "concat (zeroed_chunks m) = zeroed m"
  by (simp add: zeroed_chunks_def zeroed_def Let_def)

lemma hash_message:
  "hash_message_with_zeroed_blockhash sha512 m = (if header_parses m then sha512 (zeroed_chunks m) else None)"
proof (cases "parse_message_header (cursor 0 m)")
  case None
  then show ?thesis using header_parses_iff [of m] by (simp add: hash_message_with_zeroed_blockhash_def)
next
  case (Some hq)
  then obtain h q where hq: "parse_message_header (cursor 0 m) = Some (h, q)" by (cases hq) auto
  then show ?thesis
    using header_parses_iff [of m] header_blockhash_at [OF hq]
    by (simp add: hash_message_with_zeroed_blockhash_def zeroed_chunks_def HASH_LENGTH_def Let_def)
qed

lemma delayed_previewed:
  assumes "store_preview_fingerprint sha512 mem A = Some P"
    and "\<And>c d. sha512 c = Some d \<Longrightarrow> length d = 64"
    and "sha512 (zeroed_chunks (cmd_message A)) = sha512 (zeroed_chunks (cmd_message B))
      \<Longrightarrow> concat (zeroed_chunks (cmd_message A)) = concat (zeroed_chunks (cmd_message B))"
    and "\<And>c c'. concat c = concat c' \<Longrightarrow> sha512 c = sha512 c'"
  shows "verify_delayed_message_matches_preview sha512 B P = ApduReplySuccess \<longleftrightarrow>
    derivation_path B = derivation_path A \<and> same_but_blockhash (cmd_message A) (cmd_message B)"
proof -
  obtain d where A: "header_parses (cmd_message A)" "sha512 (zeroed_chunks (cmd_message A)) = Some d"
    "message_hash_with_zero_blockhash P = d" "pv_message_length P = length (cmd_message A)" "pv_derivation_path P = derivation_path A"
    using assms(1) by (auto simp: store_preview_fingerprint_def hash_message bind_eq_Some_conv split: if_splits)
  have path: "length (derivation_path B) = length (derivation_path A) \<and> \<not> list_ex (\<lambda>i. derivation_path B ! i \<noteq> derivation_path A ! i)
      [0..<length (derivation_path B)] \<longleftrightarrow> derivation_path B = derivation_path A"
    unfolding list_eq_iff_nth_eq [of "derivation_path B"] list_ex_iff by force
  have verify: "verify_delayed_message_matches_preview sha512 B P = ApduReplySuccess \<longleftrightarrow>
      length (cmd_message B) = length (cmd_message A) \<and> derivation_path B = derivation_path A \<and> header_parses (cmd_message B)
      \<and> (\<exists>e. sha512 (zeroed_chunks (cmd_message B)) = Some e \<and> memcmp e d = 0)"
    unfolding verify_delayed_message_matches_preview_def A(3-5) hash_message 
    using path by (cases "derivation_path B = derivation_path A"; cases "length (derivation_path B) = length (derivation_path A)")
      (simp_all split: option.split)
  have hash: "(\<exists>e. sha512 (zeroed_chunks (cmd_message B)) = Some e \<and> memcmp e d = 0) \<longleftrightarrow>
      zeroed (cmd_message A) = zeroed (cmd_message B)"
  proof
    assume "\<exists>e. sha512 (zeroed_chunks (cmd_message B)) = Some e \<and> memcmp e d = 0"
    then obtain e where e: "sha512 (zeroed_chunks (cmd_message B)) = Some e" "memcmp e d = 0" by blast
    then have ed: "e = d" using assms(2) [OF A(2)] assms(2) [OF e(1)] by (simp add: memcmp_eq_0)
    show "zeroed (cmd_message A) = zeroed (cmd_message B)"
      by (rule assms(3) [unfolded concat_zeroed_chunks]) (simp add: A(2) e(1) ed)
  next
    assume "zeroed (cmd_message A) = zeroed (cmd_message B)"
    then have "sha512 (zeroed_chunks (cmd_message B)) = Some d" using assms(4) A(2) concat_zeroed_chunks by metis
    then show "\<exists>e. sha512 (zeroed_chunks (cmd_message B)) = Some e \<and> memcmp e d = 0" by (simp add: memcmp_eq_0)
  qed
  show ?thesis
  proof
    assume v: "verify_delayed_message_matches_preview sha512 B P = ApduReplySuccess"
    then show "derivation_path B = derivation_path A \<and> same_but_blockhash (cmd_message A) (cmd_message B)"
      using verify hash zeroed_same [OF A(1), of "cmd_message B"] by blast
  next
    assume s: "derivation_path B = derivation_path A \<and> same_but_blockhash (cmd_message A) (cmd_message B)"
    then have "header_parses (cmd_message B)" using same_header_parses A(1) by blast
    then show "verify_delayed_message_matches_preview sha512 B P = ApduReplySuccess"
      using s verify hash zeroed_same [OF A(1), of "cmd_message B"] by (auto simp: same_but_blockhash_def)
  qed
qed

text \<open>A delayed message passes the check against the state a preview stored exactly when it is for the same
  derivation path and is the previewed message in all but the 32 bytes of its block hash: what the
  user reviewed is what is signed, and every block hash is accepted. The hypothesis is that the hash
  unit does not collide on these two messages.\<close>

theorem delayed_message_is_previewed:
  assumes "store_preview_fingerprint sha512 mem A = Some P"
    and "\<And>c d. sha512 c = Some d \<Longrightarrow> length d = 64"
    and "sha512 (zeroed_chunks (cmd_message A)) = sha512 (zeroed_chunks (cmd_message B))
      \<Longrightarrow> concat (zeroed_chunks (cmd_message A)) = concat (zeroed_chunks (cmd_message B))"
    and "\<And>c c'. concat c = concat c' \<Longrightarrow> sha512 c = sha512 c'"
  shows "verify_delayed_message_matches_preview sha512 B P = ApduReplySuccess \<longleftrightarrow>
    derivation_path B = derivation_path A \<and> same_but_blockhash (cmd_message A) (cmd_message B)"
  using assms by (rule delayed_previewed)

text \<open>A hash that keeps the message: the digest is 64 bytes long and tells these messages apart.\<close>

definition sample_sha512 :: "u8 list list \<Rightarrow> u8 list option" where
  "sample_sha512 c = (let m = concat c in Some (take 64 (m @ replicate 64 0)))"

definition sample_previewed :: "u8 \<Rightarrow> u8 list" where
  "sample_previewed b = [0, 0, 0, 0] @ replicate 32 b @ [0]"

lemma sample_previewed_same:
  "header_parses (sample_previewed b)" "zeroed (sample_previewed b) = [0, 0, 0, 0] @ replicate 32 0 @ [0]"
  "same_but_blockhash (sample_previewed b) (sample_previewed b')"
  by (simp_all add: sample_previewed_def header_parses_def zeroed_def blockhash_at_def Let_def same_but_blockhash_def)

theorem delayed_message_is_previewed_witness:
  "\<exists>P. store_preview_fingerprint sample_sha512 True (cleared_command\<lparr>cmd_message := sample_previewed 0\<rparr>) = Some P
    \<and> verify_delayed_message_matches_preview sample_sha512 (cleared_command\<lparr>cmd_message := sample_previewed 9\<rparr>) P = ApduReplySuccess"
proof -
  let ?A = "cleared_command\<lparr>cmd_message := sample_previewed 0\<rparr>"
  let ?B = "cleared_command\<lparr>cmd_message := sample_previewed 9\<rparr>"
  obtain P where P: "store_preview_fingerprint sample_sha512 True ?A = Some P"
    using sample_previewed_same(1) [of 0] by (auto simp: store_preview_fingerprint_def hash_message sample_sha512_def Let_def)
  have "verify_delayed_message_matches_preview sample_sha512 ?B P = ApduReplySuccess \<longleftrightarrow>
      derivation_path ?B = derivation_path ?A \<and> same_but_blockhash (cmd_message ?A) (cmd_message ?B)"
    by (rule delayed_message_is_previewed [OF P])
      (auto simp: sample_sha512_def Let_def concat_zeroed_chunks sample_previewed_same(2))
  then show ?thesis using P sample_previewed_same(3) by auto
qed

end
