(* ===== verification/Sol_Utf8.thy ===== *)
theory Sol_Utf8
  imports Sol_Prelude
begin

text \<open>
  The two character set tests of off-chain messages, \<open>libsol/string_utils.c\<close>, and their meaning: the
  first accepts exactly the encodings of sequences of code points, the second the printable ASCII
  characters and line feeds. A null pointer is \<open>None\<close>.
\<close>

unbundle bit_operations_syntax

fun utf8_from :: "u8 list \<Rightarrow> bool" where
  "utf8_from [] = True"
| "utf8_from (b0 # r) =
     (if b0 < 0x80 then utf8_from r
      else if b0 AND 0xe0 = 0xc0
      then (case r of
              b1 # r \<Rightarrow> if b1 AND 0xc0 \<noteq> 0x80 \<or> b0 AND 0xfe = 0xc0 then False else utf8_from r
            | [] \<Rightarrow> False)
      else if b0 AND 0xf0 = 0xe0
      then (case r of
              b1 # b2 # r \<Rightarrow>
                if b1 AND 0xc0 \<noteq> 0x80 \<or> b2 AND 0xc0 \<noteq> 0x80
                   \<or> (b0 = 0xe0 \<and> b1 AND 0xe0 = 0x80)
                   \<or> (b0 = 0xed \<and> b1 AND 0xe0 = 0xa0)
                   \<or> (b0 = 0xef \<and> b1 = 0xbf \<and> b2 AND 0xfe = 0xbe)
                then False else utf8_from r
            | _ \<Rightarrow> False)
      else if b0 AND 0xf8 = 0xf0
      then (case r of
              b1 # b2 # b3 # r \<Rightarrow>
                if b1 AND 0xc0 \<noteq> 0x80 \<or> b2 AND 0xc0 \<noteq> 0x80 \<or> b3 AND 0xc0 \<noteq> 0x80
                   \<or> (b0 = 0xf0 \<and> b1 AND 0xf0 = 0x80)
                   \<or> (b0 = 0xf4 \<and> b1 > 0x8f) \<or> b0 > 0xf4
                then False else utf8_from r
            | _ \<Rightarrow> False)
      else False)"

definition is_data_utf8 :: "u8 list option \<Rightarrow> bool" where
  "is_data_utf8 data = (case data of None \<Rightarrow> False | Some bs \<Rightarrow> utf8_from bs)"

fun ascii_from :: "u8 list \<Rightarrow> bool" where
  "ascii_from [] = True"
| "ascii_from (b # r) = (if (b < 0x20 \<and> b \<noteq> 0x0A) \<or> b > 0x7e then False else ascii_from r)"

definition is_data_ascii :: "u8 list option \<Rightarrow> bool" where
  "is_data_ascii data = (case data of None \<Rightarrow> False | Some bs \<Rightarrow> ascii_from bs)"

section \<open>The reference\<close>

definition byte :: "nat \<Rightarrow> u8" where "byte n = of_nat n"

definition utf8 :: "nat \<Rightarrow> u8 list" where
  "utf8 c =
     (if c < 0x80 then [byte c]
      else if c < 0x800 then [byte (0xc0 + c div 64), byte (0x80 + c mod 64)]
      else if c < 0x10000 then [byte (0xe0 + c div 4096), byte (0x80 + c div 64 mod 64), byte (0x80 + c mod 64)]
      else [byte (0xf0 + c div 262144), byte (0x80 + c div 4096 mod 64), byte (0x80 + c div 64 mod 64), byte (0x80 + c mod 64)])"

text \<open>Unicode scalar values, less the two non-characters at the end of the first plane.\<close>

definition scalar :: "nat \<Rightarrow> bool" where
  "scalar c \<longleftrightarrow> c \<le> 0x10ffff \<and> \<not> (0xd800 \<le> c \<and> c \<le> 0xdfff) \<and> c \<noteq> 0xfffe \<and> c \<noteq> 0xffff"

lemma high_bits:
  assumes "k \<le> 8" "m = push_bit k (mask (8 - k) :: u8)"
  shows "unat (b AND m) = unat b div 2 ^ k * 2 ^ k"
proof -
  have "b AND m = push_bit k (drop_bit k b)"
    unfolding assms(2) by (rule bit_word_eqI) (use assms(1) in \<open>auto simp: bit_simps\<close>)
  moreover have "unat (push_bit k (drop_bit k b)) = unat b div 2 ^ k * 2 ^ k"
  proof -
    have "unat b div 2 ^ k * 2 ^ k < 2 ^ 8" using le_less_trans [OF div_times_less_eq_dividend unat_u8_bound, of b "2 ^ k"] by simp
    moreover have "unat (push_bit k w) = take_bit 8 (push_bit k (unat w))" for w :: u8
      using unsigned_push_bit_eq [of k w, where 'a = nat] by simp
    moreover have "unat (drop_bit k b) = unat b div 2 ^ k"
      using unsigned_drop_bit_eq [of k b, where 'a = nat] unat_u8_bound [of b] by (simp add: drop_bit_eq_div take_bit_nat_eq_self)
    ultimately show ?thesis by (simp add: push_bit_nat_def take_bit_nat_eq_self)
  qed
  ultimately show ?thesis by simp
qed

lemma byte_masks:
  "b AND 0xe0 = 0xc0 \<longleftrightarrow> unat (b :: u8) div 32 = 6" "b AND 0xe0 = 0x80 \<longleftrightarrow> unat b div 32 = 4" "b AND 0xe0 = 0xa0 \<longleftrightarrow> unat b div 32 = 5"
  "b AND 0xf0 = 0xe0 \<longleftrightarrow> unat b div 16 = 14" "b AND 0xf0 = 0x80 \<longleftrightarrow> unat b div 16 = 8"
  "b AND 0xf8 = 0xf0 \<longleftrightarrow> unat b div 8 = 30"
  "b AND 0xc0 = 0x80 \<longleftrightarrow> unat b div 64 = 2"
  "b AND 0xfe = 0xc0 \<longleftrightarrow> unat b div 2 = 96" "b AND 0xfe = 0xbe \<longleftrightarrow> unat b div 2 = 95"
  using high_bits [of 5 "0xe0" b] high_bits [of 4 "0xf0" b] high_bits [of 3 "0xf8" b] high_bits [of 6 "0xc0" b] high_bits [of 1 "0xfe" b]
  by (simp_all add: word_unat_eq_iff mask_eq_exp_minus_1 push_bit_eq_mult)

lemma unat_byte: "n < 256 \<Longrightarrow> unat (byte n) = n"
  by (simp add: byte_def unat_of_nat)

lemma byte_eq: "n < 256 \<Longrightarrow> byte n = w \<longleftrightarrow> n = unat w"
  by (auto simp: word_unat_eq_iff unat_byte)

lemma digits_64:
  "c = c div 4096 * 4096 + c div 64 mod 64 * 64 + c mod (64 :: nat)"
  "c div 4096 = c div 262144 * 64 + c div 4096 mod (64 :: nat)"
proof -
  have "c = c div 64 * 64 + c mod 64" "c div 64 = c div 64 div 64 * 64 + c div 64 mod 64" by presburger+
  moreover have "c div 64 div 64 = c div 4096" by (simp add: div_mult2_eq [symmetric])
  ultimately show "c = c div 4096 * 4096 + c div 64 mod 64 * 64 + c mod 64" by linarith
  have "c div 4096 = c div 4096 div 64 * 64 + c div 4096 mod 64" by presburger
  moreover have "c div 4096 div 64 = c div 262144" by (simp add: div_mult2_eq [symmetric])
  ultimately show "c div 4096 = c div 262144 * 64 + c div 4096 mod 64" by linarith
qed

lemma continuation: "l < (64 :: nat) \<Longrightarrow> (128 + l) div 64 = 2 \<and> 128 + l < 256"
  using div_nat_eqI [of 64 2 "128 + l"] by simp

lemma lead_bytes:
  "h < (32 :: nat) \<Longrightarrow> (192 + h) div 32 = 6" "2 \<le> h \<Longrightarrow> (192 + h) div 2 \<noteq> (96 :: nat)"
  "h < 16 \<Longrightarrow> (224 + h) div 16 = (14 :: nat)" "h < 16 \<Longrightarrow> (224 + h) div 32 \<noteq> (6 :: nat)"
  "h < 8 \<Longrightarrow> (240 + h) div 8 = (30 :: nat)" "h < 8 \<Longrightarrow> (240 + h) div 16 \<noteq> (14 :: nat)" "h < 8 \<Longrightarrow> (240 + h) div 32 \<noteq> (6 :: nat)"
  using div_nat_eqI [of 32 6 "192 + h"] div_nat_eqI [of 16 14 "224 + h"] div_nat_eqI [of 32 7 "224 + h"]
    div_nat_eqI [of 8 30 "240 + h"] div_nat_eqI [of 16 15 "240 + h"] div_nat_eqI [of 32 7 "240 + h"]
    less_eq_div_iff_mult_less_eq [of 2 97 "192 + h"] by simp_all

lemma utf8_from_utf8:
  assumes "scalar c"
  shows "utf8_from (utf8 c @ r) = utf8_from r"
proof -
  consider "c < 0x80" | "0x80 \<le> c" "c < 0x800" | "0x800 \<le> c" "c < 0x10000" | "0x10000 \<le> c" "c \<le> 0x10ffff"
    using assms by (fastforce simp: scalar_def)
  then show ?thesis
  proof cases
    case 1
    then show ?thesis by (simp add: utf8_def unat_byte word_less_nat_alt)
  next
    case 2
    define h l where "h = c div 64" and "l = c mod 64"
    have c: "c = h * 64 + l" "l < 64" "2 \<le> h" "h < 32" using 2 by (auto simp: h_def l_def)
    show ?thesis
      using 2 c(2-4) by (simp add: utf8_def byte_masks unat_byte word_less_nat_alt h_def [symmetric] l_def [symmetric] continuation lead_bytes)
  next
    case 3
    define h m l where "h = c div 4096" and "m = c div 64 mod 64" and "l = c mod 64"
    have c: "c = h * 4096 + m * 64 + l" "l < 64" "m < 64" "h < 16"
      unfolding h_def m_def l_def by (rule digits_64(1)) (use 3 in simp_all)
    have "\<not> (h = 0 \<and> (128 + m) div 32 = 4)"
    proof
      assume "h = 0 \<and> (128 + m) div 32 = 4"
      then have "h = 0" "m < 32" by auto
      then show False using 3 c by linarith
    qed
    moreover have "\<not> (h = 13 \<and> (128 + m) div 32 = 5)"
    proof
      assume "h = 13 \<and> (128 + m) div 32 = 5"
      then have "h = 13" "32 \<le> m" by auto
      then show False using assms c by (simp add: scalar_def)
    qed
    moreover have "\<not> (h = 15 \<and> m = 63 \<and> (128 + l) div 2 = 95)"
    proof
      assume "h = 15 \<and> m = 63 \<and> (128 + l) div 2 = 95"
      then have "h = 15" "m = 63" "l = 62 \<or> l = 63" by auto
      then show False using assms c(1) by (auto simp: scalar_def)
    qed
    ultimately show ?thesis
      using 3 c(2-4) by (auto simp: utf8_def byte_masks unat_byte byte_eq word_less_nat_alt h_def [symmetric] m_def [symmetric] l_def [symmetric] continuation lead_bytes)
  next
    case 4
    define h n m l where "h = c div 262144" and "n = c div 4096 mod 64" and "m = c div 64 mod 64" and "l = c mod 64"
    have "c = h * 262144 + n * 4096 + m * 64 + l" unfolding h_def n_def m_def l_def using digits_64 [of c] by linarith
    moreover have "l < 64" "m < 64" "n < 64" "h < 5" using 4 by (simp_all add: h_def n_def m_def l_def)
    ultimately have c: "c = h * 262144 + n * 4096 + m * 64 + l" "l < 64" "m < 64" "n < 64" "h < 5" by simp_all
    have "\<not> (h = 0 \<and> (128 + n) div 16 = 8)"
    proof
      assume "h = 0 \<and> (128 + n) div 16 = 8"
      then have "h = 0" "n < 16" by auto
      then show False using 4 c by linarith
    qed
    moreover have "\<not> (h = 4 \<and> 15 < n)" using 4 c by linarith
    ultimately show ?thesis
      using 4 c(2-5) by (auto simp: utf8_def byte_masks unat_byte byte_eq word_less_nat_alt h_def [symmetric] n_def [symmetric]
          m_def [symmetric] l_def [symmetric] continuation lead_bytes)
  qed
qed

lemma utf8_of_bytes:
  "unat b0 < 128 \<Longrightarrow> utf8 (unat b0) = [b0]"
  "h < 32 \<Longrightarrow> 2 \<le> h \<Longrightarrow> l < 64 \<Longrightarrow> utf8 (h * 64 + l) = [byte (192 + h), byte (128 + l)]"
  "h < 16 \<Longrightarrow> m < 64 \<Longrightarrow> l < 64 \<Longrightarrow> 2048 \<le> h * 4096 + m * 64 + l
     \<Longrightarrow> utf8 (h * 4096 + m * 64 + l) = [byte (224 + h), byte (128 + m), byte (128 + l)]"
  "n < 64 \<Longrightarrow> m < 64 \<Longrightarrow> l < 64 \<Longrightarrow> 65536 \<le> k * 262144 + n * 4096 + m * 64 + l
     \<Longrightarrow> utf8 (k * 262144 + n * 4096 + m * 64 + l) = [byte (240 + k), byte (128 + n), byte (128 + m), byte (128 + l)]"
proof -
  show "unat b0 < 128 \<Longrightarrow> utf8 (unat b0) = [b0]" by (simp add: utf8_def byte_def)
  show "utf8 (h * 64 + l) = [byte (192 + h), byte (128 + l)]" if "h < 32" "2 \<le> h" "l < 64"
    using that by (simp add: utf8_def)
  have m: "(h * 4096 + m * 64 + l) div 64 = h * 64 + m" if "l < 64" for h m l :: nat
    by (rule div_nat_eqI) (use that in simp_all)
  have h: "(h * 4096 + m * 64 + l) div 4096 = h" if "l < 64" "m < 64" for h m l :: nat
    by (rule div_nat_eqI) (use that in simp_all)
  have lo: "(h * 4096 + m * 64 + l) mod 64 = l" if "l < 64" for h m l :: nat
  proof -
    have "h * 4096 + m * 64 + l = l + 64 * (h * 64 + m)" by simp
    then show ?thesis using that by (metis mod_less mod_mult_self2)
  qed
  show "utf8 (h * 4096 + m * 64 + l) = [byte (224 + h), byte (128 + m), byte (128 + l)]"
    if "h < 16" "m < 64" "l < 64" "2048 \<le> h * 4096 + m * 64 + l"
    using that m [of l h m] h [of l m h] lo [of l h m] by (simp add: utf8_def)
  show "utf8 (k * 262144 + n * 4096 + m * 64 + l) = [byte (240 + k), byte (128 + n), byte (128 + m), byte (128 + l)]"
    if "n < 64" "m < 64" "l < 64" "65536 \<le> k * 262144 + n * 4096 + m * 64 + l"
  proof -
    let ?c = "k * 262144 + n * 4096 + m * 64 + l"
    have c: "?c = (k * 64 + n) * 4096 + m * 64 + l" by simp
    have "?c div 262144 = k" by (rule div_nat_eqI) (use that in simp_all)
    moreover have "?c div 4096 = k * 64 + n" "?c div 64 = (k * 64 + n) * 64 + m" "?c mod 64 = l"
      using h [of l m "k * 64 + n"] m [of l "k * 64 + n" m] lo [of l "k * 64 + n" m] that unfolding c by simp_all
    moreover have "(4096 * k + n * 64 + m) mod 64 = m" using lo [of m k n] that by (simp add: mult.commute)
    ultimately show ?thesis using that by (simp add: utf8_def)
  qed
qed

lemma byte_parts:
  "unat b div 64 = 2 \<Longrightarrow> \<exists>l < 64. b = byte (128 + l)"
  "unat b div 32 = 6 \<Longrightarrow> \<exists>h < 32. b = byte (192 + h)"
  "unat b div 16 = 14 \<Longrightarrow> \<exists>h < 16. b = byte (224 + h)"
  "unat b div 8 = 30 \<Longrightarrow> \<exists>h < 8. b = byte (240 + h)"
proof -
  have part: "\<exists>l < q. b = byte (v + l)" if "v \<le> unat b" "unat b < v + q" for v q
    using that by (intro exI [of _ "unat b - v"]) (simp add: byte_def)
  have le: "unat b div q * q \<le> unat b" "unat b < unat b div q * q + q" if "0 < q" for q
    using that dividend_less_div_times [OF that, of "unat b"] by (simp_all add: mult.commute div_times_less_eq_dividend)
  show "unat b div 64 = 2 \<Longrightarrow> \<exists>l < 64. b = byte (128 + l)" using part [of 128 64] le [of 64] by simp
  show "unat b div 32 = 6 \<Longrightarrow> \<exists>h < 32. b = byte (192 + h)" using part [of 192 32] le [of 32] by simp
  show "unat b div 16 = 14 \<Longrightarrow> \<exists>h < 16. b = byte (224 + h)" using part [of 224 16] le [of 16] by simp
  show "unat b div 8 = 30 \<Longrightarrow> \<exists>h < 8. b = byte (240 + h)" using part [of 240 8] le [of 8] by simp
qed

lemma two_bytes:
  assumes "b0 AND 0xe0 = 0xc0" "b1 AND 0xc0 = 0x80" "\<not> b0 AND 0xfe = 0xc0"
  shows "\<exists>c. scalar c \<and> utf8 c = [b0, b1]"
proof -
  obtain h l where b: "h < 32" "l < 64" "b0 = byte (192 + h)" "b1 = byte (128 + l)"
    using assms byte_parts(1) [of b1] byte_parts(2) [of b0] unfolding byte_masks by blast
  have "2 \<le> h"
  proof (rule ccontr)
    assume "\<not> 2 \<le> h"
    then have "h = 0 \<or> h = 1" by auto
    then show False using assms(3) b unfolding byte_masks by (auto simp: unat_byte)
  qed
  then show ?thesis using b utf8_of_bytes(2) [of h l] by (intro exI [of _ "h * 64 + l"]) (simp add: scalar_def)
qed

lemma three_bytes:
  assumes "b0 AND 0xf0 = 0xe0" "b1 AND 0xc0 = 0x80" "b2 AND 0xc0 = 0x80"
    and "\<not> (b0 = 0xe0 \<and> b1 AND 0xe0 = 0x80)" "\<not> (b0 = 0xed \<and> b1 AND 0xe0 = 0xa0)"
    and "\<not> (b0 = 0xef \<and> b1 = 0xbf \<and> b2 AND 0xfe = 0xbe)"
  shows "\<exists>c. scalar c \<and> utf8 c = [b0, b1, b2]"
proof -
  obtain h m l where b: "h < 16" "m < 64" "l < 64" "b0 = byte (224 + h)" "b1 = byte (128 + m)" "b2 = byte (128 + l)"
    using assms byte_parts(1) [of b1] byte_parts(1) [of b2] byte_parts(3) [of b0] unfolding byte_masks by blast
  have a: "\<not> (h = 0 \<and> (128 + m) div 32 = 4)" "\<not> (h = 13 \<and> (128 + m) div 32 = 5)" "\<not> (h = 15 \<and> m = 63 \<and> (128 + l) div 2 = 95)"
    using assms(4-6) b by (auto simp: byte_masks unat_byte byte_eq)
  have low: "2048 \<le> h * 4096 + m * 64 + l"
  proof (cases "h = 0")
    case True
    then have "\<not> m < 32" using a(1) div_nat_eqI [of 32 4 "128 + m"] by auto
    then show ?thesis by simp
  qed simp
  have surrogate: "\<not> (0xd800 \<le> h * 4096 + m * 64 + l \<and> h * 4096 + m * 64 + l \<le> 0xdfff)"
  proof
    assume s: "0xd800 \<le> h * 4096 + m * 64 + l \<and> h * 4096 + m * 64 + l \<le> 0xdfff"
    then have h: "h = 13" using b(2,3) by linarith
    then have "32 \<le> m" using s b(3) by linarith
    then show False using h a(2) div_nat_eqI [of 32 5 "128 + m"] b(2) by simp
  qed
  have "h * 4096 + m * 64 + l \<noteq> 0xfffe + e" if "e \<le> 1" for e
  proof
    assume s: "h * 4096 + m * 64 + l = 0xfffe + e"
    then have "h = 15" using b(1-3) that by linarith
    then have "m = 63" using s b(2,3) that by linarith
    then have "62 \<le> l" using s \<open>h = 15\<close> by linarith
    then show False using a(3) \<open>h = 15\<close> \<open>m = 63\<close> div_nat_eqI [of 2 95 "128 + l"] b(3) by simp
  qed
  from this [of 0] this [of 1] show ?thesis
    using b low surrogate utf8_of_bytes(3) [of h m l]
    by (intro exI [of _ "h * 4096 + m * 64 + l"]) (simp add: scalar_def)
qed

lemma four_bytes:
  assumes "b0 AND 0xf8 = 0xf0" "b1 AND 0xc0 = 0x80" "b2 AND 0xc0 = 0x80" "b3 AND 0xc0 = 0x80"
    and "\<not> (b0 = 0xf0 \<and> b1 AND 0xf0 = 0x80)" "\<not> (b0 = 0xf4 \<and> b1 > 0x8f)" "\<not> b0 > 0xf4"
  shows "\<exists>c. scalar c \<and> utf8 c = [b0, b1, b2, b3]"
proof -
  obtain k n m l where b: "k < 8" "n < 64" "m < 64" "l < 64" "b0 = byte (240 + k)" "b1 = byte (128 + n)"
    "b2 = byte (128 + m)" "b3 = byte (128 + l)"
    using assms byte_parts(1) [of b1] byte_parts(1) [of b2] byte_parts(1) [of b3] byte_parts(4) [of b0] unfolding byte_masks by blast
  have a: "\<not> (k = 0 \<and> (128 + n) div 16 = 8)" "\<not> (k = 4 \<and> 15 < n)" "k \<le> 4"
    using assms(5-7) b by (auto simp: byte_masks unat_byte byte_eq word_less_nat_alt)
  have low: "65536 \<le> k * 262144 + n * 4096 + m * 64 + l"
  proof (cases "k = 0")
    case True
    then have "\<not> n < 16" using a(1) div_nat_eqI [of 16 8 "128 + n"] by auto
    then show ?thesis by simp
  qed simp
  have "k * 262144 + n * 4096 + m * 64 + l \<le> 0x10ffff"
  proof (cases "k = 4")
    case True
    then have "n \<le> 15" using a(2) by simp
    then show ?thesis using True b(3,4) by linarith
  next
    case False
    then have "k \<le> 3" using a(3) by simp
    then show ?thesis using b(2-4) by linarith
  qed
  then show ?thesis
    using b low utf8_of_bytes(4) [of n m l k]
    by (intro exI [of _ "k * 262144 + n * 4096 + m * 64 + l"]) (simp add: scalar_def)
qed

lemma utf8_from_only:
  "utf8_from bs \<Longrightarrow> \<exists>cs. list_all scalar cs \<and> bs = concat (map utf8 cs)"
proof (induction bs rule: utf8_from.induct)
  case 1
  then show ?case by (intro exI [of _ "[]"]) simp
next
  case (2 b0 r)
  have join: "\<exists>cs. list_all scalar cs \<and> b0 # r = concat (map utf8 cs)"
    if "\<exists>c. scalar c \<and> utf8 c = p" "\<exists>cs. list_all scalar cs \<and> s = concat (map utf8 cs)" "b0 # r = p @ s" for p s
  proof -
    note p = that
    from p(1,2) obtain c cs where "scalar c" "utf8 c = p" "list_all scalar cs" "s = concat (map utf8 cs)" by blast
    then show ?thesis using p(3) by (intro exI [of _ "c # cs"]) simp
  qed
  consider "b0 < 0x80" | "\<not> b0 < 0x80" "b0 AND 0xe0 = 0xc0"
    | "\<not> b0 < 0x80" "\<not> b0 AND 0xe0 = 0xc0" "b0 AND 0xf0 = 0xe0"
    | "\<not> b0 < 0x80" "\<not> b0 AND 0xe0 = 0xc0" "\<not> b0 AND 0xf0 = 0xe0" "b0 AND 0xf8 = 0xf0"
    using 2(5) by (auto split: if_splits)
  then show ?case
  proof cases
    case 1
    have "scalar (unat b0) \<and> utf8 (unat b0) = [b0]"
      using 1 utf8_of_bytes(1) [of b0] by (simp add: scalar_def word_less_nat_alt)
    then show ?thesis using 2(1) [OF 1] 2(5) 1 by (intro join [of "[b0]" r]) auto
  next
    case c: 2
    then obtain b1 s where r: "r = b1 # s" "b1 AND 0xc0 = 0x80" "\<not> b0 AND 0xfe = 0xc0" "utf8_from s"
      using 2(5) by (auto split: list.splits if_splits)
    show ?thesis using 2(2) [OF c r(1)] r by (intro join [OF two_bytes [OF c(2) r(2,3)], of s]) auto
  next
    case c: 3
    then obtain b1 b2 s where r: "r = b1 # b2 # s" "b1 AND 0xc0 = 0x80" "b2 AND 0xc0 = 0x80"
      "\<not> (b0 = 0xe0 \<and> b1 AND 0xe0 = 0x80)" "\<not> (b0 = 0xed \<and> b1 AND 0xe0 = 0xa0)"
      "\<not> (b0 = 0xef \<and> b1 = 0xbf \<and> b2 AND 0xfe = 0xbe)" "utf8_from s"
      using 2(5) by (auto split: list.splits if_splits)
    show ?thesis using 2(3) [OF c r(1) refl] r by (intro join [OF three_bytes [OF c(3) r(2-6)], of s]) auto
  next
    case c: 4
    then obtain b1 b2 b3 s where r: "r = b1 # b2 # b3 # s" "b1 AND 0xc0 = 0x80" "b2 AND 0xc0 = 0x80" "b3 AND 0xc0 = 0x80"
      "\<not> (b0 = 0xf0 \<and> b1 AND 0xf0 = 0x80)" "\<not> (b0 = 0xf4 \<and> b1 > 0x8f)" "\<not> b0 > 0xf4" "utf8_from s"
      using 2(5) by (auto split: list.splits if_splits)
    show ?thesis using 2(4) [OF c r(1) refl refl] r by (intro join [OF four_bytes [OF c(4) r(2-7)], of s]) auto
  qed
qed

text \<open>C28: An off-chain message passes the UTF-8 test exactly when it is the encoding of a sequence of code points: no
  overlong form, no surrogate, nothing above U+10FFFF, no byte left over, and none of the two
  non-characters U+FFFE and U+FFFF.\<close>

theorem utf8_test_exact:
  "is_data_utf8 (Some bs) \<longleftrightarrow> (\<exists>cs. list_all scalar cs \<and> bs = concat (map utf8 cs))"
proof
  assume "\<exists>cs. list_all scalar cs \<and> bs = concat (map utf8 cs)"
  then obtain cs where "list_all scalar cs" "bs = concat (map utf8 cs)" by blast
  then show "is_data_utf8 (Some bs)"
    by (induction cs arbitrary: bs) (auto simp: is_data_utf8_def utf8_from_utf8)
qed (simp add: is_data_utf8_def utf8_from_only)

lemma ascii_from_iff: "ascii_from bs \<longleftrightarrow> list_all (\<lambda>b. unat b = 10 \<or> 32 \<le> unat b \<and> unat b \<le> 126) bs"
  by (induction bs) (auto simp: word_less_nat_alt word_unat_eq_iff)

lemma ascii_is_utf8: "is_data_ascii (Some bs) \<Longrightarrow> is_data_utf8 (Some bs)"
  by (induction bs) (auto simp: is_data_ascii_def is_data_utf8_def word_less_nat_alt split: if_splits)

end
