(* ===== verification/Sol_Ui.thy ===== *)
theory Sol_Ui
  imports Sol_Display Sol_Apdu
begin

text \<open>
  The screens of a signature, \<open>src/ui/sign_message_nbgl.c\<close>: which review is opened, with which title and warning, and
  the pairs of title and text that the graphics library asks for one by one. The library itself belongs to the SDK: a
  screen is here the call that opens it, and the answer of the user is an event of the device model.
\<close>

section \<open>Settings\<close>

datatype BlindSign = BlindSignDisabled | BlindSignEnabled
datatype PubkeyDisplay = PubkeyDisplayLong | PubkeyDisplayShort
datatype DisplayMode = DisplayModeUser | DisplayModeExpert

record AppSettings =
  allow_blind_sign :: BlindSign
  pubkey_display :: PubkeyDisplay
  display_mode :: DisplayMode

section \<open>Reviews\<close>

datatype nbgl_opType_t = TYPE_TRANSACTION | TYPE_MESSAGE

record review_content =
  G_operation_type :: nbgl_opType_t
  G_transaction_steps_number :: nat
  G_is_ascii_message :: bool

datatype nbgl_reviewStatusType_t = STATUS_TYPE_MESSAGE_SIGNED | STATUS_TYPE_TRANSACTION_SIGNED
  | STATUS_TYPE_MESSAGE_REJECTED | STATUS_TYPE_TRANSACTION_REJECTED | STATUS_TYPE_ADDRESS_VERIFIED
  | STATUS_TYPE_ADDRESS_REJECTED

text \<open>The calls of the library that open a screen: a review with its title, one with the blind signing warning, a
  warning about a token, the blind signing error, the review of an address, a status page or a spinner.\<close>

datatype screen = Idle | Review string | BlindReview string | TokenWarning string | BlindSignError
  | AddressReview string | Status nbgl_reviewStatusType_t | Spinner

text \<open>
  What a review reads and writes: the settings in flash, \<open>G_command\<close>, where the text of an off-chain message starts in it
  (\<open>message_text_start\<close>), the summary, the static variables of this file and the screen. The device model extends it.
\<close>

record review_state =
  N_settings :: AppSettings
  G_command :: apdu_command_t
  message_text_start :: nat
  G_summary :: TransactionSummary
  G_review :: review_content
  G_screen :: screen

definition init_review_content ::
    "nbgl_opType_t \<Rightarrow> nat \<Rightarrow> bool \<Rightarrow> 'a review_state_scheme \<Rightarrow> 'a review_state_scheme" where
  "init_review_content operation_type num_summary_steps is_ascii_message s =
     s\<lparr>G_review := \<lparr>G_operation_type = operation_type, G_transaction_steps_number = num_summary_steps,
       G_is_ascii_message = is_ascii_message\<rparr>\<rparr>"

fun transaction_title :: "transaction_type_t \<Rightarrow> string" where
  "transaction_title TRANSACTION_TYPE_SOL_TRANSFER = ''Review transaction to send SOL''"
| "transaction_title TRANSACTION_TYPE_SPL_TRANSFER = ''Review transaction to send tokens''"
| "transaction_title TRANSACTION_TYPE_SOL_STAKING = ''Review transaction to delegate stake''"
| "transaction_title TRANSACTION_TYPE_SOL_DEACTIVATE_STAKE = ''Review transaction to deactivate stake''"
| "transaction_title TRANSACTION_TYPE_SOL_ACTIVATE_STAKE = ''Review transaction to activate stake''"
| "transaction_title TRANSACTION_TYPE_SOL_WITHDRAW = ''Review transaction to withdraw SOL''"
| "transaction_title TRANSACTION_TYPE_BLIND_SIGNING = ''Review transaction''"
| "transaction_title TRANSACTION_TYPE_AGENC_ACTION = ''Review AgenC action''"
| "transaction_title TRANSACTION_TYPE_OTHER = ''Review transaction''"

definition start_message_signing_review :: "'a review_state_scheme \<Rightarrow> 'a review_state_scheme" where
  "start_message_signing_review s = s\<lparr>G_screen :=
     Review (if G_operation_type (G_review s) = TYPE_TRANSACTION then transaction_title (transaction_type (G_summary s))
             else ''Review message'')\<rparr>"

definition start_blind_signing_ui :: "string \<Rightarrow> 'a review_state_scheme \<Rightarrow> 'a review_state_scheme" where
  "start_blind_signing_ui review_title s = s\<lparr>G_screen := BlindReview review_title\<rparr>"

definition start_sign_message_ui :: "nat \<Rightarrow> 'a review_state_scheme \<Rightarrow> 'a review_state_scheme" where
  "start_sign_message_ui num_summary_steps s =
     (let s = init_review_content TYPE_TRANSACTION num_summary_steps False s
      in if is_blind_signing (G_summary s) then start_blind_signing_ui ''Review transaction'' s
         else let (fee, hook) = transaction_summary_get_token_warnings (G_summary s)
         in if hook \<or> fee
         then s\<lparr>G_screen := TokenWarning (if hook then ''Transfer Hook'' else ''Token Extensions cannot be verified'')\<rparr>
         else start_message_signing_review s)"

definition start_sign_offchain_message_ui :: "bool \<Rightarrow> nat \<Rightarrow> 'a review_state_scheme \<Rightarrow> 'a review_state_scheme" where
  "start_sign_offchain_message_ui is_ascii num_summary_steps s =
     (let s = init_review_content TYPE_MESSAGE num_summary_steps is_ascii s
      in if \<not> is_ascii then start_blind_signing_ui ''Review UTF-8 message'' s else start_message_signing_review s)"

definition start_blind_sign_error_ui :: "'a review_state_scheme \<Rightarrow> 'a review_state_scheme" where
  "start_blind_sign_error_ui s = s\<lparr>G_screen := BlindSignError\<rparr>"

definition get_status_type :: "review_content \<Rightarrow> bool \<Rightarrow> nbgl_reviewStatusType_t" where
  "get_status_type R accepted =
     (let is_message = (G_operation_type R = TYPE_MESSAGE)
      in if accepted then (if is_message then STATUS_TYPE_MESSAGE_SIGNED else STATUS_TYPE_TRANSACTION_SIGNED)
         else (if is_message then STATUS_TYPE_MESSAGE_REJECTED else STATUS_TYPE_TRANSACTION_REJECTED))"

definition ui_transaction_modal :: "bool \<Rightarrow> 'a review_state_scheme \<Rightarrow> 'a review_state_scheme" where
  "ui_transaction_modal is_success s =
     s\<lparr>G_screen := Status (if is_success then STATUS_TYPE_TRANSACTION_SIGNED else STATUS_TYPE_TRANSACTION_REJECTED)\<rparr>"

section \<open>The pairs of a review\<close>

text \<open>
  The text of the message is a C string in the command, which ends at the zero byte that follows the message; a slot keeps a title and a text, and the pair that is
  returned points to a slot, but for the text of an ASCII message, which is shown in place. The result is \<open>None\<close> where the
  display does something C does not define, \<open>Some None\<close> when the application exits.
\<close>

definition message_text :: "'a review_state_scheme \<Rightarrow> string" where
  "message_text s = c_str (chars_of (drop (message_text_start s) (cmd_message (G_command s)) @ [0]))"

datatype pair_value = SlotText nat | MessageText string

definition get_review_pair ::
    "'a review_state_scheme \<Rightarrow> u8 \<Rightarrow> Display \<times> (string \<times> string) list
     \<Rightarrow> ((nat \<times> pair_value) \<times> Display \<times> (string \<times> string) list) option option" where
  "get_review_pair s index = (\<lambda>(D, displayed_slots).
     let slot = unat index mod length displayed_slots
     in if int (unat index) = int (G_transaction_steps_number (G_review s)) - 1
           \<and> G_operation_type (G_review s) = TYPE_MESSAGE \<and> G_is_ascii_message (G_review s)
        then Some (Some ((slot, MessageText (message_text s)), D,
               displayed_slots[slot := (''Message'', snd (displayed_slots ! slot))]))
        else do {
          (rc, D) \<leftarrow> transaction_summary_display_item (G_summary s) (unat index)
            (pubkey_display (N_settings s) = PubkeyDisplayLong) D;
          Some (if rc \<noteq> 0 then None
                else Some ((slot, SlotText slot), D, displayed_slots[slot := (title_buffer D, text_buffer D)])) })"

definition pair_shown :: "(nat \<times> pair_value) \<times> Display \<times> (string \<times> string) list \<Rightarrow> string \<times> string" where
  "pair_shown = (\<lambda>((slot, v), D, displayed_slots). (c_str (fst (displayed_slots ! slot)),
     case v of SlotText slot \<Rightarrow> c_str (snd (displayed_slots ! slot)) | MessageText s \<Rightarrow> s))"

text \<open>A pair stays on the screen while fewer pairs than there are slots are asked for after it.\<close>

lemma slots_rotate:
  assumes "get_review_pair s index (D, slots) = Some (Some (pair, D', slots'))"
    and "j mod length slots \<noteq> unat index mod length slots"
  shows "slots' ! (j mod length slots) = slots ! (j mod length slots) \<and> length slots' = length slots"
  using assms by (auto simp: get_review_pair_def Let_def split: if_splits Option.bind_splits)

end
