(* ===== verification/Sol_Keys.thy ===== *)
theory Sol_Keys
  imports Sol_Ui
begin

unbundle bit_operations_syntax

text \<open>
  Keys and signatures, the rest of \<open>src/utils.c\<close> and \<open>src/handle_get_pubkey.c\<close>. The derivation of the SDK gives the public
  key as an uncompressed point and the signature of a message; the application turns the point into a Solana address.
  Then: that address is the encoding of RFC 8032.
\<close>

definition PUBKEY_LENGTH :: nat where "PUBKEY_LENGTH = 32"
definition PRIVATEKEY_LENGTH :: nat where "PRIVATEKEY_LENGTH = 32"

text \<open>What a handler answers: a status word, some bytes with the success status, or nothing yet.\<close>

datatype answer = Sw ApduReply | Response "u8 list" | Asynchronous

text \<open>\<open>derive\<close> is \<open>bip32_derive_with_seed_get_pubkey_256\<close>: the 65 bytes of the point, \<open>None\<close> on an error.\<close>

definition get_public_key :: "(u32 list \<Rightarrow> u8 list option) \<Rightarrow> u32 list \<Rightarrow> u8 list option" where
  "get_public_key derive path = do {
     raw \<leftarrow> derive path;
     let key = map (\<lambda>i. raw ! (PUBKEY_LENGTH + PRIVATEKEY_LENGTH - i)) [0..<PUBKEY_LENGTH];
     Some (if (raw ! PUBKEY_LENGTH) AND 1 \<noteq> 0
           then key[PUBKEY_LENGTH - 1 := key ! (PUBKEY_LENGTH - 1) OR 0x80] else key) }"

text \<open>\<open>sign\<close> is \<open>bip32_derive_with_seed_eddsa_sign_hash_256\<close>: the signature, \<open>None\<close> on an error.\<close>

definition set_result_sign_message :: "(u32 list \<Rightarrow> u8 list \<Rightarrow> u8 list option) \<Rightarrow> apdu_command_t \<Rightarrow> u8 list option" where
  "set_result_sign_message sign cmd = sign (derivation_path cmd) (cmd_message cmd)"

definition set_result_get_pubkey :: "u8 list \<Rightarrow> u8 list" where "set_result_get_pubkey public_key = take PUBKEY_LENGTH public_key"

definition ui_get_public_key :: "string \<Rightarrow> 'a review_state_scheme \<Rightarrow> 'a review_state_scheme" where
  "ui_get_public_key public_key_str s = s\<lparr>G_screen := AddressReview public_key_str\<rparr>"

text \<open>The key is kept for the answer of the user. The text keeps its old contents where the encoder writes nothing.\<close>

record pubkey_state = review_state +
  G_publicKey :: "u8 list"
  G_publicKeyStr :: string

definition reset_getpubkey_globals :: "'a pubkey_state_scheme \<Rightarrow> 'a pubkey_state_scheme" where
  "reset_getpubkey_globals s = s\<lparr>G_publicKey := replicate PUBKEY_LENGTH 0, G_publicKeyStr := replicate BASE58_PUBKEY_LENGTH NUL\<rparr>"

definition handle_get_pubkey ::
    "(u32 list \<Rightarrow> u8 list option) \<Rightarrow> 'a pubkey_state_scheme \<Rightarrow> (answer \<times> 'a pubkey_state_scheme) option" where
  "handle_get_pubkey derive s =
     (if (cmd_instruction (G_command s) \<noteq> InsDeprecatedGetPubkey \<and> cmd_instruction (G_command s) \<noteq> InsGetPubkey)
         \<or> cmd_state (G_command s) \<noteq> ApduStatePayloadComplete
      then Some (Sw ApduReplySdkInvalidParameter, s)
      else case get_public_key derive (derivation_path (G_command s)) of
        None \<Rightarrow> Some (Sw ApduReplySdkException, s)
      | Some key \<Rightarrow> do {
          (rc, str) \<leftarrow> encode_base58 key BASE58_PUBKEY_LENGTH;
          let s = s\<lparr>G_publicKey := key, G_publicKeyStr := overwrite str (G_publicKeyStr s)\<rparr>;
          Some (if non_confirm (G_command s) then (Response key, s)
                else (Asynchronous, ui_get_public_key (c_str (G_publicKeyStr s)) s)) })"

text \<open>The answer of the user to the review of the address.\<close>

definition pubkey_review_choice :: "bool \<Rightarrow> 'a pubkey_state_scheme \<Rightarrow> answer \<times> 'a pubkey_state_scheme" where
  "pubkey_review_choice confirm s =
     (if confirm then (Response (set_result_get_pubkey (G_publicKey s)), s\<lparr>G_screen := Status STATUS_TYPE_ADDRESS_VERIFIED\<rparr>)
      else (Sw ApduReplyUserRefusal, s\<lparr>G_screen := Status STATUS_TYPE_ADDRESS_REJECTED\<rparr>))"

section \<open>The address is the key\<close>

text \<open>A number in little-endian and in big-endian bytes.\<close>

fun le_number :: "u8 list \<Rightarrow> nat" where
  "le_number [] = 0"
| "le_number (b # bs) = unat b + 256 * le_number bs"

definition be_number :: "u8 list \<Rightarrow> nat" where "be_number bs = le_number (rev bs)"

lemma le_number_append: "le_number (xs @ ys) = le_number xs + 256 ^ length xs * le_number ys"
  by (induction xs) (simp_all add: algebra_simps)

lemma le_zeros: "le_number (a # replicate n 0) = unat a" "le_number (replicate n 0) = 0"
  by (induction n) simp_all

lemma le_number_less: "le_number bs < 256 ^ length bs"
proof (induction bs)
  case (Cons b bs)
  have "unat b < 256" using unsigned_less [of b] by simp
  then show ?case using Cons by simp
qed simp

lemma set_top_bit: "unat (b :: u8) < 128 \<Longrightarrow> unat (b OR 0x80) = unat b + 128"
proof -
  assume "unat b < 128"
  then have "unat (drop_bit 7 b) = 0" by (simp add: drop_bit_eq_div unat_div)
  then have "drop_bit 7 b = 0" by (simp only: unsigned_eq_0_iff)
  then have "\<not> bit b 7" by (simp add: bit_iff_odd_drop_bit)
  then have "b AND 2 ^ 7 = 0" by (subst and_exp_eq_0_iff_not_bit) 
  then have "b AND 0x80 = 0" by simp
  moreover have "(b AND 0x80) + (b OR 0x80) = b + 0x80" by (rule word_plus_and_or)
  ultimately have "b OR 0x80 = b + 0x80" by simp
  then show ?thesis using \<open>unat b < 128\<close> by (simp add: unat_word_ariths)
qed

text \<open>The bytes of the key: the second coordinate, reversed, with the parity of the first in the top bit.\<close>

lemma get_public_key_bytes:
  assumes "derive path = Some (c # x @ y)" "length x = 32" "length y = 32"
  shows "get_public_key derive path = Some (if last x AND 1 \<noteq> 0 then butlast (rev y) @ [last (rev y) OR 0x80] else rev y)"
proof -
  have r: "map (\<lambda>i. (c # x @ y) ! (64 - i)) [0..<32] = rev y"
  proof (intro nth_equalityI)
    fix i assume "i < length (map (\<lambda>i. (c # x @ y) ! (64 - i)) [0..<32])"
    then have i: "i < 32" by simp
    have "(c # x @ y) ! (64 - i) = (x @ y) ! (63 - i)" using i by (simp add: nth_Cons')
    also have "63 - i = length x + (31 - i)" using i assms(2) by simp
    also have "(x @ y) ! (length x + (31 - i)) = y ! (31 - i)" by (rule nth_append_length_plus)
    also have "... = rev y ! i" using i assms(3) by (simp add: rev_nth)
    finally show "map (\<lambda>i. (c # x @ y) ! (64 - i)) [0..<32] ! i = rev y ! i" using i by simp
  qed (simp add: assms)
  have l: "(c # x @ y) ! 32 = last x" using assms(2) by (cases x rule: rev_cases) (auto simp: nth_append)
  obtain ys b where y: "rev y = ys @ [b]" using assms(3) by (cases "rev y" rule: rev_cases) auto
  have "length (rev y) = 32" using assms(3) by simp
  then have "length ys = 31" unfolding y by simp
  then have u: "(rev y)[31 := (rev y) ! 31 OR 0x80] = butlast (rev y) @ [last (rev y) OR 0x80]"
    unfolding y by (simp add: list_update_append nth_append)
  show ?thesis
    using r l u by (simp add: get_public_key_def assms(1) PUBKEY_LENGTH_def PRIVATEKEY_LENGTH_def Let_def)
qed

text \<open>C29: The Solana address of a derived key is the standard encoding of its point, RFC 8032: 32 bytes, read as a
  little-endian number they are the second coordinate with the parity of the first one in bit 255.\<close>

theorem public_key_is_rfc8032:
  assumes "derive path = Some (c # x @ y)" "length x = 32" "length y = 32" and "be_number y < 2 ^ 255"
  shows "\<exists>key. get_public_key derive path = Some key \<and> length key = 32
    \<and> le_number key = be_number y + 2 ^ 255 * (be_number x mod 2)"
proof -
  obtain ys b where y: "rev y = ys @ [b]" using assms(3) by (cases "rev y" rule: rev_cases) auto
  have "length (rev y) = 32" using assms(3) by simp
  then have ys: "length ys = 31" unfolding y by simp
  obtain xs a where x: "x = xs @ [a]" using assms(2) by (cases x rule: rev_cases) auto
  have n: "be_number y = le_number ys + 256 ^ 31 * unat b" by (simp add: be_number_def y ys le_number_append)
  have b: "unat b < 128"
  proof (rule ccontr)
    assume "\<not> unat b < 128"
    then have "256 ^ 31 * 128 \<le> be_number y" by (simp add: n)
    then show False using assms(4) by simp
  qed
  have p: "be_number x mod 2 = (if a AND 1 \<noteq> 0 then 1 else 0)"
  proof -
    have "be_number x mod 2 = unat a mod 2" by (simp add: be_number_def x mod_add_eq [symmetric] mod_mult_left_eq [symmetric])
    also have "... = unat (a AND 1)" by (simp add: and_one_eq unat_mod)
    finally show ?thesis by (auto simp: and_one_eq mod_2_eq_odd)
  qed
  show ?thesis
    using get_public_key_bytes [of derive path c x y, OF assms(1-3)] set_top_bit [OF b] p
    by (auto simp: x y ys n le_number_append algebra_simps)
qed

theorem public_key_is_rfc8032_witness:
  "\<exists>key. get_public_key (\<lambda>_. Some (4 # replicate 31 0 @ [7] @ replicate 31 0 @ [9])) [] = Some key
     \<and> le_number key = 9 + 2 ^ 255"
  using public_key_is_rfc8032 [of "\<lambda>_. Some (4 # (replicate 31 0 @ [7]) @ (replicate 31 0 @ [9]))" "[]" 4 "replicate 31 0 @ [7]"
      "replicate 31 0 @ [9]"]
  by (auto simp: be_number_def le_zeros)

end
