(* ===== verification/Sol_Offchain.thy ===== *)
theory Sol_Offchain
  imports Sol_Utf8 Sol_Keys
begin

text \<open>
  The signature of off-chain messages, \<open>src/handle_sign_offchain_message.c\<close>: the checks of the header and of the text, and
  the review that is opened. First the code; then exactly which messages are put to the user, and that an ASCII message is
  shown to its last byte.
\<close>

definition MAX_OFFCHAIN_MESSAGE_LENGTH :: nat where "MAX_OFFCHAIN_MESSAGE_LENGTH = PACKET_DATA_SIZE"

definition OFFCHAIN_EMPTY_APPLICATION_DOMAIN :: "u8 list" where "OFFCHAIN_EMPTY_APPLICATION_DOMAIN = replicate 32 0"

definition ui_application_domain :: "OffchainMessageHeader \<Rightarrow> TransactionSummary \<Rightarrow> TransactionSummary option" where
  "ui_application_domain header S =
     (case application_domain header of
        None \<Rightarrow> Some S
      | Some domain \<Rightarrow>
          if memcmp (bytes domain) OFFCHAIN_EMPTY_APPLICATION_DOMAIN = 0
          then summary_item_set_string (transaction_summary_general_item S) ''Application'' ''Domain not provided'' S
          else summary_item_set_offchain_message_application_domain (transaction_summary_general_item S) ''Application'' domain S)"

text \<open>The address of the hash of the message in \<open>G_command\<close> is never compared: it is 0.\<close>

definition prepare_primary_items ::
    "DisplayMode \<Rightarrow> u8 list \<Rightarrow> OffchainMessageHeader \<Rightarrow> bool \<Rightarrow> nat \<Rightarrow> TransactionSummary \<Rightarrow> (bool \<times> TransactionSummary) option" where
  "prepare_primary_items mode hash header is_ascii signer_index S =
     (if mode = DisplayModeExpert then do {
        S \<leftarrow> summary_item_set_pubkey (transaction_summary_primary_or_general_item S) ''Signer''
               (header_pubkey (signers header) signer_index) S;
        S \<leftarrow> (if signers_length header > 1
              then summary_item_set_u64 (transaction_summary_general_item S) ''Other signers'' (of_nat (signers_length header)) S
              else Some S);
        S \<leftarrow> ui_application_domain header S;
        S \<leftarrow> summary_item_set_u64 (transaction_summary_general_item S) ''Version'' (ucast (oc_version header)) S;
        S \<leftarrow> (if oc_version header = 0
              then summary_item_set_u64 (transaction_summary_general_item S) ''Format'' (ucast (oc_format header)) S
              else Some S);
        S \<leftarrow> summary_item_set_u64 (transaction_summary_general_item S) ''Size'' (ucast (oc_length header)) S;
        S \<leftarrow> summary_item_set_hash (transaction_summary_general_item S) ''Hash'' (Ptr 0 hash) S;
        Some (True, S) }
      else if \<not> is_ascii then do {
        S \<leftarrow> summary_item_set_hash (transaction_summary_primary_or_general_item S) ''Hash'' (Ptr 0 hash) S;
        Some (True, S) }
      else Some (False, S))"

definition setup_offchain_signing_ui ::
    "OffchainMessageHeader \<Rightarrow> bool \<Rightarrow> nat \<Rightarrow> 'a review_state_scheme \<Rightarrow> (status \<times> 'a review_state_scheme) option" where
  "setup_offchain_signing_ui header is_ascii signer_index s = do {
     (has_primary_item, S) \<leftarrow> prepare_primary_items (display_mode (N_settings s)) (message_hash (G_command s))
       header is_ascii signer_index transaction_summary_reset;
     let s = s\<lparr>G_summary := S\<rparr>;
     Some (case (if has_primary_item then map_option length (transaction_summary_finalize S) else Some 0) of
        None \<Rightarrow> (Some ApduReplySolanaSummaryFinalizeFailed, s)
      | Some num_summary_steps \<Rightarrow>
          (None, start_sign_offchain_message_ui is_ascii (if is_ascii then num_summary_steps + 1 else num_summary_steps) s)) }"

text \<open>The checks of the header and of the text after it: the signer, and whether the text is ASCII. \<open>Inl\<close> is the status.\<close>

definition check_offchain_message ::
    "(u32 list \<Rightarrow> u8 list option) \<Rightarrow> apdu_command_t \<Rightarrow> OffchainMessageHeader \<Rightarrow> Parser \<Rightarrow> ApduReply + nat \<times> bool" where
  "check_offchain_message derive cmd header parser =
     (if oc_version header > 1 \<or> oc_length header = 0 \<or> unat (oc_length header) \<noteq> buffer_length parser
         \<or> signers_length header = 0
      then Inl ApduReplySolanaInvalidMessageHeader
      else if oc_version header = 0 \<and> oc_format header > 1 then Inl ApduReplySolanaInvalidMessageHeader
      else case get_public_key derive (derivation_path cmd) of
        None \<Rightarrow> Inl ApduReplySdkException
      | Some public_key \<Rightarrow>
          (case get_pubkey_index public_key (signers header) (signers_length header) of
             None \<Rightarrow> Inl ApduReplySolanaInvalidMessageHeader
           | Some signer_index \<Rightarrow>
               let is_ascii = is_data_ascii (Some (buffer parser));
                   is_utf8 = is_ascii \<or> is_data_utf8 (Some (buffer parser))
               in if \<not> is_utf8 then Inl ApduReplySolanaInvalidMessageFormat
               else if oc_version header = 0 \<and> \<not> is_ascii \<and> oc_format header = 0
               then Inl ApduReplySolanaInvalidMessageFormat
               else Inr (signer_index, is_ascii)))"

definition handle_sign_offchain_message ::
    "(u32 list \<Rightarrow> u8 list option) \<Rightarrow> (u8 list \<Rightarrow> u8 list) \<Rightarrow> 'a review_state_scheme
     \<Rightarrow> (answer \<times> 'a review_state_scheme) option" where
  "handle_sign_offchain_message derive cx_hash_sha256 s =
     (if cmd_instruction (G_command s) \<noteq> InsSignOffchainMessage \<or> cmd_state (G_command s) \<noteq> ApduStatePayloadComplete
      then Some (Sw ApduReplySdkInvalidParameter, s)
      else if non_confirm (G_command s) then Some (Sw ApduReplySdkNotSupported, s)
      else if length (cmd_message (G_command s)) > MAX_OFFCHAIN_MESSAGE_LENGTH
      then Some (Sw ApduReplySolanaInvalidMessageSize, s)
      else case parse_offchain_message_header (cursor 0 (cmd_message (G_command s))) of
        None \<Rightarrow> Some (Sw ApduReplySolanaInvalidMessageHeader, s)
      | Some (header, parser) \<Rightarrow>
          (let s = s\<lparr>message_text_start := offchain_message_header_length header\<rparr>
           in case check_offchain_message derive (G_command s) header parser of
             Inl reply \<Rightarrow> Some (Sw reply, s)
           | Inr (signer_index, is_ascii) \<Rightarrow>
               if \<not> is_ascii \<and> allow_blind_sign (N_settings s) \<noteq> BlindSignEnabled
               then Some (Sw ApduReplySdkNotSupported, start_blind_sign_error_ui s)
               else do {
                 let s = (if \<not> is_ascii \<or> display_mode (N_settings s) = DisplayModeExpert
                   then s\<lparr>G_command := (G_command s)\<lparr>message_hash :=
                          cx_hash_sha256 (take (unat (oc_length header)) (buffer parser))\<rparr>\<rparr>
                   else s);
                 (ret, s) \<leftarrow> setup_offchain_signing_ui header is_ascii signer_index s;
                 Some (case ret of Some reply \<Rightarrow> (Sw reply, s) | None \<Rightarrow> (Asynchronous, s)) }))"

section \<open>What the review lists\<close>

definition domain_item :: "OffchainMessageHeader \<Rightarrow> SummaryItem list" where
  "domain_item header = (case application_domain header of
     None \<Rightarrow> []
   | Some domain \<Rightarrow> [\<lparr>item_title = ''Application'', item_value =
       if memcmp (bytes domain) OFFCHAIN_EMPTY_APPLICATION_DOMAIN = 0 then ItemString ''Domain not provided''
       else ItemApplicationDomain domain\<rparr>])"

definition offchain_items :: "DisplayMode \<Rightarrow> u8 list \<Rightarrow> OffchainMessageHeader \<Rightarrow> bool \<Rightarrow> nat \<Rightarrow> SummaryItem list" where
  "offchain_items mode hash header is_ascii signer_index =
     (if mode = DisplayModeExpert then
        [\<lparr>item_title = ''Signer'', item_value = ItemPubkey (header_pubkey (signers header) signer_index)\<rparr>]
        @ (if signers_length header > 1
           then [\<lparr>item_title = ''Other signers'', item_value = ItemU64 (of_nat (signers_length header))\<rparr>] else [])
        @ domain_item header
        @ [\<lparr>item_title = ''Version'', item_value = ItemU64 (ucast (oc_version header))\<rparr>]
        @ (if oc_version header = 0 then [\<lparr>item_title = ''Format'', item_value = ItemU64 (ucast (oc_format header))\<rparr>] else [])
        @ [\<lparr>item_title = ''Size'', item_value = ItemU64 (ucast (oc_length header))\<rparr>,
           \<lparr>item_title = ''Hash'', item_value = ItemHash (Ptr 0 hash)\<rparr>]
      else if is_ascii then [] else [\<lparr>item_title = ''Hash'', item_value = ItemHash (Ptr 0 hash)\<rparr>])"


text \<open>A summary with a primary item and the general items \<open>items\<close>.\<close>

definition listing :: "SummaryItem \<Rightarrow> SummaryItem list \<Rightarrow> TransactionSummary" where
  "listing it items = transaction_summary_reset\<lparr>primary := it, general := pad items\<rparr>"

lemma screen_ok_listing: "list_all is_summary_item_used items \<Longrightarrow> length items \<le> 11 \<Longrightarrow> screen_ok (listing it items)"
  by (simp add: listing_def screen_ok_general num_general)

lemma filled_listing: "list_all is_summary_item_used items \<Longrightarrow> filled (listing it items) = items"
  by (simp add: listing_def filter_id_conv list_all_iff)

lemma shown_listing: "is_summary_item_used it \<Longrightarrow> list_all is_summary_item_used items \<Longrightarrow> shown (listing it items) = it # items"
  by (simp add: listing_def shown_def pad_def transaction_summary_reset_def filter_id_conv list_all_iff)

lemma write_listing:
  assumes "list_all is_summary_item_used items" "length items < 11"
  shows "write_item (transaction_summary_general_item (listing it items)) x (listing it items) = Some (listing it (items @ [x]))"
  using assms
  by (simp add: write_general_ok [OF screen_ok_listing] filled_listing num_general) (simp add: listing_def)

lemmas add_listing = write_listing [folded summary_item_set_defs]

lemma domain_listed:
  assumes "list_all is_summary_item_used items" "length items < 11"
  shows "ui_application_domain header (listing it items) = Some (listing it (items @ domain_item header))"
  using assms by (simp add: ui_application_domain_def domain_item_def summary_item_set_defs write_listing split: option.split)

lemma domain_item_used: "list_all is_summary_item_used (domain_item header) \<and> length (domain_item header) \<le> 1"
  by (simp add: domain_item_def split: option.split)

lemma first_item: "transaction_summary_primary_or_general_item transaction_summary_reset = Some Primary"
  by (simp add: transaction_summary_primary_or_general_item_def primary_free)

lemma reset_listing: "transaction_summary_reset\<lparr>primary := it\<rparr> = listing it []"
  by (simp add: listing_def pad_def transaction_summary_reset_def)

lemma offchain_items_used: "list_all is_summary_item_used (offchain_items mode hash header is_ascii i)"
  using domain_item_used by (simp add: offchain_items_def)

lemma items_prepared:
  "prepare_primary_items mode hash header is_ascii i transaction_summary_reset =
     Some (case offchain_items mode hash header is_ascii i of [] \<Rightarrow> (False, transaction_summary_reset)
           | it # items \<Rightarrow> (True, listing it items))"
proof (cases "mode = DisplayModeExpert")
  case True
  then show ?thesis
    using domain_item_used [of header]
    by (simp add: prepare_primary_items_def offchain_items_def first_item summary_item_set_defs reset_listing write_listing
        domain_listed)
next
  case False
  then show ?thesis
    by (simp add: prepare_primary_items_def offchain_items_def first_item summary_item_set_defs reset_listing)
qed

lemma setup_review:
  fixes header i is_ascii and s :: "'a review_state_scheme"
  defines "items == offchain_items (display_mode (N_settings s)) (message_hash (G_command s)) header is_ascii i"
  shows "\<exists>S. setup_offchain_signing_ui header is_ascii i s
      = Some (None, start_sign_offchain_message_ui is_ascii (length items + (if is_ascii then 1 else 0)) (s\<lparr>G_summary := S\<rparr>))
    \<and> (items = [] \<longrightarrow> S = transaction_summary_reset) \<and> (items \<noteq> [] \<longrightarrow> shown S = items \<and> is_summary_item_used (primary S))"
proof (cases items)
  case Nil
  then show ?thesis
    by (simp add: setup_offchain_signing_ui_def items_prepared items_def)
next
  case (Cons it rest)
  then have used: "is_summary_item_used it" "list_all is_summary_item_used rest"
    using offchain_items_used [of "display_mode (N_settings s)" "message_hash (G_command s)" header is_ascii i]
    by (simp_all add: items_def)
  then have "transaction_summary_finalize (listing it rest) = Some (map (\<lambda>x. item_kind (item_value x)) (it # rest))"
    by (simp add: finalize_shown shown_listing) (simp add: listing_def)
  moreover have "is_summary_item_used (primary (listing it rest))" using used by (simp add: listing_def)
  ultimately show ?thesis
    using Cons used by (auto simp: setup_offchain_signing_ui_def items_prepared items_def shown_listing split: list.split)
qed

section \<open>Which messages are put to the user\<close>

lemma get_pubkey_index_from_Some:
  "get_pubkey_index_from i needle haystack n = Some j
     \<Longrightarrow> i \<le> j \<and> j < i + n \<and> memcmp (bytes (header_pubkey haystack j)) needle = 0"
  by (induction n arbitrary: i) (fastforce split: if_splits)+

lemma get_pubkey_index_from_None:
  "get_pubkey_index_from i needle haystack n = None \<Longrightarrow> j < n \<Longrightarrow> memcmp (bytes (header_pubkey haystack (i + j))) needle \<noteq> 0"
proof (induction n arbitrary: i j)
  case (Suc n)
  have n: "memcmp (bytes (header_pubkey haystack i)) needle \<noteq> 0" "get_pubkey_index_from (Suc i) needle haystack n = None"
    using Suc.prems(1) by (auto split: if_splits)
  show ?case
  proof (cases j)
    case (Suc k)
    then show ?thesis using Suc.IH [OF n(2), of k] Suc.prems(2) by simp
  qed (use n in simp)
qed simp

lemma get_pubkey_index_iff:
  "(\<exists>j. get_pubkey_index needle haystack n = Some j) \<longleftrightarrow> (\<exists>j < n. memcmp (bytes (header_pubkey haystack j)) needle = 0)"
proof
  assume "\<exists>j < n. memcmp (bytes (header_pubkey haystack j)) needle = 0"
  then show "\<exists>j. get_pubkey_index needle haystack n = Some j"
    using get_pubkey_index_from_None [of 0 needle haystack n] by (cases "get_pubkey_index needle haystack n") (auto simp: get_pubkey_index_def)
qed (use get_pubkey_index_from_Some [of 0 needle haystack n] in \<open>auto simp: get_pubkey_index_def\<close>)

lemma length_get_public_key: "get_public_key derive path = Some key \<Longrightarrow> length key = 32"
  by (auto simp: get_public_key_def PUBKEY_LENGTH_def bind_eq_Some_conv Let_def split: if_splits)

lemma length_signer:
  assumes "parse_offchain_message_header p = Some (h, q)" "i < signers_length h"
  shows "length (bytes (header_pubkey (signers h) i)) = 32"
  using assms by (cases rule: parse_offchain_message_header_SomeE) (simp add: header_pubkey_def PUBKEY_SIZE_def buffer_length_def)

definition printable :: "u8 list \<Rightarrow> bool" where
  "printable bs = list_all (\<lambda>b. unat b = 10 \<or> 32 \<le> unat b \<and> unat b \<le> 126) bs"

lemma ascii_printable: "is_data_ascii (Some bs) \<longleftrightarrow> printable bs"
  by (simp add: is_data_ascii_def printable_def ascii_from_iff)

text \<open>The key of the device is one of the signers of the header.\<close>

definition signs_as :: "(u32 list \<Rightarrow> u8 list option) \<Rightarrow> u32 list \<Rightarrow> OffchainMessageHeader \<Rightarrow> nat \<Rightarrow> bool" where
  "signs_as derive path h i \<longleftrightarrow>
     i < signers_length h \<and> get_public_key derive path = Some (bytes (header_pubkey (signers h) i))"

lemma signer_found:
  assumes "parse_offchain_message_header p = Some (h, q)"
  shows "(\<exists>key i. get_public_key derive path = Some key \<and> get_pubkey_index key (signers h) (signers_length h) = Some i)
    \<longleftrightarrow> (\<exists>i. signs_as derive path h i)"
proof -
  have "memcmp (bytes (header_pubkey (signers h) i)) key = 0 \<longleftrightarrow> bytes (header_pubkey (signers h) i) = key"
    if "get_public_key derive path = Some key" "i < signers_length h" for key i
    using memcmp_eq_0 length_signer [OF assms that(2)] length_get_public_key [OF that(1)] by simp
  then show ?thesis
    using get_pubkey_index_iff [of _ "signers h" "signers_length h"] by (auto simp: signs_as_def)
qed

lemma signer_index:
  assumes "parse_offchain_message_header p = Some (h, q)" "get_public_key derive path = Some key"
    "get_pubkey_index key (signers h) (signers_length h) = Some i"
  shows "signs_as derive path h i"
  using get_pubkey_index_from_Some [of 0 key "signers h" "signers_length h" i] assms
    memcmp_eq_0 length_signer [OF assms(1), of i] length_get_public_key [OF assms(2)]
  by (simp add: signs_as_def get_pubkey_index_def)

text \<open>The text of a message with the header \<open>h\<close> may be signed.\<close>

definition text_ok :: "OffchainMessageHeader \<Rightarrow> u8 list \<Rightarrow> bool" where
  "text_ok h bs \<longleftrightarrow> bs \<noteq> [] \<and> length bs = unat (oc_length h) \<and> oc_version h \<le> 1 \<and> (oc_version h = 0 \<longrightarrow> oc_format h \<le> 1)
     \<and> (printable bs \<or> is_data_utf8 (Some bs) \<and> \<not> (oc_version h = 0 \<and> oc_format h = 0))"

lemma signers_exist: "signs_as derive path h i \<Longrightarrow> signers_length h \<noteq> 0"
  by (simp add: signs_as_def)

lemma checked_offchain:
  assumes "parse_offchain_message_header p = Some (h, q)"
  shows "check_offchain_message derive cmd h q = Inr (i, is_ascii)
    \<Longrightarrow> text_ok h (buffer q) \<and> signs_as derive (derivation_path cmd) h i \<and> is_ascii = printable (buffer q)"
    and "text_ok h (buffer q) \<Longrightarrow> signs_as derive (derivation_path cmd) h i
    \<Longrightarrow> \<exists>i. check_offchain_message derive cmd h q = Inr (i, printable (buffer q))"
proof -
  assume "check_offchain_message derive cmd h q = Inr (i, is_ascii)"
  moreover have "buffer q \<noteq> [] \<longleftrightarrow> length (buffer q) \<noteq> 0" by simp
  moreover have "oc_length h \<noteq> 0 \<longleftrightarrow> unat (oc_length h) \<noteq> 0" by (simp add: unsigned_eq_0_iff)
  ultimately show "text_ok h (buffer q) \<and> signs_as derive (derivation_path cmd) h i \<and> is_ascii = printable (buffer q)"
    using signer_index [OF assms]
    by (auto simp: check_offchain_message_def text_ok_def buffer_length_def ascii_printable Let_def not_less
        split: if_splits option.splits)
next
  assume ok: "text_ok h (buffer q)" and i: "signs_as derive (derivation_path cmd) h i"
  obtain key j where "get_public_key derive (derivation_path cmd) = Some key"
    "get_pubkey_index key (signers h) (signers_length h) = Some j" using signer_found [OF assms] i by blast
  moreover have "oc_length h \<noteq> 0" using ok by (auto simp: text_ok_def)
  ultimately show "\<exists>i. check_offchain_message derive cmd h q = Inr (i, printable (buffer q))"
    using ok signers_exist [OF i]
    by (auto simp: check_offchain_message_def text_ok_def buffer_length_def ascii_printable Let_def not_less)
qed

definition offchain_ok :: "(u32 list \<Rightarrow> u8 list option) \<Rightarrow> AppSettings \<Rightarrow> apdu_command_t \<Rightarrow> bool" where
  "offchain_ok derive settings cmd \<longleftrightarrow>
     cmd_instruction cmd = InsSignOffchainMessage \<and> cmd_state cmd = ApduStatePayloadComplete \<and> \<not> non_confirm cmd
     \<and> length (cmd_message cmd) \<le> MAX_OFFCHAIN_MESSAGE_LENGTH
     \<and> (\<exists>h q i. parse_offchain_message_header (cursor 0 (cmd_message cmd)) = Some (h, q) \<and> text_ok h (buffer q)
          \<and> signs_as derive (derivation_path cmd) h i
          \<and> (printable (buffer q) \<or> allow_blind_sign settings = BlindSignEnabled))"

text \<open>The state in which the review is opened: the hash is computed only where it is listed.\<close>

definition with_hash :: "(u8 list \<Rightarrow> u8 list) \<Rightarrow> OffchainMessageHeader \<Rightarrow> Parser \<Rightarrow> 'a review_state_scheme \<Rightarrow> 'a review_state_scheme" where
  "with_hash sha h q s =
     (let s = s\<lparr>message_text_start := offchain_message_header_length h\<rparr>
      in if \<not> printable (buffer q) \<or> display_mode (N_settings s) = DisplayModeExpert
         then s\<lparr>G_command := (G_command s)\<lparr>message_hash := sha (take (unat (oc_length h)) (buffer q))\<rparr>\<rparr> else s)"

lemma with_hash_keeps:
  "N_settings (with_hash sha h q s) = N_settings s" "cmd_message (G_command (with_hash sha h q s)) = cmd_message (G_command s)"
  "derivation_path (G_command (with_hash sha h q s)) = derivation_path (G_command s)"
  "cmd_instruction (G_command (with_hash sha h q s)) = cmd_instruction (G_command s)"
  "message_text_start (with_hash sha h q s) = offchain_message_header_length h"
  "is_preview_mode (G_command (with_hash sha h q s)) = is_preview_mode (G_command s)"
  by (simp_all add: with_hash_def Let_def)

definition review_opened :: "OffchainMessageHeader \<Rightarrow> bool \<Rightarrow> SummaryItem list \<Rightarrow> 'a review_state_scheme \<Rightarrow> 'a review_state_scheme \<Rightarrow> bool" where
  "review_opened h is_ascii items s s' \<longleftrightarrow>
     (\<exists>S. s' = start_sign_offchain_message_ui is_ascii (length items + (if is_ascii then 1 else 0)) (s\<lparr>G_summary := S\<rparr>)
       \<and> (items = [] \<longrightarrow> S = transaction_summary_reset) \<and> (items \<noteq> [] \<longrightarrow> shown S = items \<and> is_summary_item_used (primary S)))"

lemma offchain_reviewed:
  assumes "handle_sign_offchain_message derive sha s = Some (Asynchronous, s')"
  obtains h q i where "parse_offchain_message_header (cursor 0 (cmd_message (G_command s))) = Some (h, q)"
    "text_ok h (buffer q)" "signs_as derive (derivation_path (G_command s)) h i"
    "printable (buffer q) \<or> allow_blind_sign (N_settings s) = BlindSignEnabled"
    "review_opened h (printable (buffer q))
       (offchain_items (display_mode (N_settings s)) (message_hash (G_command (with_hash sha h q s))) h (printable (buffer q)) i)
       (with_hash sha h q s) s'"
    "cmd_instruction (G_command s) = InsSignOffchainMessage" "cmd_state (G_command s) = ApduStatePayloadComplete"
    "\<not> non_confirm (G_command s)" "length (cmd_message (G_command s)) \<le> MAX_OFFCHAIN_MESSAGE_LENGTH"
proof -
  have top: "cmd_instruction (G_command s) = InsSignOffchainMessage" "cmd_state (G_command s) = ApduStatePayloadComplete"
    "\<not> non_confirm (G_command s)" "length (cmd_message (G_command s)) \<le> MAX_OFFCHAIN_MESSAGE_LENGTH"
    using assms by (auto simp: handle_sign_offchain_message_def split: if_splits)
  obtain h q where hq: "parse_offchain_message_header (cursor 0 (cmd_message (G_command s))) = Some (h, q)"
    using assms by (auto simp: handle_sign_offchain_message_def split: if_splits option.splits)
  let ?s = "s\<lparr>message_text_start := offchain_message_header_length h\<rparr>"
  obtain i asc where chk: "check_offchain_message derive (G_command s) h q = Inr (i, asc)"
    using assms hq top by (auto simp: handle_sign_offchain_message_def Let_def split: if_splits sum.splits)
  note ok = checked_offchain(1) [OF hq chk]
  have blind: "asc \<or> allow_blind_sign (N_settings s) = BlindSignEnabled"
    using assms hq top chk by (auto simp: handle_sign_offchain_message_def Let_def split: if_splits)
  have "handle_sign_offchain_message derive sha s = do {
      (ret, s) \<leftarrow> setup_offchain_signing_ui h asc i (with_hash sha h q s);
      Some (case ret of Some reply \<Rightarrow> (Sw reply, s) | None \<Rightarrow> (Asynchronous, s)) }"
    using hq top chk blind ok by (auto simp: handle_sign_offchain_message_def with_hash_def Let_def)
  then have "review_opened h asc
       (offchain_items (display_mode (N_settings s)) (message_hash (G_command (with_hash sha h q s))) h asc i)
       (with_hash sha h q s) s'"
    using setup_review [of h asc i "with_hash sha h q s"] assms
    by (auto simp: review_opened_def with_hash_keeps)
  then show ?thesis using that [OF hq, of i] ok blind top by blast
qed

lemma offchain_accepted:
  "(\<exists>s'. handle_sign_offchain_message derive sha s = Some (Asynchronous, s')) \<longleftrightarrow> offchain_ok derive (N_settings s) (G_command s)"
proof
  assume "\<exists>s'. handle_sign_offchain_message derive sha s = Some (Asynchronous, s')"
  then obtain s' where "handle_sign_offchain_message derive sha s = Some (Asynchronous, s')" ..
  then show "offchain_ok derive (N_settings s) (G_command s)"
    by (rule offchain_reviewed) (auto simp: offchain_ok_def)
next
  assume ok: "offchain_ok derive (N_settings s) (G_command s)"
  then obtain h q i where hq: "parse_offchain_message_header (cursor 0 (cmd_message (G_command s))) = Some (h, q)"
    "text_ok h (buffer q)" "signs_as derive (derivation_path (G_command s)) h i"
    and blind: "printable (buffer q) \<or> allow_blind_sign (N_settings s) = BlindSignEnabled"
    by (auto simp: offchain_ok_def)
  obtain j where chk: "check_offchain_message derive (G_command s) h q = Inr (j, printable (buffer q))"
    using checked_offchain(2) [OF hq] by blast
  have "handle_sign_offchain_message derive sha s = do {
      (ret, s) \<leftarrow> setup_offchain_signing_ui h (printable (buffer q)) j (with_hash sha h q s);
      Some (case ret of Some reply \<Rightarrow> (Sw reply, s) | None \<Rightarrow> (Asynchronous, s)) }"
    using hq ok chk blind by (auto simp: offchain_ok_def handle_sign_offchain_message_def with_hash_def Let_def)
  then show "\<exists>s'. handle_sign_offchain_message derive sha s = Some (Asynchronous, s')"
    using setup_review [of h "printable (buffer q)" j "with_hash sha h q s"] by auto
qed

text \<open>C8: An off-chain message is put to the user exactly when the command is complete and asks for a confirmation, the
  message is not too long, its header parses and has version 0 or 1 and a format the device supports, the text is not empty and
  has the length of the header, the key of the device is one of the signers, and the text is printable ASCII or, when blind
  signing is enabled and the format allows it, UTF-8.\<close>

theorem offchain_accepted_iff:
  "(\<exists>s'. handle_sign_offchain_message derive sha s = Some (Asynchronous, s')) \<longleftrightarrow> offchain_ok derive (N_settings s) (G_command s)"
  by (rule offchain_accepted)

section \<open>What the user sees\<close>

lemma offchain_items_hash:
  "offchain_items (display_mode (N_settings s)) (message_hash (G_command (with_hash sha h q s))) h (printable (buffer q)) i
     = offchain_items (display_mode (N_settings s)) (sha (take (unat (oc_length h)) (buffer q))) h (printable (buffer q)) i"
  by (simp add: offchain_items_def with_hash_def Let_def)

lemma printable_c_str: "printable bs \<Longrightarrow> c_str (chars_of bs @ [NUL]) = chars_of bs"
proof -
  assume p: "printable bs"
  have "char_of (unat b) \<noteq> NUL" if "b \<in> set bs" for b
  proof -
    have "unat b \<noteq> 0" "unat b < 256" using p that unsigned_less [of b] by (auto simp: printable_def list_all_iff)
    then have "of_char (char_of (unat b)) \<noteq> (0 :: nat)" by simp
    moreover have "of_char NUL = (0 :: nat)" by (simp add: NUL_def)
    ultimately show ?thesis by metis
  qed
  then show ?thesis by (auto simp: c_str_def chars_of_def takeWhile_append)
qed

lemma zero_char: "char_of (0 :: nat) = NUL" by (simp add: NUL_def char_of_def)

text \<open>An index of a pair is one byte: no review of a message has more than 9 pairs.\<close>

lemma length_offchain_items: "length (offchain_items mode hash h is_ascii i) \<le> 7"
  using domain_item_used [of h] by (simp add: offchain_items_def)

lemma opened_review:
  assumes "review_opened h is_ascii items s s'"
  shows "G_command s' = G_command s \<and> message_text_start s' = message_text_start s \<and> N_settings s' = N_settings s
    \<and> G_review s' = \<lparr>G_operation_type = TYPE_MESSAGE, G_transaction_steps_number = length items + (if is_ascii then 1 else 0),
       G_is_ascii_message = is_ascii\<rparr>
    \<and> G_screen s' = (if is_ascii then Review ''Review message'' else BlindReview ''Review UTF-8 message'')
    \<and> (items \<noteq> [] \<longrightarrow> shown (G_summary s') = items \<and> is_summary_item_used (primary (G_summary s')))"
proof -
  obtain S where "s' = start_sign_offchain_message_ui is_ascii (length items + (if is_ascii then 1 else 0)) (s\<lparr>G_summary := S\<rparr>)"
    "items \<noteq> [] \<longrightarrow> shown S = items \<and> is_summary_item_used (primary S)"
    using assms by (auto simp: review_opened_def)
  then show ?thesis
    by (simp add: start_sign_offchain_message_ui_def init_review_content_def start_blind_signing_ui_def
      start_message_signing_review_def Let_def)
qed

lemma message_pair:
  assumes "review_opened h is_ascii items s s'" "length items < 255" "slots \<noteq> []" "is_ascii"
  shows "\<exists>r. get_review_pair s' (of_nat (length items)) (D, slots) = Some (Some r) \<and> pair_shown r = (''Message'', message_text s')"
  using assms(2-4) opened_review [OF assms(1)]
  by (simp add: get_review_pair_def pair_shown_def Let_def unat_of_nat c_str_def NUL_def)

text \<open>C16: When an off-chain message is put to the user, its review lists, in expert mode or for a text that is not ASCII, the
  items computed from the header and the hash of the text, each at its index; an ASCII text itself is the value of the last
  pair, whole, from the byte after the header to the last byte of the command; any other text is only signed blindly, with
  its hash listed.\<close>

theorem offchain_review_is_the_message:
  assumes "handle_sign_offchain_message derive sha s = Some (Asynchronous, s')"
  shows "\<exists>h q i. parse_offchain_message_header (cursor 0 (cmd_message (G_command s))) = Some (h, q)
    \<and> signs_as derive (derivation_path (G_command s)) h i
    \<and> buffer q = drop (offchain_message_header_length h) (cmd_message (G_command s))
    \<and> (let items = offchain_items (display_mode (N_settings s)) (sha (buffer q)) h (printable (buffer q)) i
        in (\<forall>k < length items. transaction_summary_find_item (G_summary s') k = Some (items ! k))
          \<and> (if printable (buffer q)
              then G_screen s' = Review ''Review message'' \<and> G_transaction_steps_number (G_review s') = length items + 1
                \<and> (\<forall>D slots. slots \<noteq> [] \<longrightarrow> (\<exists>r. get_review_pair s' (of_nat (length items)) (D, slots) = Some (Some r)
                      \<and> pair_shown r = (''Message'', chars_of (buffer q))))
              else G_screen s' = BlindReview ''Review UTF-8 message'' \<and> G_transaction_steps_number (G_review s') = length items
                \<and> \<lparr>item_title = ''Hash'', item_value = ItemHash (Ptr 0 (sha (buffer q)))\<rparr> \<in> set items))"
  using assms
proof (rule offchain_reviewed)
  fix h i and q :: Parser
  let ?items = "offchain_items (display_mode (N_settings s)) (sha (buffer q)) h (printable (buffer q)) i"
  assume hq: "parse_offchain_message_header (cursor 0 (cmd_message (G_command s))) = Some (h, q)"
    and ok: "text_ok h (buffer q)" and i: "signs_as derive (derivation_path (G_command s)) h i"
    and "review_opened h (printable (buffer q))
       (offchain_items (display_mode (N_settings s)) (message_hash (G_command (with_hash sha h q s))) h (printable (buffer q)) i)
       (with_hash sha h q s) s'"
  then have r: "review_opened h (printable (buffer q)) ?items (with_hash sha h q s) s'"
    by (simp add: offchain_items_hash text_ok_def)
  have b: "buffer q = drop (offchain_message_header_length h) (cmd_message (G_command s))"
    using offchain_header_wellformed [OF hq] by (simp add: advance_def)
  have t: "message_text s' = chars_of (buffer q)" if "printable (buffer q)"
    using printable_c_str [OF that] by (simp add: message_text_def opened_review [OF r] with_hash_keeps b chars_of_def zero_char)
  have f: "transaction_summary_find_item (G_summary s') k = Some (?items ! k)" if "k < length ?items" for k
    using that opened_review [OF r] find_item_shown [of "G_summary s'" k] by fastforce
  have l: "length ?items < 255"
    using length_offchain_items [of "display_mode (N_settings s)" "sha (buffer q)" h "printable (buffer q)" i] by linarith
  have m: "\<exists>p. get_review_pair s' (of_nat (length ?items)) (D, slots) = Some (Some p)
      \<and> pair_shown p = (''Message'', chars_of (buffer q))" if "printable (buffer q)" "slots \<noteq> []" for D slots
    using message_pair [OF r l that(2,1)] by (simp only: t [OF that(1)])
  have hash: "\<lparr>item_title = ''Hash'', item_value = ItemHash (Ptr 0 (sha (buffer q)))\<rparr> \<in> set ?items" if "\<not> printable (buffer q)"
    using that by (simp add: offchain_items_def)
  have "G_screen s' = (if printable (buffer q) then Review ''Review message'' else BlindReview ''Review UTF-8 message'')"
    "G_transaction_steps_number (G_review s') = length ?items + (if printable (buffer q) then 1 else 0)"
    using opened_review [OF r] by simp_all
  note rest = this
  show ?thesis
    unfolding Let_def
  proof (intro exI [of _ h] exI [of _ q] exI [of _ i] conjI hq i b allI impI)
    fix k assume "k < length ?items"
    then show "transaction_summary_find_item (G_summary s') k = Some (?items ! k)" by (rule f)
  next
    show "if printable (buffer q)
              then G_screen s' = Review ''Review message'' \<and> G_transaction_steps_number (G_review s') = length ?items + 1
                \<and> (\<forall>D slots. slots \<noteq> [] \<longrightarrow> (\<exists>r. get_review_pair s' (of_nat (length ?items)) (D, slots) = Some (Some r)
                      \<and> pair_shown r = (''Message'', chars_of (buffer q))))
              else G_screen s' = BlindReview ''Review UTF-8 message'' \<and> G_transaction_steps_number (G_review s') = length ?items
                \<and> \<lparr>item_title = ''Hash'', item_value = ItemHash (Ptr 0 (sha (buffer q)))\<rparr> \<in> set ?items"
    proof (cases "printable (buffer q)")
      case True
      then show ?thesis using rest m [OF True] by (simp only: if_True) blast
    next
      case False
      then show ?thesis using rest hash [OF False] by simp
    qed
  qed
qed

text \<open>The message \<open>Hi\<close>, signed by the device alone.\<close>

definition sample_hi :: "u8 list" where
  "sample_hi = offchain_message_signing_domain @ [1, 1] @ replicate 32 1 @ [2, 0, 72, 105]"

definition sample_hi_state :: review_state where
  "sample_hi_state = \<lparr>N_settings = \<lparr>allow_blind_sign = BlindSignDisabled, pubkey_display = PubkeyDisplayLong,
       display_mode = DisplayModeExpert\<rparr>,
     G_command = cleared_command\<lparr>cmd_state := ApduStatePayloadComplete, cmd_instruction := InsSignOffchainMessage,
       cmd_message := sample_hi\<rparr>,
     message_text_start = 0, G_summary = transaction_summary_reset,
     G_review = \<lparr>G_operation_type = TYPE_TRANSACTION, G_transaction_steps_number = 0, G_is_ascii_message = False\<rparr>,
     G_screen = Idle\<rparr>"

definition sample_point :: "u32 list \<Rightarrow> u8 list option" where
  "sample_point path = Some (4 # replicate 32 0 @ replicate 32 1)"

lemma sample_point_key: "get_public_key sample_point path = Some (replicate 32 1)"
  using get_public_key_bytes [of sample_point path 4 "replicate 32 0" "replicate 32 1"] by (simp add: sample_point_def)

lemma sample_hi_parses: "parse_offchain_message_header (cursor 0 sample_hi)
   = Some (\<lparr>oc_version = 1, application_domain = None, oc_format = 0, signers_length = 1,
       signers = Ptr 18 (replicate 32 1 @ [2, 0, 72, 105]), oc_length = 2\<rparr>, cursor 52 [72, 105])"
  by (simp add: sample_hi_def parse_offchain_message_header_def
      offchain_message_signing_domain_def OFFCHAIN_MESSAGE_SIGNING_DOMAIN_LENGTH_def
      check_buffer_length_def parse_u8_cases parse_pubkeys_with_len_def PUBKEY_SIZE_def Let_def
      signers_strictly_ascending_def header_pubkey_def parse_u16_def upt_conv_Cons)

lemma sample_hi_ok: "offchain_ok sample_point (N_settings sample_hi_state) (G_command sample_hi_state)"
  by (simp add: offchain_ok_def sample_hi_state_def sample_hi_parses text_ok_def printable_def signs_as_def sample_point_key
      header_pubkey_def PUBKEY_SIZE_def cleared_command_def)
    (simp add: sample_hi_def offchain_message_signing_domain_def MAX_OFFCHAIN_MESSAGE_LENGTH_def PACKET_DATA_SIZE_def)

theorem offchain_review_is_the_message_witness:
  "\<exists>s'. handle_sign_offchain_message sample_point (\<lambda>_. []) sample_hi_state = Some (Asynchronous, s')
    \<and> G_screen s' = Review ''Review message''
    \<and> (\<exists>r. get_review_pair s' 4 (\<lparr>title_buffer = [], text_buffer = []\<rparr>, replicate 4 ([], [])) = Some (Some r)
          \<and> pair_shown r = (''Message'', ''Hi''))"
proof -
  obtain s' where s': "handle_sign_offchain_message sample_point (\<lambda>_. []) sample_hi_state = Some (Asynchronous, s')"
    using sample_hi_ok unfolding offchain_accepted [symmetric, where sha = "\<lambda>_. []"] by blast
  have "cmd_message (G_command sample_hi_state) = sample_hi" "display_mode (N_settings sample_hi_state) = DisplayModeExpert"
    by (simp_all add: sample_hi_state_def)
  moreover have "printable [72, 105]" "chars_of [72, 105] = ''Hi''" by (simp_all add: printable_def chars_of_def char_of_def bit_simps)
  ultimately show ?thesis
    using offchain_review_is_the_message [OF s'] s' sample_hi_parses
    by (auto simp: offchain_items_def domain_item_def Let_def)
qed

end
