(* ===== verification/Sol_Menu.thy ===== *)
theory Sol_Menu
  imports Sol_Ui
begin

text \<open>The menu of the settings, \<open>src/ui/menu_nbgl.c\<close>, and the settings a new device starts with.\<close>

datatype settings_token = BLIND_SIGNING_TOKEN | PUBLIC_KEY_LENGTH_TOKEN | DISPLAY_MODE_TOKEN

text \<open>The states of the three switches, \<open>True\<close> for \<open>ON_STATE\<close>.\<close>

record switches =
  BLIND_SIGNING_IDX :: bool
  PUBLIC_KEY_LENGTH_IDX :: bool
  DISPLAY_MODE_IDX :: bool

text \<open>Each switch shows whether the setting has not its value of a new device.\<close>

definition ui_main_menu :: "AppSettings \<Rightarrow> switches" where
  "ui_main_menu N = \<lparr>BLIND_SIGNING_IDX = (allow_blind_sign N \<noteq> BlindSignDisabled),
     PUBLIC_KEY_LENGTH_IDX = (pubkey_display N \<noteq> PubkeyDisplayLong), DISPLAY_MODE_IDX = (display_mode N \<noteq> DisplayModeUser)\<rparr>"

text \<open>The opposite of the switch is written, as 0 or 1, to the setting and to the switch.\<close>

fun settings_controls_callback :: "settings_token \<Rightarrow> switches \<times> AppSettings \<Rightarrow> switches \<times> AppSettings" where
  "settings_controls_callback BLIND_SIGNING_TOKEN (sw, N) =
     (let new_setting = (\<not> BLIND_SIGNING_IDX sw)
      in (sw\<lparr>BLIND_SIGNING_IDX := new_setting\<rparr>,
          N\<lparr>allow_blind_sign := if new_setting then BlindSignEnabled else BlindSignDisabled\<rparr>))"
| "settings_controls_callback PUBLIC_KEY_LENGTH_TOKEN (sw, N) =
     (let new_setting = (\<not> PUBLIC_KEY_LENGTH_IDX sw)
      in (sw\<lparr>PUBLIC_KEY_LENGTH_IDX := new_setting\<rparr>,
          N\<lparr>pubkey_display := if new_setting then PubkeyDisplayShort else PubkeyDisplayLong\<rparr>))"
| "settings_controls_callback DISPLAY_MODE_TOKEN (sw, N) =
     (let new_setting = (\<not> DISPLAY_MODE_IDX sw)
      in (sw\<lparr>DISPLAY_MODE_IDX := new_setting\<rparr>,
          N\<lparr>display_mode := if new_setting then DisplayModeExpert else DisplayModeUser\<rparr>))"

text \<open>\<open>nv_app_state_init\<close> of \<open>src/main_application.c\<close>: the storage is written once.\<close>

definition nv_app_state_init :: "bool \<Rightarrow> AppSettings \<Rightarrow> AppSettings" where
  "nv_app_state_init storage_initialized N =
     (if \<not> storage_initialized
      then \<lparr>allow_blind_sign = BlindSignDisabled, pubkey_display = PubkeyDisplayLong, display_mode = DisplayModeUser\<rparr> else N)"

text \<open>The switches stay what the settings are, and a switch turned twice is as before.\<close>

lemma switches_match:
  assumes "settings_controls_callback t (ui_main_menu N, N) = (sw, N')"
  shows "sw = ui_main_menu N' \<and> settings_controls_callback t (sw, N') = (ui_main_menu N, N)"
proof (cases t)
  case BLIND_SIGNING_TOKEN
  then show ?thesis using assms by (cases "allow_blind_sign N") (auto simp: ui_main_menu_def)
next
  case PUBLIC_KEY_LENGTH_TOKEN
  then show ?thesis using assms by (cases "pubkey_display N") (auto simp: ui_main_menu_def)
next
  case DISPLAY_MODE_TOKEN
  then show ?thesis using assms by (cases "display_mode N") (auto simp: ui_main_menu_def)
qed

end
