(* ===== verification/Sol_Device.thy ===== *)
theory Sol_Device
  imports Sol_Provide Sol_Preview Sol_Offchain Sol_Menu Sol_Message
begin

text \<open>
  The device: \<open>src/handle_sign_message.c\<close>, \<open>src/handle_sign_message_preview.c\<close>, the dispatch of
  \<open>src/main_application.c\<close> and the answers of the user, over all the state of the application. First the code; then the
  device as a machine that takes commands and choices; then what can be said of every signature it gives.
\<close>

section \<open>State\<close>

record device = pubkey_state +
  G_display :: Display
  G_tokens :: token_env
  G_descriptors :: "saved_descriptors_t option"
  G_preview_state :: "preview_state_t option"
  G_challenge :: u32
  G_swap_validated :: swap_validated_t
  G_called_from_swap :: bool
  G_swap_response_ready :: bool

text \<open>What the device uses of the SDK. The two operations on keys are those of \<open>Sol_Keys\<close>.\<close>

record device_sdk =
  message_buffer_size :: nat
  derive_key :: "u32 list \<Rightarrow> u8 list option"
  sign_hash :: "u32 list \<Rightarrow> u8 list \<Rightarrow> u8 list option"
  cx_hash_sha256 :: "u8 list \<Rightarrow> u8 list"
  cx_sha512 :: "u8 list list \<Rightarrow> u8 list option"
  sdk_swap :: swap_sdk
  sdk_tlv :: tlv_sdk
  sdk_trusted_name :: trusted_name_sdk
  tlv_use_case_dynamic_descriptor :: "u8 list \<Rightarrow> tlv_dynamic_descriptor_out_t option"
  app_version :: "u8 list"

text \<open>What one step takes from its surroundings: a random number, whether allocations succeed, and the contents of a
  structure on the stack.\<close>

record surroundings =
  cx_rng_u32 :: u32
  allocates :: bool
  stack_TUID :: tlv_TUID_data_t

text \<open>How a step ends: with an answer, with an error of a swap or a signature given in a swap, after which the
  Exchange application goes on, or with the exit of the application.\<close>

datatype outcome = Reply answer | SwapError swap_error | SwapReply "u8 list" | AppExit

definition reset_trusted_info :: "token_env \<Rightarrow> token_env" where
  "reset_trusted_info env = env\<lparr>g_trusted_info := None\<rparr>"

definition reset_token_info :: "device \<Rightarrow> device" where
  "reset_token_info s = s\<lparr>G_tokens := reset_dynamic_token_info (reset_trusted_info (G_tokens s))\<rparr>"

section \<open>Signing in a swap\<close>

definition swap_finalize :: "device_sdk \<Rightarrow> device \<Rightarrow> outcome \<times> device" where
  "swap_finalize sdk s =
     (if G_swap_response_ready s then (AppExit, s)
      else let s = s\<lparr>G_swap_response_ready := True\<rparr>
      in case set_result_sign_message (sign_hash sdk) (G_command s) of
           None \<Rightarrow> (SwapError (SWAP_EC_ERROR_INTERNAL, SWAP_EC_APP_GENERIC), s)
         | Some signature \<Rightarrow> (SwapReply signature, s))"

section \<open>Signing a transaction\<close>

definition handle_sign_message_ui :: "device_sdk \<Rightarrow> device \<Rightarrow> (outcome \<times> device) option" where
  "handle_sign_message_ui sdk s =
     (case transaction_summary_finalize (G_summary s) of
        None \<Rightarrow> Some (Reply (Sw ApduReplySolanaSummaryFinalizeFailed), s)
      | Some kinds \<Rightarrow>
          if G_called_from_swap s then
            if is_preview_mode (G_command s)
            then Some (SwapError (SWAP_EC_ERROR_WRONG_METHOD, SWAP_EC_APP_PREVIEW_NOT_SUPPORTED), s)
            else do {
              r \<leftarrow> check_swap_validity (sdk_swap sdk) (G_swap_validated s) (G_tokens s) (G_summary s) kinds (G_display s);
              Some (case r of Inl e \<Rightarrow> (SwapError e, s) | Inr D \<Rightarrow> swap_finalize sdk (s\<lparr>G_display := D\<rparr>)) }
          else Some (Reply Asynchronous, start_sign_message_ui (length kinds) s))"

definition scan_header_for_signer :: "(u32 list \<Rightarrow> u8 list option) \<Rightarrow> u32 list \<Rightarrow> MessageHeader \<Rightarrow> nat option" where
  "scan_header_for_signer derive path header = do {
     signer_pubkey \<leftarrow> get_public_key derive path;
     get_pubkey_index signer_pubkey (pubkeys header) (unat (num_required_signatures (pubkeys_header header))) }"

text \<open>The summary of a transaction that is signed blindly. The write through a null item is \<open>None\<close>.\<close>

definition blind_summary :: "u8 list \<Rightarrow> PrintConfig \<Rightarrow> TransactionSummary \<Rightarrow> TransactionSummary option" where
  "blind_summary hash print_config S = do {
     let S = transaction_summary_set_blind_signing True S;
     S \<leftarrow> summary_item_set_string (transaction_summary_primary_item S) ''Unrecognized'' ''format'' S;
     S \<leftarrow> summary_item_set_hash (transaction_summary_general_item S) ''Message Hash'' (Ptr 0 hash) S;
     let fee_payer = header_pubkey (pubkeys (config_header print_config)) 0;
     if print_config_show_authority print_config fee_payer
     then map_option snd (transaction_summary_set_fee_payer_pubkey fee_payer S)
     else Some S }"

text \<open>The reset clears the summary and the buffers of the display, which only the check of a swap reads.\<close>

definition sign_message_checked :: "device_sdk \<Rightarrow> Parser \<Rightarrow> PrintConfig \<Rightarrow> device \<Rightarrow> (outcome \<times> device) option" where
  "sign_message_checked sdk parser print_config s =
     (let s = s\<lparr>G_summary := transaction_summary_reset, G_display := transaction_summary_reset_display\<rparr>
      in if instruction_descriptor_received (G_descriptors s) then
        let s' = s\<lparr>G_descriptors := reset_saved_descriptors (G_descriptors s)\<rparr>
        in if \<not> G_called_from_swap s then Some (Reply (Sw ApduReplySdkNotSupported), s')
        else if is_preview_mode (G_command s) then Some (Reply (Sw ApduReplySdkNotSupported), s')
        else do {
          r \<leftarrow> process_message_body_with_descriptor (sdk_swap sdk) (G_swap_validated s) (G_tokens s)
                 (get_public_key (derive_key sdk) (derivation_path (G_command s))) parser print_config (G_descriptors s);
          Some (case r of
             None \<Rightarrow> (SwapError (SWAP_EC_ERROR_GENERIC, SWAP_EC_APP_DESCRIPTOR_PROCESSING_FAILED), reset_token_info s')
           | Some _ \<Rightarrow> swap_finalize sdk (reset_token_info s')) }
      else do {
        (rc, S) \<leftarrow> process_message_body (\<lambda>s. base58_decode (sdk_swap sdk) s PUBKEY_SIZE) (G_tokens s) parser print_config (G_summary s);
        let s = s\<lparr>G_summary := S\<rparr>;
        if rc = 0 then handle_sign_message_ui sdk s
        else if G_called_from_swap s
        then Some (SwapError (SWAP_EC_ERROR_WRONG_METHOD, SWAP_EC_APP_BLIND_SIGNING_REFUSED), s)
        else if allow_blind_sign (N_settings s) \<noteq> BlindSignEnabled
        then Some (Reply (Sw ApduReplySdkNotSupported), start_blind_sign_error_ui s)
        else do {
          let hash = cx_hash_sha256 sdk (cmd_message (G_command s));
          S \<leftarrow> blind_summary hash print_config (G_summary s);
          handle_sign_message_ui sdk (s\<lparr>G_command := (G_command s)\<lparr>message_hash := hash\<rparr>, G_summary := S\<rparr>) } })"

definition print_config_of :: "device \<Rightarrow> MessageHeader \<Rightarrow> nat \<Rightarrow> PrintConfig" where
  "print_config_of s header signer_index =
     \<lparr>config_header = header, expert_mode = (display_mode (N_settings s) = DisplayModeExpert),
       force_full_print = G_called_from_swap s,
       user_input_is_ata_or_token_account = cmd_user_input_is_ata_or_token_account (G_command s),
       signer_pubkey = header_pubkey (pubkeys header) signer_index\<rparr>"

definition handle_sign_message_parse_message :: "device_sdk \<Rightarrow> device \<Rightarrow> (outcome \<times> device) option" where
  "handle_sign_message_parse_message sdk s =
     (if (cmd_instruction (G_command s) \<noteq> InsDeprecatedSignMessage \<and> cmd_instruction (G_command s) \<noteq> InsSignMessage
          \<and> cmd_instruction (G_command s) \<noteq> InsSignMessagePreview) \<or> cmd_state (G_command s) \<noteq> ApduStatePayloadComplete
      then Some (Reply (Sw ApduReplySdkInvalidParameter), s)
      else case parse_message_header (cursor 0 (cmd_message (G_command s))) of
        None \<Rightarrow> Some (Reply (Sw ApduReplySolanaInvalidMessage), s)
      | Some (header, parser) \<Rightarrow>
          (case scan_header_for_signer (derive_key sdk) (derivation_path (G_command s)) header of
             None \<Rightarrow> Some (Reply (Sw ApduReplySolanaInvalidMessageHeader), s)
           | Some signer_index \<Rightarrow>
               if non_confirm (G_command s) then Some (Reply (Sw ApduReplySdkNotSupported), s)
               else sign_message_checked sdk parser (print_config_of s header signer_index) s))"

section \<open>Delayed signing\<close>

definition handle_sign_message_delayed_internal :: "device_sdk \<Rightarrow> device \<Rightarrow> outcome \<times> device" where
  "handle_sign_message_delayed_internal sdk s =
     (if cmd_instruction (G_command s) \<noteq> InsSignMessageDelayed \<or> cmd_state (G_command s) \<noteq> ApduStatePayloadComplete
      then (Reply (Sw ApduReplySdkInvalidParameter), s)
      else case G_preview_state s of
        None \<Rightarrow> (Reply (Sw ApduReplySolanaDelayedPreviewNotFound), s)
      | Some P \<Rightarrow>
          if \<not> pv_initialized P then (Reply (Sw ApduReplySolanaDelayedPreviewNotFound), s)
          else if G_called_from_swap s then (Reply (Sw ApduReplySdkNotSupported), s)
          else let verification_result = verify_delayed_message_matches_preview (cx_sha512 sdk) (G_command s) P
          in if verification_result \<noteq> ApduReplySuccess then (Reply (Sw verification_result), ui_transaction_modal False s)
          else case set_result_sign_message (sign_hash sdk) (G_command s) of
            None \<Rightarrow> (Reply (Sw ApduReplySdkException), ui_transaction_modal False s)
          | Some signature \<Rightarrow> (Reply (Response signature), ui_transaction_modal True s))"

definition handle_sign_message_delayed :: "device_sdk \<Rightarrow> device \<Rightarrow> outcome \<times> device" where
  "handle_sign_message_delayed sdk s =
     (let (ret, s) = handle_sign_message_delayed_internal sdk s in (ret, s\<lparr>G_preview_state := clear_preview_state\<rparr>))"

section \<open>The other commands on the device\<close>

definition handle_provide_instruction_descriptor :: "device_sdk \<Rightarrow> bool \<Rightarrow> device \<Rightarrow> (outcome \<times> device) option" where
  "handle_provide_instruction_descriptor sdk mem s =
     (if \<not> G_called_from_swap s then Some (Reply (Sw ApduReplySolanaInvalidInstructionDescriptor), s)
      else do {
        r \<leftarrow> handle_provide_instruction_descriptor_internal (sdk_tlv sdk) (env_sdk (G_tokens s)) mem (G_swap_validated s)
               (cmd_message (G_command s)) (G_descriptors s);
        Some (case r of
           Inl e \<Rightarrow> (SwapError e, s)
         | Inr G \<Rightarrow> (Reply (Sw ApduReplySuccess), s\<lparr>G_descriptors := Some G\<rparr>)) })"

definition provide_trusted_info :: "device_sdk \<Rightarrow> surroundings \<Rightarrow> device \<Rightarrow> outcome \<times> device" where
  "provide_trusted_info sdk env s =
     (let (status, challenge, info) = handle_provide_trusted_info (sdk_trusted_name sdk) (base58_decode (sdk_swap sdk))
            (allocates env) (cx_rng_u32 env) (cmd_message (G_command s)) (G_challenge s) (g_trusted_info (G_tokens s))
      in (Reply (Sw status), s\<lparr>G_challenge := challenge, G_tokens := (G_tokens s)\<lparr>g_trusted_info := info\<rparr>\<rparr>))"

definition provide_dynamic_descriptor :: "device_sdk \<Rightarrow> surroundings \<Rightarrow> device \<Rightarrow> outcome \<times> device" where
  "provide_dynamic_descriptor sdk env s =
     (let (status, info) = handle_provide_dynamic_descriptor (tlv_use_case_dynamic_descriptor sdk) (sdk_tlv sdk)
            (base58_decode (sdk_swap sdk)) (allocates env) (stack_TUID env) (cmd_message (G_command s))
            (g_dynamic_token_info (G_tokens s))
      in (Reply (Sw status), s\<lparr>G_tokens := (G_tokens s)\<lparr>g_dynamic_token_info := info\<rparr>\<rparr>))"

text \<open>The settings as the bytes they are stored in.\<close>

definition settings_bytes :: "AppSettings \<Rightarrow> u8 list" where
  "settings_bytes N = [if allow_blind_sign N = BlindSignEnabled then 1 else 0,
     if pubkey_display N = PubkeyDisplayShort then 1 else 0]"

definition replying :: "(answer \<times> device) option \<Rightarrow> (outcome \<times> device) option" where
  "replying r = map_option (\<lambda>(a, s). (Reply a, s)) r"

definition dispatch_command :: "device_sdk \<Rightarrow> surroundings \<Rightarrow> device \<Rightarrow> (outcome \<times> device) option" where
  "dispatch_command sdk env s =
     (let ins = cmd_instruction (G_command s);
          s = (if ins \<noteq> InsSignMessageDelayed then s\<lparr>G_preview_state := clear_preview_state\<rparr> else s)
      in if ins = InsDeprecatedGetAppConfiguration \<or> ins = InsGetAppConfiguration
         then Some (Reply (Response (settings_bytes (N_settings s) @ app_version sdk)), s)
      else if ins = InsDeprecatedGetPubkey \<or> ins = InsGetPubkey then replying (handle_get_pubkey (derive_key sdk) s)
      else if ins = InsDeprecatedSignMessage \<or> ins = InsSignMessage then handle_sign_message_parse_message sdk s
      else if ins = InsSignMessagePreview then
        if G_called_from_swap s then Some (Reply (Sw ApduReplySdkNotSupported), s)
        else handle_sign_message_parse_message sdk (s\<lparr>G_command := (G_command s)\<lparr>is_preview_mode := True\<rparr>\<rparr>)
      else if ins = InsSignMessageDelayed then Some (handle_sign_message_delayed sdk s)
      else if ins = InsSignOffchainMessage
      then replying (handle_sign_offchain_message (derive_key sdk) (cx_hash_sha256 sdk) s)
      else if ins = InsTrustedInfoProvideInstructionDescriptor then handle_provide_instruction_descriptor sdk (allocates env) s
      else if ins = InsTrustedInfoGetChallenge then Some (Reply (Response (handle_get_challenge (G_challenge s))), s)
      else if ins = InsTrustedInfoProvideInfo then Some (provide_trusted_info sdk env s)
      else if ins = InsTrustedInfoProvideDynamicDescriptor then Some (provide_dynamic_descriptor sdk env s)
      else Some (Reply (Sw ApduReplyUnimplementedInstruction), s))"

text \<open>One turn of the loop of \<open>app_main\<close> with the bytes of a command.\<close>

definition handle_apdu :: "device_sdk \<Rightarrow> surroundings \<Rightarrow> u8 list \<Rightarrow> device \<Rightarrow> (outcome \<times> device) option" where
  "handle_apdu sdk env apdu s =
     (if apdu = [] then Some (Reply (Sw ApduReplyNoApduReceived), s)
      else let (r, cmd) = receive_apdu (message_buffer_size sdk) apdu (G_command s);
               s = s\<lparr>G_command := cmd\<rparr>
      in case r of
           Rejected reply \<Rightarrow> Some (Reply (Sw reply), s)
         | Continue \<Rightarrow> Some (Reply (Sw ApduReplySuccess), s)
         | Dispatch \<Rightarrow> dispatch_command sdk env s)"

section \<open>The answers of the user\<close>

definition review_choice :: "device_sdk \<Rightarrow> bool \<Rightarrow> bool \<Rightarrow> device \<Rightarrow> outcome \<times> device" where
  "review_choice sdk mem confirm s =
     (let s = reset_token_info s;
          rejected = s\<lparr>G_screen := Status (get_status_type (G_review s) False)\<rparr>
      in if confirm then
           if is_preview_mode (G_command s) then
             (case store_preview_fingerprint (cx_sha512 sdk) mem (G_command s) of
                Some P \<Rightarrow> (Reply (Sw ApduReplySuccess), s\<lparr>G_preview_state := Some P, G_screen := Spinner\<rparr>)
              | None \<Rightarrow> (Reply (Sw ApduReplySolanaInvalidMessage), rejected\<lparr>G_preview_state := None\<rparr>))
           else (case set_result_sign_message (sign_hash sdk) (G_command s) of
                None \<Rightarrow> (Reply (Sw ApduReplySdkException), rejected)
              | Some signature \<Rightarrow> (Reply (Response signature), s\<lparr>G_screen := Status (get_status_type (G_review s) True)\<rparr>))
         else (Reply (Sw ApduReplyUserRefusal), rejected))"

text \<open>The first button of the warning is the way back.\<close>

definition on_token_warning_choice :: "device_sdk \<Rightarrow> bool \<Rightarrow> bool \<Rightarrow> device \<Rightarrow> outcome \<times> device" where
  "on_token_warning_choice sdk mem cancel s =
     (if cancel then review_choice sdk mem False s else (Reply Asynchronous, start_message_signing_review s))"

fun user_choice :: "screen \<Rightarrow> device_sdk \<Rightarrow> bool \<Rightarrow> bool \<Rightarrow> device \<Rightarrow> (outcome \<times> device) option" where
  "user_choice (Review _) sdk mem confirm s = Some (review_choice sdk mem confirm s)"
| "user_choice (BlindReview _) sdk mem confirm s = Some (review_choice sdk mem confirm s)"
| "user_choice (TokenWarning _) sdk mem confirm s = Some (on_token_warning_choice sdk mem (\<not> confirm) s)"
| "user_choice (AddressReview _) sdk mem confirm s = Some (let (a, s) = pubkey_review_choice confirm s in (Reply a, s))"
| "user_choice _ sdk mem confirm s = None"

section \<open>The device as a machine\<close>

text \<open>The device starts by \<open>app_main\<close>, in a swap or from the dashboard.\<close>

definition app_main_start :: "u32 \<Rightarrow> bool \<Rightarrow> device \<Rightarrow> device" where
  "app_main_start rng storage_initialized s =
     (reset_getpubkey_globals s)\<lparr>G_command := cleared_command, G_preview_state := clear_preview_state,
       G_challenge := roll_challenge rng, N_settings := nv_app_state_init storage_initialized (N_settings s)\<rparr>"

text \<open>The device waits for a command, waits for the user, or has left the application.\<close>

datatype phase = Ready | Waiting | Left

fun phase_after :: "outcome \<Rightarrow> phase" where
  "phase_after (Reply Asynchronous) = Waiting"
| "phase_after (Reply _) = Ready"
| "phase_after _ = Left"

datatype event = Command surroundings "u8 list" | Choice bool bool | Toggle settings_token | Dismiss

text \<open>
  The host sends a command only after the answer to the last one: the transport of the SDK delivers none before. The
  user answers the screen of a review, turns a switch of the menu or dismisses a page without a choice.
\<close>

inductive step :: "device_sdk \<Rightarrow> phase \<times> device \<Rightarrow> event \<Rightarrow> outcome option \<Rightarrow> phase \<times> device \<Rightarrow> bool"
  for sdk :: device_sdk where
  command: "handle_apdu sdk env apdu s = Some (r, s') \<Longrightarrow>
    step sdk (Ready, s) (Command env apdu) (Some r) (phase_after r, s')"
| choice: "user_choice (G_screen s) sdk mem confirm s = Some (r, s') \<Longrightarrow>
    step sdk (Waiting, s) (Choice mem confirm) (Some r) (phase_after r, s')"
| toggle: "G_screen s = Idle \<Longrightarrow>
    step sdk (Ready, s) (Toggle t) None
      (Ready, s\<lparr>N_settings := snd (settings_controls_callback t (ui_main_menu (N_settings s), N_settings s))\<rparr>)"
| dismiss: "(\<exists>st. G_screen s = Status st) \<or> G_screen s = BlindSignError \<Longrightarrow>
    step sdk (Ready, s) Dismiss None (Ready, s\<lparr>G_screen := Idle\<rparr>)"

inductive_cases commandE: "step sdk (p, s) (Command env apdu) r c'"
inductive_cases choiceE: "step sdk (p, s) (Choice mem confirm) r c'"
inductive_cases replyE: "step sdk (p, s) e (Some r) c'"
inductive_simps step_left [simp]: "step sdk (Left, s) e r c'"
inductive_simps step_waiting: "step sdk (Waiting, s) e r c'"

text \<open>A run: the last step first, with the state it starts from.\<close>

type_synonym run = "(device \<times> event \<times> outcome option) list"

inductive reaches :: "device_sdk \<Rightarrow> device \<Rightarrow> run \<Rightarrow> phase \<times> device \<Rightarrow> bool"
  for sdk :: device_sdk and s0 :: device where
  start: "reaches sdk s0 [] (Ready, s0)"
| more: "reaches sdk s0 tr (p, s) \<Longrightarrow> step sdk (p, s) e r c' \<Longrightarrow> reaches sdk s0 ((s, e, r) # tr) c'"

text \<open>
  The interface between the steps and what is said of runs: a predicate of a run and of the state it ends in that every step keeps
  holds in every run from a state it holds in.
\<close>

locale run_invariant =
  fixes sdk :: device_sdk
    and inv :: "run \<Rightarrow> phase \<Rightarrow> device \<Rightarrow> bool"
  assumes kept: "inv tr p s \<Longrightarrow> step sdk (p, s) e r (p', s') \<Longrightarrow> inv ((s, e, r) # tr) p' s'"
begin

lemma in_every_run:
  assumes "reaches sdk s0 tr (p, s)" "inv [] Ready s0"
  shows "inv tr p s"
  using assms(1)
proof (induction tr "(p, s)" arbitrary: p s rule: reaches.induct)
  case start
  then show ?case by (rule assms(2))
next
  case (more tr p s e r p' s')
  then show ?case using kept by blast
qed

end

section \<open>What a review shows\<close>

text \<open>A transaction is reviewed when the summary is the one its own bytes give, item for item.\<close>

definition clear_review :: "device_sdk \<Rightarrow> device \<Rightarrow> bool" where
  "clear_review sdk s \<longleftrightarrow>
     (\<exists>h q i kinds. parse_message_header (cursor 0 (cmd_message (G_command s))) = Some (h, q)
       \<and> scan_header_for_signer (derive_key sdk) (derivation_path (G_command s)) h = Some i
       \<and> process_message_body (\<lambda>s. base58_decode (sdk_swap sdk) s PUBKEY_SIZE) (G_tokens s) q (print_config_of s h i)
            transaction_summary_reset = Some (0, G_summary s)
       \<and> transaction_summary_finalize (G_summary s) = Some kinds
       \<and> G_review s = \<lparr>G_operation_type = TYPE_TRANSACTION, G_transaction_steps_number = length kinds,
            G_is_ascii_message = False\<rparr>) \<and> \<not> G_called_from_swap s"

text \<open>It is signed blindly only when the user has allowed it, and its hash is listed.\<close>

definition blind_review :: "device_sdk \<Rightarrow> device \<Rightarrow> bool" where
  "blind_review sdk s \<longleftrightarrow>
     allow_blind_sign (N_settings s) = BlindSignEnabled \<and> is_blind_signing (G_summary s)
     \<and> \<lparr>item_title = ''Message Hash'', item_value = ItemHash (Ptr 0 (cx_hash_sha256 sdk (cmd_message (G_command s))))\<rparr>
          \<in> set (shown (G_summary s))
     \<and> G_operation_type (G_review s) = TYPE_TRANSACTION \<and> G_transaction_steps_number (G_review s) = length (shown (G_summary s))
     \<and> \<not> G_called_from_swap s"

text \<open>An off-chain message: the review is the one of \<open>Sol_Offchain\<close>.\<close>

definition message_review :: "device_sdk \<Rightarrow> device \<Rightarrow> bool" where
  "message_review sdk s \<longleftrightarrow> (\<exists>h q i u. parse_offchain_message_header (cursor 0 (cmd_message (G_command s))) = Some (h, q)
     \<and> text_ok h (buffer q) \<and> signs_as (derive_key sdk) (derivation_path (G_command s)) h i
     \<and> (printable (buffer q) \<or> allow_blind_sign (N_settings s) = BlindSignEnabled)
     \<and> review_opened h (printable (buffer q))
          (offchain_items (display_mode (N_settings s)) (cx_hash_sha256 sdk (buffer q)) h (printable (buffer q)) i) u s)"

definition address_review :: "device_sdk \<Rightarrow> device \<Rightarrow> bool" where
  "address_review sdk s \<longleftrightarrow> get_public_key (derive_key sdk) (derivation_path (G_command s)) = Some (G_publicKey s)
     \<and> G_screen s = AddressReview (c_str (G_publicKeyStr s))"

text \<open>The device waits only with the review of its own command on the screen, or the warning before it.\<close>

definition reviewed :: "device_sdk \<Rightarrow> device \<Rightarrow> bool" where
  "reviewed sdk s \<longleftrightarrow> ((\<exists>title. G_screen s = Review title) \<and> (clear_review sdk s \<or> message_review sdk s))
     \<or> ((\<exists>title. G_screen s = BlindReview title)
         \<and> (blind_review sdk s \<or> clear_review sdk s \<or> message_review sdk s))"

definition waiting_ok :: "device_sdk \<Rightarrow> device \<Rightarrow> bool" where
  "waiting_ok sdk s \<longleftrightarrow> reviewed sdk s \<or> (\<exists>title. G_screen s = TokenWarning title) \<and> clear_review sdk s \<or> address_review sdk s"

section \<open>Opening a review\<close>

lemma start_review_shape:
  "G_command (start_sign_message_ui n s) = G_command s \<and> G_summary (start_sign_message_ui n s) = G_summary s
   \<and> N_settings (start_sign_message_ui n s) = N_settings s
   \<and> G_review (start_sign_message_ui n s) = \<lparr>G_operation_type = TYPE_TRANSACTION, G_transaction_steps_number = n,
        G_is_ascii_message = False\<rparr>
   \<and> review_state.more (start_sign_message_ui n s) = review_state.more s
   \<and> (if is_blind_signing (G_summary s) then \<exists>t. G_screen (start_sign_message_ui n s) = BlindReview t
       else (\<exists>t. G_screen (start_sign_message_ui n s) = Review t) \<or> (\<exists>t. G_screen (start_sign_message_ui n s) = TokenWarning t))"
  by (simp add: start_sign_message_ui_def init_review_content_def start_blind_signing_ui_def start_message_signing_review_def
      transaction_summary_get_token_warnings_def Let_def)

text \<open>The fields of the device behind those of a review.\<close>

lemma same_more:
  assumes "review_state.more s' = review_state.more (s :: device)"
  shows "G_tokens s' = G_tokens s \<and> G_preview_state s' = G_preview_state s \<and> G_called_from_swap s' = G_called_from_swap s
    \<and> G_descriptors s' = G_descriptors s \<and> G_challenge s' = G_challenge s \<and> G_swap_validated s' = G_swap_validated s
    \<and> G_swap_response_ready s' = G_swap_response_ready s \<and> G_publicKey s' = G_publicKey s"
  using assms by (cases s; cases s') simp

lemma swap_finalize_not_reply [simp]: "swap_finalize sdk s \<noteq> (Reply a, s')"
  by (simp add: swap_finalize_def Let_def split: option.split)

lemma sign_message_ui_asynchronous:
  assumes "handle_sign_message_ui sdk s = Some (Reply Asynchronous, s')"
  obtains kinds where "transaction_summary_finalize (G_summary s) = Some kinds" "\<not> G_called_from_swap s"
    "s' = start_sign_message_ui (length kinds) s"
  using assms
  by (auto simp: handle_sign_message_ui_def bind_eq_Some_conv split: option.splits if_splits sum.splits)
    (metis sum.exhaust surj_pair)

lemma first_unused_general_index:
  "first_unused k items = Some slot \<Longrightarrow> \<exists>i. slot = General (k + i) \<and> i < length items"
proof (induction items arbitrary: k)
  case (Cons x items)
  then show ?case
    by (auto split: if_splits) (metis Suc_less_eq add_Suc_shift)
qed simp

lemma blind_summary_shape:
  assumes "blind_summary hash cfg S = Some S'"
  shows "is_blind_signing S' \<and> is_summary_item_used (primary S')
    \<and> \<lparr>item_title = ''Message Hash'', item_value = ItemHash (Ptr 0 hash)\<rparr> \<in> set (shown S')"
proof -
  let ?it = "\<lparr>item_title = ''Message Hash'', item_value = ItemHash (Ptr 0 hash)\<rparr>"
  obtain T U where T: "summary_item_set_string (transaction_summary_primary_item (transaction_summary_set_blind_signing True S))
      ''Unrecognized'' ''format'' (transaction_summary_set_blind_signing True S) = Some T"
    and U: "summary_item_set_hash (transaction_summary_general_item T) ''Message Hash'' (Ptr 0 hash) T = Some U"
    and S': "S' = U \<or> (\<exists>key rc. transaction_summary_set_fee_payer_pubkey key U = Some (rc, S'))"
    using assms by (auto simp: blind_summary_def bind_eq_Some_conv Let_def split: if_splits)
  have "is_blind_signing T" "is_summary_item_used (primary T)"
    using T by (auto simp: summary_item_set_defs transaction_summary_primary_item_def summary_item_as_unused_def
        transaction_summary_set_blind_signing_def split: if_splits)
  moreover obtain k where "transaction_summary_general_item T = Some (General k)" "k < length (general T)"
      "U = T\<lparr>general := (general T)[k := ?it]\<rparr>"
    using U first_unused_general_index [of 0 "general T"]
    by (cases "transaction_summary_general_item T") (auto simp: summary_item_set_defs transaction_summary_general_item_def)
  moreover have "S' = U \<or> (\<exists>x. S' = U\<lparr>fee_payer := x\<rparr>)"
    using S' by (auto simp: transaction_summary_set_fee_payer_pubkey_def summary_item_set_defs transaction_summary_fee_payer_item_def
        summary_item_as_unused_def bind_eq_Some_conv Let_def split: if_splits)
  ultimately show ?thesis
    by (auto simp: shown_def intro: set_update_memI)
qed

text \<open>What happens to a transaction that has passed the checks of its header.\<close>

lemma sign_checked_asynchronous:
  assumes "sign_message_checked sdk q cfg s = Some (Reply Asynchronous, s')"
  obtains S kinds where "\<not> G_called_from_swap s" "transaction_summary_finalize S = Some kinds"
    "process_message_body (\<lambda>s. base58_decode (sdk_swap sdk) s PUBKEY_SIZE) (G_tokens s) q cfg transaction_summary_reset = Some (0, S)"
    "s' = start_sign_message_ui (length kinds) (s\<lparr>G_display := transaction_summary_reset_display, G_summary := S\<rparr>)"
  | S T kinds rc hash where "\<not> G_called_from_swap s" "transaction_summary_finalize T = Some kinds"
    "process_message_body (\<lambda>s. base58_decode (sdk_swap sdk) s PUBKEY_SIZE) (G_tokens s) q cfg transaction_summary_reset = Some (rc, S)"
    "rc \<noteq> 0" "allow_blind_sign (N_settings s) = BlindSignEnabled" "hash = cx_hash_sha256 sdk (cmd_message (G_command s))"
    "blind_summary hash cfg S = Some T"
    "s' = start_sign_message_ui (length kinds) (s\<lparr>G_display := transaction_summary_reset_display, G_command := (G_command s)\<lparr>message_hash := hash\<rparr>, G_summary := T\<rparr>)"
proof -
  let ?hash = "cx_hash_sha256 sdk (cmd_message (G_command s))"
  have no: "\<not> instruction_descriptor_received (G_descriptors s)"
    using assms
    by (auto simp: sign_message_checked_def Let_def bind_eq_Some_conv split: if_splits option.splits)
  then obtain rc S where body: "process_message_body (\<lambda>s. base58_decode (sdk_swap sdk) s PUBKEY_SIZE) (G_tokens s) q cfg
      transaction_summary_reset = Some (rc, S)"
    using assms by (auto simp: sign_message_checked_def Let_def bind_eq_Some_conv)
  show ?thesis
  proof (cases "rc = 0")
    case True
    then have "handle_sign_message_ui sdk (s\<lparr>G_display := transaction_summary_reset_display, G_summary := S\<rparr>) = Some (Reply Asynchronous, s')"
      using assms no body by (simp add: sign_message_checked_def Let_def)
    then show ?thesis by (rule sign_message_ui_asynchronous) (use that(1) body True in simp)
  next
    case False
    then obtain T where T: "allow_blind_sign (N_settings s) = BlindSignEnabled" "blind_summary ?hash cfg S = Some T"
      "handle_sign_message_ui sdk (s\<lparr>G_display := transaction_summary_reset_display, G_command := (G_command s)\<lparr>message_hash := ?hash\<rparr>, G_summary := T\<rparr>) = Some (Reply Asynchronous, s')"
      using assms no body by (auto simp: sign_message_checked_def Let_def bind_eq_Some_conv split: if_splits)
    show ?thesis
      by (rule sign_message_ui_asynchronous [OF T(3)]) (use that(2) body False T(1,2) in simp)
  qed
qed

lemma reviews_kept:
  assumes "G_command s' = G_command s" "N_settings s' = N_settings s" "G_called_from_swap s' = G_called_from_swap s"
  shows "print_config_of s' h i = print_config_of s h i"
  using assms by (simp add: print_config_of_def)

lemma parse_message_asynchronous:
  assumes "handle_sign_message_parse_message sdk s = Some (Reply Asynchronous, s')"
  shows "waiting_ok sdk s' \<and> G_preview_state s' = G_preview_state s"
proof -
  obtain h q i where hq: "parse_message_header (cursor 0 (cmd_message (G_command s))) = Some (h, q)"
    and i: "scan_header_for_signer (derive_key sdk) (derivation_path (G_command s)) h = Some i"
    and run: "sign_message_checked sdk q (print_config_of s h i) s = Some (Reply Asynchronous, s')"
    using assms by (auto simp: handle_sign_message_parse_message_def split: if_splits option.splits)
  from run show ?thesis
  proof (cases rule: sign_checked_asynchronous)
    case (1 S kinds)
    let ?t = "s\<lparr>G_display := transaction_summary_reset_display, G_summary := S\<rparr>"
    note shape = start_review_shape [of "length kinds" ?t, folded 1(4)]
    note rest = same_more [of s' ?t]
    have "print_config_of s' h i = print_config_of s h i" using shape rest by (intro reviews_kept) simp_all
    then have "clear_review sdk s'"
      unfolding clear_review_def using hq i 1(1-3) shape rest by (intro conjI exI [of _ h] exI [of _ q] exI [of _ i] exI [of _ kinds]) simp_all
    then show ?thesis using shape rest by (auto simp: waiting_ok_def reviewed_def split: if_splits)
  next
    case (2 S T kinds rc hash)
    let ?t = "s\<lparr>G_display := transaction_summary_reset_display, G_command := (G_command s)\<lparr>message_hash := hash\<rparr>, G_summary := T\<rparr>"
    note shape = start_review_shape [of "length kinds" ?t, folded 2(8)]
    note rest = same_more [of s' ?t]
    have "length kinds = length (shown T)" using 2(2) by (auto simp: finalize_shown split: if_splits)
    then have "blind_review sdk s'"
      using blind_summary_shape [OF 2(7)] 2(1,5,6) shape rest by (simp add: blind_review_def)
    then show ?thesis using shape rest blind_summary_shape [OF 2(7)] by (auto simp: waiting_ok_def reviewed_def)
  qed
qed

lemma offchain_more:
  assumes "handle_sign_offchain_message derive sha s = Some (a, s')"
  shows "review_state.more s' = review_state.more s"
  using assms
  by (auto simp: handle_sign_offchain_message_def setup_offchain_signing_ui_def start_sign_offchain_message_ui_def
      init_review_content_def start_blind_signing_ui_def start_message_signing_review_def start_blind_sign_error_ui_def
      Let_def bind_eq_Some_conv split: if_splits option.splits sum.splits)

lemma offchain_asynchronous:
  assumes "handle_sign_offchain_message (derive_key sdk) (cx_hash_sha256 sdk) s = Some (Asynchronous, s')"
  shows "waiting_ok sdk s'"
  using assms
proof (rule offchain_reviewed)
  fix h i and q :: Parser
  let ?u = "with_hash (cx_hash_sha256 sdk) h q s"
  assume hq: "parse_offchain_message_header (cursor 0 (cmd_message (G_command s))) = Some (h, q)"
    and ok: "text_ok h (buffer q)" and i: "signs_as (derive_key sdk) (derivation_path (G_command s)) h i"
    and blind: "printable (buffer q) \<or> allow_blind_sign (N_settings s) = BlindSignEnabled"
    and "review_opened h (printable (buffer q))
       (offchain_items (display_mode (N_settings s)) (message_hash (G_command ?u)) h (printable (buffer q)) i) ?u s'"
  then have r: "review_opened h (printable (buffer q))
       (offchain_items (display_mode (N_settings s)) (cx_hash_sha256 sdk (buffer q)) h (printable (buffer q)) i) ?u s'"
    by (simp add: offchain_items_hash text_ok_def)
  have "message_review sdk s'"
    unfolding message_review_def
    by (rule exI [of _ h], rule exI [of _ q], rule exI [of _ i], rule exI [of _ ?u])
      (use hq ok i blind r opened_review [OF r] in \<open>simp add: with_hash_keeps\<close>)
  then show ?thesis using opened_review [OF r] by (auto simp: waiting_ok_def reviewed_def)
qed

section \<open>What a command leaves alone\<close>

definition core :: "apdu_command_t \<Rightarrow> ApduState \<times> u8 \<times> u32 list \<times> u8 list" where
  "core cmd = (cmd_state cmd, cmd_instruction cmd, derivation_path cmd, cmd_message cmd)"

definition frame :: "device \<Rightarrow> device \<Rightarrow> bool" where
  "frame s s' \<longleftrightarrow> core (G_command s') = core (G_command s) \<and> G_preview_state s' = G_preview_state s
     \<and> G_called_from_swap s' = G_called_from_swap s \<and> G_swap_validated s' = G_swap_validated s"

lemma frame_refl [simp]: "frame s s" by (simp add: frame_def)

lemma frame_trans: "frame s t \<Longrightarrow> frame t u \<Longrightarrow> frame s u" by (simp add: frame_def)

lemma frame_more: "review_state.more s' = review_state.more s \<Longrightarrow> core (G_command s') = core (G_command s) \<Longrightarrow> frame s s'"
  using same_more [of s' s] by (simp add: frame_def)

lemma frame_updates [simp]:
  "frame s (t\<lparr>G_summary := S\<rparr>) \<longleftrightarrow> frame s t" "frame s (t\<lparr>G_screen := x\<rparr>) \<longleftrightarrow> frame s t"
  "frame s (t\<lparr>G_review := R\<rparr>) \<longleftrightarrow> frame s t"
  "frame s (t\<lparr>G_display := D\<rparr>) \<longleftrightarrow> frame s t" "frame s (t\<lparr>G_tokens := T\<rparr>) \<longleftrightarrow> frame s t"
  "frame s (t\<lparr>G_descriptors := G\<rparr>) \<longleftrightarrow> frame s t" "frame s (t\<lparr>G_challenge := c\<rparr>) \<longleftrightarrow> frame s t"
  "frame s (t\<lparr>G_swap_response_ready := b\<rparr>) \<longleftrightarrow> frame s t" "frame s (t\<lparr>G_publicKey := k\<rparr>) \<longleftrightarrow> frame s t"
  "frame s (t\<lparr>G_publicKeyStr := str\<rparr>) \<longleftrightarrow> frame s t" "frame s (t\<lparr>message_text_start := n\<rparr>) \<longleftrightarrow> frame s t"
  "frame s (t\<lparr>G_command := (G_command t)\<lparr>message_hash := h\<rparr>\<rparr>) \<longleftrightarrow> frame s t"
  "frame s (t\<lparr>G_display := D, G_command := (G_command t)\<lparr>message_hash := h\<rparr>\<rparr>) \<longleftrightarrow> frame s t"
  by (simp_all add: frame_def core_def)

lemma frame_reset_token_info [simp]: "frame s (reset_token_info t) \<longleftrightarrow> frame s t"
  by (simp add: reset_token_info_def)

lemma frame_start_review [simp]: "frame s (start_sign_message_ui n t) \<longleftrightarrow> frame s t"
  using start_review_shape [of n t] same_more [of "start_sign_message_ui n t" t] by (auto simp: frame_def)

lemma frame_swap_finalize: "swap_finalize sdk t = (r, s') \<Longrightarrow> frame s t \<Longrightarrow> frame s s'"
  by (auto simp: swap_finalize_def Let_def split: if_splits option.splits)

lemma sign_message_ui_cases:
  assumes "handle_sign_message_ui sdk s = Some (r, s')"
  obtains (answered) a where "r = Reply (Sw a)" "s' = s"
  | (review) kinds where "transaction_summary_finalize (G_summary s) = Some kinds" "\<not> G_called_from_swap s"
      "r = Reply Asynchronous" "s' = start_sign_message_ui (length kinds) s"
  | (refused) e where "r = SwapError e" "s' = s"
  | (valid) kinds D where "transaction_summary_finalize (G_summary s) = Some kinds" "G_called_from_swap s"
      "check_swap_validity (sdk_swap sdk) (G_swap_validated s) (G_tokens s) (G_summary s) kinds (G_display s) = Some (Inr D)"
      "swap_finalize sdk (s\<lparr>G_display := D\<rparr>) = (r, s')"
proof (cases "transaction_summary_finalize (G_summary s)")
  case None
  then show ?thesis using assms answered by (auto simp: handle_sign_message_ui_def)
next
  case (Some kinds)
  let ?check = "check_swap_validity (sdk_swap sdk) (G_swap_validated s) (G_tokens s) (G_summary s) kinds (G_display s)"
  show ?thesis
  proof (cases "G_called_from_swap s \<and> \<not> is_preview_mode (G_command s)")
    case False
    then show ?thesis
      using assms Some review [of kinds] refused by (auto simp: handle_sign_message_ui_def split: if_splits)
  next
    case True
    then have run: "?check \<bind> (\<lambda>x. Some (case x of Inl e \<Rightarrow> (SwapError e, s)
        | Inr D \<Rightarrow> swap_finalize sdk (s\<lparr>G_display := D\<rparr>))) = Some (r, s')"
      using assms Some by (simp add: handle_sign_message_ui_def)
    then obtain x where "?check = Some x" by (cases ?check) simp_all
    then show ?thesis using run True Some refused valid [of kinds] by (cases x) auto
  qed
qed

lemma frame_sign_message_ui: "handle_sign_message_ui sdk t = Some (r, s') \<Longrightarrow> frame s t \<Longrightarrow> frame s s'"
  by (erule sign_message_ui_cases) (auto dest: frame_swap_finalize)

lemma frame_sign_checked: "sign_message_checked sdk q cfg s = Some (r, s') \<Longrightarrow> frame s s'"
  by (auto simp: sign_message_checked_def start_blind_sign_error_ui_def bind_eq_Some_conv Let_def split: if_splits option.splits
      dest!: frame_swap_finalize frame_sign_message_ui)

lemma frame_preview_flag [simp]:
  "frame s (t\<lparr>G_command := (G_command t)\<lparr>is_preview_mode := b\<rparr>\<rparr>) \<longleftrightarrow> frame s t"
  "frame (t\<lparr>G_command := (G_command t)\<lparr>is_preview_mode := b\<rparr>\<rparr>) s \<longleftrightarrow> frame t s"
  by (simp_all add: frame_def core_def)

lemma frame_parse_message: "handle_sign_message_parse_message sdk s = Some (r, s') \<Longrightarrow> frame s s'"
  by (auto simp: handle_sign_message_parse_message_def split: if_splits option.splits dest: frame_sign_checked)

lemma frame_parse_preview:
  "handle_sign_message_parse_message sdk (s\<lparr>G_preview_state := P, G_command := (G_command s)\<lparr>is_preview_mode := b\<rparr>\<rparr>) = Some (r, s')
     \<Longrightarrow> frame (s\<lparr>G_preview_state := P\<rparr>) s'"
  using frame_parse_message by (fastforce simp: frame_def core_def)

lemma frame_get_pubkey: "handle_get_pubkey derive s = Some (a, s') \<Longrightarrow> frame s s'"
  by (auto simp: handle_get_pubkey_def ui_get_public_key_def bind_eq_Some_conv Let_def split: if_splits option.splits)

lemma frame_offchain: "handle_sign_offchain_message derive sha s = Some (a, s') \<Longrightarrow> frame s s'"
  by (rule frame_more [OF offchain_more], assumption)
    (auto simp: handle_sign_offchain_message_def setup_offchain_signing_ui_def start_sign_offchain_message_ui_def core_def
      init_review_content_def start_blind_signing_ui_def start_message_signing_review_def start_blind_sign_error_ui_def
      Let_def bind_eq_Some_conv split: if_splits option.splits sum.splits)

lemma frame_delayed:
  "handle_sign_message_delayed_internal sdk s = (r, s') \<Longrightarrow> frame s s'"
  by (auto simp: handle_sign_message_delayed_internal_def ui_transaction_modal_def Let_def split: if_splits option.splits)

lemma frame_instruction_descriptor: "handle_provide_instruction_descriptor sdk mem s = Some (r, s') \<Longrightarrow> frame s s'"
  by (auto simp: handle_provide_instruction_descriptor_def bind_eq_Some_conv split: if_splits)
    (auto split: sum.splits)

lemma frame_provide:
  "provide_trusted_info sdk env s = (r, s') \<Longrightarrow> frame s s'"
  "provide_dynamic_descriptor sdk env s = (r, s') \<Longrightarrow> frame s s'"
  by (auto simp: provide_trusted_info_def provide_dynamic_descriptor_def Let_def split: prod.splits)

text \<open>After a dispatched command no fingerprint is left, whatever the command was.\<close>

lemma frame_dispatch:
  assumes "dispatch_command sdk env s = Some (r, s')"
  shows "frame (s\<lparr>G_preview_state := None\<rparr>) s'"
proof (cases "cmd_instruction (G_command s) = InsSignMessageDelayed")
  case True
  then obtain s1 where "handle_sign_message_delayed_internal sdk s = (r, s1)" "s' = s1\<lparr>G_preview_state := None\<rparr>"
    using assms
    by (auto simp: dispatch_command_def handle_sign_message_delayed_def clear_preview_state_def ins_codes Let_def split: prod.splits)
  then show ?thesis using frame_delayed by (auto simp: frame_def)
next
  case False
  then show ?thesis
    using assms
    by (auto simp: dispatch_command_def clear_preview_state_def replying_def Let_def split: if_splits
        dest: frame_parse_message frame_parse_preview frame_get_pubkey frame_offchain frame_instruction_descriptor frame_provide)
qed

section \<open>What a command answers\<close>

text \<open>What the device tells without a signature: its configuration, the challenge and public keys.\<close>

definition public_answer :: "device_sdk \<Rightarrow> device \<Rightarrow> u8 list \<Rightarrow> bool" where
  "public_answer sdk s bs \<longleftrightarrow> bs = settings_bytes (N_settings s) @ app_version sdk \<or> bs = handle_get_challenge (G_challenge s)
     \<or> get_public_key (derive_key sdk) (derivation_path (G_command s)) = Some bs"

definition signature_of :: "device_sdk \<Rightarrow> apdu_command_t \<Rightarrow> u8 list \<Rightarrow> bool" where
  "signature_of sdk cmd bs \<longleftrightarrow> sign_hash sdk (derivation_path cmd) (cmd_message cmd) = Some bs"

lemma set_result_signature: "set_result_sign_message (sign_hash sdk) cmd = Some bs \<longleftrightarrow> signature_of sdk cmd bs"
  by (simp add: set_result_sign_message_def signature_of_def)

lemma signature_of_core: "core c = core c' \<Longrightarrow> signature_of sdk c bs = signature_of sdk c' bs"
  by (simp add: core_def signature_of_def)

text \<open>What a swap requires of the message before it is signed.\<close>

definition swap_accepts :: "device_sdk \<Rightarrow> device \<Rightarrow> Parser \<Rightarrow> PrintConfig \<Rightarrow> bool" where
  "swap_accepts sdk s q cfg \<longleftrightarrow>
     (if instruction_descriptor_received (G_descriptors s)
      then \<exists>G. process_message_body_with_descriptor (sdk_swap sdk) (G_swap_validated s) (G_tokens s)
             (get_public_key (derive_key sdk) (derivation_path (G_command s))) q cfg (G_descriptors s) = Some (Some G)
      else \<exists>S kinds D. process_message_body (\<lambda>s. base58_decode (sdk_swap sdk) s PUBKEY_SIZE) (G_tokens s) q
             cfg transaction_summary_reset = Some (0, S)
           \<and> transaction_summary_finalize S = Some kinds
           \<and> check_swap_validity (sdk_swap sdk) (G_swap_validated s) (G_tokens s) S kinds
                 transaction_summary_reset_display = Some (Inr D))"

definition swap_valid :: "device_sdk \<Rightarrow> device \<Rightarrow> bool" where
  "swap_valid sdk s \<longleftrightarrow> G_called_from_swap s
     \<and> (\<exists>h q i. parse_message_header (cursor 0 (cmd_message (G_command s))) = Some (h, q)
       \<and> scan_header_for_signer (derive_key sdk) (derivation_path (G_command s)) h = Some i
       \<and> swap_accepts sdk s q (print_config_of s h i))"

lemma swap_finalize_reply:
  assumes "swap_finalize sdk s = (SwapReply bs, s')"
  shows "signature_of sdk (G_command s) bs \<and> G_command s' = G_command s \<and> \<not> G_swap_response_ready s \<and> G_swap_response_ready s'"
  using assms by (auto simp: swap_finalize_def set_result_signature Let_def split: if_splits option.splits)

lemma sign_checked_swap:
  assumes "sign_message_checked sdk q cfg s = Some (SwapReply bs, s')"
  shows "signature_of sdk (G_command s) bs \<and> G_command s' = G_command s \<and> G_called_from_swap s
    \<and> swap_accepts sdk s q cfg"
proof (cases "instruction_descriptor_received (G_descriptors s)")
  case True
  then show ?thesis
    using assms
    by (auto simp: sign_message_checked_def swap_accepts_def bind_eq_Some_conv reset_token_info_def Let_def
        split: if_splits option.splits dest: swap_finalize_reply)
next
  case False
  then obtain rc S where body: "process_message_body (\<lambda>s. base58_decode (sdk_swap sdk) s PUBKEY_SIZE) (G_tokens s) q cfg
      transaction_summary_reset = Some (rc, S)"
    using assms by (auto simp: sign_message_checked_def Let_def bind_eq_Some_conv)
  have "rc = 0"
  proof (rule ccontr)
    assume rc: "rc \<noteq> 0"
    then show False
      using assms False body
      by (auto simp: sign_message_checked_def Let_def bind_eq_Some_conv split: if_splits elim!: sign_message_ui_cases)
  qed
  then have "handle_sign_message_ui sdk (s\<lparr>G_display := transaction_summary_reset_display, G_summary := S\<rparr>)
      = Some (SwapReply bs, s')"
    using assms False body by (simp add: sign_message_checked_def Let_def)
  then show ?thesis
    by (rule sign_message_ui_cases) (use False body \<open>rc = 0\<close> in \<open>auto simp: swap_accepts_def dest!: swap_finalize_reply\<close>)
qed

lemma parse_message_swap:
  assumes "handle_sign_message_parse_message sdk s = Some (SwapReply bs, s')"
  shows "signature_of sdk (G_command s) bs \<and> G_command s' = G_command s \<and> swap_valid sdk s"
proof -
  obtain h q i where "parse_message_header (cursor 0 (cmd_message (G_command s))) = Some (h, q)"
    "scan_header_for_signer (derive_key sdk) (derivation_path (G_command s)) h = Some i"
    and run: "sign_message_checked sdk q (print_config_of s h i) s = Some (SwapReply bs, s')"
    using assms by (auto simp: handle_sign_message_parse_message_def split: if_splits option.splits)
  then show ?thesis using sign_checked_swap [OF run] unfolding swap_valid_def by blast
qed

text \<open>The sign command never answers with bytes of its own: only the user or a swap lets a signature out.\<close>

lemma sign_checked_no_response: "sign_message_checked sdk q cfg s \<noteq> Some (Reply (Response bs), s')"
proof
  assume "sign_message_checked sdk q cfg s = Some (Reply (Response bs), s')"
  then show False
    by (auto simp: sign_message_checked_def Let_def bind_eq_Some_conv split: if_splits option.splits elim!: sign_message_ui_cases)
qed

lemma parse_message_no_response: "handle_sign_message_parse_message sdk s \<noteq> Some (Reply (Response bs), s')"
  using sign_checked_no_response
  by (auto simp: handle_sign_message_parse_message_def split: if_splits option.splits)

lemma offchain_no_response: "handle_sign_offchain_message derive sha s \<noteq> Some (Response bs, s')"
  by (auto simp: handle_sign_offchain_message_def Let_def bind_eq_Some_conv split: if_splits option.splits sum.splits)

lemma descriptor_no_response: "handle_provide_instruction_descriptor sdk mem s \<noteq> Some (Reply (Response bs), s')"
  by (auto simp: handle_provide_instruction_descriptor_def bind_eq_Some_conv split: if_splits) (auto split: sum.splits)

lemma get_pubkey_asynchronous:
  assumes "handle_get_pubkey (derive_key sdk) s = Some (Asynchronous, s')"
  shows "address_review sdk s'"
  using assms
  by (auto simp: handle_get_pubkey_def ui_get_public_key_def address_review_def bind_eq_Some_conv Let_def split: if_splits option.splits)

lemma get_pubkey_response:
  assumes "handle_get_pubkey (derive_key sdk) s = Some (Response bs, s')"
  shows "get_public_key (derive_key sdk) (derivation_path (G_command s)) = Some bs"
  using assms by (auto simp: handle_get_pubkey_def bind_eq_Some_conv Let_def split: if_splits option.splits)

lemma delayed_replies:
  assumes "handle_sign_message_delayed_internal sdk s = (r, s')"
  shows "r \<noteq> Reply Asynchronous \<and> (\<forall>bs. r \<noteq> SwapReply bs)
    \<and> (\<forall>bs. r = Reply (Response bs) \<longrightarrow> signature_of sdk (G_command s) bs \<and> \<not> G_called_from_swap s
         \<and> (\<exists>P. G_preview_state s = Some P \<and> verify_delayed_message_matches_preview (cx_sha512 sdk) (G_command s) P = ApduReplySuccess))"
  using assms
  by (auto simp: handle_sign_message_delayed_internal_def set_result_signature Let_def split: if_splits option.splits)

lemma dispatch_delayed:
  assumes "dispatch_command sdk env s = Some (r, s')" "cmd_instruction (G_command s) = InsSignMessageDelayed"
  obtains s1 where "handle_sign_message_delayed_internal sdk s = (r, s1)" "s' = s1\<lparr>G_preview_state := None\<rparr>"
  using assms
  by (auto simp: dispatch_command_def handle_sign_message_delayed_def clear_preview_state_def ins_codes Let_def split: prod.splits)

lemma provides_answer:
  "provide_trusted_info sdk env s = (r, s') \<Longrightarrow> \<exists>a. r = Reply (Sw a)"
  "provide_dynamic_descriptor sdk env s = (r, s') \<Longrightarrow> \<exists>a. r = Reply (Sw a)"
  by (auto simp: provide_trusted_info_def provide_dynamic_descriptor_def split: prod.splits)

text \<open>The commands by what they may answer; \<open>u\<close> is the state without a fingerprint.\<close>

lemma dispatch_cases:
  assumes "dispatch_command sdk env s = Some (r, s')" "cmd_instruction (G_command s) \<noteq> InsSignMessageDelayed"
    and u: "u = s\<lparr>G_preview_state := None\<rparr>"
  obtains (answered) a where "r = Reply (Sw a)"
      "s' = u \<or> provide_trusted_info sdk env u = (r, s') \<or> provide_dynamic_descriptor sdk env u = (r, s')"
  | (public) bs where "r = Reply (Response bs)" "public_answer sdk s bs" "s' = u"
  | (pubkey) a where "handle_get_pubkey (derive_key sdk) u = Some (a, s')" "r = Reply a"
  | (sign) "handle_sign_message_parse_message sdk u = Some (r, s')"
  | (preview) "handle_sign_message_parse_message sdk (u\<lparr>G_command := (G_command u)\<lparr>is_preview_mode := True\<rparr>\<rparr>) = Some (r, s')"
  | (offchain) a where "handle_sign_offchain_message (derive_key sdk) (cx_hash_sha256 sdk) u = Some (a, s')" "r = Reply a"
  | (descriptor) "handle_provide_instruction_descriptor sdk (allocates env) u = Some (r, s')"
proof -
  let ?ins = "cmd_instruction (G_command s)"
  note run = assms(1) [unfolded dispatch_command_def Let_def]
  have s: "(if ?ins \<noteq> InsSignMessageDelayed then s\<lparr>G_preview_state := clear_preview_state\<rparr> else s) = u"
    using assms(2) u by (simp add: clear_preview_state_def)
  note run = run [unfolded s]
  have k: "N_settings u = N_settings s" "G_challenge u = G_challenge s" by (simp_all add: u)
  have r: "replying x = Some (r, s') \<Longrightarrow> \<exists>a. x = Some (a, s') \<and> r = Reply a" for x by (auto simp: replying_def)
  have pub: "r = Reply (Response (settings_bytes (N_settings s) @ app_version sdk))
      \<or> r = Reply (Response (handle_get_challenge (G_challenge s))) \<Longrightarrow> s' = u \<Longrightarrow> thesis"
    using public by (auto simp: public_answer_def)
  have prov: "x = (r, s') \<Longrightarrow> x = provide_trusted_info sdk env u \<or> x = provide_dynamic_descriptor sdk env u \<Longrightarrow> thesis" for x
    using answered provides_answer by metis
  show ?thesis
    using run assms(2) pub prov answered pubkey sign preview offchain descriptor r
    by (simp split: if_split_asm add: k) (metis prod.collapse)+
qed


lemma dispatch_waits:
  assumes "dispatch_command sdk env s = Some (Reply Asynchronous, s')"
  shows "waiting_ok sdk s'"
proof (cases "cmd_instruction (G_command s) = InsSignMessageDelayed")
  case True
  then show ?thesis using dispatch_delayed [OF assms] delayed_replies by metis
next
  case False
  from assms False refl show ?thesis
  proof (cases rule: dispatch_cases)
    case (pubkey a)
    then show ?thesis using get_pubkey_asynchronous by (auto simp: waiting_ok_def)
  next
    case (offchain a)
    then show ?thesis using offchain_asynchronous by auto
  next
    case descriptor
    then show ?thesis
      by (auto simp: handle_provide_instruction_descriptor_def bind_eq_Some_conv split: if_splits) (auto split: sum.splits)
  qed (auto dest: parse_message_asynchronous)
qed

lemma dispatch_response:
  assumes "dispatch_command sdk env s = Some (Reply (Response bs), s')"
  shows "public_answer sdk s bs \<or> cmd_instruction (G_command s) = InsSignMessageDelayed \<and> signature_of sdk (G_command s) bs
    \<and> (\<exists>P. G_preview_state s = Some P \<and> verify_delayed_message_matches_preview (cx_sha512 sdk) (G_command s) P = ApduReplySuccess)"
proof (cases "cmd_instruction (G_command s) = InsSignMessageDelayed")
  case True
  then show ?thesis using dispatch_delayed [OF assms] delayed_replies by metis
next
  case False
  from assms False refl show ?thesis
  proof (cases rule: dispatch_cases)
    case (pubkey a)
    then have "handle_get_pubkey (derive_key sdk) (s\<lparr>G_preview_state := None\<rparr>) = Some (Response bs, s')" by simp
    from get_pubkey_response [OF this] show ?thesis by (simp add: public_answer_def)
  qed (auto simp: parse_message_no_response offchain_no_response descriptor_no_response)
qed

lemma dispatch_swap:
  assumes "dispatch_command sdk env s = Some (SwapReply bs, s')"
  shows "signature_of sdk (G_command s') bs \<and> swap_valid sdk (s\<lparr>G_command := G_command s'\<rparr>)"
proof (cases "cmd_instruction (G_command s) = InsSignMessageDelayed")
  case True
  then show ?thesis using dispatch_delayed [OF assms] delayed_replies by metis
next
  case False
  have v: "swap_valid sdk (s\<lparr>G_preview_state := P, G_command := c\<rparr>) = swap_valid sdk (s\<lparr>G_command := c\<rparr>)" for P c
    by (simp add: swap_valid_def swap_accepts_def print_config_of_def)
  from assms False refl show ?thesis
  proof (cases rule: dispatch_cases)
    case sign
    from parse_message_swap [OF this] v [where P = None and c = "G_command s"] show ?thesis by simp
  next
    case preview
    from parse_message_swap [OF this] v [where P = None and c = "(G_command s)\<lparr>is_preview_mode := True\<rparr>"] show ?thesis by simp
  next
    case descriptor
    then show ?thesis
      by (auto simp: handle_provide_instruction_descriptor_def bind_eq_Some_conv split: if_splits) (auto split: sum.splits)
  qed auto
qed

section \<open>Runs\<close>

lemma step_command_cases:
  assumes "handle_apdu sdk env apdu s = Some (r, s')"
  obtains (chunk) a cmd where "r = Reply (Sw a)" "s' = s\<lparr>G_command := cmd\<rparr>"
  | (dispatch) cmd where "apdu \<noteq> []" "receive_apdu (message_buffer_size sdk) apdu (G_command s) = (Dispatch, cmd)"
      "dispatch_command sdk env (s\<lparr>G_command := cmd\<rparr>) = Some (r, s')"
proof (cases "apdu = []")
  case True
  then show ?thesis using assms chunk [of ApduReplyNoApduReceived "G_command s"] by (auto simp: handle_apdu_def)
next
  case False
  obtain k cmd where k: "receive_apdu (message_buffer_size sdk) apdu (G_command s) = (k, cmd)" by fastforce
  then show ?thesis
    using assms False chunk [of _ cmd] dispatch [of cmd] by (cases k) (auto simp: handle_apdu_def)
qed

lemma step_cases:
  assumes "step sdk (p, s) e r (p', s')"
  obtains (command) env apdu a where "p = Ready" "e = Command env apdu" "r = Some a" "p' = phase_after a"
      "handle_apdu sdk env apdu s = Some (a, s')"
  | (choice) mem confirm a where "p = Waiting" "e = Choice mem confirm" "r = Some a" "p' = phase_after a"
      "user_choice (G_screen s) sdk mem confirm s = Some (a, s')"
  | (toggle) t where "p = Ready" "e = Toggle t" "r = None" "p' = Ready" "G_screen s = Idle"
      "s' = s\<lparr>N_settings := snd (settings_controls_callback t (ui_main_menu (N_settings s), N_settings s))\<rparr>"
  | (dismiss) "p = Ready" "e = Dismiss" "r = None" "p' = Ready" "s' = s\<lparr>G_screen := Idle\<rparr>"
  using assms by (cases rule: step.cases) blast+

definition fingerprint_ok :: "device_sdk \<Rightarrow> run \<Rightarrow> device \<Rightarrow> bool" where
  "fingerprint_ok sdk tr s \<longleftrightarrow> (\<forall>P. G_preview_state s = Some P \<longrightarrow>
     (\<exists>a mem. (a, Choice mem True, Some (Reply (Sw ApduReplySuccess))) \<in> set tr \<and> reviewed sdk a
        \<and> is_preview_mode (G_command a) \<and> store_preview_fingerprint (cx_sha512 sdk) mem (G_command a) = Some P))"

lemma fingerprint_kept: "fingerprint_ok sdk tr s \<Longrightarrow> G_preview_state s' = G_preview_state s \<or> G_preview_state s' = None
    \<Longrightarrow> fingerprint_ok sdk (x # tr) s'"
  by (auto simp: fingerprint_ok_def) blast+

lemma command_preview:
  assumes "handle_apdu sdk env apdu s = Some (r, s')"
  shows "G_preview_state s' = G_preview_state s \<or> G_preview_state s' = None"
  using assms
proof (cases rule: step_command_cases)
  case (dispatch cmd)
  then show ?thesis using frame_dispatch by (fastforce simp: frame_def)
qed simp

lemma waiting_review: "waiting_ok sdk s \<Longrightarrow> G_screen s = Review t \<or> G_screen s = BlindReview t \<Longrightarrow> reviewed sdk s"
  by (auto simp: waiting_ok_def address_review_def)

lemma review_choice_preview:
  assumes "review_choice sdk mem confirm s = (r, s')"
  shows "G_preview_state s' = G_preview_state s \<or> G_preview_state s' = None
    \<or> (confirm \<and> r = Reply (Sw ApduReplySuccess) \<and> is_preview_mode (G_command s)
        \<and> store_preview_fingerprint (cx_sha512 sdk) mem (G_command s) = G_preview_state s')"
  using assms
  by (auto simp: review_choice_def reset_token_info_def Let_def split: if_splits option.splits)

lemma review_choice_phase: "review_choice sdk mem confirm s = (r, s') \<Longrightarrow> phase_after r = Ready"
  by (auto simp: review_choice_def Let_def split: if_splits option.splits)

lemma warning_continues:
  assumes "G_screen s = TokenWarning t" "clear_review sdk s"
  shows "reviewed sdk (start_message_signing_review s)"
  using assms
  by (auto simp: reviewed_def clear_review_def start_message_signing_review_def print_config_of_def)

lemma choice_ok:
  assumes "user_choice (G_screen s) sdk mem confirm s = Some (r, s')" "waiting_ok sdk s" "fingerprint_ok sdk tr s"
  shows "(phase_after r = Waiting \<longrightarrow> waiting_ok sdk s') \<and> fingerprint_ok sdk ((s, Choice mem confirm, Some r) # tr) s'"
proof -
  have rev: "?thesis" if "review_choice sdk mem c s = (r, s')" "c \<longrightarrow> confirm \<and> reviewed sdk s" for c
  proof -
    have "fingerprint_ok sdk ((s, Choice mem confirm, Some r) # tr) s'"
    proof (cases "G_preview_state s' = G_preview_state s \<or> G_preview_state s' = None")
      case True
      then show ?thesis by (rule fingerprint_kept [OF assms(3)])
    next
      case False
      then show ?thesis using review_choice_preview [OF that(1)] that(2) unfolding fingerprint_ok_def
        by (intro allI impI exI [of _ s] exI [of _ mem]) auto
    qed
    then show ?thesis using review_choice_phase [OF that(1)] by simp
  qed
  show ?thesis
  proof (cases "G_screen s")
    case (Review t)
    then show ?thesis using rev [of confirm] assms(1) waiting_review [OF assms(2)] by simp
  next
    case (BlindReview t)
    then show ?thesis using rev [of confirm] assms(1) waiting_review [OF assms(2)] by simp
  next
    case (TokenWarning t)
    show ?thesis
    proof (cases confirm)
      case True
      then have n: "r = Reply Asynchronous" "s' = start_message_signing_review s"
        using assms(1) TokenWarning by (auto simp: on_token_warning_choice_def)
      have "clear_review sdk s" using assms(2) TokenWarning by (auto simp: waiting_ok_def reviewed_def address_review_def)
      then have "waiting_ok sdk s'" using warning_continues [OF TokenWarning] n by (simp add: waiting_ok_def)
      moreover have "G_preview_state s' = G_preview_state s" by (simp add: n start_message_signing_review_def)
      ultimately show ?thesis using fingerprint_kept [OF assms(3), of s'] by simp
    next
      case False
      then show ?thesis using rev [of False] assms(1) TokenWarning by (simp add: on_token_warning_choice_def)
    qed
  next
    case (AddressReview t)
    then have n: "phase_after r = Ready" "G_preview_state s' = G_preview_state s"
      using assms(1) by (auto simp: pubkey_review_choice_def Let_def split: if_splits)
    then show ?thesis using fingerprint_kept [OF assms(3)] by simp
  qed (use assms(1) in simp_all)
qed

text \<open>The invariant of every run.\<close>

interpretation reviews: run_invariant sdk "\<lambda>tr p s. (p = Waiting \<longrightarrow> waiting_ok sdk s) \<and> fingerprint_ok sdk tr s" for sdk
proof (unfold_locales, goal_cases)
  case (1 tr p s e r p' s')
  from 1(2) show ?case
  proof (cases rule: step_cases)
    case (command env apdu a)
    have "waiting_ok sdk s'" if "phase_after a = Waiting"
    proof -
      have a: "a = Reply Asynchronous" using that by (cases a rule: phase_after.cases) auto
      from command(5) show ?thesis
        by (cases rule: step_command_cases) (use a dispatch_waits in auto)
    qed
    then show ?thesis using command command_preview [OF command(5)] fingerprint_kept 1(1) by auto
  next
    case (choice mem confirm a)
    then show ?thesis using choice_ok [OF choice(5)] 1(1) by auto
  next
    case (toggle t)
    then show ?thesis using fingerprint_kept [of sdk tr s s'] 1(1) by auto
  next
    case dismiss
    then show ?thesis using fingerprint_kept [of sdk tr s s'] 1(1) by auto
  qed
qed

lemma run_ok:
  assumes "reaches sdk s0 tr (p, s)" "G_preview_state s0 = None"
  shows "(p = Waiting \<longrightarrow> waiting_ok sdk s) \<and> fingerprint_ok sdk tr s"
  using assms(1) by (rule reviews.in_every_run) (simp add: fingerprint_ok_def assms(2))

section \<open>Every signature has the consent of the user\<close>

text \<open>The user has just confirmed the review of the message that is signed.\<close>

definition confirmed :: "device_sdk \<Rightarrow> device \<Rightarrow> event \<Rightarrow> device \<Rightarrow> bool" where
  "confirmed sdk s e s' \<longleftrightarrow> (\<exists>mem. e = Choice mem True) \<and> reviewed sdk s \<and> G_command s' = G_command s
     \<and> \<not> is_preview_mode (G_command s)"

text \<open>The message is signed after a preview: earlier in the run the user has confirmed the review of a command whose
  fingerprint the delayed one has.\<close>

definition previewed :: "device_sdk \<Rightarrow> run \<Rightarrow> device \<Rightarrow> bool" where
  "previewed sdk tr s' \<longleftrightarrow> cmd_instruction (G_command s') = InsSignMessageDelayed
     \<and> (\<exists>a mem P. (a, Choice mem True, Some (Reply (Sw ApduReplySuccess))) \<in> set tr \<and> reviewed sdk a
          \<and> is_preview_mode (G_command a) \<and> store_preview_fingerprint (cx_sha512 sdk) mem (G_command a) = Some P
          \<and> verify_delayed_message_matches_preview (cx_sha512 sdk) (G_command s') P = ApduReplySuccess)"

lemma verify_core: "core c = core c' \<Longrightarrow> verify_delayed_message_matches_preview sha c P = verify_delayed_message_matches_preview sha c' P"
  by (simp add: core_def verify_delayed_message_matches_preview_def)

lemma public_answer_core:
  "core (G_command s') = core c \<Longrightarrow> public_answer sdk (s\<lparr>G_command := c\<rparr>) bs = public_answer sdk (s\<lparr>G_command := G_command s'\<rparr>) bs"
  by (simp add: public_answer_def core_def)

lemma command_consent:
  assumes "handle_apdu sdk env apdu s = Some (r, s')" "r = Reply (Response bs) \<or> r = SwapReply bs" "fingerprint_ok sdk tr s"
  shows "public_answer sdk (s\<lparr>G_command := G_command s'\<rparr>) bs
    \<or> signature_of sdk (G_command s') bs
       \<and> (previewed sdk tr s' \<or> r = SwapReply bs \<and> swap_valid sdk (s\<lparr>G_command := G_command s'\<rparr>))"
  using assms(1)
proof (cases rule: step_command_cases)
  case (dispatch cmd)
  have core: "core (G_command s') = core cmd" using frame_dispatch [OF dispatch(3)] by (simp add: frame_def)
  show ?thesis
  proof (cases "r = SwapReply bs")
    case True
    then show ?thesis using dispatch_swap dispatch(3) by fastforce
  next
    case False
    then have "dispatch_command sdk env (s\<lparr>G_command := cmd\<rparr>) = Some (Reply (Response bs), s')" using assms(2) dispatch(3) by simp
    from dispatch_response [OF this] show ?thesis
    proof
      assume "public_answer sdk (s\<lparr>G_command := cmd\<rparr>) bs"
      then show ?thesis using public_answer_core [OF core] by simp
    next
      assume d: "cmd_instruction (G_command (s\<lparr>G_command := cmd\<rparr>)) = InsSignMessageDelayed
        \<and> signature_of sdk (G_command (s\<lparr>G_command := cmd\<rparr>)) bs \<and> (\<exists>P. G_preview_state (s\<lparr>G_command := cmd\<rparr>) = Some P
          \<and> verify_delayed_message_matches_preview (cx_sha512 sdk) (G_command (s\<lparr>G_command := cmd\<rparr>)) P = ApduReplySuccess)"
      then have "cmd_instruction (G_command s') = InsSignMessageDelayed" "signature_of sdk (G_command s') bs"
        using core signature_of_core [OF core] by (simp_all add: core_def)
      moreover obtain P where "G_preview_state s = Some P"
          "verify_delayed_message_matches_preview (cx_sha512 sdk) (G_command s') P = ApduReplySuccess"
        using d verify_core [OF core] by auto
      ultimately show ?thesis using assms(3) unfolding previewed_def fingerprint_ok_def by blast
    qed
  qed
qed (use assms(2) in auto)

lemma choice_consent:
  assumes "user_choice (G_screen s) sdk mem confirm s = Some (r, s')" "r = Reply (Response bs) \<or> r = SwapReply bs" "waiting_ok sdk s"
  shows "public_answer sdk (s\<lparr>G_command := G_command s'\<rparr>) bs
    \<or> signature_of sdk (G_command s') bs \<and> confirmed sdk s (Choice mem confirm) s'"
proof -
  have rev: "?thesis" if "review_choice sdk mem c s = (r, s')" "c \<longrightarrow> confirm \<and> reviewed sdk s" for c
    using that assms(2)
    by (auto simp: review_choice_def reset_token_info_def confirmed_def set_result_signature Let_def split: if_splits option.splits)
  show ?thesis
  proof (cases "G_screen s")
    case (Review t)
    then show ?thesis using rev [of confirm] assms(1) waiting_review [OF assms(3)] by simp
  next
    case (BlindReview t)
    then show ?thesis using rev [of confirm] assms(1) waiting_review [OF assms(3)] by simp
  next
    case (TokenWarning t)
    then show ?thesis using rev [of False] assms(1,2) by (auto simp: on_token_warning_choice_def split: if_splits)
  next
    case (AddressReview t)
    then have a: "get_public_key (derive_key sdk) (derivation_path (G_command s)) = Some (G_publicKey s)"
      using assms(3) by (auto simp: waiting_ok_def reviewed_def address_review_def)
    have "bs = G_publicKey s" "G_command s' = G_command s"
      using AddressReview assms(1,2) length_get_public_key [OF a]
      by (auto simp: pubkey_review_choice_def set_result_get_pubkey_def PUBKEY_LENGTH_def split: if_splits)
    then show ?thesis using a by (simp add: public_answer_def)
  qed (use assms(1) in simp_all)
qed

lemma start_no_fingerprint: "G_preview_state (app_main_start rng b s) = None"
  by (simp add: app_main_start_def clear_preview_state_def)

lemma consent:
  assumes "reaches sdk (app_main_start rng b u) tr (p, s)" "step sdk (p, s) e (Some r) (p', s')"
    and "r = Reply (Response bs) \<or> r = SwapReply bs"
  shows "public_answer sdk (s\<lparr>G_command := G_command s'\<rparr>) bs
    \<or> signature_of sdk (G_command s') bs
       \<and> (confirmed sdk s e s' \<or> previewed sdk tr s' \<or> r = SwapReply bs \<and> swap_valid sdk (s\<lparr>G_command := G_command s'\<rparr>))"
proof -
  note inv = run_ok [OF assms(1) start_no_fingerprint]
  from assms(2) show ?thesis
  proof (cases rule: step_cases)
    case (command env apdu a)
    then show ?thesis using command_consent [of sdk env apdu s r s' bs tr] assms(3) inv by auto
  next
    case (choice mem confirm a)
    then show ?thesis using choice_consent [of s sdk mem confirm r s' bs] assms(3) inv by auto
  qed auto
qed

text \<open>C1: Whatever the host sends and the user chooses, from the start of the application on, the bytes a step answers are
  the configuration, the challenge or a public key, or they are a signature of the message of the command, and then the
  user has just confirmed the review made from that very message, or has confirmed the review of the same message before,
  as a preview, or the message was found valid for the swap the user confirmed in the Exchange application.\<close>

theorem every_signature_has_consent:
  assumes "reaches sdk (app_main_start rng b u) tr (p, s)" "step sdk (p, s) e (Some r) (p', s')"
    and "r = Reply (Response bs) \<or> r = SwapReply bs"
  shows "public_answer sdk (s\<lparr>G_command := G_command s'\<rparr>) bs
    \<or> signature_of sdk (G_command s') bs
       \<and> (confirmed sdk s e s' \<or> previewed sdk tr s' \<or> r = SwapReply bs \<and> swap_valid sdk (s\<lparr>G_command := G_command s'\<rparr>))"
  using assms by (rule consent)

section \<open>The user is always answered\<close>

text \<open>Confirming a review signs its message, refusing it never does.\<close>

lemma review_choice_signs:
  assumes "\<not> is_preview_mode (G_command s)" "signature_of sdk (G_command s) bs"
  shows "\<exists>s'. review_choice sdk mem True s = (Reply (Response bs), s')"
  using assms set_result_signature [of sdk "G_command s" bs]
  by (simp add: review_choice_def reset_token_info_def Let_def)

lemma review_choice_refuses: "\<exists>s'. review_choice sdk mem False s = (Reply (Sw ApduReplyUserRefusal), s')"
  by (simp add: review_choice_def Let_def)

lemma reviewed_screen: "reviewed sdk s \<Longrightarrow> (\<exists>t. G_screen s = Review t) \<or> (\<exists>t. G_screen s = BlindReview t)"
  by (auto simp: reviewed_def)

lemma reviewed_choice:
  assumes "reviewed sdk s" "review_choice sdk mem confirm s = (r, s')"
  shows "step sdk (Waiting, s) (Choice mem confirm) (Some r) (Ready, s')"
  using step.choice [of s sdk mem confirm r s'] assms(2) reviewed_screen [OF assms(1)] review_choice_phase [OF assms(2)] by auto

text \<open>The two ways to the signature of a command that waits.\<close>

definition confirms :: "device_sdk \<Rightarrow> device \<Rightarrow> u8 list \<Rightarrow> bool" where
  "confirms sdk s bs \<longleftrightarrow> (\<forall>mem. (\<exists>s'. step sdk (Waiting, s) (Choice mem True) (Some (Reply (Response bs))) (Ready, s'))
     \<or> (\<exists>u s'. step sdk (Waiting, s) (Choice mem True) (Some (Reply Asynchronous)) (Waiting, u)
          \<and> step sdk (Waiting, u) (Choice mem True) (Some (Reply (Response bs))) (Ready, s')))"

definition refuses :: "device_sdk \<Rightarrow> device \<Rightarrow> bool" where
  "refuses sdk s \<longleftrightarrow> (\<forall>mem. \<exists>s'. step sdk (Waiting, s) (Choice mem False) (Some (Reply (Sw ApduReplyUserRefusal))) (Ready, s'))"

lemma waiting_refuses:
  assumes "waiting_ok sdk s"
  shows "refuses sdk s"
  unfolding refuses_def
proof
  fix mem
  consider "reviewed sdk s" | t where "G_screen s = TokenWarning t" | t where "G_screen s = AddressReview t"
    using assms by (auto simp: waiting_ok_def address_review_def)
  then show "\<exists>s'. step sdk (Waiting, s) (Choice mem False) (Some (Reply (Sw ApduReplyUserRefusal))) (Ready, s')"
  proof cases
    case 1
    then show ?thesis using reviewed_choice review_choice_refuses by metis
  next
    case (2 t)
    obtain s' where "review_choice sdk mem False s = (Reply (Sw ApduReplyUserRefusal), s')" using review_choice_refuses by blast
    then show ?thesis using step.choice [of s sdk mem False _ s'] 2 by (auto simp: on_token_warning_choice_def)
  next
    case (3 t)
    then show ?thesis
      using step.choice [of s sdk mem False "Reply (Sw ApduReplyUserRefusal)" "s\<lparr>G_screen := Status STATUS_TYPE_ADDRESS_REJECTED\<rparr>"]
      by (auto simp: pubkey_review_choice_def)
  qed
qed

lemma waiting_confirms:
  assumes "waiting_ok sdk s" "\<forall>t. G_screen s \<noteq> AddressReview t" "\<not> is_preview_mode (G_command s)" "signature_of sdk (G_command s) bs"
  shows "confirms sdk s bs"
  unfolding confirms_def
proof
  fix mem
  consider "reviewed sdk s" | t where "G_screen s = TokenWarning t" "clear_review sdk s"
    using assms(1,2) by (auto simp: waiting_ok_def address_review_def)
  then show "(\<exists>s'. step sdk (Waiting, s) (Choice mem True) (Some (Reply (Response bs))) (Ready, s'))
     \<or> (\<exists>u s'. step sdk (Waiting, s) (Choice mem True) (Some (Reply Asynchronous)) (Waiting, u)
          \<and> step sdk (Waiting, u) (Choice mem True) (Some (Reply (Response bs))) (Ready, s'))"
  proof cases
    case 1
    then show ?thesis using reviewed_choice review_choice_signs [OF assms(3,4)] by metis
  next
    case (2 t)
    let ?u = "start_message_signing_review s"
    have "step sdk (Waiting, s) (Choice mem True) (Some (Reply Asynchronous)) (Waiting, ?u)"
      using step.choice [of s sdk mem True "Reply Asynchronous" ?u] 2 by (simp add: on_token_warning_choice_def)
    moreover have "G_command ?u = G_command s" by (simp add: start_message_signing_review_def)
    then obtain s' where "review_choice sdk mem True ?u = (Reply (Response bs), s')"
      using review_choice_signs [of ?u sdk bs mem] assms(3,4) by auto
    then have "step sdk (Waiting, ?u) (Choice mem True) (Some (Reply (Response bs))) (Ready, s')"
      using reviewed_choice warning_continues [OF 2] by blast
    ultimately show ?thesis by blast
  qed
qed

text \<open>C5: A device that waits for the user is never stuck. A refusal is answered at once by the status of a refusal; and when
  a message is to be signed and the keys of the device give a signature for it, confirming, once or, after the warning about
  a token, twice, answers that signature.\<close>

theorem user_is_answered:
  assumes "reaches sdk (app_main_start rng b u) tr (Waiting, s)"
  shows "refuses sdk s \<and> (\<forall>bs. (\<forall>t. G_screen s \<noteq> AddressReview t) \<and> \<not> is_preview_mode (G_command s) \<and> signature_of sdk (G_command s) bs
    \<longrightarrow> confirms sdk s bs)"
  using run_ok [OF assms start_no_fingerprint] waiting_refuses waiting_confirms by blast

section \<open>A run\<close>

text \<open>The message of \<open>Sol_Offchain\<close> is sent, reviewed and signed.\<close>

definition sample_device_sdk :: device_sdk where
  "sample_device_sdk = \<lparr>message_buffer_size = 15360, derive_key = sample_point, sign_hash = \<lambda>_ m. Some (replicate 64 (hd m)),
     cx_hash_sha256 = \<lambda>m. m, cx_sha512 = sample_sha512, sdk_swap = sample_swap_sdk, sdk_tlv = sample_tlv_sdk [],
     sdk_trusted_name = sample_trusted_sdk, tlv_use_case_dynamic_descriptor = \<lambda>_. None, app_version = [1, 2, 3]\<rparr>"

definition sample_device :: device where
  "sample_device = \<lparr>N_settings = \<lparr>allow_blind_sign = BlindSignDisabled, pubkey_display = PubkeyDisplayLong,
       display_mode = DisplayModeUser\<rparr>,
     G_command = cleared_command, message_text_start = 0, G_summary = transaction_summary_reset,
     G_review = \<lparr>G_operation_type = TYPE_TRANSACTION, G_transaction_steps_number = 0, G_is_ascii_message = False\<rparr>,
     G_screen = Idle, G_publicKey = [], G_publicKeyStr = [], G_display = \<lparr>title_buffer = [], text_buffer = []\<rparr>,
     G_tokens = zero_env\<lparr>g_trusted_info := None\<rparr>, G_descriptors = None, G_preview_state = None, G_challenge = 0, G_swap_validated = no_swap,
     G_called_from_swap = False, G_swap_response_ready = False\<rparr>"

definition sample_surroundings :: surroundings where
  "sample_surroundings = \<lparr>cx_rng_u32 = 3, allocates = True,
     stack_TUID = \<lparr>tuid_received_tags = [], token_type = 0, tuid_encoded_mint_address = [], extensions = []\<rparr>\<rparr>"

definition sample_apdu :: "u8 \<Rightarrow> u8 list \<Rightarrow> u8 list" where
  "sample_apdu ins m = enc_apdu ins 1 0 (1 # enc_path sample_path @ m)"

lemma sample_path_solana: "solana_path sample_path" by (simp add: solana_path_def sample_path_def)

lemma sample_apdu_received:
  assumes "split_with_path ins" "length m < 200"
  shows "receive_apdu 15360 (sample_apdu ins m) cmd = (Dispatch, command_with ins True sample_path m False)"
proof -
  have "length (enc_path sample_path) < 55" using read_derivation_path_enc(3) [OF sample_path_solana] by (simp add: sample_path_def)
  then show ?thesis
    using receive_first [of ins sample_path m 15360 1 False cmd] assms sample_path_solana by (simp add: sample_apdu_def Sol_Apdu.more_def)
qed

lemma sample_apdu_not_empty: "sample_apdu ins m \<noteq> []"
  by (simp add: sample_apdu_def enc_apdu_def)

lemma sample_hi_short: "length sample_hi = 54"
  by (simp add: sample_hi_def offchain_message_signing_domain_def)

definition sample_start :: device where "sample_start = app_main_start 0 False sample_device"

lemma sample_hi_accepted:
  "offchain_ok sample_point N (command_with InsSignOffchainMessage True sample_path sample_hi False)"
  by (simp add: offchain_ok_def command_with_def sample_hi_parses text_ok_def printable_def signs_as_def sample_point_key
      header_pubkey_def PUBKEY_SIZE_def MAX_OFFCHAIN_MESSAGE_LENGTH_def PACKET_DATA_SIZE_def sample_hi_short)

lemma dispatch_offchain:
  assumes "cmd_instruction (G_command s) = InsSignOffchainMessage"
  shows "dispatch_command sdk env s
    = replying (handle_sign_offchain_message (derive_key sdk) (cx_hash_sha256 sdk) (s\<lparr>G_preview_state := None\<rparr>))"
  using assms by (simp add: dispatch_command_def clear_preview_state_def ins_codes Let_def)

lemma sample_reviewed:
  obtains s1 where "step sample_device_sdk (Ready, sample_start)
      (Command sample_surroundings (sample_apdu InsSignOffchainMessage sample_hi)) (Some (Reply Asynchronous)) (Waiting, s1)"
    "reaches sample_device_sdk sample_start [(sample_start, Command sample_surroundings (sample_apdu InsSignOffchainMessage sample_hi),
       Some (Reply Asynchronous))] (Waiting, s1)"
    "signature_of sample_device_sdk (G_command s1) (replicate 64 255)" "\<not> is_preview_mode (G_command s1)"
    "G_screen s1 = Review ''Review message''"
proof -
  let ?c = "command_with InsSignOffchainMessage True sample_path sample_hi False"
  let ?s = "sample_start\<lparr>G_command := ?c, G_preview_state := None\<rparr>"
  let ?a = "sample_apdu InsSignOffchainMessage sample_hi"
  obtain s1 where s1: "handle_sign_offchain_message sample_point (\<lambda>m. m) ?s = Some (Asynchronous, s1)"
    using sample_hi_accepted [of "N_settings ?s"] offchain_accepted [of sample_point "\<lambda>m. m" ?s] by auto
  have "receive_apdu 15360 ?a (G_command sample_start) = (Dispatch, ?c)"
    by (rule sample_apdu_received) (simp_all add: split_with_path_def sample_hi_short)
  moreover have "cmd_instruction ?c = InsSignOffchainMessage" by (simp add: command_with_def)
  ultimately have "handle_apdu sample_device_sdk sample_surroundings ?a sample_start = Some (Reply Asynchronous, s1)"
    using s1 by (simp add: handle_apdu_def sample_apdu_not_empty sample_device_sdk_def dispatch_offchain replying_def)
  from step.command [OF this] have step: "step sample_device_sdk (Ready, sample_start) (Command sample_surroundings ?a)
      (Some (Reply Asynchronous)) (Waiting, s1)" by simp
  have c: "cmd_message ?c = sample_hi" "derivation_path ?c = sample_path" "\<not> is_preview_mode ?c"
    by (simp_all add: command_with_def)
  from s1 show ?thesis
  proof (rule offchain_reviewed)
    fix h i and q :: Parser
    let ?u = "with_hash (\<lambda>m. m) h q ?s"
    assume "parse_offchain_message_header (cursor 0 (cmd_message (G_command ?s))) = Some (h, q)"
      and r: "review_opened h (printable (buffer q))
       (offchain_items (display_mode (N_settings ?s)) (message_hash (G_command ?u)) h (printable (buffer q)) i) ?u s1"
    then have "printable (buffer q)" using c(1) by (simp add: sample_hi_parses) (auto simp: printable_def)
    then have "G_command s1 = G_command ?u" "G_screen s1 = Review ''Review message''" using opened_review [OF r] by simp_all
    moreover have "signature_of sample_device_sdk (G_command ?u) (replicate 64 255)"
      by (simp add: signature_of_def with_hash_keeps c sample_device_sdk_def)
        (simp add: sample_hi_def offchain_message_signing_domain_def)
    ultimately show ?thesis
      using that [OF step reaches.more [OF reaches.start step]] c(3) by (simp add: with_hash_keeps)
  qed
qed

theorem every_signature_has_consent_witness:
  "\<exists>tr s s'. reaches sample_device_sdk sample_start tr (Waiting, s)
     \<and> step sample_device_sdk (Waiting, s) (Choice True True) (Some (Reply (Response (replicate 64 255)))) (Ready, s')
     \<and> (public_answer sample_device_sdk (s\<lparr>G_command := G_command s'\<rparr>) (replicate 64 255)
         \<or> signature_of sample_device_sdk (G_command s') (replicate 64 255))"
proof -
  obtain s1 where s1: "reaches sample_device_sdk sample_start [(sample_start, Command sample_surroundings (sample_apdu InsSignOffchainMessage sample_hi),
       Some (Reply Asynchronous))] (Waiting, s1)"
    "signature_of sample_device_sdk (G_command s1) (replicate 64 255)" "\<not> is_preview_mode (G_command s1)"
    "G_screen s1 = Review ''Review message''" using sample_reviewed by metis
  have "reviewed sample_device_sdk s1"
    using waiting_review run_ok [OF s1(1)] start_no_fingerprint s1(4) by (simp add: sample_start_def)
  then obtain s' where step: "step sample_device_sdk (Waiting, s1) (Choice True True) (Some (Reply (Response (replicate 64 255)))) (Ready, s')"
    using reviewed_choice review_choice_signs [OF s1(3,2)] by blast
  show ?thesis
    using every_signature_has_consent [OF s1(1) [unfolded sample_start_def] step, of "replicate 64 255"] s1(1) step by blast
qed

theorem user_is_answered_witness:
  "\<exists>tr s. reaches sample_device_sdk sample_start tr (Waiting, s) \<and> refuses sample_device_sdk s
     \<and> confirms sample_device_sdk s (replicate 64 255)"
proof -
  obtain s1 where s1: "reaches sample_device_sdk sample_start [(sample_start, Command sample_surroundings (sample_apdu InsSignOffchainMessage sample_hi),
       Some (Reply Asynchronous))] (Waiting, s1)"
    "signature_of sample_device_sdk (G_command s1) (replicate 64 255)" "\<not> is_preview_mode (G_command s1)"
    "G_screen s1 = Review ''Review message''" using sample_reviewed by metis
  from user_is_answered [OF s1(1) [unfolded sample_start_def]] s1 show ?thesis by (metis screen.distinct(21) screen.simps(36))
qed

end
