(* ===== verification/Sol_Session.thy ===== *)
theory Sol_Session
  imports Sol_Device
begin

text \<open>
  What holds in every session with the device, by the interface of its runs (\<open>run_invariant\<close>): what its state always looks like,
  that a swap signs once, and that a delayed signature is one of the message that was previewed, with a whole run that shows it.
\<close>

section \<open>The state is well formed\<close>

definition tokens_ok :: "device_sdk \<Rightarrow> token_env \<Rightarrow> bool" where
  "tokens_ok sdk env \<longleftrightarrow> trusted_ok (base58_decode (sdk_swap sdk)) (g_trusted_info env)
     \<and> dynamic_ok (base58_decode (sdk_swap sdk)) (g_dynamic_token_info env)"

definition stores_ok :: "device_sdk \<Rightarrow> device \<Rightarrow> bool" where
  "stores_ok sdk s \<longleftrightarrow> tokens_ok sdk (G_tokens s) \<and> (\<forall>G. G_descriptors s = Some G \<longrightarrow> saved_ok G)"

definition device_ok :: "device_sdk \<Rightarrow> device \<Rightarrow> bool" where
  "device_ok sdk s \<longleftrightarrow> command_ok (message_buffer_size sdk) (G_command s) \<and> stores_ok sdk s"

lemma command_ok_core: "core c' = core c \<Longrightarrow> command_ok m c' = command_ok m c"
  by (simp add: core_def command_ok_def)

lemma stores_updates [simp]:
  "stores_ok sdk (t\<lparr>G_summary := S\<rparr>) = stores_ok sdk t" "stores_ok sdk (t\<lparr>G_screen := x\<rparr>) = stores_ok sdk t"
  "stores_ok sdk (t\<lparr>G_display := D\<rparr>) = stores_ok sdk t" "stores_ok sdk (t\<lparr>G_review := R\<rparr>) = stores_ok sdk t"
  "stores_ok sdk (t\<lparr>G_swap_response_ready := b\<rparr>) = stores_ok sdk t" "stores_ok sdk (t\<lparr>G_command := c\<rparr>) = stores_ok sdk t"
  "stores_ok sdk (t\<lparr>G_preview_state := P\<rparr>) = stores_ok sdk t" "stores_ok sdk (t\<lparr>N_settings := N\<rparr>) = stores_ok sdk t"
  "stores_ok sdk (t\<lparr>G_publicKey := k\<rparr>) = stores_ok sdk t" "stores_ok sdk (t\<lparr>G_publicKeyStr := str\<rparr>) = stores_ok sdk t"
  "stores_ok sdk (t\<lparr>message_text_start := n\<rparr>) = stores_ok sdk t" "stores_ok sdk (t\<lparr>G_challenge := ch\<rparr>) = stores_ok sdk t"
  by (simp_all add: stores_ok_def)

lemma stores_reset [simp]:
  "stores_ok sdk t \<Longrightarrow> stores_ok sdk (reset_token_info t)"
  "stores_ok sdk t \<Longrightarrow> stores_ok sdk (t\<lparr>G_descriptors := reset_saved_descriptors G\<rparr>)"
  "stores_ok sdk t \<Longrightarrow> stores_ok sdk (reset_token_info (t\<lparr>G_descriptors := reset_saved_descriptors G\<rparr>))"
  by (simp_all add: stores_ok_def tokens_ok_def reset_token_info_def reset_dynamic_token_info_def reset_trusted_info_def
      reset_saved_descriptors_def trusted_ok_def dynamic_ok_def)

lemma stores_start_review [simp]: "stores_ok sdk (start_sign_message_ui n t) = stores_ok sdk t"
  using start_review_shape [of n t] same_more [of "start_sign_message_ui n t" t] by (simp add: stores_ok_def)

lemma stores_swap_finalize: "swap_finalize sdk t = (r, s') \<Longrightarrow> stores_ok sdk t \<Longrightarrow> stores_ok sdk s'"
  by (auto simp: swap_finalize_def Let_def split: if_splits option.splits)

lemma stores_sign_message_ui: "handle_sign_message_ui sdk t = Some (r, s') \<Longrightarrow> stores_ok sdk t \<Longrightarrow> stores_ok sdk s'"
  by (erule sign_message_ui_cases) (auto dest: stores_swap_finalize)

lemma stores_sign_checked: "sign_message_checked sdk q cfg s = Some (r, s') \<Longrightarrow> stores_ok sdk s \<Longrightarrow> stores_ok sdk s'"
  by (auto simp: sign_message_checked_def start_blind_sign_error_ui_def bind_eq_Some_conv Let_def split: if_splits option.splits
      dest!: stores_swap_finalize stores_sign_message_ui)

lemma stores_parse_message: "handle_sign_message_parse_message sdk s = Some (r, s') \<Longrightarrow> stores_ok sdk s \<Longrightarrow> stores_ok sdk s'"
  by (auto simp: handle_sign_message_parse_message_def split: if_splits option.splits dest: stores_sign_checked)

lemma stores_get_pubkey: "handle_get_pubkey derive s = Some (a, s') \<Longrightarrow> stores_ok sdk s \<Longrightarrow> stores_ok sdk s'"
  by (auto simp: handle_get_pubkey_def ui_get_public_key_def bind_eq_Some_conv Let_def split: if_splits option.splits)

lemma stores_more: "review_state.more s' = review_state.more s \<Longrightarrow> stores_ok sdk s' = stores_ok sdk s"
  using same_more [of s' s] by (simp add: stores_ok_def)

lemma stores_delayed: "handle_sign_message_delayed_internal sdk s = (r, s') \<Longrightarrow> stores_ok sdk s \<Longrightarrow> stores_ok sdk s'"
  by (auto simp: handle_sign_message_delayed_internal_def ui_transaction_modal_def Let_def split: if_splits option.splits)

lemma stores_instruction_descriptor:
  assumes "handle_provide_instruction_descriptor sdk mem s = Some (r, s')" "stores_ok sdk s" "buffers_bounded (sdk_tlv sdk)"
  shows "stores_ok sdk s'"
proof (cases "G_called_from_swap s")
  case True
  let ?run = "handle_provide_instruction_descriptor_internal (sdk_tlv sdk) (env_sdk (G_tokens s)) mem (G_swap_validated s)
    (cmd_message (G_command s)) (G_descriptors s)"
  have run: "?run \<bind> (\<lambda>x. Some (case x of Inl e \<Rightarrow> (SwapError e, s)
      | Inr G \<Rightarrow> (Reply (Sw ApduReplySuccess), s\<lparr>G_descriptors := Some G\<rparr>))) = Some (r, s')"
    using assms(1) True by (simp add: handle_provide_instruction_descriptor_def)
  then obtain x where x: "?run = Some x" by (cases ?run) simp_all
  show ?thesis
  proof (cases x)
    case (Inl e)
    then show ?thesis using run x assms(2) by simp
  next
    case (Inr G)
    then have "saved_ok G"
      using received_descriptor [of "sdk_tlv sdk" "env_sdk (G_tokens s)" mem "G_swap_validated s" "cmd_message (G_command s)"
        "G_descriptors s" G] x assms(2,3) by (auto simp: stores_ok_def)
    then show ?thesis using run x Inr assms(2) by (auto simp: stores_ok_def)
  qed
qed (use assms in \<open>simp add: handle_provide_instruction_descriptor_def\<close>)

lemma stores_provide:
  "provide_trusted_info sdk env s = (r, s') \<Longrightarrow> stores_ok sdk s \<Longrightarrow> stores_ok sdk s'"
  "provide_dynamic_descriptor sdk env s = (r, s') \<Longrightarrow> stores_ok sdk s \<Longrightarrow> stores_ok sdk s'"
  by (auto simp: provide_trusted_info_def provide_dynamic_descriptor_def stores_ok_def tokens_ok_def Let_def split: prod.splits
      dest!: trusted_info_kept dynamic_descriptor_ok)

lemma stores_dispatch:
  assumes "dispatch_command sdk env s = Some (r, s')" "stores_ok sdk s" "buffers_bounded (sdk_tlv sdk)"
  shows "stores_ok sdk s'"
proof (cases "cmd_instruction (G_command s) = InsSignMessageDelayed")
  case True
  then show ?thesis using dispatch_delayed [OF assms(1)] stores_delayed assms(2) by (metis stores_updates(7))
next
  case False
  have u: "stores_ok sdk (s\<lparr>G_preview_state := None\<rparr>)" using assms(2) by simp
  from assms(1) False refl show ?thesis
  proof (cases rule: dispatch_cases)
    case (answered a)
    then show ?thesis using u stores_provide by blast
  next
    case (offchain a)
    then show ?thesis using u stores_more [OF offchain_more [OF offchain(1)]] by simp
  qed (use u stores_get_pubkey stores_parse_message stores_instruction_descriptor assms(3) in \<open>auto\<close>)
qed

lemma command_ok_receive:
  "receive_apdu m apdu cmd = (k, cmd') \<Longrightarrow> command_ok m cmd \<Longrightarrow> command_ok m cmd'"
  using receive_ok [of m cmd apdu] by simp

lemma device_ok_command:
  assumes "handle_apdu sdk env apdu s = Some (r, s')" "device_ok sdk s" "buffers_bounded (sdk_tlv sdk)"
  shows "device_ok sdk s'"
proof (cases "apdu = []")
  case True
  then show ?thesis using assms(1,2) by (simp add: handle_apdu_def)
next
  case False
  obtain k cmd where k: "receive_apdu (message_buffer_size sdk) apdu (G_command s) = (k, cmd)" by fastforce
  then have ok: "device_ok sdk (s\<lparr>G_command := cmd\<rparr>)"
    using assms(2) command_ok_receive by (auto simp: device_ok_def)
  show ?thesis
  proof (cases "k = Dispatch")
    case True
    then have d: "dispatch_command sdk env (s\<lparr>G_command := cmd\<rparr>) = Some (r, s')"
      using assms(1) False k by (simp add: handle_apdu_def)
    then have core: "core (G_command s') = core cmd" using frame_dispatch [OF d] by (simp add: frame_def)
    have "stores_ok sdk s'" by (rule stores_dispatch [OF d _ assms(3)]) (use ok in \<open>simp add: device_ok_def\<close>)
    then show ?thesis using ok command_ok_core [OF core] by (simp add: device_ok_def)
  next
    case False
    then have "s' = s\<lparr>G_command := cmd\<rparr>" using assms(1) \<open>apdu \<noteq> []\<close> k by (cases k) (auto simp: handle_apdu_def)
    then show ?thesis using ok by simp
  qed
qed

lemma device_ok_review_choice:
  assumes "review_choice sdk mem confirm s = (r, s')" "device_ok sdk s"
  shows "device_ok sdk s'"
proof -
  have "G_command s' = G_command s \<and> stores_ok sdk s'"
    using assms by (auto simp: review_choice_def device_ok_def Let_def split: if_splits option.splits) (auto simp: reset_token_info_def)
  then show ?thesis using assms(2) by (simp add: device_ok_def)
qed

lemma device_ok_choice:
  assumes "user_choice scr sdk mem confirm s = Some (r, s')" "device_ok sdk s"
  shows "device_ok sdk s'"
  using assms
  by (cases scr) (auto simp: on_token_warning_choice_def start_message_signing_review_def pubkey_review_choice_def device_ok_def
      split: if_splits dest: device_ok_review_choice [unfolded device_ok_def])

interpretation well_formed: run_invariant sdk "\<lambda>tr p s. buffers_bounded (sdk_tlv sdk) \<longrightarrow> device_ok sdk s" for sdk
proof (unfold_locales, goal_cases)
  case (1 tr p s e r p' s')
  from 1(2) show ?case
  proof (cases rule: step_cases)
    case (command env apdu a)
    then show ?thesis using device_ok_command 1(1) by blast
  next
    case (choice mem confirm a)
    then show ?thesis using device_ok_choice 1(1) by blast
  qed (use 1(1) in \<open>auto simp: device_ok_def\<close>)
qed

lemma session_ok:
  assumes "reaches sdk s0 tr (p, s)" "device_ok sdk s0" "buffers_bounded (sdk_tlv sdk)"
  shows "device_ok sdk s"
  using well_formed.in_every_run [OF assms(1)] assms(2,3) by blast

text \<open>C15: Every state of a session is well typed: the command in memory, if it is one that carries a derivation path, has a Solana
  path and a message that fits the buffer with the zero after it; what is stored about tokens is complete, each key with the
  text it is decoded from; and the descriptors stay in their array.\<close>

theorem session_is_well_formed:
  assumes "reaches sdk (app_main_start rng b u) tr (p, s)" and "buffers_bounded (sdk_tlv sdk)"
    and "g_trusted_info (G_tokens u) = None" "g_dynamic_token_info (G_tokens u) = None" "G_descriptors u = None"
  shows "device_ok sdk s"
proof (rule session_ok [OF assms(1) _ assms(2)])
  show "device_ok sdk (app_main_start rng b u)"
    using assms(3-5)
    by (simp add: device_ok_def stores_ok_def tokens_ok_def trusted_ok_def dynamic_ok_def app_main_start_def reset_getpubkey_globals_def)
qed

section \<open>A swap signs once\<close>

definition swap_signatures :: "run \<Rightarrow> u8 list list" where
  "swap_signatures tr = concat (map (\<lambda>(s, e, r). case r of Some (SwapReply bs) \<Rightarrow> [bs] | _ \<Rightarrow> []) tr)"

lemma swap_signatures_Cons:
  "swap_signatures ((s, e, r) # tr) = (case r of Some (SwapReply bs) \<Rightarrow> [bs] | _ \<Rightarrow> []) @ swap_signatures tr"
  by (simp add: swap_signatures_def)

text \<open>Whatever happens, the application gives at most one signature for a swap, and giving it is its last act.\<close>

interpretation swap_once: run_invariant sdk
  "\<lambda>tr p s. length (swap_signatures tr) \<le> 1 \<and> (swap_signatures tr \<noteq> [] \<longrightarrow> p = Left)" for sdk
proof (unfold_locales, goal_cases)
  case (1 tr p s e r p' s')
  have "p \<noteq> Left" using 1(2) by auto
  then have none: "swap_signatures tr = []" using 1(1) by blast
  have "p' = Left" if "r = Some (SwapReply bs)" for bs
    using 1(2) that by (cases rule: step_cases) auto
  then show ?case using none by (auto simp: swap_signatures_Cons split: option.splits outcome.splits)
qed

theorem swap_signs_once:
  assumes "reaches sdk s0 tr (p, s)"
  shows "length (swap_signatures tr) \<le> 1 \<and> (swap_signatures tr \<noteq> [] \<longrightarrow> p = Left)"
  using assms by (rule swap_once.in_every_run) (simp add: swap_signatures_def)

section \<open>A delayed signature\<close>

lemma command_delayed:
  assumes "handle_apdu sdk env apdu s = Some (Reply (Response bs), s')" "cmd_instruction (G_command s') = InsSignMessageDelayed"
    and "fingerprint_ok sdk tr s"
  shows "signature_of sdk (G_command s') bs \<and> previewed sdk tr s'"
  using assms(1)
proof (cases rule: step_command_cases)
  case (dispatch cmd)
  let ?s = "s\<lparr>G_command := cmd\<rparr>"
  have core: "core (G_command s') = core cmd" using frame_dispatch [OF dispatch(3)] by (simp add: frame_def)
  then have ins: "cmd_instruction (G_command ?s) = InsSignMessageDelayed" using assms(2) by (simp add: core_def)
  obtain s1 where "handle_sign_message_delayed_internal sdk ?s = (Reply (Response bs), s1)"
    using dispatch_delayed [OF dispatch(3) ins] by blast
  from delayed_replies [OF this] obtain P where "signature_of sdk cmd bs" "G_preview_state s = Some P"
    "verify_delayed_message_matches_preview (cx_sha512 sdk) cmd P = ApduReplySuccess" by auto
  then have "signature_of sdk (G_command s') bs" "G_preview_state s = Some P"
    "verify_delayed_message_matches_preview (cx_sha512 sdk) (G_command s') P = ApduReplySuccess"
    using signature_of_core [OF core] verify_core [OF core] by simp_all
  then show ?thesis using assms(2,3) unfolding previewed_def fingerprint_ok_def by blast
qed simp

text \<open>C4: A delayed command is signed only when the user has confirmed, earlier in the session, the review of a preview for the same
  derivation path whose message is the signed one in all but the 32 bytes of its block hash. The hypotheses are that the hash
  unit gives 64 bytes, depends on nothing but the bytes it is fed, and does not collide on the messages that were confirmed.\<close>

theorem delayed_signature_was_previewed:
  assumes "reaches sdk (app_main_start rng b u) tr (p, s)" "step sdk (p, s) (Command env apdu) (Some (Reply (Response bs))) (p', s')"
    and "cmd_instruction (G_command s') = InsSignMessageDelayed"
    and "\<And>c d. cx_sha512 sdk c = Some d \<Longrightarrow> length d = 64"
    and "\<And>c c'. concat c = concat c' \<Longrightarrow> cx_sha512 sdk c = cx_sha512 sdk c'"
    and "\<And>a mem r. (a, Choice mem True, r) \<in> set tr \<Longrightarrow>
        cx_sha512 sdk (zeroed_chunks (cmd_message (G_command a))) = cx_sha512 sdk (zeroed_chunks (cmd_message (G_command s')))
        \<Longrightarrow> concat (zeroed_chunks (cmd_message (G_command a))) = concat (zeroed_chunks (cmd_message (G_command s')))"
  shows "signature_of sdk (G_command s') bs \<and> (\<exists>a mem. (a, Choice mem True, Some (Reply (Sw ApduReplySuccess))) \<in> set tr
    \<and> reviewed sdk a \<and> is_preview_mode (G_command a) \<and> derivation_path (G_command s') = derivation_path (G_command a)
    \<and> same_but_blockhash (cmd_message (G_command a)) (cmd_message (G_command s')))"
proof -
  have "handle_apdu sdk env apdu s = Some (Reply (Response bs), s')" using assms(2) by (cases rule: step_cases) auto
  from command_delayed [OF this assms(3)] run_ok [OF assms(1) start_no_fingerprint]
  have sig: "signature_of sdk (G_command s') bs" and "previewed sdk tr s'" by blast+
  then obtain a mem P where a: "(a, Choice mem True, Some (Reply (Sw ApduReplySuccess))) \<in> set tr" "reviewed sdk a"
    "is_preview_mode (G_command a)" "store_preview_fingerprint (cx_sha512 sdk) mem (G_command a) = Some P"
    "verify_delayed_message_matches_preview (cx_sha512 sdk) (G_command s') P = ApduReplySuccess"
    unfolding previewed_def by blast
  have "derivation_path (G_command s') = derivation_path (G_command a)
    \<and> same_but_blockhash (cmd_message (G_command a)) (cmd_message (G_command s'))"
  proof -
    have "verify_delayed_message_matches_preview (cx_sha512 sdk) (G_command s') P = ApduReplySuccess
        \<longleftrightarrow> derivation_path (G_command s') = derivation_path (G_command a)
          \<and> same_but_blockhash (cmd_message (G_command a)) (cmd_message (G_command s'))"
    proof (rule delayed_previewed [OF a(4)])
      show "length d = 64" if "cx_sha512 sdk c = Some d" for c d using that by (rule assms(4))
      show "cx_sha512 sdk c = cx_sha512 sdk c'" if "concat c = concat c'" for c c' using that by (rule assms(5))
    qed (rule assms(6) [OF a(1)])
    then show ?thesis using a(5) by simp
  qed
  then show ?thesis using sig a(1-3) by blast
qed

section \<open>A run with a preview\<close>

text \<open>A message without instructions, which the device can only sign blindly; \<open>b\<close> fills its block hash.\<close>

definition sample_blind :: "u8 \<Rightarrow> u8 list" where
  "sample_blind b = [1, 0, 0, 1] @ replicate 32 7 @ replicate 32 b @ [0]"

definition sample_preview_sdk :: device_sdk where
  "sample_preview_sdk = sample_device_sdk\<lparr>derive_key := \<lambda>_. Some (4 # replicate 32 0 @ replicate 32 7)\<rparr>"

definition sample_preview_device :: device where
  "sample_preview_device = app_main_start 0 True (sample_device\<lparr>N_settings := \<lparr>allow_blind_sign = BlindSignEnabled,
     pubkey_display = PubkeyDisplayLong, display_mode = DisplayModeUser\<rparr>\<rparr>)"

lemma sample_blind_parses: "parse_message_header (cursor 0 (sample_blind b))
   = Some (\<lparr>versioned = False, version = 0, pubkeys_header = \<lparr>num_required_signatures = 1,
       num_readonly_signed_accounts = 0, num_readonly_unsigned_accounts = 0, pubkeys_length = 1\<rparr>,
     pubkeys = Ptr 4 (replicate 32 7 @ replicate 32 b @ [0]), blockhash = Ptr 36 (replicate 32 b),
     instructions_length = 0\<rparr>, cursor 69 [])"
  by (simp add: sample_blind_def parse_message_header_def parse_version_def check_buffer_length_def
      parse_pubkeys_header_def parse_u8_cases parse_length_compact parse_pubkeys_with_len_def
      parse_hash_def PUBKEY_SIZE_def HASH_SIZE_def Let_def and_80)

lemma sample_blind_facts:
  "length (sample_blind b) = 69" "hd (sample_blind b) = 1" "header_parses (sample_blind b)"
  "zeroed (sample_blind b) = [1, 0, 0, 1] @ replicate 32 7 @ replicate 32 0 @ [0]"
  by (simp_all add: sample_blind_def header_parses_def zeroed_def blockhash_at_def Let_def)

lemma preview_key: "get_public_key (\<lambda>_. Some (4 # replicate 32 0 @ replicate 32 7)) path = Some (replicate 32 7)"
  using get_public_key_bytes [of "\<lambda>_. Some (4 # replicate 32 0 @ replicate 32 7)" path 4 "replicate 32 0" "replicate 32 7"] by simp

lemma sample_blind_received:
  assumes "split_with_path ins"
  shows "receive_apdu (message_buffer_size sample_preview_sdk) (sample_apdu ins (sample_blind b)) cmd
    = (Dispatch, command_with ins True sample_path (sample_blind b) False)"
  using sample_apdu_received [OF assms, of "sample_blind b" cmd] by (simp add: sample_blind_facts sample_preview_sdk_def sample_device_sdk_def)

lemma filled_reset: "filled transaction_summary_reset = []"
  by (simp add: filled_def transaction_summary_reset_def)

text \<open>The preview opens a blind review.\<close>

lemma sample_blind_opens:
  assumes "cmd_instruction (G_command s) = InsSignMessagePreview" "cmd_state (G_command s) = ApduStatePayloadComplete"
    "cmd_message (G_command s) = sample_blind b" "\<not> non_confirm (G_command s)" "G_descriptors s = None" "\<not> G_called_from_swap s"
    "allow_blind_sign (N_settings s) = BlindSignEnabled" "display_mode (N_settings s) = DisplayModeUser"
  shows "\<exists>s'. handle_sign_message_parse_message sample_preview_sdk s = Some (Reply Asynchronous, s')
    \<and> G_screen s' = BlindReview ''Review transaction'' \<and> cmd_message (G_command s') = sample_blind b
    \<and> is_preview_mode (G_command s') = is_preview_mode (G_command s)"
proof -
  obtain h where h: "parse_message_header (cursor 0 (sample_blind b)) = Some (h, cursor 69 [])" "instructions_length h = 0"
    "pubkeys h = Ptr 4 (replicate 32 7 @ replicate 32 b @ [0])" "num_required_signatures (pubkeys_header h) = 1"
    using sample_blind_parses by simp
  have i: "scan_header_for_signer (derive_key sample_preview_sdk) (derivation_path (G_command s)) h = Some 0"
    by (simp add: scan_header_for_signer_def sample_preview_sdk_def preview_key get_pubkey_index_def h header_pubkey_def
        PUBKEY_SIZE_def memcmp_eq_0)
  let ?cfg = "print_config_of s h 0"
  have body: "process_message_body (\<lambda>s. base58_decode (sdk_swap sample_preview_sdk) s PUBKEY_SIZE) (G_tokens s) (cursor 69 []) ?cfg
      transaction_summary_reset = Some (1, transaction_summary_reset)"
    by (simp add: process_message_body_def print_config_of_def h)
  let ?hash = "cx_hash_sha256 sample_preview_sdk (sample_blind b)"
  have auth: "\<not> print_config_show_authority ?cfg (header_pubkey (pubkeys h) 0)"
    by (simp add: print_config_show_authority_def print_config_of_def assms pubkeys_equal_def memcmp_eq_0)
  have "\<exists>T. blind_summary ?hash ?cfg transaction_summary_reset = Some T"
    using auth
    by (simp add: blind_summary_def print_config_of_def transaction_summary_set_blind_signing_def summary_item_set_defs
        transaction_summary_primary_item_def summary_item_as_unused_def write_general_ok num_general filled_reset)
  then obtain T where T: "blind_summary ?hash ?cfg transaction_summary_reset = Some T" by blast
  note shape = blind_summary_shape [OF T]
  then obtain kinds where k: "transaction_summary_finalize T = Some kinds" by (auto simp: finalize_shown)
  let ?t = "s\<lparr>G_display := transaction_summary_reset_display,
    G_command := (G_command s)\<lparr>message_hash := ?hash\<rparr>, G_summary := T\<rparr>"
  have "handle_sign_message_parse_message sample_preview_sdk s = Some (Reply Asynchronous, start_sign_message_ui (length kinds) ?t)"
    using assms h i body T k
    by (simp add: handle_sign_message_parse_message_def sign_message_checked_def instruction_descriptor_received_def
        handle_sign_message_ui_def Let_def)
  moreover have "G_screen (start_sign_message_ui (length kinds) ?t) = BlindReview ''Review transaction''"
    using shape by (simp add: start_sign_message_ui_def init_review_content_def start_blind_signing_ui_def Let_def)
  ultimately show ?thesis using start_review_shape [of "length kinds" ?t] assms(3) by simp
qed

lemma dispatch_preview:
  assumes "cmd_instruction (G_command s) = InsSignMessagePreview" "\<not> G_called_from_swap s"
  shows "dispatch_command sdk env s = handle_sign_message_parse_message sdk
    (s\<lparr>G_preview_state := None, G_command := (G_command s)\<lparr>is_preview_mode := True\<rparr>\<rparr>)"
  using assms by (simp add: dispatch_command_def clear_preview_state_def ins_codes Let_def)

lemma preview_reviewed:
  obtains s1 where "step sample_preview_sdk (Ready, sample_preview_device)
      (Command sample_surroundings (sample_apdu InsSignMessagePreview (sample_blind 9))) (Some (Reply Asynchronous)) (Waiting, s1)"
    "G_screen s1 = BlindReview ''Review transaction''" "cmd_message (G_command s1) = sample_blind 9"
    "is_preview_mode (G_command s1)" "derivation_path (G_command s1) = sample_path" "\<not> G_called_from_swap s1"
proof -
  let ?c = "command_with InsSignMessagePreview True sample_path (sample_blind 9) False"
  let ?d = sample_preview_device
  let ?s = "?d\<lparr>G_preview_state := None, G_command := ?c\<lparr>is_preview_mode := True\<rparr>\<rparr>"
  have c: "cmd_message ?c = sample_blind 9" "derivation_path ?c = sample_path" "cmd_instruction ?c = InsSignMessagePreview"
    "cmd_state ?c = ApduStatePayloadComplete" "\<not> non_confirm ?c"
    by (simp_all add: command_with_def)
  have d: "G_descriptors ?d = None" "\<not> G_called_from_swap ?d" "N_settings ?d = \<lparr>allow_blind_sign = BlindSignEnabled,
     pubkey_display = PubkeyDisplayLong, display_mode = DisplayModeUser\<rparr>"
    by (simp_all add: sample_preview_device_def app_main_start_def reset_getpubkey_globals_def nv_app_state_init_def sample_device_def)
  obtain s1 where s1: "handle_sign_message_parse_message sample_preview_sdk ?s = Some (Reply Asynchronous, s1)"
    "G_screen s1 = BlindReview ''Review transaction''" "cmd_message (G_command s1) = sample_blind 9" "is_preview_mode (G_command s1)"
    using sample_blind_opens [of ?s 9] c d by auto
  have f: "derivation_path (G_command s1) = sample_path" "\<not> G_called_from_swap s1"
    using frame_parse_message [OF s1(1)] c d by (simp_all add: frame_def core_def)
  have "receive_apdu (message_buffer_size sample_preview_sdk) (sample_apdu InsSignMessagePreview (sample_blind 9)) (G_command ?d)
      = (Dispatch, ?c)"
    by (rule sample_blind_received) (simp add: split_with_path_def)
  then have "handle_apdu sample_preview_sdk sample_surroundings (sample_apdu InsSignMessagePreview (sample_blind 9)) ?d
      = Some (Reply Asynchronous, s1)"
    using s1(1) c d by (simp add: handle_apdu_def sample_apdu_not_empty dispatch_preview)
  from step.command [OF this] show ?thesis using that s1 f by simp
qed

lemma sample_sha_length: "sample_sha512 c = Some d \<Longrightarrow> length d = 64"
  by (auto simp: sample_sha512_def Let_def)

lemma sample_sha_concat: "concat c = concat c' \<Longrightarrow> sample_sha512 c = sample_sha512 c'"
  by (simp add: sample_sha512_def)

lemma sample_blind_same:
  "same_but_blockhash (sample_blind b) (sample_blind b')" "concat (zeroed_chunks (sample_blind b)) = concat (zeroed_chunks (sample_blind b'))"
  by (simp_all add: concat_zeroed_chunks sample_blind_facts(4))
    (simp add: same_but_blockhash_def sample_blind_def blockhash_at_def Let_def)

lemma preview_sdk_hash: "cx_sha512 sample_preview_sdk = sample_sha512"
  by (simp add: sample_preview_sdk_def sample_device_sdk_def)

text \<open>The delayed command is signed when the fingerprint of the same message with another block hash is stored.\<close>

lemma sample_delayed:
  assumes "G_preview_state s = Some P" "store_preview_fingerprint sample_sha512 mem A = Some P" "cmd_message A = sample_blind 9"
    "derivation_path A = sample_path" "\<not> G_called_from_swap s"
  shows "\<exists>s'. step sample_preview_sdk (Ready, s) (Command sample_surroundings (sample_apdu InsSignMessageDelayed (sample_blind 5)))
      (Some (Reply (Response (replicate 64 1)))) (Ready, s') \<and> cmd_message (G_command s') = sample_blind 5
    \<and> cmd_instruction (G_command s') = InsSignMessageDelayed"
proof -
  let ?c = "command_with InsSignMessageDelayed True sample_path (sample_blind 5) False"
  let ?s = "s\<lparr>G_command := ?c\<rparr>"
  let ?a = "sample_apdu InsSignMessageDelayed (sample_blind 5)"
  have c: "cmd_message ?c = sample_blind 5" "derivation_path ?c = sample_path" "cmd_instruction ?c = InsSignMessageDelayed"
    "cmd_state ?c = ApduStatePayloadComplete"
    by (simp_all add: command_with_def)
  have v: "verify_delayed_message_matches_preview sample_sha512 ?c P = ApduReplySuccess"
  proof -
    have "verify_delayed_message_matches_preview sample_sha512 ?c P = ApduReplySuccess
        \<longleftrightarrow> derivation_path ?c = derivation_path A \<and> same_but_blockhash (cmd_message A) (cmd_message ?c)"
    proof (rule delayed_previewed [OF assms(2)])
      show "length d = 64" if "sample_sha512 x = Some d" for x d using that by (rule sample_sha_length)
      show "sample_sha512 x = sample_sha512 y" if "concat x = concat y" for x y using that by (rule sample_sha_concat)
    qed (use sample_blind_same(2) [of 9 5] assms(3) c in simp)
    then show ?thesis using sample_blind_same(1) [of 9 5] assms(3,4) c by simp
  qed
  have i: "pv_initialized P" using assms(2) by (auto simp: store_preview_fingerprint_def bind_eq_Some_conv split: if_splits)
  have sig: "set_result_sign_message (sign_hash sample_preview_sdk) ?c = Some (replicate 64 1)"
    by (simp add: set_result_sign_message_def sample_preview_sdk_def sample_device_sdk_def c sample_blind_facts)
  have "dispatch_command sample_preview_sdk sample_surroundings ?s = Some (handle_sign_message_delayed sample_preview_sdk ?s)"
    using c by (simp add: dispatch_command_def ins_codes Let_def)
  moreover have "handle_sign_message_delayed sample_preview_sdk ?s
      = (Reply (Response (replicate 64 1)), (ui_transaction_modal True ?s)\<lparr>G_preview_state := None\<rparr>)"
    using assms(1,5) c v i sig
    by (simp add: handle_sign_message_delayed_def handle_sign_message_delayed_internal_def preview_sdk_hash clear_preview_state_def)
  moreover have "receive_apdu (message_buffer_size sample_preview_sdk) ?a (G_command s) = (Dispatch, ?c)"
    by (rule sample_blind_received) (simp add: split_with_path_def)
  ultimately have "handle_apdu sample_preview_sdk sample_surroundings ?a s
      = Some (Reply (Response (replicate 64 1)), (ui_transaction_modal True ?s)\<lparr>G_preview_state := None\<rparr>)"
    by (simp add: handle_apdu_def sample_apdu_not_empty)
  from step.command [OF this] show ?thesis using c by (auto simp: ui_transaction_modal_def)
qed

theorem delayed_signature_was_previewed_witness:
  "\<exists>tr s s'. reaches sample_preview_sdk sample_preview_device tr (Ready, s)
     \<and> step sample_preview_sdk (Ready, s) (Command sample_surroundings (sample_apdu InsSignMessageDelayed (sample_blind 5)))
          (Some (Reply (Response (replicate 64 1)))) (Ready, s')
     \<and> (\<exists>a mem. (a, Choice mem True, Some (Reply (Sw ApduReplySuccess))) \<in> set tr
          \<and> same_but_blockhash (cmd_message (G_command a)) (sample_blind 5))"
proof -
  let ?sdk = sample_preview_sdk
  obtain s1 where s1: "step ?sdk (Ready, sample_preview_device)
      (Command sample_surroundings (sample_apdu InsSignMessagePreview (sample_blind 9))) (Some (Reply Asynchronous)) (Waiting, s1)"
    "G_screen s1 = BlindReview ''Review transaction''" "cmd_message (G_command s1) = sample_blind 9"
    "is_preview_mode (G_command s1)" "derivation_path (G_command s1) = sample_path" "\<not> G_called_from_swap s1"
    by (rule preview_reviewed)
  obtain P where P: "store_preview_fingerprint sample_sha512 True (G_command s1) = Some P"
    by (simp add: store_preview_fingerprint_def hash_message s1(3) sample_blind_facts sample_sha512_def Let_def)
  let ?s2 = "(reset_token_info s1)\<lparr>G_preview_state := Some P, G_screen := Spinner\<rparr>"
  have "user_choice (G_screen s1) ?sdk True True s1 = Some (Reply (Sw ApduReplySuccess), ?s2)"
    using s1(2,4) P by (simp add: review_choice_def reset_token_info_def preview_sdk_hash Let_def)
  from step.choice [OF this] have step2: "step ?sdk (Waiting, s1) (Choice True True) (Some (Reply (Sw ApduReplySuccess))) (Ready, ?s2)"
    by simp
  let ?tr = "[(s1, Choice True True, Some (Reply (Sw ApduReplySuccess))),
    (sample_preview_device, Command sample_surroundings (sample_apdu InsSignMessagePreview (sample_blind 9)), Some (Reply Asynchronous))]"
  have run: "reaches ?sdk sample_preview_device ?tr (Ready, ?s2)"
    by (rule reaches.more [OF reaches.more [OF reaches.start s1(1)] step2])
  obtain s3 where s3: "step ?sdk (Ready, ?s2) (Command sample_surroundings (sample_apdu InsSignMessageDelayed (sample_blind 5)))
      (Some (Reply (Response (replicate 64 1)))) (Ready, s3)" "cmd_message (G_command s3) = sample_blind 5"
    "cmd_instruction (G_command s3) = InsSignMessageDelayed"
    using sample_delayed [of ?s2 P True "G_command s1"] P s1 by (auto simp: reset_token_info_def)
  have nc: "concat (zeroed_chunks (cmd_message (G_command a))) = concat (zeroed_chunks (cmd_message (G_command s3)))"
    if "(a, Choice mem True, r) \<in> set ?tr" for a mem r
    using that s1(3) s3(2) sample_blind_same(2) [of 9 5] by auto
  let ?u = "sample_device\<lparr>N_settings := \<lparr>allow_blind_sign = BlindSignEnabled, pubkey_display = PubkeyDisplayLong,
     display_mode = DisplayModeUser\<rparr>\<rparr>"
  have run': "reaches ?sdk (app_main_start 0 True ?u) ?tr (Ready, ?s2)"
    using run by (simp only: sample_preview_device_def)
  have "signature_of ?sdk (G_command s3) (replicate 64 1)
    \<and> (\<exists>a mem. (a, Choice mem True, Some (Reply (Sw ApduReplySuccess))) \<in> set ?tr
      \<and> reviewed ?sdk a \<and> is_preview_mode (G_command a) \<and> derivation_path (G_command s3) = derivation_path (G_command a)
      \<and> same_but_blockhash (cmd_message (G_command a)) (cmd_message (G_command s3)))"
  proof (rule delayed_signature_was_previewed [OF run' s3(1,3)])
    show "length d = 64" if "cx_sha512 ?sdk x = Some d" for x d using that unfolding preview_sdk_hash by (rule sample_sha_length)
    show "cx_sha512 ?sdk x = cx_sha512 ?sdk y" if "concat x = concat y" for x y using that unfolding preview_sdk_hash by (intro sample_sha_concat)
  qed (rule nc)
  then have same: "\<exists>a mem. (a, Choice mem True, Some (Reply (Sw ApduReplySuccess))) \<in> set ?tr
      \<and> same_but_blockhash (cmd_message (G_command a)) (sample_blind 5)" unfolding s3(2) by blast
  show ?thesis by (intro exI [of _ ?tr] exI [of _ ?s2] exI [of _ s3] conjI run s3(1) same)
qed

section \<open>Other runs\<close>

theorem session_is_well_formed_witness:
  "\<exists>tr s. tr \<noteq> [] \<and> reaches sample_device_sdk sample_start tr (Waiting, s) \<and> device_ok sample_device_sdk s"
proof -
  obtain s1 where s1: "reaches sample_device_sdk sample_start [(sample_start, Command sample_surroundings (sample_apdu InsSignOffchainMessage sample_hi),
       Some (Reply Asynchronous))] (Waiting, s1)" using sample_reviewed by metis
  have "device_ok sample_device_sdk s1"
    by (rule session_is_well_formed [OF s1 [unfolded sample_start_def]])
      (simp_all add: sample_device_def zero_env_def sample_sdk_def sample_env_def buffers_bounded_def sample_device_sdk_def
        sample_tlv_sdk_def)
  then show ?thesis using s1 by blast
qed

end
