(* ===== verification/Spec2Isabelle.thy ===== *)
theory Spec2Isabelle
  imports Sol_Session Sol_Rfc3339
begin

text \<open>
  A verification library for the Ledger application for Solana with AgenC clear signing.

  \<^bold>\<open>The program.\<close> The application receives commands (APDUs) from a host over the transport of the device. The commands that matter
  carry a derivation path and a message: a Solana transaction, or an off-chain text. The application decides whether it understands the
  message; if it does, it shows a summary of it and signs it when the user confirms; if it does not, it refuses or, when the user has
  enabled it, offers to sign blindly. Two detours avoid a screen or split it in time: in a swap the Exchange application has already
  shown the amounts and the message must be what it showed, and a delayed signature is given for a message that was previewed with
  another block hash. The C code is in two layers: \<open>libsol/\<close> parses a message and fills a summary of items, without any input or
  output; \<open>src/\<close> holds the commands, the screens, the swap library and the global state.

  \<^bold>\<open>The model.\<close> A C function is a HOL function of the same name. Machine integers keep their width (\<open>u8\<close> to \<open>u64\<close>,
  \<open>i64\<close>); lengths that C keeps in a \<open>size_t\<close> are natural numbers where they are bounded by the size of a received message. A pointer into
  the message is the address of its first byte with the bytes that follow (\<open>byte_ptr\<close>), a buffer with its cursor is a \<open>Parser\<close>. A parser
  returns \<open>None\<close> for a non-zero status, else the value and the advanced cursor. A printer takes and returns the summary; its result is
  \<open>None\<close> where C would write through a null pointer or outside an array, else the status and the summary, so that an error path keeps
  what it has already written. Static variables are arguments and results; the records \<open>review_state\<close>, \<open>pubkey_state\<close> and
  \<open>device\<close> collect them for the handlers of commands. \<open>send_swap_error\<close>, which leaves the application, is a value \<open>Inl\<close>.

  \<^bold>\<open>The theories\<close>, in the order of the layers:

    \<^item> \<open>Sol_Prelude\<close>: integers, pointers, status codes, the collections of facts and shared lemmas.
    \<^item> \<open>Sol_Parser\<close> (\<open>libsol/parser.c\<close>): every reader. The locales \<open>wire_reader\<close> (a reader only moves forward within its
      buffer), \<open>wire_codec\<close> (it reads back what an encoder writes) and \<open>wire_exact\<close> (it accepts nothing else) are interpreted for the
      readers of the file and for those of the instructions. A header that parses is consistent; headers round trip.
    \<^item> \<open>Sol_Summary\<close>, \<open>Sol_Display\<close> (\<open>libsol/transaction_summary.c\<close>, \<open>print_config.c\<close>): the items, their order, their
      text. The locale \<open>printer\<close> is the contract of every printer, never to touch an item that is filled nor to overflow; each printer of a
      program is an interpretation. The text of an item identifies its value, but for the middle of a key in the mode that shortens keys.
    \<^item> \<open>Sol_Printer\<close>, \<open>Sol_Rfc3339\<close> (\<open>libsol/printer.c\<close>, \<open>rfc3339.c\<close>): amounts, base 58, integers and dates as text,
      against reference definitions (values of digit lists, the Gregorian calendar).
    \<^item> \<open>Sol_Accounts\<close>, \<open>Sol_Program_Ids\<close>, \<open>Sol_System\<close>, \<open>Sol_Stake\<close>, \<open>Sol_Vote\<close>, \<open>Sol_Compute_Budget\<close>,
      \<open>Sol_Token_Account\<close>, \<open>Sol_Spl_Token\<close>, \<open>Sol_Agenc\<close>: one program each, \<open>libsol/*_instruction.c\<close>: the
      parsers of its instructions and the printers of their screens. For AgenC: parsing fails closed, the screen of each of the ten
      instructions is given item by item, and an artifact hash is decoded from exactly one text.
    \<^item> \<open>Sol_Trusted\<close> (\<open>libsol/token_info.c\<close>, \<open>src/trusted_info.c\<close>, \<open>dynamic_token_info.c\<close>,
      \<open>ed25519_helpers.c\<close>): the registry of tokens, the trusted description of a recipient, the derivation of token accounts.
    \<^item> \<open>Sol_Instruction\<close>, \<open>Sol_Transaction_Printers\<close>, \<open>Sol_Message\<close> (\<open>libsol/instruction.c\<close>,
      \<open>transaction_printers.c\<close>, \<open>message.c\<close>): the union of the instructions, the patterns of a transaction and the loop over
      a message. Acceptance is characterised as a grammar of the bytes, only known patterns are displayed, and a displayed transaction
      always has its first item.
    \<^item> \<open>Sol_Apdu\<close> (\<open>src/apdu.c\<close>, \<open>utils.c\<close>): a command and its chunks; only Solana paths are dispatched.
    \<^item> \<open>Sol_Swap\<close>, \<open>Sol_Descriptor\<close> (\<open>src/swap/\<close>, \<open>src/handle_sign_message.c\<close>,
      \<open>handle_provide_instruction_descriptor.c\<close>, \<open>libsol/safe_math.c\<close>): what a swap validated, the check of a summary against it, and the
      descriptors of a crosschain swap. What is signed without a screen is what was validated.
    \<^item> \<open>Sol_Provide\<close> (\<open>src/handle_provide_trusted_info.c\<close>, \<open>handle_provide_dynamic_descriptor.c\<close>,
      \<open>handle_get_challenge.c\<close>): what a host may tell the device about tokens, and the challenge it must answer.
    \<^item> \<open>Sol_Preview\<close> (\<open>src/handle_sign_message_preview.c\<close>): the fingerprint of a message without its block hash.
    \<^item> \<open>Sol_Utf8\<close>, \<open>Sol_Offchain\<close> (\<open>libsol/string_utils.c\<close>, \<open>src/handle_sign_offchain_message.c\<close>): which texts
      are put to the user, and that the review shows them to the last byte.
    \<^item> \<open>Sol_Ui\<close>, \<open>Sol_Keys\<close>, \<open>Sol_Menu\<close> (\<open>src/ui/\<close>, \<open>src/handle_get_pubkey.c\<close>): which review is
      opened, the pairs it shows, the address of a key and the settings.
    \<^item> \<open>Sol_Device\<close> (\<open>src/main_application.c\<close> and the handlers): all the state together, one command, one choice of the user,
      and the device as an inductive step relation with its runs. The locale \<open>run_invariant\<close> is the interface between the steps and
      the runs; what a waiting device shows, the typing of the state and the single signature of a swap are its interpretations.
      \<open>Sol_Session\<close>: what holds in every run.

  \<^bold>\<open>How the parts interact.\<close> \<open>handle_apdu\<close> assembles a command (\<open>receive_apdu\<close>) and dispatches it. The sign commands parse the
  header, look for the signer, and call \<open>process_message_body\<close>, whose loop parses each instruction with its program, keeps those that
  are displayed, and prints their pattern into the summary. \<open>handle_sign_message_ui\<close> then opens a review, or in a swap checks the
  summary and signs. The reviews end in \<open>review_choice\<close>, the only place that signs for the user, stores a preview, or refuses. Token
  descriptors and trusted information are global state that one command leaves for a later one and that a review consumes.

  \<^bold>\<open>What the theorems show.\<close> From the bytes to the screen: what is accepted, what the items are, that a text identifies a value. From the screen to the
  signature: whatever the host sends, bytes leave the device only as a public answer, after the user has confirmed the review of the message that
  was received, after a preview of the same message was confirmed, or in a swap that was validated; a user who waits is answered by
  either choice; every state of a run is well typed. The behaviours that are wrong or surprising in the code are theorems too: a versioned message in a
  crosschain swap, a transaction that fills the summary, accounts that the screens of three patterns leave out, a hash whose storage has gone, dates that alias, an endless loop of the
  debug build.

  \<^bold>\<open>Bounds and termination.\<close> All recursion is structural or has a termination proof, but for the loop over the accounts that the debug
  build prints: its 8-bit counter can wrap, so it is a \<open>partial_function\<close>, and it returns exactly below 256 accounts. The general items
  are 11 and the instructions of a message at most 6, as in the code. The date theorem holds from year 1 to the end of 9999, the range of the
  four digits. No fuel is used.

  \<^bold>\<open>Parameters.\<close> The SDK of the device is not in the repository and enters as arguments (\<open>device_sdk\<close>, \<open>crypto_sdk\<close>, \<open>swap_sdk\<close>,
  \<open>tlv_sdk\<close>, \<open>trusted_name_sdk\<close>): derivation of keys and signatures, SHA-256 and SHA-512, the test for points on the curve, base 58 decoding, TLV
  reading with its signature check, the parser of coin configurations, random numbers, and whether an allocation succeeds. The theorems name what they need of
  it: digests of 64 bytes that depend on the bytes fed and do not collide on the confirmed messages, a public key given as a point of 65 bytes. The step
  relation assumes of the transport that no command is delivered while the answer to the last one is pending, which is how the SDK works.

  \<^bold>\<open>Not modelled.\<close> The graphics library (layout, icons, confirmation texts, sounds), the event loop below \<open>io_recv_command\<close>, the memory
  pool of \<open>src/mem_utils.c\<close>, log output, the fuzzing harness, the tests and their stand-ins (\<open>libsol/mock/\<close>). Overflow of the
  lengths in a \<open>size_t\<close> is not reachable for a message that fits the buffer of a command and is not modelled, but for the one product with
  a constant, the compute units of a transaction without a unit limit, which is taken at the 32 bits of the device; addresses matter only as
  differences and for equality.
\<close>

end
